(* ===== verification/Hades_Prelude.thy ===== *)
theory Hades_Prelude
  imports Main "HOL-Library.State_Monad"
begin

text \<open>
  Shared vocabulary of the development: the fragment of Go's \<open>strings\<close> package
  that the registry uses, the error values that travel between storage, handlers and the wire,
  the shape of a fallible stateful call, and the row-update combinator that models an SQL
  \<open>UPDATE ... WHERE\<close> with its affected-row count.

  Strings are byte strings.  The functions that Go defines on runes (\<open>ToLower\<close>,
  \<open>TrimSpace\<close>) are modelled on ASCII, the character set of every identifier, header and
  token the modelled code compares.
\<close>

named_theorems go_string \<open>unfolding rules for the string helpers\<close>
named_theorems table_simps \<open>facts about SQL row updates\<close>
named_theorems run_defs \<open>definitions unfolded when a stateful call is run\<close>

section \<open>Strings\<close>

definition HasPrefix :: "string \<Rightarrow> string \<Rightarrow> bool" where
  "HasPrefix s p = (take (length p) s = p)"

definition HasSuffix :: "string \<Rightarrow> string \<Rightarrow> bool" where
  "HasSuffix s p = (length p \<le> length s \<and> drop (length s - length p) s = p)"

definition CutSuffix :: "string \<Rightarrow> string \<Rightarrow> string \<times> bool" where
  "CutSuffix s p = (if HasSuffix s p then (take (length s - length p) s, True) else (s, False))"

text \<open>\<open>strings.Cut\<close> around a one-byte separator: the text before it, the text after it, and
  whether it was found.\<close>

definition Cut :: "string \<Rightarrow> char \<Rightarrow> string \<times> string \<times> bool" where
  "Cut s c = (if c \<in> set s
     then (takeWhile (\<lambda>x. x \<noteq> c) s, drop 1 (dropWhile (\<lambda>x. x \<noteq> c) s), True)
     else (s, [], False))"

text \<open>\<open>strings.Split\<close> on a one-byte separator.\<close>

fun Split :: "string \<Rightarrow> char \<Rightarrow> string list" where
  "Split [] c = [[]]"
| "Split (x # xs) c =
     (if x = c then [] # Split xs c
      else case Split xs c of [] \<Rightarrow> [[x]] | y # ys \<Rightarrow> (x # y) # ys)"

text \<open>\<open>strings.SplitN\<close> on a one-byte separator, for a positive limit.\<close>

fun SplitN :: "string \<Rightarrow> char \<Rightarrow> nat \<Rightarrow> string list" where
  "SplitN s c 0 = []"
| "SplitN s c (Suc 0) = [s]"
| "SplitN s c (Suc (Suc n)) =
     (case Cut s c of (a, b, found) \<Rightarrow> if found then a # SplitN b c (Suc n) else [s])"

definition is_upper :: "char \<Rightarrow> bool" where
  "is_upper c = (65 \<le> (of_char c :: nat) \<and> (of_char c :: nat) \<le> 90)"

definition lower_char :: "char \<Rightarrow> char" where
  "lower_char c = (if is_upper c then char_of ((of_char c :: nat) + 32) else c)"

definition ToLower :: "string \<Rightarrow> string" where
  "ToLower s = map lower_char s"

definition is_space :: "char \<Rightarrow> bool" where
  "is_space c = ((of_char c :: nat) = 32 \<or> 9 \<le> (of_char c :: nat) \<and> (of_char c :: nat) \<le> 13)"

definition TrimSpace :: "string \<Rightarrow> string" where
  "TrimSpace s = rev (dropWhile is_space (rev (dropWhile is_space s)))"

definition Contains :: "string \<Rightarrow> char \<Rightarrow> bool" where
  "Contains s c = (c \<in> set s)"

fun Join :: "string list \<Rightarrow> string \<Rightarrow> string" where
  "Join [] sep = []"
| "Join [x] sep = x"
| "Join (x # y # ys) sep = x @ sep @ Join (y # ys) sep"

subsection \<open>Facts about the string helpers\<close>

lemma HasPrefix_iff [go_string]: "HasPrefix s p \<longleftrightarrow> (\<exists>t. s = p @ t)"
  unfolding HasPrefix_def by (metis append_eq_conv_conj append_take_drop_id)

lemma HasPrefix_append [simp]: "HasPrefix (p @ t) p"
  by (simp add: HasPrefix_def)

lemma HasSuffix_iff [go_string]: "HasSuffix s p \<longleftrightarrow> (\<exists>t. s = t @ p)"
proof
  assume "HasSuffix s p"
  then have "s = take (length s - length p) s @ p"
    by (metis HasSuffix_def append_take_drop_id)
  then show "\<exists>t. s = t @ p" ..
next
  assume "\<exists>t. s = t @ p"
  then show "HasSuffix s p" by (auto simp: HasSuffix_def)
qed

lemma HasSuffix_append [simp]: "HasSuffix (t @ p) p"
  by (auto simp: HasSuffix_iff)

lemma CutSuffix_append [simp]: "CutSuffix (t @ p) p = (t, True)"
  by (simp add: CutSuffix_def)

lemma CutSuffix_True_iff: "CutSuffix s p = (t, True) \<longleftrightarrow> s = t @ p"
  by (auto simp: CutSuffix_def HasSuffix_iff)

lemma take_drop_while_sep:
  "c \<notin> set a \<Longrightarrow> takeWhile (\<lambda>x. x \<noteq> c) (a @ c # b) = a \<and>
     dropWhile (\<lambda>x. x \<noteq> c) (a @ c # b) = c # b"
  by (induction a) auto

lemma Cut_append [simp]: "c \<notin> set a \<Longrightarrow> Cut (a @ c # b) c = (a, b, True)"
  by (simp add: Cut_def take_drop_while_sep)

lemma Cut_TrueD:
  assumes "Cut s c = (a, b, True)"
  shows "s = a @ c # b \<and> c \<notin> set a"
proof -
  from assms have "c \<in> set s" by (auto simp: Cut_def split: if_splits)
  then obtain u v where "s = u @ c # v" and "c \<notin> set u"
    by (meson split_list_first)
  with assms show ?thesis by simp
qed

lemma Cut_FalseD: "Cut s c = (a, b, False) \<Longrightarrow> a = s \<and> b = [] \<and> c \<notin> set s"
  by (auto simp: Cut_def split: if_splits)

lemma Cut_not_found [simp]: "c \<notin> set s \<Longrightarrow> Cut s c = (s, [], False)"
  by (simp add: Cut_def)

lemma sep_inj:
  "c \<notin> set a \<Longrightarrow> c \<notin> set a' \<Longrightarrow> a @ c # b = a' @ c # b' \<longleftrightarrow> a = a' \<and> b = b'"
proof (induction a arbitrary: a')
  case Nil
  then show ?case by (cases a') auto
next
  case (Cons x xs)
  then show ?case by (cases a') auto
qed

lemma Split_nonempty [simp]: "Split s c \<noteq> []"
  by (induction s) (auto split: list.splits)

lemma Split_no_sep: "seg \<in> set (Split s c) \<Longrightarrow> c \<notin> set seg"
proof (induction s arbitrary: seg)
  case Nil
  then show ?case by simp
next
  case (Cons x xs)
  then show ?case
    by (cases "Split xs c") (auto split: if_splits)
qed

lemma Split_Join: "Join (Split s c) [c] = s"
proof (induction s)
  case Nil
  then show ?case by simp
next
  case (Cons x xs)
  then show ?case
  proof (cases "Split xs c")
    case Nil
    then show ?thesis by simp
  next
    case (Cons y ys)
    with Cons.IH show ?thesis by (cases ys) auto
  qed
qed

lemma Split_single: "c \<notin> set s \<Longrightarrow> Split s c = [s]"
  by (induction s) auto

lemma Split_append: "c \<notin> set s \<Longrightarrow> Split (s @ c # t) c = s # Split t c"
  by (induction s) auto

lemma Split_of_Join:
  "xs \<noteq> [] \<Longrightarrow> (\<forall>x \<in> set xs. c \<notin> set x) \<Longrightarrow> Split (Join xs [c]) c = xs"
proof (induction xs)
  case Nil
  then show ?case by simp
next
  case (Cons x xs)
  then show ?case
    by (cases xs) (auto simp: Split_single Split_append)
qed

lemma Join_empty_iff: "Join xs [c] = [] \<longleftrightarrow> xs = [] \<or> xs = [[]]"
  by (cases xs rule: list.exhaust; cases "tl xs") auto

lemma Join_append: "xs \<noteq> [] \<Longrightarrow> ys \<noteq> [] \<Longrightarrow> Join (xs @ ys) sep = Join xs sep @ sep @ Join ys sep"
  by (induction xs sep rule: Join.induct) (auto simp: neq_Nil_conv)

lemma ToLower_append [simp]: "ToLower (a @ b) = ToLower a @ ToLower b"
  by (simp add: ToLower_def)

lemma lower_char_id: "\<not> is_upper c \<Longrightarrow> lower_char c = c"
  by (simp add: lower_char_def)

lemma ToLower_id: "(\<forall>c \<in> set s. \<not> is_upper c) \<Longrightarrow> ToLower s = s"
  by (induction s) (auto simp: ToLower_def lower_char_id)

lemma TrimSpace_id: "(\<forall>c \<in> set s. \<not> is_space c) \<Longrightarrow> TrimSpace s = s"
proof -
  assume h: "\<forall>c \<in> set s. \<not> is_space c"
  have id: "dropWhile is_space t = t" if "\<forall>c \<in> set t. \<not> is_space c" for t
    using that by (cases t) auto
  from h have "dropWhile is_space s = s" and "dropWhile is_space (rev s) = rev s"
    by (auto intro: id)
  then show ?thesis by (simp add: TrimSpace_def)
qed

section \<open>Time, identifiers and errors\<close>

text \<open>An instant or a duration in nanoseconds, as \<open>time.Time.UnixNano\<close> and
  \<open>time.Duration\<close> count them.  A \<open>uuid.UUID\<close> is represented by the text its
  \<open>String\<close> method renders.\<close>

type_synonym time = int
type_synonym uuid = string

abbreviation Second :: time where "Second \<equiv> 1000000000"
abbreviation Minute :: time where "Minute \<equiv> 60 * Second"
abbreviation Hour :: time where "Hour \<equiv> 60 * Minute"

text \<open>The Connect status codes of \<open>connectrpc.com/connect\<close> that the server raises.\<close>

datatype code =
    CodeCanceled | CodeInvalidArgument | CodeDeadlineExceeded | CodeNotFound
  | CodeAlreadyExists | CodePermissionDenied | CodeResourceExhausted
  | CodeFailedPrecondition | CodeAborted | CodeUnimplemented | CodeInternal
  | CodeUnavailable | CodeUnauthenticated

text \<open>Error values.  Wrapping with \<open>fmt.Errorf("...%w")\<close> keeps \<open>errors.Is\<close> and
  \<open>errors.As\<close>, so a wrapped error is represented by what it wraps.\<close>

datatype err =
    ConnErr code string        \<comment> \<open>\<open>*connect.Error\<close>\<close>
  | ErrNoRows                  \<comment> \<open>\<open>sql.ErrNoRows\<close>, \<open>pgx.ErrNoRows\<close>\<close>
  | ErrNotFound                \<comment> \<open>\<open>connerr.ErrNotFound\<close> and the sentinels that wrap it\<close>
  | PgErr string string        \<comment> \<open>\<open>*pgconn.PgError\<close>: its SQLSTATE and its message\<close>
  | SqliteErr int string       \<comment> \<open>\<open>*sqlite.Error\<close>: its extended result code and its message\<close>
  | CtxCanceled | CtxDeadline  \<comment> \<open>\<open>context.Canceled\<close>, \<open>context.DeadlineExceeded\<close>\<close>
  | Sentinel string            \<comment> \<open>a package's own sentinel error\<close>
  | OtherErr string            \<comment> \<open>any other error\<close>

type_synonym 'a res = "err + 'a"

text \<open>\<open>connect.CodeOf\<close> is only asked about Connect errors by the modelled code; for any other
  error it answers \<open>CodeUnknown\<close>, which no comparison mentions.\<close>

fun code_of :: "err \<Rightarrow> code option" where
  "code_of (ConnErr c m) = Some c"
| "code_of _ = None"

section \<open>SQL updates\<close>

text \<open>\<open>UPDATE t SET f WHERE p\<close>, and the number of rows it affected.\<close>

definition update_where :: "('r \<Rightarrow> bool) \<Rightarrow> ('r \<Rightarrow> 'r) \<Rightarrow> 'r list \<Rightarrow> 'r list" where
  "update_where p f t = map (\<lambda>r. if p r then f r else r) t"

definition affected :: "('r \<Rightarrow> bool) \<Rightarrow> 'r list \<Rightarrow> nat" where
  "affected p t = length (filter p t)"

lemma update_where_Nil [simp]: "update_where p f [] = []"
  by (simp add: update_where_def)

lemma update_where_Cons [simp]:
  "update_where p f (r # t) = (if p r then f r else r) # update_where p f t"
  by (simp add: update_where_def)

lemma length_update_where [simp]: "length (update_where p f t) = length t"
  by (simp add: update_where_def)

lemma set_update_where: "set (update_where p f t) = (\<lambda>r. if p r then f r else r) ` set t"
  by (simp add: update_where_def)

lemma in_update_where: "x' \<in> set (update_where p f t) \<Longrightarrow> \<exists>x \<in> set t. x' = (if p x then f x else x)"
  by (auto simp: update_where_def)

lemma affected_0_iff [simp]: "affected p t = 0 \<longleftrightarrow> (\<forall>r \<in> set t. \<not> p r)"
  by (simp add: affected_def filter_empty_conv)

lemma update_where_idle: "(\<forall>r \<in> set t. \<not> p r) \<Longrightarrow> update_where p f t = t"
  by (induction t) auto

lemma map_update_where:
  "(\<And>r. g (f r) = g r) \<Longrightarrow> map g (update_where p f t) = map g t"
  by (induction t) auto

lemma find_update_where:
  "(\<And>r. q (f r) = q r) \<Longrightarrow>
   find q (update_where p f t) = map_option (\<lambda>r. if p r then f r else r) (find q t)"
  by (induction t) auto

lemma bex_update_where:
  "(\<exists>r \<in> set (update_where p f t). Q r) \<longleftrightarrow> (\<exists>r \<in> set t. Q (if p r then f r else r))"
  by (induction t) auto

lemma ball_update_where:
  "(\<forall>r \<in> set (update_where p f t). Q r) \<longleftrightarrow> (\<forall>r \<in> set t. Q (if p r then f r else r))"
  by (induction t) auto

lemma filter_update_where:
  "(\<And>r. r \<in> set t \<Longrightarrow> p r \<Longrightarrow> \<not> q r \<and> \<not> q (f r)) \<Longrightarrow> filter q (update_where p f t) = filter q t"
  by (induction t) (auto simp: update_where_def)

lemma bex_update_keeps:
  "\<exists>r \<in> set t. Q r \<Longrightarrow> (\<And>r. Q r \<Longrightarrow> p r \<Longrightarrow> Q (f r)) \<Longrightarrow> \<exists>r \<in> set (update_where p f t). Q r"
  unfolding bex_update_where by auto

lemma bex_update_sets:
  "\<exists>r \<in> set t. p r \<Longrightarrow> (\<And>r. p r \<Longrightarrow> Q (f r)) \<Longrightarrow> \<exists>r \<in> set (update_where p f t). Q r"
  unfolding bex_update_where by auto

lemma distinct_map_eq: "distinct (map f t) \<Longrightarrow> x \<in> set t \<Longrightarrow> y \<in> set t \<Longrightarrow> f x = f y \<Longrightarrow> x = y"
  by (metis distinct_map inj_on_def)

lemma find_Some_in: "find p t = Some r \<Longrightarrow> r \<in> set t \<and> p r"
  by (auto simp: find_Some_iff)

lemma find_unique:
  "distinct (map k t) \<Longrightarrow> r \<in> set t \<Longrightarrow> find (\<lambda>x. k x = k r) t = Some r"
proof (induction t)
  case Nil
  then show ?case by simp
next
  case (Cons x t)
  then show ?case by (auto simp: rev_image_eqI)
qed

lemmas [table_simps] = set_update_where map_update_where find_update_where update_where_idle

section \<open>Running a stateful call\<close>

text \<open>A Go method that may fail and may change the state of the process is a state-monad action
  that returns either the error or the value.\<close>

type_synonym ('s, 'a) call = "('s, 'a res) state"

abbreviation ok :: "'a \<Rightarrow> ('s, 'a) call" where
  "ok x \<equiv> State_Monad.return (Inr x)"

abbreviation fail :: "err \<Rightarrow> ('s, 'a) call" where
  "fail e \<equiv> State_Monad.return (Inl e)"

abbreviation run :: "('s, 'a) state \<Rightarrow> 's \<Rightarrow> 'a \<times> 's" where
  "run \<equiv> run_state"

lemma run_bind_cases:
  assumes "run (State_Monad.bind m k) s = (r, s')"
  obtains a t where "run m s = (a, t)" and "run (k a) t = (r, s')"
  using assms by (auto split: prod.splits)

end
