(* ===== verification/Cache_Spec.thy ===== *)
theory Cache_Spec
  imports Hades_Prelude
begin

text \<open>
  The contract of the \<open>Cache\<close> interface (\<open>internal/hades/cache/cache.go\<close>), in two locales:
  the key-value half (\<open>Get\<close>, \<open>Set\<close>, \<open>Delete\<close>) and the sliding-window limiter (\<open>Allow\<close>).
  What the server relies on is proved here once, from the laws, and holds for every
  implementation that satisfies them.
\<close>

section \<open>Key-value operations\<close>

text \<open>A cache may forget: an expired or evicted entry is a miss.  It may never answer with
  anything but the last value stored under the key.\<close>

locale kv_cache =
  fixes get :: "time \<Rightarrow> string \<Rightarrow> 's \<Rightarrow> string option"
    and put :: "time \<Rightarrow> string \<Rightarrow> string \<Rightarrow> time \<Rightarrow> 's \<Rightarrow> 's"
    and delete :: "string \<Rightarrow> 's \<Rightarrow> 's"
    and invar :: "'s \<Rightarrow> bool"
  assumes get_put: "invar s \<Longrightarrow> k' \<noteq> [] \<Longrightarrow> get t k (put now k' v ttl s) = Some x \<Longrightarrow>
      (if k = k' then x = v else get t k s = Some x)"
    and get_delete: "invar s \<Longrightarrow> get t k (delete k' s) = (if k = k' then None else get t k s)"
    and invar_put: "invar s \<Longrightarrow> k' \<noteq> [] \<Longrightarrow> invar (put now k' v ttl s)"
    and invar_delete: "invar s \<Longrightarrow> invar (delete k' s)"
begin

text \<open>Coherence with a source of truth on the keys \<open>K\<close>: whatever the cache answers for one of them
  is what the source holds.\<close>

definition coherent :: "string set \<Rightarrow> (string \<Rightarrow> string) \<Rightarrow> 's \<Rightarrow> bool" where
  "coherent K src s \<longleftrightarrow> invar s \<and> (\<forall>k \<in> K. \<forall>t x. get t k s = Some x \<longrightarrow> x = src k)"

lemma coherent_fill:
  "coherent K src s \<Longrightarrow> k \<noteq> [] \<Longrightarrow> (k \<in> K \<Longrightarrow> v = src k) \<Longrightarrow> coherent K src (put now k v ttl s)"
  unfolding coherent_def by (metis get_put invar_put)

lemma coherent_invalidate:
  assumes "coherent K src s" and "\<And>k'. k' \<in> K \<Longrightarrow> k' \<noteq> k \<Longrightarrow> src' k' = src k'"
  shows "coherent K src' (delete k s)"
  using assms unfolding coherent_def by (metis get_delete invar_delete option.distinct(1))

lemma coherent_hit: "coherent K src s \<Longrightarrow> k \<in> K \<Longrightarrow> get t k s = Some x \<Longrightarrow> x = src k"
  unfolding coherent_def by blast

end

section \<open>The sliding-window limiter\<close>

text \<open>Running a sequence of requests, each a time and a key, through one limiter.\<close>

fun allow_seq :: "(time \<Rightarrow> string \<Rightarrow> 's \<Rightarrow> bool \<times> 's) \<Rightarrow> (time \<times> string) list \<Rightarrow> 's \<Rightarrow> bool list" where
  "allow_seq f [] s = []"
| "allow_seq f ((t, k) # rs) s = (case f t k s of (b, s') \<Rightarrow> b # allow_seq f rs s')"

text \<open>How many requests for \<open>key\<close> were granted in the half-open interval \<open>[T, T + w)\<close>.\<close>

fun granted :: "string \<Rightarrow> time \<Rightarrow> time \<Rightarrow> (time \<times> string) list \<Rightarrow> bool list \<Rightarrow> nat" where
  "granted key T w ((t, k) # rs) (b # bs) =
     (if k = key \<and> T \<le> t \<and> t < T + w \<and> b then 1 else 0) + granted key T w rs bs"
| "granted key T w _ _ = 0"

lemma granted_late: "(\<forall>(t, k) \<in> set rs. T + w \<le> t) \<Longrightarrow> granted key T w rs bs = 0"
  by (induction key T w rs bs rule: granted.induct) auto

fun times_from :: "time \<Rightarrow> (time \<times> string) list \<Rightarrow> bool" where
  "times_from t0 [] = True"
| "times_from t0 ((t, k) # rs) = (t0 \<le> t \<and> times_from t rs)"

lemma times_from_le: "times_from t0 rs \<Longrightarrow> (t, k) \<in> set rs \<Longrightarrow> t0 \<le> t"
  by (induction t0 rs rule: times_from.induct) auto

lemma times_from_iff: "times_from t0 rs \<longleftrightarrow> sorted (t0 # map fst rs)"
  by (induction t0 rs rule: times_from.induct) (auto intro: order_trans)

lemma times_from_sorted: "sorted (map fst rs) \<Longrightarrow> \<exists>t0. times_from t0 rs"
  unfolding times_from_iff by (cases rs) auto

text \<open>The laws: the hits of the current window are kept and the new one is added, other keys are
  not touched, and a request is granted only if the window including it is within the limit.
  They are promised as long as the number of tracked keys stays within \<open>cap\<close>, above which an
  implementation may drop state.\<close>

locale sliding_window =
  fixes allow :: "time \<Rightarrow> string \<Rightarrow> int \<Rightarrow> time \<Rightarrow> 's \<Rightarrow> bool \<times> 's"
    and hits :: "'s \<Rightarrow> string \<Rightarrow> time list"
    and tracked :: "'s \<Rightarrow> string set"
    and cap :: nat
    and invar :: "time \<Rightarrow> 's \<Rightarrow> bool"
  assumes allow_invar: "invar t s \<Longrightarrow> t \<le> now \<Longrightarrow> key \<noteq> [] \<Longrightarrow> invar now (snd (allow now key limit w s))"
    and invar_hits: "invar t s \<Longrightarrow> x \<in> set (hits s k) \<Longrightarrow> x \<le> t"
    and invar_finite: "invar t s \<Longrightarrow> finite (tracked s)"
    and allow_hits: "invar t s \<Longrightarrow> t \<le> now \<Longrightarrow> key \<noteq> [] \<Longrightarrow> 0 < w \<Longrightarrow>
      card (insert key (tracked s)) \<le> cap \<Longrightarrow>
      filter (\<lambda>x. now - w < x) (hits (snd (allow now key limit w s)) key)
        = filter (\<lambda>x. now - w < x) (hits s key) @ [now]"
    and allow_others: "invar t s \<Longrightarrow> t \<le> now \<Longrightarrow> key \<noteq> [] \<Longrightarrow>
      card (insert key (tracked s)) \<le> cap \<Longrightarrow> k \<noteq> key \<Longrightarrow>
      hits (snd (allow now key limit w s)) k = hits s k"
    and allow_tracked: "invar t s \<Longrightarrow> t \<le> now \<Longrightarrow> key \<noteq> [] \<Longrightarrow>
      card (insert key (tracked s)) \<le> cap \<Longrightarrow>
      tracked (snd (allow now key limit w s)) = insert key (tracked s)"
    and allow_granted: "invar t s \<Longrightarrow> t \<le> now \<Longrightarrow> key \<noteq> [] \<Longrightarrow> 0 < w \<Longrightarrow>
      card (insert key (tracked s)) \<le> cap \<Longrightarrow> fst (allow now key limit w s) \<Longrightarrow>
      int (length (filter (\<lambda>x. now - w < x) (hits (snd (allow now key limit w s)) key))) \<le> limit"
begin

definition recent :: "time \<Rightarrow> string \<Rightarrow> 's \<Rightarrow> int" where
  "recent T key s = int (length (filter (\<lambda>x. T \<le> x) (hits s key)))"

lemma filter_recent:
  fixes t w T :: time
  assumes "t - w < T"
  shows "filter (\<lambda>x. T \<le> x) (filter (\<lambda>x. t - w < x) xs) = filter (\<lambda>x. T \<le> x) xs"
  unfolding filter_filter using assms by (intro filter_cong) auto

lemma recent_hit:
  assumes "invar t s" "t \<le> now" "key \<noteq> []" "0 < w" "card (insert key (tracked s)) \<le> cap"
    and "T \<le> now" "now < T + w"
  shows "recent T key (snd (allow now key limit w s)) = recent T key s + 1"
proof -
  let ?s' = "snd (allow now key limit w s)"
  have lt: "now - w < T" using assms by simp
  have "filter (\<lambda>x. T \<le> x) (hits ?s' key) = filter (\<lambda>x. T \<le> x) (filter (\<lambda>x. now - w < x) (hits ?s' key))"
    by (simp only: filter_recent [OF lt])
  also have "\<dots> = filter (\<lambda>x. T \<le> x) (hits s key) @ [now]"
    using allow_hits [OF assms(1-5), of limit] filter_recent [OF lt, of "hits s key"] assms(6)
    by (simp only: filter_append) simp
  finally show ?thesis by (simp add: recent_def)
qed

lemma recent_bound:
  assumes "invar t s" "t \<le> now" "key \<noteq> []" "0 < w" "card (insert key (tracked s)) \<le> cap"
    and "T \<le> now" "now < T + w" and "fst (allow now key limit w s)"
  shows "recent T key (snd (allow now key limit w s)) \<le> limit"
proof -
  let ?h = "hits (snd (allow now key limit w s)) key"
  have "now - w < T" using assms(7) by simp
  then have "length (filter (\<lambda>x. T \<le> x) ?h) \<le> length (filter (\<lambda>x. now - w < x) ?h)"
    by (metis filter_recent length_filter_le)
  with allow_granted [OF assms(1-5) assms(8)] show ?thesis by (simp add: recent_def)
qed

text \<open>Within any interval of one window length, at most \<open>limit\<close> requests for a key are granted.\<close>

lemma granted_recent:
  assumes "invar t0 s" and "times_from t0 rs" and "0 < w"
    and "\<forall>(t, k) \<in> set rs. k \<noteq> []" and "card (tracked s \<union> snd ` set rs) \<le> cap"
  shows "int (granted key T w rs (allow_seq (\<lambda>t k. allow t k limit w) rs s))
    \<le> max 0 (limit - recent T key s)"
  using assms
proof (induction rs arbitrary: t0 s)
  case Nil
  then show ?case by simp
next
  case (Cons r rs)
  obtain t k where r: "r = (t, k)" by fastforce
  obtain b s' where a: "allow t k limit w s = (b, s')" by fastforce
  let ?rest = "granted key T w rs (allow_seq (\<lambda>t k. allow t k limit w) rs s')"
  have pre: "invar t0 s" "t0 \<le> t" "k \<noteq> []" using Cons.prems r by auto
  have fin: "finite (tracked s)" using invar_finite pre(1) by blast
  have sub: "insert k (tracked s) \<subseteq> tracked s \<union> snd ` set (r # rs)" using r by auto
  have room: "card (insert k (tracked s)) \<le> cap"
    using card_mono [OF _ sub] fin Cons.prems(5) by simp
  have tr: "tracked s' = insert k (tracked s)" using allow_tracked [OF pre room] a by (metis snd_conv)
  have inv': "invar t s'" using allow_invar [OF pre] a by (metis snd_conv)
  have IH: "int ?rest \<le> max 0 (limit - recent T key s')"
    using Cons.prems r tr by (intro Cons.IH [OF inv']) (auto simp: insert_commute)
  have here: "granted key T w (r # rs) (allow_seq (\<lambda>t k. allow t k limit w) (r # rs) s)
      = (if k = key \<and> T \<le> t \<and> t < T + w \<and> b then 1 else 0) + ?rest"
    using r a by simp
  consider "k \<noteq> key" | "k = key" "t < T" | "k = key" "T \<le> t" "t < T + w" | "T + w \<le> t" by linarith
  then show ?case
  proof cases
    case 1
    then have "recent T key s' = recent T key s"
      using allow_others [OF pre room, of key limit w] a by (simp add: recent_def)
    with IH here 1 show ?thesis by simp
  next
    case 2
    have "\<forall>x \<in> set (hits s key). \<not> T \<le> x" using invar_hits [OF pre(1)] pre(2) 2 by force
    then have "recent T key s = 0" by (simp add: recent_def filter_empty_conv)
    moreover have "0 \<le> recent T key s'" by (simp add: recent_def)
    ultimately show ?thesis using IH here 2 by simp
  next
    case 3
    have up: "recent T key s' = recent T key s + 1"
      using recent_hit [OF pre \<open>0 < w\<close> room 3(2,3), of limit] a 3 by simp
    have "recent T key s' \<le> limit" if b
      using recent_bound [OF pre \<open>0 < w\<close> room 3(2,3), of limit] a 3 that by simp
    with IH here up show ?thesis by auto
  next
    case 4
    have "\<forall>(t', k') \<in> set rs. T + w \<le> t'"
      using times_from_le [of t rs] Cons.prems(2) r 4 by (auto intro: order_trans)
    then have "?rest = 0" by (rule granted_late)
    with here 4 show ?thesis by simp
  qed
qed

lemma granted_limit:
  assumes "invar t0 s" and "times_from t0 rs" and "0 < w" and "0 \<le> limit"
    and "\<forall>(t, k) \<in> set rs. k \<noteq> []" and "card (tracked s \<union> snd ` set rs) \<le> cap"
  shows "int (granted key T w rs (allow_seq (\<lambda>t k. allow t k limit w) rs s)) \<le> limit"
proof -
  have "0 \<le> recent T key s" by (simp add: recent_def)
  with granted_recent [OF assms(1-3,5,6), of key T limit] assms(4) show ?thesis by linarith
qed

end

end
