(* ===== verification/Mem_Cache.thy ===== *)
theory Mem_Cache
  imports Cache_Spec
begin

text \<open>
  The in-process cache of \<open>internal/hades/cache/memory.go\<close>: a value map with expiry, and one
  sliding window of hit times per rate-limit key, both capped by sampled eviction.

  A Go map is an association list with distinct keys.  Go leaves the order of a \<open>range\<close> over a
  map open, so the operations that iterate take the visiting order as an argument \<open>ord\<close>, a
  function that lists the entries of the map in some order; the facts hold for every such order.
  The current time is an argument too.  The two mutexes make every operation atomic.
\<close>

section \<open>State\<close>

record mem_entry =
  entry_value :: string
  expires :: time

definition expired :: "time \<Rightarrow> mem_entry \<Rightarrow> bool" where
  "expired now e = (expires e \<noteq> 0 \<and> now > expires e)"

definition maxRateLimitKeys :: nat where "maxRateLimitKeys = 100000"
definition maxValueKeys :: nat where "maxValueKeys = 100000"
definition evictionSampleSize :: nat where "evictionSampleSize = 32"

type_synonym 'v gomap = "(string \<times> 'v) list"

record mem_cache =
  entries :: "mem_entry gomap"
  windows :: "time list gomap"
  windowTTL :: time

definition NewMemoryCache :: mem_cache where
  "NewMemoryCache = \<lparr>entries = [], windows = [], windowTTL = Hour\<rparr>"

definition gm_delete :: "string \<Rightarrow> 'v gomap \<Rightarrow> 'v gomap" where
  "gm_delete k m = filter (\<lambda>(k', _). k' \<noteq> k) m"

definition gm_put :: "string \<Rightarrow> 'v \<Rightarrow> 'v gomap \<Rightarrow> 'v gomap" where
  "gm_put k v m = (k, v) # gm_delete k m"

definition gm_keys :: "'v gomap \<Rightarrow> string set" where
  "gm_keys m = fst ` set m"

section \<open>Operations\<close>

definition sweep :: "time \<Rightarrow> mem_cache \<Rightarrow> mem_cache" where
  "sweep now m =
     (let entries' = filter (\<lambda>(_, e). \<not> expired now e) (entries m);
          cutoff = now - windowTTL m;
          windows' = filter (\<lambda>(_, es). \<not> (es = [] \<or> last es < cutoff)) (windows m)
      in m\<lparr>entries := entries', windows := windows'\<rparr>)"

text \<open>One pass of the sampling loop of \<open>evictWindowsLocked\<close>: the running victim, its time, and
  how many keys were seen.\<close>

fun pick_window :: "time list gomap \<Rightarrow> string \<Rightarrow> time \<Rightarrow> nat \<Rightarrow> string" where
  "pick_window [] victim victimTS seen = victim"
| "pick_window ((k, es) # rest) victim victimTS seen =
     (let l = (if es = [] then 0 else last es);
          take_it = (victim = [] \<or> l < victimTS);
          victim' = (if take_it then k else victim);
          ts' = (if take_it then l else victimTS)
      in if seen + 1 \<ge> evictionSampleSize then victim'
         else pick_window rest victim' ts' (seen + 1))"

text \<open>The eviction loops.  Each round deletes one key, so as many rounds as there are keys above
  the cap are enough; \<open>evict_windows_done\<close> below shows the loop condition is false afterwards.\<close>

fun evict_windows :: "nat \<Rightarrow> nat \<Rightarrow> (time list gomap \<Rightarrow> time list gomap) \<Rightarrow> time list gomap \<Rightarrow> time list gomap" where
  "evict_windows 0 cap ord w = w"
| "evict_windows (Suc n) cap ord w =
     (if length w > cap then
        (let victim = pick_window (ord w) [] 0 0 in
         if victim = [] then w else evict_windows n cap ord (gm_delete victim w))
      else w)"

definition evictWindowsLocked :: "(time list gomap \<Rightarrow> time list gomap) \<Rightarrow> time list gomap \<Rightarrow> time list gomap" where
  "evictWindowsLocked ord w = evict_windows (length w - maxRateLimitKeys) maxRateLimitKeys ord w"

fun pick_entry :: "time \<Rightarrow> mem_entry gomap \<Rightarrow> string \<Rightarrow> time \<Rightarrow> nat \<Rightarrow> string" where
  "pick_entry now [] victim victimExpiry seen = victim"
| "pick_entry now ((k, e) # rest) victim victimExpiry seen =
     (if expired now e then k
      else let ex = (if expires e = 0 then 9223372036854775807 else expires e);
               take_it = (victim = [] \<or> ex < victimExpiry);
               victim' = (if take_it then k else victim);
               ve' = (if take_it then ex else victimExpiry)
           in if seen + 1 \<ge> evictionSampleSize then victim'
              else pick_entry now rest victim' ve' (seen + 1))"

fun evict_entries :: "nat \<Rightarrow> nat \<Rightarrow> time \<Rightarrow> (mem_entry gomap \<Rightarrow> mem_entry gomap) \<Rightarrow> mem_entry gomap \<Rightarrow> mem_entry gomap" where
  "evict_entries 0 cap now ord m = m"
| "evict_entries (Suc n) cap now ord m =
     (if length m > cap then
        (let victim = pick_entry now (ord m) [] 0 0 in
         if victim = [] then m else evict_entries n cap now ord (gm_delete victim m))
      else m)"

definition evictEntriesLocked :: "time \<Rightarrow> (mem_entry gomap \<Rightarrow> mem_entry gomap) \<Rightarrow> mem_entry gomap \<Rightarrow> mem_entry gomap" where
  "evictEntriesLocked now ord m = evict_entries (length m - maxValueKeys) maxValueKeys now ord m"

definition mc_Get :: "time \<Rightarrow> string \<Rightarrow> mem_cache \<Rightarrow> string option" where
  "mc_Get now key m = (case map_of (entries m) key of
     None \<Rightarrow> None
   | Some e \<Rightarrow> if expired now e then None else Some (entry_value e))"

definition mc_Set :: "(mem_entry gomap \<Rightarrow> mem_entry gomap) \<Rightarrow> time \<Rightarrow> string \<Rightarrow> string \<Rightarrow> time \<Rightarrow> mem_cache \<Rightarrow> mem_cache" where
  "mc_Set ord now key v ttl m =
     (let ex = (if ttl > 0 then now + ttl else 0)
      in m\<lparr>entries := evictEntriesLocked now ord (gm_put key \<lparr>entry_value = v, expires = ex\<rparr> (entries m))\<rparr>)"

definition mc_Delete :: "string \<Rightarrow> mem_cache \<Rightarrow> mem_cache" where
  "mc_Delete key m = m\<lparr>entries := gm_delete key (entries m)\<rparr>"

text \<open>\<open>sort.Search\<close>: binary search for the least index in \<open>[i, j)\<close> where \<open>f\<close> holds.\<close>

function Search :: "(nat \<Rightarrow> bool) \<Rightarrow> nat \<Rightarrow> nat \<Rightarrow> nat" where
  "Search f i j = (if i < j then
      (let h = (i + j) div 2 in if \<not> f h then Search f (h + 1) j else Search f i h) else i)"
  by pat_completeness auto
termination
  by (relation "measure (\<lambda>(f, i, j). j - i)") auto

declare Search.simps [simp del]

definition mc_Allow :: "(time list gomap \<Rightarrow> time list gomap) \<Rightarrow> time \<Rightarrow> string \<Rightarrow> int \<Rightarrow> time \<Rightarrow> mem_cache \<Rightarrow> bool \<times> mem_cache" where
  "mc_Allow ord now key limit window m =
     (let cutoff = now - window;
          es0 = (case map_of (windows m) key of None \<Rightarrow> [] | Some es \<Rightarrow> es);
          start = Search (\<lambda>i. es0 ! i \<ge> cutoff) 0 (length es0);
          es1 = drop start es0;
          es = es1 @ [now];
          m' = m\<lparr>windows := evictWindowsLocked ord (gm_put key es (windows m))\<rparr>
      in (\<not> int (length es) > limit, m'))"

section \<open>Facts about maps\<close>

lemma gm_delete_subset: "set (gm_delete k m) \<subseteq> set m"
  by (auto simp: gm_delete_def)

lemma gm_keys_delete [simp]: "gm_keys (gm_delete k m) = gm_keys m - {k}"
  by (force simp: gm_keys_def gm_delete_def)

lemma gm_keys_put [simp]: "gm_keys (gm_put k v m) = insert k (gm_keys m)"
  by (auto simp: gm_put_def gm_keys_def gm_delete_def)

lemma map_of_delete [simp]: "map_of (gm_delete k m) x = (if x = k then None else map_of m x)"
  by (induction m) (auto simp: gm_delete_def)

lemma map_of_put [simp]: "map_of (gm_put k v m) x = (if x = k then Some v else map_of m x)"
  by (simp add: gm_put_def)

lemma distinct_delete [simp]: "distinct (map fst m) \<Longrightarrow> distinct (map fst (gm_delete k m))"
  by (induction m) (auto simp: gm_delete_def)

lemma distinct_put [simp]: "distinct (map fst m) \<Longrightarrow> distinct (map fst (gm_put k v m))"
  by (auto simp: gm_put_def gm_delete_def distinct_map_filter)

lemma card_keys: "distinct (map fst m) \<Longrightarrow> card (gm_keys m) = length m"
  by (metis distinct_card gm_keys_def length_map list.set_map)

lemma length_delete:
  "distinct (map fst m) \<Longrightarrow> k \<in> gm_keys m \<Longrightarrow> length (gm_delete k m) = length m - 1"
  by (metis card_Diff_singleton card_keys distinct_delete gm_keys_delete)

lemma finite_gm_keys [simp]: "finite (gm_keys m)"
  by (simp add: gm_keys_def)

text \<open>An order lists exactly the entries of the map.\<close>

definition visits :: "('v gomap \<Rightarrow> 'v gomap) \<Rightarrow> bool" where
  "visits ord = (\<forall>m. set (ord m) = set m)"

lemma visits_id [simp]: "visits (\<lambda>m. m)"
  by (simp add: visits_def)

section \<open>Eviction\<close>

lemma pick_window_key: "pick_window w v t n \<in> insert v (gm_keys w)"
proof (induction w arbitrary: v t n)
  case (Cons x w)
  obtain k es where x: "x = (k, es)" by fastforce
  have "pick_window w a b c \<in> insert k (insert v (gm_keys w))" if "a = k \<or> a = v" for a b c
    using Cons.IH [of a b c] that by auto
  with x show ?case by (auto simp: gm_keys_def Let_def)
qed simp

lemma pick_window_nonempty:
  "[] \<notin> gm_keys w \<Longrightarrow> w \<noteq> [] \<or> v \<noteq> [] \<Longrightarrow> pick_window w v t n \<noteq> []"
proof (induction w arbitrary: v t n)
  case (Cons x w)
  obtain k es where x: "x = (k, es)" by fastforce
  with Cons.prems have k: "k \<noteq> []" and w: "[] \<notin> gm_keys w" by (auto simp: gm_keys_def)
  have "pick_window w a b c \<noteq> []" if "a \<noteq> []" for a b c using Cons.IH [OF w] that by blast
  with x k show ?case by (simp add: Let_def)
qed simp

lemma pick_entry_key: "pick_entry now m v t n \<in> insert v (gm_keys m)"
proof (induction m arbitrary: v t n)
  case (Cons x m)
  obtain k e where x: "x = (k, e)" by fastforce
  have "pick_entry now m a b c \<in> insert k (insert v (gm_keys m))" if "a = k \<or> a = v" for a b c
    using Cons.IH [of a b c] that by auto
  with x show ?case by (auto simp: gm_keys_def Let_def)
qed simp

lemma pick_entry_nonempty:
  "[] \<notin> gm_keys m \<Longrightarrow> m \<noteq> [] \<or> v \<noteq> [] \<Longrightarrow> pick_entry now m v t n \<noteq> []"
proof (induction m arbitrary: v t n)
  case (Cons x m)
  obtain k e where x: "x = (k, e)" by fastforce
  with Cons.prems have k: "k \<noteq> []" and m: "[] \<notin> gm_keys m" by (auto simp: gm_keys_def)
  have "pick_entry now m a b c \<noteq> []" if "a \<noteq> []" for a b c using Cons.IH [OF m] that by blast
  with x k show ?case by (simp add: Let_def)
qed simp

lemma visits_keys: "visits ord \<Longrightarrow> gm_keys (ord m) = gm_keys m \<and> (ord m = [] \<longleftrightarrow> m = [])"
  by (metis gm_keys_def set_empty visits_def)

lemma evict_windows_subset: "set (evict_windows n cap ord w) \<subseteq> set w"
  by (induction n cap ord w rule: evict_windows.induct)
    (auto simp: Let_def dest: subsetD [OF gm_delete_subset])

lemma evict_windows_distinct:
  "distinct (map fst w) \<Longrightarrow> distinct (map fst (evict_windows n cap ord w))"
  by (induction n cap ord w rule: evict_windows.induct) (auto simp: Let_def)

lemma evict_windows_idle: "length w \<le> cap \<Longrightarrow> evict_windows n cap ord w = w"
  by (cases n) auto

lemma evict_windows_done:
  assumes "visits ord" and "distinct (map fst w)" and "[] \<notin> gm_keys w" and "length w \<le> cap + n"
  shows "length (evict_windows n cap ord w) \<le> cap"
  using assms(2-)
proof (induction n arbitrary: w)
  case 0
  then show ?case by simp
next
  case (Suc n)
  show ?case
  proof (cases "length w > cap")
    case True
    let ?v = "pick_window (ord w) [] 0 0"
    have vk: "gm_keys (ord w) = gm_keys w" "ord w \<noteq> []"
      using visits_keys [OF assms(1), of w] True by auto
    then have ne: "?v \<noteq> []" using Suc.prems(2) by (simp add: pick_window_nonempty)
    then have "?v \<in> gm_keys w"
      using pick_window_key [of "ord w" "[]" 0 0] vk by simp
    then have "length (gm_delete ?v w) \<le> cap + n"
      using length_delete [of w ?v] Suc.prems by simp
    then have "length (evict_windows n cap ord (gm_delete ?v w)) \<le> cap"
      using Suc.prems by (intro Suc.IH) auto
    with True ne show ?thesis by (simp add: Let_def)
  qed simp
qed

lemma evict_entries_subset: "set (evict_entries n cap now ord m) \<subseteq> set m"
  by (induction n cap now ord m rule: evict_entries.induct)
    (auto simp: Let_def dest: subsetD [OF gm_delete_subset])

lemma evict_entries_distinct:
  "distinct (map fst m) \<Longrightarrow> distinct (map fst (evict_entries n cap now ord m))"
  by (induction n cap now ord m rule: evict_entries.induct) (auto simp: Let_def)

lemma evict_entries_done:
  assumes "visits ord" and "distinct (map fst m)" and "[] \<notin> gm_keys m" and "length m \<le> cap + n"
  shows "length (evict_entries n cap now ord m) \<le> cap"
  using assms(2-)
proof (induction n arbitrary: m)
  case 0
  then show ?case by simp
next
  case (Suc n)
  show ?case
  proof (cases "length m > cap")
    case True
    let ?v = "pick_entry now (ord m) [] 0 0"
    have vk: "gm_keys (ord m) = gm_keys m" "ord m \<noteq> []"
      using visits_keys [OF assms(1), of m] True by auto
    then have ne: "?v \<noteq> []" using Suc.prems(2) by (simp add: pick_entry_nonempty)
    then have "?v \<in> gm_keys m"
      using pick_entry_key [of now "ord m" "[]" 0 0] vk by simp
    then have "length (gm_delete ?v m) \<le> cap + n"
      using length_delete [of m ?v] Suc.prems by simp
    then have "length (evict_entries n cap now ord (gm_delete ?v m)) \<le> cap"
      using Suc.prems by (intro Suc.IH) auto
    with True ne show ?thesis by (simp add: Let_def)
  qed simp
qed

section \<open>The cache invariant\<close>

text \<open>Keys are distinct, no key is empty, both maps are within their caps, and every window holds
  its hits in order of time.\<close>

definition mc_inv :: "mem_cache \<Rightarrow> bool" where
  "mc_inv m \<longleftrightarrow> distinct (map fst (entries m)) \<and> distinct (map fst (windows m))
     \<and> [] \<notin> gm_keys (entries m) \<and> [] \<notin> gm_keys (windows m)
     \<and> length (entries m) \<le> maxValueKeys \<and> length (windows m) \<le> maxRateLimitKeys
     \<and> (\<forall>(k, es) \<in> set (windows m). sorted es)"

definition hits_before :: "time \<Rightarrow> mem_cache \<Rightarrow> bool" where
  "hits_before t m \<longleftrightarrow> (\<forall>(k, es) \<in> set (windows m). \<forall>x \<in> set es. x \<le> t)"

definition hits :: "mem_cache \<Rightarrow> string \<Rightarrow> time list" where
  "hits m k = (case map_of (windows m) k of None \<Rightarrow> [] | Some es \<Rightarrow> es)"

lemma new_empty [simp]: "entries NewMemoryCache = []" "windows NewMemoryCache = []"
  by (simp_all add: NewMemoryCache_def)

lemma mc_inv_new: "mc_inv NewMemoryCache"
  by (simp add: mc_inv_def NewMemoryCache_def gm_keys_def)

lemma distinct_filter_fst: "distinct (map fst m) \<Longrightarrow> distinct (map fst (filter P m))"
  by (simp add: distinct_map_filter)

lemma mc_inv_sweep: "mc_inv m \<Longrightarrow> mc_inv (sweep now m)"
  unfolding mc_inv_def sweep_def Let_def
  by (auto simp: gm_keys_def distinct_filter_fst intro: order_trans [OF length_filter_le])

lemma mc_inv_Delete: "mc_inv m \<Longrightarrow> mc_inv (mc_Delete k m)"
  unfolding mc_inv_def mc_Delete_def
  by (auto simp: gm_delete_def distinct_filter_fst gm_keys_def intro: order_trans [OF length_filter_le])

lemma length_put_le: "length (gm_put k v m) \<le> length m + 1"
  by (simp add: gm_put_def gm_delete_def)

lemma mc_inv_Set:
  assumes "mc_inv m" and "visits ord" and "k \<noteq> []"
  shows "mc_inv (mc_Set ord now k v ttl m)"
proof -
  let ?e = "\<lparr>entry_value = v, expires = (if ttl > 0 then now + ttl else 0)\<rparr>"
  let ?p = "gm_put k ?e (entries m)"
  have d: "distinct (map fst ?p)" and n: "[] \<notin> gm_keys ?p"
    using assms by (auto simp: mc_inv_def)
  have "length (evictEntriesLocked now ord ?p) \<le> maxValueKeys"
    unfolding evictEntriesLocked_def by (rule evict_entries_done [OF assms(2) d n]) simp
  moreover have "distinct (map fst (evictEntriesLocked now ord ?p))"
    using d by (simp add: evictEntriesLocked_def evict_entries_distinct)
  moreover have "[] \<notin> gm_keys (evictEntriesLocked now ord ?p)"
    using n evict_entries_subset unfolding evictEntriesLocked_def gm_keys_def by blast
  ultimately show ?thesis using assms(1) by (simp add: mc_inv_def mc_Set_def)
qed

section \<open>Binary search\<close>

definition up_closed :: "(nat \<Rightarrow> bool) \<Rightarrow> nat \<Rightarrow> bool" where
  "up_closed f j \<longleftrightarrow> (\<forall>a b. a \<le> b \<longrightarrow> b < j \<longrightarrow> f a \<longrightarrow> f b)"

definition least_in :: "(nat \<Rightarrow> bool) \<Rightarrow> nat \<Rightarrow> nat \<Rightarrow> nat \<Rightarrow> bool" where
  "least_in f i j s \<longleftrightarrow> i \<le> s \<and> s \<le> j \<and> (\<forall>k. i \<le> k \<and> k < s \<longrightarrow> \<not> f k) \<and> (\<forall>k. s \<le> k \<and> k < j \<longrightarrow> f k)"

lemma Search_least: "i \<le> j \<Longrightarrow> up_closed f j \<Longrightarrow> least_in f i j (Search f i j)"
proof (induction f i j rule: Search.induct)
  case (1 f i j)
  show ?case
  proof (cases "i < j")
    case True
    let ?h = "(i + j) div 2"
    have h: "i \<le> ?h" "?h < j" using True by auto
    show ?thesis
    proof (cases "f ?h")
      case False
      have below: "\<not> f k" if "k \<le> ?h" for k
        using "1.prems"(2) that h False unfolding up_closed_def by blast
      have "least_in f (?h + 1) j (Search f (?h + 1) j)"
        using "1.IH"(1) [OF True refl False] "1.prems"(2) h by simp
      moreover have "Search f i j = Search f (?h + 1) j"
        using True False by (simp add: Search.simps [of f i j])
      ultimately have g: "least_in f (?h + 1) j (Search f i j)" by simp
      have "\<not> f k" if "k < Search f i j" for k
        using below [of k] g that unfolding least_in_def by (cases "k \<le> ?h") auto
      with g h show ?thesis unfolding least_in_def by auto
    next
      case t: True
      have "up_closed f ?h" using "1.prems"(2) h(2) unfolding up_closed_def by (meson less_trans)
      then have "least_in f i ?h (Search f i ?h)"
        using "1.IH"(2) [OF True refl] t h by simp
      moreover have "Search f i j = Search f i ?h"
        using True t by (simp add: Search.simps [of f i j])
      moreover have "f k" if "?h \<le> k" "k < j" for k
        using "1.prems"(2) that t unfolding up_closed_def by blast
      ultimately have g: "least_in f i ?h (Search f i j)" and up: "\<And>k. ?h \<le> k \<Longrightarrow> k < j \<Longrightarrow> f k"
        by simp_all
      have "f k" if "Search f i j \<le> k" "k < j" for k
        using up [of k] g that unfolding least_in_def by (cases "?h \<le> k") auto
      with g h show ?thesis unfolding least_in_def by auto
    qed
  next
    case False
    then have "Search f i j = i" by (subst Search.simps) simp
    with False "1.prems"(1) show ?thesis by (auto simp: least_in_def)
  qed
qed

lemma drop_least_in:
  assumes "least_in (\<lambda>i. es ! i \<ge> c) 0 (length es) s"
  shows "drop s es = filter (\<lambda>x. x \<ge> c) es"
proof -
  have s: "s \<le> length es" and lo: "\<forall>k < s. \<not> es ! k \<ge> c"
    and hi: "\<forall>k. s \<le> k \<and> k < length es \<longrightarrow> es ! k \<ge> c"
    using assms by (auto simp: least_in_def)
  have "filter (\<lambda>x. x \<ge> c) (take s es) = []"
    using s lo by (auto simp: filter_empty_conv in_set_conv_nth)
  moreover have "\<forall>x \<in> set (drop s es). x \<ge> c"
  proof
    fix x assume "x \<in> set (drop s es)"
    then obtain i where "i < length es - s" "x = es ! (s + i)" by (auto simp: in_set_conv_nth)
    with hi show "x \<ge> c" by simp
  qed
  then have "filter (\<lambda>x. x \<ge> c) (drop s es) = drop s es" by (simp add: filter_id_conv)
  moreover have "filter (\<lambda>x. x \<ge> c) es
      = filter (\<lambda>x. x \<ge> c) (take s es) @ filter (\<lambda>x. x \<ge> c) (drop s es)"
    by (metis append_take_drop_id filter_append)
  ultimately show ?thesis by simp
qed

lemma drop_Search_sorted:
  assumes "sorted es"
  shows "drop (Search (\<lambda>i. es ! i \<ge> c) 0 (length es)) es = filter (\<lambda>x. x \<ge> c) es"
proof -
  have "up_closed (\<lambda>i. es ! i \<ge> c) (length es)"
    unfolding up_closed_def
  proof (intro allI impI)
    fix a b assume "a \<le> b" "b < length es" "c \<le> es ! a"
    with sorted_nth_mono [OF assms, of a b] show "c \<le> es ! b" by simp
  qed
  then show ?thesis by (intro drop_least_in Search_least) auto
qed

section \<open>Rate limiting\<close>

lemma hits_put [simp]: "map_of (gm_put k es w) k = Some es"
  by simp

lemma mc_Allow_cut:
  assumes "mc_inv m"
  shows "mc_Allow ord now key limit w m =
    (let es = filter (\<lambda>x. x \<ge> now - w) (hits m key) @ [now]
     in (int (length es) \<le> limit, m\<lparr>windows := evictWindowsLocked ord (gm_put key es (windows m))\<rparr>))"
proof -
  have "sorted (hits m key)"
    using assms unfolding mc_inv_def hits_def by (auto split: option.splits dest: map_of_SomeD)
  from drop_Search_sorted [OF this, of "now - w"] show ?thesis
    by (simp only: mc_Allow_def Let_def hits_def [symmetric] linorder_not_less not_less)
qed

lemma filter_cut_hits:
  assumes "mc_inv m" and "hits_before t m" and "t \<le> now"
  shows "sorted (filter (\<lambda>x. x \<ge> now - w) (hits m key) @ [now])"
    and "\<forall>x \<in> set (filter (\<lambda>x. x \<ge> now - w) (hits m key) @ [now]). x \<le> now"
proof -
  have s: "sorted (hits m key)"
    using assms(1) unfolding mc_inv_def hits_def by (auto split: option.splits dest: map_of_SomeD)
  have le: "\<forall>x \<in> set (hits m key). x \<le> now"
    using assms(2,3) unfolding hits_def hits_before_def
    by (fastforce split: option.splits dest!: map_of_SomeD)
  from s le show "sorted (filter (\<lambda>x. x \<ge> now - w) (hits m key) @ [now])"
    by (auto simp: sorted_append sorted_wrt_filter)
  show "\<forall>x \<in> set (filter (\<lambda>x. x \<ge> now - w) (hits m key) @ [now]). x \<le> now" using le by auto
qed

lemma mc_inv_Allow:
  assumes "mc_inv m" and "hits_before t m" and "t \<le> now" and "visits ord" and "key \<noteq> []"
  shows "mc_inv (snd (mc_Allow ord now key limit w m))"
    and "hits_before now (snd (mc_Allow ord now key limit w m))"
proof -
  let ?es = "filter (\<lambda>x. x \<ge> now - w) (hits m key) @ [now]"
  let ?p = "gm_put key ?es (windows m)"
  have m': "snd (mc_Allow ord now key limit w m) = m\<lparr>windows := evictWindowsLocked ord ?p\<rparr>"
    by (simp add: mc_Allow_cut [OF assms(1)] Let_def)
  have d: "distinct (map fst ?p)" and n: "[] \<notin> gm_keys ?p"
    using assms by (auto simp: mc_inv_def)
  have sub: "set (evictWindowsLocked ord ?p) \<subseteq> set ?p"
    by (simp add: evictWindowsLocked_def evict_windows_subset)
  have "length (evictWindowsLocked ord ?p) \<le> maxRateLimitKeys"
    unfolding evictWindowsLocked_def by (rule evict_windows_done [OF assms(4) d n]) simp
  moreover have "distinct (map fst (evictWindowsLocked ord ?p))"
    using d unfolding evictWindowsLocked_def by (rule evict_windows_distinct)
  moreover have "[] \<notin> gm_keys (evictWindowsLocked ord ?p)"
    using n sub unfolding gm_keys_def by blast
  moreover have "\<forall>(k, es) \<in> set ?p. sorted es"
    using filter_cut_hits(1) [OF assms(1-3)] assms(1) subsetD [OF gm_delete_subset]
    unfolding gm_put_def mc_inv_def by fastforce
  with sub have "\<forall>(k, es) \<in> set (evictWindowsLocked ord ?p). sorted es" by blast
  ultimately show "mc_inv (snd (mc_Allow ord now key limit w m))"
    using assms(1) unfolding m' by (simp add: mc_inv_def)
  have "\<forall>(k, es) \<in> set ?p. \<forall>x \<in> set es. x \<le> now"
    using filter_cut_hits(2) [OF assms(1-3)] assms(2,3) subsetD [OF gm_delete_subset]
    unfolding gm_put_def hits_before_def by fastforce
  with sub have "\<forall>(k, es) \<in> set (evictWindowsLocked ord ?p). \<forall>x \<in> set es. x \<le> now" by blast
  then show "hits_before now (snd (mc_Allow ord now key limit w m))"
    unfolding m' hits_before_def by simp
qed

text \<open>While the map has room for the key, nothing is evicted.\<close>

lemma mc_Allow_room:
  assumes "mc_inv m" and "card (insert key (gm_keys (windows m))) \<le> maxRateLimitKeys"
  shows "snd (mc_Allow ord now key limit w m) = m\<lparr>windows :=
    gm_put key (filter (\<lambda>x. x \<ge> now - w) (hits m key) @ [now]) (windows m)\<rparr>"
proof -
  have "length (gm_put key es (windows m)) \<le> maxRateLimitKeys" for es
    using assms card_keys [of "gm_put key es (windows m)"] by (simp add: mc_inv_def)
  then show ?thesis
    by (simp add: mc_Allow_cut [OF assms(1)] Let_def evictWindowsLocked_def evict_windows_idle)
qed

section \<open>The two contracts, for every iteration order\<close>

locale go_map_order =
  fixes orde :: "mem_entry gomap \<Rightarrow> mem_entry gomap"
    and ordw :: "time list gomap \<Rightarrow> time list gomap"
  assumes visits_e: "visits orde" and visits_w: "visits ordw"

sublocale go_map_order \<subseteq> kv: kv_cache mc_Get "mc_Set orde" mc_Delete mc_inv
proof unfold_locales
  fix s t k now k' v ttl x
  assume inv: "mc_inv s" and got: "mc_Get t k (mc_Set orde now k' v ttl s) = Some x"
  let ?e = "\<lparr>entry_value = v, expires = (if ttl > 0 then now + ttl else 0)\<rparr>"
  let ?p = "gm_put k' ?e (entries s)"
  let ?q = "evictEntriesLocked now orde ?p"
  have d: "distinct (map fst ?p)" using inv by (simp add: mc_inv_def)
  have sub: "set ?q \<subseteq> set ?p" by (simp add: evictEntriesLocked_def evict_entries_subset)
  from got obtain e where e: "map_of ?q k = Some e" "\<not> expired t e" "x = entry_value e"
    by (auto simp: mc_Get_def mc_Set_def Let_def split: option.splits if_splits)
  then have "(k, e) \<in> set ?p" using sub by (blast dest: map_of_SomeD)
  then have "map_of ?p k = Some e" using d by (intro map_of_is_SomeI)
  with e show "if k = k' then x = v else mc_Get t k s = Some x"
    by (cases "k = k'") (auto simp: mc_Get_def)
next
  fix s t k k'
  show "mc_Get t k (mc_Delete k' s) = (if k = k' then None else mc_Get t k s)"
    by (simp add: mc_Get_def mc_Delete_def)
qed (simp_all add: mc_inv_Set visits_e mc_inv_Delete)

sublocale go_map_order \<subseteq> sw: sliding_window "mc_Allow ordw" hits "\<lambda>m. gm_keys (windows m)"
  maxRateLimitKeys "\<lambda>t m. mc_inv m \<and> hits_before t m"
proof unfold_locales
  fix t s x k
  assume "mc_inv s \<and> hits_before t s" "x \<in> set (hits s k)"
  then show "x \<le> t"
    unfolding hits_before_def hits_def by (fastforce split: option.splits dest: map_of_SomeD)
next
  fix t now w :: time and s key limit
  assume "mc_inv s \<and> hits_before t s" "t \<le> now" "0 < w"
    "card (insert key (gm_keys (windows s))) \<le> maxRateLimitKeys"
  then show "filter (\<lambda>x. now - w < x) (hits (snd (mc_Allow ordw now key limit w s)) key)
      = filter (\<lambda>x. now - w < x) (hits s key) @ [now]"
    by (auto simp: mc_Allow_room hits_def [of "s\<lparr>windows := _\<rparr>"] intro: filter_cong)
next
  fix t now w :: time and s key limit
  assume *: "mc_inv s \<and> hits_before t s" "fst (mc_Allow ordw now key limit w s)"
    "card (insert key (gm_keys (windows s))) \<le> maxRateLimitKeys"
  let ?es = "filter (\<lambda>x. x \<ge> now - w) (hits s key) @ [now]"
  have "hits (snd (mc_Allow ordw now key limit w s)) key = ?es"
    using * by (simp add: mc_Allow_room hits_def [of "s\<lparr>windows := _\<rparr>"])
  moreover have "int (length ?es) \<le> limit" using * by (simp add: mc_Allow_cut Let_def)
  ultimately show "int (length (filter (\<lambda>x. now - w < x) (hits (snd (mc_Allow ordw now key limit w s)) key))) \<le> limit"
    using length_filter_le [of "\<lambda>x. now - w < x" ?es] by simp
qed (auto simp: mc_inv_Allow visits_w mc_Allow_room hits_def)

context go_map_order
begin

lemmas allow_limit = sw.granted_limit

lemma kv_contract: "kv_cache mc_Get (mc_Set orde) mc_Delete mc_inv"
  by (rule kv.kv_cache_axioms)

end

interpretation mc: go_map_order "\<lambda>m. m" "\<lambda>m. m"
  by unfold_locales simp_all

section \<open>Properties\<close>

text \<open>A history of cache calls, each with the time it is made at.\<close>

datatype cache_op = OpSet string string time | OpDelete string | OpAllow string int time | OpSweep

fun op_key_ok :: "cache_op \<Rightarrow> bool" where
  "op_key_ok (OpSet k v ttl) = (k \<noteq> [])"
| "op_key_ok (OpAllow k l w) = (k \<noteq> [])"
| "op_key_ok _ = True"

fun cache_step :: "(mem_entry gomap \<Rightarrow> mem_entry gomap) \<Rightarrow> (time list gomap \<Rightarrow> time list gomap)
    \<Rightarrow> time \<Rightarrow> cache_op \<Rightarrow> mem_cache \<Rightarrow> mem_cache" where
  "cache_step oe ow now (OpSet k v ttl) m = mc_Set oe now k v ttl m"
| "cache_step oe ow now (OpDelete k) m = mc_Delete k m"
| "cache_step oe ow now (OpAllow k l w) m = snd (mc_Allow ow now k l w m)"
| "cache_step oe ow now OpSweep m = sweep now m"

fun cache_run :: "(mem_entry gomap \<Rightarrow> mem_entry gomap) \<Rightarrow> (time list gomap \<Rightarrow> time list gomap)
    \<Rightarrow> (time \<times> cache_op) list \<Rightarrow> mem_cache \<Rightarrow> mem_cache" where
  "cache_run oe ow [] m = m"
| "cache_run oe ow ((now, op) # h) m = cache_run oe ow h (cache_step oe ow now op m)"

lemma hits_before_mono: "hits_before t m \<Longrightarrow> t \<le> t' \<Longrightarrow> hits_before t' m"
  unfolding hits_before_def by fastforce

lemma hits_before_windows: "set (windows m') \<subseteq> set (windows m) \<Longrightarrow> hits_before t m \<Longrightarrow> hits_before t m'"
  unfolding hits_before_def by blast

lemma windows_Set_Delete_sweep:
  "windows (mc_Set oe now k v ttl m) = windows m" "windows (mc_Delete k m) = windows m"
  "set (windows (sweep now m)) \<subseteq> set (windows m)"
  by (auto simp: mc_Set_def mc_Delete_def sweep_def Let_def)

lemma cache_step_inv:
  assumes "mc_inv m" and "hits_before t m" and "t \<le> now" and "visits oe" and "visits ow" and "op_key_ok op"
  shows "mc_inv (cache_step oe ow now op m) \<and> hits_before now (cache_step oe ow now op m)"
proof -
  have now: "hits_before now m" using assms(2,3) by (rule hits_before_mono)
  have "hits_before now (sweep now m)"
    using now by (rule hits_before_windows [OF windows_Set_Delete_sweep(3)])
  moreover have "hits_before now (mc_Set oe now k v ttl m)" "hits_before now (mc_Delete k m)" for k v ttl
    using now by (simp_all add: hits_before_def windows_Set_Delete_sweep)
  ultimately show ?thesis
    using assms by (cases op) (auto simp: mc_inv_Set mc_inv_Delete mc_inv_sweep mc_inv_Allow)
qed

lemma cache_run_inv:
  "mc_inv m \<Longrightarrow> hits_before t m \<Longrightarrow> sorted (t # map fst h) \<Longrightarrow> visits oe \<Longrightarrow> visits ow \<Longrightarrow>
   (\<forall>(_, op) \<in> set h. op_key_ok op) \<Longrightarrow> mc_inv (cache_run oe ow h m)"
proof (induction h arbitrary: m t)
  case (Cons x h)
  obtain now op where x: "x = (now, op)" by fastforce
  have "mc_inv (cache_step oe ow now op m) \<and> hits_before now (cache_step oe ow now op m)"
    using Cons.prems x by (intro cache_step_inv [of m t]) auto
  with Cons.prems x show ?case by (auto intro: Cons.IH [of _ now])
qed simp

text \<open>The write a history leaves in force for a key: the last \<open>Set\<close> of it with its time, value and
  lifetime, unless it was deleted since.\<close>

fun note_write :: "time \<times> cache_op \<Rightarrow> (string \<rightharpoonup> time \<times> string \<times> time) \<Rightarrow> (string \<rightharpoonup> time \<times> string \<times> time)" where
  "note_write (now, OpSet k v ttl) acc = acc(k \<mapsto> (now, v, ttl))"
| "note_write (now, OpDelete k) acc = acc(k := None)"
| "note_write (now, _) acc = acc"

definition last_write :: "(time \<times> cache_op) list \<Rightarrow> (string \<rightharpoonup> time \<times> string \<times> time)" where
  "last_write h = fold note_write h Map.empty"

definition entry_written :: "(string \<rightharpoonup> time \<times> string \<times> time) \<Rightarrow> string \<times> mem_entry \<Rightarrow> bool" where
  "entry_written acc = (\<lambda>(k, e). \<exists>s ttl. acc k = Some (s, entry_value e, ttl) \<and> 0 \<le> s
     \<and> expires e = (if ttl > 0 then s + ttl else 0))"

lemma entry_written_cong: "entry_written acc (k, e) \<Longrightarrow> acc' k = acc k \<Longrightarrow> entry_written acc' (k, e)"
  by (simp add: entry_written_def)

lemma Allow_keeps_entries: "entries (snd (mc_Allow ow now k l w m)) = entries m"
  by (simp add: mc_Allow_def Let_def)

lemma cache_step_written:
  assumes "\<forall>x \<in> set (entries m). entry_written acc x" and "0 \<le> now"
  shows "\<forall>x \<in> set (entries (cache_step oe ow now op m)). entry_written (note_write (now, op) acc) x"
proof (cases op)
  case (OpSet k v ttl)
  let ?p = "gm_put k \<lparr>entry_value = v, expires = (if ttl > 0 then now + ttl else 0)\<rparr> (entries m)"
  have "set (entries (cache_step oe ow now op m)) \<subseteq> set ?p"
    using OpSet by (simp add: mc_Set_def Let_def evictEntriesLocked_def evict_entries_subset)
  moreover have "\<forall>x \<in> set ?p. entry_written (note_write (now, op) acc) x"
  proof (clarify, goal_cases)
    case (1 k' e)
    show ?case
    proof (cases "k' = k")
      case True
      with 1 assms(2) OpSet show ?thesis by (auto simp: gm_put_def gm_delete_def entry_written_def)
    next
      case False
      then have "(k', e) \<in> set (entries m)" using 1 by (auto simp: gm_put_def gm_delete_def)
      then have "entry_written acc (k', e)" using assms(1) by blast
      then show ?thesis using False OpSet by (simp add: entry_written_cong [of acc])
    qed
  qed
  ultimately show ?thesis by blast
next
  case (OpDelete k)
  show ?thesis
  proof (clarify, goal_cases)
    case (1 k' e)
    then have "(k', e) \<in> set (entries m)" "k' \<noteq> k" using OpDelete by (auto simp: mc_Delete_def gm_delete_def)
    moreover from this assms(1) have "entry_written acc (k', e)" by blast
    ultimately show ?case using OpDelete by (simp add: entry_written_cong [of acc])
  qed
next
  case (OpAllow k l w)
  then show ?thesis using assms by (simp add: Allow_keeps_entries)
next
  case OpSweep
  then show ?thesis using assms by (auto simp: sweep_def Let_def)
qed

lemma cache_run_written:
  "\<forall>x \<in> set (entries m). entry_written acc x \<Longrightarrow> \<forall>(now, _) \<in> set h. 0 \<le> now \<Longrightarrow>
   \<forall>x \<in> set (entries (cache_run oe ow h m)). entry_written (fold note_write h acc) x"
proof (induction h arbitrary: m acc)
  case (Cons x h)
  obtain now op where x: "x = (now, op)" by fastforce
  with Cons.prems have "\<forall>y \<in> set (entries (cache_step oe ow now op m)). entry_written (note_write x acc) y"
    using cache_step_written [of m acc now oe ow op] by simp
  from Cons.IH [OF this] Cons.prems x show ?case by simp
qed simp

lemma cache_run_Get:
  assumes "\<forall>(now, _) \<in> set h. 0 \<le> now" and "mc_Get t k (cache_run oe ow h NewMemoryCache) = Some v"
  shows "\<exists>s ttl. last_write h k = Some (s, v, ttl) \<and> (0 < ttl \<longrightarrow> t \<le> s + ttl)"
proof -
  obtain e where e: "map_of (entries (cache_run oe ow h NewMemoryCache)) k = Some e" "\<not> expired t e" "v = entry_value e"
    using assms(2) by (auto simp: mc_Get_def split: option.splits if_splits)
  have "entry_written (last_write h) (k, e)"
    using cache_run_written [OF _ assms(1), of NewMemoryCache Map.empty oe ow] map_of_SomeD [OF e(1)]
    by (simp add: NewMemoryCache_def last_write_def)
  with e show ?thesis by (fastforce simp: entry_written_def expired_def)
qed

text \<open>C36. The in-process cache keeps its caps and answers only with live values.  Starting empty,
  whatever sequence of \<open>Set\<close>, \<open>Delete\<close>, \<open>Allow\<close> and \<open>sweep\<close> calls with non-empty keys is made at
  non-decreasing times, and whatever order Go iterates its maps in, neither map ever holds more
  than its maximum number of keys, keys stay distinct and every window is ordered by time (which
  the binary search of \<open>Allow\<close> relies on); and what \<open>Get\<close> then returns for a key, at any time, is the
  value of the last \<open>Set\<close> of that key, which was not deleted since and whose lifetime, if it has
  one, is not over.\<close>

theorem memory_cache_bounded:
  assumes "visits oe" and "visits ow" and "sorted (0 # map fst h)"
    and "\<forall>(_, op) \<in> set h. op_key_ok op"
  shows "mc_inv (cache_run oe ow h NewMemoryCache)
    \<and> (mc_Get t k (cache_run oe ow h NewMemoryCache) = Some v \<longrightarrow>
        (\<exists>s ttl. last_write h k = Some (s, v, ttl) \<and> (0 < ttl \<longrightarrow> t \<le> s + ttl)))"
proof (intro conjI impI)
  have "hits_before 0 NewMemoryCache" by (simp add: hits_before_def NewMemoryCache_def)
  with assms show "mc_inv (cache_run oe ow h NewMemoryCache)"
    by (intro cache_run_inv [of _ 0]) (auto simp: mc_inv_new)
qed (rule cache_run_Get, use assms(3) in auto)

theorem memory_cache_bounded_witness:
  "mc_inv (cache_run (\<lambda>m. m) rev
     [(5, OpSet ''k'' ''v'' 60), (6, OpAllow ''u'' 2 10), (7, OpSweep), (7, OpSet ''j'' ''x'' 3)] NewMemoryCache)
   \<and> mc_Get 65 ''k'' (cache_run (\<lambda>m. m) rev
     [(5, OpSet ''k'' ''v'' 60), (6, OpAllow ''u'' 2 10), (7, OpSweep), (7, OpSet ''j'' ''x'' 3)] NewMemoryCache) = Some ''v''
   \<and> last_write [(5, OpSet ''k'' ''v'' 60), (6, OpAllow ''u'' 2 10), (7, OpSweep), (7, OpSet ''j'' ''x'' 3)] ''k''
     = Some (5, ''v'', 60)"
proof -
  let ?h = "[(5, OpSet ''k'' ''v'' 60), (6, OpAllow ''u'' 2 10), (7, OpSweep), (7, OpSet ''j'' ''x'' 3)]"
  have g: "mc_Get 65 ''k'' (cache_run (\<lambda>m. m) rev ?h NewMemoryCache) = Some ''v''"
    by (simp add: mc_Get_def mc_Set_def sweep_def Allow_keeps_entries evictEntriesLocked_def maxValueKeys_def
        gm_put_def gm_delete_def expired_def NewMemoryCache_def Let_def)
  show ?thesis
    using memory_cache_bounded [of "\<lambda>m. m" rev ?h 65 "''k''" "''v''"] g by (auto simp: visits_def last_write_def)
qed

text \<open>C35. \<open>Allow\<close> is a true sliding-window limiter: when requests with one limit and one
  window arrive in the order of their times, interleaved over at most \<open>maxRateLimitKeys\<close> keys, no
  interval of one window length contains more than \<open>limit\<close> granted requests for a key.  Beyond that
  number of keys an eviction forgets a window; sweeps of idle windows are not part of the sequence.\<close>

theorem Allow_sliding_limit:
  assumes "visits ow" and "sorted (map fst rs)" and "0 < w" and "0 \<le> limit"
    and "\<forall>(_, k) \<in> set rs. k \<noteq> []" and "card (snd ` set rs) \<le> maxRateLimitKeys"
  shows "int (granted key T w rs (allow_seq (\<lambda>t k. mc_Allow ow t k limit w) rs NewMemoryCache)) \<le> limit"
proof -
  have loc: "go_map_order (\<lambda>m. m) ow" using assms(1) by unfold_locales auto
  obtain t0 where t0: "times_from t0 rs" using times_from_sorted [OF assms(2)] ..
  show ?thesis
    using go_map_order.allow_limit [OF loc, of NewMemoryCache t0 rs w limit key T] t0 assms
    by (simp add: mc_inv_new new_empty hits_before_def gm_keys_def)
qed

theorem Allow_sliding_limit_witness:
  "int (granted ''u'' 1 10 [(1, ''u''), (2, ''u''), (3, ''v''), (4, ''u'')]
     (allow_seq (\<lambda>t k. mc_Allow rev t k 2 10) [(1, ''u''), (2, ''u''), (3, ''v''), (4, ''u'')] NewMemoryCache)) \<le> 2"
  by (rule Allow_sliding_limit) (simp_all add: visits_def maxRateLimitKeys_def insert_commute [of "''u''"] card_insert_if)

end
