(* ===== verification/Conn_Err.thy ===== *)
theory Conn_Err
  imports Hades_Prelude
begin

text \<open>
  The error translation of \<open>utils/connerr\<close>: the constructors handlers use and
  \<open>FromDB\<close>, which turns a storage error into the status a client may see.
\<close>

definition NotFound :: "string \<Rightarrow> err" where "NotFound msg = ConnErr CodeNotFound msg"
definition InvalidArgument :: "string \<Rightarrow> err" where
  "InvalidArgument msg = ConnErr CodeInvalidArgument msg"
definition AlreadyExists :: "string \<Rightarrow> err" where
  "AlreadyExists msg = ConnErr CodeAlreadyExists msg"
definition PermissionDenied :: "string \<Rightarrow> err" where
  "PermissionDenied msg = ConnErr CodePermissionDenied msg"
definition Unauthenticated :: "string \<Rightarrow> err" where
  "Unauthenticated msg = ConnErr CodeUnauthenticated msg"
definition Unavailable :: "string \<Rightarrow> err" where
  "Unavailable msg = ConnErr CodeUnavailable msg"
definition FailedPrecondition :: "string \<Rightarrow> err" where
  "FailedPrecondition msg = ConnErr CodeFailedPrecondition msg"
definition ResourceExhausted :: "string \<Rightarrow> err" where
  "ResourceExhausted msg = ConnErr CodeResourceExhausted msg"
definition Aborted :: "string \<Rightarrow> err" where "Aborted msg = ConnErr CodeAborted msg"

text \<open>\<open>Internal\<close> keeps its detail for the server log; what the client reads is the generic
  text.  The detail is an argument here so that a call site still names it.\<close>

definition Internal :: "string \<Rightarrow> err" where
  "Internal detail = ConnErr CodeInternal ''internal server error''"

lemmas conn_ctor_defs = NotFound_def InvalidArgument_def AlreadyExists_def PermissionDenied_def
  Unauthenticated_def Unavailable_def FailedPrecondition_def ResourceExhausted_def Aborted_def
  Internal_def

text \<open>\<open>connect.CodeOf\<close> of each constructor.\<close>

lemma code_of_ctor [simp]:
  "code_of (NotFound m) = Some CodeNotFound"
  "code_of (InvalidArgument m) = Some CodeInvalidArgument"
  "code_of (AlreadyExists m) = Some CodeAlreadyExists"
  "code_of (PermissionDenied m) = Some CodePermissionDenied"
  "code_of (Unauthenticated m) = Some CodeUnauthenticated"
  "code_of (Unavailable m) = Some CodeUnavailable"
  "code_of (FailedPrecondition m) = Some CodeFailedPrecondition"
  "code_of (ResourceExhausted m) = Some CodeResourceExhausted"
  "code_of (Aborted m) = Some CodeAborted"
  "code_of (Internal m) = Some CodeInternal"
  by (simp_all add: conn_ctor_defs)

section \<open>SQLite result codes\<close>

definition sqliteConstraintForeignKey :: int where "sqliteConstraintForeignKey = 787"
definition sqliteConstraintPrimaryKey :: int where "sqliteConstraintPrimaryKey = 1555"
definition sqliteConstraintUnique :: int where "sqliteConstraintUnique = 2067"
definition sqliteConstraintRowID :: int where "sqliteConstraintRowID = 2579"

fun sqliteErrorCode :: "err \<Rightarrow> int option" where
  "sqliteErrorCode (SqliteErr c m) = Some c"
| "sqliteErrorCode _ = None"

definition isSQLiteUniqueViolation :: "err \<Rightarrow> bool" where
  "isSQLiteUniqueViolation e = (case sqliteErrorCode e of
     None \<Rightarrow> False
   | Some c \<Rightarrow> c = sqliteConstraintUnique \<or> c = sqliteConstraintPrimaryKey
       \<or> c = sqliteConstraintRowID)"

definition isSQLiteForeignKeyViolation :: "err \<Rightarrow> bool" where
  "isSQLiteForeignKeyViolation e = (case sqliteErrorCode e of
     None \<Rightarrow> False | Some c \<Rightarrow> c = sqliteConstraintForeignKey)"

section \<open>FromDB and ToConnectError\<close>

fun pgErrorCode :: "err \<Rightarrow> string option" where
  "pgErrorCode (PgErr c m) = Some c"
| "pgErrorCode _ = None"

definition FromDB :: "err \<Rightarrow> err" where
  "FromDB e = (case e of
     ConnErr c m \<Rightarrow> ConnErr c m
   | _ \<Rightarrow>
     if e = ErrNotFound \<or> e = ErrNoRows then ConnErr CodeNotFound ''not found''
     else if pgErrorCode e = Some ''23505'' then ConnErr CodeAlreadyExists ''already exists''
     else if pgErrorCode e = Some ''23503''
       then ConnErr CodeFailedPrecondition ''referenced record does not exist''
     else if pgErrorCode e = Some ''22P02'' then ConnErr CodeNotFound ''not found''
     else if isSQLiteUniqueViolation e then ConnErr CodeAlreadyExists ''already exists''
     else if isSQLiteForeignKeyViolation e
       then ConnErr CodeFailedPrecondition ''referenced record does not exist''
     else if e = CtxCanceled then ConnErr CodeCanceled ''request canceled''
     else if e = CtxDeadline then ConnErr CodeDeadlineExceeded ''request timed out''
     else ConnErr CodeInternal ''internal server error'')"

definition ToConnectError :: "err \<Rightarrow> err" where
  "ToConnectError e = (case e of
     ConnErr c m \<Rightarrow> ConnErr c m
   | _ \<Rightarrow> ConnErr CodeInternal ''internal server error'')"

text \<open>The texts \<open>FromDB\<close> may put on the wire by itself.\<close>

definition from_db_texts :: "(code \<times> string) list" where
  "from_db_texts =
     [(CodeNotFound, ''not found''), (CodeAlreadyExists, ''already exists''),
      (CodeFailedPrecondition, ''referenced record does not exist''),
      (CodeCanceled, ''request canceled''), (CodeDeadlineExceeded, ''request timed out''),
      (CodeInternal, ''internal server error'')]"

lemma FromDB_ConnErr [simp]: "FromDB (ConnErr c m) = ConnErr c m"
  by (simp add: FromDB_def)

lemma FromDB_ctor [simp]:
  "FromDB (NotFound m) = NotFound m"
  "FromDB (Unauthenticated m) = Unauthenticated m"
  "FromDB (FailedPrecondition m) = FailedPrecondition m"
  by (simp_all add: conn_ctor_defs)

lemma FromDB_closed:
  "FromDB e = e \<and> code_of e \<noteq> None \<or> (\<exists>(c, m) \<in> set from_db_texts. FromDB e = ConnErr c m)"
  by (cases e) (auto simp: FromDB_def from_db_texts_def)

lemma FromDB_is_conn: "code_of (FromDB e) \<noteq> None"
  by (cases e) (auto simp: FromDB_def)

text \<open>C38. \<open>FromDB\<close> never forwards the text of a driver error: its result is either the
  Connect error it was given, unchanged, or one of six fixed code/text pairs; applying it again
  changes nothing, and what it returns passes the outermost interceptor unchanged.\<close>

theorem FromDB_no_leak:
  "((\<exists>c m. e = ConnErr c m \<and> FromDB e = e)
     \<or> (\<exists>(c, m) \<in> set from_db_texts. FromDB e = ConnErr c m))
   \<and> FromDB (FromDB e) = FromDB e \<and> ToConnectError (FromDB e) = FromDB e"
proof -
  obtain c m where r: "FromDB e = ConnErr c m"
    using FromDB_is_conn [of e] by (cases "FromDB e") auto
  have "(\<exists>c m. e = ConnErr c m \<and> FromDB e = e)
     \<or> (\<exists>(c, m) \<in> set from_db_texts. FromDB e = ConnErr c m)"
    using FromDB_closed [of e] by (cases e) auto
  with r show ?thesis by (simp add: ToConnectError_def)
qed

end
