(* ===== verification/Names.thy ===== *)
theory Names
  imports Hades_Prelude
begin

text \<open>
  Names, roles, actions and the token-scope grammar of
  \<open>internal/hades/constants/constants.go\<close>.  A validator returns \<open>None\<close> for a nil error and
  \<open>Some msg\<close> for the error it raises.
\<close>

section \<open>Reserved names and name validation\<close>

definition reservedNames :: "string list" where
  "reservedNames =
     [''settings'', ''login'', ''signup'', ''search'', ''verify-email'', ''api'', ''app'',
      ''go'', ''gen'', ''oauth2'', ''buf'', ''hades'', ''admin'', ''administrator'', ''root'',
      ''system'', ''help'', ''support'', ''about'', ''pricing'', ''terms'', ''privacy'',
      ''security'', ''status'', ''user'', ''users'', ''org'', ''orgs'', ''team'', ''teams'',
      ''me'', ''null'', ''undefined'', ''new'', ''home'']"

definition IsReservedName :: "string \<Rightarrow> bool" where
  "IsReservedName name = (ToLower (TrimSpace name) \<in> set reservedNames)"

text \<open>\<open>[a-z0-9]\<close> and \<open>[a-z0-9._-]\<close>.\<close>

definition is_alnum :: "char \<Rightarrow> bool" where
  "is_alnum c = (let n = (of_char c :: nat) in 97 \<le> n \<and> n \<le> 122 \<or> 48 \<le> n \<and> n \<le> 57)"

definition is_name_char :: "char \<Rightarrow> bool" where
  "is_name_char c = (is_alnum c \<or> c = CHR ''.'' \<or> c = CHR ''_'' \<or> c = CHR ''-'')"

text \<open>\<open>^[a-z0-9]([a-z0-9._-]*[a-z0-9])?$\<close>\<close>

fun nameRe :: "string \<Rightarrow> bool" where
  "nameRe [] = False"
| "nameRe (c # cs) = (is_alnum c \<and> (cs = [] \<or> list_all is_name_char (butlast cs) \<and> is_alnum (last cs)))"

definition MaxNameLength :: nat where "MaxNameLength = 32"

definition ValidateName :: "string \<Rightarrow> string option" where
  "ValidateName name =
     (if name = [] then Some ''name is required''
      else if length name > MaxNameLength then Some ''name must be at most 32 characters''
      else if \<not> nameRe name then Some ''name must be lowercase letters, digits, dashes, underscores or dots, and must start and end with a letter or digit''
      else if IsReservedName name then Some ''name is reserved''
      else None)"

section \<open>Roles, actions, scopes\<close>

definition RoleOwner :: string where "RoleOwner = ''owner''"
definition RoleAdmin :: string where "RoleAdmin = ''admin''"
definition RoleContributor :: string where "RoleContributor = ''contributor''"
definition RoleReader :: string where "RoleReader = ''reader''"
definition ResourceModule :: string where "ResourceModule = ''module''"
definition ResourceOrg :: string where "ResourceOrg = ''org''"
definition ActionRead :: string where "ActionRead = ''read''"
definition ActionPush :: string where "ActionPush = ''push''"
definition VisibilityPublic :: string where "VisibilityPublic = ''public''"
definition VisibilityPrivate :: string where "VisibilityPrivate = ''private''"

lemmas name_consts = RoleOwner_def RoleAdmin_def RoleContributor_def RoleReader_def
  ResourceModule_def ResourceOrg_def ActionRead_def ActionPush_def
  VisibilityPublic_def VisibilityPrivate_def

definition Scope :: "string \<Rightarrow> string \<Rightarrow> string" where
  "Scope resource action = resource @ '':'' @ action"

definition ScopeOn :: "string \<Rightarrow> string \<Rightarrow> string \<Rightarrow> string" where
  "ScopeOn resource action domain = Scope resource action @ '':'' @ domain"

definition ParseScope :: "string \<Rightarrow> (string \<times> string \<times> string) option" where
  "ParseScope scope = (let parts = SplitN scope (CHR '':'') 3 in
     if length parts < 2 \<or> parts ! 0 = [] \<or> parts ! 1 = [] then None
     else if length parts = 3 then
       (if parts ! 2 = [] then None else Some (parts ! 0, parts ! 1, parts ! 2))
     else Some (parts ! 0, parts ! 1, []))"

definition DomainMatches :: "string \<Rightarrow> string \<Rightarrow> bool" where
  "DomainMatches pattern domain =
     (if pattern = [] then True
      else if domain = [] then False
      else if pattern = domain then True
      else case CutSuffix pattern ''/*'' of (ns, found) \<Rightarrow>
        if found then (case Cut domain (CHR ''/'') of (owner, _, hasSlash) \<Rightarrow> hasSlash \<and> owner = ns)
        else False)"

definition scopedResources :: "string list" where
  "scopedResources = [ResourceModule, ResourceOrg]"

definition scopedActions :: "string list" where
  "scopedActions = [''create'', ''read'', ''list'', ''update'', ''push'', ''delete'', ''admin'',
     ''transfer'', ''publish'']"

definition knownScopes :: "string list" where
  "knownScopes = concat (map (\<lambda>r. (r @ '':*'') # map (Scope r) scopedActions) scopedResources)"

definition ContainsAny :: "string \<Rightarrow> string \<Rightarrow> bool" where
  "ContainsAny s chars = (\<exists>c \<in> set s. c \<in> set chars)"

definition isValidScopeDomain :: "string \<Rightarrow> bool" where
  "isValidScopeDomain domain = (case Cut domain (CHR ''/'') of (owner, name, found) \<Rightarrow>
     if \<not> found \<or> owner = [] \<or> name = [] then False
     else if ContainsAny owner ''*/'' then False
     else name = ''*'' \<or> \<not> ContainsAny name ''*/'')"

definition IsKnownScope :: "string \<Rightarrow> bool" where
  "IsKnownScope scope = (case ParseScope scope of
     None \<Rightarrow> False
   | Some (resource, action, domain) \<Rightarrow>
       if resource @ '':'' @ action \<notin> set knownScopes then False
       else if domain = [] then True
       else isValidScopeDomain domain)"

text \<open>The authorization input of \<open>constants.Policy\<close> and the answer of \<open>CanResponse\<close>.\<close>

record policy =
  Subject :: string
  Domain :: string
  ResourceType :: string
  Action :: string
  Visibility :: string

record can_response =
  Allowed :: bool
  DeniedPolicy :: "policy option"

section \<open>Facts about names\<close>

lemma nameRe_chars: "nameRe s \<Longrightarrow> c \<in> set s \<Longrightarrow> is_name_char c"
proof (cases s)
  case (Cons d ds)
  assume "nameRe s" and "c \<in> set s"
  show ?thesis
  proof (cases "ds = []")
    case True
    with Cons \<open>nameRe s\<close> \<open>c \<in> set s\<close> show ?thesis by (simp add: is_name_char_def)
  next
    case False
    then have "set ds = insert (last ds) (set (butlast ds))"
      by (metis append_butlast_last_id insert_is_Un list.set(1) list.simps(15) set_append sup_commute)
    with Cons False \<open>nameRe s\<close> \<open>c \<in> set s\<close> show ?thesis
      by (auto simp: is_name_char_def list_all_iff)
  qed
qed simp

lemma nameRe_ends: "nameRe s \<Longrightarrow> s \<noteq> [] \<and> is_alnum (hd s) \<and> is_alnum (last s)"
  by (cases s) auto

lemma not_name_char [simp]:
  "\<not> is_name_char (CHR ''/'')" "\<not> is_name_char (CHR 0x5C)" "\<not> is_name_char (CHR '' '')"
  "\<not> is_name_char (CHR 0x00)" "\<not> is_name_char (CHR ''*'')" "\<not> is_name_char (CHR '':'')"
  by (simp_all add: is_name_char_def is_alnum_def)

lemma not_alnum_dot [simp]: "\<not> is_alnum (CHR ''.'')"
  by (simp add: is_alnum_def)

lemma ValidateName_None_iff:
  "ValidateName n = None \<longleftrightarrow> nameRe n \<and> length n \<le> MaxNameLength \<and> \<not> IsReservedName n"
  by (cases n) (auto simp: ValidateName_def)

lemma ValidateName_segment:
  assumes "ValidateName n = None"
  shows "n \<noteq> []" "CHR ''/'' \<notin> set n" "CHR 0x5C \<notin> set n" "CHR 0x00 \<notin> set n"
    "n \<noteq> ''.''" "n \<noteq> ''..''" "length n \<le> 32"
proof -
  have re: "nameRe n" and len: "length n \<le> 32"
    using assms by (auto simp: ValidateName_None_iff MaxNameLength_def)
  show "length n \<le> 32" by (rule len)
  show "n \<noteq> []" using nameRe_ends [OF re] by simp
  show "CHR ''/'' \<notin> set n" "CHR 0x5C \<notin> set n" "CHR 0x00 \<notin> set n"
    using nameRe_chars [OF re] by fastforce+
  show "n \<noteq> ''.''" "n \<noteq> ''..''" using nameRe_ends [OF re] by auto
qed

section \<open>Facts about scopes\<close>

lemma SplitN_2_found: "c \<notin> set a \<Longrightarrow> SplitN (a @ c # b) c 2 = [a, b]"
  by (simp add: numeral_2_eq_2)

lemma SplitN_3_two: "c \<notin> set a \<Longrightarrow> c \<notin> set b \<Longrightarrow> SplitN (a @ c # b) c 3 = [a, b]"
  by (simp add: numeral_3_eq_3)

lemma SplitN_3_three:
  "c \<notin> set a \<Longrightarrow> c \<notin> set b \<Longrightarrow> SplitN (a @ c # b @ c # d) c 3 = [a, b, d]"
  by (simp add: numeral_3_eq_3)

lemma SplitN_3_cases:
  "SplitN s c 3 = [s] \<and> c \<notin> set s
   \<or> (\<exists>a b. s = a @ c # b \<and> c \<notin> set a \<and> c \<notin> set b \<and> SplitN s c 3 = [a, b])
   \<or> (\<exists>a b d. s = a @ c # b @ c # d \<and> c \<notin> set a \<and> c \<notin> set b \<and> SplitN s c 3 = [a, b, d])"
proof (cases "c \<in> set s")
  case True
  then obtain a r where ar: "s = a @ c # r" "c \<notin> set a" by (meson split_list_first)
  show ?thesis
  proof (cases "c \<in> set r")
    case True
    then obtain b d where bd: "r = b @ c # d" "c \<notin> set b" by (meson split_list_first)
    from ar bd show ?thesis using SplitN_3_three [of c a b d] by blast
  next
    case False
    with ar show ?thesis using SplitN_3_two [of c a r] by blast
  qed
qed (simp add: numeral_3_eq_3)

lemma ParseScope_Some_iff:
  "ParseScope s = Some (r, a, d) \<longleftrightarrow>
     r \<noteq> [] \<and> a \<noteq> [] \<and> CHR '':'' \<notin> set r \<and> CHR '':'' \<notin> set a
     \<and> s = (if d = [] then Scope r a else ScopeOn r a d)"
  (is "?lhs \<longleftrightarrow> ?rhs")
proof
  assume ?lhs
  with SplitN_3_cases [of s "CHR '':''"] show ?rhs
    by (auto simp: ParseScope_def Let_def Scope_def ScopeOn_def split: if_splits)
next
  assume ?rhs
  then show ?lhs
    by (auto simp: ParseScope_def Let_def Scope_def ScopeOn_def SplitN_3_two SplitN_3_three
        split: if_splits)
qed

lemma knownScopes_iff:
  "r @ '':'' @ a \<in> set knownScopes \<longleftrightarrow> r \<in> set scopedResources \<and> (a = ''*'' \<or> a \<in> set scopedActions)"
  if "CHR '':'' \<notin> set r"
proof -
  have inj: "r @ CHR '':'' # a = r' @ CHR '':'' # a' \<longleftrightarrow> r = r' \<and> a = a'"
    if "CHR '':'' \<notin> set r'" for r' a'
    using that \<open>CHR '':'' \<notin> set r\<close> by (simp add: sep_inj)
  have nores: "CHR '':'' \<notin> set r'" if "r' \<in> set scopedResources" for r'
    using that by (auto simp: scopedResources_def name_consts)
  show ?thesis
    using inj nores by (fastforce simp: knownScopes_def Scope_def)
qed

lemma isValidScopeDomain_iff:
  "isValidScopeDomain d \<longleftrightarrow> (\<exists>owner name. d = owner @ CHR ''/'' # name \<and> owner \<noteq> [] \<and> name \<noteq> []
     \<and> CHR ''/'' \<notin> set owner \<and> CHR ''*'' \<notin> set owner
     \<and> (name = ''*'' \<or> CHR ''*'' \<notin> set name \<and> CHR ''/'' \<notin> set name))"
  (is "?lhs \<longleftrightarrow> ?rhs")
proof
  assume ?lhs
  then obtain owner name where c: "Cut d (CHR ''/'') = (owner, name, True)"
    by (auto simp: isValidScopeDomain_def split: prod.splits if_splits)
  with \<open>?lhs\<close> Cut_TrueD [OF c] show ?rhs
    by (auto simp: isValidScopeDomain_def ContainsAny_def split: if_splits)
next
  assume ?rhs
  then show ?lhs by (auto simp: isValidScopeDomain_def ContainsAny_def)
qed

text \<open>The scope grammar is unambiguous: what \<open>Scope\<close> and \<open>ScopeOn\<close> print is what
  \<open>ParseScope\<close> reads back, and a scope accepted by \<open>IsKnownScope\<close> is exactly a known
  resource with a known action or the action wildcard, optionally restricted to one
  \<open>owner/name\<close> or to one namespace \<open>owner/*\<close>.\<close>

theorem known_scope_grammar:
  "IsKnownScope s \<longleftrightarrow>
     (\<exists>r a d. r \<in> set scopedResources \<and> (a = ''*'' \<or> a \<in> set scopedActions)
        \<and> (s = Scope r a \<and> d = [] \<or> s = ScopeOn r a d \<and> isValidScopeDomain d)
        \<and> ParseScope s = Some (r, a, d))"
  (is "?lhs \<longleftrightarrow> ?rhs")
proof
  assume ?lhs
  then obtain r a d where p: "ParseScope s = Some (r, a, d)"
    and k: "r @ '':'' @ a \<in> set knownScopes" and v: "d = [] \<or> isValidScopeDomain d"
    by (auto simp: IsKnownScope_def split: option.splits prod.splits if_splits)
  from p have "CHR '':'' \<notin> set r" and "s = (if d = [] then Scope r a else ScopeOn r a d)"
    by (auto simp: ParseScope_Some_iff)
  with k v p knownScopes_iff show ?rhs by (metis (no_types, lifting))
next
  assume ?rhs
  then obtain r a d where r: "r \<in> set scopedResources" "a = ''*'' \<or> a \<in> set scopedActions"
    and d: "s = Scope r a \<and> d = [] \<or> s = ScopeOn r a d \<and> isValidScopeDomain d"
    and p: "ParseScope s = Some (r, a, d)" by blast
  from p have "CHR '':'' \<notin> set r" by (auto simp: ParseScope_Some_iff)
  with r have "r @ '':'' @ a \<in> set knownScopes" using knownScopes_iff by blast
  with p d show ?lhs by (auto simp: IsKnownScope_def)
qed

lemma DomainMatches_self [simp]: "d \<noteq> [] \<Longrightarrow> DomainMatches d d"
  by (simp add: DomainMatches_def)

lemma DomainMatches_unnamed: "DomainMatches p [] \<longleftrightarrow> p = []"
  by (simp add: DomainMatches_def)

lemma DomainMatches_wild:
  "DomainMatches (ns @ ''/*'') d \<longleftrightarrow>
     d = ns @ ''/*'' \<or> (\<exists>name. d = ns @ CHR ''/'' # name \<and> CHR ''/'' \<notin> set ns)"
proof (cases "d = ns @ ''/*''")
  case True
  then show ?thesis by (simp add: DomainMatches_def)
next
  case False
  then have step: "DomainMatches (ns @ ''/*'') d \<longleftrightarrow>
      d \<noteq> [] \<and> (\<exists>x. Cut d (CHR ''/'') = (ns, x, True))"
    using CutSuffix_append [of ns "''/*''"]
    by (auto simp: DomainMatches_def split: prod.splits)
  show ?thesis
  proof
    assume "DomainMatches (ns @ ''/*'') d"
    with step obtain x where "Cut d (CHR ''/'') = (ns, x, True)" by blast
    from Cut_TrueD [OF this] show "d = ns @ ''/*'' \<or> (\<exists>name. d = ns @ CHR ''/'' # name \<and> CHR ''/'' \<notin> set ns)"
      by blast
  next
    assume "d = ns @ ''/*'' \<or> (\<exists>name. d = ns @ CHR ''/'' # name \<and> CHR ''/'' \<notin> set ns)"
    with False obtain name where "d = ns @ CHR ''/'' # name" "CHR ''/'' \<notin> set ns" by blast
    with step show "DomainMatches (ns @ ''/*'') d" by simp
  qed
qed

end
