(* ===== verification/Sql_Util.thy ===== *)
theory Sql_Util
  imports Hades_Prelude
begin

text \<open>
  Identifier spelling and \<open>LIKE\<close> escaping, from \<open>internal/hades/storage/db/sqlutil\<close>.
  SQLite stores an identifier as 32 hexadecimal characters; the API speaks the hyphenated form.
  \<open>ID\<close> and \<open>Canonical\<close> translate between the two, and every SQLite statement depends on
  them being inverse on well-formed identifiers.
\<close>

definition isHexDigit :: "char \<Rightarrow> bool" where
  "isHexDigit c = (let n = (of_char c :: nat) in
     48 \<le> n \<and> n \<le> 57 \<or> 97 \<le> n \<and> n \<le> 102 \<or> 65 \<le> n \<and> n \<le> 70)"

definition ID :: "string \<Rightarrow> string" where
  "ID i = (if length i \<noteq> 36 \<or> i ! 8 \<noteq> CHR ''-'' \<or> i ! 13 \<noteq> CHR ''-'' \<or> i ! 18 \<noteq> CHR ''-''
              \<or> i ! 23 \<noteq> CHR ''-''
     then i
     else (let stripped = filter (\<lambda>c. c \<noteq> CHR ''-'') i in
       if length stripped \<noteq> 32 then i
       else if list_all isHexDigit stripped then stripped else i))"

definition UUID :: "uuid \<Rightarrow> string" where
  "UUID u = ID u"

definition Canonical :: "string \<Rightarrow> string" where
  "Canonical i = (if length i \<noteq> 32 then i
     else if \<not> list_all isHexDigit i then i
     else take 8 i @ ''-'' @ take 4 (drop 8 i) @ ''-'' @ take 4 (drop 12 i) @ ''-''
            @ take 4 (drop 16 i) @ ''-'' @ drop 20 i)"

definition ReplaceAll :: "char \<Rightarrow> string \<Rightarrow> string \<Rightarrow> string" where
  "ReplaceAll c r s = concat (map (\<lambda>x. if x = c then r else [x]) s)"

definition LikePrefix :: "string \<Rightarrow> string" where
  "LikePrefix s = (let s1 = ReplaceAll (CHR 0x5C) [CHR 0x5C, CHR 0x5C] s;
                       s2 = ReplaceAll (CHR ''%'') [CHR 0x5C, CHR ''%''] s1
                   in ReplaceAll (CHR ''_'') [CHR 0x5C, CHR ''_''] s2)"

section \<open>Identifiers\<close>

text \<open>A stored identifier and its wire form.\<close>

definition is_hex32 :: "string \<Rightarrow> bool" where
  "is_hex32 h = (length h = 32 \<and> list_all isHexDigit h)"

definition is_canonical :: "string \<Rightarrow> bool" where
  "is_canonical u = (is_hex32 (ID u) \<and> u = Canonical (ID u))"

lemma not_hex_dash [simp]: "\<not> isHexDigit (CHR ''-'')"
  by (simp add: isHexDigit_def)

lemma filter_hex: "list_all isHexDigit h \<Longrightarrow> filter (\<lambda>c. c \<noteq> CHR ''-'') h = h"
  by (induction h) auto

lemma list_all_take_drop:
  "list_all P xs \<Longrightarrow> list_all P (take n xs)" "list_all P xs \<Longrightarrow> list_all P (drop n xs)"
  by (auto simp: list_all_iff dest: in_set_takeD in_set_dropD)

lemma Canonical_hex:
  assumes "is_hex32 h"
  shows "Canonical h = take 8 h @ ''-'' @ take 4 (drop 8 h) @ ''-'' @ take 4 (drop 12 h) @ ''-''
            @ take 4 (drop 16 h) @ ''-'' @ drop 20 h"
  using assms by (simp add: Canonical_def is_hex32_def)

lemma take_drop_chunks:
  "take 8 h @ take 4 (drop 8 h) @ take 4 (drop 12 h) @ take 4 (drop 16 h) @ drop 20 h = h"
proof -
  have "take 4 (drop n h) @ drop (n + 4) h = drop n h" for n
    by (metis add.commute append_take_drop_id drop_drop)
  from this [of 8] this [of 12] this [of 16] show ?thesis by simp
qed

lemma ID_Canonical:
  assumes "is_hex32 h"
  shows "ID (Canonical h) = h"
proof -
  have len: "length h = 32" and all: "list_all isHexDigit h"
    using assms by (auto simp: is_hex32_def)
  have parts: "list_all isHexDigit (take 8 h)" "list_all isHexDigit (take 4 (drop n h))"
    "list_all isHexDigit (drop 20 h)" for n
    using all by (auto intro: list_all_take_drop)
  have strip: "filter (\<lambda>c. c \<noteq> CHR ''-'') (Canonical h) = h"
    using parts by (simp add: Canonical_hex [OF assms] filter_hex take_drop_chunks)
  have "length (Canonical h) = 36" using len by (simp add: Canonical_hex [OF assms])
  moreover have "Canonical h ! 8 = CHR ''-''" "Canonical h ! 13 = CHR ''-''"
    "Canonical h ! 18 = CHR ''-''" "Canonical h ! 23 = CHR ''-''"
    using len by (simp_all add: Canonical_hex [OF assms] nth_append)
  ultimately show ?thesis using strip len all by (simp add: ID_def)
qed

lemma is_canonical_Canonical: "is_hex32 h \<Longrightarrow> is_canonical (Canonical h)"
  by (simp add: is_canonical_def ID_Canonical)

lemma Canonical_ID: "is_canonical u \<Longrightarrow> Canonical (ID u) = u"
  by (simp add: is_canonical_def)

lemma ID_hex32: "is_canonical u \<Longrightarrow> is_hex32 (ID u)"
  by (simp add: is_canonical_def)

lemma ID_of_stored [simp]: "is_hex32 h \<Longrightarrow> ID h = h"
  by (simp add: ID_def is_hex32_def)

lemma ID_eq_iff: "is_canonical u \<Longrightarrow> is_canonical v \<Longrightarrow> ID u = ID v \<longleftrightarrow> u = v"
  by (metis Canonical_ID)

lemma Canonical_eq_iff: "is_hex32 g \<Longrightarrow> is_hex32 h \<Longrightarrow> Canonical g = Canonical h \<longleftrightarrow> g = h"
  by (metis ID_Canonical)

text \<open>A stored identifier equals a normalised parameter exactly when its wire form equals the
  parameter itself.  Every refinement of a SQLite store rests on this.\<close>

lemma stored_eq_ID_iff: "is_hex32 h \<Longrightarrow> is_canonical u \<Longrightarrow> h = ID u \<longleftrightarrow> Canonical h = u"
  by (metis Canonical_ID ID_Canonical)

lemma ID_idem: "ID (ID i) = ID i"
  by (simp add: ID_def Let_def)

text \<open>On a well-formed stored identifier \<open>Canonical\<close> and \<open>ID\<close> are inverse, \<open>ID\<close> is
  idempotent on every string, and a string that is neither spelling of an identifier passes
  through \<open>ID\<close> unchanged, so normalising a parameter never makes it match a different row.\<close>

theorem id_round_trip:
  "(is_hex32 h \<longrightarrow> ID (Canonical h) = h \<and> Canonical (ID (Canonical h)) = Canonical h)
   \<and> ID (ID i) = ID i \<and> (ID i = i \<or> is_hex32 (ID i) \<and> length i = 36)"
proof -
  have "ID i = i \<or> is_hex32 (ID i) \<and> length i = 36"
    by (auto simp: ID_def is_hex32_def Let_def)
  then show ?thesis by (simp add: ID_Canonical ID_idem)
qed

theorem id_round_trip_witness:
  "is_hex32 ''0123456789abcdef0123456789abcdef''
   \<and> ID (Canonical ''0123456789abcdef0123456789abcdef'') = ''0123456789abcdef0123456789abcdef''
   \<and> Canonical ''0123456789abcdef0123456789abcdef'' = ''01234567-89ab-cdef-0123-456789abcdef''"
proof -
  have h: "is_hex32 ''0123456789abcdef0123456789abcdef''" by code_simp
  have c: "Canonical ''0123456789abcdef0123456789abcdef'' = ''01234567-89ab-cdef-0123-456789abcdef''"
    by code_simp
  show ?thesis
    using h c id_round_trip [of "''0123456789abcdef0123456789abcdef''" "''x''"] by simp
qed

section \<open>LIKE with an escape character\<close>

text \<open>SQL's \<open>LIKE ... ESCAPE '\'\<close> as SQLite evaluates it: \<open>%\<close> matches any run, \<open>_\<close> any
  one character, the escape takes the next character literally, and ASCII letters compare
  without case.\<close>

fun like :: "string \<Rightarrow> string \<Rightarrow> bool" where
  "like [] t = (t = [])"
| "like (p # ps) t =
     (if p = CHR 0x5C then
        (case ps of [] \<Rightarrow> False
         | q # qs \<Rightarrow> (case t of [] \<Rightarrow> False
             | x # xs \<Rightarrow> lower_char q = lower_char x \<and> like qs xs))
      else if p = CHR ''%'' then
        like ps t \<or> (case t of [] \<Rightarrow> False | x # xs \<Rightarrow> like (p # ps) xs)
      else (case t of [] \<Rightarrow> False
         | x # xs \<Rightarrow> (p = CHR ''_'' \<or> lower_char p = lower_char x) \<and> like ps xs))"

definition escape_char :: "char \<Rightarrow> string" where
  "escape_char c = (if c = CHR 0x5C \<or> c = CHR ''%'' \<or> c = CHR ''_'' then [CHR 0x5C, c] else [c])"

lemma ReplaceAll_concat: "ReplaceAll c r (concat xss) = concat (map (ReplaceAll c r) xss)"
  by (induction xss) (auto simp: ReplaceAll_def)

lemma LikePrefix_escape: "LikePrefix s = concat (map escape_char s)"
  by (induction s) (auto simp: LikePrefix_def ReplaceAll_def escape_char_def Let_def)

lemma like_percent_all: "like [CHR ''%''] t"
  by (induction t) auto

lemma like_escape:
  "like (escape_char c @ ps) t \<longleftrightarrow> (\<exists>x xs. t = x # xs \<and> lower_char c = lower_char x \<and> like ps xs)"
  by (cases t) (auto simp: escape_char_def)

text \<open>An escaped search term is matched literally: \<open>term%\<close> selects exactly the values that
  start with the term (ASCII case folded), whatever wildcard or escape characters the caller
  put in the term.\<close>

theorem like_prefix_literal:
  "like (LikePrefix s @ ''%'') t \<longleftrightarrow> HasPrefix (ToLower t) (ToLower s)"
proof (induction s arbitrary: t)
  case Nil
  then show ?case using like_percent_all [of t]
    by (simp add: LikePrefix_escape HasPrefix_def ToLower_def)
next
  case (Cons c s)
  have "like (LikePrefix (c # s) @ ''%'') t \<longleftrightarrow>
        (\<exists>x xs. t = x # xs \<and> lower_char c = lower_char x \<and> like (LikePrefix s @ ''%'') xs)"
    by (simp only: LikePrefix_escape list.map concat.simps append_assoc like_escape)
  also have "\<dots> \<longleftrightarrow> HasPrefix (ToLower t) (ToLower (c # s))"
    using Cons.IH by (cases t) (auto simp: HasPrefix_def ToLower_def)
  finally show ?case .
qed

end
