(* ===== verification/Json.thy ===== *)
theory Json
  imports Hades_Prelude
begin

text \<open>
  The part of Go's \<open>encoding/json\<close> that the registry stores data with: role bindings in the cache
  (\<open>authorization/store.go\<close>) and token scopes in a database column
  (\<open>storage/db/apitoken/sqlite\<close>) are marshalled to JSON text and read back.  The encoder escapes
  as \<open>json.Marshal\<close> does, HTML characters included; the decoder accepts all of JSON.  Text is
  taken to be valid UTF-8, whose multi-byte sequences both directions pass through.
\<close>

datatype json =
    JNull | JBool bool | JNum string | JStr string
  | JArr "json list" | JObj "(string \<times> json) list"

section \<open>Encoding\<close>

definition hex_digit :: "nat \<Rightarrow> char" where
  "hex_digit n = char_of (if n < 10 then n + 48 else n + 87)"

definition esc_char :: "char \<Rightarrow> string" where
  "esc_char c = (let n = (of_char c :: nat) in
     if n = 34 then [CHR 0x5C, CHR 0x22]
     else if n = 92 then [CHR 0x5C, CHR 0x5C]
     else if n = 8 then [CHR 0x5C, CHR ''b'']
     else if n = 12 then [CHR 0x5C, CHR ''f'']
     else if n = 10 then [CHR 0x5C, CHR ''n'']
     else if n = 13 then [CHR 0x5C, CHR ''r'']
     else if n = 9 then [CHR 0x5C, CHR ''t'']
     else if n < 32 \<or> n = 60 \<or> n = 62 \<or> n = 38
     then [CHR 0x5C, CHR ''u'', CHR ''0'', CHR ''0'', hex_digit (n div 16), hex_digit (n mod 16)]
     else [c])"

definition enc_str :: "string \<Rightarrow> string" where
  "enc_str s = CHR 0x22 # concat (map esc_char s) @ [CHR 0x22]"

fun enc :: "json \<Rightarrow> string" where
  "enc JNull = ''null''"
| "enc (JBool b) = (if b then ''true'' else ''false'')"
| "enc (JNum s) = s"
| "enc (JStr s) = enc_str s"
| "enc (JArr vs) = ''['' @ Join (map enc vs) '','' @ '']''"
| "enc (JObj ms) = ''{'' @ Join (map (\<lambda>(k, v). enc_str k @ '':'' @ enc v) ms) '','' @ ''}''"

section \<open>Decoding\<close>

definition is_ws :: "char \<Rightarrow> bool" where
  "is_ws c = (of_char c \<in> {32, 9, 10, 13 :: nat})"

definition skip_ws :: "string \<Rightarrow> string" where
  "skip_ws s = dropWhile is_ws s"

definition hex_val :: "char \<Rightarrow> nat option" where
  "hex_val c = (let n = (of_char c :: nat) in
     if 48 \<le> n \<and> n \<le> 57 then Some (n - 48)
     else if 97 \<le> n \<and> n \<le> 102 then Some (n - 87)
     else if 65 \<le> n \<and> n \<le> 70 then Some (n - 55)
     else None)"

fun hex4 :: "string \<Rightarrow> nat option" where
  "hex4 (a # b # c # d # _) =
     (case (hex_val a, hex_val b, hex_val c, hex_val d) of
        (Some w, Some x, Some y, Some z) \<Rightarrow> Some (((w * 16 + x) * 16 + y) * 16 + z)
      | _ \<Rightarrow> None)"
| "hex4 _ = None"

definition utf8 :: "nat \<Rightarrow> string" where
  "utf8 n =
     (if n < 0x80 then [char_of n]
      else if n < 0x800 then [char_of (0xC0 + n div 64), char_of (0x80 + n mod 64)]
      else if n < 0x10000 then
        [char_of (0xE0 + n div 4096), char_of (0x80 + n div 64 mod 64), char_of (0x80 + n mod 64)]
      else [char_of (0xF0 + n div 262144), char_of (0x80 + n div 4096 mod 64),
            char_of (0x80 + n div 64 mod 64), char_of (0x80 + n mod 64)])"

definition simple_escape :: "char \<Rightarrow> char option" where
  "simple_escape e =
     (if e \<in> {CHR 0x22, CHR 0x5C, CHR ''/''} then Some e
      else if e = CHR ''b'' then Some (char_of (8::nat))
      else if e = CHR ''f'' then Some (char_of (12::nat))
      else if e = CHR ''n'' then Some (char_of (10::nat))
      else if e = CHR ''r'' then Some (char_of (13::nat))
      else if e = CHR ''t'' then Some (char_of (9::nat))
      else None)"

text \<open>A \<open>\u\<close> escape after the four digits \<open>n\<close>: the bytes it stands for and how many further
  characters it uses.  A surrogate pair is joined; a lone surrogate becomes U+FFFD.\<close>

definition u_escape :: "nat \<Rightarrow> string \<Rightarrow> string \<times> nat" where
  "u_escape n rest =
     (if 0xD800 \<le> n \<and> n < 0xE000 then
        (case (take 2 rest = [CHR 0x5C, CHR ''u''], hex4 (drop 2 rest)) of
           (True, Some m) \<Rightarrow>
             if n < 0xDC00 \<and> 0xDC00 \<le> m \<and> m < 0xE000
             then (utf8 (0x10000 + (n - 0xD800) * 1024 + (m - 0xDC00)), 6)
             else (utf8 0xFFFD, 0)
         | _ \<Rightarrow> (utf8 0xFFFD, 0))
      else (utf8 n, 0))"

text \<open>The rest of a string literal after its opening quote: its value and the text after it.\<close>

function p_str :: "string \<Rightarrow> (string \<times> string) option" where
  "p_str [] = None"
| "p_str (c # cs) =
     (if c = CHR 0x22 then Some ([], cs)
      else if c = CHR 0x5C then
        (case cs of [] \<Rightarrow> None
         | e # r \<Rightarrow>
             if e = CHR ''u'' then
               (case hex4 r of None \<Rightarrow> None
                | Some n \<Rightarrow> (case u_escape n (drop 4 r) of (bs, k) \<Rightarrow>
                    map_option (\<lambda>(x, y). (bs @ x, y)) (p_str (drop (4 + k) r))))
             else (case simple_escape e of None \<Rightarrow> None
                   | Some d \<Rightarrow> map_option (\<lambda>(x, y). (d # x, y)) (p_str r)))
      else if (of_char c :: nat) < 32 then None
      else map_option (\<lambda>(x, y). (c # x, y)) (p_str cs))"
  by pat_completeness auto
termination
  by (relation "measure length") auto

definition is_digit :: "char \<Rightarrow> bool" where
  "is_digit c = (48 \<le> (of_char c :: nat) \<and> (of_char c :: nat) \<le> 57)"

definition p_digits :: "string \<Rightarrow> (string \<times> string) option" where
  "p_digits s = (let d = takeWhile is_digit s in
     if d = [] then None else Some (d, dropWhile is_digit s))"

definition p_frac :: "string \<Rightarrow> (string \<times> string) option" where
  "p_frac s = (case s of c # r \<Rightarrow>
       if c = CHR ''.'' then map_option (\<lambda>(d, y). (c # d, y)) (p_digits r) else Some ([], s)
     | [] \<Rightarrow> Some ([], s))"

definition p_exp :: "string \<Rightarrow> (string \<times> string) option" where
  "p_exp s = (case s of c # r \<Rightarrow>
       if c = CHR ''e'' \<or> c = CHR ''E'' then
         (case r of d # r' \<Rightarrow>
            if d = CHR ''+'' \<or> d = CHR ''-'' then map_option (\<lambda>(x, y). (c # d # x, y)) (p_digits r')
            else map_option (\<lambda>(x, y). (c # x, y)) (p_digits r)
          | [] \<Rightarrow> None)
       else Some ([], s)
     | [] \<Rightarrow> Some ([], s))"

definition p_num :: "string \<Rightarrow> (string \<times> string) option" where
  "p_num s =
     (let (sgn, s1) = (if take 1 s = ''-'' then (''-'', drop 1 s) else ([], s)) in
      case (if take 1 s1 = ''0'' then Some (''0'', drop 1 s1) else p_digits s1) of
        None \<Rightarrow> None
      | Some (i, s2) \<Rightarrow> (case p_frac s2 of None \<Rightarrow> None
          | Some (f, s3) \<Rightarrow> (case p_exp s3 of None \<Rightarrow> None
              | Some (e, s4) \<Rightarrow> Some (sgn @ i @ f @ e, s4))))"

text \<open>Values, the elements of an array after its opening bracket, and the members of an object
  after its opening brace.  Each level of recursion uses one unit of fuel; no call that uses none
  leaves the text as it is twice, so twice the length of the text is enough.\<close>

fun p_val :: "nat \<Rightarrow> string \<Rightarrow> (json \<times> string) option"
and p_elems :: "nat \<Rightarrow> string \<Rightarrow> (json list \<times> string) option"
and p_membs :: "nat \<Rightarrow> string \<Rightarrow> ((string \<times> json) list \<times> string) option" where
  "p_val 0 s = None"
| "p_val (Suc n) s = (let t = skip_ws s in
     if HasPrefix t ''null'' then Some (JNull, drop 4 t)
     else if HasPrefix t ''true'' then Some (JBool True, drop 4 t)
     else if HasPrefix t ''false'' then Some (JBool False, drop 5 t)
     else case t of [] \<Rightarrow> None
     | c # r \<Rightarrow>
         if c = CHR 0x22 then map_option (\<lambda>(x, y). (JStr x, y)) (p_str r)
         else if c = CHR ''['' then
           (if HasPrefix (skip_ws r) '']'' then Some (JArr [], drop 1 (skip_ws r))
            else map_option (\<lambda>(x, y). (JArr x, y)) (p_elems n r))
         else if c = CHR ''{'' then
           (if HasPrefix (skip_ws r) ''}'' then Some (JObj [], drop 1 (skip_ws r))
            else map_option (\<lambda>(x, y). (JObj x, y)) (p_membs n r))
         else map_option (\<lambda>(x, y). (JNum x, y)) (p_num t))"
| "p_elems 0 s = None"
| "p_elems (Suc n) s = (case p_val n s of None \<Rightarrow> None
     | Some (v, r) \<Rightarrow> (let t = skip_ws r in
         if HasPrefix t '']'' then Some ([v], drop 1 t)
         else if HasPrefix t '','' then map_option (\<lambda>(x, y). (v # x, y)) (p_elems n (drop 1 t))
         else None))"
| "p_membs 0 s = None"
| "p_membs (Suc n) s = (let t = skip_ws s in
     if \<not> HasPrefix t [CHR 0x22] then None
     else case p_str (drop 1 t) of None \<Rightarrow> None
     | Some (k, r) \<Rightarrow>
         if \<not> HasPrefix (skip_ws r) '':'' then None
         else (case p_val n (drop 1 (skip_ws r)) of None \<Rightarrow> None
         | Some (v, r2) \<Rightarrow> (let t2 = skip_ws r2 in
             if HasPrefix t2 ''}'' then Some ([(k, v)], drop 1 t2)
             else if HasPrefix t2 '','' then map_option (\<lambda>(x, y). ((k, v) # x, y)) (p_membs n (drop 1 t2))
             else None)))"

definition parse :: "string \<Rightarrow> json option" where
  "parse s = (case p_val (2 * length s + 2) s of
     None \<Rightarrow> None
   | Some (v, r) \<Rightarrow> if skip_ws r = [] then Some v else None)"

section \<open>Unmarshalling into Go values\<close>

text \<open>\<open>json.Unmarshal\<close> into a \<open>string\<close>: null leaves the zero value.\<close>

fun to_string :: "json \<Rightarrow> string option" where
  "to_string (JStr s) = Some s"
| "to_string JNull = Some []"
| "to_string _ = None"

fun to_list :: "(json \<Rightarrow> 'a option) \<Rightarrow> json list \<Rightarrow> 'a list option" where
  "to_list f [] = Some []"
| "to_list f (v # vs) = (case (f v, to_list f vs) of (Some x, Some xs) \<Rightarrow> Some (x # xs) | _ \<Rightarrow> None)"

text \<open>Into a slice: null is the nil slice, anything but an array an error.\<close>

fun to_slice :: "(json \<Rightarrow> 'a option) \<Rightarrow> json \<Rightarrow> 'a list option" where
  "to_slice f (JArr vs) = to_list f vs"
| "to_slice f JNull = Some []"
| "to_slice f _ = None"

definition Unmarshal_strings :: "string \<Rightarrow> string list option" where
  "Unmarshal_strings s = Option.bind (parse s) (to_slice to_string)"

definition Marshal_strings :: "string list \<Rightarrow> string" where
  "Marshal_strings xs = enc (JArr (map JStr xs))"

text \<open>Into a string field of a struct: the field named \<open>key\<close>, which matches a member name exactly
  or up to case; the last match wins, null changes nothing.\<close>

fun to_field :: "string \<Rightarrow> (string \<times> json) list \<Rightarrow> string \<Rightarrow> string option" where
  "to_field key [] cur = Some cur"
| "to_field key ((k, v) # ms) cur =
     (if ToLower k = key then
        (case v of JNull \<Rightarrow> to_field key ms cur
         | JStr s \<Rightarrow> to_field key ms s
         | _ \<Rightarrow> None)
      else to_field key ms cur)"

section \<open>Round trip\<close>

lemma hex_val_digit: "n < 16 \<Longrightarrow> hex_val (hex_digit n) = Some n"
  by (simp add: hex_val_def hex_digit_def Let_def)

lemma esc_hex:
  assumes "(of_char c :: nat) < 128"
  shows "hex4 (CHR ''0'' # CHR ''0'' # hex_digit (of_char c div 16) # hex_digit (of_char c mod 16) # r)
      = Some (of_char c)"
    and "u_escape (of_char c) r = ([c], 0)"
proof -
  have "(of_char c :: nat) div 16 < 16" using assms by simp
  moreover have "hex_val (CHR ''0'') = Some 0" by (simp add: hex_val_def)
  ultimately show "hex4 (CHR ''0'' # CHR ''0'' # hex_digit (of_char c div 16) # hex_digit (of_char c mod 16) # r)
      = Some (of_char c)"
    by (simp add: hex_val_digit mult.commute [of _ 16])
  show "u_escape (of_char c) r = ([c], 0)" using assms by (simp add: u_escape_def utf8_def)
qed

lemma char_eq_of_char: "c = d \<longleftrightarrow> (of_char c :: nat) = of_char d"
  by simp

lemma p_str_esc: "p_str (esc_char c @ r) = map_option (\<lambda>(x, y). (c # x, y)) (p_str r)"
proof -
  let ?n = "of_char c :: nat"
  have c: "c = char_of ?n" by simp
  have e: "char_of (34::nat) = CHR 0x22" "char_of (92::nat) = CHR 0x5C" by code_simp+
  consider "?n = 34" | "?n = 92" | "?n = 8" | "?n = 12" | "?n = 10" | "?n = 13" | "?n = 9"
    | (hex) "?n \<noteq> 34" "?n \<noteq> 92" "?n \<noteq> 8" "?n \<noteq> 12" "?n \<noteq> 10" "?n \<noteq> 13" "?n \<noteq> 9"
        "?n < 32 \<or> ?n = 60 \<or> ?n = 62 \<or> ?n = 38"
    | (plain) "?n \<noteq> 34" "?n \<noteq> 92" "\<not> ?n < 32" "?n \<noteq> 60" "?n \<noteq> 62" "?n \<noteq> 38" by linarith
  then show ?thesis
  proof cases
    case hex
    then have "?n < 128" by auto
    note h = esc_hex [OF this]
    have "esc_char c = [CHR 0x5C, CHR ''u'', CHR ''0'', CHR ''0'', hex_digit (?n div 16), hex_digit (?n mod 16)]"
      using hex by (simp add: esc_char_def Let_def)
    then show ?thesis using h(1) [of r] h(2) [of r] by (simp del: hex4.simps)
  next
    case plain
    then have "c \<noteq> CHR 0x22" "c \<noteq> CHR 0x5C" by (auto simp: char_eq_of_char)
    with plain show ?thesis by (simp add: esc_char_def Let_def)
  qed (subst (2) c, simp add: esc_char_def Let_def simple_escape_def e)+
qed

lemma p_str_enc: "p_str (concat (map esc_char s) @ CHR 0x22 # r) = Some (s, r)"
  by (induction s) (simp_all add: p_str_esc del: p_str.simps(2) add: p_str.simps(2) [of "CHR 0x22"])

lemma skip_ws_nows [simp]: "\<not> is_ws c \<Longrightarrow> skip_ws (c # s) = c # s"
  by (simp add: skip_ws_def)

lemma json_punct [simp]:
  "\<not> is_ws (CHR 0x22)" "\<not> is_ws (CHR ''['')" "\<not> is_ws (CHR '']'')" "\<not> is_ws (CHR ''{'')"
  "\<not> is_ws (CHR ''}'')" "\<not> is_ws (CHR '','')" "\<not> is_ws (CHR '':'')"
  by (simp_all add: is_ws_def)

lemma HasPrefix_Cons [simp]: "HasPrefix (c # s) (d # p) \<longleftrightarrow> c = d \<and> HasPrefix s p" "HasPrefix s []"
  by (simp_all add: HasPrefix_def)

text \<open>The values the registry stores: strings, arrays and objects.\<close>

fun stored_json :: "json \<Rightarrow> bool" where
  "stored_json (JStr s) = True"
| "stored_json (JArr vs) = list_all stored_json vs"
| "stored_json (JObj ms) = list_all (\<lambda>(_, v). stored_json v) ms"
| "stored_json _ = False"

fun jsize :: "json \<Rightarrow> nat" where
  "jsize (JArr vs) = 2 + sum_list (map (\<lambda>v. 1 + jsize v) vs)"
| "jsize (JObj ms) = 2 + sum_list (map (\<lambda>(_, v). 1 + jsize v) ms)"
| "jsize _ = 1"

lemma p_elems_enc:
  assumes "vs \<noteq> []"
    and "\<And>v n r. v \<in> set vs \<Longrightarrow> jsize v \<le> n \<Longrightarrow> p_val n (enc v @ r) = Some (v, r)"
    and "sum_list (map (\<lambda>v. 1 + jsize v) vs) \<le> n"
  shows "p_elems n (Join (map enc vs) '','' @ CHR '']'' # r) = Some (vs, r)"
  using assms
proof (induction vs arbitrary: n)
  case (Cons v vs)
  obtain m where n: "n = Suc m" using Cons.prems(3) by (cases n) auto
  have v: "p_val m (enc v @ x) = Some (v, x)" for x using Cons.prems(2,3) n by simp
  show ?case
  proof (cases "vs = []")
    case False
    then obtain w ws where ws: "vs = w # ws" by (cases vs) auto
    have "p_elems m (Join (map enc vs) '','' @ CHR '']'' # r) = Some (vs, r)"
      using Cons.prems n False by (intro Cons.IH) auto
    then show ?thesis using v n ws by (simp add: Let_def)
  qed (use v n in \<open>simp add: Let_def\<close>)
qed simp

lemma p_membs_enc:
  assumes "ms \<noteq> []"
    and "\<And>k v n r. (k, v) \<in> set ms \<Longrightarrow> jsize v \<le> n \<Longrightarrow> p_val n (enc v @ r) = Some (v, r)"
    and "sum_list (map (\<lambda>(_, v). 1 + jsize v) ms) \<le> n"
  shows "p_membs n (Join (map (\<lambda>(k, v). enc_str k @ '':'' @ enc v) ms) '','' @ CHR ''}'' # r) = Some (ms, r)"
  using assms
proof (induction ms arbitrary: n)
  case (Cons x ms)
  obtain k v where x: "x = (k, v)" by fastforce
  obtain m where n: "n = Suc m" using Cons.prems(3) x by (cases n) auto
  have v: "p_val m (enc v @ y) = Some (v, y)" for y using Cons.prems(2) [of k v m] Cons.prems(3) n x by simp
  show ?case
  proof (cases "ms = []")
    case False
    then obtain w ws where ws: "ms = w # ws" by (cases ms) auto
    have "p_membs m (Join (map (\<lambda>(k, v). enc_str k @ '':'' @ enc v) ms) '','' @ CHR ''}'' # r) = Some (ms, r)"
      using Cons.prems n False x by (intro Cons.IH) auto
    then show ?thesis using v n ws x by (simp add: Let_def enc_str_def p_str_enc)
  qed (use v n x in \<open>simp add: Let_def enc_str_def p_str_enc\<close>)
qed simp

lemma enc_head: "stored_json v \<Longrightarrow> \<exists>c t. enc v = c # t \<and> c \<in> {CHR 0x22, CHR ''['', CHR ''{''}"
  by (cases v) (auto simp: enc_str_def)

lemma Join_head:
  "xs \<noteq> [] \<Longrightarrow> hd xs = c # t \<Longrightarrow> \<exists>t'. Join xs sep = c # t'"
  by (cases xs rule: list.exhaust; cases "tl xs") auto

lemma p_val_enc: "stored_json v \<Longrightarrow> jsize v \<le> n \<Longrightarrow> p_val n (enc v @ r) = Some (v, r)"
proof (induction v arbitrary: n r)
  case (JStr s)
  then obtain m where "n = Suc m" by (cases n) auto
  then show ?case by (simp add: Let_def enc_str_def p_str_enc)
next
  case (JArr vs)
  then obtain m where n: "n = Suc m" by (cases n) auto
  show ?case
  proof (cases "vs = []")
    case False
    then have el: "p_elems m (Join (map enc vs) '','' @ CHR '']'' # r) = Some (vs, r)"
      using JArr n by (intro p_elems_enc) (auto simp: list_all_iff)
    have "stored_json (hd vs)" using JArr.prems(1) False by (simp add: list_all_iff)
    then obtain c t where "enc (hd vs) = c # t" and c: "c \<in> {CHR 0x22, CHR ''['', CHR ''{''}"
      using enc_head by blast
    then obtain t' where "Join (map enc vs) '','' = c # t'"
      using Join_head [of "map enc vs" c t] False by (auto simp: hd_map)
    with el n c show ?thesis by (auto simp: Let_def)
  qed (use n in \<open>simp add: Let_def\<close>)
next
  case (JObj ms)
  then obtain m where n: "n = Suc m" by (cases n) auto
  let ?f = "\<lambda>(k, v). enc_str k @ '':'' @ enc v"
  show ?case
  proof (cases "ms = []")
    case False
    then have el: "p_membs m (Join (map ?f ms) '','' @ CHR ''}'' # r) = Some (ms, r)"
      using JObj n by (intro p_membs_enc) (fastforce simp: list_all_iff)+
    obtain k v ms' where "ms = (k, v) # ms'" using False by (cases ms) auto
    then obtain t' where "Join (map ?f ms) '','' = CHR 0x22 # t'"
      using Join_head [of "map ?f ms" "CHR 0x22"] by (auto simp: enc_str_def)
    with el n show ?thesis by (simp add: Let_def)
  qed (use n in \<open>simp add: Let_def\<close>)
qed auto


text \<open>Enough fuel: a stored value needs less than twice the length of its text.\<close>

lemma length_Join: "xs \<noteq> [] \<Longrightarrow> length (Join xs [c]) + 1 = sum_list (map (\<lambda>x. length x + 1) xs)"
  by (induction xs "[c]" rule: Join.induct) auto

lemma sum_list_mono_set:
  "(\<And>x. x \<in> set xs \<Longrightarrow> f x \<le> (g x :: nat)) \<Longrightarrow> sum_list (map f xs) \<le> sum_list (map g xs)"
  by (induction xs) (auto intro: add_mono)

lemma sum_list_double: "sum_list (map (\<lambda>x. 2 * f x) xs) = 2 * (sum_list (map f xs) :: nat)"
  by (induction xs) auto

lemma jsize_enc: "stored_json v \<Longrightarrow> jsize v \<le> 2 * length (enc v)"
proof (induction v)
  case (JArr vs)
  show ?case
  proof (cases "vs = []")
    case False
    have "sum_list (map (\<lambda>v. 1 + jsize v) vs) \<le> sum_list (map (\<lambda>v. 2 * (length (enc v) + 1)) vs)"
      using JArr by (intro sum_list_mono_set) (fastforce simp: list_all_iff)
    also have "\<dots> = 2 * (length (Join (map enc vs) '','') + 1)"
      using False length_Join [of "map enc vs" "CHR '',''"] by (simp only: sum_list_double) (simp add: comp_def)
    finally show ?thesis by simp
  qed simp
next
  case (JObj ms)
  let ?f = "\<lambda>(k, v). enc_str k @ '':'' @ enc v"
  show ?case
  proof (cases "ms = []")
    case False
    have "sum_list (map (\<lambda>(_, v). 1 + jsize v) ms) \<le> sum_list (map (\<lambda>x. 2 * (length (?f x) + 1)) ms)"
      using JObj by (intro sum_list_mono_set) (fastforce simp: list_all_iff)
    also have "\<dots> = 2 * (length (Join (map ?f ms) '','') + 1)"
      using False length_Join [of "map ?f ms" "CHR '',''"] by (simp only: sum_list_double) (simp add: comp_def)
    finally show ?thesis by simp
  qed simp
qed (auto simp: enc_str_def)

theorem parse_enc: "stored_json v \<Longrightarrow> parse (enc v) = Some v"
  using p_val_enc [of v "2 * length (enc v) + 2" "[]"] jsize_enc [of v]
  by (simp add: parse_def skip_ws_def)

lemma to_list_strings: "to_list to_string (map JStr xs) = Some xs"
  by (induction xs) auto

lemma Unmarshal_Marshal_strings [simp]: "Unmarshal_strings (Marshal_strings xs) = Some xs"
  by (simp add: Unmarshal_strings_def Marshal_strings_def parse_enc list_all_iff to_list_strings del: enc.simps)

end
