(* ===== verification/Store_Spec.thy ===== *)
theory Store_Spec
  imports Hades_Prelude
begin

text \<open>
  The contracts the security argument needs from a table, as locales over the operations that may
  run on it in any order:

  \<^item> \<open>latch\<close>: a fact that no operation can undo, such as a credential being revoked;
  \<^item> \<open>one_shot\<close>: a guarded update (\<open>UPDATE ... WHERE ... IS NULL\<close> with its affected-row check) that
    succeeds at most once, whatever runs in between.

  An invariant, such as primary keys being distinct, may be assumed as long as every operation
  keeps it.
\<close>

section \<open>Latches\<close>

locale latch =
  fixes step :: "'op \<Rightarrow> 's \<Rightarrow> 's"
    and inv :: "'s \<Rightarrow> bool"
    and latched :: "'s \<Rightarrow> bool"
  assumes step_inv: "inv s \<Longrightarrow> inv (step a s)"
    and step_latched: "inv s \<Longrightarrow> latched s \<Longrightarrow> latched (step a s)"
begin

lemma run_inv: "inv s \<Longrightarrow> inv (fold step as s)"
  by (induction as arbitrary: s) (simp_all add: step_inv)

lemma run_latched: "inv s \<Longrightarrow> latched s \<Longrightarrow> latched (fold step as s)"
  by (induction as arbitrary: s) (simp_all add: step_inv step_latched)

end

section \<open>Guarded updates\<close>

text \<open>Running operations that report whether they succeeded.\<close>

fun outcomes :: "('op \<Rightarrow> 's \<Rightarrow> bool \<times> 's) \<Rightarrow> 'op list \<Rightarrow> 's \<Rightarrow> bool list" where
  "outcomes f [] s = []"
| "outcomes f (a # as) s = fst (f a s) # outcomes f as (snd (f a s))"

definition successes :: "bool list \<Rightarrow> nat" where
  "successes bs = length (filter id bs)"

lemma successes_simps [simp]:
  "successes [] = 0" "successes (b # bs) = (if b then 1 else 0) + successes bs"
  by (simp_all add: successes_def)

locale one_shot =
  fixes attempt :: "'op \<Rightarrow> 's \<Rightarrow> bool \<times> 's"
    and inv :: "'s \<Rightarrow> bool"
    and used :: "'s \<Rightarrow> bool"
  assumes attempt_inv: "inv s \<Longrightarrow> inv (snd (attempt a s))"
    and attempt_keeps: "inv s \<Longrightarrow> used s \<Longrightarrow> used (snd (attempt a s))"
    and attempt_refused: "inv s \<Longrightarrow> used s \<Longrightarrow> \<not> fst (attempt a s)"
    and attempt_uses: "inv s \<Longrightarrow> fst (attempt a s) \<Longrightarrow> used (snd (attempt a s))"

sublocale one_shot \<subseteq> latch "\<lambda>a s. snd (attempt a s)" inv used
  by unfold_locales (simp_all add: attempt_inv attempt_keeps)

context one_shot
begin

lemma none_after_use: "inv s \<Longrightarrow> used s \<Longrightarrow> successes (outcomes attempt as s) = 0"
  by (induction as arbitrary: s) (simp_all add: attempt_inv attempt_keeps attempt_refused)

lemma at_most_once: "inv s \<Longrightarrow> successes (outcomes attempt as s) \<le> 1"
  by (induction as arbitrary: s) (simp_all add: attempt_inv attempt_uses none_after_use)

end

end
