(* ===== verification/Credential_Stores.thy ===== *)
theory Credential_Stores
  imports Sql_Util Json Store_Spec
begin

text \<open>
  The two credential tables of the SQLite backend: interactive sessions
  (\<open>internal/hades/storage/db/session/sqlite\<close>) and personal access tokens
  (\<open>internal/hades/storage/db/apitoken/sqlite\<close>).

  A table is a list of rows in insertion order and every statement is a function on it; nullable
  columns are options.  A generated primary key and the database clock are arguments: the key
  because SQLite draws it at random, the clock because \<open>datetime('now')\<close> has a resolution of one
  second.  Identifiers are stored without hyphens and rendered with them when a row is scanned.
  Foreign keys are not modelled here; a violation is one of the database errors a call may
  return.
\<close>

section \<open>SQL shared by the stores\<close>

definition datetime :: "time \<Rightarrow> time" where
  "datetime t = t - t mod Second"

definition NilUUID :: uuid where
  "NilUUID = ''00000000-0000-0000-0000-000000000000''"

abbreviation uniqueViolation :: err where "uniqueViolation \<equiv> SqliteErr 2067 ''UNIQUE constraint failed''"
abbreviation primaryKeyViolation :: err where "primaryKeyViolation \<equiv> SqliteErr 1555 ''PRIMARY KEY constraint failed''"

text \<open>\<open>QueryRow(...).Scan\<close>: the first matching row, scanned, or \<open>sql.ErrNoRows\<close>.\<close>

definition query_row :: "('r \<Rightarrow> bool) \<Rightarrow> ('r \<Rightarrow> 'a) \<Rightarrow> 'r list \<Rightarrow> 'a res" where
  "query_row p scan t = (case find p t of None \<Rightarrow> Inl ErrNoRows | Some r \<Rightarrow> Inr (scan r))"

text \<open>\<open>ORDER BY k DESC\<close>; rows with equal keys keep their order.\<close>

definition order_desc :: "('r \<Rightarrow> time) \<Rightarrow> 'r list \<Rightarrow> 'r list" where
  "order_desc k t = sort_key (\<lambda>r. - k r) t"

lemma set_order_desc [simp]: "set (order_desc k t) = set t"
  by (simp add: order_desc_def)

lemma length_order_desc [simp]: "length (order_desc k t) = length t"
  by (simp add: order_desc_def)

lemma query_row_Inr: "query_row p scan t = Inr a \<longleftrightarrow> (\<exists>r. find p t = Some r \<and> a = scan r)"
  by (auto simp: query_row_def split: option.splits)

lemma query_row_Inl: "query_row p scan t = Inl e \<longleftrightarrow> e = ErrNoRows \<and> (\<forall>r \<in> set t. \<not> p r)"
  by (auto simp: query_row_def find_None_iff split: option.splits dest: find_Some_in)

lemma datetime_le: "datetime t \<le> t" "t - Second < datetime t"
  by (simp_all add: datetime_def pos_mod_bound pos_mod_sign)

section \<open>Sessions\<close>

record session_row =
  ss_id :: string
  ss_user_id :: string
  ss_auth_module :: string
  ss_token_hash :: "string option"
  ss_ip_address :: "string option"
  ss_user_agent :: "string option"
  ss_create_time :: time
  ss_last_activity_at :: "time option"
  ss_absolute_expires_at :: "time option"
  ss_expires_at :: time
  ss_revoked_at :: "time option"
  ss_totp_verified :: bool

text \<open>The row a handler sees, \<open>session.SessionRow\<close>.\<close>

record SessionRow =
  ID_s :: uuid
  UserID_s :: string
  AuthModule :: string
  TokenHash_s :: string
  IPAddress :: string
  UserAgent :: string
  CreatedAt_s :: time
  LastActivityAt :: time
  AbsoluteExpiresAt :: time
  IdleExpiresAt :: time
  RevokedAt_s :: "time option"
  TOTPVerified :: bool

definition coalesce :: "'a option \<Rightarrow> 'a \<Rightarrow> 'a" where
  "coalesce v d = (case v of None \<Rightarrow> d | Some x \<Rightarrow> x)"

definition scanSQLiteSession :: "session_row \<Rightarrow> SessionRow" where
  "scanSQLiteSession r = \<lparr>
     ID_s = Canonical (ss_id r), UserID_s = Canonical (ss_user_id r),
     AuthModule = ss_auth_module r, TokenHash_s = coalesce (ss_token_hash r) [],
     IPAddress = coalesce (ss_ip_address r) [], UserAgent = coalesce (ss_user_agent r) [],
     CreatedAt_s = ss_create_time r,
     LastActivityAt = coalesce (ss_last_activity_at r) (ss_create_time r),
     AbsoluteExpiresAt = coalesce (ss_absolute_expires_at r) (ss_expires_at r),
     IdleExpiresAt = ss_expires_at r, RevokedAt_s = ss_revoked_at r,
     TOTPVerified = ss_totp_verified r\<rparr>"

definition sess_Create :: "string \<Rightarrow> time \<Rightarrow> string \<Rightarrow> string \<Rightarrow> time \<Rightarrow> session_row list \<Rightarrow> uuid res \<times> session_row list" where
  "sess_Create new_id now userId authModule expiresAt t =
     (if new_id \<in> ss_id ` set t then (Inl primaryKeyViolation, t)
      else (Inr (Canonical new_id), t @ [\<lparr>
        ss_id = new_id, ss_user_id = ID userId, ss_auth_module = authModule,
        ss_token_hash = None, ss_ip_address = None, ss_user_agent = None,
        ss_create_time = datetime now, ss_last_activity_at = None,
        ss_absolute_expires_at = None, ss_expires_at = expiresAt,
        ss_revoked_at = None, ss_totp_verified = False\<rparr>]))"

definition sess_CreateWithToken :: "string \<Rightarrow> time \<Rightarrow> string \<Rightarrow> string \<Rightarrow> string \<Rightarrow> string \<Rightarrow> string \<Rightarrow> time \<Rightarrow> time
    \<Rightarrow> session_row list \<Rightarrow> uuid res \<times> session_row list" where
  "sess_CreateWithToken new_id now userID authModule tokenHash ipAddress userAgent idleExpires absoluteExpires t =
     (if new_id \<in> ss_id ` set t then (Inl primaryKeyViolation, t)
      else (Inr (Canonical new_id), t @ [\<lparr>
        ss_id = new_id, ss_user_id = ID userID, ss_auth_module = authModule,
        ss_token_hash = Some tokenHash, ss_ip_address = Some ipAddress, ss_user_agent = Some userAgent,
        ss_create_time = datetime now, ss_last_activity_at = Some (datetime now),
        ss_absolute_expires_at = Some absoluteExpires, ss_expires_at = idleExpires,
        ss_revoked_at = None, ss_totp_verified = False\<rparr>]))"

definition sess_GetByTokenHash :: "string \<Rightarrow> session_row list \<Rightarrow> SessionRow res" where
  "sess_GetByTokenHash h = query_row (\<lambda>r. ss_token_hash r = Some h) scanSQLiteSession"

definition sess_GetByID :: "uuid \<Rightarrow> session_row list \<Rightarrow> SessionRow res" where
  "sess_GetByID i = query_row (\<lambda>r. ss_id r = UUID i) scanSQLiteSession"

definition sess_Touch :: "time \<Rightarrow> uuid \<Rightarrow> time \<Rightarrow> session_row list \<Rightarrow> session_row list" where
  "sess_Touch now i idleExpires = update_where (\<lambda>r. ss_id r = UUID i \<and> ss_revoked_at r = None)
     (\<lambda>r. r\<lparr>ss_last_activity_at := Some (datetime now), ss_expires_at := idleExpires\<rparr>)"

definition sess_Revoke :: "time \<Rightarrow> uuid \<Rightarrow> session_row list \<Rightarrow> session_row list" where
  "sess_Revoke now i = update_where (\<lambda>r. ss_id r = UUID i) (\<lambda>r. r\<lparr>ss_revoked_at := Some (datetime now)\<rparr>)"

definition sess_RevokeAllForUser :: "time \<Rightarrow> string \<Rightarrow> uuid \<Rightarrow> session_row list \<Rightarrow> session_row list" where
  "sess_RevokeAllForUser now userID exceptID =
     update_where (\<lambda>r. ss_user_id r = ID userID \<and> ss_id r \<noteq> UUID exceptID \<and> ss_revoked_at r = None)
       (\<lambda>r. r\<lparr>ss_revoked_at := Some (datetime now)\<rparr>)"

definition sess_ListByUserID :: "time \<Rightarrow> string \<Rightarrow> session_row list \<Rightarrow> SessionRow list" where
  "sess_ListByUserID now userID t = map scanSQLiteSession (take 500
     (order_desc (\<lambda>r. coalesce (ss_last_activity_at r) (- 1))
       (filter (\<lambda>r. ss_user_id r = ID userID \<and> ss_revoked_at r = None
                  \<and> datetime (ss_expires_at r) > datetime now) t)))"

definition sess_MarkTOTPVerified :: "uuid \<Rightarrow> session_row list \<Rightarrow> session_row list" where
  "sess_MarkTOTPVerified i = update_where (\<lambda>r. ss_id r = UUID i) (\<lambda>r. r\<lparr>ss_totp_verified := True\<rparr>)"

section \<open>Personal access tokens\<close>

definition encodeScopes :: "string list \<Rightarrow> string" where
  "encodeScopes scopes = (if scopes = [] then [] else Marshal_strings scopes)"

definition decodeScopes :: "string \<Rightarrow> string list" where
  "decodeScopes raw =
     (if raw = [] then []
      else if hd raw = CHR ''['' then
        (case Unmarshal_strings raw of Some out \<Rightarrow> out | None \<Rightarrow> Split raw (CHR '',''))
      else Split raw (CHR '',''))"

record token_row =
  tk_id :: string
  tk_user_id :: string
  tk_name :: string
  tk_prefix :: string
  tk_token_hash :: string
  tk_scopes :: "string option"
  tk_expires_at :: "time option"
  tk_last_used_at :: "time option"
  tk_revoked_at :: "time option"
  tk_create_time :: time

text \<open>\<open>apitoken.Row\<close>.\<close>

record TokenRow =
  ID_t :: uuid
  UserID_t :: string
  Name_t :: string
  Prefix :: string
  TokenHash_t :: string
  Scopes_t :: "string list"
  ExpiresAt_t :: "time option"
  LastUsedAt :: "time option"
  RevokedAt_t :: "time option"
  CreatedAt_t :: time

definition scanSQLiteAPITokenRow :: "token_row \<Rightarrow> TokenRow" where
  "scanSQLiteAPITokenRow r = \<lparr>
     ID_t = Canonical (tk_id r), UserID_t = Canonical (tk_user_id r), Name_t = tk_name r,
     Prefix = tk_prefix r, TokenHash_t = tk_token_hash r,
     Scopes_t = decodeScopes (coalesce (tk_scopes r) []),
     ExpiresAt_t = tk_expires_at r, LastUsedAt = tk_last_used_at r,
     RevokedAt_t = tk_revoked_at r, CreatedAt_t = tk_create_time r\<rparr>"

definition pat_Create :: "string \<Rightarrow> time \<Rightarrow> string \<Rightarrow> string \<Rightarrow> string \<Rightarrow> string \<Rightarrow> string list \<Rightarrow> time option
    \<Rightarrow> token_row list \<Rightarrow> TokenRow res \<times> token_row list" where
  "pat_Create new_id now userID name prefix tokenHash scopes expiresAt t =
     (if new_id \<in> tk_id ` set t then (Inl primaryKeyViolation, t)
      else if tokenHash \<in> tk_token_hash ` set t then (Inl uniqueViolation, t)
      else let row = \<lparr>tk_id = new_id, tk_user_id = ID userID, tk_name = name, tk_prefix = prefix,
                      tk_token_hash = tokenHash, tk_scopes = Some (encodeScopes scopes),
                      tk_expires_at = expiresAt, tk_last_used_at = None, tk_revoked_at = None,
                      tk_create_time = datetime now\<rparr>
           in (Inr (scanSQLiteAPITokenRow row), t @ [row]))"

definition pat_GetByTokenHash :: "string \<Rightarrow> token_row list \<Rightarrow> TokenRow res" where
  "pat_GetByTokenHash h = query_row (\<lambda>r. tk_token_hash r = h) scanSQLiteAPITokenRow"

definition pat_GetByID :: "uuid \<Rightarrow> token_row list \<Rightarrow> TokenRow res" where
  "pat_GetByID i = query_row (\<lambda>r. tk_id r = UUID i) scanSQLiteAPITokenRow"

definition pat_ListByUserID :: "string \<Rightarrow> int \<Rightarrow> int \<Rightarrow> token_row list \<Rightarrow> TokenRow list" where
  "pat_ListByUserID userID limit offset t =
     (let l1 = (if limit \<le> 0 then 50 else limit);
          l2 = (if l1 > 100 then 100 else l1)
      in map scanSQLiteAPITokenRow (take (nat l2) (drop (nat offset)
           (order_desc tk_create_time (filter (\<lambda>r. tk_user_id r = ID userID) t)))))"

definition pat_Revoke :: "time \<Rightarrow> uuid \<Rightarrow> token_row list \<Rightarrow> token_row list" where
  "pat_Revoke now i = update_where (\<lambda>r. tk_id r = UUID i) (\<lambda>r. r\<lparr>tk_revoked_at := Some (datetime now)\<rparr>)"

text \<open>\<open>apitoken.ErrNotFound\<close>, a sentinel of its own: it does not wrap \<open>connerr.ErrNotFound\<close>.\<close>

definition ErrTokenNotFound :: err where
  "ErrTokenNotFound = Sentinel ''token not found''"

definition pat_RevokeByOwner :: "time \<Rightarrow> uuid \<Rightarrow> string \<Rightarrow> token_row list \<Rightarrow> unit res \<times> token_row list" where
  "pat_RevokeByOwner now i userID t =
     (let p = (\<lambda>r. tk_id r = UUID i \<and> tk_user_id r = ID userID \<and> tk_revoked_at r = None);
          t' = update_where p (\<lambda>r. r\<lparr>tk_revoked_at := Some (datetime now)\<rparr>) t
      in if affected p t = 0 then (Inl ErrTokenNotFound, t') else (Inr (), t'))"

definition pat_UpdateLastUsed :: "time \<Rightarrow> uuid \<Rightarrow> token_row list \<Rightarrow> token_row list" where
  "pat_UpdateLastUsed now i = update_where (\<lambda>r. tk_id r = UUID i) (\<lambda>r. r\<lparr>tk_last_used_at := Some (datetime now)\<rparr>)"

section \<open>Facts about sessions\<close>

lemma find_append: "find p (xs @ ys) = (case find p xs of None \<Rightarrow> find p ys | Some r \<Rightarrow> Some r)"
  by (induction xs) auto

lemma coalesce_simps [simp]: "coalesce None d = d" "coalesce (Some x) d = x"
  by (simp_all add: coalesce_def)

datatype session_op =
    SCreate string time string string time
  | SCreateWithToken string time string string string string string time time
  | STouch time uuid time
  | SRevoke time uuid
  | SRevokeAllForUser time string uuid
  | SMarkTOTPVerified uuid

fun sess_step :: "session_op \<Rightarrow> session_row list \<Rightarrow> session_row list" where
  "sess_step (SCreate i n u m e) t = snd (sess_Create i n u m e t)"
| "sess_step (SCreateWithToken i n u m h ip ua e a) t = snd (sess_CreateWithToken i n u m h ip ua e a t)"
| "sess_step (STouch n i e) t = sess_Touch n i e t"
| "sess_step (SRevoke n i) t = sess_Revoke n i t"
| "sess_step (SRevokeAllForUser n u x) t = sess_RevokeAllForUser n u x t"
| "sess_step (SMarkTOTPVerified i) t = sess_MarkTOTPVerified i t"

lemmas sess_update_defs = sess_Touch_def sess_Revoke_def sess_RevokeAllForUser_def sess_MarkTOTPVerified_def
lemmas sess_create_defs = sess_Create_def sess_CreateWithToken_def

text \<open>The session that token hash \<open>h\<close> finds exists and is revoked.\<close>

definition sess_revoked :: "string \<Rightarrow> session_row list \<Rightarrow> bool" where
  "sess_revoked h t = (case find (\<lambda>r. ss_token_hash r = Some h) t of
     None \<Rightarrow> False | Some r \<Rightarrow> ss_revoked_at r \<noteq> None)"

lemma sess_step_ids: "distinct (map ss_id t) \<Longrightarrow> distinct (map ss_id (sess_step a t))"
  by (cases a) (auto simp: sess_create_defs sess_update_defs map_update_where)

lemma sess_step_revoked: "sess_revoked h t \<Longrightarrow> sess_revoked h (sess_step a t)"
  by (cases a) (auto simp: sess_revoked_def sess_create_defs sess_update_defs find_update_where find_append
      split: option.splits)

interpretation sess: latch sess_step "\<lambda>t. distinct (map ss_id t)" "sess_revoked h" for h
  by unfold_locales (simp_all add: sess_step_ids sess_step_revoked)

lemma sess_GetByTokenHash_revoked:
  "sess_revoked h t \<longleftrightarrow> (\<exists>r. sess_GetByTokenHash h t = Inr r \<and> RevokedAt_s r \<noteq> None)"
  by (auto simp: sess_revoked_def sess_GetByTokenHash_def query_row_def scanSQLiteSession_def split: option.splits)

lemma sess_Revoke_revokes:
  assumes "sess_GetByTokenHash h t = Inr r" and "\<forall>x \<in> set t. is_hex32 (ss_id x)"
  shows "sess_revoked h (sess_Revoke now (ID_s r) t)"
proof -
  obtain x where x: "find (\<lambda>r. ss_token_hash r = Some h) t = Some x" "r = scanSQLiteSession x"
    using assms(1) by (auto simp: sess_GetByTokenHash_def query_row_Inr)
  then have "ss_id x = UUID (ID_s r)"
    using assms(2) find_Some_in [OF x(1)] by (simp add: scanSQLiteSession_def UUID_def ID_Canonical)
  with x show ?thesis by (simp add: sess_revoked_def sess_Revoke_def find_update_where)
qed

section \<open>Facts about access tokens\<close>

lemma decode_encode_scopes: "decodeScopes (encodeScopes scopes) = scopes"
proof (cases "scopes = []")
  case False
  have "\<exists>r. Marshal_strings scopes = CHR ''['' # r" by (simp add: Marshal_strings_def)
  then have "Marshal_strings scopes \<noteq> []" "hd (Marshal_strings scopes) = CHR ''[''" by auto
  with False show ?thesis by (simp add: decodeScopes_def encodeScopes_def)
qed (simp add: decodeScopes_def encodeScopes_def)

datatype token_op =
    TCreate string time string string string string "string list" "time option"
  | TRevoke time uuid
  | TRevokeByOwner time uuid string
  | TUpdateLastUsed time uuid

fun pat_step :: "token_op \<Rightarrow> token_row list \<Rightarrow> token_row list" where
  "pat_step (TCreate i n u nm p h sc e) t = snd (pat_Create i n u nm p h sc e t)"
| "pat_step (TRevoke n i) t = pat_Revoke n i t"
| "pat_step (TRevokeByOwner n i u) t = snd (pat_RevokeByOwner n i u t)"
| "pat_step (TUpdateLastUsed n i) t = pat_UpdateLastUsed n i t"

lemma pat_RevokeByOwner_snd [simp]:
  "snd (pat_RevokeByOwner now i u t) =
     update_where (\<lambda>r. tk_id r = UUID i \<and> tk_user_id r = ID u \<and> tk_revoked_at r = None)
       (\<lambda>r. r\<lparr>tk_revoked_at := Some (datetime now)\<rparr>) t"
  by (simp add: pat_RevokeByOwner_def Let_def)

lemma pat_RevokeByOwner_fst:
  "fst (pat_RevokeByOwner now i u t) = Inr () \<longleftrightarrow>
     (\<exists>r \<in> set t. tk_id r = UUID i \<and> tk_user_id r = ID u \<and> tk_revoked_at r = None)"
  by (auto simp: pat_RevokeByOwner_def Let_def)

lemmas pat_update_defs = pat_Revoke_def pat_UpdateLastUsed_def

definition pat_revoked :: "string \<Rightarrow> token_row list \<Rightarrow> bool" where
  "pat_revoked h t = (case find (\<lambda>r. tk_token_hash r = h) t of
     None \<Rightarrow> False | Some r \<Rightarrow> tk_revoked_at r \<noteq> None)"

definition pat_keys :: "token_row list \<Rightarrow> bool" where
  "pat_keys t \<longleftrightarrow> distinct (map tk_id t) \<and> distinct (map tk_token_hash t)"

lemma pat_step_keys: "pat_keys t \<Longrightarrow> pat_keys (pat_step a t)"
  by (cases a) (auto simp: pat_keys_def pat_Create_def Let_def pat_update_defs map_update_where)

lemma pat_step_revoked: "pat_revoked h t \<Longrightarrow> pat_revoked h (pat_step a t)"
  by (cases a) (auto simp: pat_revoked_def pat_Create_def Let_def pat_update_defs find_update_where find_append
      split: option.splits)

interpretation pat: latch pat_step pat_keys "pat_revoked h" for h
  by unfold_locales (simp_all add: pat_step_keys pat_step_revoked)

lemma pat_GetByTokenHash_revoked:
  "pat_revoked h t \<longleftrightarrow> (\<exists>r. pat_GetByTokenHash h t = Inr r \<and> RevokedAt_t r \<noteq> None)"
  by (auto simp: pat_revoked_def pat_GetByTokenHash_def query_row_def scanSQLiteAPITokenRow_def split: option.splits)

text \<open>Revoking the token with id \<open>i\<close> succeeds once: any interleaving of the store's operations
  reports at most one success.\<close>

fun pat_attempt :: "uuid \<Rightarrow> token_op \<Rightarrow> token_row list \<Rightarrow> bool \<times> token_row list" where
  "pat_attempt i (TRevokeByOwner n j u) t =
     (j = i \<and> fst (pat_RevokeByOwner n j u t) = Inr (), snd (pat_RevokeByOwner n j u t))"
| "pat_attempt i a t = (False, pat_step a t)"

definition pat_id_revoked :: "uuid \<Rightarrow> token_row list \<Rightarrow> bool" where
  "pat_id_revoked i t \<longleftrightarrow> (\<exists>r \<in> set t. tk_id r = UUID i \<and> tk_revoked_at r \<noteq> None)"

lemma pat_attempt_snd: "snd (pat_attempt i a t) = pat_step a t"
  by (cases a) auto

lemma pat_step_id_revoked: "pat_id_revoked i t \<Longrightarrow> pat_id_revoked i (pat_step a t)"
  unfolding pat_id_revoked_def
  by (cases a) (auto simp: pat_Create_def Let_def pat_update_defs intro!: bex_update_keeps)

interpretation pat_once: one_shot "pat_attempt i" pat_keys "pat_id_revoked i" for i
proof unfold_locales
  fix s a
  assume k: "pat_keys s"
  show "pat_keys (snd (pat_attempt i a s))" using k by (simp add: pat_attempt_snd pat_step_keys)
  { assume "pat_id_revoked i s"
    then show "pat_id_revoked i (snd (pat_attempt i a s))" by (simp add: pat_attempt_snd pat_step_id_revoked) }
  { assume "pat_id_revoked i s"
    with k show "\<not> fst (pat_attempt i a s)"
      by (cases a) (auto simp: pat_id_revoked_def pat_RevokeByOwner_fst pat_keys_def dest: distinct_map_eq) }
  { assume "fst (pat_attempt i a s)"
    then show "pat_id_revoked i (snd (pat_attempt i a s))"
      unfolding pat_id_revoked_def
      by (cases a) (auto simp: pat_RevokeByOwner_fst intro!: bex_update_sets) }
qed

end
