(* ===== verification/Factor_Stores.thy ===== *)
theory Factor_Stores
  imports Credential_Stores "HOL-Library.Word"
begin

text \<open>
  The tables behind the second factor: TOTP secrets
  (\<open>internal/hades/storage/db/totpsecret/sqlite\<close>) with the high-water mark of the time steps
  already accepted, and backup codes (\<open>internal/hades/storage/db/backupcode/sqlite\<close>).
\<close>

section \<open>TOTP secrets\<close>

record totp_row =
  tp_id :: string
  tp_user_id :: string
  tp_secret_enc :: string
  tp_enabled :: bool
  tp_enrolled_at :: "time option"
  tp_create_time :: time
  tp_last_used_counter :: "int option"

text \<open>\<open>totpsecret.Row\<close>.\<close>

record TotpRow =
  ID_p :: uuid
  UserID_p :: string
  SecretEnc :: string
  Enabled :: bool
  EnrolledAt :: "time option"
  CreatedAt_p :: time
  LastUsedCounter :: "int option"

definition ErrCodeAlreadyUsed :: err where
  "ErrCodeAlreadyUsed = Sentinel ''totpsecret: this code has already been used''"

text \<open>\<open>user_id\<close> is unique, so the statement inserts one row or rewrites the user's row.\<close>

definition totp_Upsert :: "string \<Rightarrow> time \<Rightarrow> string \<Rightarrow> string \<Rightarrow> totp_row list \<Rightarrow> unit res \<times> totp_row list" where
  "totp_Upsert new_id now userID secretEnc t =
     (if \<exists>r \<in> set t. tp_user_id r = ID userID
      then (Inr (), update_where (\<lambda>r. tp_user_id r = ID userID)
              (\<lambda>r. r\<lparr>tp_secret_enc := secretEnc, tp_enabled := False, tp_enrolled_at := None,
                     tp_last_used_counter := None\<rparr>) t)
      else if new_id \<in> tp_id ` set t then (Inl primaryKeyViolation, t)
      else (Inr (), t @ [\<lparr>tp_id = new_id, tp_user_id = ID userID, tp_secret_enc = secretEnc,
              tp_enabled = False, tp_enrolled_at = None, tp_create_time = datetime now,
              tp_last_used_counter = None\<rparr>]))"

definition scan_totp :: "totp_row \<Rightarrow> TotpRow" where
  "scan_totp r = \<lparr>ID_p = Canonical (tp_id r), UserID_p = Canonical (tp_user_id r),
     SecretEnc = tp_secret_enc r, Enabled = tp_enabled r, EnrolledAt = tp_enrolled_at r,
     CreatedAt_p = tp_create_time r, LastUsedCounter = tp_last_used_counter r\<rparr>"

definition totp_GetByUserID :: "string \<Rightarrow> totp_row list \<Rightarrow> TotpRow res" where
  "totp_GetByUserID userID = query_row (\<lambda>r. tp_user_id r = ID userID) scan_totp"

definition totp_Enable :: "time \<Rightarrow> string \<Rightarrow> totp_row list \<Rightarrow> totp_row list" where
  "totp_Enable now userID = update_where (\<lambda>r. tp_user_id r = ID userID)
     (\<lambda>r. r\<lparr>tp_enabled := True, tp_enrolled_at := Some (datetime now)\<rparr>)"

text \<open>The step is an unsigned 64-bit counter bound as a signed one; the conversion is Go's
  two's-complement \<open>int64(counter)\<close>.\<close>

definition totp_ConsumeCounter :: "string \<Rightarrow> 64 word \<Rightarrow> totp_row list \<Rightarrow> unit res \<times> totp_row list" where
  "totp_ConsumeCounter userID counter t =
     (let c = sint counter;
          p = (\<lambda>r. tp_user_id r = ID userID
                 \<and> (case tp_last_used_counter r of None \<Rightarrow> True | Some l \<Rightarrow> l < c));
          t' = update_where p (\<lambda>r. r\<lparr>tp_last_used_counter := Some c\<rparr>) t
      in if affected p t = 0 then (Inl ErrCodeAlreadyUsed, t') else (Inr (), t'))"

definition totp_Delete :: "string \<Rightarrow> totp_row list \<Rightarrow> totp_row list" where
  "totp_Delete userID t = filter (\<lambda>r. tp_user_id r \<noteq> ID userID) t"

section \<open>Backup codes\<close>

record backup_row =
  bk_id :: string
  bk_user_id :: string
  bk_code_hash :: string
  bk_used_at :: "time option"
  bk_create_time :: time

text \<open>\<open>backupcode.Row\<close>.\<close>

record BackupRow =
  ID_b :: uuid
  UserID_b :: string
  CodeHash :: string
  UsedAt_b :: "time option"
  CreatedAt_b :: time

definition scan_backup :: "backup_row \<Rightarrow> BackupRow" where
  "scan_backup r = \<lparr>ID_b = Canonical (bk_id r), UserID_b = Canonical (bk_user_id r),
     CodeHash = bk_code_hash r, UsedAt_b = bk_used_at r, CreatedAt_b = bk_create_time r\<rparr>"

text \<open>The \<open>INSERT\<close> of one hash; \<open>CreateBatch\<close> repeats it.\<close>

definition backup_Create :: "string \<Rightarrow> time \<Rightarrow> string \<Rightarrow> string \<Rightarrow> backup_row list \<Rightarrow> unit res \<times> backup_row list" where
  "backup_Create new_id now userID h t =
     (if new_id \<in> bk_id ` set t then (Inl primaryKeyViolation, t)
      else (Inr (), t @ [\<lparr>bk_id = new_id, bk_user_id = ID userID, bk_code_hash = h, bk_used_at = None,
                    bk_create_time = datetime now\<rparr>]))"

definition backup_GetUnused :: "string \<Rightarrow> string \<Rightarrow> backup_row list \<Rightarrow> BackupRow res" where
  "backup_GetUnused userID codeHash =
     query_row (\<lambda>r. bk_user_id r = ID userID \<and> bk_code_hash r = codeHash \<and> bk_used_at r = None) scan_backup"

definition backup_ListByUserID :: "string \<Rightarrow> backup_row list \<Rightarrow> BackupRow list" where
  "backup_ListByUserID userID t =
     map scan_backup (sort_key bk_create_time (filter (\<lambda>r. bk_user_id r = ID userID) t))"

definition backup_MarkUsed :: "time \<Rightarrow> uuid \<Rightarrow> backup_row list \<Rightarrow> backup_row list" where
  "backup_MarkUsed now i = update_where (\<lambda>r. bk_id r = UUID i) (\<lambda>r. r\<lparr>bk_used_at := Some (datetime now)\<rparr>)"

definition backup_DeleteAllForUser :: "string \<Rightarrow> backup_row list \<Rightarrow> backup_row list" where
  "backup_DeleteAllForUser userID t = filter (\<lambda>r. bk_user_id r \<noteq> ID userID) t"

section \<open>Time steps are accepted once\<close>

text \<open>The operations that run against an enrolled secret.  Enrolling afresh and disabling replace
  the secret, and with it the meaning of a step, so they are not among them.\<close>

datatype totp_op = PEnable time string | PConsume string "64 word"

text \<open>Attempts to consume step \<open>c\<close> for user \<open>u\<close>; the other operations run in between.\<close>

fun totp_attempt :: "string \<Rightarrow> 64 word \<Rightarrow> totp_op \<Rightarrow> totp_row list \<Rightarrow> bool \<times> totp_row list" where
  "totp_attempt u c (PEnable now v) t = (False, totp_Enable now v t)"
| "totp_attempt u c (PConsume v d) t =
     (v = u \<and> d = c \<and> fst (totp_ConsumeCounter v d t) = Inr (), snd (totp_ConsumeCounter v d t))"

definition totp_used :: "string \<Rightarrow> 64 word \<Rightarrow> totp_row list \<Rightarrow> bool" where
  "totp_used u c t \<longleftrightarrow> (\<exists>r \<in> set t. tp_user_id r = ID u \<and>
     (case tp_last_used_counter r of None \<Rightarrow> False | Some l \<Rightarrow> sint c \<le> l))"

definition totp_keys :: "totp_row list \<Rightarrow> bool" where
  "totp_keys t \<longleftrightarrow> distinct (map tp_user_id t)"

lemma totp_ConsumeCounter_snd:
  "snd (totp_ConsumeCounter u c t) = update_where (\<lambda>r. tp_user_id r = ID u
       \<and> (case tp_last_used_counter r of None \<Rightarrow> True | Some l \<Rightarrow> l < sint c))
     (\<lambda>r. r\<lparr>tp_last_used_counter := Some (sint c)\<rparr>) t"
  by (simp add: totp_ConsumeCounter_def Let_def)

lemma totp_ConsumeCounter_ok:
  "fst (totp_ConsumeCounter u c t) = Inr () \<longleftrightarrow> (\<exists>r \<in> set t. tp_user_id r = ID u
       \<and> (case tp_last_used_counter r of None \<Rightarrow> True | Some l \<Rightarrow> l < sint c))"
  by (auto simp: totp_ConsumeCounter_def Let_def)

lemma totp_ConsumeCounter_fst_cases:
  "fst (totp_ConsumeCounter u c t) = Inr () \<or> fst (totp_ConsumeCounter u c t) = Inl ErrCodeAlreadyUsed"
  by (simp add: totp_ConsumeCounter_def Let_def)

lemma totp_ConsumeCounter_keeps:
  assumes "totp_used u c t"
  shows "totp_used u c (snd (totp_ConsumeCounter v d t))"
  using assms unfolding totp_used_def totp_ConsumeCounter_snd
  by (rule bex_update_keeps) (auto split: option.splits)

lemma totp_ConsumeCounter_uses:
  assumes "fst (totp_ConsumeCounter u c t) = Inr ()"
  shows "totp_used u c (snd (totp_ConsumeCounter u c t))"
  using assms unfolding totp_ConsumeCounter_ok totp_used_def totp_ConsumeCounter_snd
  by (rule bex_update_sets) auto

lemma totp_Enable_keeps: "totp_used u c t \<Longrightarrow> totp_used u c (totp_Enable now v t)"
  unfolding totp_used_def totp_Enable_def by (rule bex_update_keeps) auto

lemma totp_ConsumeCounter_refused:
  assumes "totp_keys t" and "totp_used u c t"
  shows "fst (totp_ConsumeCounter u c t) = Inl ErrCodeAlreadyUsed"
proof -
  obtain r l where r: "r \<in> set t" "tp_user_id r = ID u" "tp_last_used_counter r = Some l" "sint c \<le> l"
    using assms(2) by (auto simp: totp_used_def split: option.splits)
  have "x = r" if "x \<in> set t" "tp_user_id x = ID u" for x
    using assms(1) that r distinct_map_eq [of tp_user_id t x r] by (simp add: totp_keys_def)
  with r have "fst (totp_ConsumeCounter u c t) \<noteq> Inr ()" unfolding totp_ConsumeCounter_ok by fastforce
  with totp_ConsumeCounter_fst_cases show ?thesis by blast
qed

interpretation totp: one_shot "totp_attempt u c" totp_keys "totp_used u c" for u c
proof unfold_locales
  fix s a
  assume k: "totp_keys s"
  show "totp_keys (snd (totp_attempt u c a s))" using k
    by (cases a) (simp_all add: totp_keys_def totp_Enable_def totp_ConsumeCounter_snd map_update_where)
  show "totp_used u c (snd (totp_attempt u c a s))" if "totp_used u c s"
    using that by (cases a) (simp_all add: totp_Enable_keeps totp_ConsumeCounter_keeps)
  show "\<not> fst (totp_attempt u c a s)" if "totp_used u c s"
    using totp_ConsumeCounter_refused [OF k that] by (cases a) auto
  show "totp_used u c (snd (totp_attempt u c a s))" if "fst (totp_attempt u c a s)"
    using that by (cases a) (auto simp: totp_ConsumeCounter_uses)
qed

end
