(* ===== verification/Grant_Stores.thy ===== *)
theory Grant_Stores
  imports Credential_Stores
begin

text \<open>
  Tables of short-lived grants: device authorization grants
  (\<open>internal/hades/storage/db/devicegrant/sqlite\<close>), email verification tokens
  (\<open>.../emailverification/sqlite\<close>) and password reset tokens (\<open>.../passwordreset/sqlite\<close>).
\<close>

section \<open>Device grants\<close>

record grant_row =
  dg_id :: string
  dg_device_code_hash :: string
  dg_user_code :: string
  dg_user_id :: "string option"
  dg_api_token_id :: "string option"
  dg_approved_at :: "time option"
  dg_expires_at :: time
  dg_create_time :: time

text \<open>\<open>devicegrant.Row\<close>.\<close>

record GrantRow =
  ID_d :: uuid
  DeviceCodeHash :: string
  UserCode :: string
  UserID_d :: "string option"
  APITokenID :: "uuid option"
  ApprovedAt :: "time option"
  ExpiresAt_d :: time
  CreatedAt_d :: time

definition ErrAlreadyApproved :: err where
  "ErrAlreadyApproved = Sentinel ''devicegrant: grant is already approved''"

definition ErrTokenAlreadyIssued :: err where
  "ErrTokenAlreadyIssued = Sentinel ''devicegrant: a token has already been issued for this grant''"

definition scanSQLiteDeviceGrant :: "grant_row \<Rightarrow> GrantRow" where
  "scanSQLiteDeviceGrant r = \<lparr>ID_d = Canonical (dg_id r), DeviceCodeHash = dg_device_code_hash r,
     UserCode = dg_user_code r, UserID_d = map_option Canonical (dg_user_id r),
     APITokenID = map_option Canonical (dg_api_token_id r), ApprovedAt = dg_approved_at r,
     ExpiresAt_d = dg_expires_at r, CreatedAt_d = dg_create_time r\<rparr>"

definition grant_Create :: "string \<Rightarrow> time \<Rightarrow> string \<Rightarrow> string \<Rightarrow> time \<Rightarrow> grant_row list \<Rightarrow> uuid res \<times> grant_row list" where
  "grant_Create new_id now deviceCodeHash userCode expiresAt t =
     (if new_id \<in> dg_id ` set t then (Inl primaryKeyViolation, t)
      else if deviceCodeHash \<in> dg_device_code_hash ` set t \<or> userCode \<in> dg_user_code ` set t
      then (Inl uniqueViolation, t)
      else (Inr (Canonical new_id), t @ [\<lparr>dg_id = new_id, dg_device_code_hash = deviceCodeHash,
              dg_user_code = userCode, dg_user_id = None, dg_api_token_id = None,
              dg_approved_at = None, dg_expires_at = expiresAt, dg_create_time = datetime now\<rparr>]))"

definition grant_GetByDeviceCodeHash :: "string \<Rightarrow> grant_row list \<Rightarrow> GrantRow res" where
  "grant_GetByDeviceCodeHash h = query_row (\<lambda>r. dg_device_code_hash r = h) scanSQLiteDeviceGrant"

definition grant_GetByUserCode :: "string \<Rightarrow> grant_row list \<Rightarrow> GrantRow res" where
  "grant_GetByUserCode c = query_row (\<lambda>r. dg_user_code r = c) scanSQLiteDeviceGrant"

definition grant_Approve :: "time \<Rightarrow> uuid \<Rightarrow> string \<Rightarrow> grant_row list \<Rightarrow> unit res \<times> grant_row list" where
  "grant_Approve now i userID t =
     (let p = (\<lambda>r. dg_id r = UUID i \<and> dg_approved_at r = None);
          t' = update_where p (\<lambda>r. r\<lparr>dg_user_id := Some (ID userID), dg_approved_at := Some (datetime now)\<rparr>) t
      in if affected p t = 0 then (Inl ErrAlreadyApproved, t') else (Inr (), t'))"

definition grant_AttachToken :: "uuid \<Rightarrow> uuid \<Rightarrow> grant_row list \<Rightarrow> unit res \<times> grant_row list" where
  "grant_AttachToken i apiTokenID t =
     (let p = (\<lambda>r. dg_id r = UUID i \<and> dg_api_token_id r = None);
          t' = update_where p (\<lambda>r. r\<lparr>dg_api_token_id := Some (UUID apiTokenID)\<rparr>) t
      in if affected p t = 0 then (Inl ErrTokenAlreadyIssued, t') else (Inr (), t'))"

section \<open>Email verification and password reset tokens\<close>

text \<open>The two tables have the same columns.\<close>

record link_row =
  lk_id :: string
  lk_user_id :: string
  lk_token_hash :: string
  lk_expires_at :: time
  lk_used_at :: "time option"

text \<open>\<open>emailverification.Row\<close> and \<open>passwordreset.Row\<close>.\<close>

record LinkRow =
  ID_l :: uuid
  UserID_l :: string
  TokenHash_l :: string
  ExpiresAt_l :: time
  UsedAt_l :: "time option"

definition scan_link :: "link_row \<Rightarrow> LinkRow" where
  "scan_link r = \<lparr>ID_l = Canonical (lk_id r), UserID_l = Canonical (lk_user_id r),
     TokenHash_l = lk_token_hash r, ExpiresAt_l = lk_expires_at r, UsedAt_l = lk_used_at r\<rparr>"

definition link_Create :: "string \<Rightarrow> string \<Rightarrow> string \<Rightarrow> time \<Rightarrow> link_row list \<Rightarrow> unit res \<times> link_row list" where
  "link_Create new_id userID tokenHash expiresAt t =
     (if new_id \<in> lk_id ` set t then (Inl primaryKeyViolation, t)
      else if tokenHash \<in> lk_token_hash ` set t then (Inl uniqueViolation, t)
      else (Inr (), t @ [\<lparr>lk_id = new_id, lk_user_id = ID userID, lk_token_hash = tokenHash,
              lk_expires_at = expiresAt, lk_used_at = None\<rparr>]))"

definition emailver_Create :: "string \<Rightarrow> string \<Rightarrow> string \<Rightarrow> time \<Rightarrow> link_row list \<Rightarrow> unit res \<times> link_row list" where
  "emailver_Create = link_Create"

definition emailver_GetByTokenHash :: "string \<Rightarrow> link_row list \<Rightarrow> LinkRow res" where
  "emailver_GetByTokenHash h = query_row (\<lambda>r. lk_token_hash r = h) scan_link"

definition emailver_MarkUsed :: "time \<Rightarrow> uuid \<Rightarrow> link_row list \<Rightarrow> link_row list" where
  "emailver_MarkUsed now i = update_where (\<lambda>r. lk_id r = UUID i) (\<lambda>r. r\<lparr>lk_used_at := Some (datetime now)\<rparr>)"

definition pwreset_Create :: "string \<Rightarrow> string \<Rightarrow> string \<Rightarrow> time \<Rightarrow> link_row list \<Rightarrow> unit res \<times> link_row list" where
  "pwreset_Create = link_Create"

definition pwreset_GetByTokenHash :: "string \<Rightarrow> link_row list \<Rightarrow> LinkRow res" where
  "pwreset_GetByTokenHash h = query_row (\<lambda>r. lk_token_hash r = h) scan_link"

definition pwreset_InvalidateForUser :: "time \<Rightarrow> string \<Rightarrow> link_row list \<Rightarrow> link_row list" where
  "pwreset_InvalidateForUser now userID =
     update_where (\<lambda>r. lk_user_id r = ID userID \<and> lk_used_at r = None) (\<lambda>r. r\<lparr>lk_used_at := Some (datetime now)\<rparr>)"

definition pwreset_MarkUsed :: "time \<Rightarrow> uuid \<Rightarrow> link_row list \<Rightarrow> link_row list" where
  "pwreset_MarkUsed now i = update_where (\<lambda>r. lk_id r = UUID i) (\<lambda>r. r\<lparr>lk_used_at := Some (datetime now)\<rparr>)"

section \<open>A grant is approved once and exchanged once\<close>

datatype grant_op =
    GCreate string time string string time
  | GApprove time uuid string
  | GAttachToken uuid uuid

fun grant_step :: "grant_op \<Rightarrow> grant_row list \<Rightarrow> grant_row list" where
  "grant_step (GCreate i n h c e) t = snd (grant_Create i n h c e t)"
| "grant_step (GApprove n i u) t = snd (grant_Approve n i u t)"
| "grant_step (GAttachToken i k) t = snd (grant_AttachToken i k t)"

fun approve_attempt :: "uuid \<Rightarrow> grant_op \<Rightarrow> grant_row list \<Rightarrow> bool \<times> grant_row list" where
  "approve_attempt i (GApprove n j u) t = (j = i \<and> fst (grant_Approve n j u t) = Inr (), snd (grant_Approve n j u t))"
| "approve_attempt i a t = (False, grant_step a t)"

fun attach_attempt :: "uuid \<Rightarrow> grant_op \<Rightarrow> grant_row list \<Rightarrow> bool \<times> grant_row list" where
  "attach_attempt i (GAttachToken j k) t = (j = i \<and> fst (grant_AttachToken j k t) = Inr (), snd (grant_AttachToken j k t))"
| "attach_attempt i a t = (False, grant_step a t)"

definition grant_keys :: "grant_row list \<Rightarrow> bool" where
  "grant_keys t \<longleftrightarrow> distinct (map dg_id t) \<and> distinct (map dg_device_code_hash t) \<and> distinct (map dg_user_code t)"

definition grant_approved :: "uuid \<Rightarrow> grant_row list \<Rightarrow> bool" where
  "grant_approved i t \<longleftrightarrow> (\<exists>r \<in> set t. dg_id r = UUID i \<and> dg_approved_at r \<noteq> None)"

definition grant_attached :: "uuid \<Rightarrow> grant_row list \<Rightarrow> bool" where
  "grant_attached i t \<longleftrightarrow> (\<exists>r \<in> set t. dg_id r = UUID i \<and> dg_api_token_id r \<noteq> None)"

lemma grant_Approve_snd:
  "snd (grant_Approve now i u t) = update_where (\<lambda>r. dg_id r = UUID i \<and> dg_approved_at r = None)
     (\<lambda>r. r\<lparr>dg_user_id := Some (ID u), dg_approved_at := Some (datetime now)\<rparr>) t"
  by (simp add: grant_Approve_def Let_def)

lemma grant_Approve_ok:
  "fst (grant_Approve now i u t) = Inr () \<longleftrightarrow> (\<exists>r \<in> set t. dg_id r = UUID i \<and> dg_approved_at r = None)"
  by (auto simp: grant_Approve_def Let_def)

lemma grant_AttachToken_snd:
  "snd (grant_AttachToken i k t) = update_where (\<lambda>r. dg_id r = UUID i \<and> dg_api_token_id r = None)
     (\<lambda>r. r\<lparr>dg_api_token_id := Some (UUID k)\<rparr>) t"
  by (simp add: grant_AttachToken_def Let_def)

lemma grant_AttachToken_ok:
  "fst (grant_AttachToken i k t) = Inr () \<longleftrightarrow> (\<exists>r \<in> set t. dg_id r = UUID i \<and> dg_api_token_id r = None)"
  by (auto simp: grant_AttachToken_def Let_def)

lemmas grant_snd = grant_Approve_snd grant_AttachToken_snd

lemma grant_step_keys: "grant_keys t \<Longrightarrow> grant_keys (grant_step a t)"
  by (cases a) (auto simp: grant_keys_def grant_Create_def grant_snd map_update_where)

lemma grant_step_approved: "grant_approved i t \<Longrightarrow> grant_approved i (grant_step a t)"
  unfolding grant_approved_def
  by (cases a) (auto simp: grant_Create_def grant_snd intro!: bex_update_keeps)

lemma grant_step_attached: "grant_attached i t \<Longrightarrow> grant_attached i (grant_step a t)"
  unfolding grant_attached_def
  by (cases a) (auto simp: grant_Create_def grant_snd intro!: bex_update_keeps)

lemma attempt_steps [simp]:
  "snd (approve_attempt i a t) = grant_step a t" "snd (attach_attempt i a t) = grant_step a t"
  by (cases a; simp)+

lemma grant_Approve_refused:
  assumes "grant_keys t" and "grant_approved i t"
  shows "fst (grant_Approve now i u t) \<noteq> Inr ()"
  using assms distinct_map_eq [of dg_id t]
  unfolding grant_Approve_ok grant_approved_def grant_keys_def by fastforce

lemma grant_AttachToken_refused:
  assumes "grant_keys t" and "grant_attached i t"
  shows "fst (grant_AttachToken i k t) \<noteq> Inr ()"
  using assms distinct_map_eq [of dg_id t]
  unfolding grant_AttachToken_ok grant_attached_def grant_keys_def by fastforce

interpretation approval: one_shot "approve_attempt i" grant_keys "grant_approved i" for i
proof unfold_locales
  fix s a
  assume k: "grant_keys s"
  show "grant_keys (snd (approve_attempt i a s))" using k by (simp add: grant_step_keys)
  show "grant_approved i (snd (approve_attempt i a s))" if "grant_approved i s"
    using that by (simp add: grant_step_approved)
  show "\<not> fst (approve_attempt i a s)" if "grant_approved i s"
    using grant_Approve_refused [OF k that] by (cases a) auto
  show "grant_approved i (snd (approve_attempt i a s))" if "fst (approve_attempt i a s)"
    using that unfolding grant_approved_def
    by (cases a) (auto simp: grant_Approve_ok grant_snd intro!: bex_update_sets)
qed

interpretation exchange: one_shot "attach_attempt i" grant_keys "grant_attached i" for i
proof unfold_locales
  fix s a
  assume k: "grant_keys s"
  show "grant_keys (snd (attach_attempt i a s))" using k by (simp add: grant_step_keys)
  show "grant_attached i (snd (attach_attempt i a s))" if "grant_attached i s"
    using that by (simp add: grant_step_attached)
  show "\<not> fst (attach_attempt i a s)" if "grant_attached i s"
    using grant_AttachToken_refused [OF k that] by (cases a) auto
  show "grant_attached i (snd (attach_attempt i a s))" if "fst (attach_attempt i a s)"
    using that unfolding grant_attached_def
    by (cases a) (auto simp: grant_AttachToken_ok grant_snd intro!: bex_update_sets)
qed

end
