(* ===== verification/User_Store.thy ===== *)
theory User_Store
  imports Credential_Stores "HOL-Library.Char_ord" "HOL-Library.List_Lexorder"
begin

text \<open>
  Accounts (\<open>internal/hades/storage/db/user/sqlite\<close>), role bindings
  (\<open>internal/hades/storage/db/opabinding/sqlite\<close>) and the audit log
  (\<open>internal/hades/storage/db/auditlog/sqlite\<close>).
\<close>

section \<open>Users\<close>

text \<open>The enumerations are the wire numbers: \<open>USER_TYPE_ORGANIZATION\<close> is 1 and \<open>USER_TYPE_USER\<close> 2;
  \<open>USER_STATE_UNSPECIFIED\<close> is 0, \<open>USER_STATE_ACTIVE\<close> 1, \<open>USER_STATE_DEACTIVATED\<close> 2.\<close>

definition USER_TYPE_USER :: int where "USER_TYPE_USER = 2"
definition USER_TYPE_ORGANIZATION :: int where "USER_TYPE_ORGANIZATION = 1"
definition USER_STATE_UNSPECIFIED :: int where "USER_STATE_UNSPECIFIED = 0"
definition USER_STATE_ACTIVE :: int where "USER_STATE_ACTIVE = 1"

record user_row =
  us_id :: string
  us_create_time :: time
  us_update_time :: time
  us_username :: string
  us_email :: string
  us_password :: string
  us_type :: int
  us_state :: int
  us_description :: string
  us_url :: string
  us_failed_login_count :: int
  us_locked_until :: "time option"
  us_email_verified_at :: "time option"

text \<open>\<open>identityv1.User\<close> as the store fills it; the password column is not selected.\<close>

record User =
  Id :: uuid
  CreateTime :: time
  UpdateTime :: time
  Username :: string
  Email :: string
  UType :: int
  UState :: int
  Description :: string
  Url :: string

text \<open>\<open>user.AuthFields\<close>.\<close>

record AuthFields =
  af_ID :: uuid
  af_Username :: string
  af_Email :: string
  PasswordHash :: string
  EmailVerifiedAt :: "time option"
  FailedLoginCount :: int
  LockedUntil :: "time option"

definition scanSQLiteUser :: "user_row \<Rightarrow> User" where
  "scanSQLiteUser r = \<lparr>Id = Canonical (us_id r), CreateTime = us_create_time r, UpdateTime = us_update_time r,
     Username = us_username r, Email = us_email r, UType = us_type r, UState = us_state r,
     Description = us_description r, Url = us_url r\<rparr>"

definition scan_auth :: "user_row \<Rightarrow> AuthFields" where
  "scan_auth r = \<lparr>af_ID = Canonical (us_id r), af_Username = us_username r, af_Email = us_email r,
     PasswordHash = us_password r, EmailVerifiedAt = us_email_verified_at r,
     FailedLoginCount = us_failed_login_count r, LockedUntil = us_locked_until r\<rparr>"

definition user_GetByUsername :: "string \<Rightarrow> user_row list \<Rightarrow> User res" where
  "user_GetByUsername username = query_row (\<lambda>r. us_username r = username) scanSQLiteUser"

definition user_GetByID :: "string \<Rightarrow> user_row list \<Rightarrow> User res" where
  "user_GetByID i = query_row (\<lambda>r. us_id r = ID i) scanSQLiteUser"

definition user_GetByEmail :: "string \<Rightarrow> user_row list \<Rightarrow> User res" where
  "user_GetByEmail email t =
     (if email = [] then Inl ErrNoRows
      else query_row (\<lambda>r. us_email r = email \<and> us_email r \<noteq> [] \<and> us_type r = 2) scanSQLiteUser t)"

definition user_GetAuthFieldsByUsername :: "string \<Rightarrow> user_row list \<Rightarrow> AuthFields res" where
  "user_GetAuthFieldsByUsername username = query_row (\<lambda>r. us_username r = username) scan_auth"

definition user_GetAuthFieldsByID :: "string \<Rightarrow> user_row list \<Rightarrow> AuthFields res" where
  "user_GetAuthFieldsByID i = query_row (\<lambda>r. us_id r = ID i) scan_auth"

text \<open>\<open>username\<close> is unique; \<open>email\<close> is unique among non-empty addresses (the partial index of
  migration 003).\<close>

definition new_user :: "string \<Rightarrow> time \<Rightarrow> string \<Rightarrow> string \<Rightarrow> string \<Rightarrow> int \<Rightarrow> int \<Rightarrow> string \<Rightarrow> string \<Rightarrow> user_row" where
  "new_user new_id now username email password ty status description url =
     \<lparr>us_id = new_id, us_create_time = datetime now, us_update_time = datetime now,
      us_username = username, us_email = email, us_password = password, us_type = ty,
      us_state = status, us_description = description, us_url = url,
      us_failed_login_count = 0, us_locked_until = None, us_email_verified_at = None\<rparr>"

definition user_Create :: "string \<Rightarrow> time \<Rightarrow> string \<Rightarrow> string \<Rightarrow> string \<Rightarrow> int \<Rightarrow> int \<Rightarrow> string \<Rightarrow> string
    \<Rightarrow> user_row list \<Rightarrow> unit res \<times> user_row list" where
  "user_Create new_id now username email password ty status description url t =
     (if new_id \<in> us_id ` set t then (Inl primaryKeyViolation, t)
      else if username \<in> us_username ` set t \<or> email \<noteq> [] \<and> email \<in> us_email ` set t
      then (Inl uniqueViolation, t)
      else (Inr (), t @ [new_user new_id now username email password ty status description url]))"

definition user_List :: "string \<Rightarrow> int \<Rightarrow> int \<Rightarrow> user_row list \<Rightarrow> User list" where
  "user_List qry limit offset t =
     map scanSQLiteUser (take (nat limit) (drop (nat offset) (sort_key us_username
       (filter (\<lambda>r. us_type r = 2
          \<and> (qry = [] \<or> like (''%'' @ LikePrefix qry @ ''%'') (us_username r))) t))))"

definition user_Update :: "time \<Rightarrow> string \<Rightarrow> string \<Rightarrow> string \<Rightarrow> user_row list \<Rightarrow> User res \<times> user_row list" where
  "user_Update now userID description url t =
     (let t' = update_where (\<lambda>r. us_id r = ID userID)
                 (\<lambda>r. r\<lparr>us_description := description, us_url := url, us_update_time := datetime now\<rparr>) t
      in (user_GetByID (ID userID) t', t'))"

definition user_IncrementFailedLogins :: "time \<Rightarrow> string \<Rightarrow> user_row list \<Rightarrow> user_row list" where
  "user_IncrementFailedLogins now userID = update_where (\<lambda>r. us_id r = ID userID)
     (\<lambda>r. r\<lparr>us_failed_login_count := us_failed_login_count r + 1, us_update_time := datetime now\<rparr>)"

definition user_ResetFailedLogins :: "time \<Rightarrow> string \<Rightarrow> user_row list \<Rightarrow> user_row list" where
  "user_ResetFailedLogins now userID = update_where (\<lambda>r. us_id r = ID userID)
     (\<lambda>r. r\<lparr>us_failed_login_count := 0, us_locked_until := None, us_update_time := datetime now\<rparr>)"

definition user_LockUntil :: "time \<Rightarrow> string \<Rightarrow> time \<Rightarrow> user_row list \<Rightarrow> user_row list" where
  "user_LockUntil now userID until = update_where (\<lambda>r. us_id r = ID userID)
     (\<lambda>r. r\<lparr>us_locked_until := Some until, us_update_time := datetime now\<rparr>)"

definition user_SetEmailVerified :: "time \<Rightarrow> string \<Rightarrow> user_row list \<Rightarrow> user_row list" where
  "user_SetEmailVerified now userID = update_where (\<lambda>r. us_id r = ID userID)
     (\<lambda>r. r\<lparr>us_email_verified_at := Some (datetime now), us_update_time := datetime now\<rparr>)"

definition user_UpdatePassword :: "time \<Rightarrow> string \<Rightarrow> string \<Rightarrow> user_row list \<Rightarrow> user_row list" where
  "user_UpdatePassword now userID newHash = update_where (\<lambda>r. us_id r = ID userID)
     (\<lambda>r. r\<lparr>us_password := newHash, us_update_time := datetime now\<rparr>)"

section \<open>Role bindings\<close>

record binding_row =
  bd_id :: string
  bd_subject :: string
  bd_role :: string
  bd_domain :: string
  bd_created_at :: time

text \<open>\<open>INSERT OR IGNORE\<close>: a duplicate of \<open>(subject, role, domain)\<close> or of the key changes nothing.\<close>

definition binding_Create :: "string \<Rightarrow> time \<Rightarrow> string \<Rightarrow> string \<Rightarrow> string \<Rightarrow> binding_row list \<Rightarrow> binding_row list" where
  "binding_Create new_id now subject role domain t =
     (if new_id \<in> bd_id ` set t
        \<or> (subject, role, domain) \<in> (\<lambda>r. (bd_subject r, bd_role r, bd_domain r)) ` set t
      then t
      else t @ [\<lparr>bd_id = new_id, bd_subject = subject, bd_role = role, bd_domain = domain,
                 bd_created_at = datetime now\<rparr>])"

fun binding_CreateBatch :: "(nat \<Rightarrow> string) \<Rightarrow> nat \<Rightarrow> time \<Rightarrow> (string \<times> string \<times> string) list \<Rightarrow> binding_row list \<Rightarrow> binding_row list" where
  "binding_CreateBatch new_id n now [] t = t"
| "binding_CreateBatch new_id n now ((subject, role, domain) # bs) t =
     binding_CreateBatch new_id (n + 1) now bs (binding_Create (new_id n) now subject role domain t)"

definition binding_Delete :: "string \<Rightarrow> binding_row list \<Rightarrow> binding_row list" where
  "binding_Delete i t = filter (\<lambda>r. bd_id r \<noteq> ID i) t"

definition binding_ListBySubject :: "string \<Rightarrow> binding_row list \<Rightarrow> binding_row list" where
  "binding_ListBySubject subject t = sort_key bd_created_at (filter (\<lambda>r. bd_subject r = subject) t)"

definition binding_DeleteBySubjectDomain :: "string \<Rightarrow> string \<Rightarrow> binding_row list \<Rightarrow> binding_row list" where
  "binding_DeleteBySubjectDomain subject domain t =
     filter (\<lambda>r. \<not> (bd_subject r = subject \<and> bd_domain r = domain)) t"

section \<open>Audit log\<close>

datatype audit_event =
    LOGIN_SUCCESS | LOGIN_FAILED | ACCOUNT_LOCKED | EMAIL_VERIFIED | LOGOUT | PASSWORD_RESET
  | PASSWORD_CHANGED | API_TOKEN_CREATED | API_TOKEN_REVOKED | MODULE_CREATED | MODULE_UPDATED
  | SESSION_REVOKED | TOTP_ENABLED | TOTP_DISABLED | OAUTH_LINKED | OAUTH_UNLINKED

text \<open>The metadata map is kept as its key/value text; the values the handlers record are strings,
  numbers, booleans and lists of strings, the latter as their JSON text.\<close>

record audit_row =
  au_id :: string
  au_user_id :: "string option"
  au_event :: audit_event
  au_ip_address :: string
  au_user_agent :: string
  au_metadata :: "(string \<times> string) list"
  au_create_time :: time

definition audit_Create :: "string \<Rightarrow> time \<Rightarrow> string option \<Rightarrow> audit_event \<Rightarrow> string \<Rightarrow> string \<Rightarrow> (string \<times> string) list
    \<Rightarrow> audit_row list \<Rightarrow> unit res \<times> audit_row list" where
  "audit_Create new_id now userID event ipAddress userAgent metadata t =
     (if new_id \<in> au_id ` set t then (Inl primaryKeyViolation, t)
      else (Inr (), t @ [\<lparr>au_id = new_id, au_user_id = map_option ID userID, au_event = event,
              au_ip_address = ipAddress, au_user_agent = userAgent, au_metadata = metadata,
              au_create_time = datetime now\<rparr>]))"

definition audit_List :: "string \<Rightarrow> int \<Rightarrow> int \<Rightarrow> audit_row list \<Rightarrow> audit_row list" where
  "audit_List userID pageSize offset t =
     (let p1 = (if pageSize \<le> 0 then 50 else pageSize);
          p2 = (if p1 > 100 then 100 else p1)
      in map (\<lambda>r. r\<lparr>au_user_id := map_option Canonical (au_user_id r)\<rparr>)
           (take (nat p2) (drop (nat offset) (order_desc au_create_time
             (filter (\<lambda>r. au_user_id r = Some (ID userID)) t)))))"

section \<open>Facts about users\<close>

definition user_keys :: "user_row list \<Rightarrow> bool" where
  "user_keys t \<longleftrightarrow> distinct (map us_id t) \<and> distinct (map us_username t)
     \<and> distinct (filter (\<lambda>e. e \<noteq> []) (map us_email t)) \<and> (\<forall>r \<in> set t. is_hex32 (us_id r))"

lemmas user_update_defs = user_IncrementFailedLogins_def user_ResetFailedLogins_def
  user_LockUntil_def user_SetEmailVerified_def user_UpdatePassword_def

lemma user_keys_update:
  "(\<And>r. us_id (f r) = us_id r \<and> us_username (f r) = us_username r \<and> us_email (f r) = us_email r) \<Longrightarrow>
   user_keys t \<Longrightarrow> user_keys (update_where p f t)"
  by (simp add: user_keys_def map_update_where ball_update_where)

lemma user_keys_Create:
  assumes "user_keys t" and "is_hex32 new_id"
  shows "user_keys (snd (user_Create new_id now u e p ty st d url t))"
proof -
  have "e \<notin> set (filter (\<lambda>e. e \<noteq> []) (map us_email t))" if "e = [] \<or> e \<notin> us_email ` set t"
    using that by auto
  with assms show ?thesis by (auto simp: user_keys_def user_Create_def new_user_def)
qed

lemma user_created:
  "user_Create i now u em pw ty st de url t = (Inr x, t') \<Longrightarrow>
   i \<notin> us_id ` set t \<and> u \<notin> us_username ` set t \<and> t' = t @ [new_user i now u em pw ty st de url]"
  by (auto simp: user_Create_def split: if_splits)

lemma new_user_found:
  assumes "u \<notin> us_username ` set t"
  shows "user_GetByUsername u (t @ [new_user i now u em pw ty st de url])
       = Inr (scanSQLiteUser (new_user i now u em pw ty st de url))"
proof -
  have "find (\<lambda>r. us_username r = u) t = None" using assms by (auto simp: find_None_iff)
  then show ?thesis by (simp add: user_GetByUsername_def query_row_def find_append new_user_def)
qed

lemma new_user_Id [simp]: "Id (scanSQLiteUser (new_user i now u em pw ty st de url)) = Canonical i"
  by (simp add: scanSQLiteUser_def new_user_def)

text \<open>Under distinct keys a user row is found by its identifier and by its username.\<close>

lemma user_row_by_id:
  assumes "user_keys t" and "r \<in> set t"
  shows "find (\<lambda>x. us_id x = us_id r) t = Some r"
  using assms find_unique [of us_id t r] by (simp add: user_keys_def)

lemma user_auth_by_id:
  assumes "user_keys t" and "user_GetAuthFieldsByUsername u t = Inr af"
  shows "user_GetAuthFieldsByID (af_ID af) t = Inr af"
proof -
  obtain r where r: "find (\<lambda>r. us_username r = u) t = Some r" "af = scan_auth r"
    using assms(2) by (auto simp: user_GetAuthFieldsByUsername_def query_row_Inr)
  then have "r \<in> set t" using find_Some_in by fast
  moreover from this have "ID (af_ID af) = us_id r"
    using assms(1) r(2) by (simp add: scan_auth_def user_keys_def ID_Canonical)
  ultimately show ?thesis
    using user_row_by_id [OF assms(1)] r(2) by (simp add: user_GetAuthFieldsByID_def query_row_def)
qed

end
