(* ===== verification/Sha256.thy ===== *)
theory Sha256
  imports Json "HOL-Library.Word"
begin

text \<open>
  \<open>HashToken\<close> of \<open>utils/crypto/token.go\<close>: the lower-case hexadecimal text of the SHA-256 digest.
  The digest is Go's \<open>crypto/sha256\<close>, defined here as in FIPS 180-4 on 32-bit words.  Nothing
  proved about the registry rests on properties of the digest; it is defined so that the model
  computes the same hashes the server stores.
\<close>

unbundle bit_operations_syntax

type_synonym w32 = "32 word"

definition sha_k :: "w32 list" where
  "sha_k = [
   1116352408, 1899447441, 3049323471, 3921009573, 961987163, 1508970993, 2453635748, 2870763221,
   3624381080, 310598401, 607225278, 1426881987, 1925078388, 2162078206, 2614888103, 3248222580,
   3835390401, 4022224774, 264347078, 604807628, 770255983, 1249150122, 1555081692, 1996064986,
   2554220882, 2821834349, 2952996808, 3210313671, 3336571891, 3584528711, 113926993, 338241895,
   666307205, 773529912, 1294757372, 1396182291, 1695183700, 1986661051, 2177026350, 2456956037,
   2730485921, 2820302411, 3259730800, 3345764771, 3516065817, 3600352804, 4094571909, 275423344,
   430227734, 506948616, 659060556, 883997877, 958139571, 1322822218, 1537002063, 1747873779,
   1955562222, 2024104815, 2227730452, 2361852424, 2428436474, 2756734187, 3204031479, 3329325298]"

definition sha_init :: "w32 list" where
  "sha_init = [1779033703, 3144134277, 1013904242, 2773480762,
               1359893119, 2600822924, 528734635, 1541459225]"

definition rotr :: "nat \<Rightarrow> w32 \<Rightarrow> w32" where
  "rotr n x = word_rotr n x"

definition small_sigma0 :: "w32 \<Rightarrow> w32" where
  "small_sigma0 x = rotr 7 x XOR rotr 18 x XOR drop_bit 3 x"
definition small_sigma1 :: "w32 \<Rightarrow> w32" where
  "small_sigma1 x = rotr 17 x XOR rotr 19 x XOR drop_bit 10 x"
definition big_sigma0 :: "w32 \<Rightarrow> w32" where
  "big_sigma0 x = rotr 2 x XOR rotr 13 x XOR rotr 22 x"
definition big_sigma1 :: "w32 \<Rightarrow> w32" where
  "big_sigma1 x = rotr 6 x XOR rotr 11 x XOR rotr 25 x"

text \<open>The message schedule: sixteen words extended to sixty-four, kept newest first.\<close>

fun schedule :: "nat \<Rightarrow> w32 list \<Rightarrow> w32 list" where
  "schedule 0 ws = ws"
| "schedule (Suc n) ws =
     schedule n ((small_sigma1 (ws ! 1) + ws ! 6 + small_sigma0 (ws ! 14) + ws ! 15) # ws)"

fun sha_round :: "w32 \<times> w32 \<Rightarrow> w32 list \<Rightarrow> w32 list" where
  "sha_round (k, w) [a, b, c, d, e, f, g, h] =
     (let t1 = h + big_sigma1 e + ((e AND f) XOR (NOT e AND g)) + k + w;
          t2 = big_sigma0 a + ((a AND b) XOR (a AND c) XOR (b AND c))
      in [t1 + t2, a, b, c, d + t1, e, f, g])"
| "sha_round _ st = st"

definition sha_block :: "w32 list \<Rightarrow> w32 list \<Rightarrow> w32 list" where
  "sha_block ws st = map2 (+) st (fold sha_round (zip sha_k (rev (schedule 48 (rev ws)))) st)"

fun words_of :: "nat list \<Rightarrow> w32 list" where
  "words_of (a # b # c # d # r) = word_of_nat (((a * 256 + b) * 256 + c) * 256 + d) # words_of r"
| "words_of _ = []"

definition byte_at :: "nat \<Rightarrow> nat \<Rightarrow> nat" where
  "byte_at n i = n div 256 ^ i mod 256"

definition sha_pad :: "nat list \<Rightarrow> nat list" where
  "sha_pad m = (let l = length m; z = (119 - l mod 64) mod 64 in
     m @ [128] @ replicate z 0 @ map (byte_at (8 * l)) [7, 6, 5, 4, 3, 2, 1, 0])"

fun sha_blocks :: "nat \<Rightarrow> w32 list \<Rightarrow> w32 list \<Rightarrow> w32 list" where
  "sha_blocks 0 ws st = st"
| "sha_blocks (Suc n) ws st = sha_blocks n (drop 16 ws) (sha_block (take 16 ws) st)"

definition Sum256 :: "string \<Rightarrow> nat list" where
  "Sum256 s = (let ws = words_of (sha_pad (map of_char s))
     in concat (map (\<lambda>w. map (byte_at (unat w)) [3, 2, 1, 0]) (sha_blocks (length ws div 16) ws sha_init)))"

definition nibble :: "nat \<Rightarrow> char" where
  "nibble n = char_of (if n < 10 then n + 48 else n + 87)"

definition EncodeToString :: "nat list \<Rightarrow> string" where
  "EncodeToString bs = concat (map (\<lambda>b. [nibble (b div 16), nibble (b mod 16)]) bs)"

definition HashToken :: "string \<Rightarrow> string" where
  "HashToken raw = EncodeToString (Sum256 raw)"

section \<open>Hexadecimal text\<close>

definition hexEncode :: "string \<Rightarrow> string" where
  "hexEncode bs = EncodeToString (map of_char bs)"

fun hexDecode :: "string \<Rightarrow> string option" where
  "hexDecode [] = Some []"
| "hexDecode [c] = None"
| "hexDecode (a # b # r) =
     (case (hex_val a, hex_val b, hexDecode r) of
        (Some x, Some y, Some bs) \<Rightarrow> Some (char_of (16 * x + y) # bs)
      | _ \<Rightarrow> None)"

lemma less_256: "(of_char b :: nat) < 256"
  by (metis of_char_mod_256 mod_less_divisor zero_less_numeral)

lemma hex_val_nibble: "n < 16 \<Longrightarrow> hex_val (nibble n) = Some n"
  by (simp add: hex_val_def nibble_def Let_def)

lemma hexDecode_hexEncode [simp]: "hexDecode (hexEncode bs) = Some bs"
proof (induction bs)
  case Nil
  then show ?case by (simp add: hexEncode_def EncodeToString_def)
next
  case (Cons b bs)
  have n: "(of_char b :: nat) div 16 < 16" using less_256 [of b] by (simp add: div_less_iff_less_mult)
  have "hexEncode (b # bs) = nibble (of_char b div 16) # nibble (of_char b mod 16) # hexEncode bs"
    by (simp add: hexEncode_def EncodeToString_def)
  with Cons n show ?case by (simp add: hex_val_nibble mult.commute)
qed

end
