(* ===== verification/Registry_Stores.thy ===== *)
theory Registry_Stores
  imports User_Store Conn_Err Sha256
begin

text \<open>
  The registry tables of the SQLite backend: modules, commits, check results, generation jobs, the
  resource index, notifications, organisation memberships, the git operation log and linked provider accounts
  (\<open>internal/hades/storage/db/{module,commit,cirun,sdkjob,resource,notification,org,gitalyoplog,oauthidentity}/sqlite\<close>).

  As in the credential stores a table is a list of rows in insertion order, which is also the order
  of SQLite's \<open>rowid\<close>, and a statement is a function on tables; a method that issues several
  statements is composed of them in \<open>Registry_Calls\<close>.
\<close>

section \<open>Rows\<close>

record module_row =
  md_id :: string
  md_create_time :: time
  md_update_time :: time
  md_name :: string
  md_owner_id :: string
  md_visibility :: int
  md_state :: int
  md_description :: string
  md_url :: string
  md_default_label_name :: string
  md_default_branch :: string
  md_lint_preset :: int
  md_breaking_enabled :: bool

record commit_row =
  cm_id :: string
  cm_create_time :: time
  cm_update_time :: time
  cm_commit_hash :: string
  cm_owner_id :: string
  cm_module_id :: string
  cm_digest_type :: int
  cm_digest_value :: "string option"
  cm_created_by_user_id :: string
  cm_source_control_url :: string

record cirun_row =
  ci_id :: string
  ci_module_id :: string
  ci_commit_hash :: string
  ci_lint_passed :: bool
  ci_breaking_passed :: bool
  ci_breaking_ran :: bool
  ci_lint_errors :: "string option"
  ci_breaking_errors :: "string option"
  ci_created_at :: time

text \<open>The text of \<open>sdk_jobs.status\<close>.\<close>

datatype job_status = Pending | Running | Succeeded | Failed | Dead

record job_row =
  jb_id :: string
  jb_commit_id :: string
  jb_module_id :: string
  jb_status :: job_status
  jb_language :: string
  jb_plugin :: string
  jb_plugin_options :: string
  jb_output_location :: "string option"
  jb_error_message :: "string option"
  jb_attempts :: int
  jb_created_at :: time
  jb_started_at :: "time option"
  jb_finished_at :: "time option"

record notification_row =
  nt_id :: string
  nt_user_id :: string
  nt_type :: string
  nt_title :: string
  nt_body :: string
  nt_resource_id :: string
  nt_read_at :: "time option"
  nt_created_at :: time

record member_row =
  om_org_id :: string
  om_member_id :: string
  om_role :: string

datatype oplog_status = OpPending | OpCompleted | OpFailed

record oplog_row =
  op_id :: string
  op_operation_type :: string
  op_status :: oplog_status
  op_module_name :: string
  op_user_id :: string
  op_commit_hash :: "string option"
  op_error_reason :: "string option"

record oauth_row =
  oa_id :: string
  oa_create_time :: time
  oa_user_id :: string
  oa_provider :: string
  oa_provider_uid :: string
  oa_email :: "string option"

record registry_db =
  module_table :: "module_row list"
  commit_table :: "commit_row list"
  cirun_table :: "cirun_row list"
  job_table :: "job_row list"
  resource_table :: "(string \<times> string) list"
  notification_table :: "notification_row list"
  member_table :: "member_row list"
  oplog_table :: "oplog_row list"
  oauth_table :: "oauth_row list"

text \<open>\<open>LIMIT ? OFFSET ?\<close>, with the clamp most listings share.\<close>

definition clamp_limit :: "int \<Rightarrow> int" where
  "clamp_limit limit = (let l = (if limit \<le> 0 then 50 else limit) in if l > 100 then 100 else l)"

definition sql_page :: "int \<Rightarrow> int \<Rightarrow> 'r list \<Rightarrow> 'r list" where
  "sql_page limit offset t = take (nat limit) (drop (nat offset) t)"

section \<open>Modules\<close>

text \<open>\<open>registryv1.Module\<close> and \<open>registryv1.ModuleRef\<close>.\<close>

record Module =
  Mod_Id :: uuid
  Mod_CreateTime :: time
  Mod_UpdateTime :: time
  Mod_Name :: string
  Mod_OwnerId :: uuid
  Mod_Visibility :: int
  Mod_State :: int
  Mod_Description :: string
  Mod_Url :: string
  Mod_DefaultLabelName :: string
  Mod_DefaultBranch :: string
  Mod_LintPreset :: int
  Mod_BreakingEnabled :: bool

record ModuleRef =
  Ref_Id :: string
  Ref_Owner :: string
  Ref_Module :: string

definition scanSQLiteModule :: "module_row \<Rightarrow> Module" where
  "scanSQLiteModule r = \<lparr>Mod_Id = Canonical (md_id r), Mod_CreateTime = md_create_time r,
     Mod_UpdateTime = md_update_time r, Mod_Name = md_name r, Mod_OwnerId = Canonical (md_owner_id r),
     Mod_Visibility = md_visibility r, Mod_State = md_state r, Mod_Description = md_description r,
     Mod_Url = md_url r, Mod_DefaultLabelName = md_default_label_name r,
     Mod_DefaultBranch = md_default_branch r, Mod_LintPreset = md_lint_preset r,
     Mod_BreakingEnabled = md_breaking_enabled r\<rparr>"

text \<open>The \<open>INSERT\<close> of \<open>Create\<close>: \<open>name\<close> is unique, and so is a non-empty \<open>url\<close>.\<close>

definition module_Insert :: "string \<Rightarrow> time \<Rightarrow> string \<Rightarrow> string \<Rightarrow> int \<Rightarrow> int \<Rightarrow> string \<Rightarrow> string \<Rightarrow> string \<Rightarrow> string
    \<Rightarrow> int \<Rightarrow> bool \<Rightarrow> module_row list \<Rightarrow> unit res \<times> module_row list" where
  "module_Insert new_id now name ownerId visibility state description url defaultLabelName defaultBranch
     lintPreset breakingEnabled t =
     (if new_id \<in> md_id ` set t then (Inl primaryKeyViolation, t)
      else if name \<in> md_name ` set t \<or> url \<noteq> [] \<and> url \<in> md_url ` set t then (Inl uniqueViolation, t)
      else (Inr (), t @ [\<lparr>md_id = new_id, md_create_time = datetime now, md_update_time = datetime now,
        md_name = name, md_owner_id = ID ownerId, md_visibility = visibility, md_state = state,
        md_description = description, md_url = url, md_default_label_name = defaultLabelName,
        md_default_branch = defaultBranch, md_lint_preset = lintPreset,
        md_breaking_enabled = breakingEnabled\<rparr>]))"

definition module_GetByName :: "string \<Rightarrow> module_row list \<Rightarrow> Module res" where
  "module_GetByName name = query_row (\<lambda>r. md_name r = name) scanSQLiteModule"

text \<open>\<open>JOIN users ON users.id = modules.owner_id WHERE users.username = owner\<close>.\<close>

definition owned_by :: "user_row list \<Rightarrow> string \<Rightarrow> module_row \<Rightarrow> bool" where
  "owned_by us owner r \<longleftrightarrow> (\<exists>u \<in> set us. us_id u = md_owner_id r \<and> us_username u = owner)"

record UpdateModuleRequest =
  um_Owner :: string
  um_Name :: string
  um_Description :: "string option"
  um_Visibility :: "int option"
  um_LintPreset :: "int option"
  um_BreakingEnabled :: "bool option"

definition module_Update_row :: "time \<Rightarrow> UpdateModuleRequest \<Rightarrow> module_row \<Rightarrow> module_row" where
  "module_Update_row now req r = r\<lparr>md_description := coalesce (um_Description req) (md_description r),
     md_visibility := coalesce (um_Visibility req) (md_visibility r),
     md_lint_preset := coalesce (um_LintPreset req) (md_lint_preset r),
     md_breaking_enabled := coalesce (um_BreakingEnabled req) (md_breaking_enabled r),
     md_update_time := datetime now\<rparr>"

definition module_Update :: "time \<Rightarrow> user_row list \<Rightarrow> UpdateModuleRequest \<Rightarrow> module_row list \<Rightarrow> module_row list" where
  "module_Update now us req t =
     (let name = um_Owner req @ ''/'' @ um_Name req in
      case find (\<lambda>r. owned_by us (um_Owner req) r \<and> md_name r = name) t of
        None \<Rightarrow> t
      | Some m \<Rightarrow> update_where (\<lambda>r. md_id r = md_id m) (module_Update_row now req) t)"

definition module_Updated :: "user_row list \<Rightarrow> UpdateModuleRequest \<Rightarrow> module_row list \<Rightarrow> Module res" where
  "module_Updated us req = query_row (\<lambda>r. owned_by us (um_Owner req) r
     \<and> md_name r = um_Owner req @ ''/'' @ um_Name req) scanSQLiteModule"

definition module_ListModules :: "user_row list \<Rightarrow> string \<Rightarrow> int \<Rightarrow> int \<Rightarrow> module_row list \<Rightarrow> Module list" where
  "module_ListModules us ownerUsername limit offset t =
     map scanSQLiteModule (sql_page (clamp_limit limit) offset (order_desc md_create_time
       (filter (\<lambda>r. ownerUsername = [] \<or> owned_by us ownerUsername r) t)))"

definition module_GetModuleByOwnerAndName :: "user_row list \<Rightarrow> string \<Rightarrow> string \<Rightarrow> module_row list \<Rightarrow> Module res" where
  "module_GetModuleByOwnerAndName us owner name t =
     (case query_row (\<lambda>r. owned_by us owner r \<and> md_name r = owner @ ''/'' @ name) scanSQLiteModule t of
        Inl e \<Rightarrow> Inl (NotFound ''module not found'')
      | Inr m \<Rightarrow> Inr m)"

definition module_GetByRef :: "ModuleRef \<Rightarrow> module_row list \<Rightarrow> Module res" where
  "module_GetByRef ref t =
     (case query_row (\<lambda>r. if Ref_Id ref \<noteq> [] then md_id r = ID (Ref_Id ref)
                          else md_name r = Ref_Owner ref @ ''/'' @ Ref_Module ref) scanSQLiteModule t of
        Inl e \<Rightarrow> Inl (if e = ErrNoRows then NotFound ''module not found'' else e)
      | Inr m \<Rightarrow> Inr m)"

definition module_CountByOwner :: "string \<Rightarrow> module_row list \<Rightarrow> int" where
  "module_CountByOwner ownerID t = int (length (filter (\<lambda>r. md_owner_id r = ID ownerID) t))"

text \<open>\<open>sqliteVisibilityPredicate\<close>: public, owned by the caller, or covered by one of the caller's
  bindings on the module or on its namespace.  \<open>substr(name, 1, instr(name, '/'))\<close> ends with the
  first slash.\<close>

definition namespace_pattern :: "string \<Rightarrow> string" where
  "namespace_pattern name = takeWhile (\<lambda>c. c \<noteq> CHR ''/'') name @ ''/*''"

definition sqliteVisibilityPredicate :: "binding_row list \<Rightarrow> string \<Rightarrow> string \<Rightarrow> module_row \<Rightarrow> bool" where
  "sqliteVisibilityPredicate bs subject subjectID r \<longleftrightarrow>
     md_visibility r = 1
     \<or> subjectID \<noteq> [] \<and> md_owner_id r = subjectID
     \<or> subject \<noteq> [] \<and> (\<exists>b \<in> set bs. bd_subject b = subject
          \<and> (bd_domain b = md_name r
             \<or> CHR ''/'' \<in> set (md_name r) \<and> bd_domain b = namespace_pattern (md_name r)))"

definition module_ListVisibleModules :: "user_row list \<Rightarrow> binding_row list \<Rightarrow> string \<Rightarrow> string \<Rightarrow> string \<Rightarrow> int \<Rightarrow> int
    \<Rightarrow> module_row list \<Rightarrow> Module list" where
  "module_ListVisibleModules us bs ownerUsername subject subjectID limit offset t =
     map scanSQLiteModule (sql_page (clamp_limit limit) offset (order_desc md_create_time
       (filter (\<lambda>r. (ownerUsername = [] \<or> owned_by us ownerUsername r)
                  \<and> sqliteVisibilityPredicate bs subject (ID subjectID) r) t)))"

section \<open>Commits\<close>

record Commit =
  Cm_Id :: uuid
  Cm_CommitHash :: string
  Cm_CreateTime :: time
  Cm_UpdateTime :: time
  Cm_OwnerId :: uuid
  Cm_ModuleId :: uuid
  Cm_DigestType :: int
  Cm_DigestValue :: string
  Cm_CreatedByUserId :: uuid
  Cm_SourceControlUrl :: string
  Cm_Owner :: string
  Cm_Module :: "Module option"

definition DIGEST_TYPE_B5 :: int where "DIGEST_TYPE_B5 = 1"

definition DecodeDigest :: "string option \<Rightarrow> string" where
  "DecodeDigest v = (case v of None \<Rightarrow> [] | Some h \<Rightarrow> (case hexDecode h of None \<Rightarrow> [] | Some b \<Rightarrow> b))"

definition scanCommit :: "string \<Rightarrow> Module option \<Rightarrow> commit_row \<Rightarrow> Commit" where
  "scanCommit owner md r = \<lparr>Cm_Id = Canonical (cm_id r), Cm_CommitHash = cm_commit_hash r,
     Cm_CreateTime = cm_create_time r, Cm_UpdateTime = cm_update_time r,
     Cm_OwnerId = Canonical (cm_owner_id r), Cm_ModuleId = Canonical (cm_module_id r),
     Cm_DigestType = cm_digest_type r, Cm_DigestValue = DecodeDigest (cm_digest_value r),
     Cm_CreatedByUserId = Canonical (cm_created_by_user_id r), Cm_SourceControlUrl = cm_source_control_url r,
     Cm_Owner = owner, Cm_Module = md\<rparr>"

text \<open>The \<open>INSERT\<close> of \<open>Create\<close>: digests are unique per module.\<close>

definition commit_Insert :: "time \<Rightarrow> uuid \<Rightarrow> string \<Rightarrow> string \<Rightarrow> string \<Rightarrow> int \<Rightarrow> string \<Rightarrow> string \<Rightarrow> string
    \<Rightarrow> commit_row list \<Rightarrow> unit res \<times> commit_row list" where
  "commit_Insert now i commitHash ownerId moduleId digestType digestValue createdByUserId sourceControlUrl t =
     (if UUID i \<in> cm_id ` set t then (Inl primaryKeyViolation, t)
      else if (\<exists>r \<in> set t. cm_module_id r = ID moduleId \<and> cm_digest_value r = Some digestValue)
      then (Inl uniqueViolation, t)
      else (Inr (), t @ [\<lparr>cm_id = UUID i, cm_create_time = datetime now, cm_update_time = datetime now,
        cm_commit_hash = commitHash, cm_owner_id = ID ownerId, cm_module_id = ID moduleId,
        cm_digest_type = digestType, cm_digest_value = Some digestValue,
        cm_created_by_user_id = ID createdByUserId, cm_source_control_url = sourceControlUrl\<rparr>]))"

text \<open>\<open>&registryv1.Module{Name: name}\<close>: every other field has its zero value.\<close>

definition only_name :: "string \<Rightarrow> Module" where
  "only_name name = \<lparr>Mod_Id = [], Mod_CreateTime = 0, Mod_UpdateTime = 0, Mod_Name = name, Mod_OwnerId = [],
     Mod_Visibility = 0, Mod_State = 0, Mod_Description = [], Mod_Url = [], Mod_DefaultLabelName = [],
     Mod_DefaultBranch = [], Mod_LintPreset = 0, Mod_BreakingEnabled = False\<rparr>"

text \<open>\<open>sqliteCommitJoinCols\<close>: a commit is listed with its owner's name and its module's name.\<close>

definition join_commit :: "user_row list \<Rightarrow> module_row list \<Rightarrow> commit_row \<Rightarrow> Commit list" where
  "join_commit us ms r =
     (case (find (\<lambda>u. us_id u = cm_owner_id r) us, find (\<lambda>m. md_id m = cm_module_id r) ms) of
        (Some u, Some m) \<Rightarrow> [scanCommit (us_username u) (Some (only_name (md_name m))) r]
      | _ \<Rightarrow> [])"

text \<open>\<open>ORDER BY c.create_time DESC, c.rowid DESC\<close>.\<close>

definition newest_first :: "commit_row list \<Rightarrow> commit_row list" where
  "newest_first t = order_desc cm_create_time (rev t)"

definition module_named :: "module_row list \<Rightarrow> commit_row \<Rightarrow> string \<Rightarrow> bool" where
  "module_named ms r name \<longleftrightarrow> (\<exists>m \<in> set ms. md_id m = cm_module_id r \<and> md_name m = name)"

text \<open>The lint and breaking settings are not selected here.  A commit without a module cannot be
  scanned: the columns of the \<open>LEFT JOIN\<close> are then \<open>NULL\<close>.\<close>

definition commit_GetCommitById :: "module_row list \<Rightarrow> string \<Rightarrow> commit_row list \<Rightarrow> Commit res" where
  "commit_GetCommitById ms i t = (case find (\<lambda>r. cm_id r = ID i) t of
     None \<Rightarrow> Inl ErrNoRows
   | Some r \<Rightarrow> (case find (\<lambda>m. md_id m = cm_module_id r) ms of
        None \<Rightarrow> Inl (OtherErr ''sql: converting NULL to string is unsupported'')
      | Some m \<Rightarrow> Inr (scanCommit []
          (Some ((scanSQLiteModule m)\<lparr>Mod_LintPreset := 0, Mod_BreakingEnabled := False\<rparr>)) r)))"

definition commit_GetCommitByDigest :: "string \<Rightarrow> string \<Rightarrow> commit_row list \<Rightarrow> Commit option" where
  "commit_GetCommitByDigest moduleID digestValue t =
     map_option (scanCommit [] None) (find (\<lambda>r. cm_module_id r = ID moduleID \<and> cm_digest_value r = Some digestValue) t)"

definition commit_ByRef :: "user_row list \<Rightarrow> module_row list \<Rightarrow> ModuleRef \<Rightarrow> commit_row list \<Rightarrow> Commit list" where
  "commit_ByRef us ms ref t =
     (if Ref_Id ref \<noteq> [] then concat (map (join_commit us ms) (filter (\<lambda>r. cm_id r = ID (Ref_Id ref)) t))
      else take 1 (concat (map (join_commit us ms)
        (newest_first (filter (\<lambda>r. module_named ms r (Ref_Owner ref @ ''/'' @ Ref_Module ref)) t)))))"

definition commit_ListByModule :: "user_row list \<Rightarrow> module_row list \<Rightarrow> string \<Rightarrow> int \<Rightarrow> int \<Rightarrow> commit_row list \<Rightarrow> Commit list" where
  "commit_ListByModule us ms moduleID limit offset t =
     sql_page (clamp_limit limit) offset (concat (map (join_commit us ms)
       (newest_first (filter (\<lambda>r. cm_module_id r = ID moduleID) t))))"

definition commit_GetByHash :: "user_row list \<Rightarrow> module_row list \<Rightarrow> string \<Rightarrow> commit_row list \<Rightarrow> Commit res" where
  "commit_GetByHash us ms h t =
     (case concat (map (join_commit us ms) (filter (\<lambda>r. cm_commit_hash r = h) t)) of
        [] \<Rightarrow> Inl ErrNotFound | c # _ \<Rightarrow> Inr c)"

definition commit_GetByHashPrefix :: "user_row list \<Rightarrow> module_row list \<Rightarrow> string \<Rightarrow> commit_row list \<Rightarrow> Commit res" where
  "commit_GetByHashPrefix us ms prefix t =
     (case concat (map (join_commit us ms) (filter (\<lambda>r. like (LikePrefix prefix @ ''%'') (cm_commit_hash r)) t)) of
        [] \<Rightarrow> Inl ErrNotFound | c # _ \<Rightarrow> Inr c)"

definition commit_DeleteByIds :: "string list \<Rightarrow> commit_row list \<Rightarrow> commit_row list" where
  "commit_DeleteByIds ids t = (if ids = [] then t else filter (\<lambda>r. cm_id r \<notin> ID ` set ids) t)"

section \<open>Check results\<close>

record CIRun =
  Ci_Id :: uuid
  Ci_ModuleId :: uuid
  Ci_CommitHash :: string
  Ci_LintPassed :: bool
  Ci_BreakingPassed :: bool
  Ci_BreakingRan :: bool
  Ci_LintErrors :: "string list"
  Ci_BreakingErrors :: "string list"
  Ci_CreateTime :: time

text \<open>The lists of complaints are stored as JSON; a list that cannot be read is an error.\<close>

definition scan_cirun :: "cirun_row \<Rightarrow> CIRun res" where
  "scan_cirun r = (case Unmarshal_strings (case ci_lint_errors r of None \<Rightarrow> ''[]'' | Some s \<Rightarrow> s) of
     None \<Rightarrow> Inl (OtherErr ''cirun: decode lint_errors'')
   | Some lint \<Rightarrow> (case Unmarshal_strings (case ci_breaking_errors r of None \<Rightarrow> ''[]'' | Some s \<Rightarrow> s) of
       None \<Rightarrow> Inl (OtherErr ''cirun: decode breaking_errors'')
     | Some breaking \<Rightarrow> Inr \<lparr>Ci_Id = Canonical (ci_id r), Ci_ModuleId = Canonical (ci_module_id r), Ci_CommitHash = ci_commit_hash r,
         Ci_LintPassed = ci_lint_passed r, Ci_BreakingPassed = ci_breaking_passed r, Ci_BreakingRan = ci_breaking_ran r,
         Ci_LintErrors = lint, Ci_BreakingErrors = breaking, Ci_CreateTime = ci_created_at r\<rparr>))"

definition cirun_GetByModuleAndCommit :: "string \<Rightarrow> string \<Rightarrow> cirun_row list \<Rightarrow> CIRun res" where
  "cirun_GetByModuleAndCommit moduleID commitHash t =
     (case query_row (\<lambda>r. ci_module_id r = ID moduleID \<and> ci_commit_hash r = commitHash) (\<lambda>r. r) t of
        Inl e \<Rightarrow> Inl e
      | Inr r \<Rightarrow> scan_cirun r)"

text \<open>\<open>json.Marshal\<close> of a slice, which may be nil.\<close>

definition Marshal_slice :: "string list option \<Rightarrow> string" where
  "Marshal_slice xs = (case xs of None \<Rightarrow> ''null'' | Some ys \<Rightarrow> Marshal_strings ys)"

text \<open>\<open>INSERT ... ON CONFLICT(module_id, commit_hash) DO UPDATE\<close>.\<close>

definition cirun_Upsert :: "string \<Rightarrow> time \<Rightarrow> string \<Rightarrow> string \<Rightarrow> bool \<Rightarrow> bool \<Rightarrow> bool \<Rightarrow> string \<Rightarrow> string
    \<Rightarrow> cirun_row list \<Rightarrow> unit res \<times> cirun_row list" where
  "cirun_Upsert new_id now moduleID commitHash lintPassed breakingPassed breakingRan lintRaw breakingRaw t =
     (let p = (\<lambda>r. ci_module_id r = ID moduleID \<and> ci_commit_hash r = commitHash) in
      if \<exists>r \<in> set t. p r
      then (Inr (), update_where p (\<lambda>r. r\<lparr>ci_lint_passed := lintPassed, ci_breaking_passed := breakingPassed,
              ci_breaking_ran := breakingRan, ci_lint_errors := Some lintRaw, ci_breaking_errors := Some breakingRaw\<rparr>) t)
      else if new_id \<in> ci_id ` set t then (Inl primaryKeyViolation, t)
      else (Inr (), t @ [\<lparr>ci_id = new_id, ci_module_id = ID moduleID, ci_commit_hash = commitHash,
              ci_lint_passed = lintPassed, ci_breaking_passed = breakingPassed, ci_breaking_ran = breakingRan,
              ci_lint_errors = Some lintRaw, ci_breaking_errors = Some breakingRaw, ci_created_at = datetime now\<rparr>]))"

section \<open>Generation jobs\<close>

definition sdk_MaxAttempts :: int where "sdk_MaxAttempts = 5"

record SDKJob =
  Job_ID :: uuid
  Job_CommitID :: uuid
  Job_ModuleID :: uuid
  Job_Status :: job_status
  Job_Language :: string
  Job_Plugin :: string
  Job_PluginOptions :: string
  Job_OutputLocation :: string
  Job_ErrorMessage :: string
  Job_Attempts :: int
  Job_CreatedAt :: time
  Job_StartedAt :: "time option"
  Job_FinishedAt :: "time option"

definition scanSQLiteJob :: "job_row \<Rightarrow> SDKJob" where
  "scanSQLiteJob r = \<lparr>Job_ID = Canonical (jb_id r), Job_CommitID = Canonical (jb_commit_id r),
     Job_ModuleID = Canonical (jb_module_id r), Job_Status = jb_status r, Job_Language = jb_language r,
     Job_Plugin = jb_plugin r, Job_PluginOptions = jb_plugin_options r,
     Job_OutputLocation = coalesce (jb_output_location r) [], Job_ErrorMessage = coalesce (jb_error_message r) [],
     Job_Attempts = jb_attempts r, Job_CreatedAt = jb_created_at r, Job_StartedAt = jb_started_at r,
     Job_FinishedAt = jb_finished_at r\<rparr>"

record GeneratorConfig =
  g_Language :: string
  g_Plugin :: string
  g_Options :: string

definition job_Insert :: "string \<Rightarrow> time \<Rightarrow> string \<Rightarrow> string \<Rightarrow> GeneratorConfig \<Rightarrow> job_row list \<Rightarrow> unit res \<times> job_row list" where
  "job_Insert new_id now commitID moduleID g t =
     (if new_id \<in> jb_id ` set t then (Inl primaryKeyViolation, t)
      else (Inr (), t @ [\<lparr>jb_id = new_id, jb_commit_id = ID commitID, jb_module_id = ID moduleID,
        jb_status = Pending, jb_language = g_Language g, jb_plugin = g_Plugin g, jb_plugin_options = g_Options g,
        jb_output_location = None, jb_error_message = None, jb_attempts = 0, jb_created_at = datetime now,
        jb_started_at = None, jb_finished_at = None\<rparr>]))"

text \<open>The two statements of \<open>ClaimPending\<close>: the candidates, and the guarded claim of one of them.\<close>

definition job_candidates :: "int \<Rightarrow> job_row list \<Rightarrow> string list" where
  "job_candidates limit t = map jb_id (take (nat limit)
     (sort_key jb_created_at (filter (\<lambda>r. jb_status r = Pending \<and> jb_attempts r < sdk_MaxAttempts) t)))"

definition claimable :: "string \<Rightarrow> job_row \<Rightarrow> bool" where
  "claimable i r \<longleftrightarrow> jb_id r = i \<and> jb_status r = Pending"

definition job_Claim :: "time \<Rightarrow> string \<Rightarrow> job_row list \<Rightarrow> nat \<times> job_row list" where
  "job_Claim now i t = (affected (claimable i) t, update_where (claimable i)
     (\<lambda>r. r\<lparr>jb_status := Running, jb_started_at := Some (datetime now), jb_attempts := jb_attempts r + 1\<rparr>) t)"

definition job_Get :: "string \<Rightarrow> job_row list \<Rightarrow> SDKJob res" where
  "job_Get i = query_row (\<lambda>r. jb_id r = i) scanSQLiteJob"

definition job_MarkSucceeded :: "time \<Rightarrow> string \<Rightarrow> string \<Rightarrow> job_row list \<Rightarrow> job_row list" where
  "job_MarkSucceeded now jobID outputLocation = update_where (\<lambda>r. jb_id r = ID jobID)
     (\<lambda>r. r\<lparr>jb_status := Succeeded, jb_output_location := Some outputLocation, jb_finished_at := Some (datetime now)\<rparr>)"

definition job_MarkFailed :: "time \<Rightarrow> string \<Rightarrow> string \<Rightarrow> int \<Rightarrow> job_row list \<Rightarrow> job_row list" where
  "job_MarkFailed now jobID errMsg attempts =
     (let status = (if attempts \<ge> sdk_MaxAttempts then Dead else Failed) in
      update_where (\<lambda>r. jb_id r = ID jobID)
        (\<lambda>r. r\<lparr>jb_status := status, jb_error_message := Some errMsg, jb_finished_at := Some (datetime now)\<rparr>))"

definition job_ListByModule :: "string \<Rightarrow> job_row list \<Rightarrow> SDKJob list" where
  "job_ListByModule moduleID t = map scanSQLiteJob (take 1000 (order_desc jb_created_at
     (filter (\<lambda>r. jb_module_id r = ID moduleID) t)))"

definition job_ListSucceededByModuleAndLang :: "string \<Rightarrow> string \<Rightarrow> job_row list \<Rightarrow> SDKJob list" where
  "job_ListSucceededByModuleAndLang moduleID language t = map scanSQLiteJob (take 1000 (order_desc jb_created_at
     (filter (\<lambda>r. jb_module_id r = ID moduleID \<and> jb_language r = language \<and> jb_status r = Succeeded) t)))"

definition job_GetByCommitAndLang :: "string \<Rightarrow> string \<Rightarrow> job_row list \<Rightarrow> SDKJob option" where
  "job_GetByCommitAndLang commitID language t =
     (case order_desc jb_created_at (filter (\<lambda>r. jb_commit_id r = ID commitID \<and> jb_language r = language
             \<and> jb_status r = Succeeded) t) of
        [] \<Rightarrow> None | r # _ \<Rightarrow> Some (scanSQLiteJob r))"

text \<open>A job without a start time is not recovered: a comparison with \<open>NULL\<close> is not true.\<close>

definition stale_job :: "time \<Rightarrow> time \<Rightarrow> job_row \<Rightarrow> bool" where
  "stale_job now timeout r \<longleftrightarrow> jb_status r = Running \<and> jb_attempts r < sdk_MaxAttempts
     \<and> (case jb_started_at r of None \<Rightarrow> False | Some s \<Rightarrow> datetime s < datetime (now - timeout))"

definition job_RecoverStaleJobs :: "time \<Rightarrow> time \<Rightarrow> job_row list \<Rightarrow> nat \<times> job_row list" where
  "job_RecoverStaleJobs now timeout t = (affected (stale_job now timeout) t,
     update_where (stale_job now timeout) (\<lambda>r. r\<lparr>jb_status := Pending, jb_started_at := None\<rparr>) t)"

section \<open>Resource index\<close>

definition ResourceTypeModule :: string where "ResourceTypeModule = ''module''"
definition ResourceTypeCommit :: string where "ResourceTypeCommit = ''commit''"

definition resource_ResolveType :: "string \<Rightarrow> (string \<times> string) list \<Rightarrow> string res" where
  "resource_ResolveType i t = (case map_of t (ID i) of None \<Rightarrow> Inl ErrNotFound | Some rt \<Rightarrow> Inr rt)"

definition resource_Register :: "string \<Rightarrow> string \<Rightarrow> (string \<times> string) list \<Rightarrow> (string \<times> string) list" where
  "resource_Register i rt t = (if map_of t (ID i) = None then t @ [(ID i, rt)] else t)"

section \<open>Notifications\<close>

definition TypeCommitPushed :: string where "TypeCommitPushed = ''commit.pushed''"
definition TypeSDKSucceeded :: string where "TypeSDKSucceeded = ''sdk.succeeded''"
definition TypeSDKFailed :: string where "TypeSDKFailed = ''sdk.failed''"

definition new_notification :: "string \<Rightarrow> time \<Rightarrow> string \<Rightarrow> string \<Rightarrow> string \<Rightarrow> string \<Rightarrow> string \<Rightarrow> notification_row" where
  "new_notification i now userID ty title body resourceID = \<lparr>nt_id = i, nt_user_id = ID userID, nt_type = ty,
     nt_title = title, nt_body = body, nt_resource_id = ID resourceID, nt_read_at = None, nt_created_at = datetime now\<rparr>"

definition notification_CreateBatch :: "string list \<Rightarrow> time \<Rightarrow> string list \<Rightarrow> string \<Rightarrow> string \<Rightarrow> string \<Rightarrow> string
    \<Rightarrow> notification_row list \<Rightarrow> unit res \<times> notification_row list" where
  "notification_CreateBatch new_ids now userIDs ty title body resourceID t =
     (if set new_ids \<inter> nt_id ` set t \<noteq> {} \<or> \<not> distinct new_ids then (Inl primaryKeyViolation, t)
      else (Inr (), t @ map (\<lambda>(i, u). new_notification i now u ty title body resourceID) (zip new_ids userIDs)))"

record Notification =
  Nt_Id :: uuid
  Nt_Type :: string
  Nt_Title :: string
  Nt_Body :: string
  Nt_ResourceId :: string
  Nt_Read :: bool
  Nt_CreateTime :: time

definition notification_ListForUser :: "string \<Rightarrow> int \<Rightarrow> int \<Rightarrow> notification_row list \<Rightarrow> Notification list" where
  "notification_ListForUser userID limit offset t =
     map (\<lambda>r. \<lparr>Nt_Id = Canonical (nt_id r), Nt_Type = nt_type r, Nt_Title = nt_title r, Nt_Body = nt_body r,
            Nt_ResourceId = nt_resource_id r, Nt_Read = (nt_read_at r \<noteq> None), Nt_CreateTime = nt_created_at r\<rparr>)
       (sql_page limit offset (order_desc nt_created_at (filter (\<lambda>r. nt_user_id r = ID userID) t)))"

definition notification_MarkRead :: "time \<Rightarrow> string \<Rightarrow> string \<Rightarrow> notification_row list \<Rightarrow> unit res \<times> notification_row list" where
  "notification_MarkRead now i userID t =
     (let p = (\<lambda>r. nt_id r = ID i \<and> nt_user_id r = ID userID \<and> nt_read_at r = None);
          t' = update_where p (\<lambda>r. r\<lparr>nt_read_at := Some (datetime now)\<rparr>) t
      in if affected p t = 0 then (Inl ErrNotFound, t') else (Inr (), t'))"

section \<open>Organisations\<close>

definition org_GetByName :: "string \<Rightarrow> user_row list \<Rightarrow> User res" where
  "org_GetByName name = query_row (\<lambda>r. us_username r = name \<and> us_type r = 1) scanSQLiteUser"

definition org_List :: "string \<Rightarrow> int \<Rightarrow> int \<Rightarrow> user_row list \<Rightarrow> User list" where
  "org_List q limit offset t = map scanSQLiteUser (sql_page limit offset (sort_key us_username
     (filter (\<lambda>r. us_type r = 1 \<and> (q = [] \<or> like (''%'' @ LikePrefix q @ ''%'') (us_username r))) t)))"

definition org_Insert :: "string \<Rightarrow> time \<Rightarrow> string \<Rightarrow> string \<Rightarrow> string \<Rightarrow> user_row list \<Rightarrow> unit res \<times> user_row list" where
  "org_Insert new_id now name description url = user_Create new_id now name [] [] 1 1 description url"

definition org_Update :: "time \<Rightarrow> string \<Rightarrow> string \<Rightarrow> string \<Rightarrow> user_row list \<Rightarrow> user_row list" where
  "org_Update now orgID description url = update_where (\<lambda>r. us_id r = ID orgID)
     (\<lambda>r. r\<lparr>us_description := description, us_url := url, us_update_time := datetime now\<rparr>)"

text \<open>\<open>INSERT ... ON CONFLICT(org_id, member_id) DO UPDATE SET role\<close>.\<close>

definition org_AddMember :: "string \<Rightarrow> string \<Rightarrow> string \<Rightarrow> member_row list \<Rightarrow> member_row list" where
  "org_AddMember orgID memberID role t =
     (let p = (\<lambda>r. om_org_id r = ID orgID \<and> om_member_id r = ID memberID);
          role' = (if role = [] then ''member'' else role)
      in if \<exists>r \<in> set t. p r then update_where p (\<lambda>r. r\<lparr>om_role := role'\<rparr>) t
         else t @ [\<lparr>om_org_id = ID orgID, om_member_id = ID memberID, om_role = role'\<rparr>])"

definition org_RemoveMember :: "string \<Rightarrow> string \<Rightarrow> member_row list \<Rightarrow> member_row list" where
  "org_RemoveMember orgID memberID = filter (\<lambda>r. \<not> (om_org_id r = ID orgID \<and> om_member_id r = ID memberID))"

definition org_GetUserOrgs :: "string \<Rightarrow> user_row list \<Rightarrow> member_row list \<Rightarrow> User list" where
  "org_GetUserOrgs memberID us t = map scanSQLiteUser (take 1000 (sort_key us_username
     (concat (map (\<lambda>m. filter (\<lambda>u. us_id u = om_org_id m) us) (filter (\<lambda>m. om_member_id m = ID memberID) t)))))"

definition org_CountMembers :: "string \<Rightarrow> member_row list \<Rightarrow> int" where
  "org_CountMembers orgID t = int (length (filter (\<lambda>r. om_org_id r = ID orgID) t))"

definition org_GetMemberRole :: "string \<Rightarrow> string \<Rightarrow> member_row list \<Rightarrow> string res" where
  "org_GetMemberRole orgID memberID = query_row (\<lambda>r. om_org_id r = ID orgID \<and> om_member_id r = ID memberID) om_role"

definition org_ListMembers :: "string \<Rightarrow> user_row list \<Rightarrow> member_row list \<Rightarrow> (User \<times> string) list" where
  "org_ListMembers orgID us t = map (\<lambda>(u, role). (scanSQLiteUser u, role)) (take 1000 (sort_key (us_username \<circ> fst)
     (concat (map (\<lambda>m. map (\<lambda>u. (u, om_role m)) (filter (\<lambda>u. us_id u = om_member_id m) us))
        (filter (\<lambda>m. om_org_id m = ID orgID) t)))))"

section \<open>Operation log\<close>

definition OpCreateModule :: string where "OpCreateModule = ''create_module''"
definition OpCommitFiles :: string where "OpCommitFiles = ''commit_files''"

definition oplog_Insert :: "uuid \<Rightarrow> string \<Rightarrow> string \<Rightarrow> string \<Rightarrow> oplog_row list \<Rightarrow> uuid res \<times> oplog_row list" where
  "oplog_Insert i opType moduleName userID t =
     (if UUID i \<in> op_id ` set t then (Inl primaryKeyViolation, t)
      else (Inr i, t @ [\<lparr>op_id = UUID i, op_operation_type = opType, op_status = OpPending, op_module_name = moduleName,
        op_user_id = ID userID, op_commit_hash = None, op_error_reason = None\<rparr>]))"

text \<open>\<open>NULLIF(?, '')\<close>.\<close>

definition nullif_empty :: "string \<Rightarrow> string option" where
  "nullif_empty s = (if s = [] then None else Some s)"

definition oplog_UpdateStatus :: "uuid \<Rightarrow> oplog_status \<Rightarrow> string \<Rightarrow> string \<Rightarrow> oplog_row list \<Rightarrow> oplog_row list" where
  "oplog_UpdateStatus i status commitHash errorReason = update_where (\<lambda>r. op_id r = UUID i)
     (\<lambda>r. r\<lparr>op_status := status, op_commit_hash := nullif_empty commitHash, op_error_reason := nullif_empty errorReason\<rparr>)"

section \<open>Linked provider accounts\<close>

text \<open>\<open>oauthidentity.Row\<close>; \<open>oauth_identities\<close> is unique in the pair of provider and provider uid.\<close>

record OAuthIdentity =
  oi_ID :: uuid
  oi_UserID :: uuid
  oi_Provider :: string
  oi_ProviderUID :: string
  oi_Email :: string
  oi_CreatedAt :: time

definition scan_oauth :: "oauth_row \<Rightarrow> OAuthIdentity" where
  "scan_oauth r = \<lparr>oi_ID = Canonical (oa_id r), oi_UserID = Canonical (oa_user_id r), oi_Provider = oa_provider r,
     oi_ProviderUID = oa_provider_uid r, oi_Email = coalesce (oa_email r) [], oi_CreatedAt = oa_create_time r\<rparr>"

definition oauth_Create :: "string \<Rightarrow> time \<Rightarrow> string \<Rightarrow> string \<Rightarrow> string \<Rightarrow> string \<Rightarrow> oauth_row list \<Rightarrow> unit res \<times> oauth_row list" where
  "oauth_Create new_id now userID provider providerUID email t =
     (if new_id \<in> oa_id ` set t then (Inl primaryKeyViolation, t)
      else if \<exists>r \<in> set t. oa_provider r = provider \<and> oa_provider_uid r = providerUID then (Inl uniqueViolation, t)
      else (Inr (), t @ [\<lparr>oa_id = new_id, oa_create_time = datetime now, oa_user_id = ID userID, oa_provider = provider,
        oa_provider_uid = providerUID, oa_email = Some email\<rparr>]))"

definition oauth_GetByProviderUID :: "string \<Rightarrow> string \<Rightarrow> oauth_row list \<Rightarrow> OAuthIdentity res" where
  "oauth_GetByProviderUID provider providerUID =
     query_row (\<lambda>r. oa_provider r = provider \<and> oa_provider_uid r = providerUID) scan_oauth"

definition oauth_GetByUserID :: "string \<Rightarrow> oauth_row list \<Rightarrow> OAuthIdentity list" where
  "oauth_GetByUserID userID t = map scan_oauth (filter (\<lambda>r. oa_user_id r = ID userID) t)"

definition oauth_Delete :: "uuid \<Rightarrow> oauth_row list \<Rightarrow> oauth_row list" where
  "oauth_Delete i = filter (\<lambda>r. oa_id r \<noteq> UUID i)"

definition oauth_DeleteByUserAndProvider :: "string \<Rightarrow> string \<Rightarrow> oauth_row list \<Rightarrow> oauth_row list" where
  "oauth_DeleteByUserAndProvider userID provider =
     filter (\<lambda>r. \<not> (oa_user_id r = ID userID \<and> oa_provider r = provider))"

end
