(* ===== verification/Paths.thy ===== *)
theory Paths
  imports Names
begin

text \<open>
  Path safety: \<open>utils/paths\<close>, the repository-path check of
  \<open>internal/hades/storage/git/git.go\<close> and the confined file write of
  \<open>internal/hades/server/content/upload.go\<close>.  Go's \<open>path.Clean\<close> is modelled on segments.
\<close>

section \<open>path.Clean and filepath.Join\<close>

text \<open>The segments kept by \<open>Clean\<close>, in reverse: empty and \<open>.\<close> segments disappear, \<open>..\<close> removes
  the segment before it, and at the start of the path it is kept unless the path is rooted.\<close>

fun clean_segs :: "bool \<Rightarrow> string list \<Rightarrow> string list \<Rightarrow> string list" where
  "clean_segs rooted acc [] = rev acc"
| "clean_segs rooted acc (s # ss) =
     (if s = [] \<or> s = ''.'' then clean_segs rooted acc ss
      else if s = ''..'' then
        (case acc of
           [] \<Rightarrow> clean_segs rooted (if rooted then [] else [''..'']) ss
         | a # as \<Rightarrow> if a = ''..'' then clean_segs rooted (''..'' # acc) ss
                    else clean_segs rooted as ss)
      else clean_segs rooted (s # acc) ss)"

definition Clean :: "string \<Rightarrow> string" where
  "Clean p = (let rooted = HasPrefix p ''/''; segs = clean_segs rooted [] (Split p (CHR ''/'')) in
     if rooted then ''/'' @ Join segs ''/''
     else if segs = [] then ''.'' else Join segs ''/'')"

definition filepath_Join :: "string list \<Rightarrow> string" where
  "filepath_Join elems = (let es = filter (\<lambda>e. e \<noteq> []) elems in
     if es = [] then [] else Clean (Join es ''/''))"

definition IsAbs :: "string \<Rightarrow> bool" where
  "IsAbs p = HasPrefix p ''/''"

section \<open>utils/paths\<close>

record upload_file =
  Path :: string
  Content :: string

definition allowedFiles :: "string list" where
  "allowedFiles = [''buf.md'', ''README.md'', ''README.markdown'', ''LICENSE'']"

definition maxPathLength :: nat where "maxPathLength = 4096"

text \<open>The error is the text up to the quoted path that \<open>fmt.Errorf\<close> appends.\<close>

fun scan_segs :: "string list \<Rightarrow> string option" where
  "scan_segs [] = None"
| "scan_segs (seg # rest) =
     (if seg = [] then Some ''path has an empty segment''
      else if seg = ''.'' then Some ''path has a . segment''
      else if seg = ''..'' then Some ''path has a .. segment''
      else scan_segs rest)"

definition ValidatePath :: "string \<Rightarrow> string option" where
  "ValidatePath p =
     (if p = [] then Some ''path is empty''
      else if length p > maxPathLength then Some ''path exceeds 4096 characters''
      else if Contains p (CHR 0x00) then Some ''path contains a NUL byte''
      else if Contains p (CHR 0x5C) then Some ''path contains a backslash''
      else if HasPrefix p ''/'' then Some ''path is absolute''
      else case scan_segs (Split p (CHR ''/'')) of
        Some e \<Rightarrow> Some e
      | None \<Rightarrow>
          (let cleaned = Clean p in
           if cleaned \<noteq> p \<or> HasPrefix cleaned ''..'' \<or> IsAbs cleaned
           then Some ''path is not a normalised relative path'' else None))"

fun GetPath :: "upload_file list \<Rightarrow> upload_file list" where
  "GetPath [] = []"
| "GetPath (f # fs) =
     (if ValidatePath (Path f) \<noteq> None then GetPath fs
      else if HasSuffix (Path f) ''.proto'' \<or> Path f \<in> set allowedFiles then f # GetPath fs
      else GetPath fs)"

fun Validate :: "upload_file list \<Rightarrow> string option" where
  "Validate [] = None"
| "Validate (f # fs) = (case ValidatePath (Path f) of Some e \<Rightarrow> Some e | None \<Rightarrow> Validate fs)"

section \<open>Repository paths\<close>

definition is_seg_start :: "char \<Rightarrow> bool" where
  "is_seg_start c = (is_alnum c \<or> is_upper c)"

text \<open>\<open>^[A-Za-z0-9][A-Za-z0-9._-]*$\<close>\<close>

fun repoSegmentRe :: "string \<Rightarrow> bool" where
  "repoSegmentRe [] = False"
| "repoSegmentRe (c # cs) = (is_seg_start c \<and> list_all (\<lambda>x. is_name_char x \<or> is_upper x) cs)"

definition ValidateRepoPath :: "string \<Rightarrow> string option" where
  "ValidateRepoPath repoPath =
     (if repoPath = [] then Some ''empty''
      else if ContainsAny repoPath [CHR 0x5C, CHR 0x00] then Some ''contains a backslash or NUL''
      else let segments = Split repoPath (CHR ''/'') in
        if length segments > 2 then Some ''has more than two segments''
        else if \<exists>s \<in> set segments. \<not> repoSegmentRe s then Some ''contains an unusable segment''
        else None)"

section \<open>writeProtoFile\<close>

text \<open>The destination the function writes to, or its refusal.  The directory creation and the
  write itself are left to the operating system.\<close>

datatype write_outcome = Refused string | WriteTo string

definition writeProtoFile :: "string \<Rightarrow> string \<Rightarrow> write_outcome" where
  "writeProtoFile dir relPath = (case ValidatePath relPath of
     Some e \<Rightarrow> Refused e
   | None \<Rightarrow>
       (let dest = filepath_Join [dir, relPath]; cleanDir = Clean dir @ ''/'' in
        if \<not> HasPrefix (Clean dest) cleanDir
        then Refused ''refusing to write outside the working directory'' else WriteTo dest))"

section \<open>Facts about Clean\<close>

definition plain_seg :: "string \<Rightarrow> bool" where
  "plain_seg s = (s \<noteq> [] \<and> s \<noteq> ''.'' \<and> s \<noteq> ''..'')"

lemma scan_segs_None_iff: "scan_segs ss = None \<longleftrightarrow> list_all plain_seg ss"
  by (induction ss) (auto simp: plain_seg_def)

lemma clean_segs_plain: "list_all plain_seg ss \<Longrightarrow> clean_segs r acc ss = rev acc @ ss"
  by (induction ss arbitrary: acc) (auto simp: plain_seg_def)

lemma clean_segs_append:
  "list_all plain_seg ss \<Longrightarrow> clean_segs r acc (ts @ ss) = clean_segs r acc ts @ ss"
  by (induction ts arbitrary: acc) (auto simp: clean_segs_plain split: list.splits)

text \<open>What \<open>Clean\<close> keeps of a rooted path is plain: no empty, \<open>.\<close> or \<open>..\<close> segment survives.\<close>

lemma clean_segs_rooted_plain:
  "list_all plain_seg acc \<Longrightarrow> list_all plain_seg (clean_segs True acc ss)"
proof (induction ss arbitrary: acc)
  case Nil
  then show ?case by (simp add: list_all_iff)
next
  case (Cons s ss)
  have push: "list_all plain_seg (s # acc)" if "s \<noteq> []" "s \<noteq> ''.''" "s \<noteq> ''..''"
    using that Cons.prems plain_seg_def [of s] by simp
  have pop: "list_all plain_seg (tl acc)" using Cons.prems by (cases acc) auto
  show ?case
    using Cons.IH [OF Cons.prems] Cons.IH [OF push] Cons.IH [OF pop] Cons.prems
    by (auto simp: plain_seg_def split: list.splits)
qed

lemma set_clean_segs: "set (clean_segs r acc ss) \<subseteq> insert ''..'' (set acc \<union> set ss)"
proof (induction ss arbitrary: acc)
  case Nil
  then show ?case by auto
next
  case (Cons s ss)
  show ?case
    using Cons.IH [of acc] Cons.IH [of "s # acc"] Cons.IH [of "''..'' # acc"] Cons.IH [of "tl acc"]
      Cons.IH [of "[]"] Cons.IH [of "[''..'']"]
    by (cases acc) auto
qed

lemma Clean_plain:
  assumes "list_all plain_seg (Split p (CHR ''/''))" and "p \<noteq> []"
  shows "Clean p = p" and "\<not> HasPrefix p ''/''"
proof -
  obtain s ss where sp: "Split p (CHR ''/'') = s # ss"
    by (cases "Split p (CHR ''/'')") auto
  then have pj: "p = Join (s # ss) ''/''" using Split_Join [of p "CHR ''/''"] by simp
  have "plain_seg s" using assms sp by simp
  moreover have "CHR ''/'' \<notin> set s" using Split_no_sep [of s p "CHR ''/''"] sp by simp
  ultimately obtain x xs where x: "s = x # xs" "x \<noteq> CHR ''/''"
    by (cases s) (auto simp: plain_seg_def)
  have "\<exists>t. p = s @ t" using pj by (cases ss) auto
  with x show noabs: "\<not> HasPrefix p ''/''" by (auto simp: HasPrefix_def)
  have "clean_segs False [] (Split p (CHR ''/'')) = Split p (CHR ''/'')"
    using clean_segs_plain [OF assms(1), of False "[]"] by simp
  with noabs show "Clean p = p" using Split_Join [of p "CHR ''/''"] by (simp add: Clean_def)
qed

lemma ValidatePath_None_iff:
  "ValidatePath p = None \<longleftrightarrow> p \<noteq> [] \<and> length p \<le> maxPathLength \<and> CHR 0x00 \<notin> set p
     \<and> CHR 0x5C \<notin> set p \<and> list_all plain_seg (Split p (CHR ''/'')) \<and> \<not> HasPrefix p ''..''"
  (is "?lhs \<longleftrightarrow> ?rhs")
proof
  assume h: ?lhs
  then have "list_all plain_seg (Split p (CHR ''/''))" and "p \<noteq> []"
    by (auto simp: ValidatePath_def scan_segs_None_iff [symmetric] split: if_splits option.splits)
  with h Clean_plain [of p] show ?rhs
    by (auto simp: ValidatePath_def Contains_def Let_def split: if_splits option.splits)
next
  assume h: ?rhs
  then have "scan_segs (Split p (CHR ''/'')) = None" by (simp add: scan_segs_None_iff)
  with h Clean_plain [of p] show ?lhs
    by (simp add: ValidatePath_def Contains_def IsAbs_def Let_def)
qed

lemma GetPath_filter:
  "GetPath fs = filter (\<lambda>f. ValidatePath (Path f) = None
     \<and> (HasSuffix (Path f) ''.proto'' \<or> Path f \<in> set allowedFiles)) fs"
  by (induction fs) auto

lemma Validate_None_iff: "Validate fs = None \<longleftrightarrow> (\<forall>f \<in> set fs. ValidatePath (Path f) = None)"
  by (induction fs) (auto split: option.splits)

text \<open>\<open>ValidatePath\<close> accepts exactly the non-empty relative paths of at most 4096 bytes with
  no NUL and no backslash, all of whose segments are plain (not empty, \<open>.\<close> or \<open>..\<close>) and
  which do not begin with two dots; an accepted path is its own \<open>Clean\<close>.\<close>

theorem validate_path_exact:
  "(ValidatePath p = None \<longleftrightarrow> p \<noteq> [] \<and> length p \<le> maxPathLength \<and> CHR 0x00 \<notin> set p
     \<and> CHR 0x5C \<notin> set p \<and> list_all plain_seg (Split p (CHR ''/'')) \<and> \<not> HasPrefix p ''..'')
   \<and> (ValidatePath p = None \<longrightarrow> Clean p = p \<and> \<not> IsAbs p)"
  using Clean_plain [of p] by (auto simp: ValidatePath_None_iff IsAbs_def)

theorem validate_path_exact_witness:
  "ValidatePath ''acme/v1/api.proto'' = None \<and> Clean ''acme/v1/api.proto'' = ''acme/v1/api.proto''"
proof -
  have "ValidatePath ''acme/v1/api.proto'' = None" by code_simp
  then show ?thesis using validate_path_exact [of "''acme/v1/api.proto''"] by blast
qed

section \<open>Confinement of written files\<close>

lemma Split_append_sep: "Split (a @ c # b) c = Split a c @ Split b c"
proof (induction a)
  case Nil
  then show ?case by simp
next
  case (Cons x xs)
  then show ?case by (cases "Split xs c") auto
qed

lemma Clean_rooted:
  "HasPrefix p ''/'' \<Longrightarrow> Clean p = ''/'' @ Join (clean_segs True [] (Split p (CHR ''/''))) ''/''"
  by (simp add: Clean_def)

lemma Clean_join_rooted:
  assumes "IsAbs d" and "list_all plain_seg (Split p (CHR ''/''))" and "Clean d \<noteq> ''/''"
  shows "Clean (d @ ''/'' @ p) = Clean d @ ''/'' @ p"
proof -
  let ?S = "clean_segs True [] (Split d (CHR ''/''))"
  have abs: "HasPrefix d ''/''" "HasPrefix (d @ ''/'' @ p) ''/''"
    using assms(1) by (auto simp: IsAbs_def HasPrefix_iff)
  have ne: "?S \<noteq> []" using assms(3) abs(1) by (auto simp: Clean_rooted)
  have "clean_segs True [] (Split (d @ ''/'' @ p) (CHR ''/'')) = ?S @ Split p (CHR ''/'')"
    using assms(2) by (simp add: Split_append_sep clean_segs_append)
  then show ?thesis
    using abs ne by (simp add: Clean_rooted Join_append Split_Join)
qed

lemma clean_segs_idem_rooted:
  "clean_segs True [] (clean_segs True [] ss) = clean_segs True [] ss"
  using clean_segs_rooted_plain [of "[]" ss] by (simp add: clean_segs_plain)

lemma Clean_idem_rooted: "IsAbs d \<Longrightarrow> Clean (Clean d) = Clean d"
proof -
  assume a: "IsAbs d"
  let ?S = "clean_segs True [] (Split d (CHR ''/''))"
  have c: "Clean d = CHR ''/'' # Join ?S ''/''" using a by (simp add: Clean_rooted IsAbs_def)
  have nosl: "\<forall>s \<in> set ?S. CHR ''/'' \<notin> set s"
    using set_clean_segs [of True "[]" "Split d (CHR ''/'')"] Split_no_sep [of _ d "CHR ''/''"]
    by fastforce
  have "Split (Clean d) (CHR ''/'') = [] # (if ?S = [] then [[]] else ?S)"
    unfolding c using nosl Split_of_Join [of ?S "CHR ''/''"] by simp
  then have "clean_segs True [] (Split (Clean d) (CHR ''/'')) = ?S"
    using clean_segs_idem_rooted [of "Split d (CHR ''/'')"] by simp
  then show ?thesis using c by (simp add: Clean_rooted HasPrefix_def)
qed

text \<open>Under an absolute working directory other than the root, \<open>writeProtoFile\<close> writes an
  accepted path to exactly that path below the cleaned directory, and its second guard never
  refuses what \<open>ValidatePath\<close> accepted; a refused path is written nowhere.\<close>

theorem write_proto_confined:
  assumes "IsAbs dir" and "Clean dir \<noteq> ''/''"
  shows "writeProtoFile dir p =
    (case ValidatePath p of Some e \<Rightarrow> Refused e | None \<Rightarrow> WriteTo (Clean dir @ ''/'' @ p))"
proof (cases "ValidatePath p")
  case (Some e)
  then show ?thesis by (simp add: writeProtoFile_def)
next
  case None
  then have pl: "list_all plain_seg (Split p (CHR ''/''))" and ne: "p \<noteq> []"
    by (auto simp: ValidatePath_None_iff)
  have dne: "dir \<noteq> []" using assms(1) by (auto simp: IsAbs_def HasPrefix_def)
  have dest: "filepath_Join [dir, p] = Clean dir @ ''/'' @ p"
    using dne ne Clean_join_rooted [OF assms(1) pl assms(2)] by (simp add: filepath_Join_def)
  have absc: "IsAbs (Clean dir)" using assms(1) by (simp add: IsAbs_def Clean_rooted HasPrefix_def)
  have "Clean (Clean dir @ ''/'' @ p) = Clean dir @ ''/'' @ p"
    using Clean_join_rooted [OF absc pl] Clean_idem_rooted [OF assms(1)] assms(2) by simp
  with None dest show ?thesis by (simp add: writeProtoFile_def HasPrefix_def)
qed

theorem write_proto_confined_witness:
  "IsAbs ''/tmp/hades-proto-1'' \<and> Clean ''/tmp/hades-proto-1'' \<noteq> ''/''
   \<and> writeProtoFile ''/tmp/hades-proto-1'' ''a/b.proto'' = WriteTo ''/tmp/hades-proto-1/a/b.proto''
   \<and> (\<exists>e. writeProtoFile ''/tmp/hades-proto-1'' ''../../etc/cron.d/x.proto'' = Refused e)"
proof -
  have h: "IsAbs ''/tmp/hades-proto-1''" "Clean ''/tmp/hades-proto-1'' \<noteq> ''/''"
    "Clean ''/tmp/hades-proto-1'' = ''/tmp/hades-proto-1''"
    "ValidatePath ''a/b.proto'' = None"
    "ValidatePath ''../../etc/cron.d/x.proto'' = Some ''path has a .. segment''"
    by code_simp+
  show ?thesis
    using h write_proto_confined [OF h(1,2), of "''a/b.proto''"]
      write_proto_confined [OF h(1,2), of "''../../etc/cron.d/x.proto''"] by simp
qed

section \<open>Repository paths of validated names\<close>

lemma repoSegmentRe_safe: "repoSegmentRe s \<Longrightarrow> plain_seg s \<and> CHR 0x5C \<notin> set s \<and> CHR 0x00 \<notin> set s"
  by (cases s)
    (auto simp: plain_seg_def is_seg_start_def is_upper_def list_all_iff is_alnum_def is_name_char_def)

lemma nameRe_repo: "nameRe s \<Longrightarrow> repoSegmentRe s"
  using nameRe_chars [of s] by (cases s) (auto simp: is_seg_start_def list_all_iff)

text \<open>Appending a plain relative path to any directory, rooted or relative: \<open>Clean\<close> keeps it below the
  cleaned directory, which it writes as nothing when it is the working directory.\<close>

definition below :: "string \<Rightarrow> string \<Rightarrow> string" where
  "below dir p = (if dir = ''.'' then p else if dir = ''/'' then ''/'' @ p else dir @ ''/'' @ p)"

lemma clean_segs_proper:
  "\<forall>s \<in> set acc. s \<noteq> [] \<and> s \<noteq> ''.'' \<Longrightarrow> s \<in> set (clean_segs r acc ss) \<Longrightarrow> s \<noteq> [] \<and> s \<noteq> ''.''"
proof (induction ss arbitrary: acc)
  case (Cons x ss)
  show ?case
    using Cons.prems Cons.IH [of acc] Cons.IH [of "x # acc"] Cons.IH [of "''..'' # acc"] Cons.IH [of "tl acc"]
      Cons.IH [of "[]"] Cons.IH [of "[''..'']"]
    by (cases acc) (auto split: if_splits)
qed auto

lemma Clean_join_below:
  assumes "list_all plain_seg (Split p (CHR ''/''))" and "d \<noteq> []"
  shows "Clean (d @ ''/'' @ p) = below (Clean d) p"
proof -
  define R where "R = HasPrefix d ''/''"
  define S where "S = clean_segs R [] (Split d (CHR ''/''))"
  have pre: "HasPrefix (d @ ''/'' @ p) ''/'' = R"
    using assms(2) by (cases d) (simp_all add: HasPrefix_def R_def)
  have segs: "clean_segs R [] (Split (d @ ''/'' @ p) (CHR ''/'')) = S @ Split p (CHR ''/'')"
    using assms(1) by (simp add: Split_append_sep clean_segs_append S_def)
  have proper: "s \<noteq> [] \<and> s \<noteq> ''.''" if "s \<in> set S" for s
    using clean_segs_proper [of "[]" s] that by (simp add: S_def)
  have "\<forall>s \<in> set S. CHR ''/'' \<notin> set s"
    using set_clean_segs [of R "[]" "Split d (CHR ''/'')"] Split_no_sep [of _ d "CHR ''/''"]
    by (fastforce simp: S_def)
  then have split: "Split (Join S ''/'') (CHR ''/'') = S" if "S \<noteq> []"
    using that Split_of_Join [of S "CHR ''/''"] by simp
  have dots: "Join S ''/'' \<noteq> []" "Join S ''/'' \<noteq> ''.''" "Join S ''/'' \<noteq> ''/''" if "S \<noteq> []"
  proof -
    have "Split [] (CHR ''/'') = [[]]" "Split ''.'' (CHR ''/'') = [''.'']" "Split ''/'' (CHR ''/'') = [[], []]"
      by code_simp+
    then show "Join S ''/'' \<noteq> []" "Join S ''/'' \<noteq> ''.''" "Join S ''/'' \<noteq> ''/''"
      using split [OF that] proper by (metis list.set_intros(1))+
  qed
  have "Clean d = (if R then ''/'' @ Join S ''/'' else if S = [] then ''.'' else Join S ''/'')"
    by (simp add: Clean_def R_def S_def)
  moreover have "Clean (d @ ''/'' @ p)
      = (if R then ''/'' else []) @ (if S = [] then p else Join S ''/'' @ ''/'' @ p)"
    using pre segs by (simp add: Clean_def Join_append Split_Join)
  ultimately show ?thesis using dots by (cases R; cases "S = []") (simp_all add: below_def)
qed

text \<open>C37. The two defences against escaping the repository root agree: any path the storage layer
  accepts has one or two plain segments, so \<open>filepath.Join\<close> puts it directly below the cleaned root,
  whether the root is absolute or relative to the working directory; and any \<open>owner/module\<close> built
  from two validated names is accepted by the storage layer.\<close>

theorem repo_path_confined:
  "(ValidateRepoPath r = None \<longrightarrow>
      filepath_Join [root, r] = below (Clean root) r \<and> length (Split r (CHR ''/'')) \<le> 2
      \<and> list_all plain_seg (Split r (CHR ''/'')))
   \<and> (ValidateName owner = None \<and> ValidateName module = None \<longrightarrow>
      ValidateRepoPath (owner @ ''/'' @ module) = None)"
proof (intro conjI impI)
  assume h: "ValidateRepoPath r = None"
  then have ok: "\<forall>s \<in> set (Split r (CHR ''/'')). repoSegmentRe s" and ne: "r \<noteq> []"
    and len: "length (Split r (CHR ''/'')) \<le> 2"
    by (auto simp: ValidateRepoPath_def Let_def split: if_splits)
  from ok show pl: "list_all plain_seg (Split r (CHR ''/''))"
    by (auto simp: list_all_iff dest: repoSegmentRe_safe)
  show "length (Split r (CHR ''/'')) \<le> 2" by (rule len)
  show "filepath_Join [root, r] = below (Clean root) r"
  proof (cases "root = []")
    case True
    have "Clean [] = ''.''" by code_simp
    with True show ?thesis using ne Clean_plain(1) [OF pl ne] by (simp add: filepath_Join_def below_def)
  next
    case False
    then show ?thesis using ne Clean_join_below [OF pl] by (simp add: filepath_Join_def)
  qed
next
  assume h: "ValidateName owner = None \<and> ValidateName module = None"
  then have "Split (owner @ ''/'' @ module) (CHR ''/'') = [owner, module]"
    using ValidateName_segment(2) [of owner] ValidateName_segment(2) [of module]
    by (simp add: Split_append Split_single)
  with h show "ValidateRepoPath (owner @ ''/'' @ module) = None"
    using ValidateName_segment [of owner] ValidateName_segment [of module]
      nameRe_repo [of owner] nameRe_repo [of module]
    by (auto simp: ValidateRepoPath_def ContainsAny_def ValidateName_None_iff)
qed

theorem repo_path_confined_witness:
  "ValidateName ''acme'' = None \<and> ValidateName ''petapis'' = None
   \<and> ValidateRepoPath ''acme/petapis'' = None
   \<and> filepath_Join [''/srv/git'', ''acme/petapis''] = ''/srv/git/acme/petapis''
   \<and> filepath_Join [''./_data/repos'', ''acme/petapis''] = ''_data/repos/acme/petapis''"
proof -
  have n: "ValidateName ''acme'' = None" "ValidateName ''petapis'' = None"
    and r: "Clean ''/srv/git'' = ''/srv/git''" "Clean ''./_data/repos'' = ''_data/repos''" by code_simp+
  have v: "ValidateRepoPath ''acme/petapis'' = None"
    using n repo_path_confined [of "''acme/petapis''" "''/srv/git''" "''acme''" "''petapis''"] by simp
  show ?thesis
    using n r v repo_path_confined [of "''acme/petapis''" "''/srv/git''" "''acme''" "''petapis''"]
      repo_path_confined [of "''acme/petapis''" "''./_data/repos''" "''acme''" "''petapis''"]
    by (simp add: below_def)
qed

end
