(* ===== verification/Git_Store.thy ===== *)
theory Git_Store
  imports Paths "HOL-Library.Multiset" "HOL-Library.Char_ord" "HOL-Library.List_Lexorder"
begin

text \<open>
  Git repositories as the go-git backend sees them (\<open>internal/hades/storage/git/gogit\<close>).

  A repository is its branches and its commit objects.  The object store is content-addressed, so
  a blob and a tree are represented by their content instead of by their hash; the hash of a commit
  is a parameter (\<open>commit_sum\<close> of the environment).  Go maps from paths to blobs are association
  lists without an order of their own.
\<close>

section \<open>Trees\<close>

text \<open>\<open>object.TreeEntry\<close>: a regular file with its content or a directory with its entries.\<close>

datatype tree_entry = Regular string string | Dir string "tree_entry list"

fun entry_name :: "tree_entry \<Rightarrow> string" where
  "entry_name (Regular n c) = n"
| "entry_name (Dir n es) = n"

fun treeSortKey :: "tree_entry \<Rightarrow> string" where
  "treeSortKey (Dir n es) = n @ ''/''"
| "treeSortKey (Regular n c) = n"

text \<open>The first pass of \<open>buildNestedTree\<close>: the files of this directory, its subdirectories, and the
  files below one of them.\<close>

definition topBlobs :: "(string \<times> string) list \<Rightarrow> (string \<times> string) list" where
  "topBlobs files = filter (\<lambda>(p, c). CHR ''/'' \<notin> set p) files"

definition subdirs :: "(string \<times> string) list \<Rightarrow> string list" where
  "subdirs files = remdups (map (\<lambda>(p, c). fst (Cut p (CHR ''/''))) (filter (\<lambda>(p, c). CHR ''/'' \<in> set p) files))"

definition subfiles :: "string \<Rightarrow> (string \<times> string) list \<Rightarrow> (string \<times> string) list" where
  "subfiles dir files = map (\<lambda>(p, c). (fst (snd (Cut p (CHR ''/''))), c))
     (filter (\<lambda>(p, c). CHR ''/'' \<in> set p \<and> fst (Cut p (CHR ''/'')) = dir) files)"

definition path_weight :: "(string \<times> string) list \<Rightarrow> nat" where
  "path_weight files = sum_list (map (\<lambda>(p, c). length p) files)"

lemma Cut_shorter: "CHR ''/'' \<in> set p \<Longrightarrow> length (fst (snd (Cut p (CHR ''/'')))) < length p"
  using length_dropWhile_le [of "\<lambda>c. c \<noteq> CHR ''/''" p]
  by (cases p) (auto simp: Cut_def dropWhile_eq_Nil_conv intro: le_less_trans [OF diff_le_mono])

lemma subfiles_lighter: "path_weight (subfiles d files) \<le> path_weight files"
proof (induction files)
  case (Cons f files)
  then show ?case using Cut_shorter [of "fst f"] by (cases f) (auto simp: path_weight_def subfiles_def)
qed (simp add: path_weight_def subfiles_def)

lemma subdir_lighter:
  assumes "d \<in> set (subdirs files)"
  shows "path_weight (subfiles d files) < path_weight files"
proof -
  obtain p c where pc: "(p, c) \<in> set files" "CHR ''/'' \<in> set p" "d = fst (Cut p (CHR ''/''))"
    using assms by (auto simp: subdirs_def)
  then obtain xs ys where fs: "files = xs @ (p, c) # ys" by (meson split_list)
  have len: "length (fst (snd (Cut p (CHR ''/'')))) < length p" using pc(2) by (rule Cut_shorter)
  have app: "path_weight (subfiles d (us @ vs)) = path_weight (subfiles d us) + path_weight (subfiles d vs)"
    "path_weight (us @ vs) = path_weight us + path_weight vs" for us vs
    by (simp_all add: path_weight_def subfiles_def)
  have "path_weight (subfiles d ((p, c) # ys)) < path_weight ((p, c) # ys)"
    using subfiles_lighter [of d ys] pc(2,3) len by (simp add: path_weight_def subfiles_def)
  with subfiles_lighter [of d xs] show ?thesis unfolding fs app by linarith
qed

function buildNestedTree :: "(string \<times> string) list \<Rightarrow> tree_entry list" where
  "buildNestedTree files = sort_key treeSortKey
     (map (\<lambda>(p, c). Regular p c) (topBlobs files)
      @ map (\<lambda>dir. Dir dir (buildNestedTree (subfiles dir files))) (subdirs files))"
  by auto
termination
  by (relation "measure path_weight") (auto intro: subdir_lighter)

declare buildNestedTree.simps [simp del]

text \<open>The files of a tree with their full paths: the meaning of the data type, which is what go-git documents
  \<open>tree.Files().ForEach\<close> to visit.\<close>

fun entry_files :: "tree_entry \<Rightarrow> (string \<times> string) list" where
  "entry_files (Regular n c) = [(n, c)]"
| "entry_files (Dir n es) = map (\<lambda>(p, c). (n @ ''/'' @ p, c)) (concat (map entry_files es))"

definition tree_Files :: "tree_entry list \<Rightarrow> (string \<times> string) list" where
  "tree_Files es = concat (map entry_files es)"

text \<open>Git's own order of the entries of a tree, \<open>base_name_compare\<close> of git's \<open>read-cache.c\<close>: the names
  are compared byte by byte over their common length, and where one of them ends, a directory
  counts as \<open>/\<close> (47) and a file as the terminating NUL.  It is stated on names and modes and owes
  nothing to \<open>treeSortKey\<close>.\<close>

definition next_byte :: "bool \<Rightarrow> string \<Rightarrow> nat" where
  "next_byte dir rest = (case rest of c # cs \<Rightarrow> of_char c | [] \<Rightarrow> if dir then 47 else 0)"

fun base_name_compare :: "bool \<Rightarrow> string \<Rightarrow> bool \<Rightarrow> string \<Rightarrow> int" where
  "base_name_compare d1 (a # as) d2 (b # bs) =
     (if a = b then base_name_compare d1 as d2 bs
      else sgn (int (of_char a) - int (of_char b)))"
| "base_name_compare d1 as d2 bs = sgn (int (next_byte d1 as) - int (next_byte d2 bs))"

fun is_dir :: "tree_entry \<Rightarrow> bool" where
  "is_dir (Dir n es) = True"
| "is_dir (Regular n c) = False"

definition git_before :: "tree_entry \<Rightarrow> tree_entry \<Rightarrow> bool" where
  "git_before x y \<longleftrightarrow> base_name_compare (is_dir x) (entry_name x) (is_dir y) (entry_name y) \<le> 0"

text \<open>The order holds at every level below an entry.\<close>

fun git_ordered :: "tree_entry \<Rightarrow> bool" where
  "git_ordered (Regular n c) = True"
| "git_ordered (Dir n es) \<longleftrightarrow> sorted_wrt git_before es \<and> list_all git_ordered es"

section \<open>Repositories\<close>

record commit_obj =
  co_tree :: "tree_entry list"
  co_parents :: "string list"
  co_message :: string
  co_author :: string
  co_email :: string
  co_when :: time

record git_repo =
  branches :: "string \<rightharpoonup> string"
  objects :: "string \<rightharpoonup> commit_obj"
  head_branch :: string

definition new_repo :: "string \<Rightarrow> git_repo" where
  "new_repo defaultBranch = \<lparr>branches = Map.empty, objects = Map.empty, head_branch = defaultBranch\<rparr>"

record PutFilesRequest =
  pf_RepoPath :: string
  pf_Branch :: string
  pf_Files :: "upload_file list"
  pf_ExistingPaths :: "string list"
  pf_AuthorName :: string
  pf_AuthorEmail :: string
  pf_Message :: string
  pf_Digest :: string
  pf_ExpectedHead :: string

definition ErrRefMoved :: err where "ErrRefMoved = Sentinel ''git: branch moved since it was read''"
definition ErrUnsafeRepoPath :: err where "ErrUnsafeRepoPath = Sentinel ''git: unsafe repository path''"
definition ErrRepositoryNotExists :: err where "ErrRepositoryNotExists = Sentinel ''repository does not exist''"

text \<open>\<open>strings.EqualFold\<close> on the hexadecimal text of hashes.\<close>

definition EqualFold :: "string \<Rightarrow> string \<Rightarrow> bool" where
  "EqualFold a b = (ToLower a = ToLower b)"

definition checkExpectedHead :: "string \<Rightarrow> string option \<Rightarrow> unit res" where
  "checkExpectedHead expected actual = (case actual of
     Some h \<Rightarrow> if expected = [] then Inl ErrRefMoved
               else if EqualFold h expected then Inr () else Inl ErrRefMoved
   | None \<Rightarrow> if expected = [] then Inr () else Inl ErrRefMoved)"

definition commitMessage :: "PutFilesRequest \<Rightarrow> string" where
  "commitMessage req = (if pf_Digest req = [] then pf_Message req
     else pf_Message req @ [CHR 0x0A, CHR 0x0A] @ ''digest:'' @ pf_Digest req)"

text \<open>Go maps from paths to contents, and the file set of the new commit: the parent's files less the paths the caller removed, and then
  the incoming files, the last one of a path winning.\<close>

definition kept_files :: "PutFilesRequest \<Rightarrow> (string \<times> string) list \<Rightarrow> (string \<times> string) list" where
  "kept_files req parent = filter (\<lambda>(p, c). p \<notin> set (pf_ExistingPaths req) \<or> p \<in> Path ` set (pf_Files req)) parent"

definition put_path :: "string \<Rightarrow> string \<Rightarrow> (string \<times> string) list \<Rightarrow> (string \<times> string) list" where
  "put_path p c m = (p, c) # filter (\<lambda>(q, _). q \<noteq> p) m"

definition file_map :: "(string \<times> string) list \<Rightarrow> (string \<times> string) list" where
  "file_map fs = fold (\<lambda>(p, c). put_path p c) fs []"

definition put_file :: "upload_file \<Rightarrow> (string \<times> string) list \<Rightarrow> (string \<times> string) list" where
  "put_file f m = put_path (Path f) (Content f) m"

definition new_files :: "PutFilesRequest \<Rightarrow> (string \<times> string) list \<Rightarrow> (string \<times> string) list" where
  "new_files req parent = fold put_file (pf_Files req) (kept_files req parent)"

definition new_commit :: "PutFilesRequest \<Rightarrow> time \<Rightarrow> string option \<Rightarrow> (string \<times> string) list \<Rightarrow> commit_obj" where
  "new_commit req now parent files = \<lparr>co_tree = buildNestedTree files,
     co_parents = (case parent of None \<Rightarrow> [] | Some h \<Rightarrow> [h]), co_message = commitMessage req,
     co_author = pf_AuthorName req, co_email = pf_AuthorEmail req, co_when = now - now mod Second\<rparr>"

section \<open>The tree holds exactly the files\<close>

lemma Cut_join:
  assumes "CHR ''/'' \<in> set p"
  shows "fst (Cut p (CHR ''/'')) @ CHR ''/'' # fst (snd (Cut p (CHR ''/''))) = p"
proof -
  from assms obtain u v where "p = u @ CHR ''/'' # v" and "CHR ''/'' \<notin> set u" by (meson split_list_first)
  then show ?thesis by simp
qed

lemma mset_by_key: "(\<Sum>d\<leftarrow>remdups (map g xs). mset (filter (\<lambda>x. g x = d) xs)) = mset xs"
proof (rule multiset_eqI)
  fix x
  have "(\<Sum>d\<leftarrow>remdups (map g xs). mset (filter (\<lambda>x. g x = d) xs))
      = (\<Sum>d \<in> g ` set xs. filter_mset (\<lambda>x. g x = d) (mset xs))"
    by (simp add: sum_list_distinct_conv_sum_set)
  then have "count (\<Sum>d\<leftarrow>remdups (map g xs). mset (filter (\<lambda>x. g x = d) xs)) x
      = (\<Sum>d \<in> g ` set xs. if g x = d then count (mset xs) x else 0)"
    by (simp add: count_sum)
  also have "\<dots> = count (mset xs) x"
    by (auto simp: sum.delta count_mset_0_iff [symmetric] simp del: count_mset_0_iff)
  finally show "count (\<Sum>d\<leftarrow>remdups (map g xs). mset (filter (\<lambda>x. g x = d) xs)) x = count (mset xs) x" .
qed

lemma mset_files_under:
  "image_mset (\<lambda>(p, c). (d @ CHR ''/'' # p, c)) (mset (subfiles d files))
     = mset (filter (\<lambda>f. fst (Cut (fst f) (CHR ''/'')) = d) (filter (\<lambda>f. CHR ''/'' \<in> set (fst f)) files))"
proof -
  have "map (\<lambda>(p, c). (d @ CHR ''/'' # p, c)) (subfiles d files)
      = filter (\<lambda>f. fst (Cut (fst f) (CHR ''/'')) = d) (filter (\<lambda>f. CHR ''/'' \<in> set (fst f)) files)"
    by (induction files) (auto simp: subfiles_def Cut_join)
  then show ?thesis by (metis mset_map)
qed

lemma mset_tree_sort: "mset (tree_Files (sort_key k es)) = (\<Sum>e\<leftarrow>es. mset (entry_files e))"
proof -
  have "mset (tree_Files xs) = (\<Sum>e\<in>#mset xs. mset (entry_files e))" for xs
    by (induction xs) (simp_all add: tree_Files_def)
  moreover have "(\<Sum>e\<in>#mset es. mset (entry_files e)) = (\<Sum>e\<leftarrow>es. mset (entry_files e))"
    by (metis mset_map sum_mset_sum_list)
  ultimately show ?thesis by simp
qed

lemma split_mset:
  "mset (filter (\<lambda>(p, c). CHR ''/'' \<notin> set p) files) + mset (filter (\<lambda>f. CHR ''/'' \<in> set (fst f)) files) = mset files"
  by (induction files) auto

lemma mset_blobs: "(\<Sum>f\<leftarrow>fs. mset (entry_files (case f of (p, c) \<Rightarrow> Regular p c))) = mset fs"
  by (induction fs) auto

text \<open>Sorting by \<open>treeSortKey\<close> agrees with git: appending the slash to the name of a directory makes
  the plain order of strings the one of \<open>base_name_compare\<close>.\<close>

lemma slash_code: "of_char (CHR ''/'') = (47 :: nat)"
  by simp

lemma key_order:
  "n @ (if d1 then ''/'' else []) \<le> m @ (if d2 then ''/'' else []) \<Longrightarrow> base_name_compare d1 n d2 m \<le> 0"
proof (induction n arbitrary: m)
  case Nil
  then show ?case
    by (cases m) (auto simp: next_byte_def less_char_def less_eq_char_def sgn_if slash_code split: if_splits)
next
  case (Cons a as)
  show ?case
  proof (cases m)
    case Nil
    with Cons.prems show ?thesis
      by (auto simp: next_byte_def less_char_def less_eq_char_def sgn_if slash_code split: if_splits)
  next
    case (Cons b bs)
    with Cons.prems Cons.IH [of bs] show ?thesis by (auto simp: less_char_def less_eq_char_def sgn_if)
  qed
qed

lemma treeSortKey_git: "treeSortKey x \<le> treeSortKey y \<Longrightarrow> git_before x y"
  using key_order [of "entry_name x" "is_dir x" "entry_name y" "is_dir y"]
  by (cases x; cases y) (simp_all add: git_before_def)

lemma sort_key_git: "sorted_wrt git_before (sort_key treeSortKey es)"
proof (rule sorted_wrt_mono_rel)
  show "sorted_wrt (\<lambda>x y. treeSortKey x \<le> treeSortKey y) (sort_key treeSortKey es)"
    using sorted_sort_key [of treeSortKey es] by (simp add: sorted_map)
qed (rule treeSortKey_git)

lemma build_tree:
  "mset (tree_Files (buildNestedTree files)) = mset files
   \<and> sorted_wrt git_before (buildNestedTree files) \<and> list_all git_ordered (buildNestedTree files)"
proof (induction files rule: buildNestedTree.induct)
  case (1 files)
  let ?below = "filter (\<lambda>f. CHR ''/'' \<in> set (fst f)) files"
  let ?dir = "\<lambda>f. fst (Cut (fst f) (CHR ''/''))"
  have dirs: "subdirs files = remdups (map ?dir ?below)" by (simp add: subdirs_def case_prod_beta')
  have dir: "mset (entry_files (Dir d (buildNestedTree (subfiles d files)))) = mset (filter (\<lambda>f. ?dir f = d) ?below)"
    if "d \<in> set (subdirs files)" for d
    using 1 [OF that] mset_files_under [of d files] by (simp add: tree_Files_def)
  have "(\<Sum>d\<leftarrow>subdirs files. mset (entry_files (Dir d (buildNestedTree (subfiles d files))))) = mset ?below"
  proof -
    have "map (\<lambda>d. mset (entry_files (Dir d (buildNestedTree (subfiles d files))))) (subdirs files)
        = map (\<lambda>d. mset (filter (\<lambda>f. ?dir f = d) ?below)) (subdirs files)"
      by (rule map_cong) (rule refl, rule dir)
    then show ?thesis using mset_by_key [of ?dir ?below] unfolding dirs [symmetric] by argo
  qed
  moreover have "mset (topBlobs files) + mset ?below = mset files"
    unfolding topBlobs_def by (rule split_mset)
  moreover have "(\<Sum>f\<leftarrow>topBlobs files. mset (entry_files (case f of (p, c) \<Rightarrow> Regular p c))) = mset (topBlobs files)"
    by (rule mset_blobs)
  ultimately have "mset (tree_Files (buildNestedTree files)) = mset files"
    by (subst buildNestedTree.simps) (simp add: mset_tree_sort o_def)
  moreover have "list_all git_ordered (buildNestedTree files)"
    using 1 by (subst buildNestedTree.simps) (auto simp: list_all_iff)
  moreover have "sorted_wrt git_before (buildNestedTree files)"
    by (subst buildNestedTree.simps) (rule sort_key_git)
  ultimately show ?case by blast
qed

section \<open>File maps\<close>

lemma map_of_put_path [simp]: "map_of (put_path p c m) = (map_of m)(p \<mapsto> c)"
proof
  fix q
  show "map_of (put_path p c m) q = ((map_of m)(p \<mapsto> c)) q"
    by (induction m) (auto simp: put_path_def)
qed

lemma distinct_put_path: "distinct (map fst m) \<Longrightarrow> distinct (map fst (put_path p c m))"
  by (auto simp: put_path_def distinct_map_filter)

lemma map_of_fold_put: "map_of (fold put_file fs m) = map_of m ++ map_of (rev (map (\<lambda>f. (Path f, Content f)) fs))"
  by (induction fs arbitrary: m) (auto simp: put_file_def)

lemma distinct_fold_put: "distinct (map fst m) \<Longrightarrow> distinct (map fst (fold put_file fs m))"
  by (induction fs arbitrary: m) (auto simp: put_file_def distinct_put_path)

lemma file_map_distinct: "distinct (map fst (file_map fs))"
proof -
  have "distinct (map fst m) \<Longrightarrow> distinct (map fst (fold (\<lambda>(p, c). put_path p c) fs m))" for m
    by (induction fs arbitrary: m) (auto simp: distinct_put_path)
  then show ?thesis by (simp add: file_map_def)
qed

lemma map_of_file_map: "map_of (file_map fs) = map_of (rev fs)"
proof -
  have "map_of (fold (\<lambda>(p, c). put_path p c) fs m) = map_of m ++ map_of (rev fs)" for m
    by (induction fs arbitrary: m) auto
  from this [of "[]"] show ?thesis by (simp add: file_map_def)
qed

lemma distinct_new_files: "distinct (map fst parent) \<Longrightarrow> distinct (map fst (new_files req parent))"
  unfolding new_files_def kept_files_def by (intro distinct_fold_put distinct_map_filter)

text \<open>The files of a commit as a map from paths to contents.\<close>

definition commit_files :: "commit_obj \<Rightarrow> (string \<rightharpoonup> string)" where
  "commit_files c = map_of (file_map (tree_Files (co_tree c)))"

definition pushed :: "upload_file list \<Rightarrow> (string \<rightharpoonup> string)" where
  "pushed fs = map_of (rev (map (\<lambda>f. (Path f, Content f)) fs))"

lemma map_of_kept:
  "map_of (kept_files req parent) p = (if p \<in> set (pf_ExistingPaths req) \<and> p \<notin> Path ` set (pf_Files req) then None else map_of parent p)"
  unfolding kept_files_def by (induction parent) auto

lemma pushed_None: "pushed fs p = None \<longleftrightarrow> p \<notin> Path ` set fs"
  by (force simp: pushed_def map_of_eq_None_iff)

text \<open>The path of a new file set is the pushed one, or the parent's unless the caller withdrew it.\<close>

lemma new_files_lookup:
  "map_of (new_files req parent) p = (case pushed (pf_Files req) p of Some c \<Rightarrow> Some c
     | None \<Rightarrow> if p \<in> set (pf_ExistingPaths req) then None else map_of parent p)"
  using pushed_None [of "pf_Files req" p]
  by (auto simp: new_files_def map_of_fold_put pushed_def map_add_def map_of_kept split: option.splits)

lemma map_of_build:
  assumes "distinct (map fst fs)"
  shows "commit_files \<lparr>co_tree = buildNestedTree fs, co_parents = ps, co_message = m, co_author = a, co_email = e, co_when = t\<rparr>
    = map_of fs"
proof -
  have eq: "mset fs = mset (rev (tree_Files (buildNestedTree fs)))" using build_tree by simp
  then have "distinct (map fst (rev (tree_Files (buildNestedTree fs))))"
    using assms by (metis mset_eq_imp_distinct_iff mset_map)
  with assms eq have "map_of fs = map_of (rev (tree_Files (buildNestedTree fs)))"
    by (metis map_of_inject_set set_mset_mset)
  then show ?thesis by (simp add: commit_files_def map_of_file_map)
qed

text \<open>C23. \<open>buildNestedTree\<close> loses, invents and duplicates nothing: reading the files of the tree it
  builds gives back exactly the files it was given, whatever their paths; and the entries of
  every level of the tree are in the order git compares them in, with a directory ordered as if
  its name ended in a slash.\<close>

theorem tree_round_trip:
  "mset (tree_Files (buildNestedTree files)) = mset files
   \<and> sorted_wrt git_before (buildNestedTree files) \<and> list_all git_ordered (buildNestedTree files)"
  by (rule build_tree)

end
