(* ===== verification/World.thy ===== *)
theory World
  imports Mem_Cache Conn_Err Names Factor_Stores Grant_Stores Registry_Stores Git_Store
begin

text \<open>
  The state a request handler runs in and the calls it makes.

  \<^item> \<open>db\<close> holds the tables; \<open>world\<close> adds the git repositories, the cache, the clock, the mail that was sent, how many
    random values were drawn, and the faults of the environment: the \<open>n\<close>-th call to the database,
    the cache, the mailer or the random source returns the \<open>n\<close>-th error of \<open>faults\<close>, if there is
    one, and has no effect.  A statement about every \<open>world\<close> is therefore a statement about every
    pattern of failures.
  \<^item> \<open>env\<close> holds what the server is configured with and the code outside the repository: bcrypt, the
    HOTP generator, AES-GCM, \<open>uuid.Parse\<close>, the random source, and the order in which Go iterates the
    cache's maps.
  \<^item> \<open>uow_do\<close> is \<open>SQLiteUnitOfWork.Do\<close>: it restores the tables when the callback or the commit
    fails.  The cache and the mailer are not transactional.

  The clock is read once per request.  \<open>keeps\<close> is the rule set by which facts about the tables are
  carried through whole handlers.
\<close>

section \<open>State\<close>

record db =
  users :: "user_row list"
  sessions :: "session_row list"
  api_tokens :: "token_row list"
  totp_secrets :: "totp_row list"
  backup_codes :: "backup_row list"
  device_grants :: "grant_row list"
  email_verifications :: "link_row list"
  password_resets :: "link_row list"
  role_bindings :: "binding_row list"
  audit_log :: "audit_row list"
  registry :: registry_db

record world =
  dbs :: db
  repos :: "string \<rightharpoonup> git_repo"
  mcache :: mem_cache
  clock :: time
  faults :: "err option list"
  ids_drawn :: nat
  reads_done :: nat
  outbox :: "(string \<times> string \<times> string) list"

record env =
  GenerateFromPassword :: "string \<Rightarrow> int \<Rightarrow> string \<Rightarrow> string res"   \<comment> \<open>password, cost, salt\<close>
  CompareHashAndPassword :: "string \<Rightarrow> string \<Rightarrow> bool"
  GenerateCodeCustom :: "string \<Rightarrow> int \<Rightarrow> string res"              \<comment> \<open>secret, time step\<close>
  totp_Generate :: "string \<Rightarrow> string \<Rightarrow> string \<Rightarrow> (string \<times> string) res"  \<comment> \<open>issuer, account, seed\<close>
  Seal :: "string \<Rightarrow> string \<Rightarrow> string \<Rightarrow> string"                   \<comment> \<open>key, nonce, plaintext\<close>
  Open :: "string \<Rightarrow> string \<Rightarrow> string \<Rightarrow> string option"
  uuid_Parse :: "string \<Rightarrow> uuid option"
  new_id :: "nat \<Rightarrow> string"                                     \<comment> \<open>generated primary keys\<close>
  random :: "nat \<Rightarrow> string"                                     \<comment> \<open>bytes of the random source\<close>
  ord_entries :: "mem_entry gomap \<Rightarrow> mem_entry gomap"
  ord_windows :: "time list gomap \<Rightarrow> time list gomap"
  MinLength :: int
  BcryptCost :: int
  MaxAttempts :: int
  CooldownMinutes :: int
  IdleTimeoutDays :: int
  AbsoluteTimeoutDays :: int
  EmailTokenExpiryHours :: int
  AutoVerify :: bool
  ResetTokenExpiryHours :: int
  registryHost :: string
  Issuer :: string
  EncryptionKey :: string
  superAdmins :: "string list"
  bindingTTL :: time
  cache_wired :: bool
  audit_wired :: bool
  mail_wired :: bool
  emailver_wired :: bool
  pwreset_wired :: bool
  totp_wired :: bool
  session_wired :: bool
  apitoken_wired :: bool

section \<open>Calls\<close>

text \<open>What a failing call returns is an error of the driver, the context or the operating system;
  \<open>sql.ErrNoRows\<close> and the stores' own sentinels are answers, not failures.\<close>

definition fault_err :: "err \<Rightarrow> err" where
  "fault_err e = (case e of SqliteErr c m \<Rightarrow> e | PgErr c m \<Rightarrow> e | CtxCanceled \<Rightarrow> e | CtxDeadline \<Rightarrow> e
     | OtherErr m \<Rightarrow> e | _ \<Rightarrow> OtherErr ''driver error'')"

definition io :: "(world \<Rightarrow> 'a res \<times> world) \<Rightarrow> (world, 'a) call" where
  "io f = State (\<lambda>w. case faults w of
     [] \<Rightarrow> f w
   | None # fs \<Rightarrow> f (w\<lparr>faults := fs\<rparr>)
   | Some e # fs \<Rightarrow> (Inl (fault_err e), w\<lparr>faults := fs\<rparr>))"

lemma fault_err_driver [simp]: "fault_err e \<noteq> ErrNoRows" "fault_err e \<noteq> ErrNotFound" "fault_err e \<noteq> Sentinel m"
  "fault_err e \<noteq> ConnErr c n"
  by (cases e; simp add: fault_err_def)+

text \<open>A \<open>SELECT\<close>, an \<open>UPDATE\<close> or \<open>DELETE\<close>, and an \<open>INSERT\<close> that draws one generated key.\<close>

definition qry :: "(db \<Rightarrow> 'a res) \<Rightarrow> (world, 'a) call" where
  "qry f = io (\<lambda>w. (f (dbs w), w))"

definition qry_now :: "(time \<Rightarrow> db \<Rightarrow> 'a) \<Rightarrow> (world, 'a) call" where
  "qry_now f = io (\<lambda>w. (Inr (f (clock w) (dbs w)), w))"

definition exec :: "(time \<Rightarrow> db \<Rightarrow> 'a res \<times> db) \<Rightarrow> (world, 'a) call" where
  "exec f = io (\<lambda>w. case f (clock w) (dbs w) of (r, d) \<Rightarrow> (r, w\<lparr>dbs := d\<rparr>))"

definition upd :: "(time \<Rightarrow> db \<Rightarrow> db) \<Rightarrow> (world, unit) call" where
  "upd f = exec (\<lambda>now d. (Inr (), f now d))"

definition insert_row :: "env \<Rightarrow> (string \<Rightarrow> time \<Rightarrow> db \<Rightarrow> 'a res \<times> db) \<Rightarrow> (world, 'a) call" where
  "insert_row env f = io (\<lambda>w. case f (new_id env (ids_drawn w)) (clock w) (dbs w) of
     (r, d) \<Rightarrow> (r, w\<lparr>dbs := d, ids_drawn := ids_drawn w + 1\<rparr>))"

definition insert_rows :: "env \<Rightarrow> nat \<Rightarrow> (string list \<Rightarrow> time \<Rightarrow> db \<Rightarrow> 'a res \<times> db) \<Rightarrow> (world, 'a) call" where
  "insert_rows env n f = io (\<lambda>w. case f (map (\<lambda>k. new_id env (ids_drawn w + k)) [0..<n]) (clock w) (dbs w) of
     (r, d) \<Rightarrow> (r, w\<lparr>dbs := d, ids_drawn := ids_drawn w + n\<rparr>))"

text \<open>\<open>uuid.New()\<close>.\<close>

definition uuid_New :: "env \<Rightarrow> (world, uuid) state" where
  "uuid_New env = State (\<lambda>w. (Canonical (new_id env (ids_drawn w)), w\<lparr>ids_drawn := ids_drawn w + 1\<rparr>))"

definition time_Now :: "(world, time) state" where
  "time_Now = State (\<lambda>w. (clock w, w))"

definition rand_Read :: "env \<Rightarrow> nat \<Rightarrow> (world, string) call" where
  "rand_Read env n = io (\<lambda>w. (Inr (take n (random env (reads_done w))), w\<lparr>reads_done := reads_done w + 1\<rparr>))"

definition cache_Get :: "string \<Rightarrow> (world, string option) call" where
  "cache_Get k = io (\<lambda>w. (Inr (mc_Get (clock w) k (mcache w)), w))"

definition cache_Set :: "env \<Rightarrow> string \<Rightarrow> string \<Rightarrow> time \<Rightarrow> (world, unit) call" where
  "cache_Set env k v ttl = io (\<lambda>w. (Inr (), w\<lparr>mcache := mc_Set (ord_entries env) (clock w) k v ttl (mcache w)\<rparr>))"

definition cache_Delete :: "string \<Rightarrow> (world, unit) call" where
  "cache_Delete k = io (\<lambda>w. (Inr (), w\<lparr>mcache := mc_Delete k (mcache w)\<rparr>))"

definition cache_Allow :: "env \<Rightarrow> string \<Rightarrow> int \<Rightarrow> time \<Rightarrow> (world, bool) call" where
  "cache_Allow env k limit window = io (\<lambda>w. case mc_Allow (ord_windows env) (clock w) k limit window (mcache w) of
     (b, m) \<Rightarrow> (Inr b, w\<lparr>mcache := m\<rparr>))"

definition Send :: "string \<Rightarrow> string \<Rightarrow> string \<Rightarrow> (world, unit) call" where
  "Send to subject body = io (\<lambda>w. (Inr (), w\<lparr>outbox := outbox w @ [(to, subject, body)]\<rparr>))"

text \<open>\<open>SQLiteUnitOfWork.Do\<close>: \<open>BeginTx\<close>, the callback, and \<open>Commit\<close> or \<open>Rollback\<close>.\<close>

definition uow_do :: "(world, 'a) call \<Rightarrow> (world, 'a) call" where
  "uow_do fn = State (\<lambda>w0. case run (io (\<lambda>w. (Inr (), w))) w0 of
     (Inl e, w1) \<Rightarrow> (Inl e, w1)
   | (Inr _, w1) \<Rightarrow> (case run fn w1 of
       (Inl e, w2) \<Rightarrow> (Inl e, w2\<lparr>dbs := dbs w1\<rparr>)
     | (Inr x, w2) \<Rightarrow> (case run (io (\<lambda>w. (Inr (), w))) w2 of
         (Inl e, w3) \<Rightarrow> (Inl e, w3\<lparr>dbs := dbs w1\<rparr>)
       | (Inr _, w3) \<Rightarrow> (Inr x, w3))))"

lemmas call_defs = qry_def qry_now_def exec_def upd_def insert_row_def rand_Read_def cache_Get_def
  cache_Set_def cache_Delete_def cache_Allow_def Send_def

section \<open>Facts carried through handlers\<close>

definition keeps :: "(world \<Rightarrow> bool) \<Rightarrow> (world, 'a) state \<Rightarrow> bool" where
  "keeps P m \<longleftrightarrow> (\<forall>w. P w \<longrightarrow> P (snd (run m w)))"

named_theorems keeps_intros \<open>introduction rules for facts kept by calls\<close>

lemma keeps_return [keeps_intros]: "keeps P (State_Monad.return x)"
  by (simp add: keeps_def State_Monad.return_def)

lemma keeps_bind [keeps_intros]: "keeps P m \<Longrightarrow> (\<And>x. keeps P (k x)) \<Longrightarrow> keeps P (State_Monad.bind m k)"
  unfolding keeps_def by (auto simp: State_Monad.bind_def split: prod.splits)

lemma keeps_sum [keeps_intros]:
  "(\<And>e. keeps P (f e)) \<Longrightarrow> (\<And>x. keeps P (g x)) \<Longrightarrow> keeps P (case r of Inl e \<Rightarrow> f e | Inr x \<Rightarrow> g x)"
  by (cases r) auto

lemma keeps_option [keeps_intros]:
  "keeps P f \<Longrightarrow> (\<And>x. keeps P (g x)) \<Longrightarrow> keeps P (case r of None \<Rightarrow> f | Some x \<Rightarrow> g x)"
  by (cases r) auto

lemma keeps_prod [keeps_intros]: "(\<And>a b. keeps P (f a b)) \<Longrightarrow> keeps P (case r of (a, b) \<Rightarrow> f a b)"
  by (cases r) auto

lemma keeps_if [keeps_intros]: "keeps P a \<Longrightarrow> keeps P b \<Longrightarrow> keeps P (if c then a else b)"
  by simp

lemma keeps_let [keeps_intros]: "(\<And>x. keeps P (f x)) \<Longrightarrow> keeps P (let x = t in f x)"
  by simp

lemma keeps_time_Now [keeps_intros]: "keeps P time_Now"
  by (simp add: keeps_def time_Now_def)

text \<open>Facts about the tables alone.\<close>

definition db_keeps :: "(db \<Rightarrow> bool) \<Rightarrow> (world, 'a) state \<Rightarrow> bool" where
  "db_keeps Q m \<longleftrightarrow> keeps (\<lambda>w. Q (dbs w)) m"

lemma db_keeps_io: "(\<And>w. Q (dbs w) \<Longrightarrow> Q (dbs (snd (f w)))) \<Longrightarrow> db_keeps Q (io f)"
  by (auto simp: db_keeps_def keeps_def io_def split: list.splits option.splits)

named_theorems db_intros \<open>introduction rules for facts about tables kept by calls\<close>

lemma io_pure_db [db_intros]: "db_keeps Q (io (\<lambda>w. (r, w)))"
  by (rule db_keeps_io) simp

lemma db_keeps_calls [db_intros]:
  "db_keeps Q (qry f)" "db_keeps Q (qry_now g)" "db_keeps Q (rand_Read env n)" "db_keeps Q (cache_Get k)"
  "db_keeps Q (cache_Set env k v ttl)" "db_keeps Q (cache_Delete k)"
  "db_keeps Q (cache_Allow env k l win)" "db_keeps Q (Send a b c)"
  by (auto simp: call_defs intro!: db_keeps_io split: prod.splits)

lemma db_keeps_monad [db_intros]:
  "db_keeps Q (State_Monad.return x)" "db_keeps Q time_Now"
  "db_keeps Q m \<Longrightarrow> (\<And>x. db_keeps Q (k x)) \<Longrightarrow> db_keeps Q (State_Monad.bind m k)"
  "(\<And>e. db_keeps Q (f e)) \<Longrightarrow> (\<And>x. db_keeps Q (g x)) \<Longrightarrow> db_keeps Q (case r of Inl e \<Rightarrow> f e | Inr x \<Rightarrow> g x)"
  "db_keeps Q h \<Longrightarrow> (\<And>x. db_keeps Q (j x)) \<Longrightarrow> db_keeps Q (case ro of None \<Rightarrow> h | Some x \<Rightarrow> j x)"
  "(\<And>a b. db_keeps Q (l a b)) \<Longrightarrow> db_keeps Q (case p of (a, b) \<Rightarrow> l a b)"
  "db_keeps Q a \<Longrightarrow> db_keeps Q b \<Longrightarrow> db_keeps Q (if c then a else b)"
  unfolding db_keeps_def by (intro keeps_intros; blast)+

lemma db_keeps_list [db_intros]:
  "db_keeps Q f \<Longrightarrow> (\<And>y ys. db_keeps Q (g y ys)) \<Longrightarrow> db_keeps Q (case xs of [] \<Rightarrow> f | y # ys \<Rightarrow> g y ys)"
  by (cases xs) simp_all

lemma db_keeps_exec: "(\<And>now d. Q d \<Longrightarrow> Q (snd (f now d))) \<Longrightarrow> db_keeps Q (exec f)"
  unfolding exec_def by (rule db_keeps_io) (auto simp: case_prod_beta)

lemma db_keeps_upd: "(\<And>now d. Q d \<Longrightarrow> Q (f now d)) \<Longrightarrow> db_keeps Q (upd f)"
  unfolding upd_def by (rule db_keeps_exec) simp

lemma db_keeps_insert: "(\<And>i now d. Q d \<Longrightarrow> Q (snd (f i now d))) \<Longrightarrow> db_keeps Q (insert_row env f)"
  unfolding insert_row_def by (rule db_keeps_io) (auto simp: case_prod_beta)

lemma db_keeps_insert_rows: "(\<And>is now d. Q d \<Longrightarrow> Q (snd (f is now d))) \<Longrightarrow> db_keeps Q (insert_rows env n f)"
  unfolding insert_rows_def by (rule db_keeps_io) (auto simp: case_prod_beta)

lemma db_keeps_uuid_New [db_intros]: "db_keeps Q (uuid_New env)"
  by (simp add: db_keeps_def keeps_def uuid_New_def)

lemma db_keeps_insert_id:
  "(\<And>n now d. Q d \<Longrightarrow> Q (snd (f (new_id env n) now d))) \<Longrightarrow> db_keeps Q (insert_row env f)"
  unfolding insert_row_def by (rule db_keeps_io) (auto simp: case_prod_beta)

lemma io_unit_db: "run (io (\<lambda>w. (Inr (), w))) w = (r, w') \<Longrightarrow> dbs w' = dbs w"
  by (auto simp: io_def split: list.splits option.splits)

lemma db_keeps_uow [db_intros]:
  assumes "db_keeps Q m"
  shows "db_keeps Q (uow_do m)"
proof -
  have m: "run m w = (r, w') \<Longrightarrow> Q (dbs w) \<Longrightarrow> Q (dbs w')" for w r w'
    using assms unfolding db_keeps_def keeps_def by (metis snd_conv)
  show ?thesis
    unfolding db_keeps_def keeps_def uow_do_def
    by (auto split: prod.splits sum.splits dest!: io_unit_db) (use m in fastforce)
qed

lemma db_keeps_run: "db_keeps Q m \<Longrightarrow> run m w = (r, w') \<Longrightarrow> Q (dbs w) \<Longrightarrow> Q (dbs w')"
  unfolding db_keeps_def keeps_def by (metis snd_conv)

section \<open>Running a handler branch by branch\<close>

text \<open>\<open>wp m Q w\<close>: running \<open>m\<close> in \<open>w\<close> ends in a result and a world that satisfy \<open>Q\<close>.  The rules
  below decompose a handler along its calls and branches; a call to the environment has one
  branch for its failure and one for its effect.\<close>

definition wp :: "(world, 'a) state \<Rightarrow> ('a \<Rightarrow> world \<Rightarrow> bool) \<Rightarrow> world \<Rightarrow> bool" where
  "wp m Q w = (case run m w of (r, w') \<Rightarrow> Q r w')"

named_theorems wp_intros \<open>rules that decompose a handler\<close>

lemma wp_return [wp_intros]: "Q x w \<Longrightarrow> wp (State_Monad.return x) Q w"
  by (simp add: wp_def State_Monad.return_def)

lemma wp_bind [wp_intros]: "wp m (\<lambda>x. wp (k x) Q) w \<Longrightarrow> wp (State_Monad.bind m k) Q w"
  by (simp add: wp_def State_Monad.bind_def split: prod.splits)

lemma wp_sum [wp_intros]:
  "(\<And>e. r = Inl e \<Longrightarrow> wp (f e) Q w) \<Longrightarrow> (\<And>x. r = Inr x \<Longrightarrow> wp (g x) Q w) \<Longrightarrow>
   wp (case r of Inl e \<Rightarrow> f e | Inr x \<Rightarrow> g x) Q w"
  by (cases r) auto

lemma wp_option [wp_intros]:
  "(r = None \<Longrightarrow> wp f Q w) \<Longrightarrow> (\<And>x. r = Some x \<Longrightarrow> wp (g x) Q w) \<Longrightarrow>
   wp (case r of None \<Rightarrow> f | Some x \<Rightarrow> g x) Q w"
  by (cases r) auto

lemma wp_list [wp_intros]:
  "(xs = [] \<Longrightarrow> wp f Q w) \<Longrightarrow> (\<And>y ys. xs = y # ys \<Longrightarrow> wp (g y ys) Q w) \<Longrightarrow> wp (case xs of [] \<Rightarrow> f | y # ys \<Rightarrow> g y ys) Q w"
  by (cases xs) auto

lemma wp_prod [wp_intros]: "(\<And>a b. r = (a, b) \<Longrightarrow> wp (f a b) Q w) \<Longrightarrow> wp (case r of (a, b) \<Rightarrow> f a b) Q w"
  by (cases r) auto

lemma wp_if [wp_intros]: "(c \<Longrightarrow> wp a Q w) \<Longrightarrow> (\<not> c \<Longrightarrow> wp b Q w) \<Longrightarrow> wp (if c then a else b) Q w"
  by simp

lemma wp_time_Now [wp_intros]: "Q (clock w) w \<Longrightarrow> wp time_Now Q w"
  by (simp add: wp_def time_Now_def)

lemma wp_io:
  assumes "\<And>fs e. faults w = Some e # fs \<Longrightarrow> Q (Inl (fault_err e)) (w\<lparr>faults := fs\<rparr>)"
    and "\<And>fs. fs = tl (faults w) \<Longrightarrow> case f (w\<lparr>faults := fs\<rparr>) of (r, w') \<Rightarrow> Q r w'"
  shows "wp (io f) Q w"
proof (cases "faults w")
  case Nil
  have same: "w\<lparr>faults := faults w\<rparr> = w" by simp
  from assms(2) [of "faults w", unfolded same] Nil show ?thesis by (simp add: wp_def io_def)
next
  case (Cons a fs)
  with assms show ?thesis by (cases a) (simp_all add: wp_def io_def)
qed

lemma wp_qry [wp_intros]:
  "(\<And>fs e. faults w = Some e # fs \<Longrightarrow> Q (Inl (fault_err e)) (w\<lparr>faults := fs\<rparr>)) \<Longrightarrow> (\<And>fs. fs = tl (faults w) \<Longrightarrow> Q (f (dbs w)) (w\<lparr>faults := fs\<rparr>)) \<Longrightarrow> wp (qry f) Q w"
  unfolding qry_def by (rule wp_io) auto

lemma wp_qry_now [wp_intros]:
  "(\<And>fs e. faults w = Some e # fs \<Longrightarrow> Q (Inl (fault_err e)) (w\<lparr>faults := fs\<rparr>)) \<Longrightarrow> (\<And>fs. fs = tl (faults w) \<Longrightarrow> Q (Inr (f (clock w) (dbs w))) (w\<lparr>faults := fs\<rparr>)) \<Longrightarrow>
   wp (qry_now f) Q w"
  unfolding qry_now_def by (rule wp_io) auto

lemma wp_exec [wp_intros]:
  "(\<And>fs e. faults w = Some e # fs \<Longrightarrow> Q (Inl (fault_err e)) (w\<lparr>faults := fs\<rparr>)) \<Longrightarrow>
   (\<And>fs r d. fs = tl (faults w) \<Longrightarrow> f (clock w) (dbs w) = (r, d) \<Longrightarrow> Q r (w\<lparr>faults := fs, dbs := d\<rparr>)) \<Longrightarrow> wp (exec f) Q w"
  unfolding exec_def by (rule wp_io) (auto split: prod.splits)

lemma wp_upd [wp_intros]:
  "(\<And>fs e. faults w = Some e # fs \<Longrightarrow> Q (Inl (fault_err e)) (w\<lparr>faults := fs\<rparr>)) \<Longrightarrow>
   (\<And>fs. fs = tl (faults w) \<Longrightarrow> Q (Inr ()) (w\<lparr>faults := fs, dbs := f (clock w) (dbs w)\<rparr>)) \<Longrightarrow> wp (upd f) Q w"
  unfolding upd_def by (rule wp_exec) auto

lemma wp_insert [wp_intros]:
  "(\<And>fs e. faults w = Some e # fs \<Longrightarrow> Q (Inl (fault_err e)) (w\<lparr>faults := fs\<rparr>)) \<Longrightarrow>
   (\<And>fs r d. fs = tl (faults w) \<Longrightarrow> f (new_id env (ids_drawn w)) (clock w) (dbs w) = (r, d) \<Longrightarrow>
      Q r (w\<lparr>faults := fs, dbs := d, ids_drawn := ids_drawn w + 1\<rparr>)) \<Longrightarrow> wp (insert_row env f) Q w"
  unfolding insert_row_def by (rule wp_io) (auto split: prod.splits)

lemma wp_rand [wp_intros]:
  "(\<And>fs e. faults w = Some e # fs \<Longrightarrow> Q (Inl (fault_err e)) (w\<lparr>faults := fs\<rparr>)) \<Longrightarrow>
   (\<And>fs. fs = tl (faults w) \<Longrightarrow> Q (Inr (take n (random env (reads_done w)))) (w\<lparr>faults := fs, reads_done := reads_done w + 1\<rparr>)) \<Longrightarrow>
   wp (rand_Read env n) Q w"
  unfolding rand_Read_def by (rule wp_io) auto

lemma wp_cache_Get [wp_intros]:
  "(\<And>fs e. faults w = Some e # fs \<Longrightarrow> Q (Inl (fault_err e)) (w\<lparr>faults := fs\<rparr>)) \<Longrightarrow>
   (\<And>fs. fs = tl (faults w) \<Longrightarrow> Q (Inr (mc_Get (clock w) k (mcache w))) (w\<lparr>faults := fs\<rparr>)) \<Longrightarrow> wp (cache_Get k) Q w"
  unfolding cache_Get_def by (rule wp_io) auto

lemma wp_cache_Set [wp_intros]:
  "(\<And>fs e. faults w = Some e # fs \<Longrightarrow> Q (Inl (fault_err e)) (w\<lparr>faults := fs\<rparr>)) \<Longrightarrow>
   (\<And>fs. fs = tl (faults w) \<Longrightarrow> Q (Inr ()) (w\<lparr>faults := fs, mcache := mc_Set (ord_entries env) (clock w) k v ttl (mcache w)\<rparr>)) \<Longrightarrow>
   wp (cache_Set env k v ttl) Q w"
  unfolding cache_Set_def by (rule wp_io) auto

lemma wp_cache_Delete [wp_intros]:
  "(\<And>fs e. faults w = Some e # fs \<Longrightarrow> Q (Inl (fault_err e)) (w\<lparr>faults := fs\<rparr>)) \<Longrightarrow>
   (\<And>fs. fs = tl (faults w) \<Longrightarrow> Q (Inr ()) (w\<lparr>faults := fs, mcache := mc_Delete k (mcache w)\<rparr>)) \<Longrightarrow> wp (cache_Delete k) Q w"
  unfolding cache_Delete_def by (rule wp_io) auto

lemma wp_cache_Allow [wp_intros]:
  "(\<And>fs e. faults w = Some e # fs \<Longrightarrow> Q (Inl (fault_err e)) (w\<lparr>faults := fs\<rparr>)) \<Longrightarrow>
   (\<And>fs b m. fs = tl (faults w) \<Longrightarrow> mc_Allow (ord_windows env) (clock w) k l win (mcache w) = (b, m) \<Longrightarrow>
      Q (Inr b) (w\<lparr>faults := fs, mcache := m\<rparr>)) \<Longrightarrow> wp (cache_Allow env k l win) Q w"
  unfolding cache_Allow_def by (rule wp_io) (auto split: prod.splits)

lemma wp_Send [wp_intros]:
  "(\<And>fs e. faults w = Some e # fs \<Longrightarrow> Q (Inl (fault_err e)) (w\<lparr>faults := fs\<rparr>)) \<Longrightarrow>
   (\<And>fs. fs = tl (faults w) \<Longrightarrow> Q (Inr ()) (w\<lparr>faults := fs, outbox := outbox w @ [(a, b, c)]\<rparr>)) \<Longrightarrow> wp (Send a b c) Q w"
  unfolding Send_def by (rule wp_io) auto

text \<open>Rules tried before the others: a branch that is already decided.\<close>

named_theorems wp_first \<open>rules tried before those of wp_intros\<close>

lemma wp_known [wp_first]:
  "wp (f e) Q w \<Longrightarrow> wp (case Inl e of Inl e \<Rightarrow> f e | Inr x \<Rightarrow> g x) Q w"
  "wp (g x) Q w \<Longrightarrow> wp (case Inr x of Inl e \<Rightarrow> f e | Inr x \<Rightarrow> g x) Q w"
  "wp (h a b) Q w \<Longrightarrow> wp (case (a, b) of (a, b) \<Rightarrow> h a b) Q w"
  by simp_all

text \<open>A long handler is decomposed with rules that name the world after each call and say only what
  its tables, its clock and its faults are.\<close>

definition after :: "world \<Rightarrow> db \<Rightarrow> world \<Rightarrow> bool" where
  "after w d w' \<longleftrightarrow> dbs w' = d \<and> repos w' = repos w \<and> clock w' = clock w \<and> (faults w = [] \<longrightarrow> faults w' = [])"

named_theorems wp_after \<open>rules that name the world after each call\<close>

lemmas [wp_after] = wp_return wp_bind wp_sum wp_option wp_list wp_prod wp_if wp_time_Now

lemma after_simps: "after w (dbs w) w" "after w (dbs w) (w\<lparr>faults := tl (faults w)\<rparr>)"
  "faults w = Some e # fs \<Longrightarrow> after w (dbs w) (w\<lparr>faults := fs\<rparr>)"
  by (auto simp: after_def)

lemma wp_io_after:
  assumes "\<And>e w'. faults w \<noteq> [] \<Longrightarrow> after w (dbs w) w' \<Longrightarrow> Q (Inl (fault_err e)) w'"
    and "\<And>v. after w (dbs w) v \<Longrightarrow> mcache v = mcache w \<Longrightarrow> case f v of (r, w') \<Rightarrow> Q r w'"
  shows "wp (io f) Q w"
  by (rule wp_io) (use assms in \<open>auto simp: after_def\<close>)

lemma wp_calls_after [wp_after]:
  "(\<And>e w'. faults w \<noteq> [] \<Longrightarrow> after w (dbs w) w' \<Longrightarrow> Q (Inl (fault_err e)) w') \<Longrightarrow>
   (\<And>w'. after w (dbs w) w' \<Longrightarrow> Q (f (dbs w)) w') \<Longrightarrow> wp (qry f) Q w"
  "(\<And>e w'. faults w \<noteq> [] \<Longrightarrow> after w (dbs w) w' \<Longrightarrow> Q1 (Inl (fault_err e)) w') \<Longrightarrow>
   (\<And>w'. after w (dbs w) w' \<Longrightarrow> Q1 (Inr (f1 (clock w) (dbs w))) w') \<Longrightarrow> wp (qry_now f1) Q1 w"
  "(\<And>e w'. faults w \<noteq> [] \<Longrightarrow> after w (dbs w) w' \<Longrightarrow> Q2 (Inl (fault_err e)) w') \<Longrightarrow>
   (\<And>r d w'. f2 (clock w) (dbs w) = (r, d) \<Longrightarrow> after w d w' \<Longrightarrow> Q2 r w') \<Longrightarrow> wp (exec f2) Q2 w"
  "(\<And>e w'. faults w \<noteq> [] \<Longrightarrow> after w (dbs w) w' \<Longrightarrow> Q3 (Inl (fault_err e)) w') \<Longrightarrow>
   (\<And>w'. after w (f3 (clock w) (dbs w)) w' \<Longrightarrow> Q3 (Inr ()) w') \<Longrightarrow> wp (upd f3) Q3 w"
  "(\<And>e w'. faults w \<noteq> [] \<Longrightarrow> after w (dbs w) w' \<Longrightarrow> Q4 (Inl (fault_err e)) w') \<Longrightarrow>
   (\<And>n r d w'. f4 (new_id env n) (clock w) (dbs w) = (r, d) \<Longrightarrow> after w d w' \<Longrightarrow> Q4 r w') \<Longrightarrow> wp (insert_row env f4) Q4 w"
  "(\<And>e w'. faults w \<noteq> [] \<Longrightarrow> after w (dbs w) w' \<Longrightarrow> Q5 (Inl (fault_err e)) w') \<Longrightarrow>
   (\<And>m w'. after w (dbs w) w' \<Longrightarrow> Q5 (Inr (take k (random env m))) w') \<Longrightarrow> wp (rand_Read env k) Q5 w"
  "(\<And>e w'. faults w \<noteq> [] \<Longrightarrow> after w (dbs w) w' \<Longrightarrow> Q3 (Inl (fault_err e)) w') \<Longrightarrow>
   (\<And>w'. after w (dbs w) w' \<Longrightarrow> Q3 (Inr ()) w') \<Longrightarrow> wp (Send x y z) Q3 w"
  "(\<And>e w'. faults w \<noteq> [] \<Longrightarrow> after w (dbs w) w' \<Longrightarrow> Q6 (Inl (fault_err e)) w') \<Longrightarrow>
   (\<And>b m w'. mc_Allow (ord_windows env) (clock w) key l win (mcache w) = (b, m) \<Longrightarrow> after w (dbs w) w' \<Longrightarrow> Q6 (Inr b) w') \<Longrightarrow>
   wp (cache_Allow env key l win) Q6 w"
  unfolding call_defs by (rule wp_io_after; auto simp: after_def split: prod.splits)+

lemma wp_insert_rows_after [wp_after]:
  "(\<And>e w'. faults w \<noteq> [] \<Longrightarrow> after w (dbs w) w' \<Longrightarrow> Q (Inl (fault_err e)) w') \<Longrightarrow>
   (\<And>m r d w'. f (map (\<lambda>k. new_id env (m + k)) [0..<n]) (clock w) (dbs w) = (r, d) \<Longrightarrow> after w d w' \<Longrightarrow> Q r w') \<Longrightarrow> wp (insert_rows env n f) Q w"
  unfolding insert_rows_def by (rule wp_io_after; auto simp: after_def split: prod.splits)

lemma wp_uuid_New_after [wp_after]: "(\<And>m w'. after w (dbs w) w' \<Longrightarrow> Q (Canonical (new_id env m)) w') \<Longrightarrow> wp (uuid_New env) Q w"
  by (simp add: wp_def uuid_New_def after_def)

text \<open>An update whose result the handler ignores.\<close>

lemma wp_upd_ignored [wp_first]:
  assumes "\<And>d v. d = f (clock w) (dbs w) \<or> faults w \<noteq> [] \<and> d = dbs w \<Longrightarrow> after w d v \<Longrightarrow> wp m Q v"
  shows "wp (State_Monad.bind (upd f) (\<lambda>_. m)) Q w"
  by (intro wp_after) (auto intro: assms)

text \<open>Without faults a call succeeds.\<close>

definition calm :: "world \<Rightarrow> 'a res \<Rightarrow> world \<Rightarrow> bool" where
  "calm w r w' \<longleftrightarrow> (faults w = [] \<longrightarrow> faults w' = [] \<and> (\<exists>x. r = Inr x))"

lemma wp_conseq: "wp m Q w \<Longrightarrow> (\<And>r w'. Q r w' \<Longrightarrow> R r w') \<Longrightarrow> wp m R w"
  by (auto simp: wp_def split: prod.splits)

lemma wp_run: "wp m Q w \<Longrightarrow> run m w = (r, w') \<Longrightarrow> Q r w'"
  by (simp add: wp_def)

lemma wp_obtain:
  assumes "wp m Q w"
  obtains r w' where "run m w = (r, w')" and "Q r w'"
  using assms by (auto simp: wp_def split: prod.splits)

lemma wp_runI: "(\<And>r w'. run m w = (r, w') \<Longrightarrow> Q r w') \<Longrightarrow> wp m Q w"
  by (auto simp: wp_def)

text \<open>Rewriting a run without faults.\<close>

named_theorems calm_simps \<open>runs without faults\<close>

lemma wp_monad_eq [calm_simps]:
  "wp (State_Monad.return x) Q = Q x" "wp (State_Monad.bind m k) R = wp m (\<lambda>x. wp (k x) R)"
  "wp time_Now P = (\<lambda>w. P (clock w) w)"
  by (rule ext, simp add: wp_def State_Monad.return_def State_Monad.bind_def time_Now_def split: prod.splits)+

lemma wp_io_calm: "faults w = [] \<Longrightarrow> wp (io f) Q w = (case f w of (r, w') \<Rightarrow> Q r w')"
  by (simp add: wp_def io_def)

lemma wp_call_calm [calm_simps]:
  assumes "faults w = []"
  shows "wp (qry f) Q1 w = Q1 (f (dbs w)) w"
    and "wp (qry_now g) Q2 w = Q2 (Inr (g (clock w) (dbs w))) w"
    and "wp (exec h) Q3 w = (case h (clock w) (dbs w) of (r, d) \<Rightarrow> Q3 r (w\<lparr>dbs := d\<rparr>))"
    and "wp (upd u) Q4 w = Q4 (Inr ()) (w\<lparr>dbs := u (clock w) (dbs w)\<rparr>)"
    and "wp (insert_row env i) Q5 w = (case i (new_id env (ids_drawn w)) (clock w) (dbs w) of
           (r, d) \<Rightarrow> Q5 r (w\<lparr>dbs := d, ids_drawn := ids_drawn w + 1\<rparr>))"
    and "wp (rand_Read env n) Q6 w = Q6 (Inr (take n (random env (reads_done w)))) (w\<lparr>reads_done := reads_done w + 1\<rparr>)"
    and "wp (Send a b c) Q4 w = Q4 (Inr ()) (w\<lparr>outbox := outbox w @ [(a, b, c)]\<rparr>)"
    and "wp (cache_Delete k) Q4 w = Q4 (Inr ()) (w\<lparr>mcache := mc_Delete k (mcache w)\<rparr>)"
    and "wp (cache_Allow env k l win) Q7 w = (case mc_Allow (ord_windows env) (clock w) k l win (mcache w) of
           (b, m) \<Rightarrow> Q7 (Inr b) (w\<lparr>mcache := m\<rparr>))"
  using assms by (simp_all add: call_defs wp_io_calm split: prod.splits)

lemma wp_run_iff: "wp m (\<lambda>r w'. P r) w \<longleftrightarrow> P (fst (run m w))"
  by (simp add: wp_def split: prod.splits)

text \<open>A unit of work either takes effect as a whole or leaves the tables as they were.\<close>

lemma wp_uow [wp_intros]:
  assumes "\<And>fs e. faults w = Some e # fs \<Longrightarrow> Q (Inl (fault_err e)) (w\<lparr>faults := fs\<rparr>)"
    and "\<And>fs. fs = tl (faults w) \<Longrightarrow> wp fn (\<lambda>r w2.
           (\<forall>e. r = Inl e \<longrightarrow> Q (Inl e) (w2\<lparr>dbs := dbs w\<rparr>))
           \<and> (\<forall>x. r = Inr x \<longrightarrow> (\<forall>e fs'. faults w2 = Some e # fs' \<longrightarrow> Q (Inl (fault_err e)) (w2\<lparr>faults := fs', dbs := dbs w\<rparr>))
                \<and> Q (Inr x) (w2\<lparr>faults := tl (faults w2)\<rparr>))) (w\<lparr>faults := fs\<rparr>)"
  shows "wp (uow_do fn) Q w"
proof -
  have io: "case run (io (\<lambda>w. (Inr (), w))) v of
      (Inl e, v') \<Rightarrow> \<exists>fs e'. e = fault_err e' \<and> faults v = Some e' # fs \<and> v' = v\<lparr>faults := fs\<rparr>
    | (Inr _, v') \<Rightarrow> v' = v\<lparr>faults := tl (faults v)\<rparr>" for v
    by (auto simp: io_def split: list.splits option.splits)
  obtain r1 w1 where 1: "run (io (\<lambda>w. (Inr (), w))) w = (r1, w1)" by fastforce
  obtain r2 w2 where 2: "run fn w1 = (r2, w2)" by fastforce
  obtain r3 w3 where 3: "run (io (\<lambda>w. (Inr (), w))) w2 = (r3, w3)" by fastforce
  show ?thesis
  proof (cases r1)
    case (Inl e)
    with io [of w] 1 assms(1) show ?thesis by (auto simp: wp_def uow_do_def)
  next
    case (Inr u)
    with io [of w] 1 have w1: "w1 = w\<lparr>faults := tl (faults w)\<rparr>" by simp
    have q: "wp fn (\<lambda>r w2. (\<forall>e. r = Inl e \<longrightarrow> Q (Inl e) (w2\<lparr>dbs := dbs w\<rparr>))
           \<and> (\<forall>x. r = Inr x \<longrightarrow> (\<forall>e fs'. faults w2 = Some e # fs' \<longrightarrow> Q (Inl (fault_err e)) (w2\<lparr>faults := fs', dbs := dbs w\<rparr>))
                \<and> Q (Inr x) (w2\<lparr>faults := tl (faults w2)\<rparr>))) w1"
      using assms(2) w1 by simp
    show ?thesis
    proof (cases r2)
      case (Inl e)
      with 1 2 Inr w1 q show ?thesis by (simp add: wp_def uow_do_def)
    next
      case r2: (Inr x)
      with 1 2 3 Inr w1 q io [of w2] show ?thesis by (auto simp: wp_def uow_do_def split: sum.splits)
    qed
  qed
qed

text \<open>The same, with the worlds named.\<close>

lemma wp_uow_after [wp_after]:
  assumes "\<And>e w'. faults w \<noteq> [] \<Longrightarrow> after w (dbs w) w' \<Longrightarrow> Q (Inl (fault_err e)) w'"
    and "\<And>v. after w (dbs w) v \<Longrightarrow> wp fn (\<lambda>r v'.
           (case r of
              Inl e \<Rightarrow> \<forall>w'. clock w' = clock v' \<and> repos w' = repos v' \<and> dbs w' = dbs w \<and> (faults v' = [] \<longrightarrow> faults w' = []) \<longrightarrow> Q (Inl e) w'
            | Inr x \<Rightarrow> (\<forall>w' e. faults v' \<noteq> [] \<and> clock w' = clock v' \<and> repos w' = repos v' \<and> dbs w' = dbs w \<longrightarrow> Q (Inl (fault_err e)) w')
                \<and> (\<forall>w'. after v' (dbs v') w' \<longrightarrow> Q (Inr x) w'))) v"
  shows "wp (uow_do fn) Q w"
  by (rule wp_uow)
    (auto intro: assms(1) simp: after_def intro!: wp_conseq [OF assms(2)] split: sum.splits)

end
