(* ===== verification/Policy_Engine.thy ===== *)
theory Policy_Engine
  imports World
begin

text \<open>
  The authorization engine of \<open>internal/hades/authorization\<close>: the Rego policy
  (\<open>hades/authz/authz.rego\<close>), the cache-backed binding store (\<open>store.go\<close>) and the engine that
  evaluates the policy over it (\<open>engine.go\<close>).

  The policy is a function of the superadmin list, the subject's bindings and the request.  OPA
  evaluates its clauses in the order they are written and stops at the first that holds, and it
  reads \<open>data.role_bindings[subject]\<close> at most once per evaluation; \<open>eval_policy\<close> does the same.
\<close>

section \<open>The Rego policy\<close>

record subject_binding =
  Role :: string
  BDomain :: string

definition owner_actions :: "string list" where
  "owner_actions = [''create'', ''read'', ''list'', ''update'', ''publish'', ''push'', ''delete'', ''admin'', ''transfer'']"

definition admin_actions :: "string list" where
  "admin_actions = [''create'', ''read'', ''list'', ''update'', ''publish'', ''push'', ''delete'', ''admin'']"

definition role_permissions :: "string \<Rightarrow> string \<Rightarrow> string list" where
  "role_permissions role resource =
     (if role = ''owner'' then
        (if resource = ''module'' then owner_actions
         else if resource = ''org'' then [''read'', ''update'', ''admin''] else [])
      else if role = ''admin'' then
        (if resource = ''module'' then admin_actions
         else if resource = ''org'' then [''read'', ''update'', ''admin''] else [])
      else if role = ''contributor'' then
        (if resource = ''module'' then [''read'', ''list'', ''push'']
         else if resource = ''org'' then [''read''] else [])
      else if role = ''reader'' then
        (if resource = ''module'' then [''read'', ''list'']
         else if resource = ''org'' then [''read''] else [])
      else [])"

definition trim_suffix :: "string \<Rightarrow> string \<Rightarrow> string" where
  "trim_suffix s suf = fst (CutSuffix s suf)"

definition domain_matches :: "string \<Rightarrow> string \<Rightarrow> bool" where
  "domain_matches pattern domain \<longleftrightarrow>
     pattern = domain
     \<or> HasSuffix pattern ''/*'' \<and> HasPrefix domain (trim_suffix pattern ''/*'' @ ''/'')
     \<or> pattern = ''*''"

definition superadmin_clause :: "string list \<Rightarrow> policy \<Rightarrow> bool" where
  "superadmin_clause admins p = (Subject p \<in> set admins)"

definition public_clause :: "policy \<Rightarrow> bool" where
  "public_clause p = (Action p \<in> {''read'', ''list''} \<and> Visibility p = ''public'')"

definition binding_clause :: "subject_binding list \<Rightarrow> policy \<Rightarrow> bool" where
  "binding_clause bs p = (\<exists>b \<in> set bs. domain_matches (BDomain b) (Domain p)
     \<and> Action p \<in> set (role_permissions (Role b) (ResourceType p)))"

definition policy_allow :: "string list \<Rightarrow> subject_binding list \<Rightarrow> policy \<Rightarrow> bool" where
  "policy_allow admins bs p \<longleftrightarrow> superadmin_clause admins p \<or> public_clause p \<or> binding_clause bs p"

section \<open>The binding store\<close>

definition bindingCacheKey :: "string \<Rightarrow> string" where
  "bindingCacheKey subject = ''opa:bindings:'' @ subject"

definition negativeBindingCacheTTL :: time where
  "negativeBindingCacheTTL = 2 * Second"

text \<open>The superadmins seeded into the policy's data: empty names are dropped.\<close>

definition seed_admins :: "env \<Rightarrow> string list" where
  "seed_admins env = filter (\<lambda>s. s \<noteq> []) (superAdmins env)"

definition opa_bindings :: "binding_row list \<Rightarrow> subject_binding list" where
  "opa_bindings rows = map (\<lambda>r. \<lparr>Role = bd_role r, BDomain = bd_domain r\<rparr>) rows"

definition marshalSubjectBindings :: "binding_row list \<Rightarrow> string" where
  "marshalSubjectBindings rows =
     enc (JArr (map (\<lambda>r. JObj [(''role'', JStr (bd_role r)), (''domain'', JStr (bd_domain r))]) rows))"

fun to_binding :: "json \<Rightarrow> subject_binding option" where
  "to_binding (JObj ms) = (case (to_field ''role'' ms [], to_field ''domain'' ms []) of
     (Some r, Some d) \<Rightarrow> Some \<lparr>Role = r, BDomain = d\<rparr> | _ \<Rightarrow> None)"
| "to_binding JNull = Some \<lparr>Role = [], BDomain = []\<rparr>"
| "to_binding _ = None"

definition unmarshalSubjectBindings :: "string \<Rightarrow> subject_binding list option" where
  "unmarshalSubjectBindings raw = Option.bind (parse raw) (to_slice to_binding)"

text \<open>\<open>hybridStore.Read\<close> of \<open>/role_bindings/{subject}\<close>: a cache error falls through to the
  database, and the result of filling the cache is ignored.\<close>

definition hybrid_Read :: "env \<Rightarrow> string \<Rightarrow> (world, subject_binding list) call" where
  "hybrid_Read env subject = do {
     let key = bindingCacheKey subject;
     got \<leftarrow> cache_Get key;
     (case got of
        Inr (Some raw) \<Rightarrow>
          (case unmarshalSubjectBindings raw of
             None \<Rightarrow> fail (OtherErr ''hybridStore: cache unmarshal'')
           | Some bindings \<Rightarrow> ok bindings)
      | _ \<Rightarrow> do {
          r \<leftarrow> qry (\<lambda>d. Inr (binding_ListBySubject subject (role_bindings d)));
          (case r of
             Inl e \<Rightarrow> fail e
           | Inr rows \<Rightarrow> do {
               let ttl = (if rows = [] \<and> negativeBindingCacheTTL < bindingTTL env
                          then negativeBindingCacheTTL else bindingTTL env);
               _ \<leftarrow> cache_Set env key (marshalSubjectBindings rows) ttl;
               ok (opa_bindings rows)
             })
        })
   }"

text \<open>\<open>hybridStore.Write\<close>: only a two-segment path names a subject, whose entry is dropped.\<close>

definition hybrid_Write :: "string list \<Rightarrow> (world, unit) call" where
  "hybrid_Write path = (if 1 \<le> length path \<and> path ! 0 = ''role_bindings'' \<and> 2 \<le> length path
     then do { _ \<leftarrow> cache_Delete (bindingCacheKey (path ! 1)); ok () }
     else ok ())"

section \<open>The engine\<close>

text \<open>One evaluation of \<open>policy_allow\<close>.  \<open>docs\<close> are the base documents this evaluation has already
  read; they are read through the store at most once per subject.\<close>

definition read_base :: "env \<Rightarrow> string \<Rightarrow> (string \<times> subject_binding list) list
    \<Rightarrow> (world, subject_binding list \<times> (string \<times> subject_binding list) list) call" where
  "read_base env subject docs = (case map_of docs subject of
     Some bs \<Rightarrow> ok (bs, docs)
   | None \<Rightarrow> do {
       r \<leftarrow> hybrid_Read env subject;
       (case r of Inl e \<Rightarrow> fail e | Inr bs \<Rightarrow> ok (bs, (subject, bs) # docs))
     })"

definition eval_policy :: "env \<Rightarrow> policy \<Rightarrow> (string \<times> subject_binding list) list
    \<Rightarrow> (world, bool \<times> (string \<times> subject_binding list) list) call" where
  "eval_policy env p docs =
     (if superadmin_clause (seed_admins env) p then ok (True, docs)
      else if public_clause p then ok (True, docs)
      else do {
        r \<leftarrow> read_base env (Subject p) docs;
        (case r of Inl e \<Rightarrow> fail e | Inr (bs, docs') \<Rightarrow> ok (binding_clause bs p, docs'))
      })"

definition engine_Allow :: "env \<Rightarrow> policy \<Rightarrow> (world, bool) call" where
  "engine_Allow env p = do {
     r \<leftarrow> eval_policy env p [];
     (case r of Inl e \<Rightarrow> fail e | Inr (b, _) \<Rightarrow> ok b)
   }"

text \<open>\<open>denied_indices\<close>: the indices of the policies that are not allowed.\<close>

fun denied_indices :: "env \<Rightarrow> nat \<Rightarrow> policy list \<Rightarrow> (string \<times> subject_binding list) list \<Rightarrow> (world, nat list) call" where
  "denied_indices env i [] docs = ok []"
| "denied_indices env i (p # ps) docs = do {
     r \<leftarrow> eval_policy env p docs;
     (case r of
        Inl e \<Rightarrow> fail e
      | Inr (b, docs') \<Rightarrow> do {
          rest \<leftarrow> denied_indices env (i + 1) ps docs';
          (case rest of Inl e \<Rightarrow> fail e | Inr ds \<Rightarrow> ok (if b then ds else i # ds))
        })
   }"

fun mark_denied :: "nat list \<Rightarrow> bool list \<Rightarrow> bool list option" where
  "mark_denied [] results = Some results"
| "mark_denied (i # is) results = (if i \<ge> length results then None else mark_denied is (results[i := False]))"

definition engine_BatchAllow :: "env \<Rightarrow> policy list \<Rightarrow> (world, bool list) call" where
  "engine_BatchAllow env inputs =
     (if inputs = [] then ok []
      else do {
        r \<leftarrow> denied_indices env 0 inputs [];
        (case r of
           Inl e \<Rightarrow> fail e
         | Inr denied \<Rightarrow>
             (case mark_denied denied (replicate (length inputs) True) of
                None \<Rightarrow> fail (OtherErr ''batch eval returned out-of-range denied index'')
              | Some results \<Rightarrow> ok results))
      })"

definition engine_AddBinding :: "env \<Rightarrow> string \<Rightarrow> string \<Rightarrow> string \<Rightarrow> (world, unit) call" where
  "engine_AddBinding env subject role domain = do {
     r \<leftarrow> insert_row env (\<lambda>i now d. (Inr (), d\<lparr>role_bindings := binding_Create i now subject role domain (role_bindings d)\<rparr>));
     (case r of Inl e \<Rightarrow> fail e | Inr _ \<Rightarrow> cache_Delete (bindingCacheKey subject))
   }"

definition engine_DeleteBinding :: "string \<Rightarrow> string \<Rightarrow> (world, unit) call" where
  "engine_DeleteBinding subject domain = do {
     r \<leftarrow> upd (\<lambda>now d. d\<lparr>role_bindings := binding_DeleteBySubjectDomain subject domain (role_bindings d)\<rparr>);
     (case r of Inl e \<Rightarrow> fail e | Inr _ \<Rightarrow> cache_Delete (bindingCacheKey subject))
   }"

section \<open>The JSON form of bindings\<close>

lemma to_list_map: "(\<And>x. x \<in> set xs \<Longrightarrow> f (g x) = Some (h x)) \<Longrightarrow> to_list f (map g xs) = Some (map h xs)"
  by (induction xs) auto

lemma unmarshal_marshal:
  "unmarshalSubjectBindings (marshalSubjectBindings rows) = Some (opa_bindings rows)"
proof -
  let ?g = "\<lambda>r. JObj [(''role'', JStr (bd_role r)), (''domain'', JStr (bd_domain r))]"
  have lower: "ToLower ''role'' = ''role''" "ToLower ''domain'' = ''domain''" by code_simp+
  have "to_list to_binding (map ?g rows) = Some (opa_bindings rows)"
    unfolding opa_bindings_def by (rule to_list_map) (simp add: lower)
  moreover have "stored_json (JArr (map ?g rows))" by (simp add: list_all_iff)
  ultimately show ?thesis
    unfolding unmarshalSubjectBindings_def marshalSubjectBindings_def by (simp add: parse_enc del: enc.simps)
qed

section \<open>The cache never serves stale bindings\<close>

definition binding_keys :: "string set" where
  "binding_keys = range bindingCacheKey"

text \<open>What the cache ought to hold under a binding key, given the table.\<close>

definition binding_src :: "binding_row list \<Rightarrow> string \<Rightarrow> string" where
  "binding_src t k = marshalSubjectBindings (binding_ListBySubject (drop (length ''opa:bindings:'') k) t)"

lemma binding_src_key: "binding_src t (bindingCacheKey s) = marshalSubjectBindings (binding_ListBySubject s t)"
  by (simp add: binding_src_def bindingCacheKey_def)

lemma key_in [simp]: "bindingCacheKey s \<in> binding_keys" "bindingCacheKey s \<noteq> []"
  by (simp_all add: binding_keys_def bindingCacheKey_def)

definition cache_coherent :: "world \<Rightarrow> bool" where
  "cache_coherent w \<longleftrightarrow> kv_cache.coherent mc_Get mc_inv binding_keys (binding_src (role_bindings (dbs w))) (mcache w)"

text \<open>The bindings the policy should see for a subject, and its decision on a request.\<close>

definition current_bindings :: "world \<Rightarrow> string \<Rightarrow> subject_binding list" where
  "current_bindings w subject = opa_bindings (binding_ListBySubject subject (role_bindings (dbs w)))"

definition decision :: "env \<Rightarrow> world \<Rightarrow> policy \<Rightarrow> bool" where
  "decision env w p = policy_allow (seed_admins env) (current_bindings w (Subject p)) p"

definition same_state :: "world \<Rightarrow> world \<Rightarrow> bool" where
  "same_state w w' \<longleftrightarrow> dbs w' = dbs w \<and> repos w' = repos w \<and> clock w' = clock w"

lemma same_state_current: "same_state w w' \<Longrightarrow> current_bindings w' s = current_bindings w s"
  by (simp add: same_state_def current_bindings_def)

lemma kv_for:
  assumes "visits oe"
  shows "kv_cache mc_Get (mc_Set oe) mc_Delete mc_inv"
proof -
  have "go_map_order oe (\<lambda>m. m)" using assms by unfold_locales auto
  then show ?thesis by (rule go_map_order.kv_contract)
qed

lemma coherent_def': "cache_coherent w \<longleftrightarrow> mc_inv (mcache w) \<and>
   (\<forall>s t x. mc_Get t (bindingCacheKey s) (mcache w) = Some x \<longrightarrow>
      x = marshalSubjectBindings (binding_ListBySubject s (role_bindings (dbs w))))"
  by (auto simp: cache_coherent_def mc.kv.coherent_def binding_keys_def binding_src_key)

lemma coherent_faults [simp]: "cache_coherent (w\<lparr>faults := fs\<rparr>) = cache_coherent w"
  by (simp add: cache_coherent_def)

lemma coherent_Set:
  assumes "cache_coherent w" and "visits (ord_entries env)"
    and "rows = binding_ListBySubject s (role_bindings (dbs w))"
  shows "cache_coherent (w\<lparr>faults := fs, mcache := mc_Set (ord_entries env) now (bindingCacheKey s)
           (marshalSubjectBindings rows) ttl (mcache w)\<rparr>)"
  using assms kv_cache.coherent_fill [OF kv_for, of "ord_entries env"]
  by (simp add: cache_coherent_def binding_src_key)

lemma hybrid_Read_fresh:
  assumes "cache_coherent w" and "visits (ord_entries env)"
  shows "wp (hybrid_Read env s) (\<lambda>r w'. cache_coherent w' \<and> same_state w w' \<and> calm w r w'
           \<and> (\<forall>bs. r = Inr bs \<longrightarrow> bs = current_bindings w s)) w"
proof -
  have hit: "raw = marshalSubjectBindings (binding_ListBySubject s (role_bindings (dbs w)))"
    if "mc_Get t (bindingCacheKey s) (mcache w) = Some raw" for t raw
    using assms(1) that by (simp add: coherent_def')
  show ?thesis
    unfolding hybrid_Read_def Let_def
    by (intro wp_intros)
      (use assms in \<open>auto simp: same_state_def current_bindings_def unmarshal_marshal coherent_Set calm_def dest!: hit\<close>)
qed


text \<open>Base documents read during one evaluation are the current bindings.\<close>

definition docs_fresh :: "world \<Rightarrow> (string \<times> subject_binding list) list \<Rightarrow> bool" where
  "docs_fresh w docs \<longleftrightarrow> (\<forall>(s, bs) \<in> set docs. bs = current_bindings w s)"

lemma docs_fresh_Nil [simp]: "docs_fresh w []"
  by (simp add: docs_fresh_def)

lemma docs_fresh_same: "same_state w w' \<Longrightarrow> docs_fresh w' docs = docs_fresh w docs"
  by (simp add: docs_fresh_def same_state_current [of w w'])

lemma docs_fresh_hit: "docs_fresh w docs \<Longrightarrow> map_of docs s = Some bs \<Longrightarrow> bs = current_bindings w s"
  by (fastforce simp: docs_fresh_def dest: map_of_SomeD)

lemma same_state_refl [simp]: "same_state w w"
  by (simp add: same_state_def)

lemma same_state_trans: "same_state w w' \<Longrightarrow> same_state w' w'' \<Longrightarrow> same_state w w''"
  by (simp add: same_state_def)

lemma read_base_fresh:
  assumes "cache_coherent w" and "visits (ord_entries env)" and "docs_fresh w docs"
  shows "wp (read_base env s docs) (\<lambda>r w'. cache_coherent w' \<and> same_state w w' \<and> calm w r w'
           \<and> (\<forall>bs docs'. r = Inr (bs, docs') \<longrightarrow> bs = current_bindings w s \<and> docs_fresh w docs')) w"
  unfolding read_base_def
proof (intro wp_intros, goal_cases)
  case 1
  then show ?case
    by (intro wp_conseq [OF hybrid_Read_fresh [OF assms(1,2)]] wp_intros) (use assms(3) in \<open>auto simp: docs_fresh_def calm_def\<close>)
qed (use assms docs_fresh_hit in \<open>auto simp: calm_def\<close>)

lemma eval_policy_decides:
  assumes "cache_coherent w" and "visits (ord_entries env)" and "docs_fresh w docs"
  shows "wp (eval_policy env p docs) (\<lambda>r w'. cache_coherent w' \<and> same_state w w' \<and> calm w r w'
           \<and> (\<forall>b docs'. r = Inr (b, docs') \<longrightarrow> b = decision env w p \<and> docs_fresh w docs')) w"
  unfolding eval_policy_def
  by (intro wp_intros wp_conseq [OF read_base_fresh [OF assms]])
    (use assms in \<open>auto simp: decision_def policy_allow_def calm_def\<close>)

lemma engine_Allow_decides:
  assumes "cache_coherent w" and "visits (ord_entries env)"
  shows "wp (engine_Allow env p) (\<lambda>r w'. cache_coherent w' \<and> same_state w w' \<and> calm w r w'
           \<and> (\<forall>b. r = Inr b \<longrightarrow> b = decision env w p)) w"
  unfolding engine_Allow_def
  by (intro wp_intros wp_conseq [OF eval_policy_decides [OF assms docs_fresh_Nil]]) (auto simp: calm_def)

section \<open>Batch evaluation\<close>

definition denied_from :: "env \<Rightarrow> world \<Rightarrow> nat \<Rightarrow> policy list \<Rightarrow> nat list" where
  "denied_from env w i ps = filter (\<lambda>j. \<not> decision env w (ps ! (j - i))) [i..<i + length ps]"

lemma denied_from_Cons:
  "denied_from env w i (p # ps) = (if decision env w p then [] else [i]) @ denied_from env w (i + 1) ps"
proof -
  have "[i..<i + length (p # ps)] = i # [i + 1..<i + 1 + length ps]" by (simp add: upt_rec)
  moreover have "filter (\<lambda>j. \<not> decision env w ((p # ps) ! (j - i))) [i + 1..<i + 1 + length ps]
      = filter (\<lambda>j. \<not> decision env w (ps ! (j - (i + 1)))) [i + 1..<i + 1 + length ps]"
    by (rule filter_cong) (auto simp: nth_Cons')
  ultimately show ?thesis by (simp add: denied_from_def)
qed

lemma decision_same: "same_state w w' \<Longrightarrow> decision env w' p = decision env w p"
  by (simp add: decision_def same_state_current [of w w'])

lemma denied_from_same: "same_state w w' \<Longrightarrow> denied_from env w' i ps = denied_from env w i ps"
  by (simp add: denied_from_def decision_same [of w w'])

lemma denied_indices_decide:
  assumes "cache_coherent w" and "visits (ord_entries env)" and "docs_fresh w docs"
  shows "wp (denied_indices env i ps docs) (\<lambda>r w'. cache_coherent w' \<and> same_state w w' \<and> calm w r w'
           \<and> (\<forall>ds. r = Inr ds \<longrightarrow> ds = denied_from env w i ps)) w"
  using assms
proof (induction ps arbitrary: i docs w)
  case Nil
  then show ?case by (auto intro!: wp_intros simp: denied_from_def calm_def)
next
  case (Cons p ps)
  show ?case
    unfolding denied_indices.simps
  proof (intro wp_bind wp_conseq [OF eval_policy_decides [OF Cons.prems]] wp_sum, goal_cases)
    case (2 r w1 x)
    obtain b docs' where x: "x = (b, docs')" by fastforce
    have "wp (denied_indices env (i + 1) ps docs') (\<lambda>r w'. cache_coherent w' \<and> same_state w1 w' \<and> calm w1 r w'
           \<and> (\<forall>ds. r = Inr ds \<longrightarrow> ds = denied_from env w1 (i + 1) ps)) w1"
      using 2 x Cons.prems(2) docs_fresh_same [of w w1] by (intro Cons.IH) auto
    with 2 x denied_from_same [of w w1] show ?case
      by (auto intro!: wp_bind wp_sum wp_return elim!: wp_conseq simp: denied_from_Cons calm_def dest: same_state_trans)
  qed (auto intro!: wp_return simp: calm_def)
qed

lemma mark_denied_filter:
  assumes "i + length ps = length res" and "\<forall>j < length res. j \<ge> i \<longrightarrow> res ! j"
  shows "mark_denied (denied_from env w i ps) res
       = Some (take i res @ map (decision env w) ps)"
  using assms
proof (induction ps arbitrary: i res)
  case Nil
  then show ?case by (simp add: denied_from_def)
next
  case (Cons p ps)
  let ?res = "if decision env w p then res else res[i := False]"
  have i: "i < length res" and len: "i + 1 + length ps = length ?res" using Cons.prems by auto
  have ri: "?res ! i = decision env w p" using Cons.prems i by auto
  have "mark_denied (denied_from env w (i + 1) ps) ?res = Some (take (i + 1) ?res @ map (decision env w) ps)"
    using Cons.prems(2) len by (intro Cons.IH) auto
  moreover have "take (i + 1) ?res = take i res @ [decision env w p]"
    using i ri by (simp add: take_Suc_conv_app_nth)
  ultimately show ?case using i by (auto simp: denied_from_Cons)
qed

lemma engine_BatchAllow_decides:
  assumes "cache_coherent w" and "visits (ord_entries env)"
  shows "wp (engine_BatchAllow env ps) (\<lambda>r w'. cache_coherent w' \<and> same_state w w' \<and> calm w r w'
           \<and> (\<forall>bs. r = Inr bs \<longrightarrow> bs = map (decision env w) ps)) w"
proof -
  have mark: "mark_denied (denied_from env w 0 ps) (replicate (length ps) True) = Some (map (decision env w) ps)"
    using mark_denied_filter [of 0 ps "replicate (length ps) True"] by simp
  show ?thesis
    unfolding engine_BatchAllow_def
    by (intro wp_intros wp_conseq [OF denied_indices_decide [OF assms docs_fresh_Nil]])
      (use assms mark in \<open>auto simp: calm_def\<close>)
qed


section \<open>Changing bindings\<close>

lemma ListBySubject_Create_other:
  "s' \<noteq> s \<Longrightarrow> binding_ListBySubject s' (binding_Create i now s r d t) = binding_ListBySubject s' t"
  by (simp add: binding_ListBySubject_def binding_Create_def)

lemma ListBySubject_Delete_other:
  "s' \<noteq> s \<Longrightarrow> binding_ListBySubject s' (binding_DeleteBySubjectDomain s d t) = binding_ListBySubject s' t"
  by (simp add: binding_ListBySubject_def binding_DeleteBySubjectDomain_def) (metis (lifting))

lemma coherent_invalidated:
  assumes "cache_coherent w" and "mcache w' = mc_Delete (bindingCacheKey s) (mcache w)"
    and "\<And>s'. s' \<noteq> s \<Longrightarrow> binding_ListBySubject s' (role_bindings (dbs w'))
      = binding_ListBySubject s' (role_bindings (dbs w))"
  shows "cache_coherent w'"
  using assms mc_inv_Delete [of "mcache w"]
  by (auto simp: coherent_def' mc_Get_def mc_Delete_def bindingCacheKey_def split: if_splits)

lemma set_ListBySubject: "set (binding_ListBySubject s t) = {r \<in> set t. bd_subject r = s}"
  by (auto simp: binding_ListBySubject_def)

lemma binding_Create_present:
  assumes "i \<notin> bd_id ` set t"
  shows "\<exists>b \<in> set (binding_Create i now s r d t). bd_subject b = s \<and> bd_role b = r \<and> bd_domain b = d"
  using assms by (auto simp: binding_Create_def)

lemma engine_AddBinding_effect:
  assumes "cache_coherent w"
  shows "wp (engine_AddBinding env s r d) (\<lambda>res w'. res = Inr () \<longrightarrow> cache_coherent w' \<and>
     role_bindings (dbs w') = binding_Create (new_id env (ids_drawn w)) (clock w) s r d (role_bindings (dbs w))) w"
  unfolding engine_AddBinding_def
  by (intro wp_intros)
    (use assms in \<open>auto simp: ListBySubject_Create_other intro!: coherent_invalidated [of w _ s]\<close>)

lemma engine_DeleteBinding_effect:
  assumes "cache_coherent w"
  shows "wp (engine_DeleteBinding s d) (\<lambda>res w'. res = Inr () \<longrightarrow> cache_coherent w' \<and>
     role_bindings (dbs w') = binding_DeleteBySubjectDomain s d (role_bindings (dbs w))) w"
  unfolding engine_DeleteBinding_def
  by (intro wp_intros)
    (use assms in \<open>auto simp: ListBySubject_Delete_other intro!: coherent_invalidated [of w _ s]\<close>)

section \<open>Domains\<close>

lemma domain_matches_wild:
  "domain_matches (ns @ ''/*'') d \<longleftrightarrow> (\<exists>name. d = ns @ CHR ''/'' # name)"
proof -
  have "trim_suffix (ns @ ''/*'') ''/*'' = ns" unfolding trim_suffix_def CutSuffix_append by simp
  moreover have "HasSuffix (ns @ ''/*'') ''/*''" by (rule HasSuffix_append)
  ultimately show ?thesis by (auto simp: domain_matches_def HasPrefix_iff)
qed

lemma domain_matches_exact:
  assumes "CHR ''*'' \<notin> set p"
  shows "domain_matches p d \<longleftrightarrow> p = d"
  using assms by (auto simp: domain_matches_def HasSuffix_iff)

text \<open>Two patterns over names match the same domains: a namespace pattern covers exactly the
  modules of its owner.\<close>

lemma domain_matches_owner:
  assumes "CHR ''/'' \<notin> set ns" and "CHR ''/'' \<notin> set owner"
  shows "domain_matches (ns @ ''/*'') (owner @ CHR ''/'' # name) \<longleftrightarrow> ns = owner"
  using assms sep_inj [of "CHR ''/''" owner ns name] by (auto simp: domain_matches_wild)

section \<open>Properties\<close>

text \<open>C28. The engine answers with the policy's decision on the bindings currently in the database,
  never on stale ones: with a coherent cache, whatever calls fail, a successful \<open>Allow\<close> returns
  the decision, a successful \<open>BatchAllow\<close> returns the decisions of its inputs in order (so the
  batched and the single path agree), neither changes the tables, and both leave the cache
  coherent.  When nothing fails both succeed.\<close>

theorem engine_decides_on_current_bindings:
  assumes "cache_coherent w" and "visits (ord_entries env)"
  shows "(\<forall>b w'. run (engine_Allow env p) w = (Inr b, w') \<longrightarrow>
            b = decision env w p \<and> dbs w' = dbs w \<and> cache_coherent w')
    \<and> (\<forall>bs w'. run (engine_BatchAllow env ps) w = (Inr bs, w') \<longrightarrow>
            bs = map (decision env w) ps \<and> dbs w' = dbs w \<and> cache_coherent w')
    \<and> (faults w = [] \<longrightarrow> (\<exists>b. fst (run (engine_Allow env p) w) = Inr b)
            \<and> (\<exists>bs. fst (run (engine_BatchAllow env ps) w) = Inr bs))"
proof -
  obtain r1 w1 where 1: "run (engine_Allow env p) w = (r1, w1)" by fastforce
  obtain r2 w2 where 2: "run (engine_BatchAllow env ps) w = (r2, w2)" by fastforce
  show ?thesis
    using wp_run [OF engine_Allow_decides [OF assms] 1] wp_run [OF engine_BatchAllow_decides [OF assms] 2] 1 2
    by (simp add: calm_def same_state_def)
qed

text \<open>A small configuration for concrete runs.\<close>

definition empty_registry :: registry_db where
  "empty_registry = \<lparr>module_table = [], commit_table = [], cirun_table = [], job_table = [], resource_table = [],
     notification_table = [], member_table = [], oplog_table = [], oauth_table = []\<rparr>"

definition empty_db :: db where
  "empty_db = \<lparr>users = [], sessions = [], api_tokens = [], totp_secrets = [], backup_codes = [],
     device_grants = [], email_verifications = [], password_resets = [], role_bindings = [], audit_log = [], registry = empty_registry\<rparr>"

definition start_world :: world where
  "start_world = \<lparr>dbs = empty_db, repos = Map.empty, mcache = NewMemoryCache, clock = 1000 * Second, faults = [],
     ids_drawn = 0, reads_done = 0, outbox = []\<rparr>"

definition demo_hex :: "nat \<Rightarrow> string" where
  "demo_hex n = replicate 31 (CHR ''0'') @ [nibble (n mod 16)]"

definition demo_env :: env where
  "demo_env = \<lparr>GenerateFromPassword = \<lambda>pw cost salt. Inr (''$'' @ pw), CompareHashAndPassword = \<lambda>h pw. h = ''$'' @ pw,
     GenerateCodeCustom = \<lambda>secret step. Inr ''123456'', totp_Generate = \<lambda>i a seed. Inr (seed, i),
     Seal = \<lambda>k n p. n @ p, Open = \<lambda>k n c. Some c, uuid_Parse = Some, new_id = demo_hex, random = demo_hex,
     ord_entries = \<lambda>m. m, ord_windows = \<lambda>m. m, MinLength = 0, BcryptCost = 0, MaxAttempts = 0,
     CooldownMinutes = 0, IdleTimeoutDays = 0, AbsoluteTimeoutDays = 0, EmailTokenExpiryHours = 0,
     AutoVerify = True, ResetTokenExpiryHours = 0, registryHost = ''hades'', Issuer = [],
     EncryptionKey = replicate 64 (CHR ''0''), superAdmins = [''root''], bindingTTL = 60 * Second,
     cache_wired = True, audit_wired = True, mail_wired = True, emailver_wired = True,
     pwreset_wired = True, totp_wired = True, session_wired = True, apitoken_wired = True\<rparr>"

lemma demo_env_simps [simp]:
  "cache_wired demo_env" "audit_wired demo_env" "mail_wired demo_env" "emailver_wired demo_env"
  "pwreset_wired demo_env" "totp_wired demo_env" "session_wired demo_env" "apitoken_wired demo_env"
  "new_id demo_env = demo_hex" "random demo_env = demo_hex" "superAdmins demo_env = [''root'']"
  "ord_windows demo_env = (\<lambda>m. m)" "ord_entries demo_env = (\<lambda>m. m)" "MaxAttempts demo_env = 0"
  "CooldownMinutes demo_env = 0" "IdleTimeoutDays demo_env = 0" "AbsoluteTimeoutDays demo_env = 0"
  "MinLength demo_env = 0" "BcryptCost demo_env = 0" "AutoVerify demo_env" "uuid_Parse demo_env = Some"
  "GenerateFromPassword demo_env = (\<lambda>pw cost salt. Inr (''$'' @ pw))"
  "CompareHashAndPassword demo_env = (\<lambda>h pw. h = ''$'' @ pw)"
  "GenerateCodeCustom demo_env = (\<lambda>secret step. Inr ''123456'')"
  "Seal demo_env = (\<lambda>k n p. n @ p)" "Open demo_env = (\<lambda>k n c. Some c)"
  "EncryptionKey demo_env = replicate 64 (CHR ''0'')"
  by (simp_all add: demo_env_def)

lemma start_coherent: "cache_coherent start_world"
  by (simp add: coherent_def' start_world_def mc_inv_new mc_Get_def)

lemma demo_visits [simp]: "visits (ord_entries demo_env)" "visits (ord_windows demo_env)"
  by (simp_all add: demo_env_def)

theorem engine_decides_on_current_bindings_witness:
  "fst (run (engine_BatchAllow demo_env
     [\<lparr>Subject = ''root'', Domain = ''a/b'', ResourceType = ''module'', Action = ''push'', Visibility = ''private''\<rparr>,
      \<lparr>Subject = ''eve'', Domain = ''a/b'', ResourceType = ''module'', Action = ''push'', Visibility = ''private''\<rparr>])
     start_world) = Inr [True, False]"
proof -
  let ?ps = "[\<lparr>Subject = ''root'', Domain = ''a/b'', ResourceType = ''module'', Action = ''push'', Visibility = ''private''\<rparr>,
      \<lparr>Subject = ''eve'', Domain = ''a/b'', ResourceType = ''module'', Action = ''push'', Visibility = ''private''\<rparr>]"
  have "faults start_world = []" by (simp add: start_world_def)
  then obtain bs where bs: "fst (run (engine_BatchAllow demo_env ?ps) start_world) = Inr bs"
    using engine_decides_on_current_bindings [OF start_coherent demo_visits(1), of undefined ?ps] by blast
  then have "bs = map (decision demo_env start_world) ?ps"
    using engine_decides_on_current_bindings [OF start_coherent demo_visits(1), of undefined ?ps]
    by (metis prod.collapse)
  also have "\<dots> = [True, False]"
    by (simp add: decision_def policy_allow_def superadmin_clause_def public_clause_def binding_clause_def
        current_bindings_def opa_bindings_def binding_ListBySubject_def start_world_def empty_db_def
        seed_admins_def demo_env_def)
  finally show ?thesis using bs by simp
qed

text \<open>C30. A grant takes effect at the next decision: once \<open>AddBinding\<close> reports success, a request
  the new role covers is allowed; the cache cannot bring the old refusal back.\<close>

theorem grant_takes_effect:
  assumes "cache_coherent w" and "visits (ord_entries env)"
    and "new_id env (ids_drawn w) \<notin> bd_id ` set (role_bindings (dbs w))"
    and "run (engine_AddBinding env (Subject p) r d) w = (Inr (), w1)"
    and "domain_matches d (Domain p)" and "Action p \<in> set (role_permissions r (ResourceType p))"
    and "run (engine_Allow env p) w1 = (res, w2)"
  shows "res = Inr True \<or> (\<exists>e. res = Inl e) \<and> faults w1 \<noteq> []"
proof -
  have co: "cache_coherent w1" and t: "role_bindings (dbs w1)
      = binding_Create (new_id env (ids_drawn w)) (clock w) (Subject p) r d (role_bindings (dbs w))"
    using wp_run [OF engine_AddBinding_effect [OF assms(1)] assms(4)] by auto
  have "\<lparr>Role = r, BDomain = d\<rparr> \<in> set (current_bindings w1 (Subject p))"
    using binding_Create_present [OF assms(3)]
    by (force simp: current_bindings_def opa_bindings_def t set_ListBySubject)
  then have "decision env w1 p"
    unfolding decision_def policy_allow_def binding_clause_def
    using assms(5,6) by (metis subject_binding.select_convs)
  with wp_run [OF engine_Allow_decides [OF co assms(2)] assms(7)] show ?thesis
    by (cases res) (auto simp: calm_def)
qed

abbreviation demo_push :: policy where
  "demo_push \<equiv> \<lparr>Subject = ''alice'', Domain = ''alice/m'', ResourceType = ''module'', Action = ''push'', Visibility = ''private''\<rparr>"

definition granted_world :: world where
  "granted_world = snd (run (engine_AddBinding demo_env ''alice'' ''owner'' ''alice/*'') start_world)"

lemma granted_run:
  "run (engine_AddBinding demo_env ''alice'' ''owner'' ''alice/*'') start_world = (Inr (), granted_world)"
  "faults granted_world = []" "ids_drawn granted_world = 1"
  "role_bindings (dbs granted_world) = [\<lparr>bd_id = demo_hex 0, bd_subject = ''alice'', bd_role = ''owner'',
     bd_domain = ''alice/*'', bd_created_at = datetime (1000 * Second)\<rparr>]"
  by (simp_all add: granted_world_def engine_AddBinding_def insert_row_def cache_Delete_def io_def start_world_def
      empty_db_def binding_Create_def demo_env_def)

lemma granted_coherent: "cache_coherent granted_world"
  using wp_run [OF engine_AddBinding_effect [OF start_coherent] granted_run(1)] by simp

theorem grant_takes_effect_witness:
  "fst (run (engine_Allow demo_env demo_push) granted_world) = Inr True"
proof -
  obtain res w2 where r: "run (engine_Allow demo_env demo_push) granted_world = (res, w2)" by fastforce
  have "domain_matches ''alice/*'' ''alice/m''" by code_simp
  with grant_takes_effect [OF start_coherent demo_visits(1) _ _ _ _ r, of "''owner''" "''alice/*''"] granted_run
  show ?thesis using r
    by (simp add: start_world_def empty_db_def role_permissions_def owner_actions_def)
qed

text \<open>C29. A revocation takes effect at the next decision: once \<open>DeleteBinding\<close> reports success, a
  private request of the subject, if it is not a configured superadmin, is allowed exactly when one of
  its other bindings covers it.  The calls run one after the other here; a decision taken by another
  request between the deletion and the commit of its transaction is outside this statement.\<close>

theorem revocation_takes_effect:
  assumes "cache_coherent w" and "visits (ord_entries env)"
    and "Visibility p = VisibilityPrivate" and "Subject p \<notin> set (superAdmins env)"
    and "run (engine_DeleteBinding (Subject p) d) w = (Inr (), w1)"
    and "run (engine_Allow env p) w1 = (Inr b, w2)"
  shows "b \<longleftrightarrow> (\<exists>x \<in> set (current_bindings w (Subject p)). BDomain x \<noteq> d
     \<and> domain_matches (BDomain x) (Domain p) \<and> Action p \<in> set (role_permissions (Role x) (ResourceType p)))"
proof -
  have co: "cache_coherent w1" and t: "role_bindings (dbs w1)
      = binding_DeleteBySubjectDomain (Subject p) d (role_bindings (dbs w))"
    using wp_run [OF engine_DeleteBinding_effect [OF assms(1)] assms(5)] by auto
  have b: "b = decision env w1 p"
    using wp_run [OF engine_Allow_decides [OF co assms(2)] assms(6)] by simp
  have "set (current_bindings w1 (Subject p)) = {x \<in> set (current_bindings w (Subject p)). BDomain x \<noteq> d}"
    by (force simp: current_bindings_def opa_bindings_def t set_ListBySubject binding_DeleteBySubjectDomain_def)
  moreover have "\<not> superadmin_clause (seed_admins env) p" "\<not> public_clause p"
    using assms by (auto simp: superadmin_clause_def seed_admins_def public_clause_def VisibilityPrivate_def)
  ultimately show ?thesis using b by (auto simp: decision_def policy_allow_def binding_clause_def)
qed

theorem revocation_takes_effect_witness:
  "fst (run (engine_Allow demo_env demo_push)
     (snd (run (engine_DeleteBinding ''alice'' ''alice/*'') granted_world))) = Inr False"
proof -
  let ?w1 = "snd (run (engine_DeleteBinding ''alice'' ''alice/*'') granted_world)"
  have d: "run (engine_DeleteBinding (Subject demo_push) ''alice/*'') granted_world = (Inr (), ?w1)"
    and f: "faults ?w1 = []"
    using granted_run(2) by (simp_all add: engine_DeleteBinding_def upd_def exec_def io_def cache_Delete_def)
  have co: "cache_coherent ?w1" using wp_run [OF engine_DeleteBinding_effect [OF granted_coherent] d] by simp
  obtain res w2 where r0: "run (engine_Allow demo_env demo_push) ?w1 = (res, w2)" by fastforce
  then obtain b where r: "run (engine_Allow demo_env demo_push) ?w1 = (Inr b, w2)"
    using wp_run [OF engine_Allow_decides [OF co demo_visits(1)] r0] f by (auto simp: calm_def)
  have "\<not> b"
    using revocation_takes_effect [OF granted_coherent demo_visits(1) _ _ d r] granted_run(4)
    by (simp add: VisibilityPrivate_def demo_env_def current_bindings_def opa_bindings_def binding_ListBySubject_def)
  with r show ?thesis by simp
qed

text \<open>Namespaces are isolated: a subject that is not a superadmin and whose bindings are all
  namespace bindings (the only ones the registry issues for users and organisations) may act on a
  private module \<open>owner/name\<close> exactly when one of its bindings is for \<open>owner/*\<close> with a role that
  permits the action.\<close>

theorem namespaces_isolated:
  assumes "Visibility p = VisibilityPrivate" and "Subject p \<notin> set (superAdmins env)"
    and "Domain p = owner @ CHR ''/'' # name" and "CHR ''/'' \<notin> set owner"
    and "\<forall>b \<in> set (current_bindings w (Subject p)). \<exists>ns. BDomain b = ns @ ''/*'' \<and> CHR ''/'' \<notin> set ns"
  shows "decision env w p \<longleftrightarrow> (\<exists>b \<in> set (current_bindings w (Subject p)).
    BDomain b = owner @ ''/*'' \<and> Action p \<in> set (role_permissions (Role b) (ResourceType p)))"
proof -
  have "\<not> superadmin_clause (seed_admins env) p" "\<not> public_clause p"
    using assms by (auto simp: superadmin_clause_def seed_admins_def public_clause_def VisibilityPrivate_def)
  moreover have "domain_matches (BDomain b) (Domain p) \<longleftrightarrow> BDomain b = owner @ ''/*''"
    if "b \<in> set (current_bindings w (Subject p))" for b
    using assms that domain_matches_owner by fastforce
  ultimately show ?thesis by (auto simp: decision_def policy_allow_def binding_clause_def)
qed

theorem namespaces_isolated_witness:
  "decision demo_env granted_world demo_push \<and>
   \<not> decision demo_env granted_world (demo_push\<lparr>Domain := ''bob/m''\<rparr>)"
proof -
  have b: "current_bindings granted_world ''alice'' = [\<lparr>Role = ''owner'', BDomain = ''alice'' @ ''/*''\<rparr>]"
    by (simp add: current_bindings_def opa_bindings_def binding_ListBySubject_def granted_run(4))
  have "\<forall>x \<in> set (current_bindings granted_world ''alice''). \<exists>ns. BDomain x = ns @ ''/*'' \<and> CHR ''/'' \<notin> set ns"
    unfolding b by (auto intro!: exI [of _ "''alice''"])
  then show ?thesis
    using namespaces_isolated [of demo_push demo_env "''alice''" "''m''" granted_world]
      namespaces_isolated [of "demo_push\<lparr>Domain := ''bob/m''\<rparr>" demo_env "''bob''" "''m''" granted_world]
    by (simp add: b VisibilityPrivate_def demo_env_def role_permissions_def owner_actions_def)
qed

text \<open>The role matrix is the hierarchy the policy documents: on every resource each role has
  the permissions of the roles below it; only an owner may transfer, only owners and admins may
  create, update, publish, delete or administer, a contributor may push and a reader may not, and
  an unknown role or resource grants nothing.\<close>

theorem role_hierarchy:
  "set (role_permissions ''reader'' res) \<subseteq> set (role_permissions ''contributor'' res)
   \<and> set (role_permissions ''contributor'' res) \<subseteq> set (role_permissions ''admin'' res)
   \<and> set (role_permissions ''admin'' res) \<subseteq> set (role_permissions ''owner'' res)
   \<and> (''transfer'' \<in> set (role_permissions role res) \<longleftrightarrow> role = ''owner'' \<and> res = ''module'')
   \<and> (\<forall>act \<in> {''create'', ''publish'', ''delete''}.
        act \<in> set (role_permissions role res) \<longleftrightarrow> role \<in> {''owner'', ''admin''} \<and> res = ''module'')
   \<and> (\<forall>act \<in> {''update'', ''admin''}.
        act \<in> set (role_permissions role res) \<longleftrightarrow> role \<in> {''owner'', ''admin''} \<and> res \<in> {''module'', ''org''})
   \<and> (''push'' \<in> set (role_permissions role res) \<longleftrightarrow> role \<in> {''owner'', ''admin'', ''contributor''} \<and> res = ''module'')
   \<and> (''read'' \<in> set (role_permissions role res) \<longleftrightarrow>
        role \<in> {''owner'', ''admin'', ''contributor'', ''reader''} \<and> res \<in> {''module'', ''org''})"
  by (auto simp: role_permissions_def owner_actions_def admin_actions_def)

theorem role_hierarchy_witness:
  "''create'' \<notin> set (role_permissions ''contributor'' ''module'') \<and> ''admin'' \<notin> set (role_permissions ''reader'' ''org'')"
  using role_hierarchy [of "''module''" "''contributor''"] role_hierarchy [of "''org''" "''reader''"] by simp

text \<open>Token scopes and role bindings agree on what a domain pattern covers: for every pattern a
  scope may carry, the Go matcher \<open>DomainMatches\<close> and the Rego matcher \<open>domain_matches\<close> give the
  same answer on every domain.\<close>

theorem scope_and_policy_domains_agree:
  assumes "isValidScopeDomain pattern"
  shows "DomainMatches pattern domain \<longleftrightarrow> domain_matches pattern domain"
proof -
  obtain owner name where p: "pattern = owner @ CHR ''/'' # name" "owner \<noteq> []"
    "CHR ''/'' \<notin> set owner" "CHR ''*'' \<notin> set owner" and n: "name = ''*'' \<or> CHR ''*'' \<notin> set name"
    using assms by (auto simp: isValidScopeDomain_iff)
  show ?thesis
  proof (cases "name = ''*''")
    case True
    then have "pattern = owner @ ''/*''" using p by simp
    with p(3) show ?thesis by (auto simp: DomainMatches_wild domain_matches_wild)
  next
    case False
    with n p have star: "CHR ''*'' \<notin> set pattern" by auto
    then have "snd (CutSuffix pattern ''/*'') = False" by (auto simp: CutSuffix_def HasSuffix_iff)
    then have "DomainMatches pattern domain \<longleftrightarrow> pattern = domain"
      using p by (auto simp: DomainMatches_def split: prod.splits)
    with star show ?thesis by (simp add: domain_matches_exact)
  qed
qed


theorem scope_and_policy_domains_agree_witness:
  "isValidScopeDomain ''alice/*'' \<and> DomainMatches ''alice/*'' ''alice/m'' \<and> domain_matches ''alice/*'' ''alice/m''
   \<and> \<not> domain_matches ''alice/*'' ''alicia/m''"
proof -
  have "isValidScopeDomain ''alice/*''" and "DomainMatches ''alice/*'' ''alice/m''"
    and "\<not> DomainMatches ''alice/*'' ''alicia/m''" by code_simp+
  with scope_and_policy_domains_agree [of "''alice/*''"] show ?thesis by simp
qed

end
