(* ===== verification/Authz_Server.thy ===== *)
theory Authz_Server
  imports Policy_Engine
begin

text \<open>
  The authorization service (\<open>internal/hades/server/authorization\<close>): token scopes, the checks the
  handlers call (\<open>Can\<close>, \<open>BatchCan\<close>, \<open>CheckReadAccess\<close>) and the interceptor that turns a bearer
  credential into a request context (\<open>middleware.go\<close>).
\<close>

section \<open>Scopes\<close>

record scopes =
  Unrestricted :: bool
  Values :: "string list"

definition UnrestrictedScopes :: scopes where
  "UnrestrictedScopes = \<lparr>Unrestricted = True, Values = []\<rparr>"

definition ScopesFromValues :: "string list \<Rightarrow> scopes" where
  "ScopesFromValues vs = (if vs = [] then \<lparr>Unrestricted = True, Values = []\<rparr>
     else \<lparr>Unrestricted = False, Values = vs\<rparr>)"

fun scopeCovers :: "string list \<Rightarrow> string \<Rightarrow> string \<Rightarrow> string \<Rightarrow> bool" where
  "scopeCovers [] resourceType action domain = False"
| "scopeCovers (s # ss) resourceType action domain =
     (case ParseScope s of
        None \<Rightarrow> scopeCovers ss resourceType action domain
      | Some (scopeResource, scopeAction, scopeDomain) \<Rightarrow>
          if scopeResource \<noteq> resourceType then scopeCovers ss resourceType action domain
          else if scopeAction \<noteq> action \<and> scopeAction \<noteq> ''*'' then scopeCovers ss resourceType action domain
          else if DomainMatches scopeDomain domain then True
          else scopeCovers ss resourceType action domain)"

definition scopes_Allow :: "scopes \<Rightarrow> string \<Rightarrow> string \<Rightarrow> string \<Rightarrow> bool" where
  "scopes_Allow sc resourceType action domain =
     (if Unrestricted sc then True else scopeCovers (Values sc) resourceType action domain)"

section \<open>Request context\<close>

text \<open>The values the interceptor attaches to a request: the user, the raw token and its scopes.\<close>

record reqctx =
  ctx_user :: "User option"
  ctx_authorization :: string
  ctx_scopes :: "scopes option"

definition Background :: reqctx where
  "Background = \<lparr>ctx_user = None, ctx_authorization = [], ctx_scopes = None\<rparr>"

definition scopesFromContext :: "reqctx \<Rightarrow> scopes" where
  "scopesFromContext ctx = (case ctx_scopes ctx of Some sc \<Rightarrow> sc | None \<Rightarrow> UnrestrictedScopes)"

section \<open>Checks used by the handlers\<close>

definition Can :: "env \<Rightarrow> reqctx \<Rightarrow> policy \<Rightarrow> (world, can_response) call" where
  "Can env ctx inp =
     (if \<not> scopes_Allow (scopesFromContext ctx) (ResourceType inp) (Action inp) (Domain inp)
      then ok \<lparr>Allowed = False, DeniedPolicy = Some inp\<rparr>
      else do {
        r \<leftarrow> engine_Allow env (inp\<lparr>Visibility := VisibilityPrivate\<rparr>);
        (case r of
           Inl e \<Rightarrow> fail e
         | Inr allowed \<Rightarrow>
             if \<not> allowed then ok \<lparr>Allowed = False, DeniedPolicy = Some inp\<rparr>
             else ok \<lparr>Allowed = True, DeniedPolicy = None\<rparr>)
      })"

text \<open>The first policy whose answer is no.\<close>

fun first_denied :: "policy list \<Rightarrow> bool list \<Rightarrow> policy option" where
  "first_denied (p # ps) (b # bs) = (if \<not> b then Some p else first_denied ps bs)"
| "first_denied _ _ = None"

definition BatchCan :: "env \<Rightarrow> reqctx \<Rightarrow> policy list \<Rightarrow> (world, can_response) call" where
  "BatchCan env ctx policies =
     (if policies = [] then ok \<lparr>Allowed = True, DeniedPolicy = None\<rparr>
      else let scopes = scopesFromContext ctx in
      case find (\<lambda>p. \<not> scopes_Allow scopes (ResourceType p) (Action p) (Domain p)) policies of
        Some p \<Rightarrow> ok \<lparr>Allowed = False, DeniedPolicy = Some p\<rparr>
      | None \<Rightarrow> do {
          r \<leftarrow> engine_BatchAllow env (map (\<lambda>p. p\<lparr>Visibility := VisibilityPrivate\<rparr>) policies);
          (case r of
             Inl e \<Rightarrow> fail e
           | Inr results \<Rightarrow>
               (case first_denied policies results of
                  Some p \<Rightarrow> ok \<lparr>Allowed = False, DeniedPolicy = Some p\<rparr>
                | None \<Rightarrow> ok \<lparr>Allowed = True, DeniedPolicy = None\<rparr>))
        })"

text \<open>The fields of \<open>registryv1.Module\<close> the check reads.  \<open>MODULE_VISIBILITY_PRIVATE\<close> is 2.\<close>

record module_ref =
  MName :: string
  MVisibility :: int

definition MODULE_VISIBILITY_UNSPECIFIED :: int where "MODULE_VISIBILITY_UNSPECIFIED = 0"
definition MODULE_VISIBILITY_PUBLIC :: int where "MODULE_VISIBILITY_PUBLIC = 1"
definition MODULE_VISIBILITY_PRIVATE :: int where "MODULE_VISIBILITY_PRIVATE = 2"

text \<open>The first pass of \<open>CheckReadAccess\<close>: an error, or the policies that need an evaluation.\<close>

fun read_pending :: "scopes \<Rightarrow> User option \<Rightarrow> module_ref list \<Rightarrow> policy list res" where
  "read_pending sc user [] = Inr []"
| "read_pending sc user (m # ms) =
     (if \<not> scopes_Allow sc ResourceModule ActionRead (MName m) then
        (if MVisibility m = MODULE_VISIBILITY_PRIVATE then Inl (NotFound ''not found'')
         else Inl (PermissionDenied ''token is not authorised to read this module''))
      else if MVisibility m \<noteq> MODULE_VISIBILITY_PRIVATE then read_pending sc user ms
      else case user of
        None \<Rightarrow> Inl (NotFound ''not found'')
      | Some u \<Rightarrow> (case read_pending sc user ms of
            Inl e \<Rightarrow> Inl e
          | Inr ps \<Rightarrow> Inr (\<lparr>Subject = Username u, Domain = MName m, ResourceType = ResourceModule,
                            Action = ActionRead, Visibility = VisibilityPrivate\<rparr> # ps)))"

definition CheckReadAccess :: "env \<Rightarrow> reqctx \<Rightarrow> User option \<Rightarrow> module_ref list \<Rightarrow> (world, unit) call" where
  "CheckReadAccess env ctx user modules =
     (case read_pending (scopesFromContext ctx) user modules of
        Inl e \<Rightarrow> fail e
      | Inr pending \<Rightarrow>
          if pending = [] then ok ()
          else do {
            r \<leftarrow> engine_BatchAllow env pending;
            (case r of
               Inl e \<Rightarrow> fail e
             | Inr allowed \<Rightarrow> if \<exists>b \<in> set allowed. \<not> b then fail (NotFound ''not found'') else ok ())
          })"

definition AddBasicRoles :: "env \<Rightarrow> string \<Rightarrow> (world, unit) call" where
  "AddBasicRoles env userName = engine_AddBinding env userName RoleOwner (userName @ ''/*'')"

definition AddOrgOwner :: "env \<Rightarrow> string \<Rightarrow> string \<Rightarrow> (world, unit) call" where
  "AddOrgOwner env subject orgName = engine_AddBinding env subject RoleOwner (orgName @ ''/*'')"

definition AddOrgMemberBinding :: "env \<Rightarrow> string \<Rightarrow> string \<Rightarrow> string \<Rightarrow> (world, unit) call" where
  "AddOrgMemberBinding env subject role orgName = engine_AddBinding env subject role (orgName @ ''/*'')"

definition DeleteOrgBinding :: "string \<Rightarrow> string \<Rightarrow> (world, unit) call" where
  "DeleteOrgBinding subject orgName = engine_DeleteBinding subject (orgName @ ''/*'')"

fun AddRoleBindings :: "env \<Rightarrow> (string \<times> string \<times> string) list \<Rightarrow> (world, unit) call" where
  "AddRoleBindings env [] = ok ()"
| "AddRoleBindings env ((user, role, domain) # rs) = do {
     r \<leftarrow> engine_AddBinding env user role domain;
     (case r of Inl e \<Rightarrow> fail e | Inr _ \<Rightarrow> AddRoleBindings env rs)
   }"

section \<open>Credentials\<close>

definition sessionTouchInterval :: time where "sessionTouchInterval = 5 * Minute"
definition bearerAttemptLimit :: int where "bearerAttemptLimit = 300"
definition bearerAttemptWindow :: time where "bearerAttemptWindow = Minute"
definition APITokenPrefix :: string where "APITokenPrefix = ''hades1_''"
definition SessionTokenPrefix :: string where "SessionTokenPrefix = ''hds_sess_''"
definition externalProcedure :: string where "externalProcedure = ''(external)''"

definition noAuthProcedures :: "string list" where
  "noAuthProcedures = [
     ''/hades.api.auth.v1.AuthenticationService/Login'',
     ''/hades.api.auth.v1.AuthenticationService/Register'',
     ''/hades.api.auth.v1.AuthenticationService/Signin'',
     ''/hades.api.auth.v1.AuthenticationService/VerifyEmail'',
     ''/hades.api.auth.v1.AuthenticationService/RequestPasswordReset'',
     ''/hades.api.auth.v1.AuthenticationService/ResetPassword'',
     ''/hades.api.auth.v1.DeviceService/RequestDeviceCode'',
     ''/hades.api.auth.v1.DeviceService/PollDeviceToken'',
     ''/hades.api.auth.v1.OAuthService/GetOAuthURL'',
     ''/hades.api.auth.v1.OAuthService/OAuthCallback'']"

definition optionalAuthProcedures :: "string list" where
  "optionalAuthProcedures = [
     ''/hades.api.registry.v1.ModuleService/ListModules'',
     ''/hades.api.registry.v1.ModuleService/GetModule'',
     ''/hades.api.registry.v1.CommitService/ListCommits'',
     ''/hades.api.registry.v1.CommitService/GetCommit'',
     ''/hades.api.registry.v1.CommitService/GetCommitDiff'',
     ''/hades.api.registry.v1.CommitService/ListModuleFiles'',
     ''/hades.api.registry.v1.CommitService/GetFileContent'',
     ''/hades.api.registry.v1.CIService/GetCIRun'',
     ''/hades.api.registry.v1.SDKService/ListSDKs'',
     ''/hades.api.identity.v1.UserService/GetUser'',
     ''/hades.api.identity.v1.OrgService/ListOrganizations'',
     ''/hades.api.identity.v1.OrgService/GetUserOrgs'',
     ''/hades.api.identity.v1.OrgService/GetOrg'',
     ''/buf.registry.module.v1.ModuleService/GetModules'',
     ''/buf.registry.module.v1.CommitService/GetCommits'',
     ''/buf.registry.module.v1.GraphService/GetGraph'',
     ''/buf.registry.module.v1.DownloadService/Download'']"

definition totpPendingAllowed :: "string list" where
  "totpPendingAllowed = [
     ''/hades.api.auth.v1.TOTPService/VerifyTOTP'',
     ''/hades.api.auth.v1.AuthenticationService/Logout'']"

definition emailUnverifiedAllowed :: "string list" where
  "emailUnverifiedAllowed = [
     ''/hades.api.auth.v1.AuthenticationService/ResendVerificationEmail'',
     ''/hades.api.auth.v1.AuthenticationService/Logout'']"

definition sessionOnlyProcedures :: "string list" where
  "sessionOnlyProcedures = [
     ''/hades.api.auth.v1.AuthenticationService/ChangePassword'',
     ''/hades.api.auth.v1.AuthenticationService/Logout'',
     ''/hades.api.auth.v1.TOTPService/BeginEnrollTOTP'',
     ''/hades.api.auth.v1.TOTPService/ConfirmEnrollTOTP'',
     ''/hades.api.auth.v1.TOTPService/DisableTOTP'',
     ''/hades.api.auth.v1.TOTPService/VerifyTOTP'',
     ''/hades.api.auth.v1.TOTPService/ListBackupCodes'',
     ''/hades.api.auth.v1.TOTPService/RegenerateBackupCodes'',
     ''/hades.api.auth.v1.SessionService/ListSessions'',
     ''/hades.api.auth.v1.SessionService/RevokeSession'',
     ''/hades.api.auth.v1.SessionService/RevokeAllOtherSessions'',
     ''/hades.api.auth.v1.APITokenService/CreateAPIToken'',
     ''/hades.api.auth.v1.APITokenService/ListAPITokens'',
     ''/hades.api.auth.v1.APITokenService/RevokeAPIToken'',
     ''/hades.api.auth.v1.DeviceService/ApproveDeviceGrant'',
     ''/hades.api.auth.v1.OAuthService/ListLinkedProviders'',
     ''/hades.api.auth.v1.OAuthService/UnlinkProvider'',
     ''/hades.api.auth.v1.AuditService/ListAuditLog'']"

definition patOnlyProcedures :: "string list" where
  "patOnlyProcedures = [
     ''/buf.registry.module.v1.UploadService/Upload'',
     ''/buf.alpha.registry.v1alpha1.AuthnService/GetCurrentUser'']"

definition isNotFound :: "err \<Rightarrow> bool" where
  "isNotFound e = (e = ErrNoRows)"

definition unavailable :: err where
  "unavailable = ConnErr CodeUnavailable ''authentication service unavailable''"

definition unauth :: "string \<Rightarrow> err" where
  "unauth msg = ConnErr CodeUnauthenticated msg"

text \<open>How a store error becomes the interceptor's answer: a missing row is an invalid credential,
  anything else an outage.\<close>

definition store_err :: "err \<Rightarrow> string \<Rightarrow> err" where
  "store_err e msg = (if \<not> isNotFound e then unavailable else unauth msg)"

definition limitBearerAttempts :: "env \<Rightarrow> string \<Rightarrow> (world, unit) call" where
  "limitBearerAttempts env peer =
     (if \<not> cache_wired env then ok ()
      else do {
        r \<leftarrow> cache_Allow env (''bearer:peer:'' @ peer) bearerAttemptLimit bearerAttemptWindow;
        (case r of
           Inl e \<Rightarrow> ok ()
         | Inr allowed \<Rightarrow> if \<not> allowed then fail (ConnErr CodeResourceExhausted ''too many requests'') else ok ())
      })"

definition checkUserState :: "User \<Rightarrow> unit res" where
  "checkUserState u =
     (if UState u = USER_STATE_ACTIVE then Inr ()
      else if UState u = USER_STATE_UNSPECIFIED then Inr ()
      else Inl (ConnErr CodePermissionDenied ''account is not active''))"

definition validateSessionChecks :: "env \<Rightarrow> SessionRow \<Rightarrow> string \<Rightarrow> (world, unit) call" where
  "validateSessionChecks env sess procedure =
     (if RevokedAt_s sess \<noteq> None then fail (unauth ''session revoked'')
      else do {
        now \<leftarrow> time_Now;
        if now > IdleExpiresAt sess \<or> now > AbsoluteExpiresAt sess then fail (unauth ''session expired'')
        else do {
          r \<leftarrow> qry (\<lambda>d. user_GetAuthFieldsByID (UserID_s sess) (users d));
          (case r of
             Inl e \<Rightarrow> fail (store_err e ''could not verify account status'')
           | Inr af \<Rightarrow>
               if EmailVerifiedAt af = None \<and> procedure \<notin> set emailUnverifiedAllowed
               then fail (unauth ''email not verified'')
               else if \<not> TOTPVerified sess \<and> procedure \<notin> set totpPendingAllowed then
                 (if \<not> totp_wired env then fail unavailable
                  else do {
                    ts \<leftarrow> qry (\<lambda>d. totp_GetByUserID (UserID_s sess) (totp_secrets d));
                    (case ts of
                       Inl e \<Rightarrow> if \<not> isNotFound e then fail unavailable else ok ()
                     | Inr tsRow \<Rightarrow>
                         if Enabled tsRow then fail (unauth ''TOTP verification required'') else ok ())
                  })
               else ok ())
        }
      })"

definition touchSession :: "SessionRow \<Rightarrow> (world, unit) state" where
  "touchSession sess = do {
     now \<leftarrow> time_Now;
     if now - LastActivityAt sess < sessionTouchInterval then State_Monad.return ()
     else
       let window = IdleExpiresAt sess - LastActivityAt sess in
       if window \<le> 0 then State_Monad.return ()
       else
         let idleExpires0 = now + window;
             idleExpires = (if idleExpires0 > AbsoluteExpiresAt sess then AbsoluteExpiresAt sess else idleExpires0)
         in do {
           _ \<leftarrow> upd (\<lambda>now d. d\<lparr>sessions := sess_Touch now (ID_s sess) idleExpires (sessions d)\<rparr>);
           State_Monad.return ()
         }
   }"

definition resolveSession :: "env \<Rightarrow> string \<Rightarrow> string \<Rightarrow> (world, User) call" where
  "resolveSession env rawToken procedure =
     (if \<not> session_wired env then fail (unauth ''session store not configured'')
      else do {
        r \<leftarrow> qry (\<lambda>d. sess_GetByTokenHash (HashToken rawToken) (sessions d));
        (case r of
           Inl e \<Rightarrow> fail (store_err e ''invalid token'')
         | Inr sess \<Rightarrow> do {
             v \<leftarrow> validateSessionChecks env sess procedure;
             (case v of
                Inl e \<Rightarrow> fail e
              | Inr _ \<Rightarrow> do {
                  ur \<leftarrow> qry (\<lambda>d. user_GetByID (UserID_s sess) (users d));
                  (case ur of
                     Inl e \<Rightarrow> fail (store_err e ''invalid token'')
                   | Inr fullUser \<Rightarrow>
                       (case checkUserState fullUser of
                          Inl e \<Rightarrow> fail e
                        | Inr _ \<Rightarrow> do { _ \<leftarrow> touchSession sess; ok fullUser }))
                })
           })
      })"

definition recordTokenUse :: "uuid \<Rightarrow> (world, unit) state" where
  "recordTokenUse i = do {
     _ \<leftarrow> upd (\<lambda>now d. d\<lparr>api_tokens := pat_UpdateLastUsed now i (api_tokens d)\<rparr>);
     State_Monad.return ()
   }"

definition resolveAPIToken :: "env \<Rightarrow> string \<Rightarrow> string \<Rightarrow> (world, User \<times> scopes) call" where
  "resolveAPIToken env rawToken procedure =
     (if \<not> apitoken_wired env then fail (unauth ''API token store not configured'')
      else do {
        r \<leftarrow> qry (\<lambda>d. pat_GetByTokenHash (HashToken rawToken) (api_tokens d));
        (case r of
           Inl e \<Rightarrow> fail (store_err e ''invalid token'')
         | Inr apiTok \<Rightarrow>
             if RevokedAt_t apiTok \<noteq> None then fail (unauth ''API token revoked'')
             else do {
               now \<leftarrow> time_Now;
               if (case ExpiresAt_t apiTok of None \<Rightarrow> False | Some t \<Rightarrow> now > t)
               then fail (unauth ''API token expired'')
               else do {
                 ur \<leftarrow> qry (\<lambda>d. user_GetByID (UserID_t apiTok) (users d));
                 (case ur of
                    Inl e \<Rightarrow> fail (store_err e ''invalid token'')
                  | Inr fullUser \<Rightarrow>
                      (case checkUserState fullUser of
                         Inl e \<Rightarrow> fail e
                       | Inr _ \<Rightarrow> do {
                           _ \<leftarrow> recordTokenUse (ID_t apiTok);
                           ok (fullUser, ScopesFromValues (Scopes_t apiTok))
                         }))
               }
             })
      })"

definition UserFromToken :: "env \<Rightarrow> string \<Rightarrow> (world, User \<times> scopes) call" where
  "UserFromToken env rawToken =
     (if HasPrefix rawToken SessionTokenPrefix then do {
        r \<leftarrow> resolveSession env rawToken externalProcedure;
        (case r of Inl e \<Rightarrow> fail e | Inr user \<Rightarrow> ok (user, UnrestrictedScopes))
      }
      else if HasPrefix rawToken APITokenPrefix then resolveAPIToken env rawToken externalProcedure
      else fail (unauth ''invalid token format''))"

section \<open>The interceptor\<close>

record request =
  rq_procedure :: string
  rq_authorization :: string    \<comment> \<open>the Authorization header\<close>
  rq_peer :: string             \<comment> \<open>the transport peer address\<close>
  rq_client_ip :: string        \<comment> \<open>what \<open>extractClientIP\<close> returns for the request\<close>

definition authenticateSession :: "env \<Rightarrow> (reqctx \<Rightarrow> (world, 'a) call) \<Rightarrow> string \<Rightarrow> string \<Rightarrow> (world, 'a) call" where
  "authenticateSession env nxt rawToken procedure = do {
     r \<leftarrow> resolveSession env rawToken procedure;
     (case r of
        Inl e \<Rightarrow> fail e
      | Inr fullUser \<Rightarrow> nxt \<lparr>ctx_user = Some fullUser, ctx_authorization = rawToken, ctx_scopes = Some UnrestrictedScopes\<rparr>)
   }"

definition authenticateAPIToken :: "env \<Rightarrow> (reqctx \<Rightarrow> (world, 'a) call) \<Rightarrow> string \<Rightarrow> string \<Rightarrow> (world, 'a) call" where
  "authenticateAPIToken env nxt rawToken procedure = do {
     r \<leftarrow> resolveAPIToken env rawToken procedure;
     (case r of
        Inl e \<Rightarrow> fail e
      | Inr (fullUser, sc) \<Rightarrow> nxt \<lparr>ctx_user = Some fullUser, ctx_authorization = rawToken, ctx_scopes = Some sc\<rparr>)
   }"

definition wrapUnary :: "env \<Rightarrow> (reqctx \<Rightarrow> (world, 'a) call) \<Rightarrow> request \<Rightarrow> (world, 'a) call" where
  "wrapUnary env nxt req = (let procedure = rq_procedure req; authHeader = rq_authorization req in
     if procedure \<in> set noAuthProcedures then nxt Background
     else if procedure \<in> set optionalAuthProcedures \<and> authHeader = [] then nxt Background
     else if authHeader = [] then fail (unauth ''authorization header is required'')
     else let parts = SplitN authHeader (CHR '' '') 2 in
     if length parts \<noteq> 2 \<or> ToLower (parts ! 0) \<noteq> ''bearer'' then fail (unauth ''authorization header is invalid'')
     else let rawToken = TrimSpace (parts ! 1) in do {
       l \<leftarrow> limitBearerAttempts env (rq_peer req);
       (case l of
          Inl e \<Rightarrow> fail e
        | Inr _ \<Rightarrow>
            if HasPrefix rawToken SessionTokenPrefix then
              (if procedure \<in> set patOnlyProcedures
               then fail (ConnErr CodePermissionDenied ''this operation requires an API token, not an interactive session'')
               else authenticateSession env nxt rawToken procedure)
            else if HasPrefix rawToken APITokenPrefix then
              (if procedure \<in> set sessionOnlyProcedures
               then fail (ConnErr CodePermissionDenied ''this operation requires an interactive session, not an API token'')
               else authenticateAPIToken env nxt rawToken procedure)
            else fail (unauth ''invalid token format''))
     })"

definition WrapStreamingHandler :: "(world, 'a) call" where
  "WrapStreamingHandler = fail (ConnErr CodeUnimplemented ''streaming procedures are not supported by this server'')"

section \<open>Facts about scopes\<close>

lemma scopeCovers_iff:
  "scopeCovers ss resourceType action domain \<longleftrightarrow>
     (\<exists>s \<in> set ss. \<exists>a d. ParseScope s = Some (resourceType, a, d) \<and> (a = action \<or> a = ''*'') \<and> DomainMatches d domain)"
  by (induction ss) (auto split: option.splits if_splits)

lemma first_denied_None: "length ps = length bs \<Longrightarrow> first_denied ps bs = None \<longleftrightarrow> (\<forall>b \<in> set bs. b)"
  by (induction ps bs rule: first_denied.induct) auto

section \<open>Facts about read access\<close>

definition may_read :: "env \<Rightarrow> world \<Rightarrow> reqctx \<Rightarrow> User option \<Rightarrow> module_ref \<Rightarrow> bool" where
  "may_read env w ctx user m \<longleftrightarrow>
     scopes_Allow (scopesFromContext ctx) ResourceModule ActionRead (MName m)
     \<and> (MVisibility m = MODULE_VISIBILITY_PRIVATE \<longrightarrow> (\<exists>u. user = Some u \<and>
          decision env w \<lparr>Subject = Username u, Domain = MName m, ResourceType = ResourceModule,
            Action = ActionRead, Visibility = VisibilityPrivate\<rparr>))"

lemma read_pending_error:
  "read_pending sc user ms = Inl e \<Longrightarrow> \<forall>m \<in> set ms. MVisibility m = MODULE_VISIBILITY_PRIVATE \<Longrightarrow> e = NotFound ''not found''"
  by (induction ms) (auto split: if_splits option.splits sum.splits)

lemma read_pending_Inr:
  "read_pending sc user ms = Inr ps \<Longrightarrow> scopesFromContext ctx = sc \<Longrightarrow>
   (\<forall>p \<in> set ps. decision env w p) \<longleftrightarrow> (\<forall>m \<in> set ms. may_read env w ctx user m)"
proof (induction ms arbitrary: ps)
  case (Cons m ms)
  then show ?case
    by (cases "read_pending sc user ms") (auto simp: may_read_def split: if_splits option.splits)
qed simp

lemma read_pending_Inl:
  "read_pending sc user ms = Inl e \<Longrightarrow> scopesFromContext ctx = sc \<Longrightarrow> \<exists>m \<in> set ms. \<not> may_read env w ctx user m"
proof (induction ms)
  case (Cons m ms)
  then show ?case
    by (cases "read_pending sc user ms") (auto simp: may_read_def split: if_splits option.splits)
qed simp

lemma CheckReadAccess_decides:
  assumes "cache_coherent w" and "visits (ord_entries env)"
  shows "wp (CheckReadAccess env ctx user ms) (\<lambda>r w'. same_state w w' \<and> cache_coherent w'
     \<and> (r = Inr () \<longrightarrow> (\<forall>m \<in> set ms. may_read env w ctx user m))
     \<and> (faults w = [] \<and> (\<forall>m \<in> set ms. may_read env w ctx user m) \<longrightarrow> r = Inr ())
     \<and> (faults w = [] \<and> \<not> (\<forall>m \<in> set ms. may_read env w ctx user m)
          \<and> (\<forall>m \<in> set ms. MVisibility m = MODULE_VISIBILITY_PRIVATE) \<longrightarrow> r = Inl (NotFound ''not found''))) w"
proof (cases "read_pending (scopesFromContext ctx) user ms")
  case (Inl e)
  with read_pending_error [OF Inl] read_pending_Inl [OF Inl refl, of env w] assms show ?thesis
    by (auto simp: CheckReadAccess_def intro!: wp_return)
next
  case (Inr ps)
  note iff = read_pending_Inr [OF Inr refl, of env w]
  show ?thesis
    unfolding CheckReadAccess_def Inr sum.case
    by (intro wp_intros wp_conseq [OF engine_BatchAllow_decides [OF assms]])
      (use assms iff in \<open>auto simp: calm_def\<close>)
qed

section \<open>Facts about credentials\<close>

lemma isNotFound_fault [simp]: "\<not> isNotFound (fault_err e)"
  by (simp add: isNotFound_def)

lemma store_err_Inl: "code_of (store_err e m) \<in> {Some CodeUnavailable, Some CodeUnauthenticated}"
  by (simp add: store_err_def unavailable_def unauth_def)

text \<open>What a live session is: found by the hash of its token, not revoked, within both expiries, of
  an existing active account whose email is verified, and past the second factor when the account
  has one.  \<open>procedure\<close> names the two exemptions.\<close>

definition session_live :: "db \<Rightarrow> time \<Rightarrow> string \<Rightarrow> string \<Rightarrow> SessionRow \<Rightarrow> User \<Rightarrow> bool" where
  "session_live d now rawToken procedure sess u \<longleftrightarrow>
     sess_GetByTokenHash (HashToken rawToken) (sessions d) = Inr sess
     \<and> RevokedAt_s sess = None \<and> now \<le> IdleExpiresAt sess \<and> now \<le> AbsoluteExpiresAt sess
     \<and> user_GetByID (UserID_s sess) (users d) = Inr u \<and> checkUserState u = Inr ()
     \<and> (\<exists>af. user_GetAuthFieldsByID (UserID_s sess) (users d) = Inr af
          \<and> (EmailVerifiedAt af \<noteq> None \<or> procedure \<in> set emailUnverifiedAllowed))
     \<and> (TOTPVerified sess \<or> procedure \<in> set totpPendingAllowed
          \<or> (\<forall>row. totp_GetByUserID (UserID_s sess) (totp_secrets d) = Inr row \<longrightarrow> \<not> Enabled row))"

definition token_live :: "db \<Rightarrow> time \<Rightarrow> string \<Rightarrow> TokenRow \<Rightarrow> User \<Rightarrow> bool" where
  "token_live d now rawToken tok u \<longleftrightarrow>
     pat_GetByTokenHash (HashToken rawToken) (api_tokens d) = Inr tok
     \<and> RevokedAt_t tok = None \<and> (\<forall>t. ExpiresAt_t tok = Some t \<longrightarrow> now \<le> t)
     \<and> user_GetByID (UserID_t tok) (users d) = Inr u \<and> checkUserState u = Inr ()"

text \<open>The only change authentication makes: the idle expiry of the presented session may slide, never
  past its absolute expiry.\<close>

definition touched :: "SessionRow \<Rightarrow> world \<Rightarrow> world \<Rightarrow> bool" where
  "touched sess w w' \<longleftrightarrow> clock w' = clock w \<and> mcache w' = mcache w \<and> (dbs w' = dbs w \<or>
     (\<exists>e. e \<le> AbsoluteExpiresAt sess \<and>
        dbs w' = (dbs w)\<lparr>sessions := sess_Touch (clock w) (ID_s sess) e (sessions (dbs w))\<rparr>))"

lemma touchedI:
  "touched sess w w" "touched sess w (w\<lparr>faults := fs\<rparr>)"
  "e \<le> AbsoluteExpiresAt sess \<Longrightarrow> touched sess w (w\<lparr>faults := fs,
     dbs := (dbs w)\<lparr>sessions := sess_Touch (clock w) (ID_s sess) e (sessions (dbs w))\<rparr>\<rparr>)"
  by (auto simp: touched_def)

lemma touchSession_touches: "wp (touchSession sess) (\<lambda>_ w'. touched sess w w') w"
  unfolding touchSession_def Let_def
  by (intro wp_intros) (auto intro: touchedI)

lemma validateSessionChecks_sound:
  "wp (validateSessionChecks env sess procedure) (\<lambda>r w'. (\<exists>fs. w' = w\<lparr>faults := fs\<rparr>) \<and> (r = Inr () \<longrightarrow>
     RevokedAt_s sess = None \<and> clock w \<le> IdleExpiresAt sess \<and> clock w \<le> AbsoluteExpiresAt sess
     \<and> (\<exists>af. user_GetAuthFieldsByID (UserID_s sess) (users (dbs w)) = Inr af
          \<and> (EmailVerifiedAt af \<noteq> None \<or> procedure \<in> set emailUnverifiedAllowed))
     \<and> (TOTPVerified sess \<or> procedure \<in> set totpPendingAllowed
          \<or> (\<forall>row. totp_GetByUserID (UserID_s sess) (totp_secrets (dbs w)) = Inr row \<longrightarrow> \<not> Enabled row)))) w"
  unfolding validateSessionChecks_def
  by (intro wp_intros) (auto intro: exI [of _ "faults w"])

lemma resolveSession_sound:
  "wp (resolveSession env rawToken procedure) (\<lambda>r w'. \<forall>u. r = Inr u \<longrightarrow>
     (\<exists>sess. session_live (dbs w) (clock w) rawToken procedure sess u \<and> touched sess w w')) w"
  unfolding resolveSession_def
  by (intro wp_intros wp_conseq [OF validateSessionChecks_sound] wp_conseq [OF touchSession_touches])
    (auto simp: session_live_def touched_def)

lemma resolveAPIToken_sound:
  "wp (resolveAPIToken env rawToken procedure) (\<lambda>r w'. \<forall>u sc. r = Inr (u, sc) \<longrightarrow>
     (\<exists>tok. token_live (dbs w) (clock w) rawToken tok u \<and> sc = ScopesFromValues (Scopes_t tok)
        \<and> clock w' = clock w \<and> (dbs w' = dbs w \<or>
            dbs w' = (dbs w)\<lparr>api_tokens := pat_UpdateLastUsed (clock w) (ID_t tok) (api_tokens (dbs w))\<rparr>))) w"
  unfolding resolveAPIToken_def recordTokenUse_def
  by (intro wp_intros) (auto simp: token_live_def split: option.splits)

section \<open>Facts about the interceptor\<close>

lemma prefixes_disjoint: "\<not> (HasPrefix t SessionTokenPrefix \<and> HasPrefix t APITokenPrefix)"
  by (auto simp: HasPrefix_iff SessionTokenPrefix_def APITokenPrefix_def)

definition cache_only :: "world \<Rightarrow> world \<Rightarrow> bool" where
  "cache_only w w' \<longleftrightarrow> dbs w' = dbs w \<and> clock w' = clock w"

lemma limitBearerAttempts_tables: "wp (limitBearerAttempts env peer) (\<lambda>r w'. cache_only w w') w"
  unfolding limitBearerAttempts_def by (intro wp_intros) (auto simp: cache_only_def)

text \<open>How a request context came about.\<close>

inductive admitted :: "db \<Rightarrow> time \<Rightarrow> request \<Rightarrow> reqctx \<Rightarrow> bool" for d now req where
  anonymous: "rq_procedure req \<in> set noAuthProcedures
      \<or> rq_procedure req \<in> set optionalAuthProcedures \<and> rq_authorization req = [] \<Longrightarrow>
    admitted d now req Background"
| by_session: "HasPrefix tok SessionTokenPrefix \<Longrightarrow> rq_procedure req \<notin> set patOnlyProcedures \<Longrightarrow>
    tok = TrimSpace (SplitN (rq_authorization req) (CHR '' '') 2 ! 1) \<Longrightarrow>
    session_live d now tok (rq_procedure req) sess u \<Longrightarrow>
    admitted d now req \<lparr>ctx_user = Some u, ctx_authorization = tok, ctx_scopes = Some UnrestrictedScopes\<rparr>"
| by_token: "HasPrefix tok APITokenPrefix \<Longrightarrow> rq_procedure req \<notin> set sessionOnlyProcedures \<Longrightarrow>
    tok = TrimSpace (SplitN (rq_authorization req) (CHR '' '') 2 ! 1) \<Longrightarrow>
    token_live d now tok row u \<Longrightarrow>
    admitted d now req \<lparr>ctx_user = Some u, ctx_authorization = tok, ctx_scopes = Some (ScopesFromValues (Scopes_t row))\<rparr>"

inductive_cases admittedE: "admitted d now req ctx"

lemma wrapUnary_admits:
  "wp (wrapUnary env ok req) (\<lambda>r w'. \<forall>ctx. r = Inr ctx \<longrightarrow> admitted (dbs w) (clock w) req ctx) w"
  unfolding wrapUnary_def Let_def authenticateSession_def authenticateAPIToken_def
  by (intro wp_intros wp_conseq [OF limitBearerAttempts_tables] wp_conseq [OF resolveSession_sound]
      wp_conseq [OF resolveAPIToken_sound])
    (auto simp: cache_only_def intro: admitted.intros)

lemma touchSession_post: "wp (touchSession sess) (\<lambda>_ _. P) w = P"
  by (simp add: wp_def split: prod.splits)

lemma resolveSession_complete:
  assumes "faults w = []" and "session_wired env" and "totp_wired env"
    and "session_live (dbs w) (clock w) rawToken procedure sess u"
  shows "wp (resolveSession env rawToken procedure) (\<lambda>r w'. r = Inr u) w"
proof -
  obtain af where live: "sess_GetByTokenHash (HashToken rawToken) (sessions (dbs w)) = Inr sess"
      "RevokedAt_s sess = None" "\<not> clock w > IdleExpiresAt sess" "\<not> clock w > AbsoluteExpiresAt sess"
      "user_GetByID (UserID_s sess) (users (dbs w)) = Inr u" "checkUserState u = Inr ()"
      "user_GetAuthFieldsByID (UserID_s sess) (users (dbs w)) = Inr af"
      "EmailVerifiedAt af \<noteq> None \<or> procedure \<in> set emailUnverifiedAllowed"
    and totp: "TOTPVerified sess \<or> procedure \<in> set totpPendingAllowed
      \<or> (\<forall>row. totp_GetByUserID (UserID_s sess) (totp_secrets (dbs w)) = Inr row \<longrightarrow> \<not> Enabled row)"
    using assms(4) by (auto simp: session_live_def)
  have miss: "isNotFound e" if "totp_GetByUserID i t = Inl e" for i t e
    using that by (simp add: totp_GetByUserID_def query_row_Inl isNotFound_def)
  have v: "wp (validateSessionChecks env sess procedure) Q w = Q (Inr ()) w" for Q
    unfolding validateSessionChecks_def
    using live totp assms(1,3) by (auto simp: calm_simps miss split: sum.splits)
  show ?thesis
    unfolding resolveSession_def using live assms(1,2) by (simp add: calm_simps v touchSession_post)
qed

lemma resolveAPIToken_complete:
  assumes "faults w = []" and "apitoken_wired env" and "token_live (dbs w) (clock w) rawToken tok u"
  shows "wp (resolveAPIToken env rawToken procedure) (\<lambda>r w'. r = Inr (u, ScopesFromValues (Scopes_t tok))) w"
  unfolding resolveAPIToken_def recordTokenUse_def
  by (intro wp_intros) (use assms in \<open>auto simp: token_live_def split: option.splits\<close>)

text \<open>What \<open>Can\<close> and \<open>BatchCan\<close> decide: the token's scopes cover the action and the policy allows it
  on the current bindings, judged as on a private resource.\<close>

definition may_act :: "env \<Rightarrow> world \<Rightarrow> reqctx \<Rightarrow> policy \<Rightarrow> bool" where
  "may_act env w ctx p \<longleftrightarrow> scopes_Allow (scopesFromContext ctx) (ResourceType p) (Action p) (Domain p)
     \<and> decision env w (p\<lparr>Visibility := VisibilityPrivate\<rparr>)"

lemma Can_decides:
  assumes "cache_coherent w" and "visits (ord_entries env)"
  shows "wp (Can env ctx p) (\<lambda>r w'. same_state w w' \<and> cache_coherent w' \<and> calm w r w' \<and>
     (\<forall>resp. r = Inr resp \<longrightarrow> Allowed resp = may_act env w ctx p
        \<and> DeniedPolicy resp = (if Allowed resp then None else Some p))) w"
  unfolding Can_def
  by (intro wp_intros wp_conseq [OF engine_Allow_decides [OF assms]])
    (use assms in \<open>auto simp: may_act_def calm_def\<close>)

lemma first_denied_map:
  "first_denied ps (map f ps) = find (\<lambda>p. \<not> f p) ps"
  by (induction ps) auto

lemma BatchCan_decides:
  assumes "cache_coherent w" and "visits (ord_entries env)"
  shows "wp (BatchCan env ctx ps) (\<lambda>r w'. same_state w w' \<and> cache_coherent w' \<and> calm w r w' \<and>
     (\<forall>resp. r = Inr resp \<longrightarrow> Allowed resp = (\<forall>p \<in> set ps. may_act env w ctx p)
        \<and> (Allowed resp \<longleftrightarrow> DeniedPolicy resp = None)
        \<and> (\<forall>p. DeniedPolicy resp = Some p \<longrightarrow> p \<in> set ps \<and> \<not> may_act env w ctx p))) w"
  unfolding BatchCan_def Let_def
  by (intro wp_intros wp_conseq [OF engine_BatchAllow_decides [OF assms]])
    (use assms in \<open>auto simp: may_act_def calm_def first_denied_map find_None_iff dest: find_Some_in\<close>)

section \<open>A registry with one account\<close>

text \<open>A verified account with a session and a scoped token, for concrete runs.\<close>

definition demo_user :: user_row where
  "demo_user = \<lparr>us_id = demo_hex 1, us_create_time = 0, us_update_time = 0, us_username = ''alice'',
     us_email = ''a@x'', us_password = ''$pw'', us_type = 2, us_state = 1, us_description = [], us_url = [],
     us_failed_login_count = 0, us_locked_until = None, us_email_verified_at = Some 0\<rparr>"

definition demo_session :: session_row where
  "demo_session = \<lparr>ss_id = demo_hex 2, ss_user_id = demo_hex 1, ss_auth_module = ''session'',
     ss_token_hash = Some (HashToken ''hds_sess_a''), ss_ip_address = None, ss_user_agent = None,
     ss_create_time = 0, ss_last_activity_at = Some 0, ss_absolute_expires_at = Some (9000 * Second),
     ss_expires_at = 2000 * Second, ss_revoked_at = None, ss_totp_verified = False\<rparr>"

definition demo_token :: token_row where
  "demo_token = \<lparr>tk_id = demo_hex 3, tk_user_id = demo_hex 1, tk_name = ''ci'', tk_prefix = ''hades1_a'',
     tk_token_hash = HashToken ''hades1_a'', tk_scopes = Some (encodeScopes [''module:read'']), tk_expires_at = None,
     tk_last_used_at = None, tk_revoked_at = None, tk_create_time = 0\<rparr>"

definition demo_world :: world where
  "demo_world = granted_world\<lparr>dbs := (dbs granted_world)\<lparr>users := [demo_user], sessions := [demo_session],
     api_tokens := [demo_token]\<rparr>\<rparr>"

lemma demo_world_simps [simp]:
  "users (dbs demo_world) = [demo_user]" "sessions (dbs demo_world) = [demo_session]"
  "api_tokens (dbs demo_world) = [demo_token]" "faults demo_world = []" "clock demo_world = 1000 * Second"
  "totp_secrets (dbs demo_world) = []" "role_bindings (dbs demo_world) = role_bindings (dbs granted_world)"
  "mcache demo_world = mcache granted_world"
  by (simp_all add: demo_world_def granted_world_def engine_AddBinding_def insert_row_def cache_Delete_def io_def
      start_world_def empty_db_def)

lemma demo_hex32 [simp]: "is_hex32 (demo_hex n)"
proof -
  have "isHexDigit (nibble k)" if "k < 16" for k
    using that by (auto simp: isHexDigit_def nibble_def Let_def)
  moreover have "isHexDigit (CHR ''0'')" by (simp add: isHexDigit_def)
  ultimately show ?thesis by (auto simp: is_hex32_def demo_hex_def list_all_iff)
qed

lemma demo_session_live:
  "session_live (dbs demo_world) (clock demo_world) ''hds_sess_a'' procedure
     (scanSQLiteSession demo_session) (scanSQLiteUser demo_user)"
  by (simp add: session_live_def sess_GetByTokenHash_def user_GetByID_def user_GetAuthFieldsByID_def
      totp_GetByUserID_def query_row_def demo_session_def demo_user_def scanSQLiteSession_def scanSQLiteUser_def
      scan_auth_def checkUserState_def USER_STATE_ACTIVE_def ID_Canonical)

lemma demo_token_live:
  "token_live (dbs demo_world) (clock demo_world) ''hades1_a''
     (scanSQLiteAPITokenRow demo_token) (scanSQLiteUser demo_user)"
  by (simp add: token_live_def pat_GetByTokenHash_def user_GetByID_def query_row_def demo_token_def demo_user_def
      scanSQLiteAPITokenRow_def scanSQLiteUser_def checkUserState_def USER_STATE_ACTIVE_def ID_Canonical)

lemma demo_coherent: "cache_coherent demo_world"
  using granted_coherent by (simp add: cache_coherent_def)

section \<open>Properties\<close>

text \<open>C1. The interceptor admits a request only as follows: anonymously for a procedure that needs
  no credential (or an optional-auth one sent without a header), as the user of a live session
  on a procedure that is not reserved for access tokens, or as the user of a live access token,
  with exactly the scopes stored for it, on a procedure that is not reserved for sessions.  A
  live credential is unrevoked, unexpired, of an active account; a session also needs a verified
  email and a passed second factor, outside the two listed exemptions.  This holds for every
  state of the tables and every pattern of failures.\<close>

theorem interceptor_admits_only_live_credentials:
  assumes "run (wrapUnary env ok req) w = (Inr ctx, w')"
  shows "admitted (dbs w) (clock w) req ctx"
  using wp_run [OF wrapUnary_admits assms] by simp

theorem interceptor_admits_only_live_credentials_witness:
  "\<exists>ctx w'. run (wrapUnary demo_env ok \<lparr>rq_procedure = ''/hades.api.registry.v1.SDKService/TriggerSDK'',
       rq_authorization = ''Bearer hds_sess_a'', rq_peer = ''p'', rq_client_ip = ''p''\<rparr>) demo_world = (Inr ctx, w')
     \<and> admitted (dbs demo_world) (clock demo_world) \<lparr>rq_procedure = ''/hades.api.registry.v1.SDKService/TriggerSDK'',
       rq_authorization = ''Bearer hds_sess_a'', rq_peer = ''p'', rq_client_ip = ''p''\<rparr> ctx"
proof -
  let ?req = "\<lparr>rq_procedure = ''/hades.api.registry.v1.SDKService/TriggerSDK'',
       rq_authorization = ''Bearer hds_sess_a'', rq_peer = ''p'', rq_client_ip = ''p''\<rparr>"
  let ?env = "demo_env"
  have maps: "rq_procedure ?req \<notin> set noAuthProcedures" "rq_procedure ?req \<notin> set optionalAuthProcedures"
    "rq_procedure ?req \<notin> set patOnlyProcedures"
    by (simp_all add: noAuthProcedures_def optionalAuthProcedures_def patOnlyProcedures_def)
  have parts: "SplitN ''Bearer hds_sess_a'' (CHR '' '') 2 = [''Bearer'', ''hds_sess_a'']"
    "ToLower ''Bearer'' = ''bearer''" "TrimSpace ''hds_sess_a'' = ''hds_sess_a''"
    "HasPrefix ''hds_sess_a'' SessionTokenPrefix" by code_simp+
  have lim: "wp (limitBearerAttempts ?env peer) Q demo_world = Q (Inr ()) (demo_world\<lparr>mcache :=
      snd (mc_Allow (\<lambda>m. m) (clock demo_world) (''bearer:peer:'' @ peer) bearerAttemptLimit bearerAttemptWindow (mcache demo_world))\<rparr>)"
    if "fst (mc_Allow (\<lambda>m. m) (clock demo_world) (''bearer:peer:'' @ peer) bearerAttemptLimit bearerAttemptWindow (mcache demo_world))" for Q peer
    using that by (simp add: limitBearerAttempts_def calm_simps case_prod_beta)
  have win: "windows (mcache demo_world) = []"
    by (simp add: granted_world_def engine_AddBinding_def insert_row_def cache_Delete_def io_def start_world_def
        mc_Delete_def)
  have allow: "fst (mc_Allow (\<lambda>m. m) (clock demo_world) k bearerAttemptLimit bearerAttemptWindow (mcache demo_world))" for k
    using win Search.simps [of _ 0 0] by (simp add: mc_Allow_def Let_def bearerAttemptLimit_def)
  have res: "wp (resolveSession ?env ''hds_sess_a'' pr) (\<lambda>r w'. r = Inr (scanSQLiteUser demo_user)) (demo_world\<lparr>mcache := c\<rparr>)"
    for pr c using demo_session_live [of pr] by (intro resolveSession_complete) simp_all
  have "wp (wrapUnary ?env ok ?req) (\<lambda>r w'. \<exists>ctx. r = Inr ctx) demo_world"
    unfolding wrapUnary_def Let_def using maps parts
    by (auto simp: calm_simps lim [OF allow] authenticateSession_def
        intro!: wp_conseq [OF res])
  then obtain ctx w' where r: "run (wrapUnary ?env ok ?req) demo_world = (Inr ctx, w')"
    by (auto simp: wp_def split: prod.splits)
  from r interceptor_admits_only_live_credentials [OF r] show ?thesis by blast
qed

text \<open>C33. \<open>UserFromToken\<close>, the entry point of the routes outside the interceptor, accepts exactly
  the live credentials when no call fails, and returns their user and scopes; under failures it
  accepts nothing else.\<close>

theorem UserFromToken_exact:
  assumes "session_wired env" and "apitoken_wired env" and "totp_wired env"
  shows "(fst (run (UserFromToken env tok) w) = Inr (u, sc) \<longrightarrow>
      HasPrefix tok SessionTokenPrefix \<and> sc = UnrestrictedScopes
        \<and> (\<exists>sess. session_live (dbs w) (clock w) tok externalProcedure sess u)
      \<or> HasPrefix tok APITokenPrefix
        \<and> (\<exists>row. token_live (dbs w) (clock w) tok row u \<and> sc = ScopesFromValues (Scopes_t row)))
    \<and> (faults w = [] \<and> HasPrefix tok SessionTokenPrefix \<and> session_live (dbs w) (clock w) tok externalProcedure sess u
        \<longrightarrow> fst (run (UserFromToken env tok) w) = Inr (u, UnrestrictedScopes))
    \<and> (faults w = [] \<and> HasPrefix tok APITokenPrefix \<and> token_live (dbs w) (clock w) tok row u
        \<longrightarrow> fst (run (UserFromToken env tok) w) = Inr (u, ScopesFromValues (Scopes_t row)))"
proof -
  have sound: "wp (UserFromToken env tok) (\<lambda>r w'. \<forall>u sc. r = Inr (u, sc) \<longrightarrow>
      HasPrefix tok SessionTokenPrefix \<and> sc = UnrestrictedScopes
        \<and> (\<exists>sess. session_live (dbs w) (clock w) tok externalProcedure sess u)
      \<or> HasPrefix tok APITokenPrefix
        \<and> (\<exists>row. token_live (dbs w) (clock w) tok row u \<and> sc = ScopesFromValues (Scopes_t row))) w"
    unfolding UserFromToken_def
    by (intro wp_intros wp_conseq [OF resolveSession_sound] wp_conseq [OF resolveAPIToken_sound]) auto
  have sess: "wp (UserFromToken env tok) (\<lambda>r w'. r = Inr (u, UnrestrictedScopes)) w"
    if "faults w = []" "HasPrefix tok SessionTokenPrefix" "session_live (dbs w) (clock w) tok externalProcedure sess u"
    unfolding UserFromToken_def using that assms
    by (auto intro!: wp_bind wp_conseq [OF resolveSession_complete] wp_return)
  have pat: "wp (UserFromToken env tok) (\<lambda>r w'. r = Inr (u, ScopesFromValues (Scopes_t row))) w"
    if "faults w = []" "HasPrefix tok APITokenPrefix" "token_live (dbs w) (clock w) tok row u"
    unfolding UserFromToken_def using that assms prefixes_disjoint [of tok]
    by (auto intro!: wp_conseq [OF resolveAPIToken_complete])
  show ?thesis using sound sess pat by (auto simp: wp_def split: prod.splits)
qed

text \<open>Authenticating with a session slides its idle expiry only forward in the session's own
  window and never past its absolute expiry, touches no other session and no other table, and
  does not touch a session at all within \<open>sessionTouchInterval\<close> of its last activity.\<close>

theorem touch_bounded_by_absolute_expiry:
  assumes "run (touchSession sess) w = (r, w')"
  shows "(\<forall>x' \<in> set (sessions (dbs w')). x' \<in> set (sessions (dbs w)) \<or>
      (\<exists>x \<in> set (sessions (dbs w)). ss_id x = UUID (ID_s sess) \<and> ss_revoked_at x = None
         \<and> x' = x\<lparr>ss_last_activity_at := Some (datetime (clock w)), ss_expires_at := ss_expires_at x'\<rparr>
         \<and> ss_expires_at x' \<le> AbsoluteExpiresAt sess))
    \<and> dbs w' = (dbs w)\<lparr>sessions := sessions (dbs w')\<rparr>
    \<and> (clock w - LastActivityAt sess < sessionTouchInterval \<longrightarrow> w' = w)"
proof -
  have t: "touched sess w w'" using wp_run [OF touchSession_touches assms] .
  have "clock w - LastActivityAt sess < sessionTouchInterval \<Longrightarrow> w' = w"
    using assms by (simp add: touchSession_def time_Now_def State_Monad.return_def State_Monad.bind_def)
  moreover have "dbs w' = (dbs w)\<lparr>sessions := sessions (dbs w')\<rparr>" using t by (auto simp: touched_def)
  moreover have "\<forall>x' \<in> set (sessions (dbs w')). x' \<in> set (sessions (dbs w)) \<or>
      (\<exists>x \<in> set (sessions (dbs w)). ss_id x = UUID (ID_s sess) \<and> ss_revoked_at x = None
         \<and> x' = x\<lparr>ss_last_activity_at := Some (datetime (clock w)), ss_expires_at := ss_expires_at x'\<rparr>
         \<and> ss_expires_at x' \<le> AbsoluteExpiresAt sess)"
    using t by (fastforce simp: touched_def sess_Touch_def dest!: in_update_where split: if_splits)
  ultimately show ?thesis by blast
qed

text \<open>C32. \<open>CheckReadAccess\<close> succeeds only if the caller may read every module: its token covers
  \<open>module:read\<close> on each, and for each private one the caller is known and the policy allows it on
  the current bindings.  Without failures it succeeds exactly then; in particular it succeeds for
  everyone, anonymous callers included, on modules of any visibility other than \<open>PRIVATE\<close>, such as
  \<open>UNSPECIFIED\<close>, that the token covers.  When the modules are private
  the refusal is always the same \<open>NotFound\<close>, whether the caller is anonymous, lacks the scope or
  lacks the role, so the existence of a private module is not revealed.\<close>

theorem read_access_exact:
  assumes "cache_coherent w" and "visits (ord_entries env)"
    and "run (CheckReadAccess env ctx user ms) w = (r, w')"
  shows "(r = Inr () \<longrightarrow> (\<forall>m \<in> set ms. may_read env w ctx user m)) \<and> dbs w' = dbs w
    \<and> (faults w = [] \<longrightarrow> (r = Inr () \<longleftrightarrow> (\<forall>m \<in> set ms. may_read env w ctx user m)))
    \<and> (faults w = [] \<and> (\<forall>m \<in> set ms. MVisibility m = MODULE_VISIBILITY_PRIVATE) \<longrightarrow>
         r \<in> {Inr (), Inl (NotFound ''not found'')})
    \<and> (faults w = [] \<and> (\<forall>m \<in> set ms. MVisibility m \<noteq> MODULE_VISIBILITY_PRIVATE
          \<and> scopes_Allow (scopesFromContext ctx) ResourceModule ActionRead (MName m)) \<longrightarrow> r = Inr ())"
proof -
  have "\<forall>m \<in> set ms. may_read env w ctx user m" if "\<forall>m \<in> set ms. MVisibility m \<noteq> MODULE_VISIBILITY_PRIVATE
      \<and> scopes_Allow (scopesFromContext ctx) ResourceModule ActionRead (MName m)"
    using that by (simp add: may_read_def)
  moreover have "(r = Inr () \<longrightarrow> (\<forall>m \<in> set ms. may_read env w ctx user m)) \<and> dbs w' = dbs w
    \<and> (faults w = [] \<longrightarrow> (r = Inr () \<longleftrightarrow> (\<forall>m \<in> set ms. may_read env w ctx user m)))
    \<and> (faults w = [] \<and> (\<forall>m \<in> set ms. MVisibility m = MODULE_VISIBILITY_PRIVATE) \<longrightarrow>
         r \<in> {Inr (), Inl (NotFound ''not found'')})"
    using wp_run [OF CheckReadAccess_decides [OF assms(1,2)] assms(3)] by (auto simp: same_state_def)
  ultimately show ?thesis by argo
qed


text \<open>C31. \<open>BatchCan\<close>, which gates uploads, grants a request exactly when every policy of it is
  covered by the credential's scopes and allowed by the policy engine on the current bindings (a
  scoped token can therefore never exceed the role of its owner, nor an owner's token its
  scopes), and a refusal names a policy that really is not permitted; \<open>Can\<close> decides a single
  policy the same way.\<close>

theorem batch_can_exact:
  assumes "cache_coherent w" and "visits (ord_entries env)"
    and "run (BatchCan env ctx ps) w = (Inr resp, w')"
    and "run (Can env ctx p) w = (Inr one, w'')"
  shows "(Allowed resp \<longleftrightarrow> (\<forall>q \<in> set ps. may_act env w ctx q))
    \<and> (\<forall>q. DeniedPolicy resp = Some q \<longrightarrow> q \<in> set ps \<and> \<not> may_act env w ctx q)
    \<and> (\<not> Allowed resp \<longrightarrow> (\<exists>q. DeniedPolicy resp = Some q))
    \<and> (Allowed one \<longleftrightarrow> may_act env w ctx p) \<and> dbs w' = dbs w \<and> dbs w'' = dbs w"
  using wp_run [OF BatchCan_decides [OF assms(1,2)] assms(3)] wp_run [OF Can_decides [OF assms(1,2)] assms(4)]
  by (auto simp: same_state_def)

text \<open>A token scoped to reading: its owner may push, the token may not.\<close>

definition reader_ctx :: reqctx where
  "reader_ctx = \<lparr>ctx_user = Some (scanSQLiteUser demo_user), ctx_authorization = ''hades1_a'',
     ctx_scopes = Some (ScopesFromValues [''module:read''])\<rparr>"

theorem batch_can_exact_witness:
  "\<exists>resp w1 one w2. run (BatchCan demo_env Background [demo_push]) demo_world = (Inr resp, w1) \<and> Allowed resp
     \<and> run (Can demo_env reader_ctx demo_push) demo_world = (Inr one, w2) \<and> \<not> Allowed one"
proof -
  have b: "current_bindings demo_world ''alice'' = [\<lparr>Role = ''owner'', BDomain = ''alice/*''\<rparr>]"
    by (simp add: current_bindings_def opa_bindings_def binding_ListBySubject_def granted_run(4))
  have m: "domain_matches ''alice/*'' ''alice/m''" by code_simp
  have "decision demo_env demo_world (demo_push\<lparr>Visibility := VisibilityPrivate\<rparr>)"
    by (simp add: decision_def policy_allow_def binding_clause_def b m role_permissions_def owner_actions_def)
  then have yes: "may_act demo_env demo_world Background demo_push"
    by (simp add: may_act_def scopes_Allow_def scopesFromContext_def Background_def UnrestrictedScopes_def)
  have "\<not> scopeCovers [''module:read''] ''module'' ''push'' ''alice/m''" by code_simp
  then have no: "\<not> may_act demo_env demo_world reader_ctx demo_push"
    by (simp add: may_act_def scopes_Allow_def scopesFromContext_def reader_ctx_def ScopesFromValues_def)
  have can: "\<exists>one w'. run (Can demo_env ctx demo_push) demo_world = (Inr one, w')" for ctx
    by (rule wp_obtain [OF Can_decides [OF demo_coherent demo_visits(1)]]) (auto simp: calm_def)
  obtain resp w1 where r1: "run (BatchCan demo_env Background [demo_push]) demo_world = (Inr resp, w1)"
    by (rule wp_obtain [OF BatchCan_decides [OF demo_coherent demo_visits(1)]]) (auto simp: calm_def)
  obtain one w2 where r2: "run (Can demo_env reader_ctx demo_push) demo_world = (Inr one, w2)" using can by blast
  obtain one' w3 where r': "run (Can demo_env Background demo_push) demo_world = (Inr one', w3)" using can by blast
  obtain resp' w4 where r'': "run (BatchCan demo_env reader_ctx []) demo_world = (Inr resp', w4)"
    by (simp add: BatchCan_def State_Monad.return_def)
  show ?thesis
    using r1 r2 yes no batch_can_exact [OF demo_coherent demo_visits(1) r1 r']
      batch_can_exact [OF demo_coherent demo_visits(1) r'' r2] by auto
qed

theorem UserFromToken_exact_witness:
  "fst (run (UserFromToken demo_env ''hds_sess_a'') demo_world) = Inr (scanSQLiteUser demo_user, UnrestrictedScopes)
   \<and> fst (run (UserFromToken demo_env ''hades1_a'') demo_world)
       = Inr (scanSQLiteUser demo_user, ScopesFromValues [''module:read''])"
proof -
  have p: "HasPrefix ''hds_sess_a'' SessionTokenPrefix" "HasPrefix ''hades1_a'' APITokenPrefix" by code_simp+
  have sc: "Scopes_t (scanSQLiteAPITokenRow demo_token) = [''module:read'']"
    by (simp add: scanSQLiteAPITokenRow_def demo_token_def decode_encode_scopes)
  have w: "session_wired demo_env" "apitoken_wired demo_env" "totp_wired demo_env" by simp_all
  show ?thesis
    using UserFromToken_exact [OF w, of "''hds_sess_a''" demo_world "scanSQLiteUser demo_user"]
      UserFromToken_exact [OF w, of "''hades1_a''" demo_world "scanSQLiteUser demo_user"]
      demo_session_live demo_token_live p sc demo_world_simps(4) by metis
qed

theorem touch_bounded_by_absolute_expiry_witness:
  "list_all (\<lambda>x'. ss_expires_at x' \<le> 9000 * Second)
     (sessions (dbs (snd (run (touchSession (scanSQLiteSession demo_session)) demo_world))))"
proof -
  obtain r w' where r: "run (touchSession (scanSQLiteSession demo_session)) demo_world = (r, w')"
    by (metis surj_pair)
  have "AbsoluteExpiresAt (scanSQLiteSession demo_session) = 9000 * Second" "ss_expires_at demo_session \<le> 9000 * Second"
    by (simp_all add: scanSQLiteSession_def demo_session_def)
  with touch_bounded_by_absolute_expiry [OF r] r show ?thesis by (auto simp: list_all_iff)
qed

theorem read_access_exact_witness:
  "fst (run (CheckReadAccess demo_env Background None [\<lparr>MName = ''alice/m'', MVisibility = 2\<rparr>]) demo_world)
     = Inl (NotFound ''not found'')
   \<and> fst (run (CheckReadAccess demo_env Background (Some (scanSQLiteUser demo_user)) [\<lparr>MName = ''alice/m'', MVisibility = 2\<rparr>])
       demo_world) = Inr ()"
proof -
  let ?m = "\<lparr>MName = ''alice/m'', MVisibility = 2\<rparr>"
  obtain r1 w1 where 1: "run (CheckReadAccess demo_env Background None [?m]) demo_world = (r1, w1)" by fastforce
  obtain r2 w2 where 2: "run (CheckReadAccess demo_env Background (Some (scanSQLiteUser demo_user)) [?m]) demo_world = (r2, w2)"
    by fastforce
  have b: "current_bindings demo_world ''alice'' = [\<lparr>Role = ''owner'', BDomain = ''alice/*''\<rparr>]"
    by (simp add: current_bindings_def opa_bindings_def binding_ListBySubject_def granted_run(4))
  have m: "domain_matches ''alice/*'' ''alice/m''" by code_simp
  have no: "\<not> may_read demo_env demo_world Background None ?m" by (simp add: may_read_def MODULE_VISIBILITY_PRIVATE_def)
  have yes: "may_read demo_env demo_world Background (Some (scanSQLiteUser demo_user)) ?m"
    by (simp add: may_read_def decision_def policy_allow_def binding_clause_def scanSQLiteUser_def demo_user_def b m
        role_permissions_def owner_actions_def ResourceModule_def ActionRead_def scopes_Allow_def scopesFromContext_def
        Background_def UnrestrictedScopes_def)
  show ?thesis
    using read_access_exact [OF demo_coherent demo_visits(1) 1] read_access_exact [OF demo_coherent demo_visits(1) 2]
      no yes 1 2 by (auto simp: MODULE_VISIBILITY_PRIVATE_def)
qed

end
