(* ===== verification/Paging.thy ===== *)
theory Paging
  imports Hades_Prelude
begin

text \<open>
  Offset cursors, from \<open>internal/hades/server/paging.go\<close>: \<open>Page\<close> turns a request's page size
  and token into a limit and an offset, \<open>NextPageToken\<close> prints the cursor of the next page.
  \<open>strconv.Atoi\<close> and \<open>strconv.Itoa\<close> are modelled on the 64-bit \<open>int\<close> they use.
\<close>

section \<open>strconv\<close>

definition is_digit :: "char \<Rightarrow> bool" where
  "is_digit c = (48 \<le> (of_char c :: nat) \<and> (of_char c :: nat) \<le> 57)"

definition digit_val :: "char \<Rightarrow> int" where
  "digit_val c = int ((of_char c :: nat)) - 48"

definition digit_char :: "nat \<Rightarrow> char" where
  "digit_char d = char_of (48 + d)"

fun dec_value :: "int \<Rightarrow> string \<Rightarrow> int" where
  "dec_value acc [] = acc"
| "dec_value acc (c # cs) = dec_value (10 * acc + digit_val c) cs"

definition parse_digits :: "string \<Rightarrow> int option" where
  "parse_digits s = (if s \<noteq> [] \<and> list_all is_digit s then Some (dec_value 0 s) else None)"

abbreviation max_int64 :: int where "max_int64 \<equiv> 9223372036854775807"

definition Atoi :: "string \<Rightarrow> int option" where
  "Atoi s = (case s of
     [] \<Rightarrow> None
   | c # cs \<Rightarrow>
       (let neg = (c = CHR ''-''); body = (if c = CHR ''-'' \<or> c = CHR ''+'' then cs else s) in
        case parse_digits body of
          None \<Rightarrow> None
        | Some v \<Rightarrow> (let n = (if neg then - v else v) in
            if - max_int64 - 1 \<le> n \<and> n \<le> max_int64 then Some n else None)))"

fun nat_digits :: "nat \<Rightarrow> string" where
  "nat_digits n = (if n < 10 then [digit_char n] else nat_digits (n div 10) @ [digit_char (n mod 10)])"

declare nat_digits.simps [simp del]

definition Itoa :: "int \<Rightarrow> string" where
  "Itoa n = (if n < 0 then CHR ''-'' # nat_digits (nat (- n)) else nat_digits (nat n))"

section \<open>Page and NextPageToken\<close>

definition DefaultPageSize :: int where "DefaultPageSize = 50"
definition MaxPageSize :: int where "MaxPageSize = 100"

definition Page :: "int \<Rightarrow> string \<Rightarrow> int \<times> int" where
  "Page pageSize pageToken =
     (let limit0 = pageSize;
          limit1 = (if limit0 \<le> 0 then DefaultPageSize else limit0);
          limit = (if limit1 > MaxPageSize then MaxPageSize else limit1);
          offset = (if pageToken \<noteq> [] then
                      (case Atoi pageToken of
                         Some n \<Rightarrow> if n > 0 then n else 0
                       | None \<Rightarrow> 0)
                    else 0)
      in (limit, offset))"

text \<open>Go's \<open>int\<close> addition wraps at 64 bits.\<close>

definition wrap_int64 :: "int \<Rightarrow> int" where
  "wrap_int64 n = (n + 2 ^ 63) mod 2 ^ 64 - 2 ^ 63"

definition NextPageToken :: "int \<Rightarrow> int \<Rightarrow> int \<Rightarrow> string" where
  "NextPageToken returned limit offset =
     (if returned < limit then [] else Itoa (wrap_int64 (offset + limit)))"

section \<open>Printing and parsing agree\<close>

lemma of_char_digit [simp]: "d < 10 \<Longrightarrow> (of_char (digit_char d) :: nat) = 48 + d"
  by (simp add: digit_char_def)

lemma digit_char_facts [simp]:
  "d < 10 \<Longrightarrow> is_digit (digit_char d)" "d < 10 \<Longrightarrow> digit_val (digit_char d) = int d"
  by (simp_all add: is_digit_def digit_val_def)

lemma dec_value_append: "dec_value acc (xs @ ys) = dec_value (dec_value acc xs) ys"
  by (induction xs arbitrary: acc) auto

lemma nat_digits_ok:
  "nat_digits n \<noteq> [] \<and> list_all is_digit (nat_digits n) \<and> dec_value 0 (nat_digits n) = int n"
proof (induction n rule: nat_digits.induct)
  case (1 n)
  show ?case
  proof (cases "n < 10")
    case True
    then show ?thesis by (simp add: nat_digits.simps [of n])
  next
    case False
    with "1.IH" have "dec_value 0 (nat_digits n) = 10 * int (n div 10) + int (n mod 10)"
      by (simp add: nat_digits.simps [of n] dec_value_append)
    also have "\<dots> = int n" by (metis mult_div_mod_eq of_nat_add of_nat_mult of_nat_numeral)
    finally show ?thesis using False "1.IH" by (simp add: nat_digits.simps [of n])
  qed
qed

lemma parse_nat_digits: "parse_digits (nat_digits n) = Some (int n)"
  using nat_digits_ok [of n] by (simp add: parse_digits_def)

lemma Atoi_Itoa:
  assumes "0 \<le> n" and "n \<le> max_int64"
  shows "Atoi (Itoa n) = Some n"
proof -
  obtain c cs where d: "nat_digits (nat n) = c # cs"
    using nat_digits_ok [of "nat n"] by (cases "nat_digits (nat n)") auto
  moreover have "is_digit c" using nat_digits_ok [of "nat n"] d by simp
  then have "c \<noteq> CHR ''-''" "c \<noteq> CHR ''+''" by (auto simp: is_digit_def)
  ultimately show ?thesis
    using assms parse_nat_digits [of "nat n"] by (simp add: Itoa_def Atoi_def)
qed

lemma Itoa_nonempty: "Itoa n \<noteq> []"
  using nat_digits_ok by (auto simp: Itoa_def)

lemma Page_limit: "fst (Page sz tok) = (if sz \<le> 0 then 50 else min sz 100)"
  by (simp add: Page_def Let_def DefaultPageSize_def MaxPageSize_def)

lemma Page_bounds: "1 \<le> fst (Page sz tok) \<and> fst (Page sz tok) \<le> 100"
  by (simp add: Page_limit)

lemma Atoi_bounds: "Atoi s = Some n \<Longrightarrow> n \<le> max_int64"
  by (auto simp: Atoi_def Let_def split: list.splits option.splits if_splits)

text \<open>Whatever the request carries, the limit handed to the query is between 1 and 100 and the
  offset is between 0 and the largest 64-bit integer; in particular a token such as \<open>-1\<close> can not
  reach the database as a negative offset.\<close>

theorem page_bounds:
  "1 \<le> fst (Page sz tok) \<and> fst (Page sz tok) \<le> 100
   \<and> 0 \<le> snd (Page sz tok) \<and> snd (Page sz tok) \<le> max_int64"
proof -
  have "0 \<le> snd (Page sz tok) \<and> snd (Page sz tok) \<le> max_int64"
    by (auto simp: Page_def Let_def split: option.splits dest: Atoi_bounds)
  with Page_bounds show ?thesis by blast
qed

lemma wrap_int64_id: "0 \<le> n \<Longrightarrow> n \<le> max_int64 \<Longrightarrow> wrap_int64 n = n"
  by (simp add: wrap_int64_def)

lemma Page_NextPageToken:
  assumes "limit \<le> returned" and "0 < offset + limit" and "offset + limit \<le> max_int64"
  shows "Page sz (NextPageToken returned limit offset) = (fst (Page sz []), offset + limit)"
  using assms Atoi_Itoa [of "offset + limit"] Itoa_nonempty [of "offset + limit"]
  by (simp add: NextPageToken_def Page_def Let_def wrap_int64_id)

section \<open>Following the cursor\<close>

text \<open>A client that follows \<open>next_page_token\<close> until it is empty, against a query that returns
  \<open>LIMIT limit OFFSET offset\<close> of a fixed ordered row list.  The fuel bounds the number of
  requests.\<close>

definition query_rows :: "'a list \<Rightarrow> int \<Rightarrow> int \<Rightarrow> 'a list" where
  "query_rows rows limit offset = take (nat limit) (drop (nat offset) rows)"

fun follow :: "nat \<Rightarrow> int \<Rightarrow> 'a list \<Rightarrow> string \<Rightarrow> 'a list option" where
  "follow 0 sz rows tok = None"
| "follow (Suc fuel) sz rows tok =
     (case Page sz tok of (limit, offset) \<Rightarrow>
        (let page = query_rows rows limit offset;
             next_tok = NextPageToken (int (length page)) limit offset in
         if next_tok = [] then Some page
         else map_option (\<lambda>rest. page @ rest) (follow fuel sz rows next_tok)))"

lemma follow_from:
  assumes "Page sz tok = (limit, offset)" and "1 \<le> limit" "limit \<le> 100" and "0 \<le> offset"
    and "offset \<le> int (length rows)" and "int (length rows) + 100 \<le> max_int64"
    and "length rows - nat offset < fuel"
  shows "follow fuel sz rows tok = Some (drop (nat offset) rows)"
  using assms
proof (induction fuel arbitrary: tok offset)
  case 0
  then show ?case by simp
next
  case (Suc fuel)
  let ?page = "query_rows rows limit offset"
  show ?case
  proof (cases "int (length ?page) < limit")
    case True
    then have "?page = drop (nat offset) rows" by (auto simp: query_rows_def)
    with True Suc.prems(1) show ?thesis by (simp add: NextPageToken_def)
  next
    case False
    then have full: "offset + limit \<le> int (length rows)" and len: "int (length ?page) = limit"
      using Suc.prems by (auto simp: query_rows_def)
    let ?next = "NextPageToken (int (length ?page)) limit offset"
    have nx: "Page sz ?next = (limit, offset + limit)"
      using Page_NextPageToken [of limit "int (length ?page)" offset sz] Suc.prems full len
        Page_limit [of sz tok] Page_limit [of sz "[]"] by simp
    have ne: "?next \<noteq> []" using len Itoa_nonempty by (simp add: NextPageToken_def)
    have "follow fuel sz rows ?next = Some (drop (nat (offset + limit)) rows)"
      using Suc.prems full by (intro Suc.IH [OF nx]) auto
    moreover have "?page @ drop (nat (offset + limit)) rows = drop (nat offset) rows"
      using Suc.prems by (simp add: query_rows_def nat_add_distrib add.commute flip: drop_drop)
    ultimately show ?thesis using ne Suc.prems(1) by (simp add: Let_def)
  qed
qed

text \<open>C40. A client that starts with no token and follows \<open>next_page_token\<close> reaches an empty token
  after finitely many requests and has then received every row exactly once, in order, for any
  page size it asks for.  One request per row plus one is always enough fuel.\<close>

theorem follow_all_pages:
  assumes "int (length rows) + 100 \<le> max_int64"
  shows "follow (length rows + 1) sz rows [] = Some rows"
proof -
  have p: "Page sz [] = (fst (Page sz []), 0)" by (simp add: Page_def Let_def)
  have b: "1 \<le> fst (Page sz [])" "fst (Page sz []) \<le> 100" using Page_bounds [of sz "[]"] by auto
  from follow_from [OF p b _ _ assms, of "length rows + 1"] show ?thesis by simp
qed

theorem follow_all_pages_witness:
  "int (length [10, 20, 30, 40, 50 :: int]) + 100 \<le> max_int64
   \<and> follow 6 2 [10, 20, 30, 40, 50 :: int] [] = Some [10, 20, 30, 40, 50]"
  using follow_all_pages [of "[10, 20, 30, 40, 50 :: int]" 2]
  by (simp add: numeral_eq_Suc del: follow.simps)

end
