(* ===== verification/Auth_Common.thy ===== *)
theory Auth_Common
  imports Authz_Server Paging
begin

text \<open>
  What the authentication handlers share: rate limiting (\<open>server/auth/ratelimit.go\<close>), random
  tokens (\<open>utils/crypto/token.go\<close>), AES-GCM encryption of TOTP secrets (\<open>utils/encrypt/aes.go\<close>),
  TOTP validation and backup codes (\<open>utils/totp/totp.go\<close>), password hashing
  (\<open>server/auth/handler.go\<close>) and the audit-log call.
\<close>

section \<open>Rate limiting\<close>

text \<open>Authentication endpoints fail closed: no limiter, no answer, no request.\<close>

definition enforceLimit :: "env \<Rightarrow> string \<Rightarrow> int \<Rightarrow> time \<Rightarrow> (world, unit) call" where
  "enforceLimit env key limit window =
     (if \<not> cache_wired env then fail (Unavailable ''rate limiter unavailable'')
      else do {
        r \<leftarrow> cache_Allow env key limit window;
        (case r of
           Inl e \<Rightarrow> fail (Unavailable ''rate limiter unavailable'')
         | Inr allowed \<Rightarrow> if \<not> allowed then fail (ResourceExhausted ''too many requests'') else ok ())
      })"

section \<open>Audit log\<close>

text \<open>Every handler ignores the result of writing an audit entry.\<close>

definition audit :: "env \<Rightarrow> string \<Rightarrow> audit_event \<Rightarrow> string \<Rightarrow> string \<Rightarrow> (string \<times> string) list \<Rightarrow> (world, unit) state" where
  "audit env userID event ip ua metadata =
     (if audit_wired env then do {
        _ \<leftarrow> insert_row env (\<lambda>i now d. case audit_Create i now (Some userID) event ip ua metadata (audit_log d) of
               (r, t) \<Rightarrow> (r, d\<lparr>audit_log := t\<rparr>));
        State_Monad.return ()
      } else State_Monad.return ())"

section \<open>Random tokens\<close>

definition GenerateToken :: "env \<Rightarrow> string \<Rightarrow> (world, string \<times> string) call" where
  "GenerateToken env prefix = do {
     r \<leftarrow> rand_Read env 32;
     (case r of
        Inl e \<Rightarrow> fail e
      | Inr b \<Rightarrow> (let token = prefix @ hexEncode b in ok (token, HashToken token)))
   }"

definition GenerateAPIToken :: "env \<Rightarrow> (world, string \<times> string \<times> string) call" where
  "GenerateAPIToken env = do {
     r \<leftarrow> rand_Read env 4;
     (case r of
        Inl e \<Rightarrow> fail e
      | Inr display \<Rightarrow> do {
          q \<leftarrow> rand_Read env 32;
          (case q of
             Inl e \<Rightarrow> fail e
           | Inr secret \<Rightarrow>
               (let prefix = APITokenPrefix @ hexEncode display;
                    token = prefix @ ''_'' @ hexEncode secret
                in ok (token, prefix, HashToken token)))
        })
   }"

fun GenerateBackupCodes :: "env \<Rightarrow> nat \<Rightarrow> (world, string list) call" where
  "GenerateBackupCodes env 0 = ok []"
| "GenerateBackupCodes env (Suc n) = do {
     r \<leftarrow> rand_Read env 8;
     (case r of
        Inl e \<Rightarrow> fail e
      | Inr b \<Rightarrow> do {
          rest \<leftarrow> GenerateBackupCodes env n;
          (case rest of Inl e \<Rightarrow> fail e | Inr cs \<Rightarrow> ok (hexEncode b # cs))
        })
   }"

section \<open>Encryption of secrets\<close>

definition NonceSize :: nat where "NonceSize = 12"

definition Encrypt :: "env \<Rightarrow> string \<Rightarrow> string \<Rightarrow> (world, string) call" where
  "Encrypt env keyHex plaintext =
     (case hexDecode keyHex of
        None \<Rightarrow> fail (OtherErr ''encrypt: key must be 32-byte hex'')
      | Some key \<Rightarrow>
          if length key \<noteq> 32 then fail (OtherErr ''encrypt: key must be 32-byte hex'')
          else do {
            r \<leftarrow> rand_Read env NonceSize;
            (case r of
               Inl e \<Rightarrow> fail e
             | Inr nonce \<Rightarrow> ok (hexEncode (nonce @ Seal env key nonce plaintext)))
          })"

definition Decrypt :: "env \<Rightarrow> string \<Rightarrow> string \<Rightarrow> string res" where
  "Decrypt env keyHex ciphertextHex =
     (case hexDecode keyHex of
        None \<Rightarrow> Inl (OtherErr ''decrypt: key must be 32-byte hex'')
      | Some key \<Rightarrow>
          if length key \<noteq> 32 then Inl (OtherErr ''decrypt: key must be 32-byte hex'')
          else (case hexDecode ciphertextHex of
            None \<Rightarrow> Inl (OtherErr ''decrypt: decode'')
          | Some c \<Rightarrow>
              if length c < NonceSize then Inl (OtherErr ''decrypt: ciphertext too short'')
              else (case Open env key (take NonceSize c) (drop NonceSize c) of
                None \<Rightarrow> Inl (OtherErr ''decrypt: open'')
              | Some plaintext \<Rightarrow> Inr plaintext)))"

section \<open>TOTP codes\<close>

definition Period :: int where "Period = 30"

text \<open>The steps around the current one, oldest first; \<open>now.Unix()\<close> is converted to an unsigned
  64-bit integer before the division, as the code does.\<close>

definition time_steps :: "time \<Rightarrow> int list" where
  "time_steps now = (let base = uint ((word_of_int (now div Second) :: 64 word) div word_of_int Period) in
     filter (\<lambda>s. 0 \<le> s) [base - 1, base, base + 1])"

fun try_steps :: "env \<Rightarrow> string \<Rightarrow> string \<Rightarrow> int list \<Rightarrow> (64 word \<times> bool) res" where
  "try_steps env secret code [] = Inr (0, False)"
| "try_steps env secret code (s # ss) =
     (case GenerateCodeCustom env secret s of
        Inl e \<Rightarrow> Inl e
      | Inr want \<Rightarrow> if want = code then Inr (word_of_int s, True) else try_steps env secret code ss)"

definition ValidateCodeCounter :: "env \<Rightarrow> string \<Rightarrow> string \<Rightarrow> time \<Rightarrow> (64 word \<times> bool) res" where
  "ValidateCodeCounter env secret code now = try_steps env secret code (time_steps now)"

section \<open>Passwords\<close>

definition DefaultCost :: int where "DefaultCost = 10"

definition bcryptHash :: "env \<Rightarrow> string \<Rightarrow> int \<Rightarrow> (world, string) call" where
  "bcryptHash env password cost = do {
     r \<leftarrow> rand_Read env 16;
     (case r of
        Inl e \<Rightarrow> fail e
      | Inr salt \<Rightarrow> State_Monad.return (GenerateFromPassword env password cost salt))
   }"

definition minLen :: "env \<Rightarrow> int" where
  "minLen env = (if MinLength env = 0 then 12 else MinLength env)"

definition hashCost :: "env \<Rightarrow> int" where
  "hashCost env = (if BcryptCost env = 0 then DefaultCost else BcryptCost env)"

text \<open>\<open>net.SplitHostPort\<close>: the host, or \<open>None\<close> for its error.\<close>

definition last_colon :: "string \<Rightarrow> nat option" where
  "last_colon s = (if CHR '':'' \<notin> set s then None
     else Some (length s - 1 - length (takeWhile (\<lambda>c. c \<noteq> CHR '':'') (rev s))))"

definition SplitHostPort :: "string \<Rightarrow> string option" where
  "SplitHostPort s = (case last_colon s of
     None \<Rightarrow> None
   | Some i \<Rightarrow>
       if take 1 s = ''['' then
         (if CHR '']'' \<notin> set s then None
          else let e = length (takeWhile (\<lambda>c. c \<noteq> CHR '']'') s) in
            if e + 1 \<noteq> i then None
            else if CHR ''['' \<in> set (drop 1 s) \<or> CHR '']'' \<in> set (drop (e + 1) s) then None
            else Some (take (e - 1) (drop 1 s)))
       else if CHR '':'' \<in> set (take i s) then None
       else if CHR ''['' \<in> set s \<or> CHR '']'' \<in> set s then None
       else Some (take i s))"

section \<open>Facts about secrets and codes\<close>

lemma try_steps_valid:
  "try_steps env secret code ss = Inr (c, True) \<Longrightarrow>
   \<exists>s \<in> set ss. c = word_of_int s \<and> GenerateCodeCustom env secret s = Inr code"
  by (induction ss) (auto split: sum.splits if_splits)

lemma enforceLimit_db [db_intros]: "db_keeps Q (enforceLimit env k l win)"
  unfolding enforceLimit_def by (intro db_intros)

lemma audit_db:
  "(\<And>d t. Q d \<Longrightarrow> Q (d\<lparr>audit_log := t\<rparr>)) \<Longrightarrow> db_keeps Q (audit env u e ip ua md)"
  unfolding audit_def by (intro db_intros db_keeps_insert) (auto split: prod.splits)

lemma GenerateToken_db [db_intros]: "db_keeps Q (GenerateToken env p)"
  unfolding GenerateToken_def Let_def by (intro db_intros)

lemma GenerateAPIToken_db [db_intros]: "db_keeps Q (GenerateAPIToken env)"
  unfolding GenerateAPIToken_def Let_def by (intro db_intros)

lemma GenerateBackupCodes_db [db_intros]: "db_keeps Q (GenerateBackupCodes env n)"
  by (induction n) (auto intro!: db_intros)

lemma Encrypt_db [db_intros]: "db_keeps Q (Encrypt env k p)"
  unfolding Encrypt_def by (intro db_intros)

lemma bcryptHash_db [db_intros]: "db_keeps Q (bcryptHash env p c)"
  unfolding bcryptHash_def by (intro db_intros)


section \<open>Branches of the shared calls\<close>

abbreviation limiter_errors :: "err set" where
  "limiter_errors \<equiv> {Unavailable ''rate limiter unavailable'', ResourceExhausted ''too many requests''}"

text \<open>The limiter answers, and has room for the key.\<close>

definition limiter_admits :: "env \<Rightarrow> string \<Rightarrow> int \<Rightarrow> time \<Rightarrow> world \<Rightarrow> bool" where
  "limiter_admits env k l win w \<longleftrightarrow> cache_wired env \<and> faults w = []
     \<and> fst (mc_Allow (ord_windows env) (clock w) k l win (mcache w))"

lemma enforceLimit_after [wp_after]:
  assumes "\<And>e w'. e \<in> limiter_errors \<Longrightarrow> \<not> limiter_admits env k l win w \<Longrightarrow> after w (dbs w) w' \<Longrightarrow> Q (Inl e) w'"
    and "\<And>w'. after w (dbs w) w' \<Longrightarrow> Q (Inr ()) w'"
  shows "wp (enforceLimit env k l win) Q w"
  unfolding enforceLimit_def
  by (intro wp_first wp_after) (use assms after_simps in \<open>auto simp: limiter_admits_def\<close>)

text \<open>Writing an audit entry, successfully or not, leaves every other table as it was.\<close>

lemma audit_after [wp_after]:
  assumes "\<And>al w'. after w ((dbs w)\<lparr>audit_log := al\<rparr>) w' \<Longrightarrow> Q () w'"
  shows "wp (audit env u e ip ua md) Q w"
proof -
  have same: "Q () w'" if "after w (dbs w) w'" for w'
    using assms [of "audit_log (dbs w)" w'] that by simp
  show ?thesis
    unfolding audit_def by (intro wp_first wp_after) (use assms same after_simps in \<open>auto split: prod.splits\<close>)
qed

lemma GenerateToken_after [wp_after]:
  assumes "\<And>e w'. faults w \<noteq> [] \<Longrightarrow> after w (dbs w) w' \<Longrightarrow> Q (Inl (fault_err e)) w'"
    and "\<And>tok m w'. tok = p @ hexEncode (take 32 (random env m)) \<Longrightarrow> after w (dbs w) w' \<Longrightarrow> Q (Inr (tok, HashToken tok)) w'"
  shows "wp (GenerateToken env p) Q w"
  unfolding GenerateToken_def Let_def by (intro wp_first wp_after) (use assms in auto)

lemma GenerateAPIToken_after [wp_after]:
  assumes "\<And>e w'. faults w \<noteq> [] \<Longrightarrow> after w (dbs w) w' \<Longrightarrow> Q (Inl (fault_err e)) w'"
    and "\<And>tok pre w'. HasPrefix tok APITokenPrefix \<Longrightarrow> after w (dbs w) w' \<Longrightarrow> Q (Inr (tok, pre, HashToken tok)) w'"
  shows "wp (GenerateAPIToken env) Q w"
  unfolding GenerateAPIToken_def Let_def
  by (intro wp_first wp_after) (use assms in \<open>auto simp: after_def HasPrefix_iff\<close>)

lemma bcryptHash_after [wp_after]:
  assumes "\<And>e w'. faults w \<noteq> [] \<Longrightarrow> after w (dbs w) w' \<Longrightarrow> Q (Inl (fault_err e)) w'"
    and "\<And>salt w'. after w (dbs w) w' \<Longrightarrow> Q (GenerateFromPassword env pw c salt) w'"
  shows "wp (bcryptHash env pw c) Q w"
  unfolding bcryptHash_def by (intro wp_first wp_after) (use assms in auto)

lemma Encrypt_after [wp_after]:
  assumes "\<And>e w'. after w (dbs w) w' \<Longrightarrow> Q (Inl e) w'"
    and "\<And>c w'. after w (dbs w) w' \<Longrightarrow> Q (Inr c) w'"
  shows "wp (Encrypt env k p) Q w"
  unfolding Encrypt_def by (intro wp_first wp_after) (use assms after_simps in auto)

lemma GenerateBackupCodes_after [wp_after]:
  assumes "\<And>e w'. faults w \<noteq> [] \<Longrightarrow> after w (dbs w) w' \<Longrightarrow> Q (Inl (fault_err e)) w'"
    and "\<And>cs w'. length cs = n \<Longrightarrow> after w (dbs w) w' \<Longrightarrow> Q (Inr cs) w'"
  shows "wp (GenerateBackupCodes env n) Q w"
  using assms
proof (induction n arbitrary: Q w)
  case 0
  then show ?case by (simp add: wp_return after_simps)
next
  case (Suc n)
  show ?case
    unfolding GenerateBackupCodes.simps
    by (intro wp_first wp_after Suc.IH) (use Suc.prems in \<open>auto simp: after_def\<close>)
qed

section \<open>Facts that no handler undoes\<close>

text \<open>A fact about the tables that depends on sessions and access tokens only, and that no
  operation of their stores undoes.  The lemmas proved in this locale say that whole handlers keep
  such a fact; it is interpreted for a revoked session and for a revoked access token.\<close>

locale credential_fact =
  fixes Q :: "db \<Rightarrow> bool"
  assumes users_free: "Q d \<Longrightarrow> Q (d\<lparr>users := us\<rparr>)"
    and totp_free: "Q d \<Longrightarrow> Q (d\<lparr>totp_secrets := ts\<rparr>)"
    and backup_free: "Q d \<Longrightarrow> Q (d\<lparr>backup_codes := bs\<rparr>)"
    and grants_free: "Q d \<Longrightarrow> Q (d\<lparr>device_grants := gs\<rparr>)"
    and emails_free: "Q d \<Longrightarrow> Q (d\<lparr>email_verifications := es\<rparr>)"
    and resets_free: "Q d \<Longrightarrow> Q (d\<lparr>password_resets := rs\<rparr>)"
    and bindings_free: "Q d \<Longrightarrow> Q (d\<lparr>role_bindings := rb\<rparr>)"
    and audit_free: "Q d \<Longrightarrow> Q (d\<lparr>audit_log := al\<rparr>)"
    and registry_free: "Q d \<Longrightarrow> Q (d\<lparr>registry := rg\<rparr>)"
    and session_steps: "Q d \<Longrightarrow> Q (d\<lparr>sessions := sess_step so (sessions d)\<rparr>)"
    and token_steps: "Q d \<Longrightarrow> Q (d\<lparr>api_tokens := pat_step po (api_tokens d)\<rparr>)"
begin

lemma free_upds [db_intros]:
  "db_keeps Q (upd (\<lambda>now d. d\<lparr>users := f1 now d\<rparr>))"
  "db_keeps Q (upd (\<lambda>now d. d\<lparr>totp_secrets := f2 now d\<rparr>))"
  "db_keeps Q (upd (\<lambda>now d. d\<lparr>backup_codes := f3 now d\<rparr>))"
  "db_keeps Q (upd (\<lambda>now d. d\<lparr>email_verifications := f4 now d\<rparr>))"
  "db_keeps Q (upd (\<lambda>now d. d\<lparr>password_resets := f5 now d\<rparr>))"
  "db_keeps Q (upd (\<lambda>now d. d\<lparr>role_bindings := f6 now d\<rparr>))"
  by (rule db_keeps_upd; simp add: users_free totp_free backup_free emails_free resets_free bindings_free)+

lemma free_inserts [db_intros]:
  "db_keeps Q (insert_row env (\<lambda>i now d. case g1 i now d of (r, t) \<Rightarrow> (r, d\<lparr>users := t\<rparr>)))"
  "db_keeps Q (insert_row env (\<lambda>i now d. case g2 i now d of (r, t) \<Rightarrow> (r, d\<lparr>totp_secrets := t\<rparr>)))"
  "db_keeps Q (insert_row env (\<lambda>i now d. case g3 i now d of (r, t) \<Rightarrow> (r, d\<lparr>device_grants := t\<rparr>)))"
  "db_keeps Q (insert_row env (\<lambda>i now d. case g4 i now d of (r, t) \<Rightarrow> (r, d\<lparr>email_verifications := t\<rparr>)))"
  "db_keeps Q (insert_row env (\<lambda>i now d. case g5 i now d of (r, t) \<Rightarrow> (r, d\<lparr>password_resets := t\<rparr>)))"
  "db_keeps Q (insert_row env (\<lambda>i now d. (c, d\<lparr>role_bindings := g6 i now d\<rparr>)))"
  "db_keeps Q (insert_row env (\<lambda>i now d. case g7 i now d of (r, t) \<Rightarrow> (r, d\<lparr>backup_codes := t\<rparr>)))"
  by (rule db_keeps_insert; simp add: case_prod_beta users_free totp_free backup_free grants_free emails_free resets_free bindings_free)+

lemma free_execs [db_intros]:
  "db_keeps Q (exec (\<lambda>now d. case h1 now d of (r, t) \<Rightarrow> (r, d\<lparr>totp_secrets := t\<rparr>)))"
  "db_keeps Q (exec (\<lambda>now d. case h2 now d of (r, t) \<Rightarrow> (r, d\<lparr>device_grants := t\<rparr>)))"
  by (rule db_keeps_exec; simp add: case_prod_beta totp_free grants_free)+

lemma session_upds [db_intros]:
  "db_keeps Q (upd (\<lambda>now d. d\<lparr>sessions := sess_Revoke now i (sessions d)\<rparr>))"
  "db_keeps Q (upd (\<lambda>now d. d\<lparr>sessions := sess_RevokeAllForUser now u i (sessions d)\<rparr>))"
  "db_keeps Q (upd (\<lambda>now d. d\<lparr>sessions := sess_Touch now i e (sessions d)\<rparr>))"
  "db_keeps Q (upd (\<lambda>now d. d\<lparr>sessions := sess_MarkTOTPVerified i (sessions d)\<rparr>))"
  using session_steps [of _ "SRevoke n i" for n] session_steps [of _ "SRevokeAllForUser n u i" for n]
    session_steps [of _ "STouch n i e" for n] session_steps [of _ "SMarkTOTPVerified i"]
  by (auto intro!: db_keeps_upd)

lemma session_insert [db_intros]:
  "db_keeps Q (insert_row env (\<lambda>i now d. case sess_CreateWithToken i now u m h ip ua e a (sessions d) of
     (r, t) \<Rightarrow> (r, d\<lparr>sessions := t\<rparr>)))"
  using session_steps [of _ "SCreateWithToken i n u m h ip ua e a" for i n]
  by (auto intro!: db_keeps_insert simp: case_prod_beta)

lemma token_changes [db_intros]:
  "db_keeps Q (upd (\<lambda>now d. d\<lparr>api_tokens := pat_UpdateLastUsed now i (api_tokens d)\<rparr>))"
  "db_keeps Q (exec (\<lambda>now d. case pat_RevokeByOwner now i u (api_tokens d) of (r, t) \<Rightarrow> (r, d\<lparr>api_tokens := t\<rparr>)))"
  "db_keeps Q (insert_row env (\<lambda>i now d. case pat_Create i now u nm p h sc e (api_tokens d) of
     (r, t) \<Rightarrow> (r, d\<lparr>api_tokens := t\<rparr>)))"
  using token_steps [of _ "TUpdateLastUsed n i" for n] token_steps [of _ "TRevokeByOwner n i u" for n]
    token_steps [of _ "TCreate j n u nm p h sc e" for j n]
  by (auto intro!: db_keeps_upd db_keeps_exec db_keeps_insert simp: case_prod_beta simp del: pat_RevokeByOwner_snd)

lemma audit_keeps [db_intros]: "db_keeps Q (audit env u e ip ua md)"
  by (rule audit_db) (rule audit_free)

lemma AddBasicRoles_keeps [db_intros]: "db_keeps Q (AddBasicRoles env u)"
  unfolding AddBasicRoles_def engine_AddBinding_def by (intro db_intros)

lemma touchSession_keeps [db_intros]: "db_keeps Q (touchSession sess)"
  unfolding touchSession_def Let_def by (intro db_intros)

lemma recordTokenUse_keeps [db_intros]: "db_keeps Q (recordTokenUse i)"
  unfolding recordTokenUse_def by (intro db_intros)

lemma resolveSession_keeps [db_intros]: "db_keeps Q (resolveSession env tok pr)"
  unfolding resolveSession_def validateSessionChecks_def by (intro db_intros)

lemma resolveAPIToken_keeps [db_intros]: "db_keeps Q (resolveAPIToken env tok pr)"
  unfolding resolveAPIToken_def by (intro db_intros)

lemma wrapUnary_keeps [db_intros]:
  "(\<And>ctx. db_keeps Q (nxt ctx)) \<Longrightarrow> db_keeps Q (wrapUnary env nxt req)"
  unfolding wrapUnary_def Let_def limitBearerAttempts_def authenticateSession_def authenticateAPIToken_def
  by (intro db_intros)

end

interpretation revoked_session: credential_fact "\<lambda>d. sess_revoked h (sessions d)" for h
  by unfold_locales (simp_all add: sess_step_revoked)

interpretation revoked_token: credential_fact "\<lambda>d. pat_revoked h (api_tokens d)" for h
  by unfold_locales (simp_all add: pat_step_revoked)

end
