(* ===== verification/Auth_Tokens.thy ===== *)
theory Auth_Tokens
  imports Auth_Common
begin

text \<open>
  The handlers by which an account manages its credentials: sessions
  (\<open>internal/hades/server/auth/session.go\<close>), personal access tokens (\<open>apitoken.go\<close>), the device
  flow (\<open>device.go\<close>) and the audit log (\<open>audit.go\<close>).
\<close>

section \<open>Sessions\<close>

record Session_msg =
  sm_Id :: string
  sm_IpAddress :: string
  sm_UserAgent :: string
  sm_CreatedAt :: time
  sm_LastActivityAt :: time
  sm_IsCurrent :: bool

text \<open>The id of the session the request came with, or \<open>uuid.Nil\<close>.\<close>

definition current_session :: "reqctx \<Rightarrow> (world, uuid) state" where
  "current_session ctx =
     (if ctx_authorization ctx \<noteq> [] then do {
        r \<leftarrow> qry (\<lambda>d. sess_GetByTokenHash (HashToken (ctx_authorization ctx)) (sessions d));
        (case r of Inl e \<Rightarrow> State_Monad.return NilUUID | Inr sess \<Rightarrow> State_Monad.return (ID_s sess))
      } else State_Monad.return NilUUID)"

definition ListSessions :: "reqctx \<Rightarrow> (world, Session_msg list) call" where
  "ListSessions ctx = (case ctx_user ctx of
     None \<Rightarrow> fail (Unauthenticated ''not authenticated'')
   | Some user \<Rightarrow> do {
       currentID \<leftarrow> current_session ctx;
       r \<leftarrow> qry_now (\<lambda>now d. sess_ListByUserID now (Id user) (sessions d));
       (case r of
          Inl e \<Rightarrow> fail (FromDB e)
        | Inr rows \<Rightarrow> ok (map (\<lambda>row. \<lparr>sm_Id = ID_s row, sm_IpAddress = IPAddress row, sm_UserAgent = UserAgent row,
              sm_CreatedAt = CreatedAt_s row, sm_LastActivityAt = LastActivityAt row,
              sm_IsCurrent = (currentID \<noteq> NilUUID \<and> ID_s row = currentID)\<rparr>) rows))
     })"

definition RevokeSession :: "env \<Rightarrow> reqctx \<Rightarrow> string \<Rightarrow> (world, unit) call" where
  "RevokeSession env ctx SessionId = (case ctx_user ctx of
     None \<Rightarrow> fail (Unauthenticated ''not authenticated'')
   | Some user \<Rightarrow> (case uuid_Parse env SessionId of
       None \<Rightarrow> fail (InvalidArgument ''invalid session ID'')
     | Some sessionID \<Rightarrow> do {
         r \<leftarrow> qry (\<lambda>d. sess_GetByID sessionID (sessions d));
         (case r of
            Inl e \<Rightarrow> fail (NotFound ''session not found'')
          | Inr sess \<Rightarrow>
              if UserID_s sess \<noteq> Id user then fail (NotFound ''session not found'')
              else do {
                x \<leftarrow> upd (\<lambda>now d. d\<lparr>sessions := sess_Revoke now sessionID (sessions d)\<rparr>);
                (case x of
                   Inl e \<Rightarrow> fail (FromDB e)
                 | Inr _ \<Rightarrow> do { _ \<leftarrow> audit env (Id user) SESSION_REVOKED [] [] [(''session_id'', SessionId)]; ok () })
              })
       }))"

definition RevokeAllOtherSessions :: "env \<Rightarrow> reqctx \<Rightarrow> (world, unit) call" where
  "RevokeAllOtherSessions env ctx = (case ctx_user ctx of
     None \<Rightarrow> fail (Unauthenticated ''not authenticated'')
   | Some user \<Rightarrow> do {
       currentID \<leftarrow> current_session ctx;
       x \<leftarrow> upd (\<lambda>now d. d\<lparr>sessions := sess_RevokeAllForUser now (Id user) currentID (sessions d)\<rparr>);
       (case x of
          Inl e \<Rightarrow> fail (FromDB e)
        | Inr _ \<Rightarrow> do { _ \<leftarrow> audit env (Id user) SESSION_REVOKED [] [] [(''scope'', ''all_other'')]; ok () })
     })"

section \<open>Personal access tokens\<close>

definition maxAPITokensPerUser :: int where "maxAPITokensPerUser = 50"
definition maxAPITokenLifetime :: time where "maxAPITokenLifetime = 365 * 24 * Hour"

text \<open>\<open>strconv.Quote\<close>, behind the verb \<open>%q\<close> of the error messages.  Bytes beyond ASCII are kept: they belong
  to runes of a valid UTF-8 string, taken to be printable.\<close>

definition quote_char :: "char \<Rightarrow> string" where
  "quote_char c = (let n = of_char c :: nat in
     if c = CHR 0x22 \<or> c = CHR 0x5C then [CHR 0x5C, c]
     else if n = 7 then [CHR 0x5C, CHR ''a''] else if n = 8 then [CHR 0x5C, CHR ''b'']
     else if n = 9 then [CHR 0x5C, CHR ''t''] else if n = 10 then [CHR 0x5C, CHR ''n'']
     else if n = 11 then [CHR 0x5C, CHR ''v''] else if n = 12 then [CHR 0x5C, CHR ''f'']
     else if n = 13 then [CHR 0x5C, CHR ''r'']
     else if n < 32 \<or> n = 127 then [CHR 0x5C, CHR ''x'', nibble (n div 16), nibble (n mod 16)]
     else [c])"

definition Quote :: "string \<Rightarrow> string" where
  "Quote s = CHR 0x22 # concat (map quote_char s) @ [CHR 0x22]"

fun validate_scopes_from :: "string set \<Rightarrow> string list \<Rightarrow> unit res" where
  "validate_scopes_from seen [] = Inr ()"
| "validate_scopes_from seen (sc # rest) =
     (if \<not> IsKnownScope sc then Inl (InvalidArgument (''unknown scope '' @ Quote sc))
      else if sc \<in> seen then Inl (InvalidArgument (''duplicate scope '' @ Quote sc))
      else validate_scopes_from (insert sc seen) rest)"

definition validateScopes :: "string list \<Rightarrow> unit res" where
  "validateScopes scopes =
     (if scopes = []
      then Inl (InvalidArgument ''at least one scope is required; an empty scope list would grant unrestricted access'')
      else validate_scopes_from {} scopes)"

datatype APITokenStatus = ACTIVE | REVOKED | EXPIRED

definition apiTokenStatus :: "TokenRow \<Rightarrow> time \<Rightarrow> APITokenStatus" where
  "apiTokenStatus row now =
     (if RevokedAt_t row \<noteq> None then REVOKED
      else (case ExpiresAt_t row of Some t \<Rightarrow> if now > t then EXPIRED else ACTIVE | None \<Rightarrow> ACTIVE))"

record create_token_request =
  ct_Name :: string
  ct_Scopes :: "string list"
  ct_ExpiresAt :: "time option"

record create_token_response =
  cr_Id :: string
  cr_Token :: string
  cr_Prefix :: string
  cr_CreatedAt :: time

definition check_expiry :: "time \<Rightarrow> time option \<Rightarrow> unit res" where
  "check_expiry now expiresAt = (case expiresAt of
     None \<Rightarrow> Inr ()
   | Some t \<Rightarrow>
       if \<not> now < t then Inl (InvalidArgument ''expiry must be in the future'')
       else if now + maxAPITokenLifetime < t then Inl (InvalidArgument ''expiry exceeds the maximum token lifetime'')
       else Inr ())"

definition CreateAPIToken :: "env \<Rightarrow> reqctx \<Rightarrow> create_token_request \<Rightarrow> (world, create_token_response) call" where
  "CreateAPIToken env ctx msg = (case ctx_user ctx of
     None \<Rightarrow> fail (Unauthenticated ''not authenticated'')
   | Some user \<Rightarrow> (case validateScopes (ct_Scopes msg) of
       Inl e \<Rightarrow> fail e
     | Inr _ \<Rightarrow> do {
         now \<leftarrow> time_Now;
         (case check_expiry now (ct_ExpiresAt msg) of
            Inl e \<Rightarrow> fail e
          | Inr _ \<Rightarrow> do {
              r \<leftarrow> qry_now (\<lambda>_ d. pat_ListByUserID (Id user) (maxAPITokensPerUser + 1) 0 (api_tokens d));
              (case r of
                 Inl e \<Rightarrow> fail (FromDB e)
               | Inr existing \<Rightarrow>
                   if int (length (filter (\<lambda>row. apiTokenStatus row now = ACTIVE) existing)) \<ge> maxAPITokensPerUser
                   then fail (ResourceExhausted ''maximum number of active API tokens reached; revoke one first'')
                   else do {
                     g \<leftarrow> GenerateAPIToken env;
                     (case g of
                        Inl e \<Rightarrow> fail (Internal ''failed to generate token'')
                      | Inr (fullToken, prefix, tokenHash) \<Rightarrow> do {
                          c \<leftarrow> insert_row env (\<lambda>i now d. case pat_Create i now (Id user) (ct_Name msg) prefix tokenHash
                                 (ct_Scopes msg) (ct_ExpiresAt msg) (api_tokens d) of (r, t) \<Rightarrow> (r, d\<lparr>api_tokens := t\<rparr>));
                          (case c of
                             Inl e \<Rightarrow> fail (FromDB e)
                           | Inr row \<Rightarrow> do {
                               _ \<leftarrow> audit env (Id user) API_TOKEN_CREATED [] [] [(''token_id'', ID_t row)];
                               ok \<lparr>cr_Id = ID_t row, cr_Token = fullToken, cr_Prefix = prefix, cr_CreatedAt = CreatedAt_t row\<rparr>
                             })
                        })
                   })
            })
       }))"

record APIToken_msg =
  tm_Id :: string
  tm_Name :: string
  tm_Prefix :: string
  tm_Scopes :: "string list"
  tm_CreatedAt :: time
  tm_Status :: APITokenStatus
  tm_LastUsedAt :: "time option"
  tm_ExpiresAt :: "time option"

definition ListAPITokens :: "reqctx \<Rightarrow> int \<Rightarrow> string \<Rightarrow> (world, APIToken_msg list \<times> string) call" where
  "ListAPITokens ctx PageSize PageToken = (case ctx_user ctx of
     None \<Rightarrow> fail (Unauthenticated ''not authenticated'')
   | Some user \<Rightarrow> (case Page PageSize PageToken of (pageSize, offset) \<Rightarrow> do {
       r \<leftarrow> qry_now (\<lambda>_ d. pat_ListByUserID (Id user) pageSize offset (api_tokens d));
       (case r of
          Inl e \<Rightarrow> fail (FromDB e)
        | Inr rows \<Rightarrow> do {
            now \<leftarrow> time_Now;
            ok (map (\<lambda>row. \<lparr>tm_Id = ID_t row, tm_Name = Name_t row, tm_Prefix = Prefix row, tm_Scopes = Scopes_t row,
                  tm_CreatedAt = CreatedAt_t row, tm_Status = apiTokenStatus row now, tm_LastUsedAt = LastUsedAt row,
                  tm_ExpiresAt = ExpiresAt_t row\<rparr>) rows,
                NextPageToken (int (length rows)) pageSize offset)
          })
     }))"

definition RevokeAPIToken :: "env \<Rightarrow> reqctx \<Rightarrow> string \<Rightarrow> (world, unit) call" where
  "RevokeAPIToken env ctx tokenId = (case ctx_user ctx of
     None \<Rightarrow> fail (Unauthenticated ''not authenticated'')
   | Some user \<Rightarrow> (case uuid_Parse env tokenId of
       None \<Rightarrow> fail (InvalidArgument ''invalid token ID'')
     | Some i \<Rightarrow> do {
         r \<leftarrow> exec (\<lambda>now d. case pat_RevokeByOwner now i (Id user) (api_tokens d) of (r, t) \<Rightarrow> (r, d\<lparr>api_tokens := t\<rparr>));
         (case r of
            Inl e \<Rightarrow> if e = ErrTokenNotFound then fail (NotFound ''token not found'') else fail (FromDB e)
          | Inr _ \<Rightarrow> do { _ \<leftarrow> audit env (Id user) API_TOKEN_REVOKED [] [] [(''token_id'', tokenId)]; ok () })
       }))"

section \<open>The device flow\<close>

definition deviceCodeExpiry :: time where "deviceCodeExpiry = 15 * Minute"
definition pollIntervalSeconds :: int where "pollIntervalSeconds = 5"
definition devicePath :: string where "devicePath = ''/device''"

definition verificationURL :: "env \<Rightarrow> string" where
  "verificationURL env = (if registryHost env = [] then devicePath else ''https://'' @ registryHost env @ devicePath)"

definition deviceTokenScopes :: "string list" where
  "deviceTokenScopes = [ResourceModule @ '':'' @ ActionRead, ResourceModule @ '':'' @ ActionPush]"

text \<open>\<open>rand.Int(rand.Reader, max)\<close>: a value below \<open>max\<close> computed from the random source.\<close>

definition rand_Int :: "env \<Rightarrow> nat \<Rightarrow> (world, nat) call" where
  "rand_Int env m = do {
     r \<leftarrow> rand_Read env 8;
     (case r of Inl e \<Rightarrow> fail e | Inr b \<Rightarrow> ok (foldl (\<lambda>a c. a * 256 + of_char c) 0 b mod m))
   }"

definition user_code_chars :: string where
  "user_code_chars = ''ABCDEFGHIJKLMNOPQRSTUVWXYZ0123456789''"

text \<open>The loop of \<open>generateUserCode\<close>, with \<open>n\<close> characters still to draw.\<close>

fun user_code_from :: "env \<Rightarrow> nat \<Rightarrow> (world, string) call" where
  "user_code_from env 0 = ok []"
| "user_code_from env (Suc n) = do {
     r \<leftarrow> rand_Int env (length user_code_chars);
     (case r of
        Inl e \<Rightarrow> fail e
      | Inr k \<Rightarrow> do {
          rest \<leftarrow> user_code_from env n;
          (case rest of
             Inl e \<Rightarrow> fail e
           | Inr s \<Rightarrow> ok (user_code_chars ! k # (if n = 4 then [CHR ''-''] else []) @ s))
        })
   }"

definition generateUserCode :: "env \<Rightarrow> (world, string) call" where
  "generateUserCode env = user_code_from env 8"

record device_code_response =
  dc_DeviceCode :: string
  dc_UserCode :: string
  dc_VerificationUrl :: string
  dc_ExpiresInSeconds :: int
  dc_PollIntervalSeconds :: int

definition RequestDeviceCode :: "env \<Rightarrow> (world, device_code_response) call" where
  "RequestDeviceCode env = do {
     g \<leftarrow> GenerateToken env [];
     (case g of
        Inl e \<Rightarrow> fail (Internal ''failed to generate device code'')
      | Inr (rawDevice, deviceHash) \<Rightarrow> do {
          u \<leftarrow> generateUserCode env;
          (case u of
             Inl e \<Rightarrow> fail (Internal ''failed to generate user code'')
           | Inr userCode \<Rightarrow> do {
               now \<leftarrow> time_Now;
               c \<leftarrow> insert_row env (\<lambda>i now' d. case grant_Create i now' deviceHash userCode (now + deviceCodeExpiry) (device_grants d) of
                      (r, t) \<Rightarrow> (r, d\<lparr>device_grants := t\<rparr>));
               (case c of
                  Inl e \<Rightarrow> fail (FromDB e)
                | Inr _ \<Rightarrow> ok \<lparr>dc_DeviceCode = rawDevice, dc_UserCode = userCode, dc_VerificationUrl = verificationURL env,
                      dc_ExpiresInSeconds = deviceCodeExpiry div Second, dc_PollIntervalSeconds = pollIntervalSeconds\<rparr>)
             })
        })
   }"

text \<open>\<open>Pending\<close> or the token that was issued.\<close>

datatype poll_response = Pending | Issued string

definition device_audit :: "string \<Rightarrow> (string \<times> string) list" where
  "device_audit src = [(''source'', src), (''scopes'', Marshal_strings deviceTokenScopes)]"

text \<open>The unit of work of \<open>PollDeviceToken\<close>.\<close>

definition issue_device_token :: "env \<Rightarrow> string \<Rightarrow> uuid \<Rightarrow> string \<Rightarrow> string \<Rightarrow> (world, unit) call" where
  "issue_device_token env userID grantID prefix tokenHash = uow_do (do {
     c \<leftarrow> insert_row env (\<lambda>i now d. case pat_Create i now userID ''device-flow'' prefix tokenHash deviceTokenScopes None (api_tokens d) of
            (r, t) \<Rightarrow> (r, d\<lparr>api_tokens := t\<rparr>));
     (case c of
        Inl e \<Rightarrow> fail (FromDB e)
      | Inr tokenRow \<Rightarrow> do {
          a \<leftarrow> exec (\<lambda>_ d. case grant_AttachToken grantID (ID_t tokenRow) (device_grants d) of (r, t) \<Rightarrow> (r, d\<lparr>device_grants := t\<rparr>));
          (case a of Inl e \<Rightarrow> fail e | Inr _ \<Rightarrow> ok ())
        })
   })"

definition PollDeviceToken :: "env \<Rightarrow> request \<Rightarrow> string \<Rightarrow> (world, poll_response) call" where
  "PollDeviceToken env req DeviceCode =
     (let host = (case SplitHostPort (rq_peer req) of Some h \<Rightarrow> h | None \<Rightarrow> rq_peer req) in do {
        l \<leftarrow> enforceLimit env (''devpoll:ip:'' @ host) 20 Minute;
        (case l of
           Inl e \<Rightarrow> fail e
         | Inr _ \<Rightarrow> do {
             q \<leftarrow> qry (\<lambda>d. grant_GetByDeviceCodeHash (HashToken DeviceCode) (device_grants d));
             (case q of
                Inl e \<Rightarrow> fail (NotFound ''invalid device code'')
              | Inr grant \<Rightarrow> do {
                  now \<leftarrow> time_Now;
                  if now > ExpiresAt_d grant then fail (InvalidArgument ''device code expired'')
                  else (case (ApprovedAt grant, UserID_d grant) of
                    (Some _, Some userID) \<Rightarrow>
                      if APITokenID grant \<noteq> None
                      then fail (FailedPrecondition ''a token has already been issued for this device code'')
                      else do {
                        g \<leftarrow> GenerateAPIToken env;
                        (case g of
                           Inl e \<Rightarrow> fail (Internal ''failed to generate token'')
                         | Inr (fullToken, prefix, tokenHash) \<Rightarrow> do {
                             t \<leftarrow> issue_device_token env userID (ID_d grant) prefix tokenHash;
                             (case t of
                                Inl e \<Rightarrow>
                                  if e = ErrTokenAlreadyIssued
                                  then fail (FailedPrecondition ''a token has already been issued for this device code'')
                                  else fail (FromDB e)
                              | Inr _ \<Rightarrow> do {
                                  _ \<leftarrow> audit env userID API_TOKEN_CREATED host [] (device_audit ''device_flow'');
                                  ok (Issued fullToken)
                                })
                           })
                      }
                  | _ \<Rightarrow> ok Pending)
                })
           })
      })"

definition ApproveDeviceGrant :: "env \<Rightarrow> reqctx \<Rightarrow> string \<Rightarrow> (world, unit) call" where
  "ApproveDeviceGrant env ctx userCode = (case ctx_user ctx of
     None \<Rightarrow> fail (Unauthenticated ''not authenticated'')
   | Some user \<Rightarrow> do {
       l \<leftarrow> enforceLimit env (''devapprove:user:'' @ Id user) 10 Minute;
       (case l of
          Inl e \<Rightarrow> fail e
        | Inr _ \<Rightarrow> do {
            q \<leftarrow> qry (\<lambda>d. grant_GetByUserCode userCode (device_grants d));
            (case q of
               Inl e \<Rightarrow> fail (NotFound ''invalid user code'')
             | Inr grant \<Rightarrow> do {
                 now \<leftarrow> time_Now;
                 if now > ExpiresAt_d grant then fail (InvalidArgument ''device code expired'')
                 else if ApprovedAt grant \<noteq> None then fail (FailedPrecondition ''this device code has already been approved'')
                 else do {
                   a \<leftarrow> exec (\<lambda>now d. case grant_Approve now (ID_d grant) (Id user) (device_grants d) of (r, t) \<Rightarrow> (r, d\<lparr>device_grants := t\<rparr>));
                   (case a of
                      Inl e \<Rightarrow>
                        if e = ErrAlreadyApproved
                        then fail (FailedPrecondition ''this device code has already been approved'')
                        else fail (FromDB e)
                    | Inr _ \<Rightarrow> do {
                        _ \<leftarrow> audit env (Id user) API_TOKEN_CREATED [] [] (device_audit ''device_flow_approval'');
                        ok ()
                      })
                 }
               })
          })
     })"

section \<open>Audit log\<close>

record AuditEvent_msg =
  ae_Id :: string
  ae_EventType :: audit_event
  ae_IpAddress :: string
  ae_UserAgent :: string
  ae_CreatedAt :: time
  ae_Metadata :: "(string \<times> string) list"

definition ListAuditLog :: "reqctx \<Rightarrow> int \<Rightarrow> string \<Rightarrow> (world, AuditEvent_msg list \<times> string) call" where
  "ListAuditLog ctx PageSize PageToken = (case ctx_user ctx of
     None \<Rightarrow> fail (Unauthenticated ''not authenticated'')
   | Some user \<Rightarrow> (case Page PageSize PageToken of (pageSize, offset) \<Rightarrow> do {
       r \<leftarrow> qry_now (\<lambda>_ d. audit_List (Id user) pageSize offset (audit_log d));
       (case r of
          Inl e \<Rightarrow> fail (FromDB e)
        | Inr rows \<Rightarrow>
            ok (map (\<lambda>row. \<lparr>ae_Id = Canonical (au_id row), ae_EventType = au_event row, ae_IpAddress = au_ip_address row,
                  ae_UserAgent = au_user_agent row, ae_CreatedAt = au_create_time row, ae_Metadata = au_metadata row\<rparr>) rows,
                NextPageToken (int (length rows)) pageSize offset))
     }))"

section \<open>What no credential handler undoes\<close>

context credential_fact
begin

lemma RevokeSession_keeps [db_intros]: "db_keeps Q (RevokeSession env ctx i)"
  unfolding RevokeSession_def by (intro db_intros)

lemma ListSessions_keeps [db_intros]: "db_keeps Q (ListSessions ctx)"
  unfolding ListSessions_def current_session_def by (intro db_intros)

lemma RevokeAllOtherSessions_keeps [db_intros]: "db_keeps Q (RevokeAllOtherSessions env ctx)"
  unfolding RevokeAllOtherSessions_def current_session_def by (intro db_intros)

lemma CreateAPIToken_keeps [db_intros]: "db_keeps Q (CreateAPIToken env ctx msg)"
  unfolding CreateAPIToken_def by (intro db_intros)

lemma ListAPITokens_keeps [db_intros]: "db_keeps Q (ListAPITokens ctx n t)"
  unfolding ListAPITokens_def by (intro db_intros)

lemma RevokeAPIToken_keeps [db_intros]: "db_keeps Q (RevokeAPIToken env ctx i)"
  unfolding RevokeAPIToken_def by (intro db_intros)

lemma generateUserCode_keeps [db_intros]: "db_keeps Q (generateUserCode env)"
proof -
  have "db_keeps Q (user_code_from env n)" for n
    by (induction n) (auto simp: rand_Int_def intro!: db_intros)
  then show ?thesis by (simp add: generateUserCode_def)
qed

lemma RequestDeviceCode_keeps [db_intros]: "db_keeps Q (RequestDeviceCode env)"
  unfolding RequestDeviceCode_def by (intro db_intros)

lemma PollDeviceToken_keeps [db_intros]: "db_keeps Q (PollDeviceToken env req c)"
  unfolding PollDeviceToken_def issue_device_token_def Let_def by (intro db_intros)

lemma ApproveDeviceGrant_keeps [db_intros]: "db_keeps Q (ApproveDeviceGrant env ctx c)"
  unfolding ApproveDeviceGrant_def by (intro db_intros)

lemma ListAuditLog_keeps [db_intros]: "db_keeps Q (ListAuditLog ctx n t)"
  unfolding ListAuditLog_def by (intro db_intros)

end

end
