(* ===== verification/Auth_Authn.thy ===== *)
theory Auth_Authn
  imports Auth_Common
begin

text \<open>
  The account handlers of \<open>internal/hades/server/auth/authn.go\<close>: registration, login with
  lockout, logout, email verification, password reset and password change.  Each handler is one
  definition that follows the function line by line; logging is left out.  The address that
  \<open>extractClientIP\<close> returns is the \<open>rq_client_ip\<close> of the request.
\<close>

section \<open>Requests\<close>

record register_request =
  rg_Username :: string
  rg_Email :: string
  rg_Password :: string
  rg_Description :: string

record login_request =
  lg_Username :: string
  lg_Password :: string
  lg_UserAgent :: string
  lg_header_ua :: string    \<comment> \<open>the User-Agent header\<close>

record login_response =
  lr_Token :: string
  PendingTotp :: bool

section \<open>Handlers\<close>

definition totpRequired :: "env \<Rightarrow> string \<Rightarrow> (world, bool) state" where
  "totpRequired env userID =
     (if \<not> totp_wired env then State_Monad.return False
      else do {
        r \<leftarrow> qry (\<lambda>d. totp_GetByUserID userID (totp_secrets d));
        (case r of Inl e \<Rightarrow> State_Monad.return False | Inr row \<Rightarrow> State_Monad.return (Enabled row))
      })"

definition password_too_short :: "env \<Rightarrow> err" where
  "password_too_short env =
     InvalidArgument (''password must be at least '' @ Itoa (minLen env) @ '' characters'')"

text \<open>The transaction of \<open>Register\<close>: the account, its id, and the owner role on its namespace.\<close>

definition register_tx :: "env \<Rightarrow> string \<Rightarrow> string \<Rightarrow> string \<Rightarrow> string \<Rightarrow> (world, uuid) call" where
  "register_tx env username emailAddr hashedPassword description = uow_do (do {
     c \<leftarrow> insert_row env (\<lambda>i now d. case user_Create i now username emailAddr hashedPassword
            USER_TYPE_USER USER_STATE_ACTIVE description [] (users d) of (r, t) \<Rightarrow> (r, d\<lparr>users := t\<rparr>));
     (case c of
        Inl e \<Rightarrow>
          if code_of (FromDB e) = Some CodeAlreadyExists
          then fail (AlreadyExists ''username or email is already registered'')
          else fail (FromDB e)
      | Inr _ \<Rightarrow> do {
          u \<leftarrow> qry (\<lambda>d. user_GetByUsername username (users d));
          (case u of
             Inl e \<Rightarrow> fail (FromDB e)
           | Inr user \<Rightarrow> do {
               b \<leftarrow> AddBasicRoles env username;
               (case b of Inl e \<Rightarrow> fail e | Inr _ \<Rightarrow> ok (Id user))
             })
        })
   })"

definition verification_mail :: "env \<Rightarrow> string \<Rightarrow> string \<Rightarrow> (world, unit) call" where
  "verification_mail env to raw = Send to ''Verify your email''
     (''Verify your email: https://'' @ registryHost env @ ''/verify-email/'' @ raw)"

definition email_expiry :: "env \<Rightarrow> int" where
  "email_expiry env = (if EmailTokenExpiryHours env = 0 then 24 else EmailTokenExpiryHours env)"

definition Register :: "env \<Rightarrow> request \<Rightarrow> register_request \<Rightarrow> (world, uuid) call" where
  "Register env req msg = (let username = ToLower (TrimSpace (rg_Username msg));
                               emailAddr = ToLower (TrimSpace (rg_Email msg)) in
     case ValidateName username of
       Some m \<Rightarrow> fail (InvalidArgument (''user '' @ m))
     | None \<Rightarrow>
         if emailAddr = [] then fail (InvalidArgument ''email is required'')
         else do {
           l \<leftarrow> enforceLimit env (''register:ip:'' @ rq_client_ip req) 3 Minute;
           (case l of
              Inl e \<Rightarrow> fail e
            | Inr _ \<Rightarrow>
                if int (length (rg_Password msg)) < minLen env then fail (password_too_short env)
                else do {
                  h \<leftarrow> bcryptHash env (rg_Password msg) (hashCost env);
                  (case h of
                     Inl e \<Rightarrow> fail (Internal ''failed to hash password'')
                   | Inr hashedPassword \<Rightarrow> do {
                       u \<leftarrow> register_tx env username emailAddr hashedPassword (rg_Description msg);
                       (case u of
                          Inl e \<Rightarrow> fail e
                        | Inr userID \<Rightarrow>
                            if AutoVerify env then do {
                              v \<leftarrow> upd (\<lambda>now d. d\<lparr>users := user_SetEmailVerified now userID (users d)\<rparr>);
                              (case v of Inl e \<Rightarrow> fail (FromDB e) | Inr _ \<Rightarrow> ok userID)
                            }
                            else if emailver_wired env \<and> mail_wired env then do {
                              g \<leftarrow> GenerateToken env [];
                              (case g of
                                 Inl e \<Rightarrow> ok userID
                               | Inr (raw, hash) \<Rightarrow> do {
                                   now \<leftarrow> time_Now;
                                   c \<leftarrow> insert_row env (\<lambda>i _ d. case emailver_Create i userID hash (now + email_expiry env * Hour)
                                          (email_verifications d) of (r, t) \<Rightarrow> (r, d\<lparr>email_verifications := t\<rparr>));
                                   (case c of
                                      Inl e \<Rightarrow> ok userID
                                    | Inr _ \<Rightarrow> do { _ \<leftarrow> verification_mail env emailAddr raw; ok userID })
                                 })
                            }
                            else ok userID)
                     })
                })
         })"

text \<open>\<open>Signin\<close> calls \<open>Register\<close> with a request of its own, which has no peer and no headers.\<close>

definition fresh_request :: request where
  "fresh_request = \<lparr>rq_procedure = [], rq_authorization = [], rq_peer = [], rq_client_ip = []\<rparr>"

definition Signin :: "env \<Rightarrow> request \<Rightarrow> register_request \<Rightarrow> (world, bool) call" where
  "Signin env req msg = do {
     r \<leftarrow> Register env fresh_request msg;
     (case r of Inl e \<Rightarrow> fail e | Inr _ \<Rightarrow> ok True)
   }"

text \<open>What a wrong password does: count it, and lock the account at the threshold.\<close>

definition max_attempts :: "env \<Rightarrow> int" where
  "max_attempts env = (if MaxAttempts env = 0 then 5 else MaxAttempts env)"

definition cooldown :: "env \<Rightarrow> int" where
  "cooldown env = (if CooldownMinutes env = 0 then 30 else CooldownMinutes env)"

definition login_failed :: "env \<Rightarrow> string \<Rightarrow> string \<Rightarrow> AuthFields \<Rightarrow> (world, login_response) call" where
  "login_failed env ip ua af = (let newCount = FailedLoginCount af + 1 in do {
     _ \<leftarrow> upd (\<lambda>now d. d\<lparr>users := user_IncrementFailedLogins now (af_ID af) (users d)\<rparr>);
     if newCount \<ge> max_attempts env then do {
       now \<leftarrow> time_Now;
       l \<leftarrow> upd (\<lambda>t d. d\<lparr>users := user_LockUntil t (af_ID af) (now + cooldown env * Minute) (users d)\<rparr>);
       (case l of
          Inl e \<Rightarrow> fail (Unavailable ''authentication temporarily unavailable'')
        | Inr _ \<Rightarrow> do {
            _ \<leftarrow> audit env (af_ID af) ACCOUNT_LOCKED ip ua [];
            _ \<leftarrow> audit env (af_ID af) LOGIN_FAILED ip ua [(''attempts'', Itoa newCount)];
            fail (Unauthenticated ''invalid credentials'')
          })
     }
     else do {
       _ \<leftarrow> audit env (af_ID af) LOGIN_FAILED ip ua [(''attempts'', Itoa newCount)];
       fail (Unauthenticated ''invalid credentials'')
     }
   })"

definition idle_days :: "env \<Rightarrow> int" where
  "idle_days env = (if IdleTimeoutDays env = 0 then 7 else IdleTimeoutDays env)"

definition abs_days :: "env \<Rightarrow> int" where
  "abs_days env = (if AbsoluteTimeoutDays env = 0 then 14 else AbsoluteTimeoutDays env)"

definition login_ua :: "login_request \<Rightarrow> string" where
  "login_ua msg = (if lg_UserAgent msg = [] then lg_header_ua msg else lg_UserAgent msg)"

definition Login :: "env \<Rightarrow> request \<Rightarrow> login_request \<Rightarrow> (world, login_response) call" where
  "Login env req msg = (let ip = rq_client_ip req;
                            ua = login_ua msg in do {
     l \<leftarrow> enforceLimit env (''login:ip:'' @ ip) 10 Minute;
     (case l of
        Inl e \<Rightarrow> fail e
      | Inr _ \<Rightarrow> do {
          a \<leftarrow> qry (\<lambda>d. user_GetAuthFieldsByUsername (ToLower (lg_Username msg)) (users d));
          (case a of
             Inl e \<Rightarrow> fail (Unauthenticated ''invalid credentials'')
           | Inr af \<Rightarrow> do {
               now \<leftarrow> time_Now;
               if (case LockedUntil af of None \<Rightarrow> False | Some t \<Rightarrow> now < t) then do {
                 _ \<leftarrow> audit env (af_ID af) LOGIN_FAILED ip ua [(''reason'', ''locked'')];
                 fail (PermissionDenied ''account locked'')
               }
               else if \<not> CompareHashAndPassword env (PasswordHash af) (lg_Password msg)
               then login_failed env ip ua af
               else if EmailVerifiedAt af = None then fail (PermissionDenied ''email not verified'')
               else do {
                 _ \<leftarrow> upd (\<lambda>t d. d\<lparr>users := user_ResetFailedLogins t (af_ID af) (users d)\<rparr>);
                 g \<leftarrow> GenerateToken env SessionTokenPrefix;
                 (case g of
                    Inl e \<Rightarrow> fail (Internal ''failed to generate session token'')
                  | Inr (fullToken, tokenHash) \<Rightarrow> do {
                      c \<leftarrow> insert_row env (\<lambda>i t d. case sess_CreateWithToken i t (af_ID af) ''session'' tokenHash ip ua
                             (now + idle_days env * (24 * Hour)) (now + abs_days env * (24 * Hour)) (sessions d) of
                           (r, ss) \<Rightarrow> (r, d\<lparr>sessions := ss\<rparr>));
                      (case c of
                         Inl e \<Rightarrow> fail (FromDB e)
                       | Inr _ \<Rightarrow> do {
                           _ \<leftarrow> audit env (af_ID af) LOGIN_SUCCESS ip ua [];
                           p \<leftarrow> totpRequired env (af_ID af);
                           ok \<lparr>lr_Token = fullToken, PendingTotp = p\<rparr>
                         })
                    })
               }
             })
        })
   })"

definition Logout :: "env \<Rightarrow> reqctx \<Rightarrow> (world, unit) call" where
  "Logout env ctx = (case ctx_user ctx of
     None \<Rightarrow> fail (Unauthenticated ''not authenticated'')
   | Some user \<Rightarrow> do {
       _ \<leftarrow> (if ctx_authorization ctx \<noteq> [] then do {
              r \<leftarrow> qry (\<lambda>d. sess_GetByTokenHash (HashToken (ctx_authorization ctx)) (sessions d));
              (case r of
                 Inl e \<Rightarrow> State_Monad.return ()
               | Inr session \<Rightarrow> do {
                   _ \<leftarrow> upd (\<lambda>now d. d\<lparr>sessions := sess_Revoke now (ID_s session) (sessions d)\<rparr>);
                   State_Monad.return ()
                 })
            } else State_Monad.return ());
       _ \<leftarrow> audit env (Id user) LOGOUT [] [] [];
       ok ()
     })"

definition VerifyEmail :: "env \<Rightarrow> request \<Rightarrow> string \<Rightarrow> (world, unit) call" where
  "VerifyEmail env req token =
     (if \<not> emailver_wired env then fail (Internal ''email verification not configured'')
      else do {
        l \<leftarrow> enforceLimit env (''verifyemail:ip:'' @ rq_client_ip req) 10 Minute;
        (case l of
           Inl e \<Rightarrow> fail e
         | Inr _ \<Rightarrow> do {
             r \<leftarrow> qry (\<lambda>d. emailver_GetByTokenHash (HashToken token) (email_verifications d));
             (case r of
                Inl e \<Rightarrow> fail (NotFound ''invalid or expired token'')
              | Inr row \<Rightarrow> do {
                  now \<leftarrow> time_Now;
                  if UsedAt_l row \<noteq> None then fail (InvalidArgument ''token already used'')
                  else if now > ExpiresAt_l row then fail (InvalidArgument ''token expired'')
                  else do {
                    t \<leftarrow> uow_do (do {
                      m \<leftarrow> upd (\<lambda>now d. d\<lparr>email_verifications := emailver_MarkUsed now (ID_l row) (email_verifications d)\<rparr>);
                      (case m of
                         Inl e \<Rightarrow> fail (FromDB e)
                       | Inr _ \<Rightarrow> do {
                           v \<leftarrow> upd (\<lambda>now d. d\<lparr>users := user_SetEmailVerified now (UserID_l row) (users d)\<rparr>);
                           (case v of Inl e \<Rightarrow> fail (FromDB e) | Inr _ \<Rightarrow> ok ())
                         })
                    });
                    (case t of
                       Inl e \<Rightarrow> fail e
                     | Inr _ \<Rightarrow> do { _ \<leftarrow> audit env (UserID_l row) EMAIL_VERIFIED [] [] []; ok () })
                  }
                })
           })
      })"

definition ResendVerificationEmail :: "env \<Rightarrow> reqctx \<Rightarrow> (world, unit) call" where
  "ResendVerificationEmail env ctx = (case ctx_user ctx of
     None \<Rightarrow> fail (Unauthenticated ''not authenticated'')
   | Some user \<Rightarrow> do {
       a \<leftarrow> qry (\<lambda>d. user_GetAuthFieldsByUsername (Username user) (users d));
       if (case a of Inl _ \<Rightarrow> False | Inr af \<Rightarrow> EmailVerifiedAt af \<noteq> None)
       then fail (InvalidArgument ''email is already verified'')
       else do {
         l \<leftarrow> enforceLimit env (''emailresend:user:'' @ Id user) 3 (10 * Minute);
         (case l of
            Inl e \<Rightarrow> fail e
          | Inr _ \<Rightarrow> do {
              g \<leftarrow> GenerateToken env [];
              (case g of
                 Inl e \<Rightarrow> fail (Internal ''failed to generate verification token'')
               | Inr (raw, hash) \<Rightarrow> do {
                   now \<leftarrow> time_Now;
                   _ \<leftarrow> (if emailver_wired env then do {
                          _ \<leftarrow> insert_row env (\<lambda>i _ d. case emailver_Create i (Id user) hash (now + email_expiry env * Hour)
                                 (email_verifications d) of (r, t) \<Rightarrow> (r, d\<lparr>email_verifications := t\<rparr>));
                          State_Monad.return ()
                        } else State_Monad.return ());
                   _ \<leftarrow> (if mail_wired env then do {
                          _ \<leftarrow> verification_mail env (Email user) raw; State_Monad.return ()
                        } else State_Monad.return ());
                   ok ()
                 })
            })
       }
     })"

definition reset_expiry :: "env \<Rightarrow> int" where
  "reset_expiry env = (if ResetTokenExpiryHours env = 0 then 1 else ResetTokenExpiryHours env)"

text \<open>What \<open>RequestPasswordReset\<close> does for an address that has an account.\<close>

definition issue_reset :: "env \<Rightarrow> string \<Rightarrow> string \<Rightarrow> User \<Rightarrow> (world, unit) state" where
  "issue_reset env ip email user = do {
     g \<leftarrow> GenerateToken env [];
     _ \<leftarrow> (case g of
            Inl e \<Rightarrow> State_Monad.return ()
          | Inr (raw, hash) \<Rightarrow> do {
              _ \<leftarrow> upd (\<lambda>now d. d\<lparr>password_resets := pwreset_InvalidateForUser now (Id user) (password_resets d)\<rparr>);
              now \<leftarrow> time_Now;
              c \<leftarrow> insert_row env (\<lambda>i _ d. case pwreset_Create i (Id user) hash (now + reset_expiry env * Hour)
                     (password_resets d) of (r, t) \<Rightarrow> (r, d\<lparr>password_resets := t\<rparr>));
              (case c of
                 Inl e \<Rightarrow> State_Monad.return ()
               | Inr _ \<Rightarrow> do {
                   _ \<leftarrow> Send email ''Reset your password''
                     (''Reset your password: https://'' @ registryHost env @ ''/reset-password/'' @ raw
                        @ '' (expires in '' @ Itoa (reset_expiry env) @ '' hour(s))'');
                   State_Monad.return ()
                 })
            });
     audit env (Id user) PASSWORD_RESET ip [] []
   }"

definition RequestPasswordReset :: "env \<Rightarrow> request \<Rightarrow> string \<Rightarrow> (world, unit) call" where
  "RequestPasswordReset env req email = (let ip = rq_client_ip req in do {
     l \<leftarrow> enforceLimit env (''pwreset:ip:'' @ ip) 3 Minute;
     (case l of
        Inl e \<Rightarrow> fail e
      | Inr _ \<Rightarrow> do {
          u \<leftarrow> qry (\<lambda>d. user_GetByEmail (ToLower email) (users d));
          (case u of
             Inl e \<Rightarrow> ok ()
           | Inr user \<Rightarrow>
               if pwreset_wired env \<and> mail_wired env
               then do { _ \<leftarrow> issue_reset env ip email user; ok () }
               else ok ())
        })
   })"

definition sessions_survive :: err where
  "sessions_survive = Unavailable ''password was changed but existing sessions could not be revoked; revoke them manually''"

text \<open>The transaction of \<open>ResetPassword\<close>: consume the token, set the password, clear the lockout.\<close>

definition reset_tx :: "LinkRow \<Rightarrow> string \<Rightarrow> (world, unit) call" where
  "reset_tx row newHash = uow_do (do {
     m \<leftarrow> upd (\<lambda>now d. d\<lparr>password_resets := pwreset_MarkUsed now (ID_l row) (password_resets d)\<rparr>);
     (case m of
        Inl e \<Rightarrow> fail (FromDB e)
      | Inr _ \<Rightarrow> do {
          u \<leftarrow> upd (\<lambda>now d. d\<lparr>users := user_UpdatePassword now (UserID_l row) newHash (users d)\<rparr>);
          (case u of
             Inl e \<Rightarrow> fail (FromDB e)
           | Inr _ \<Rightarrow> do {
               f \<leftarrow> upd (\<lambda>now d. d\<lparr>users := user_ResetFailedLogins now (UserID_l row) (users d)\<rparr>);
               (case f of Inl e \<Rightarrow> fail (FromDB e) | Inr _ \<Rightarrow> ok ())
             })
        })
   })"

definition ResetPassword :: "env \<Rightarrow> request \<Rightarrow> string \<Rightarrow> string \<Rightarrow> (world, unit) call" where
  "ResetPassword env req token newPassword = do {
     l \<leftarrow> enforceLimit env (''resetpw:ip:'' @ rq_client_ip req) 10 Minute;
     (case l of
        Inl e \<Rightarrow> fail e
      | Inr _ \<Rightarrow>
          if \<not> pwreset_wired env then fail (Internal ''password reset not configured'')
          else if int (length newPassword) < minLen env then fail (password_too_short env)
          else do {
            r \<leftarrow> qry (\<lambda>d. pwreset_GetByTokenHash (HashToken token) (password_resets d));
            (case r of
               Inl e \<Rightarrow> fail (NotFound ''invalid or expired token'')
             | Inr row \<Rightarrow> do {
                 now \<leftarrow> time_Now;
                 if UsedAt_l row \<noteq> None then fail (InvalidArgument ''token already used'')
                 else if now > ExpiresAt_l row then fail (InvalidArgument ''token expired'')
                 else do {
                   h \<leftarrow> bcryptHash env newPassword (hashCost env);
                   (case h of
                      Inl e \<Rightarrow> fail (Internal ''failed to hash password'')
                    | Inr newHash \<Rightarrow> do {
                        t \<leftarrow> reset_tx row newHash;
                        (case t of
                           Inl e \<Rightarrow> fail e
                         | Inr _ \<Rightarrow> do {
                             s \<leftarrow> upd (\<lambda>now d. d\<lparr>sessions := sess_RevokeAllForUser now (UserID_l row) NilUUID (sessions d)\<rparr>);
                             (case s of
                                Inl e \<Rightarrow> fail sessions_survive
                              | Inr _ \<Rightarrow> do { _ \<leftarrow> audit env (UserID_l row) PASSWORD_CHANGED [] [] []; ok () })
                           })
                      })
                 }
               })
          })
   }"

definition ChangePassword :: "env \<Rightarrow> reqctx \<Rightarrow> string \<Rightarrow> string \<Rightarrow> (world, unit) call" where
  "ChangePassword env ctx oldPassword newPassword = (case ctx_user ctx of
     None \<Rightarrow> fail (Unauthenticated ''not authenticated'')
   | Some user \<Rightarrow> do {
       a \<leftarrow> qry (\<lambda>d. user_GetAuthFieldsByUsername (ToLower (Username user)) (users d));
       (case a of
          Inl e \<Rightarrow> fail (FromDB e)
        | Inr af \<Rightarrow>
            if \<not> CompareHashAndPassword env (PasswordHash af) oldPassword then fail (Unauthenticated ''invalid password'')
            else if int (length newPassword) < minLen env then fail (password_too_short env)
            else do {
              h \<leftarrow> bcryptHash env newPassword (hashCost env);
              (case h of
                 Inl e \<Rightarrow> fail (Internal ''failed to hash password'')
               | Inr newHash \<Rightarrow> do {
                   u \<leftarrow> upd (\<lambda>now d. d\<lparr>users := user_UpdatePassword now (Id user) newHash (users d)\<rparr>);
                   (case u of
                      Inl e \<Rightarrow> fail (FromDB e)
                    | Inr _ \<Rightarrow> do {
                        s \<leftarrow> upd (\<lambda>now d. d\<lparr>sessions := sess_RevokeAllForUser now (Id user) NilUUID (sessions d)\<rparr>);
                        (case s of
                           Inl e \<Rightarrow> fail sessions_survive
                         | Inr _ \<Rightarrow> do {
                             _ \<leftarrow> (if mail_wired env then do {
                                    _ \<leftarrow> Send (Email user) ''Password changed''
                                      ''Your account password was changed. If this wasn't you, please contact support.'';
                                    State_Monad.return ()
                                  } else State_Monad.return ());
                             _ \<leftarrow> audit env (Id user) PASSWORD_CHANGED [] [] [];
                             ok ()
                           })
                      })
                 })
            })
     })"


section \<open>What no account handler undoes\<close>

context credential_fact
begin

lemma totpRequired_keeps [db_intros]: "db_keeps Q (totpRequired env u)"
  unfolding totpRequired_def by (intro db_intros)

lemma Register_keeps [db_intros]: "db_keeps Q (Register env req rm)"
  unfolding Register_def register_tx_def verification_mail_def Let_def by (intro db_intros)

lemma Signin_keeps [db_intros]: "db_keeps Q (Signin env req rm)"
  unfolding Signin_def by (intro db_intros)

lemma Login_keeps [db_intros]: "db_keeps Q (Login env req lm)"
  unfolding Login_def login_failed_def Let_def by (intro db_intros)

lemma Logout_keeps [db_intros]: "db_keeps Q (Logout env ctx)"
  unfolding Logout_def by (intro db_intros)

lemma VerifyEmail_keeps [db_intros]: "db_keeps Q (VerifyEmail env req tok)"
  unfolding VerifyEmail_def by (intro db_intros)

lemma ResendVerificationEmail_keeps [db_intros]: "db_keeps Q (ResendVerificationEmail env ctx)"
  unfolding ResendVerificationEmail_def verification_mail_def by (intro db_intros)

lemma RequestPasswordReset_keeps [db_intros]: "db_keeps Q (RequestPasswordReset env req em)"
  unfolding RequestPasswordReset_def issue_reset_def Let_def by (intro db_intros)

lemma ResetPassword_keeps [db_intros]: "db_keeps Q (ResetPassword env req tok pw)"
  unfolding ResetPassword_def reset_tx_def by (intro db_intros)

lemma ChangePassword_keeps [db_intros]: "db_keeps Q (ChangePassword env ctx old new)"
  unfolding ChangePassword_def by (intro db_intros)

end

section \<open>Branches of the account handlers\<close>

lemma totpRequired_after [wp_after]:
  "(\<And>b w'. after w (dbs w) w' \<Longrightarrow> Q b w') \<Longrightarrow> wp (totpRequired env u) Q w"
  unfolding totpRequired_def by (intro wp_first wp_after) (auto simp: after_simps)

end
