(* ===== verification/Account_Facts.thy ===== *)
theory Account_Facts
  imports Auth_Authn
begin

text \<open>
  What the account handlers of \<open>Auth_Authn\<close> guarantee: logging in, the lockout, registration and the
  password changes.  The lemmas named \<open>_effect\<close> describe a handler on every branch, under every
  pattern of failures; those named \<open>_complete\<close> say that a request nothing speaks against succeeds.
\<close>

section \<open>Logging in\<close>

lemma login_failed_refuses: "(\<And>e w'. Q (Inl e) w') \<Longrightarrow> wp (login_failed env ip ua af) Q w"
  unfolding login_failed_def Let_def by (intro wp_first wp_after) blast+


text \<open>The row a login adds.\<close>

definition issued_session :: "env \<Rightarrow> string \<Rightarrow> time \<Rightarrow> request \<Rightarrow> login_request \<Rightarrow> AuthFields \<Rightarrow> string \<Rightarrow> session_row" where
  "issued_session env i now req msg af token = \<lparr>
     ss_id = i, ss_user_id = ID (af_ID af), ss_auth_module = ''session'',
     ss_token_hash = Some (HashToken token), ss_ip_address = Some (rq_client_ip req), ss_user_agent = Some (login_ua msg),
     ss_create_time = datetime now, ss_last_activity_at = Some (datetime now),
     ss_absolute_expires_at = Some (now + abs_days env * (24 * Hour)), ss_expires_at = now + idle_days env * (24 * Hour),
     ss_revoked_at = None, ss_totp_verified = False\<rparr>"

lemma session_created:
  "(case sess_CreateWithToken i now u m h ip ua e a (sessions d) of (r, ss) \<Rightarrow> (r, d\<lparr>sessions := ss\<rparr>)) = (Inr x, d') \<Longrightarrow>
   i \<notin> ss_id ` set (sessions d) \<and> d' = d\<lparr>sessions := sessions d @ [\<lparr>
        ss_id = i, ss_user_id = ID u, ss_auth_module = m,
        ss_token_hash = Some h, ss_ip_address = Some ip, ss_user_agent = Some ua,
        ss_create_time = datetime now, ss_last_activity_at = Some (datetime now),
        ss_absolute_expires_at = Some a, ss_expires_at = e,
        ss_revoked_at = None, ss_totp_verified = False\<rparr>]\<rparr>"
  by (auto simp: sess_CreateWithToken_def split: if_splits)

text \<open>The account a login may be granted for.\<close>

definition may_login :: "env \<Rightarrow> db \<Rightarrow> time \<Rightarrow> login_request \<Rightarrow> AuthFields \<Rightarrow> bool" where
  "may_login env d now msg af \<longleftrightarrow>
     user_GetAuthFieldsByUsername (ToLower (lg_Username msg)) (users d) = Inr af
     \<and> CompareHashAndPassword env (PasswordHash af) (lg_Password msg)
     \<and> EmailVerifiedAt af \<noteq> None \<and> (\<forall>t. LockedUntil af = Some t \<longrightarrow> t \<le> now)"

lemma Login_sound:
  "wp (Login env req msg) (\<lambda>r w'. \<forall>resp. r = Inr resp \<longrightarrow>
     (\<exists>af i. may_login env (dbs w) (clock w) msg af \<and> i \<notin> ss_id ` set (sessions (dbs w))
       \<and> sessions (dbs w') = sessions (dbs w) @ [issued_session env i (clock w) req msg af (lr_Token resp)]
       \<and> HasPrefix (lr_Token resp) SessionTokenPrefix)) w"
  unfolding Login_def Let_def
  by (intro wp_first wp_after login_failed_refuses)
    (auto simp: after_def may_login_def issued_session_def SessionTokenPrefix_def split: option.splits dest!: session_created)

text \<open>Logging in with a wrong password, without faults: either the password is evaluated, and the
  failure counted, or the attempt is refused before that and the accounts stay as they were.\<close>

abbreviation bad_credentials :: "login_response res" where
  "bad_credentials \<equiv> Inl (Unauthenticated ''invalid credentials'')"

definition after_failure :: "env \<Rightarrow> time \<Rightarrow> AuthFields \<Rightarrow> user_row list \<Rightarrow> user_row list" where
  "after_failure env now af us = (let us' = user_IncrementFailedLogins now (af_ID af) us in
     if FailedLoginCount af + 1 \<ge> max_attempts env
     then user_LockUntil now (af_ID af) (now + cooldown env * Minute) us' else us')"

lemma Login_wrong_password:
  assumes "user_GetAuthFieldsByUsername (ToLower (lg_Username msg)) (users (dbs w)) = Inr af"
    and "\<not> CompareHashAndPassword env (PasswordHash af) (lg_Password msg)" and "faults w = []"
  shows "wp (Login env req msg) (\<lambda>r w'. faults w' = [] \<and>
     (if r = bad_credentials
      then (\<forall>t. LockedUntil af = Some t \<longrightarrow> t \<le> clock w) \<and> users (dbs w') = after_failure env (clock w) af (users (dbs w))
      else users (dbs w') = users (dbs w))) w"
  unfolding Login_def login_failed_def Let_def
  by (intro wp_first wp_after)
    (use assms in \<open>auto simp: after_def conn_ctor_defs after_failure_def Let_def split: option.splits\<close>)

lemma auth_fields_update:
  assumes "user_keys us" and "user_GetAuthFieldsByUsername u us = Inr af"
    and "\<And>r. us_username (f r) = us_username r"
    and "\<And>r. scan_auth (f r) = g (scan_auth r)"
  shows "user_GetAuthFieldsByUsername u (update_where (\<lambda>r. us_id r = ID (af_ID af)) f us) = Inr (g af)"
proof -
  obtain r where r: "find (\<lambda>r. us_username r = u) us = Some r" "af = scan_auth r"
    using assms(2) by (auto simp: user_GetAuthFieldsByUsername_def query_row_Inr)
  have "ID (af_ID af) = us_id r"
    using find_Some_in [OF r(1)] assms(1) r(2) by (simp add: scan_auth_def user_keys_def ID_Canonical)
  with r assms(3,4) show ?thesis
    by (simp add: user_GetAuthFieldsByUsername_def query_row_def find_update_where)
qed

lemma user_keys_updates:
  "user_keys us \<Longrightarrow> user_keys (user_IncrementFailedLogins now u us)"
  "user_keys us \<Longrightarrow> user_keys (user_ResetFailedLogins now u us)"
  "user_keys us \<Longrightarrow> user_keys (user_LockUntil now u t us)"
  "user_keys us \<Longrightarrow> user_keys (user_SetEmailVerified now u us)"
  "user_keys us \<Longrightarrow> user_keys (user_UpdatePassword now u h us)"
  unfolding user_update_defs by (rule user_keys_update; simp)+

lemma after_failure_fields:
  assumes "user_keys us" and "user_GetAuthFieldsByUsername u us = Inr af"
  shows "user_GetAuthFieldsByUsername u (after_failure env now af us) = Inr
     (if FailedLoginCount af + 1 \<ge> max_attempts env
      then af\<lparr>FailedLoginCount := FailedLoginCount af + 1, LockedUntil := Some (now + cooldown env * Minute)\<rparr>
      else af\<lparr>FailedLoginCount := FailedLoginCount af + 1\<rparr>)"
    and "user_keys (after_failure env now af us)"
proof -
  let ?af = "af\<lparr>FailedLoginCount := FailedLoginCount af + 1\<rparr>"
  have inc: "user_GetAuthFieldsByUsername u (user_IncrementFailedLogins now (af_ID af) us) = Inr ?af"
    unfolding user_IncrementFailedLogins_def
    using auth_fields_update [OF assms, of _ "\<lambda>a. a\<lparr>FailedLoginCount := FailedLoginCount a + 1\<rparr>"]
    by (simp add: scan_auth_def)
  have "user_GetAuthFieldsByUsername u (user_LockUntil now (af_ID ?af) t (user_IncrementFailedLogins now (af_ID af) us))
      = Inr (?af\<lparr>LockedUntil := Some t\<rparr>)" for t
    unfolding user_LockUntil_def
    using auth_fields_update [OF user_keys_updates(1) [OF assms(1)] inc, of _ "\<lambda>a. a\<lparr>LockedUntil := Some t\<rparr>"]
    by (simp add: scan_auth_def)
  with inc show "user_GetAuthFieldsByUsername u (after_failure env now af us) = Inr
     (if FailedLoginCount af + 1 \<ge> max_attempts env
      then af\<lparr>FailedLoginCount := FailedLoginCount af + 1, LockedUntil := Some (now + cooldown env * Minute)\<rparr>
      else af\<lparr>FailedLoginCount := FailedLoginCount af + 1\<rparr>)"
    by (simp add: after_failure_def Let_def)
  show "user_keys (after_failure env now af us)"
    using assms(1) by (simp add: after_failure_def Let_def user_keys_updates)
qed

text \<open>A sequence of login attempts at given times, and the answers they get.\<close>

fun login_run :: "env \<Rightarrow> (time \<times> request \<times> login_request) list \<Rightarrow> world \<Rightarrow> login_response res list" where
  "login_run env [] w = []"
| "login_run env ((t, req, msg) # as) w = (case run (Login env req msg) (w\<lparr>clock := t\<rparr>) of
     (r, w') \<Rightarrow> r # login_run env as w')"

definition guess_of :: "env \<Rightarrow> string \<Rightarrow> string \<Rightarrow> time \<Rightarrow> time \<times> request \<times> login_request \<Rightarrow> bool" where
  "guess_of env uname hash t0 a = (case a of (t, req, msg) \<Rightarrow>
     ToLower (lg_Username msg) = uname \<and> \<not> CompareHashAndPassword env hash (lg_Password msg)
     \<and> t0 \<le> t \<and> t < t0 + cooldown env * Minute)"

definition evaluated :: "login_response res list \<Rightarrow> nat" where
  "evaluated rs = length (filter (\<lambda>r. r = bad_credentials) rs)"

lemma evaluated_bound:
  assumes "user_keys (users (dbs w))" and "user_GetAuthFieldsByUsername uname (users (dbs w)) = Inr af"
    and "faults w = []" and "\<forall>a \<in> set as. guess_of env uname (PasswordHash af) t0 a"
  shows "evaluated (login_run env as w) \<le>
     (if \<exists>u. LockedUntil af = Some u \<and> t0 + cooldown env * Minute \<le> u then 0
      else nat (max 1 (max_attempts env - FailedLoginCount af)))"
  using assms
proof (induction as arbitrary: w af)
  case Nil
  then show ?case by (simp add: evaluated_def)
next
  case (Cons a as)
  obtain t req msg where a: "a = (t, req, msg)" by (cases a)
  let ?w = "w\<lparr>clock := t\<rparr>"
  have g: "ToLower (lg_Username msg) = uname" "\<not> CompareHashAndPassword env (PasswordHash af) (lg_Password msg)"
    "t0 \<le> t" "t < t0 + cooldown env * Minute" and rest: "\<forall>a \<in> set as. guess_of env uname (PasswordHash af) t0 a"
    using Cons.prems(4) by (auto simp: a guess_of_def)
  obtain r w' where run: "run (Login env req msg) ?w = (r, w')" by fastforce
  have step: "faults w' = [] \<and> (if r = bad_credentials
      then (\<forall>u. LockedUntil af = Some u \<longrightarrow> u \<le> t) \<and> users (dbs w') = after_failure env t af (users (dbs w))
      else users (dbs w') = users (dbs w))"
    using wp_run [OF Login_wrong_password run] Cons.prems(2,3) g(1,2) by (auto split: if_splits)
  show ?case
  proof (cases "r = bad_credentials")
    case False
    with step Cons.prems(1,2) Cons.IH [of w' af] rest show ?thesis by (simp add: a run evaluated_def)
  next
    case True
    let ?af = "af\<lparr>FailedLoginCount := FailedLoginCount af + 1\<rparr>"
    let ?rest = "evaluated (login_run env as w')"
    note keep = after_failure_fields [OF Cons.prems(1,2), of env t]
    have unlocked: "\<not> (\<exists>u. LockedUntil af = Some u \<and> t0 + cooldown env * Minute \<le> u)"
      using True step g(4) by fastforce
    have us: "users (dbs w') = after_failure env t af (users (dbs w))" and f: "faults w' = []"
      using True step by simp_all
    have "Suc ?rest \<le> nat (max 1 (max_attempts env - FailedLoginCount af))"
    proof (cases "FailedLoginCount af + 1 \<ge> max_attempts env")
      case locked: True
      have "?rest \<le> 0"
        using Cons.IH [of w' "?af\<lparr>LockedUntil := Some (t + cooldown env * Minute)\<rparr>"] us f keep locked rest g(3) by simp
      then show ?thesis by simp
    next
      case False
      have "?rest \<le> nat (max 1 (max_attempts env - (FailedLoginCount af + 1)))"
        using Cons.IH [of w' ?af] us f keep False rest unlocked by (simp split: if_splits)
      with False show ?thesis by simp
    qed
    with True unlocked show ?thesis by (simp add: a run evaluated_def)
  qed
qed

lemma Login_complete:
  assumes "may_login env (dbs w) (clock w) msg af" and "limiter_admits env (''login:ip:'' @ rq_client_ip req) 10 Minute w"
    and "\<forall>n. new_id env n \<notin> ss_id ` set (sessions (dbs w))"
  shows "wp (Login env req msg) (\<lambda>r w'. \<exists>resp. r = Inr resp) w"
proof -
  have f: "faults w = []" using assms(2) by (simp add: limiter_admits_def)
  show ?thesis
    unfolding Login_def Let_def
    by (intro wp_first wp_after login_failed_refuses)
      (use assms f in \<open>auto simp: after_def may_login_def sess_CreateWithToken_def split: option.splits if_splits\<close>)
qed

lemma AddBasicRoles_after [wp_after]:
  assumes "\<And>e w' d. d = dbs w \<or> (\<exists>n. d = (dbs w)\<lparr>role_bindings := binding_Create (new_id env n) (clock w) u RoleOwner (u @ ''/*'') (role_bindings (dbs w))\<rparr>)
       \<Longrightarrow> faults w \<noteq> [] \<Longrightarrow> after w d w' \<Longrightarrow> Q (Inl (fault_err e)) w'"
    and "\<And>n w'. after w ((dbs w)\<lparr>role_bindings := binding_Create (new_id env n) (clock w) u RoleOwner (u @ ''/*'') (role_bindings (dbs w))\<rparr>) w'
       \<Longrightarrow> Q (Inr ()) w'"
  shows "wp (AddBasicRoles env u) Q w"
proof -
  have del: "wp (cache_Delete k) Q v" if "after w ((dbs w)\<lparr>role_bindings := binding_Create (new_id env n) (clock w) u RoleOwner (u @ ''/*'') (role_bindings (dbs w))\<rparr>) v" for v k n
    unfolding cache_Delete_def
    by (rule wp_io_after) (use that assms in \<open>auto simp: after_def\<close>)
  show ?thesis
    unfolding AddBasicRoles_def engine_AddBinding_def
    by (intro wp_first wp_after del) (use assms in auto)
qed


text \<open>The account and the role binding of a registration.\<close>

definition registered :: "register_request \<Rightarrow> string \<Rightarrow> time \<Rightarrow> string \<Rightarrow> user_row" where
  "registered msg i now hash = new_user i now (ToLower (TrimSpace (rg_Username msg))) (ToLower (TrimSpace (rg_Email msg)))
     hash USER_TYPE_USER USER_STATE_ACTIVE (rg_Description msg) []"

definition own_namespace :: "string \<Rightarrow> time \<Rightarrow> string \<Rightarrow> binding_row list \<Rightarrow> binding_row list" where
  "own_namespace j now u bs = binding_Create j now u RoleOwner (u @ ''/*'') bs"

lemma account_created:
  "(case user_Create i now u em pw ty st de url (users d) of (r, t) \<Rightarrow> (r, d\<lparr>users := t\<rparr>)) = (Inr x, d') \<Longrightarrow>
   i \<notin> us_id ` set (users d) \<and> u \<notin> us_username ` set (users d)
   \<and> d' = d\<lparr>users := users d @ [new_user i now u em pw ty st de url]\<rparr>"
  by (auto simp: user_Create_def split: if_splits)

text \<open>No call fails and neither the keys, the name nor the address are taken.\<close>

definition account_free :: "env \<Rightarrow> world \<Rightarrow> string \<Rightarrow> string \<Rightarrow> bool" where
  "account_free env w u em \<longleftrightarrow> faults w = [] \<and> (\<forall>n. new_id env n \<notin> us_id ` set (users (dbs w)))
     \<and> u \<notin> us_username ` set (users (dbs w)) \<and> em \<notin> us_email ` set (users (dbs w))"

lemma account_refused:
  "(case user_Create i now u em pw ty st de url (users d) of (r, t) \<Rightarrow> (r, d\<lparr>users := t\<rparr>)) = (Inl e, d') \<Longrightarrow>
   i \<in> us_id ` set (users d) \<or> u \<in> us_username ` set (users d) \<or> em \<in> us_email ` set (users d)"
  by (auto simp: user_Create_def split: if_splits)

lemma register_tx_after:
  assumes err: "\<And>e w'. \<not> account_free env w u em \<Longrightarrow> after w (dbs w) w' \<Longrightarrow> Q (Inl e) w'"
    and yes: "\<And>n m w'. new_id env n \<notin> us_id ` set (users (dbs w)) \<Longrightarrow> u \<notin> us_username ` set (users (dbs w)) \<Longrightarrow>
        after w ((dbs w)\<lparr>users := users (dbs w) @ [new_user (new_id env n) (clock w) u em h USER_TYPE_USER USER_STATE_ACTIVE de []],
          role_bindings := own_namespace (new_id env m) (clock w) u (role_bindings (dbs w))\<rparr>) w' \<Longrightarrow>
        Q (Inr (Canonical (new_id env n))) w'"
  shows "wp (register_tx env u em h de) Q w"
proof -
  have yes': "Q (Inr (Id user)) w'"
    if "new_id env n \<notin> us_id ` set (users (dbs w))" "u \<notin> us_username ` set (users (dbs w))"
      "user_GetByUsername u (users (dbs w) @ [new_user (new_id env n) (clock w) u em h USER_TYPE_USER USER_STATE_ACTIVE de []]) = Inr user"
      "dbs w' = (dbs w)\<lparr>users := users (dbs w) @ [new_user (new_id env n) (clock w) u em h USER_TYPE_USER USER_STATE_ACTIVE de []],
        role_bindings := binding_Create (new_id env m) (clock w) u RoleOwner (u @ ''/*'') (role_bindings (dbs w))\<rparr>"
      "repos w' = repos w" "clock w' = clock w" "faults w = [] \<longrightarrow> faults w' = []" for n m user w'
    using yes [OF that(1,2), of m w'] that(3-) new_user_found [OF that(2)] by (auto simp: after_def own_namespace_def)
  have faulty: "Q (Inl e) w'" if "faults w \<noteq> []" "dbs w' = dbs w" "repos w' = repos w" "clock w' = clock w" for e w'
    using err [of w'] that by (simp add: after_def account_free_def)
  have taken: "Q (Inl e) w'" if "dbs w' = dbs w" "repos w' = repos w" "clock w' = clock w" "faults w = [] \<longrightarrow> faults w' = []"
      "new_id env n \<in> us_id ` set (users (dbs w)) \<or> u \<in> us_username ` set (users (dbs w)) \<or> em \<in> us_email ` set (users (dbs w))" for e w' n
    by (rule err) (use that in \<open>auto simp: after_def account_free_def\<close>)
  show ?thesis
    unfolding register_tx_def
    by (intro wp_first wp_after; simp add: after_def faulty)
      (auto simp: new_user_found intro: yes' faulty taken dest!: account_created account_refused)
qed

text \<open>A registration that the server has no reason to refuse.\<close>

definition may_register :: "env \<Rightarrow> world \<Rightarrow> request \<Rightarrow> register_request \<Rightarrow> bool" where
  "may_register env w req msg \<longleftrightarrow> (let u = ToLower (TrimSpace (rg_Username msg)); em = ToLower (TrimSpace (rg_Email msg)) in
     ValidateName u = None \<and> em \<noteq> [] \<and> minLen env \<le> int (length (rg_Password msg)) \<and> account_free env w u em
     \<and> limiter_admits env (''register:ip:'' @ rq_client_ip req) 3 Minute w
     \<and> (\<forall>salt. \<exists>h. GenerateFromPassword env (rg_Password msg) (hashCost env) salt = Inr h))"

lemma Register_effect:
  "wp (Register env req msg) (\<lambda>r w'. let u = ToLower (TrimSpace (rg_Username msg)) in
     (\<forall>uid. r = Inr uid \<longrightarrow> ValidateName u = None \<and> minLen env \<le> int (length (rg_Password msg)) \<and> (\<exists>n m salt hash.
        GenerateFromPassword env (rg_Password msg) (hashCost env) salt = Inr hash
        \<and> u \<notin> us_username ` set (users (dbs w)) \<and> new_id env n \<notin> us_id ` set (users (dbs w))
        \<and> uid = Canonical (new_id env n)
        \<and> users (dbs w') = (let us = users (dbs w) @ [registered msg (new_id env n) (clock w) hash] in
             if AutoVerify env then user_SetEmailVerified (clock w) uid us else us)
        \<and> role_bindings (dbs w') = own_namespace (new_id env m) (clock w) u (role_bindings (dbs w))))
     \<and> ((\<exists>e. r = Inl e) \<and> \<not> AutoVerify env \<longrightarrow> dbs w' = dbs w)
     \<and> sessions (dbs w') = sessions (dbs w) \<and> api_tokens (dbs w') = api_tokens (dbs w) \<and> clock w' = clock w) w"
  unfolding Register_def Let_def verification_mail_def
  by (intro wp_first wp_after register_tx_after)
    (auto simp: after_def registered_def case_prod_beta)

section \<open>Passwords\<close>

text \<open>Every session of the user is revoked.\<close>

definition all_revoked :: "string \<Rightarrow> session_row list \<Rightarrow> bool" where
  "all_revoked u ss \<longleftrightarrow> (\<forall>s \<in> set ss. ss_user_id s = ID u \<and> ss_id s \<noteq> UUID NilUUID \<longrightarrow> ss_revoked_at s \<noteq> None)"

lemma RevokeAll_all_revoked: "all_revoked u (sess_RevokeAllForUser now u NilUUID ss)"
  by (auto simp: all_revoked_def sess_RevokeAllForUser_def ball_update_where)

text \<open>What a password change writes.\<close>

definition reset_users :: "time \<Rightarrow> LinkRow \<Rightarrow> string \<Rightarrow> user_row list \<Rightarrow> user_row list" where
  "reset_users now row h us = user_ResetFailedLogins now (UserID_l row) (user_UpdatePassword now (UserID_l row) h us)"

definition usable_link :: "string \<Rightarrow> time \<Rightarrow> link_row list \<Rightarrow> LinkRow \<Rightarrow> bool" where
  "usable_link token now t row \<longleftrightarrow> pwreset_GetByTokenHash (HashToken token) t = Inr row
     \<and> UsedAt_l row = None \<and> now \<le> ExpiresAt_l row"

lemma FromDB_fault [simp]: "FromDB (fault_err e) \<noteq> ConnErr CodeUnavailable m" "FromDB ErrNoRows \<noteq> ConnErr CodeUnavailable m"
  by (cases e; simp add: FromDB_def fault_err_def isSQLiteUniqueViolation_def isSQLiteForeignKeyViolation_def)
    (simp add: FromDB_def)

lemma survive_distinct [simp]:
  "InvalidArgument m \<noteq> sessions_survive" "NotFound m \<noteq> sessions_survive" "Internal m \<noteq> sessions_survive"
  "Unauthenticated m \<noteq> sessions_survive" "ResourceExhausted m \<noteq> sessions_survive"
  "FromDB (fault_err e) \<noteq> sessions_survive" "FromDB ErrNoRows \<noteq> sessions_survive" "fault_err e \<noteq> sessions_survive"
  "Unavailable ''rate limiter unavailable'' \<noteq> sessions_survive" "password_too_short env \<noteq> sessions_survive"
  by (simp_all add: sessions_survive_def conn_ctor_defs password_too_short_def)

lemmas survive_distinct' [simp] = survive_distinct [THEN not_sym]

lemma auth_fields_missing: "user_GetAuthFieldsByUsername u t = Inl e \<Longrightarrow> e = ErrNoRows"
  by (simp add: user_GetAuthFieldsByUsername_def query_row_Inl)

lemma reset_tx_after:
  assumes err: "\<And>e w'. faults w \<noteq> [] \<Longrightarrow> e \<noteq> sessions_survive \<Longrightarrow> after w (dbs w) w' \<Longrightarrow> Q (Inl e) w'"
    and yes: "\<And>w'. after w ((dbs w)\<lparr>password_resets := pwreset_MarkUsed (clock w) (ID_l row) (password_resets (dbs w)),
       users := reset_users (clock w) row h (users (dbs w))\<rparr>) w' \<Longrightarrow> Q (Inr ()) w'"
  shows "wp (reset_tx row h) Q w"
  unfolding reset_tx_def
  by (intro wp_first wp_after; simp add: after_def)
    (auto simp: reset_users_def intro: err [unfolded after_def] yes [unfolded after_def reset_users_def])

lemma ResetPassword_effect:
  "wp (ResetPassword env req token new) (\<lambda>r w'.
     (if r = Inr () \<or> r = Inl sessions_survive
      then (\<exists>row salt h. usable_link token (clock w) (password_resets (dbs w)) row
        \<and> minLen env \<le> int (length new) \<and> GenerateFromPassword env new (hashCost env) salt = Inr h
        \<and> users (dbs w') = reset_users (clock w) row h (users (dbs w))
        \<and> password_resets (dbs w') = pwreset_MarkUsed (clock w) (ID_l row) (password_resets (dbs w))
        \<and> (if r = Inr () then all_revoked (UserID_l row) (sessions (dbs w')) else sessions (dbs w') = sessions (dbs w)))
      else dbs w' = dbs w)
     \<and> (faults w = [] \<longrightarrow> r \<noteq> Inl sessions_survive)) w"
  unfolding ResetPassword_def
  by (intro wp_first reset_tx_after wp_after; simp add: after_def)
    (fastforce simp: usable_link_def RevokeAll_all_revoked)+

lemma ChangePassword_effect:
  assumes "ctx_user ctx = Some user"
  shows "wp (ChangePassword env ctx old new) (\<lambda>r w'.
     (if r = Inr () \<or> r = Inl sessions_survive
      then (\<exists>af salt h. user_GetAuthFieldsByUsername (ToLower (Username user)) (users (dbs w)) = Inr af
        \<and> CompareHashAndPassword env (PasswordHash af) old
        \<and> minLen env \<le> int (length new) \<and> GenerateFromPassword env new (hashCost env) salt = Inr h
        \<and> users (dbs w') = user_UpdatePassword (clock w) (Id user) h (users (dbs w))
        \<and> (if r = Inr () then all_revoked (Id user) (sessions (dbs w')) else sessions (dbs w') = sessions (dbs w)))
      else dbs w' = dbs w)
     \<and> (faults w = [] \<longrightarrow> r \<noteq> Inl sessions_survive)) w"
  unfolding ChangePassword_def assms option.case
  by (intro wp_first wp_after)
   (auto simp: after_def RevokeAll_all_revoked dest!: auth_fields_missing)


text \<open>What follows the limiter answers alike for every address.\<close>

lemma wp_always:
  "(\<And>w. wp m (\<lambda>r w'. P r) w) \<Longrightarrow> P (fst (run m w))"
  by (simp add: wp_run_iff)


lemma RequestPasswordReset_limiter:
  "fst (run (RequestPasswordReset env req em) w) = fst (run (enforceLimit env (''pwreset:ip:'' @ rq_client_ip req) 3 Minute) w)"
proof -
  have rest: "fst (run (State_Monad.bind (qry f) (\<lambda>u. case u of Inl e \<Rightarrow> ok () | Inr user \<Rightarrow>
       if c then do { _ \<leftarrow> issue_reset env ip em user; ok () } else ok ())) v) = Inr ()" for f v c ip
    unfolding issue_reset_def by (rule wp_always) (intro wp_first wp_after; simp)
  show ?thesis
    unfolding RequestPasswordReset_def Let_def using rest by (auto split: prod.splits sum.splits)
qed

lemma Register_complete:
  assumes "may_register env w req msg"
  shows "wp (Register env req msg) (\<lambda>r w'. (\<exists>uid. r = Inr uid) \<and> faults w' = []) w"
proof -
  have f: "faults w = []" and l: "limiter_admits env (''register:ip:'' @ rq_client_ip req) 3 Minute w"
    using assms by (auto simp: may_register_def account_free_def Let_def)
  have name: "ValidateName (ToLower (TrimSpace (rg_Username msg))) = None"
    and mail: "ToLower (TrimSpace (rg_Email msg)) \<noteq> []" and pw: "minLen env \<le> int (length (rg_Password msg))"
    and free: "account_free env w (ToLower (TrimSpace (rg_Username msg))) (ToLower (TrimSpace (rg_Email msg)))"
    and hash: "\<And>salt. \<exists>h. GenerateFromPassword env (rg_Password msg) (hashCost env) salt = Inr h"
    using assms by (auto simp: may_register_def Let_def)
  have keep: "account_free env v u em" if "account_free env w u em" "dbs v = dbs w" "faults v = []" for v u em
    using that by (simp add: account_free_def)
  have no: "GenerateFromPassword env (rg_Password msg) (hashCost env) salt \<noteq> Inl e" for salt e
    using hash [of salt] by auto
  show ?thesis
    unfolding Register_def Let_def verification_mail_def name option.case

    by (intro wp_first wp_after register_tx_after; simp add: after_def f mail no)
      (use l pw keep [OF free] in auto)
qed

lemma limiter_empty:
  assumes "windows (mcache w) = []" and "faults w = []" and "cache_wired env" and "0 < l"
  shows "limiter_admits env k l win w"
  using assms Search.simps [of _ 0 0] by (simp add: limiter_admits_def mc_Allow_def Let_def)

lemma demo_windows [simp]: "windows (mcache granted_world) = []"
  by (simp add: granted_world_def engine_AddBinding_def insert_row_def cache_Delete_def io_def start_world_def mc_Delete_def)

lemma find_key_None: "u \<notin> f ` set t \<Longrightarrow> find (\<lambda>r. f r = u) t = None"
  by (auto simp: find_None_iff)

section \<open>Properties\<close>

text \<open>C3. \<open>Login\<close> hands out a token only for the password of the named account, and only when its email
  is verified and it is not locked; it then adds exactly one session, of that account, found by
  the hash of the token, unrevoked, not yet past the second factor, and bounded by both timeouts.
  This holds whatever calls fail.\<close>

theorem login_needs_password:
  assumes "run (Login env req msg) w = (Inr resp, w')"
  shows "\<exists>af i. may_login env (dbs w) (clock w) msg af \<and> i \<notin> ss_id ` set (sessions (dbs w))
     \<and> sessions (dbs w') = sessions (dbs w) @ [issued_session env i (clock w) req msg af (lr_Token resp)]
     \<and> HasPrefix (lr_Token resp) SessionTokenPrefix"
  using wp_run [OF Login_sound assms] by simp

definition demo_req :: request where
  "demo_req = \<lparr>rq_procedure = [], rq_authorization = [], rq_peer = ''p'', rq_client_ip = ''p''\<rparr>"

definition demo_login :: "string \<Rightarrow> login_request" where
  "demo_login pw = \<lparr>lg_Username = ''Alice'', lg_Password = pw, lg_UserAgent = [], lg_header_ua = ''cli''\<rparr>"

definition logged_out :: world where
  "logged_out = demo_world\<lparr>dbs := (dbs demo_world)\<lparr>sessions := []\<rparr>\<rparr>"

lemma logged_out_simps [simp]:
  "users (dbs logged_out) = [demo_user]" "sessions (dbs logged_out) = []" "faults logged_out = []"
  "clock logged_out = 1000 * Second" "windows (mcache logged_out) = []" "password_resets (dbs logged_out) = []"
  by (simp_all add: logged_out_def demo_world_def granted_world_def engine_AddBinding_def insert_row_def cache_Delete_def io_def
      start_world_def mc_Delete_def empty_db_def)

lemma demo_alice: "ToLower ''Alice'' = ''alice''" by code_simp

lemma demo_fields: "user_GetAuthFieldsByUsername ''alice'' [demo_user] = Inr (scan_auth demo_user)"
  by (simp add: user_GetAuthFieldsByUsername_def query_row_def demo_user_def)

lemma demo_may_login: "may_login demo_env (dbs logged_out) (clock logged_out) (demo_login ''pw'') (scan_auth demo_user)"
  by (simp add: may_login_def demo_login_def demo_alice demo_fields) (simp add: scan_auth_def demo_user_def)

theorem login_needs_password_witness:
  "\<exists>resp w' i. run (Login demo_env demo_req (demo_login ''pw'')) logged_out = (Inr resp, w')
     \<and> sessions (dbs w') = [issued_session demo_env i (1000 * Second) demo_req (demo_login ''pw'') (scan_auth demo_user) (lr_Token resp)]"
proof -
  have l: "limiter_admits demo_env (''login:ip:'' @ rq_client_ip demo_req) 10 Minute logged_out"
    by (rule limiter_empty) simp_all
  obtain resp w' where r: "run (Login demo_env demo_req (demo_login ''pw'')) logged_out = (Inr resp, w')"
    by (rule wp_obtain [OF Login_complete [OF demo_may_login l]]) auto
  from login_needs_password [OF r] demo_may_login r show ?thesis
    by (fastforce simp: may_login_def)
qed

text \<open>C4. Guessing is bounded by the lockout, as long as no call fails: of any number of logins with wrong
  passwords for one account inside one cooldown period, at most as many are evaluated as failures remain
  before the threshold, and one if none remain (after an expired lockout the counter stands at the
  threshold and one more guess is looked at); all others are refused without looking at the password.
  A failing write of the counter is only logged, so with failing calls the bound does not hold.\<close>

theorem guessing_bounded:
  assumes "user_keys (users (dbs w))" and "user_GetAuthFieldsByUsername uname (users (dbs w)) = Inr af"
    and "faults w = []" and "\<forall>a \<in> set as. guess_of env uname (PasswordHash af) t0 a"
  shows "int (evaluated (login_run env as w)) \<le> max 1 (max_attempts env - FailedLoginCount af)"
  using evaluated_bound [OF assms] by (auto split: if_splits)

theorem guessing_bounded_witness:
  "int (evaluated (login_run demo_env (replicate 30 (1000 * Second, demo_req, demo_login ''guess'')) logged_out)) \<le> 5"
proof -
  have k: "user_keys (users (dbs logged_out))" by (simp add: user_keys_def demo_user_def)
  have f: "user_GetAuthFieldsByUsername ''alice'' (users (dbs logged_out)) = Inr (scan_auth demo_user)"
    by (simp add: demo_fields)
  have g: "\<forall>a \<in> set (replicate 30 (1000 * Second, demo_req, demo_login ''guess'')).
      guess_of demo_env ''alice'' (PasswordHash (scan_auth demo_user)) (1000 * Second) a"
    by (simp add: guess_of_def demo_login_def demo_alice scan_auth_def demo_user_def cooldown_def)
  have c: "FailedLoginCount (scan_auth demo_user) = 0" "max_attempts demo_env = 5"
    by (simp_all add: scan_auth_def demo_user_def max_attempts_def)
  show ?thesis using guessing_bounded [OF k f _ g] by (simp add: c)
qed

text \<open>C25. Registration is all or nothing: when it succeeds, the account was valid and its name new,
  the account row and the owner role on its own namespace are both there, and the password is
  stored hashed; when it fails (and no auto-verification is configured) no table has changed.  A
  request that nothing speaks against succeeds.\<close>

theorem register_atomic:
  assumes "run (Register env req msg) w = (r, w')" and "u = ToLower (TrimSpace (rg_Username msg))"
  shows "(\<forall>uid. r = Inr uid \<longrightarrow> ValidateName u = None \<and> minLen env \<le> int (length (rg_Password msg)) \<and> (\<exists>n m salt hash.
        GenerateFromPassword env (rg_Password msg) (hashCost env) salt = Inr hash
        \<and> u \<notin> us_username ` set (users (dbs w)) \<and> uid = Canonical (new_id env n)
        \<and> users (dbs w') = (let us = users (dbs w) @ [registered msg (new_id env n) (clock w) hash] in
             if AutoVerify env then user_SetEmailVerified (clock w) uid us else us)
        \<and> role_bindings (dbs w') = own_namespace (new_id env m) (clock w) u (role_bindings (dbs w))))
     \<and> (\<forall>e. r = Inl e \<and> \<not> AutoVerify env \<longrightarrow> dbs w' = dbs w)
     \<and> (may_register env w req msg \<longrightarrow> (\<exists>uid. r = Inr uid))"
  using wp_run [OF Register_effect assms(1)] wp_run [OF Register_complete assms(1)] assms(2)
  unfolding Let_def by metis

lemma start_tables: "users (dbs start_world) = []" "sessions (dbs start_world) = []"
  by (simp_all add: start_world_def empty_db_def)

definition demo_signup :: register_request where
  "demo_signup = \<lparr>rg_Username = ''Bob'', rg_Email = ''b@x'', rg_Password = ''correct horse'', rg_Description = []\<rparr>"

lemma demo_bob: "ToLower (TrimSpace ''Bob'') = ''bob''" "ToLower (TrimSpace ''b@x'') = ''b@x''" "ValidateName ''bob'' = None"
  by code_simp+

lemma demo_may_register: "may_register demo_env start_world demo_req demo_signup"
proof -
  have "limiter_admits demo_env (''register:ip:'' @ rq_client_ip demo_req) 3 Minute start_world"
    by (rule limiter_empty) (simp_all add: start_world_def NewMemoryCache_def)
  then show ?thesis
    by (simp add: may_register_def demo_signup_def demo_bob account_free_def minLen_def start_world_def empty_db_def)
qed

theorem register_atomic_witness:
  "\<exists>uid w'. run (Register demo_env demo_req demo_signup) start_world = (Inr uid, w')
     \<and> map us_username (users (dbs w')) = [''bob''] \<and> map us_password (users (dbs w')) = [''$correct horse'']"
proof -
  obtain r w' where run: "run (Register demo_env demo_req demo_signup) start_world = (r, w')" by fastforce
  have u: "''bob'' = ToLower (TrimSpace (rg_Username demo_signup))" by (simp add: demo_signup_def demo_bob)
  note all = register_atomic [OF run u]
  obtain uid where r: "r = Inr uid" using all demo_may_register by blast
  obtain n salt hash where h: "GenerateFromPassword demo_env (rg_Password demo_signup) (hashCost demo_env) salt = Inr hash"
    and us: "users (dbs w') = (let us = users (dbs start_world) @ [registered demo_signup (new_id demo_env n) (clock start_world) hash] in
             if AutoVerify demo_env then user_SetEmailVerified (clock start_world) uid us else us)"
    using all r by blast
  have "hash = ''$correct horse''" using h by (simp add: demo_signup_def)
  with us have "users (dbs w') = user_SetEmailVerified (clock start_world) uid
       [registered demo_signup (demo_hex n) (clock start_world) ''$correct horse'']"
    by (simp add: start_tables)
  then have "map us_username (users (dbs w')) = [''bob'']" "map us_password (users (dbs w')) = [''$correct horse'']"
    by (simp_all add: user_SetEmailVerified_def map_update_where registered_def new_user_def demo_signup_def demo_bob)
  with run r show ?thesis by (intro exI [of _ uid] exI [of _ w'] conjI) simp_all
qed

text \<open>C26. An account that was just registered (with auto-verification) can be logged into with the same
  name and password: given that bcrypt accepts the hash it made of a password, the login succeeds
  in every later world with these tables, unless a call fails or the limiter refuses.\<close>

theorem register_then_login:
  assumes "AutoVerify env" and "run (Register env req msg) w = (Inr uid, w1)"
    and bcrypt: "\<And>pw c salt h. GenerateFromPassword env pw c salt = Inr h \<Longrightarrow> CompareHashAndPassword env h pw"
    and "\<And>n. is_hex32 (new_id env n)" and "\<And>n. new_id env n \<notin> ss_id ` set (sessions (dbs w))"
    and "dbs w2 = dbs w1" and "limiter_admits env (''login:ip:'' @ rq_client_ip req') 10 Minute w2"
    and "ToLower (lg_Username lm) = ToLower (TrimSpace (rg_Username msg))" and "lg_Password lm = rg_Password msg"
  shows "\<exists>resp w3. run (Login env req' lm) w2 = (Inr resp, w3)"
proof -
  let ?u = "ToLower (TrimSpace (rg_Username msg))"
  obtain n salt hash where h: "GenerateFromPassword env (rg_Password msg) (hashCost env) salt = Inr hash"
    and new: "?u \<notin> us_username ` set (users (dbs w))" and uid: "uid = Canonical (new_id env n)"
    and us: "users (dbs w1) = user_SetEmailVerified (clock w) uid (users (dbs w) @ [registered msg (new_id env n) (clock w) hash])"
    and ss: "sessions (dbs w1) = sessions (dbs w)"
    using wp_run [OF Register_effect assms(2)] assms(1) unfolding Let_def by auto
  let ?row = "(registered msg (new_id env n) (clock w) hash)\<lparr>us_email_verified_at := Some (datetime (clock w)),
      us_update_time := datetime (clock w)\<rparr>"
  have none: "find (\<lambda>r. us_username r = ?u) (users (dbs w)) = None" using new by (rule find_key_None)
  have "find (\<lambda>r. us_username r = ?u) (users (dbs w1)) = Some ?row"
    using assms(4) by (simp add: us user_SetEmailVerified_def find_update_where find_append none registered_def new_user_def uid ID_Canonical)
  then have "may_login env (dbs w2) (clock w2) lm (scan_auth ?row)"
    using bcrypt [OF h] assms(6,8,9)
    by (simp add: may_login_def user_GetAuthFieldsByUsername_def query_row_def scan_auth_def registered_def new_user_def)
  from wp_obtain [OF Login_complete [OF this assms(7)]] show ?thesis using assms(5,6) ss by metis
qed

theorem register_then_login_witness:
  "\<exists>uid w1 resp w3. run (Register demo_env demo_req demo_signup) start_world = (Inr uid, w1)
     \<and> run (Login demo_env demo_req \<lparr>lg_Username = ''BOB'', lg_Password = ''correct horse'', lg_UserAgent = [], lg_header_ua = []\<rparr>)
         (w1\<lparr>mcache := NewMemoryCache, faults := []\<rparr>) = (Inr resp, w3)"
proof -
  obtain uid w1 where r: "run (Register demo_env demo_req demo_signup) start_world = (Inr uid, w1)"
    by (rule wp_obtain [OF Register_complete [OF demo_may_register]]) auto
  have l: "limiter_admits demo_env (''login:ip:'' @ rq_client_ip demo_req) 10 Minute (w1\<lparr>mcache := NewMemoryCache, faults := []\<rparr>)"
    by (rule limiter_empty) (simp_all add: NewMemoryCache_def)
  have n: "ToLower ''BOB'' = ''bob''" by code_simp
  have "\<exists>resp w3. run (Login demo_env demo_req \<lparr>lg_Username = ''BOB'', lg_Password = ''correct horse'', lg_UserAgent = [], lg_header_ua = []\<rparr>)
         (w1\<lparr>mcache := NewMemoryCache, faults := []\<rparr>) = (Inr resp, w3)"
    by (rule register_then_login [OF _ r _ _ _ _ l]) (simp_all add: start_tables n demo_signup_def demo_bob)
  with r show ?thesis by blast
qed


definition demo_reset :: link_row where
  "demo_reset = \<lparr>lk_id = demo_hex 4, lk_user_id = demo_hex 1, lk_token_hash = HashToken ''t'', lk_expires_at = 2000 * Second,
     lk_used_at = Some 0\<rparr>"


text \<open>C6. \<open>ChangePassword\<close> needs the current password; success means that the new hash is stored for
  the caller and that every session of the caller, the current one included, is revoked.  A
  refusal changes no table.\<close>

theorem change_password_revokes_sessions:
  assumes "run (ChangePassword env ctx old new) w = (r, w')" and "ctx_user ctx = Some user"
  shows "(r = Inr () \<longrightarrow> (\<exists>af salt h. user_GetAuthFieldsByUsername (ToLower (Username user)) (users (dbs w)) = Inr af
        \<and> CompareHashAndPassword env (PasswordHash af) old
        \<and> minLen env \<le> int (length new) \<and> GenerateFromPassword env new (hashCost env) salt = Inr h
        \<and> users (dbs w') = user_UpdatePassword (clock w) (Id user) h (users (dbs w))
        \<and> all_revoked (Id user) (sessions (dbs w'))))
     \<and> (r \<noteq> Inr () \<and> r \<noteq> Inl sessions_survive \<longrightarrow> dbs w' = dbs w)
     \<and> (faults w = [] \<longrightarrow> r \<noteq> Inl sessions_survive)"
  using wp_run [OF ChangePassword_effect [OF assms(2)] assms(1)] by (auto split: if_splits)

theorem change_password_revokes_sessions_witness:
  "\<exists>r w'. run (ChangePassword demo_env \<lparr>ctx_user = Some (scanSQLiteUser demo_user), ctx_authorization = ''hds_sess_a'', ctx_scopes = None\<rparr>
       ''wrong'' ''a new password'') demo_world = (r, w') \<and> r \<noteq> Inr () \<and> users (dbs w') = [demo_user] \<and> sessions (dbs w') = [demo_session]"
proof -
  let ?c = "\<lparr>ctx_user = Some (scanSQLiteUser demo_user), ctx_authorization = ''hds_sess_a'', ctx_scopes = None\<rparr>"
  obtain r w' where r: "run (ChangePassword demo_env ?c ''wrong'' ''a new password'') demo_world = (r, w')" by fastforce
  have a: "ToLower (Username (scanSQLiteUser demo_user)) = ''alice''" by (simp add: scanSQLiteUser_def demo_user_def ToLower_def) code_simp
  have "\<not> CompareHashAndPassword demo_env (PasswordHash (scan_auth demo_user)) ''wrong''"
    by (simp add: scan_auth_def demo_user_def)
  with change_password_revokes_sessions [OF r, of "scanSQLiteUser demo_user"] a
  have "r \<noteq> Inr () \<and> dbs w' = dbs demo_world" by (auto simp: demo_fields)
  with r show ?thesis by simp
qed

text \<open>C27. \<open>RequestPasswordReset\<close> does not reveal which addresses have an account: its answer is the
  limiter's, a plain success otherwise, whatever the accounts are and whatever fails afterwards.\<close>

theorem password_reset_reveals_nothing:
  "fst (run (RequestPasswordReset env req em) w)
     = fst (run (enforceLimit env (''pwreset:ip:'' @ rq_client_ip req) 3 Minute) w)"
  by (rule RequestPasswordReset_limiter)

end
