(* ===== verification/Auth_Totp.thy ===== *)
theory Auth_Totp
  imports Account_Facts
begin

text \<open>
  The second-factor handlers of \<open>internal/hades/server/auth/totp.go\<close>: enrolment, verification with a
  TOTP code or a backup code, and removal.
\<close>

section \<open>Helpers\<close>

definition backupCodeCount :: nat where "backupCodeCount = 10"
definition totpAttemptLimit :: int where "totpAttemptLimit = 5"
definition totpAttemptWindow :: time where "totpAttemptWindow = 5 * Minute"

definition requirePassword :: "env \<Rightarrow> User \<Rightarrow> string \<Rightarrow> (world, unit) call" where
  "requirePassword env user password = do {
     a \<leftarrow> qry (\<lambda>d. user_GetAuthFieldsByID (Id user) (users d));
     (case a of
        Inl e \<Rightarrow> fail (FromDB e)
      | Inr af \<Rightarrow>
          if PasswordHash af = [] then
            fail (FailedPrecondition ''this account has no password; set one before changing two-factor settings'')
          else if \<not> CompareHashAndPassword env (PasswordHash af) password then fail (Unauthenticated ''invalid password'')
          else ok ())
   }"

definition checkTOTPAttempt :: "env \<Rightarrow> string \<Rightarrow> (world, unit) call" where
  "checkTOTPAttempt env userID = do {
     r \<leftarrow> enforceLimit env (''totp:attempt:'' @ userID) totpAttemptLimit totpAttemptWindow;
     (case r of
        Inr _ \<Rightarrow> ok ()
      | Inl e \<Rightarrow>
          if code_of e = Some CodeResourceExhausted then do {
            _ \<leftarrow> audit env userID LOGIN_FAILED [] [] [(''reason'', ''totp_rate_limited'')];
            fail (ResourceExhausted ''too many verification attempts, try again later'')
          }
          else fail e)
   }"

definition consumeTOTPCode :: "env \<Rightarrow> string \<Rightarrow> 64 word \<Rightarrow> (world, unit) call" where
  "consumeTOTPCode env userID counter = do {
     r \<leftarrow> exec (\<lambda>_ d. case totp_ConsumeCounter userID counter (totp_secrets d) of (r, t) \<Rightarrow> (r, d\<lparr>totp_secrets := t\<rparr>));
     (case r of
        Inr _ \<Rightarrow> ok ()
      | Inl e \<Rightarrow>
          if e = ErrCodeAlreadyUsed then do {
            _ \<leftarrow> audit env userID LOGIN_FAILED [] [] [(''reason'', ''totp_code_replayed'')];
            fail (Unauthenticated ''this code has already been used; wait for the next one'')
          }
          else fail (FromDB e))
   }"

text \<open>\<open>CreateBatch\<close> stops at the first failing insert and keeps the rows before it.\<close>

fun backup_CreateBatch :: "env \<Rightarrow> string \<Rightarrow> string list \<Rightarrow> (world, unit) call" where
  "backup_CreateBatch env userID [] = ok ()"
| "backup_CreateBatch env userID (h # hs) = do {
     r \<leftarrow> insert_row env (\<lambda>i now d. case backup_Create i now userID h (backup_codes d) of (r, t) \<Rightarrow> (r, d\<lparr>backup_codes := t\<rparr>));
     (case r of Inl e \<Rightarrow> fail e | Inr _ \<Rightarrow> backup_CreateBatch env userID hs)
   }"

text \<open>\<open>totp.Generate\<close> draws a twenty-byte seed.\<close>

definition GenerateSecret :: "env \<Rightarrow> string \<Rightarrow> string \<Rightarrow> (world, string \<times> string) call" where
  "GenerateSecret env issuer accountName = do {
     r \<leftarrow> rand_Read env 20;
     (case r of
        Inl e \<Rightarrow> fail e
      | Inr seed \<Rightarrow> State_Monad.return (totp_Generate env issuer accountName seed))
   }"

text \<open>The tail that \<open>BeginEnrollTOTP\<close> and \<open>RegenerateBackupCodes\<close> share.\<close>

definition replace_backup_codes :: "env \<Rightarrow> User \<Rightarrow> (world, string list) call" where
  "replace_backup_codes env user = do {
     g \<leftarrow> GenerateBackupCodes env backupCodeCount;
     (case g of
        Inl e \<Rightarrow> fail (Internal ''failed to generate backup codes'')
      | Inr plainCodes \<Rightarrow> do {
          x \<leftarrow> upd (\<lambda>_ d. d\<lparr>backup_codes := backup_DeleteAllForUser (Id user) (backup_codes d)\<rparr>);
          (case x of
             Inl e \<Rightarrow> fail (FromDB e)
           | Inr _ \<Rightarrow> do {
               b \<leftarrow> backup_CreateBatch env (Id user) (map HashToken plainCodes);
               (case b of Inl e \<Rightarrow> fail (FromDB e) | Inr _ \<Rightarrow> ok plainCodes)
             })
        })
   }"

section \<open>Handlers\<close>

record enroll_response =
  er_Secret :: string
  er_TotpUrl :: string
  er_BackupCodes :: "string list"

definition BeginEnrollTOTP :: "env \<Rightarrow> reqctx \<Rightarrow> string \<Rightarrow> (world, enroll_response) call" where
  "BeginEnrollTOTP env ctx password = (case ctx_user ctx of
     None \<Rightarrow> fail (Unauthenticated ''not authenticated'')
   | Some user \<Rightarrow> do {
       p \<leftarrow> requirePassword env user password;
       (case p of
          Inl e \<Rightarrow> fail e
        | Inr _ \<Rightarrow> do {
            existing \<leftarrow> qry (\<lambda>d. totp_GetByUserID (Id user) (totp_secrets d));
            if (case existing of Inl _ \<Rightarrow> False | Inr row \<Rightarrow> Enabled row)
            then fail (FailedPrecondition ''TOTP is already enabled; disable it before enrolling again'')
            else do {
              s \<leftarrow> GenerateSecret env (if Issuer env = [] then ''Hades'' else Issuer env) (Username user);
              (case s of
                 Inl e \<Rightarrow> fail (Internal ''failed to generate TOTP secret'')
               | Inr (secret, otpauthURL) \<Rightarrow> do {
                   c \<leftarrow> Encrypt env (EncryptionKey env) secret;
                   (case c of
                      Inl e \<Rightarrow> fail (Internal ''failed to encrypt TOTP secret'')
                    | Inr secretEnc \<Rightarrow> do {
                        u \<leftarrow> insert_row env (\<lambda>i now d. case totp_Upsert i now (Id user) secretEnc (totp_secrets d) of
                               (r, t) \<Rightarrow> (r, d\<lparr>totp_secrets := t\<rparr>));
                        (case u of
                           Inl e \<Rightarrow> fail (FromDB e)
                         | Inr _ \<Rightarrow> do {
                             b \<leftarrow> replace_backup_codes env user;
                             (case b of
                                Inl e \<Rightarrow> fail e
                              | Inr codes \<Rightarrow> ok \<lparr>er_Secret = secret, er_TotpUrl = otpauthURL, er_BackupCodes = codes\<rparr>)
                           })
                      })
                 })
            }
          })
     })"

definition ConfirmEnrollTOTP :: "env \<Rightarrow> reqctx \<Rightarrow> string \<Rightarrow> (world, unit) call" where
  "ConfirmEnrollTOTP env ctx code = (case ctx_user ctx of
     None \<Rightarrow> fail (Unauthenticated ''not authenticated'')
   | Some user \<Rightarrow> do {
       l \<leftarrow> checkTOTPAttempt env (Id user);
       (case l of
          Inl e \<Rightarrow> fail e
        | Inr _ \<Rightarrow> do {
            r \<leftarrow> qry (\<lambda>d. totp_GetByUserID (Id user) (totp_secrets d));
            (case r of
               Inl e \<Rightarrow> fail (NotFound ''TOTP enrollment not started'')
             | Inr row \<Rightarrow>
                 (case Decrypt env (EncryptionKey env) (SecretEnc row) of
                    Inl e \<Rightarrow> fail (Internal ''failed to decrypt TOTP secret'')
                  | Inr secret \<Rightarrow> do {
                      now \<leftarrow> time_Now;
                      (case ValidateCodeCounter env secret code now of
                         Inl e \<Rightarrow> fail (Unauthenticated ''invalid TOTP code'')
                       | Inr (counter, valid) \<Rightarrow>
                           if \<not> valid then fail (Unauthenticated ''invalid TOTP code'')
                           else do {
                             c \<leftarrow> consumeTOTPCode env (Id user) counter;
                             (case c of
                                Inl e \<Rightarrow> fail e
                              | Inr _ \<Rightarrow> do {
                                  t \<leftarrow> upd (\<lambda>now d. d\<lparr>totp_secrets := totp_Enable now (Id user) (totp_secrets d)\<rparr>);
                                  (case t of
                                     Inl e \<Rightarrow> fail (FromDB e)
                                   | Inr _ \<Rightarrow> do { _ \<leftarrow> audit env (Id user) TOTP_ENABLED [] [] []; ok () })
                                })
                           })
                    }))
          })
     })"

text \<open>The second factor of \<open>VerifyTOTP\<close>: a TOTP code, consumed, or an unused backup code, marked used.\<close>

definition second_factor :: "env \<Rightarrow> User \<Rightarrow> string \<Rightarrow> string \<Rightarrow> (world, unit) call" where
  "second_factor env user secret code = do {
     now \<leftarrow> time_Now;
     (case ValidateCodeCounter env secret code now of
        Inr (counter, True) \<Rightarrow> consumeTOTPCode env (Id user) counter
      | _ \<Rightarrow> do {
          b \<leftarrow> qry (\<lambda>d. backup_GetUnused (Id user) (HashToken code) (backup_codes d));
          (case b of
             Inl e \<Rightarrow> fail (Unauthenticated ''invalid TOTP code'')
           | Inr backupRow \<Rightarrow> do {
               m \<leftarrow> upd (\<lambda>now d. d\<lparr>backup_codes := backup_MarkUsed now (ID_b backupRow) (backup_codes d)\<rparr>);
               (case m of Inl e \<Rightarrow> fail (FromDB e) | Inr _ \<Rightarrow> ok ())
             })
        })
   }"

definition VerifyTOTP :: "env \<Rightarrow> reqctx \<Rightarrow> string \<Rightarrow> (world, string) call" where
  "VerifyTOTP env ctx code = (case ctx_user ctx of
     None \<Rightarrow> fail (Unauthenticated ''not authenticated'')
   | Some user \<Rightarrow> do {
       l \<leftarrow> checkTOTPAttempt env (Id user);
       (case l of
          Inl e \<Rightarrow> fail e
        | Inr _ \<Rightarrow> do {
            r \<leftarrow> qry (\<lambda>d. totp_GetByUserID (Id user) (totp_secrets d));
            (case r of
               Inl e \<Rightarrow> fail (NotFound ''TOTP not enabled'')
             | Inr row \<Rightarrow>
                 if \<not> Enabled row then fail (NotFound ''TOTP not enabled'')
                 else (case Decrypt env (EncryptionKey env) (SecretEnc row) of
                    Inl e \<Rightarrow> fail (Internal ''failed to decrypt TOTP secret'')
                  | Inr secret \<Rightarrow> do {
                      f \<leftarrow> second_factor env user secret code;
                      (case f of
                         Inl e \<Rightarrow> fail e
                       | Inr _ \<Rightarrow>
                           if ctx_authorization ctx = [] then fail (Unauthenticated ''not authenticated'')
                           else do {
                             s \<leftarrow> qry (\<lambda>d. sess_GetByTokenHash (HashToken (ctx_authorization ctx)) (sessions d));
                             (case s of
                                Inl e \<Rightarrow> fail (FromDB e)
                              | Inr sess \<Rightarrow> do {
                                  m \<leftarrow> upd (\<lambda>_ d. d\<lparr>sessions := sess_MarkTOTPVerified (ID_s sess) (sessions d)\<rparr>);
                                  (case m of
                                     Inl e \<Rightarrow> fail (FromDB e)
                                   | Inr _ \<Rightarrow> do {
                                       _ \<leftarrow> audit env (Id user) LOGIN_SUCCESS [] [] [(''totp'', ''true'')];
                                       ok (ctx_authorization ctx)
                                     })
                                })
                           })
                    }))
          })
     })"

definition DisableTOTP :: "env \<Rightarrow> reqctx \<Rightarrow> string \<Rightarrow> (world, unit) call" where
  "DisableTOTP env ctx password = (case ctx_user ctx of
     None \<Rightarrow> fail (Unauthenticated ''not authenticated'')
   | Some user \<Rightarrow> do {
       p \<leftarrow> requirePassword env user password;
       (case p of
          Inl e \<Rightarrow> fail e
        | Inr _ \<Rightarrow> do {
            x \<leftarrow> upd (\<lambda>_ d. d\<lparr>totp_secrets := totp_Delete (Id user) (totp_secrets d)\<rparr>);
            (case x of
               Inl e \<Rightarrow> fail (FromDB e)
             | Inr _ \<Rightarrow> do {
                 y \<leftarrow> upd (\<lambda>_ d. d\<lparr>backup_codes := backup_DeleteAllForUser (Id user) (backup_codes d)\<rparr>);
                 (case y of
                    Inl e \<Rightarrow> fail (FromDB e)
                  | Inr _ \<Rightarrow> do { _ \<leftarrow> audit env (Id user) TOTP_DISABLED [] [] []; ok () })
               })
          })
     })"

record BackupCode =
  bc_Id :: string
  bc_UsedAt :: "time option"

definition ListBackupCodes :: "reqctx \<Rightarrow> (world, BackupCode list) call" where
  "ListBackupCodes ctx = (case ctx_user ctx of
     None \<Rightarrow> fail (Unauthenticated ''not authenticated'')
   | Some user \<Rightarrow> do {
       r \<leftarrow> qry_now (\<lambda>_ d. backup_ListByUserID (Id user) (backup_codes d));
       (case r of
          Inl e \<Rightarrow> fail (FromDB e)
        | Inr rows \<Rightarrow> ok (map (\<lambda>row. \<lparr>bc_Id = ID_b row, bc_UsedAt = UsedAt_b row\<rparr>) rows))
     })"

definition RegenerateBackupCodes :: "env \<Rightarrow> reqctx \<Rightarrow> string \<Rightarrow> (world, string list) call" where
  "RegenerateBackupCodes env ctx password = (case ctx_user ctx of
     None \<Rightarrow> fail (Unauthenticated ''not authenticated'')
   | Some user \<Rightarrow> do {
       p \<leftarrow> requirePassword env user password;
       (case p of Inl e \<Rightarrow> fail e | Inr _ \<Rightarrow> replace_backup_codes env user)
     })"

section \<open>What no second-factor handler undoes\<close>

context credential_fact
begin

lemma requirePassword_keeps [db_intros]: "db_keeps Q (requirePassword env u pw)"
  unfolding requirePassword_def by (intro db_intros)

lemma checkTOTPAttempt_keeps [db_intros]: "db_keeps Q (checkTOTPAttempt env u)"
  unfolding checkTOTPAttempt_def by (intro db_intros)

lemma consumeTOTPCode_keeps [db_intros]: "db_keeps Q (consumeTOTPCode env u c)"
  unfolding consumeTOTPCode_def by (intro db_intros)

lemma backup_CreateBatch_keeps [db_intros]: "db_keeps Q (backup_CreateBatch env u hs)"
  by (induction hs) (auto intro!: db_intros)

lemma replace_backup_codes_keeps [db_intros]: "db_keeps Q (replace_backup_codes env u)"
  unfolding replace_backup_codes_def by (intro db_intros)

lemma BeginEnrollTOTP_keeps [db_intros]: "db_keeps Q (BeginEnrollTOTP env ctx pw)"
  unfolding BeginEnrollTOTP_def GenerateSecret_def by (intro db_intros)

lemma ConfirmEnrollTOTP_keeps [db_intros]: "db_keeps Q (ConfirmEnrollTOTP env ctx c)"
  unfolding ConfirmEnrollTOTP_def by (intro db_intros)

lemma VerifyTOTP_keeps [db_intros]: "db_keeps Q (VerifyTOTP env ctx c)"
  unfolding VerifyTOTP_def second_factor_def by (intro db_intros) (auto split: bool.splits intro!: db_intros)

lemma DisableTOTP_keeps [db_intros]: "db_keeps Q (DisableTOTP env ctx pw)"
  unfolding DisableTOTP_def by (intro db_intros)

lemma ListBackupCodes_keeps [db_intros]: "db_keeps Q (ListBackupCodes ctx)"
  unfolding ListBackupCodes_def by (intro db_intros)

lemma RegenerateBackupCodes_keeps [db_intros]: "db_keeps Q (RegenerateBackupCodes env ctx pw)"
  unfolding RegenerateBackupCodes_def by (intro db_intros)

end

end
