(* ===== verification/Totp_Facts.thy ===== *)
theory Totp_Facts
  imports Auth_Totp
begin

text \<open>
  What the second factor guarantees: when \<open>VerifyTOTP\<close> succeeds, that a time step is accepted once, and
  that the stored secret is the one that was enrolled.
\<close>

section \<open>Branches of the second-factor handlers\<close>

lemma checkTOTPAttempt_after [wp_after]:
  assumes "\<And>e al w'. \<not> limiter_admits env (''totp:attempt:'' @ u) totpAttemptLimit totpAttemptWindow w \<Longrightarrow>
        after w ((dbs w)\<lparr>audit_log := al\<rparr>) w' \<Longrightarrow> Q (Inl e) w'"
    and "\<And>w'. after w (dbs w) w' \<Longrightarrow> Q (Inr ()) w'"
  shows "wp (checkTOTPAttempt env u) Q w"
proof -
  have err: "Q (Inl e) w'" if "after w (dbs w) w'" "\<not> limiter_admits env (''totp:attempt:'' @ u) totpAttemptLimit totpAttemptWindow w" for e w'
    using assms(1) [of "audit_log (dbs w)"] that by simp
  show ?thesis
    unfolding checkTOTPAttempt_def
    by (intro wp_first wp_after) (use assms err in \<open>auto simp: after_def\<close>)
qed

lemma consumeTOTPCode_after [wp_after]:
  assumes "\<And>e al w'. faults w \<noteq> [] \<or> fst (totp_ConsumeCounter u c (totp_secrets (dbs w))) \<noteq> Inr () \<Longrightarrow>
        after w ((dbs w)\<lparr>audit_log := al\<rparr>) w' \<Longrightarrow> Q (Inl e) w'"
    and "\<And>w'. fst (totp_ConsumeCounter u c (totp_secrets (dbs w))) = Inr () \<Longrightarrow>
        after w ((dbs w)\<lparr>totp_secrets := snd (totp_ConsumeCounter u c (totp_secrets (dbs w)))\<rparr>) w' \<Longrightarrow> Q (Inr ()) w'"
  shows "wp (consumeTOTPCode env u c) Q w"
proof -
  have err: "Q (Inl e) w'" if "after w (dbs w) w'" "faults w \<noteq> [] \<or> fst (totp_ConsumeCounter u c (totp_secrets (dbs w))) \<noteq> Inr ()" for e w'
    using assms(1) [of "audit_log (dbs w)"] that by simp
  have same: "(dbs w)\<lparr>totp_secrets := snd (totp_ConsumeCounter u c (totp_secrets (dbs w)))\<rparr> = dbs w"
    if "fst (totp_ConsumeCounter u c (totp_secrets (dbs w))) \<noteq> Inr ()"
    using that by (simp add: totp_ConsumeCounter_ok totp_ConsumeCounter_snd update_where_idle)
  show ?thesis
    unfolding consumeTOTPCode_def
    by (intro wp_first wp_after) (use assms err same in \<open>auto simp: after_def case_prod_beta\<close>)
qed

text \<open>What shows the second factor: a TOTP code whose step is consumed, or an unused backup code that
  is marked used.\<close>

definition totp_shown :: "env \<Rightarrow> time \<Rightarrow> User \<Rightarrow> string \<Rightarrow> string \<Rightarrow> 64 word \<Rightarrow> db \<Rightarrow> db \<Rightarrow> bool" where
  "totp_shown env now user secret code c d d' \<longleftrightarrow>
     ValidateCodeCounter env secret code now = Inr (c, True)
     \<and> fst (totp_ConsumeCounter (Id user) c (totp_secrets d)) = Inr ()
     \<and> totp_secrets d' = snd (totp_ConsumeCounter (Id user) c (totp_secrets d)) \<and> backup_codes d' = backup_codes d"

definition backup_shown :: "env \<Rightarrow> time \<Rightarrow> User \<Rightarrow> string \<Rightarrow> string \<Rightarrow> BackupRow \<Rightarrow> db \<Rightarrow> db \<Rightarrow> bool" where
  "backup_shown env now user secret code b d d' \<longleftrightarrow>
     (\<forall>c. ValidateCodeCounter env secret code now \<noteq> Inr (c, True))
     \<and> backup_GetUnused (Id user) (HashToken code) (backup_codes d) = Inr b
     \<and> backup_codes d' = backup_MarkUsed now (ID_b b) (backup_codes d) \<and> totp_secrets d' = totp_secrets d"

text \<open>A TOTP code of the current window whose step was not consumed yet.\<close>

definition fresh_code :: "env \<Rightarrow> time \<Rightarrow> User \<Rightarrow> string \<Rightarrow> string \<Rightarrow> db \<Rightarrow> bool" where
  "fresh_code env now user secret code d \<longleftrightarrow> (case ValidateCodeCounter env secret code now of
     Inr (c, True) \<Rightarrow> fst (totp_ConsumeCounter (Id user) c (totp_secrets d)) = Inr () | _ \<Rightarrow> False)"

lemma second_factor_after [wp_after]:
  assumes err: "\<And>e d w'. faults w \<noteq> [] \<or> \<not> fresh_code env (clock w) user secret code (dbs w) \<Longrightarrow> sessions d = sessions (dbs w) \<Longrightarrow> after w d w' \<Longrightarrow> Q (Inl e) w'"
    and totp: "\<And>c d w'. totp_shown env (clock w) user secret code c (dbs w) d \<Longrightarrow> sessions d = sessions (dbs w) \<Longrightarrow> after w d w' \<Longrightarrow> Q (Inr ()) w'"
    and backup: "\<And>b d w'. backup_shown env (clock w) user secret code b (dbs w) d \<Longrightarrow> sessions d = sessions (dbs w) \<Longrightarrow> after w d w' \<Longrightarrow> Q (Inr ()) w'"
  shows "wp (second_factor env user secret code) Q w"
proof -
  have err': "Q (Inl e) w'" if "faults w \<noteq> [] \<or> \<not> fresh_code env (clock w) user secret code (dbs w)" "sessions (dbs w') = sessions (dbs w)" "repos w' = repos w" "clock w' = clock w" "faults w = [] \<longrightarrow> faults w' = []" for e w'
    using err [of "dbs w'" w'] that by (simp add: after_def)
  have totp': "Q (Inr ()) w'" if "totp_shown env (clock w) user secret code c (dbs w) (dbs w')" "sessions (dbs w') = sessions (dbs w)"
      "repos w' = repos w" "clock w' = clock w" "faults w = [] \<longrightarrow> faults w' = []" for c w'
    using totp [of c "dbs w'" w'] that by (simp add: after_def)
  have backup': "Q (Inr ()) w'" if "backup_shown env (clock w) user secret code b (dbs w) (dbs w')" "sessions (dbs w') = sessions (dbs w)"
      "repos w' = repos w" "clock w' = clock w" "faults w = [] \<longrightarrow> faults w' = []" for b w'
    using backup [of b "dbs w'" w'] that by (simp add: after_def)
  show ?thesis
  proof (cases "\<exists>c. ValidateCodeCounter env secret code (clock w) = Inr (c, True)")
    case True
    then obtain c where c: "ValidateCodeCounter env secret code (clock w) = Inr (c, True)" ..
    show ?thesis
      unfolding second_factor_def
      by (intro wp_bind wp_time_Now, unfold c, simp, intro wp_after)
        (auto simp: after_def totp_shown_def fresh_code_def c intro!: err' intro: totp')
  next
    case False
    then have "(case ValidateCodeCounter env secret code (clock w) of Inr (counter, True) \<Rightarrow> f counter | _ \<Rightarrow> g) = g" for f and g :: "(world, unit) call"
      by (auto split: sum.splits prod.splits bool.splits)
    note this [simp]
    have [simp]: "\<not> fresh_code env (clock w) user secret code (dbs w)"
      using False by (auto simp: fresh_code_def split: sum.splits prod.splits bool.splits)
    have [simp]: "ValidateCodeCounter env secret code (clock w) \<noteq> Inr (c, True)" for c using False by simp
    show ?thesis
      unfolding second_factor_def
      by (intro wp_bind wp_time_Now, simp, intro wp_first wp_after)
        (auto simp: after_def backup_shown_def intro!: err' intro: backup')
  qed
qed

lemma shown_frame [simp]:
  "totp_shown env now user secret code c d (d'\<lparr>sessions := ss\<rparr>) = totp_shown env now user secret code c d d'"
  "totp_shown env now user secret code c d (d'\<lparr>audit_log := al\<rparr>) = totp_shown env now user secret code c d d'"
  "backup_shown env now user secret code b d (d'\<lparr>sessions := ss\<rparr>) = backup_shown env now user secret code b d d'"
  "backup_shown env now user secret code b d (d'\<lparr>audit_log := al\<rparr>) = backup_shown env now user secret code b d d'"
  by (simp_all add: totp_shown_def backup_shown_def)

text \<open>Nothing speaks against the call: no fault, room in the limiter, an enrolled secret, a fresh code and
  the session of the presented token.\<close>

definition may_verify :: "env \<Rightarrow> reqctx \<Rightarrow> User \<Rightarrow> string \<Rightarrow> world \<Rightarrow> bool" where
  "may_verify env ctx user code w \<longleftrightarrow> faults w = [] \<and>
     limiter_admits env (''totp:attempt:'' @ Id user) totpAttemptLimit totpAttemptWindow w
     \<and> (case totp_GetByUserID (Id user) (totp_secrets (dbs w)) of Inl _ \<Rightarrow> False
        | Inr row \<Rightarrow> Enabled row \<and> (case Decrypt env (EncryptionKey env) (SecretEnc row) of Inl _ \<Rightarrow> False
            | Inr secret \<Rightarrow> fresh_code env (clock w) user secret code (dbs w)))
     \<and> ctx_authorization ctx \<noteq> []
     \<and> (\<exists>sess. sess_GetByTokenHash (HashToken (ctx_authorization ctx)) (sessions (dbs w)) = Inr sess)"

lemma VerifyTOTP_effect:
  assumes "ctx_user ctx = Some user"
  shows "wp (VerifyTOTP env ctx code) (\<lambda>r w'.
     case r of Inr tok \<Rightarrow> tok = ctx_authorization ctx \<and> (\<exists>row secret sess.
         totp_GetByUserID (Id user) (totp_secrets (dbs w)) = Inr row \<and> Enabled row
         \<and> Decrypt env (EncryptionKey env) (SecretEnc row) = Inr secret
         \<and> ((\<exists>c. totp_shown env (clock w) user secret code c (dbs w) (dbs w')) \<or> (\<exists>b. backup_shown env (clock w) user secret code b (dbs w) (dbs w')))
         \<and> sess_GetByTokenHash (HashToken tok) (sessions (dbs w)) = Inr sess
         \<and> sessions (dbs w') = sess_MarkTOTPVerified (ID_s sess) (sessions (dbs w)))
     | Inl e \<Rightarrow> sessions (dbs w') = sessions (dbs w) \<and> \<not> may_verify env ctx user code w) w"
  unfolding VerifyTOTP_def assms option.case
  apply (intro wp_first wp_after; simp add: after_def)
  apply (auto simp: may_verify_def)
  done

section \<open>A time step is accepted once\<close>

definition step_used :: "string \<Rightarrow> 64 word \<Rightarrow> db \<Rightarrow> bool" where
  "step_used u c d \<longleftrightarrow> totp_keys (totp_secrets d) \<and> totp_used u c (totp_secrets d)"

lemma totp_keys_Consume: "totp_keys t \<Longrightarrow> totp_keys (snd (totp_ConsumeCounter v c t))"
  by (simp add: totp_keys_def totp_ConsumeCounter_snd map_update_where)

lemma VerifyTOTP_consumes:
  assumes "\<And>d ss. Q d \<Longrightarrow> Q (d\<lparr>sessions := ss\<rparr>)" "\<And>d bs. Q d \<Longrightarrow> Q (d\<lparr>backup_codes := bs\<rparr>)" "\<And>d al. Q d \<Longrightarrow> Q (d\<lparr>audit_log := al\<rparr>)"
    and "\<And>d v c. Q d \<Longrightarrow> Q (d\<lparr>totp_secrets := snd (totp_ConsumeCounter v c (totp_secrets d))\<rparr>)"
  shows "db_keeps Q (VerifyTOTP env ctx code)"
proof -
  have consume: "db_keeps Q (consumeTOTPCode env u c)" for u c
    unfolding consumeTOTPCode_def
    by (intro db_intros audit_db db_keeps_exec) (auto simp: case_prod_beta assms)
  have attempt: "db_keeps Q (checkTOTPAttempt env u)" for u
    unfolding checkTOTPAttempt_def by (intro db_intros audit_db assms(3))
  have mark: "db_keeps Q (upd (\<lambda>now d. d\<lparr>backup_codes := f now d\<rparr>))" "db_keeps Q (upd (\<lambda>now d. d\<lparr>sessions := g now d\<rparr>))" for f g
    by (auto intro!: db_keeps_upd assms)
  have "db_keeps Q (second_factor env u s code)" for u s
    unfolding second_factor_def by (intro db_intros consume mark) (auto split: bool.splits intro!: db_intros consume mark)
  then show ?thesis
    unfolding VerifyTOTP_def by (intro db_intros attempt mark audit_db assms(3))
qed

lemma VerifyTOTP_totp_keys: "db_keeps (\<lambda>d. totp_keys (totp_secrets d)) (VerifyTOTP env ctx code)"
  by (rule VerifyTOTP_consumes) (simp_all add: totp_keys_Consume)

lemma VerifyTOTP_step_used: "db_keeps (step_used u c) (VerifyTOTP env ctx code)"
  by (rule VerifyTOTP_consumes) (simp_all add: step_used_def totp_keys_Consume totp_ConsumeCounter_keeps)

text \<open>The time step a call was accepted with, if it was accepted with a TOTP code of account \<open>u\<close>.\<close>

definition accepted_step :: "env \<Rightarrow> string \<Rightarrow> reqctx \<Rightarrow> string \<Rightarrow> world \<Rightarrow> string res \<Rightarrow> 64 word list" where
  "accepted_step env u ctx code w r = (case (ctx_user ctx, r) of
     (Some user, Inr _) \<Rightarrow>
       if Id user \<noteq> u then []
       else (case totp_GetByUserID u (totp_secrets (dbs w)) of
         Inl _ \<Rightarrow> []
       | Inr row \<Rightarrow> (case Decrypt env (EncryptionKey env) (SecretEnc row) of
           Inl _ \<Rightarrow> []
         | Inr secret \<Rightarrow> (case ValidateCodeCounter env secret code (clock w) of Inr (c, True) \<Rightarrow> [c] | _ \<Rightarrow> [])))
   | _ \<Rightarrow> [])"

text \<open>Calls of \<open>VerifyTOTP\<close>, by anyone, at given times; the steps accepted for account \<open>u\<close>.\<close>

fun accepted_steps :: "env \<Rightarrow> string \<Rightarrow> (time \<times> reqctx \<times> string) list \<Rightarrow> world \<Rightarrow> 64 word list" where
  "accepted_steps env u [] w = []"
| "accepted_steps env u ((t, ctx, code) # as) w = (case run (VerifyTOTP env ctx code) (w\<lparr>clock := t\<rparr>) of
     (r, w') \<Rightarrow> accepted_step env u ctx code (w\<lparr>clock := t\<rparr>) r @ accepted_steps env u as w')"

lemma accepted_step_consumes:
  assumes "run (VerifyTOTP env ctx code) w = (r, w')" and "c \<in> set (accepted_step env u ctx code w r)"
  shows "fst (totp_ConsumeCounter u c (totp_secrets (dbs w))) = Inr ()
    \<and> totp_secrets (dbs w') = snd (totp_ConsumeCounter u c (totp_secrets (dbs w)))
    \<and> accepted_step env u ctx code w r = [c]"
proof -
  obtain user tok row secret where u: "ctx_user ctx = Some user" "r = Inr tok" "Id user = u"
    and row: "totp_GetByUserID u (totp_secrets (dbs w)) = Inr row"
    and secret: "Decrypt env (EncryptionKey env) (SecretEnc row) = Inr secret"
    and c: "ValidateCodeCounter env secret code (clock w) = Inr (c, True)"
    using assms(2) unfolding accepted_step_def
    by (cases "ctx_user ctx"; cases r) (auto split: sum.splits if_splits prod.splits bool.splits)
  from wp_run [OF VerifyTOTP_effect [OF u(1)] assms(1)] u row secret c
  show ?thesis by (auto simp: totp_shown_def backup_shown_def accepted_step_def)
qed

lemma accepted_step_exceeds:
  assumes "step_used u b (dbs w)" and "run (VerifyTOTP env ctx code) w = (r, w')"
    and "c \<in> set (accepted_step env u ctx code w r)"
  shows "sint b < sint c"
proof (rule ccontr)
  assume "\<not> sint b < sint c"
  with assms(1) have "step_used u c (dbs w)" by (auto simp: step_used_def totp_used_def split: option.splits)
  with totp_ConsumeCounter_refused accepted_step_consumes [OF assms(2,3)] show False by (fastforce simp: step_used_def)
qed

lemma accepted_above:
  assumes "step_used u b (dbs w)"
  shows "\<forall>c \<in> set (accepted_steps env u as w). sint b < sint c"
  using assms
proof (induction as arbitrary: w)
  case (Cons a as)
  obtain t ctx code where a: "a = (t, ctx, code)" by (cases a)
  obtain r w' where run: "run (VerifyTOTP env ctx code) (w\<lparr>clock := t\<rparr>) = (r, w')" by fastforce
  have "step_used u b (dbs w')" using db_keeps_run [OF VerifyTOTP_step_used run] Cons.prems by simp
  with Cons.IH accepted_step_exceeds [OF _ run] Cons.prems show ?case by (auto simp: a run)
qed simp

lemma accepted_increasing:
  assumes "totp_keys (totp_secrets (dbs w))"
  shows "sorted_wrt (\<lambda>a b. sint a < sint b) (accepted_steps env u as w)"
  using assms
proof (induction as arbitrary: w)
  case (Cons a as)
  obtain t ctx code where a: "a = (t, ctx, code)" by (cases a)
  obtain r w' where run: "run (VerifyTOTP env ctx code) (w\<lparr>clock := t\<rparr>) = (r, w')" by fastforce
  have keep: "totp_keys (totp_secrets (dbs w'))" using db_keeps_run [OF VerifyTOTP_totp_keys run] Cons.prems by simp
  show ?case
  proof (cases "accepted_step env u ctx code (w\<lparr>clock := t\<rparr>) r")
    case Nil
    with Cons.IH [OF keep] show ?thesis by (simp add: a run)
  next
    case (Cons c cs)
    from accepted_step_consumes [OF run, of c u] Cons
    have c: "fst (totp_ConsumeCounter u c (totp_secrets (dbs w))) = Inr ()"
      "totp_secrets (dbs w') = snd (totp_ConsumeCounter u c (totp_secrets (dbs w)))" "cs = []" by simp_all
    have "step_used u c (dbs w')" using keep totp_ConsumeCounter_uses [OF c(1)] c(2) by (simp add: step_used_def)
    with accepted_above Cons.IH [OF keep] Cons c(3) show ?thesis by (simp add: a run)
  qed
qed simp

section \<open>An enrolled account\<close>

definition demo_totp :: totp_row where
  "demo_totp = \<lparr>tp_id = demo_hex 5, tp_user_id = demo_hex 1, tp_secret_enc = hexEncode (replicate 12 (CHR ''n'') @ ''seed''),
     tp_enabled = True, tp_enrolled_at = Some 0, tp_create_time = 0, tp_last_used_counter = None\<rparr>"

definition demo_ctx :: reqctx where
  "demo_ctx = \<lparr>ctx_user = Some (scanSQLiteUser demo_user), ctx_authorization = ''hds_sess_a'', ctx_scopes = Some UnrestrictedScopes\<rparr>"

definition demo_enrolled :: world where
  "demo_enrolled = demo_world\<lparr>dbs := (dbs demo_world)\<lparr>totp_secrets := [demo_totp]\<rparr>\<rparr>"

lemma demo_key: "hexDecode (replicate 64 (CHR ''0'')) = Some (replicate 32 (CHR 0x00))"
  by code_simp

lemma demo_secret: "Decrypt demo_env (EncryptionKey demo_env) (tp_secret_enc demo_totp) = Inr ''seed''"
  by (simp add: Decrypt_def demo_key[simplified] demo_totp_def NonceSize_def)

lemma demo_user_id: "ID (Id (scanSQLiteUser demo_user)) = demo_hex 1"
  by (simp add: scanSQLiteUser_def demo_user_def ID_Canonical)

lemma demo_code: "ValidateCodeCounter demo_env ''seed'' ''123456'' (1000 * Second) = Inr (32, True)"
  by (simp add: ValidateCodeCounter_def time_steps_def Let_def Period_def)

lemma demo_totp_found:
  "totp_GetByUserID (Id (scanSQLiteUser demo_user)) [demo_totp] = Inr (scan_totp demo_totp)"
  "Enabled (scan_totp demo_totp)" "SecretEnc (scan_totp demo_totp) = tp_secret_enc demo_totp"
  by (simp_all add: totp_GetByUserID_def query_row_def demo_user_id scan_totp_def demo_totp_def)

lemma demo_may_verify: "may_verify demo_env demo_ctx (scanSQLiteUser demo_user) ''123456'' demo_enrolled"
proof -
  have l: "limiter_admits demo_env k totpAttemptLimit totpAttemptWindow demo_enrolled" for k
    by (rule limiter_empty) (simp_all add: demo_enrolled_def totpAttemptLimit_def)
  have c: "fst (totp_ConsumeCounter (Id (scanSQLiteUser demo_user)) 32 [demo_totp]) = Inr ()"
    by (simp add: totp_ConsumeCounter_ok demo_user_id demo_totp_def)
  show ?thesis
    using l c demo_totp_found demo_secret demo_code
    by (simp add: may_verify_def fresh_code_def demo_enrolled_def demo_ctx_def sess_GetByTokenHash_def query_row_def demo_session_def)
qed

lemma demo_ctx_simps [simp]: "ctx_user demo_ctx = Some (scanSQLiteUser demo_user)" "ctx_authorization demo_ctx = ''hds_sess_a''"
  by (simp_all add: demo_ctx_def)

lemma demo_verified: "\<exists>w'. run (VerifyTOTP demo_env demo_ctx ''123456'') demo_enrolled = (Inr ''hds_sess_a'', w')"
proof -
  obtain r w' where r: "run (VerifyTOTP demo_env demo_ctx ''123456'') demo_enrolled = (r, w')" by fastforce
  from wp_run [OF VerifyTOTP_effect r] demo_may_verify obtain tok where "r = Inr tok" "tok = ctx_authorization demo_ctx"
    by (cases r) auto
  with r show ?thesis by simp
qed

section \<open>Properties\<close>



text \<open>C8. A TOTP code is single-use: over any sequence of calls, by any callers, at any times and
  under any pattern of failures, the time steps with which \<open>VerifyTOTP\<close> succeeds for an account are
  strictly increasing.\<close>

theorem totp_steps_increase:
  assumes "totp_keys (totp_secrets (dbs w))"
  shows "sorted_wrt (\<lambda>a b. sint a < sint b) (accepted_steps env u calls w)"
  using assms by (rule accepted_increasing)

theorem totp_steps_increase_witness:
  "\<exists>later. accepted_steps demo_env (Id (scanSQLiteUser demo_user))
     [(1000 * Second, demo_ctx, ''123456''), (1010 * Second, demo_ctx, ''123456'')] demo_enrolled = 32 # later \<and> 32 \<notin> set later"
proof -
  let ?u = "Id (scanSQLiteUser demo_user)"
  let ?calls = "[(1000 * Second, demo_ctx, ''123456''), (1010 * Second, demo_ctx, ''123456'')]"
  have k: "totp_keys (totp_secrets (dbs demo_enrolled))" by (simp add: demo_enrolled_def totp_keys_def)
  obtain w' where r: "run (VerifyTOTP demo_env demo_ctx ''123456'') demo_enrolled = (Inr ''hds_sess_a'', w')"
    using demo_verified by blast
  have c: "demo_enrolled\<lparr>clock := 1000 * Second\<rparr> = demo_enrolled" "clock demo_enrolled = 1000 * Second"
    "totp_secrets (dbs demo_enrolled) = [demo_totp]"
    by (simp_all add: demo_enrolled_def)
  have "accepted_step demo_env ?u demo_ctx ''123456'' demo_enrolled (Inr tok) = [32]" for tok
    using demo_totp_found demo_secret demo_code by (simp add: accepted_step_def c)
  then obtain later where l: "accepted_steps demo_env ?u ?calls demo_enrolled = 32 # later"
    using c(1) r by (simp split: prod.splits)
  with totp_steps_increase [OF k, of demo_env ?u ?calls] show ?thesis by auto
qed

text \<open>C39. \<open>Decrypt\<close> inverts \<open>Encrypt\<close>: what \<open>Encrypt\<close> stores under a key is read back under that key,
  given that AES-GCM opens what it sealed and that the random source fills the nonce.\<close>

theorem encrypt_round_trip:
  assumes "\<And>k n p. Open env k n (Seal env k n p) = Some p" and "\<And>m. NonceSize \<le> length (random env m)"
    and "run (Encrypt env key plaintext) w = (Inr c, w')"
  shows "Decrypt env key c = Inr plaintext"
proof -
  have "wp (Encrypt env key plaintext) (\<lambda>r w'. \<forall>c. r = Inr c \<longrightarrow> Decrypt env key c = Inr plaintext) w"
    unfolding Encrypt_def by (intro wp_intros) (use assms(1,2) in \<open>auto simp: Decrypt_def\<close>)
  from wp_run [OF this assms(3)] show ?thesis by simp
qed

theorem encrypt_round_trip_witness:
  "\<exists>c w'. run (Encrypt (demo_env\<lparr>Seal := \<lambda>k n p. p\<rparr>) (EncryptionKey demo_env) ''seed'') demo_world = (Inr c, w')
     \<and> Decrypt (demo_env\<lparr>Seal := \<lambda>k n p. p\<rparr>) (EncryptionKey demo_env) c = Inr ''seed''"
proof -
  let ?env = "demo_env\<lparr>Seal := \<lambda>k n p. p\<rparr>"
  have "\<exists>c w'. run (Encrypt ?env (EncryptionKey demo_env) ''seed'') demo_world = (Inr c, w')"
    by (simp add: Encrypt_def demo_key [simplified] rand_Read_def io_def)
  then obtain c w' where r: "run (Encrypt ?env (EncryptionKey demo_env) ''seed'') demo_world = (Inr c, w')" by blast
  have "Decrypt ?env (EncryptionKey demo_env) c = Inr ''seed''"
    by (rule encrypt_round_trip [OF _ _ r]) (simp_all add: demo_hex_def NonceSize_def)
  with r show ?thesis by blast
qed

end
