(* ===== verification/Token_Facts.thy ===== *)
theory Token_Facts
  imports Auth_Tokens Totp_Facts
begin

text \<open>
  What the device flow, the access tokens and their revocation guarantee.  \<open>grant_fact\<close> is the contract
  of a fact about device grants that no operation of their store undoes; it is interpreted for the
  key constraints, for a code that was exchanged and for a code that was approved by an account.
\<close>

section \<open>The device flow\<close>

text \<open>The row that \<open>apitoken.Create\<close> adds.\<close>

definition new_token :: "string \<Rightarrow> time \<Rightarrow> string \<Rightarrow> string \<Rightarrow> string \<Rightarrow> string \<Rightarrow> string list \<Rightarrow> time option \<Rightarrow> token_row" where
  "new_token i now u nm p h sc e = \<lparr>tk_id = i, tk_user_id = ID u, tk_name = nm, tk_prefix = p,
     tk_token_hash = h, tk_scopes = Some (encodeScopes sc), tk_expires_at = e, tk_last_used_at = None,
     tk_revoked_at = None, tk_create_time = datetime now\<rparr>"

lemma token_created:
  "(case pat_Create i now u nm p h sc e (api_tokens d) of (r, t) \<Rightarrow> (r, d\<lparr>api_tokens := t\<rparr>)) = (Inr x, d') \<Longrightarrow>
   i \<notin> tk_id ` set (api_tokens d) \<and> h \<notin> tk_token_hash ` set (api_tokens d)
   \<and> x = scanSQLiteAPITokenRow (new_token i now u nm p h sc e)
   \<and> d' = d\<lparr>api_tokens := api_tokens d @ [new_token i now u nm p h sc e]\<rparr>"
  by (auto simp: pat_Create_def new_token_def Let_def split: if_splits)

lemma token_not_created:
  "(case pat_Create i now u nm p h sc e (api_tokens d) of (r, t) \<Rightarrow> (r, d\<lparr>api_tokens := t\<rparr>)) = (Inl er, d') \<Longrightarrow>
   d' = d \<and> (i \<in> tk_id ` set (api_tokens d) \<or> h \<in> tk_token_hash ` set (api_tokens d))"
  by (auto simp: pat_Create_def Let_def split: if_splits)

lemma token_attached:
  "(case grant_AttachToken g k (device_grants d) of (r, t) \<Rightarrow> (r, d\<lparr>device_grants := t\<rparr>)) = (Inr x, d') \<Longrightarrow>
   (\<exists>r \<in> set (device_grants d). dg_id r = UUID g \<and> dg_api_token_id r = None)
   \<and> d' = d\<lparr>device_grants := snd (grant_AttachToken g k (device_grants d))\<rparr>"
  by (auto simp: grant_AttachToken_def Let_def split: if_splits)

lemma token_not_attached:
  "(case grant_AttachToken g k (device_grants d) of (r, t) \<Rightarrow> (r, d\<lparr>device_grants := t\<rparr>)) = (Inl e, d') \<Longrightarrow>
   \<not> (\<exists>r \<in> set (device_grants d). dg_id r = UUID g \<and> dg_api_token_id r = None)"
  by (auto simp: grant_AttachToken_def Let_def split: if_splits)

lemma ID_t_new_token [simp]: "ID_t (scanSQLiteAPITokenRow (new_token i now u nm p h sc e)) = Canonical i"
  by (simp add: scanSQLiteAPITokenRow_def new_token_def)

section \<open>The device flow\<close>

definition issued_to :: "string \<Rightarrow> uuid \<Rightarrow> string \<Rightarrow> string \<Rightarrow> string \<Rightarrow> time \<Rightarrow> db \<Rightarrow> db" where
  "issued_to u g p h i now d = d\<lparr>api_tokens := api_tokens d @ [new_token i now u ''device-flow'' p h deviceTokenScopes None],
     device_grants := snd (grant_AttachToken g (Canonical i) (device_grants d))\<rparr>"

text \<open>Neither the generated key nor the new hash collides, and the grant has no token yet.\<close>

definition room_for_token :: "env \<Rightarrow> uuid \<Rightarrow> string \<Rightarrow> db \<Rightarrow> bool" where
  "room_for_token env g h d \<longleftrightarrow> (\<forall>n. \<forall>x \<in> set (api_tokens d). new_id env n \<noteq> tk_id x) \<and> h \<notin> tk_token_hash ` set (api_tokens d)
     \<and> (\<exists>r \<in> set (device_grants d). dg_id r = UUID g \<and> dg_api_token_id r = None)"

lemma issue_device_token_after [wp_after]:
  assumes "\<And>e w'. faults w \<noteq> [] \<or> \<not> room_for_token env g h (dbs w) \<Longrightarrow> after w (dbs w) w' \<Longrightarrow> Q (Inl e) w'"
    and "\<And>i w'. i \<notin> tk_id ` set (api_tokens (dbs w)) \<Longrightarrow> h \<notin> tk_token_hash ` set (api_tokens (dbs w)) \<Longrightarrow>
        \<exists>r \<in> set (device_grants (dbs w)). dg_id r = UUID g \<and> dg_api_token_id r = None \<Longrightarrow>
        after w (issued_to u g p h i (clock w) (dbs w)) w' \<Longrightarrow> Q (Inr ()) w'"
  shows "wp (issue_device_token env u g p h) Q w"
proof -
  have ok': "Q (Inr ()) w'" if "i \<notin> tk_id ` set (api_tokens (dbs w))" "h \<notin> tk_token_hash ` set (api_tokens (dbs w))"
      "r \<in> set (device_grants (dbs w))" "dg_id r = UUID g" "dg_api_token_id r = None"
      "dbs w' = issued_to u g p h i (clock w) (dbs w)" "repos w' = repos w" "clock w' = clock w" "faults w = [] \<longrightarrow> faults w' = []" for i r w'
    using assms(2) [of i w'] that by (auto simp: after_def)
  have err: "Q (Inl e) w'" if "faults w \<noteq> [] \<or> \<not> room_for_token env g h (dbs w)"
      "dbs w' = dbs w" "repos w' = repos w" "clock w' = clock w" "faults w = [] \<longrightarrow> faults w' = []" for e w'
    using assms(1) [of w'] that by (simp add: after_def)
  show ?thesis
    unfolding issue_device_token_def
    by ((intro wp_first wp_after; simp add: after_def),
        auto simp: issued_to_def room_for_token_def dest!: token_created token_not_created token_attached token_not_attached
          intro!: err intro: ok') fastforce+
qed

text \<open>Nothing speaks against handing out the token of an approved device code.\<close>

definition may_exchange :: "env \<Rightarrow> request \<Rightarrow> string \<Rightarrow> world \<Rightarrow> bool" where
  "may_exchange env req code w \<longleftrightarrow> faults w = []
     \<and> limiter_admits env (''devpoll:ip:'' @ (case SplitHostPort (rq_peer req) of Some h \<Rightarrow> h | None \<Rightarrow> rq_peer req)) 20 Minute w
     \<and> (\<exists>grant. grant_GetByDeviceCodeHash (HashToken code) (device_grants (dbs w)) = Inr grant
          \<and> clock w \<le> ExpiresAt_d grant \<and> ApprovedAt grant \<noteq> None \<and> UserID_d grant \<noteq> None \<and> APITokenID grant = None
          \<and> (\<forall>tok. HasPrefix tok APITokenPrefix \<longrightarrow> room_for_token env (ID_d grant) (HashToken tok) (dbs w)))"

lemma PollDeviceToken_effect:
  "wp (PollDeviceToken env req code) (\<lambda>r w'.
     case r of
       Inr (Issued tok) \<Rightarrow> (\<exists>grant u p i al. grant_GetByDeviceCodeHash (HashToken code) (device_grants (dbs w)) = Inr grant
         \<and> clock w \<le> ExpiresAt_d grant \<and> ApprovedAt grant \<noteq> None \<and> UserID_d grant = Some u \<and> APITokenID grant = None
         \<and> i \<notin> tk_id ` set (api_tokens (dbs w)) \<and> HashToken tok \<notin> tk_token_hash ` set (api_tokens (dbs w))
         \<and> HasPrefix tok APITokenPrefix
         \<and> dbs w' = (issued_to u (ID_d grant) p (HashToken tok) i (clock w) (dbs w))\<lparr>audit_log := al\<rparr>)
     | _ \<Rightarrow> dbs w' = dbs w \<and> \<not> may_exchange env req code w) w"
  unfolding PollDeviceToken_def Let_def
  by (intro wp_first wp_after; simp add: after_def) (auto simp: may_exchange_def)

lemma grant_not_approved:
  "(case grant_Approve now g u (device_grants d) of (r, t) \<Rightarrow> (r, d\<lparr>device_grants := t\<rparr>)) = (Inl e, d') \<Longrightarrow>
   d' = d \<and> \<not> (\<exists>r \<in> set (device_grants d). dg_id r = UUID g \<and> dg_approved_at r = None)"
  by (auto simp: grant_Approve_def Let_def update_where_idle split: if_splits)

lemma grant_newly_approved:
  "(case grant_Approve now g u (device_grants d) of (r, t) \<Rightarrow> (r, d\<lparr>device_grants := t\<rparr>)) = (Inr x, d') \<Longrightarrow>
   (\<exists>r \<in> set (device_grants d). dg_id r = UUID g \<and> dg_approved_at r = None)
   \<and> d' = d\<lparr>device_grants := snd (grant_Approve now g u (device_grants d))\<rparr>"
  by (auto simp: grant_Approve_def Let_def split: if_splits)

definition may_approve :: "env \<Rightarrow> User \<Rightarrow> string \<Rightarrow> world \<Rightarrow> bool" where
  "may_approve env user uc w \<longleftrightarrow> faults w = []
     \<and> limiter_admits env (''devapprove:user:'' @ Id user) 10 Minute w
     \<and> (\<exists>grant. grant_GetByUserCode uc (device_grants (dbs w)) = Inr grant \<and> clock w \<le> ExpiresAt_d grant \<and> ApprovedAt grant = None
          \<and> (\<exists>r \<in> set (device_grants (dbs w)). dg_id r = UUID (ID_d grant) \<and> dg_approved_at r = None))"

lemma ApproveDeviceGrant_effect:
  assumes "ctx_user ctx = Some user"
  shows "wp (ApproveDeviceGrant env ctx uc) (\<lambda>r w'.
     case r of
       Inr _ \<Rightarrow> (\<exists>grant al. grant_GetByUserCode uc (device_grants (dbs w)) = Inr grant
         \<and> clock w \<le> ExpiresAt_d grant \<and> ApprovedAt grant = None
         \<and> dbs w' = (dbs w)\<lparr>device_grants := snd (grant_Approve (clock w) (ID_d grant) (Id user) (device_grants (dbs w))), audit_log := al\<rparr>)
     | Inl e \<Rightarrow> dbs w' = dbs w \<and> \<not> may_approve env user uc w) w"
  unfolding ApproveDeviceGrant_def assms option.case
  by (intro wp_first wp_after; simp add: after_def)
    (auto simp: may_approve_def dest!: grant_not_approved grant_newly_approved)

text \<open>A fact about the grants that no operation of their store undoes is kept by the handlers.\<close>

fun grant_op_ok :: "grant_op \<Rightarrow> bool" where
  "grant_op_ok (GCreate i n h c e) = is_hex32 i"
| "grant_op_ok _ = True"

locale grant_fact =
  fixes Q :: "grant_row list \<Rightarrow> bool"
  assumes grant_steps: "Q t \<Longrightarrow> grant_op_ok a \<Longrightarrow> Q (grant_step a t)"
begin

lemma frames:
  "Q (device_grants d) \<Longrightarrow> Q (device_grants (d\<lparr>audit_log := al\<rparr>))" "Q (device_grants d) \<Longrightarrow> Q (device_grants (d\<lparr>api_tokens := ts\<rparr>))"
  by simp_all

lemma RequestDeviceCode_grants:
  assumes "\<And>n. is_hex32 (new_id env n)"
  shows "db_keeps (\<lambda>d. Q (device_grants d)) (RequestDeviceCode env)"
proof -
  have "db_keeps P (user_code_from env n)" for n P
    by (induction n) (auto simp: rand_Int_def intro!: db_intros)
  then show ?thesis
    unfolding RequestDeviceCode_def generateUserCode_def
    using grant_steps [of _ "GCreate (new_id env k) n dh uc ex" for k n dh uc ex] assms
    by (intro db_intros db_keeps_insert_id) (auto simp: case_prod_beta)
qed

lemma ApproveDeviceGrant_grants: "db_keeps (\<lambda>d. Q (device_grants d)) (ApproveDeviceGrant env ctx c)"
  unfolding ApproveDeviceGrant_def using grant_steps [of _ "GApprove n i u" for n i u]
  by (intro db_intros audit_db db_keeps_exec) (auto simp: case_prod_beta)

lemma PollDeviceToken_grants: "db_keeps (\<lambda>d. Q (device_grants d)) (PollDeviceToken env req c)"
  unfolding PollDeviceToken_def issue_device_token_def Let_def using grant_steps [of _ "GAttachToken i k" for i k]
  by (intro db_intros audit_db db_keeps_exec db_keeps_insert) (auto simp: case_prod_beta)

end

text \<open>The code was exchanged; the code was approved by the account stored as \<open>u\<close>.\<close>

definition device_keys :: "grant_row list \<Rightarrow> bool" where
  "device_keys t \<longleftrightarrow> grant_keys t \<and> (\<forall>r \<in> set t. is_hex32 (dg_id r))"

definition device_issued :: "string \<Rightarrow> grant_row list \<Rightarrow> bool" where
  "device_issued h t \<longleftrightarrow> device_keys t \<and> (\<exists>r \<in> set t. dg_device_code_hash r = h \<and> dg_api_token_id r \<noteq> None)"

definition device_owner :: "string \<Rightarrow> string \<Rightarrow> grant_row list \<Rightarrow> bool" where
  "device_owner h u t \<longleftrightarrow> device_keys t
     \<and> (\<exists>r \<in> set t. dg_device_code_hash r = h \<and> dg_approved_at r \<noteq> None \<and> dg_user_id r = Some u)"

lemma grant_by_hash:
  assumes "device_keys t" and "r \<in> set t" and "dg_device_code_hash r = h"
  shows "grant_GetByDeviceCodeHash h t = Inr (scanSQLiteDeviceGrant r)"
  using assms find_unique [of dg_device_code_hash t r]
  by (simp add: grant_GetByDeviceCodeHash_def query_row_def grant_keys_def device_keys_def)

lemma device_keys_step: "device_keys t \<Longrightarrow> grant_op_ok a \<Longrightarrow> device_keys (grant_step a t)"
  by (cases a) (use grant_step_keys [of t a] in \<open>auto simp: device_keys_def grant_Create_def grant_snd ball_update_where\<close>)

interpretation grants_keyed: grant_fact device_keys
  by unfold_locales (rule device_keys_step)

lemma grant_step_bex:
  assumes "\<exists>r \<in> set t. P r"
    and "\<And>r u n. P r \<Longrightarrow> dg_approved_at r = None \<Longrightarrow> P (r\<lparr>dg_user_id := Some u, dg_approved_at := Some n\<rparr>)"
    and "\<And>r k. P r \<Longrightarrow> dg_api_token_id r = None \<Longrightarrow> P (r\<lparr>dg_api_token_id := Some k\<rparr>)"
  shows "\<exists>r \<in> set (grant_step a t). P r"
  using assms by (cases a) (auto simp: grant_Create_def grant_snd intro!: bex_update_keeps)

interpretation code_exchanged: grant_fact "device_issued h" for h
  by unfold_locales (auto simp: device_issued_def device_keys_step intro!: grant_step_bex)

interpretation code_owned: grant_fact "device_owner h u" for h u
  by unfold_locales (auto simp: device_owner_def device_keys_step intro!: grant_step_bex)

text \<open>Calls of the device flow, by anyone, at given times.\<close>

datatype device_call = DRequest | DPoll request string | DApprove reqctx string

fun device_step :: "env \<Rightarrow> time \<times> device_call \<Rightarrow> world \<Rightarrow> world" where
  "device_step env (t, DRequest) w = snd (run (RequestDeviceCode env) (w\<lparr>clock := t\<rparr>))"
| "device_step env (t, DPoll req code) w = snd (run (PollDeviceToken env req code) (w\<lparr>clock := t\<rparr>))"
| "device_step env (t, DApprove ctx uc) w = snd (run (ApproveDeviceGrant env ctx uc) (w\<lparr>clock := t\<rparr>))"

text \<open>The tokens these calls issue for the device code with hash \<open>h\<close>.\<close>

fun issued_by :: "env \<Rightarrow> string \<Rightarrow> time \<times> device_call \<Rightarrow> world \<Rightarrow> string list" where
  "issued_by env h (t, DPoll req code) w =
     (case fst (run (PollDeviceToken env req code) (w\<lparr>clock := t\<rparr>)) of
        Inr (Issued tok) \<Rightarrow> if HashToken code = h then [tok] else []
      | _ \<Rightarrow> [])"
| "issued_by env h _ w = []"

fun issued_tokens :: "env \<Rightarrow> string \<Rightarrow> (time \<times> device_call) list \<Rightarrow> world \<Rightarrow> string list" where
  "issued_tokens env h [] w = []"
| "issued_tokens env h (c # cs) w = issued_by env h c w @ issued_tokens env h cs (device_step env c w)"

context grant_fact
begin

lemma device_step_grants:
  assumes "Q (device_grants (dbs w))" and ids: "\<And>n. is_hex32 (new_id env n)"
  shows "Q (device_grants (dbs (device_step env c w)))"
  using assms(1) RequestDeviceCode_grants [OF ids] ApproveDeviceGrant_grants PollDeviceToken_grants
  by (cases "(env, c, w)" rule: device_step.cases) (auto simp: db_keeps_def keeps_def)

lemma device_run_grants:
  assumes "\<And>n. is_hex32 (new_id env n)"
  shows "Q (device_grants (dbs w)) \<Longrightarrow> Q (device_grants (dbs (fold (device_step env) cs w)))"
  using assms by (induction cs arbitrary: w) (simp_all add: device_step_grants)

end

lemma poll_issued:
  assumes "run (PollDeviceToken env req code) w = (Inr (Issued tok), w')" and "device_keys (device_grants (dbs w))"
  obtains r p i where "r \<in> set (device_grants (dbs w))" "dg_device_code_hash r = HashToken code" "clock w \<le> dg_expires_at r"
    "dg_approved_at r \<noteq> None" "dg_api_token_id r = None" "HasPrefix tok APITokenPrefix"
    "dg_user_id r \<noteq> None" "i \<notin> tk_id ` set (api_tokens (dbs w))" "HashToken tok \<notin> tk_token_hash ` set (api_tokens (dbs w))"
    "api_tokens (dbs w') = api_tokens (dbs w) @ [new_token i (clock w) (Canonical (the (dg_user_id r))) ''device-flow'' p (HashToken tok) deviceTokenScopes None]"
    "device_grants (dbs w') = snd (grant_AttachToken (Canonical (dg_id r)) (Canonical i) (device_grants (dbs w)))"
proof -
  from wp_run [OF PollDeviceToken_effect assms(1)] obtain grant u p i al
    where g: "grant_GetByDeviceCodeHash (HashToken code) (device_grants (dbs w)) = Inr grant"
      "clock w \<le> ExpiresAt_d grant" "ApprovedAt grant \<noteq> None" "UserID_d grant = Some u" "APITokenID grant = None"
      "i \<notin> tk_id ` set (api_tokens (dbs w))" "HashToken tok \<notin> tk_token_hash ` set (api_tokens (dbs w))" "HasPrefix tok APITokenPrefix"
    and d: "dbs w' = (issued_to u (ID_d grant) p (HashToken tok) i (clock w) (dbs w))\<lparr>audit_log := al\<rparr>"
    by force
  from g(1) obtain r where r: "r \<in> set (device_grants (dbs w))" "dg_device_code_hash r = HashToken code" "grant = scanSQLiteDeviceGrant r"
    by (auto simp: grant_GetByDeviceCodeHash_def query_row_Inr dest: find_Some_in)
  show ?thesis
    by (rule that [of r i p]) (use r g d in \<open>auto simp: scanSQLiteDeviceGrant_def issued_to_def\<close>)
qed

lemma issued_by_exchanged:
  assumes "device_keys (device_grants (dbs w))" and "tok \<in> set (issued_by env h c w)" and ids: "\<And>n. is_hex32 (new_id env n)"
  shows "\<not> device_issued h (device_grants (dbs w)) \<and> device_issued h (device_grants (dbs (device_step env c w)))
    \<and> issued_by env h c w = [tok]"
proof -
  obtain t req code where c: "c = (t, DPoll req code)" "HashToken code = h"
    and i: "fst (run (PollDeviceToken env req code) (w\<lparr>clock := t\<rparr>)) = Inr (Issued tok)"
    using assms(2) by (cases "(env, h, c, w)" rule: issued_by.cases) (auto split: sum.splits poll_response.splits if_splits)
  obtain w' where run: "run (PollDeviceToken env req code) (w\<lparr>clock := t\<rparr>) = (Inr (Issued tok), w')"
    using i by (cases "run (PollDeviceToken env req code) (w\<lparr>clock := t\<rparr>)") simp
  obtain r k where r: "r \<in> set (device_grants (dbs w))" "dg_device_code_hash r = h" "dg_api_token_id r = None"
    and g: "device_grants (dbs w') = snd (grant_AttachToken (Canonical (dg_id r)) k (device_grants (dbs w)))"
    by (rule poll_issued [OF run]) (use assms(1) c(2) in auto)
  have id: "UUID (Canonical (dg_id r)) = dg_id r" using assms(1) r(1) by (simp add: device_keys_def UUID_def ID_Canonical)
  have dist: "distinct (map dg_device_code_hash (device_grants (dbs w)))" using assms(1) by (simp add: device_keys_def grant_keys_def)
  have "dg_api_token_id r' = None" if "r' \<in> set (device_grants (dbs w))" "dg_device_code_hash r' = h" for r'
    using distinct_map_eq [OF dist that(1) r(1)] that(2) r(2,3) by simp
  then have n: "\<not> device_issued h (device_grants (dbs w))" by (auto simp: device_issued_def)
  have "device_keys (device_grants (dbs w'))" using grants_keyed.device_step_grants [OF assms(1) ids, of c] run by (simp add: c)
  moreover have "\<exists>r \<in> set (device_grants (dbs w')). dg_device_code_hash r = h \<and> dg_api_token_id r \<noteq> None"
    using r by (auto simp: g grant_snd id bex_update_where)
  ultimately show ?thesis using n run c by (simp add: device_issued_def)
qed

lemma issued_at_most_once:
  assumes "device_keys (device_grants (dbs w))" and ids: "\<And>n. is_hex32 (new_id env n)"
  shows "length (issued_tokens env h cs w) \<le> (if device_issued h (device_grants (dbs w)) then 0 else 1)"
  using assms(1)
proof (induction cs arbitrary: w)
  case (Cons c cs)
  note step = Cons.IH [OF grants_keyed.device_step_grants [OF Cons.prems ids], of c]
  show ?case
  proof (cases "issued_by env h c w")
    case Nil
    with step code_exchanged.device_step_grants [OF _ ids, of h w c] show ?thesis by (auto split: if_splits)
  next
    case (Cons tok toks)
    with issued_by_exchanged [OF Cons.prems _ ids, of tok h c] step show ?thesis by simp
  qed
qed simp

lemma approval_owned:
  assumes "run (ApproveDeviceGrant env ctx uc) w = (Inr (), w')" and "ctx_user ctx = Some user"
    and "device_keys (device_grants (dbs w))" and "grant_GetByUserCode uc (device_grants (dbs w)) = Inr grant"
  shows "device_owner (DeviceCodeHash grant) (ID (Id user)) (device_grants (dbs w'))"
proof -
  from wp_run [OF ApproveDeviceGrant_effect [OF assms(2)] assms(1)] assms(4)
  have u: "ApprovedAt grant = None"
    and g: "device_grants (dbs w') = snd (grant_Approve (clock w) (ID_d grant) (Id user) (device_grants (dbs w)))" by auto
  from assms(4) obtain r where r: "r \<in> set (device_grants (dbs w))" "grant = scanSQLiteDeviceGrant r"
    by (auto simp: grant_GetByUserCode_def query_row_Inr dest: find_Some_in)
  have id: "UUID (ID_d grant) = dg_id r"
    using assms(3) r by (simp add: device_keys_def scanSQLiteDeviceGrant_def UUID_def ID_Canonical)
  have "device_keys (device_grants (dbs w'))"
    using device_keys_step [OF assms(3), of "GApprove (clock w) (ID_d grant) (Id user)"] by (simp add: g)
  moreover have "\<exists>r \<in> set (device_grants (dbs w')). dg_device_code_hash r = DeviceCodeHash grant \<and> dg_approved_at r \<noteq> None \<and> dg_user_id r = Some (ID (Id user))"
    unfolding g grant_snd bex_update_where id
    by (rule bexI [OF _ r(1)]) (use u r in \<open>simp add: scanSQLiteDeviceGrant_def\<close>)
  ultimately show ?thesis by (simp add: device_owner_def)
qed

lemma issued_to_owner:
  assumes "run (PollDeviceToken env req code) w = (Inr (Issued tok), w')" and "device_owner (HashToken code) u (device_grants (dbs w))"
  shows "\<exists>i p. api_tokens (dbs w') = api_tokens (dbs w) @ [new_token i (clock w) (Canonical u) ''device-flow'' p (HashToken tok) deviceTokenScopes None]"
proof -
  have k: "device_keys (device_grants (dbs w))" using assms(2) by (simp add: device_owner_def)
  have dist: "distinct (map dg_device_code_hash (device_grants (dbs w)))" using k by (simp add: device_keys_def grant_keys_def)
  obtain r i p where r: "r \<in> set (device_grants (dbs w))" "dg_device_code_hash r = HashToken code"
    and t: "api_tokens (dbs w') = api_tokens (dbs w) @ [new_token i (clock w) (Canonical (the (dg_user_id r))) ''device-flow'' p (HashToken tok) deviceTokenScopes None]"
    by (rule poll_issued [OF assms(1) k]) blast
  obtain o' where o: "o' \<in> set (device_grants (dbs w))" "dg_device_code_hash o' = HashToken code" "dg_user_id o' = Some u"
    using assms(2) by (auto simp: device_owner_def)
  have "o' = r" using distinct_map_eq [OF dist o(1) r(1)] o(2) r(2) by simp
  with t o(3) show ?thesis by auto
qed

section \<open>Access tokens\<close>

lemma validate_scopes_from_ok:
  "validate_scopes_from seen sc = Inr () \<longleftrightarrow> (\<forall>x \<in> set sc. IsKnownScope x) \<and> distinct sc \<and> set sc \<inter> seen = {}"
  by (induction sc arbitrary: seen) auto

lemma validateScopes_ok: "validateScopes sc = Inr () \<longleftrightarrow> sc \<noteq> [] \<and> (\<forall>x \<in> set sc. IsKnownScope x) \<and> distinct sc"
  by (simp add: validateScopes_def validate_scopes_from_ok)

lemma check_expiry_ok:
  "check_expiry now e = Inr () \<longleftrightarrow> (\<forall>t. e = Some t \<longrightarrow> now < t \<and> t \<le> now + maxAPITokenLifetime)"
  by (auto simp: check_expiry_def split: option.splits)

text \<open>The tokens \<open>CreateAPIToken\<close> counts: the live ones among the newest \<open>maxAPITokensPerUser + 1\<close> rows.\<close>

definition counted_live :: "time \<Rightarrow> string \<Rightarrow> token_row list \<Rightarrow> nat" where
  "counted_live now u t = length (filter (\<lambda>row. apiTokenStatus row now = ACTIVE) (pat_ListByUserID u (maxAPITokensPerUser + 1) 0 t))"

lemma CreateAPIToken_effect:
  assumes "ctx_user ctx = Some user"
  shows "wp (CreateAPIToken env ctx msg) (\<lambda>r w'.
     case r of
       Inr resp \<Rightarrow> validateScopes (ct_Scopes msg) = Inr () \<and> check_expiry (clock w) (ct_ExpiresAt msg) = Inr ()
         \<and> int (counted_live (clock w) (Id user) (api_tokens (dbs w))) < maxAPITokensPerUser
         \<and> HasPrefix (cr_Token resp) APITokenPrefix
         \<and> HashToken (cr_Token resp) \<notin> tk_token_hash ` set (api_tokens (dbs w))
         \<and> users (dbs w') = users (dbs w)
         \<and> (\<exists>i. i \<notin> tk_id ` set (api_tokens (dbs w)) \<and> cr_Id resp = Canonical i
              \<and> api_tokens (dbs w') = api_tokens (dbs w) @ [new_token i (clock w) (Id user) (ct_Name msg) (cr_Prefix resp)
                    (HashToken (cr_Token resp)) (ct_Scopes msg) (ct_ExpiresAt msg)])
     | Inl e \<Rightarrow> dbs w' = dbs w) w"
  unfolding CreateAPIToken_def assms option.case
  by (intro wp_first wp_after; simp add: after_def; (drule token_not_created token_created)?)
    (auto simp: counted_live_def)

section \<open>A device code that waits for approval\<close>

definition demo_grant :: grant_row where
  "demo_grant = \<lparr>dg_id = demo_hex 6, dg_device_code_hash = HashToken ''dev'', dg_user_code = ''ABCD-EFGH'', dg_user_id = None,
     dg_api_token_id = None, dg_approved_at = None, dg_expires_at = 2000 * Second, dg_create_time = 0\<rparr>"

definition demo_device :: world where
  "demo_device = demo_world\<lparr>dbs := (dbs demo_world)\<lparr>device_grants := [demo_grant], api_tokens := []\<rparr>\<rparr>"

lemma demo_device_simps [simp]:
  "device_grants (dbs demo_device) = [demo_grant]" "api_tokens (dbs demo_device) = []" "clock demo_device = 1000 * Second"
  "faults demo_device = []" "windows (mcache demo_device) = []"
  by (simp_all add: demo_device_def)

lemma demo_device_keys: "device_keys [demo_grant]"
  by (simp add: device_keys_def grant_keys_def demo_grant_def)

lemma demo_grant_found:
  "grant_GetByUserCode ''ABCD-EFGH'' [demo_grant] = Inr (scanSQLiteDeviceGrant demo_grant)"
  "grant_GetByDeviceCodeHash (HashToken ''dev'') [demo_grant] = Inr (scanSQLiteDeviceGrant demo_grant)"
  "DeviceCodeHash (scanSQLiteDeviceGrant demo_grant) = HashToken ''dev''"
  by (simp_all add: grant_GetByUserCode_def grant_GetByDeviceCodeHash_def query_row_def demo_grant_def scanSQLiteDeviceGrant_def)

definition demo_approval :: grant_row where
  "demo_approval = demo_grant\<lparr>dg_user_id := Some (demo_hex 1), dg_approved_at := Some (datetime (1000 * Second))\<rparr>"

lemma demo_approved:
  "\<exists>w1. run (ApproveDeviceGrant demo_env demo_ctx ''ABCD-EFGH'') demo_device = (Inr (), w1)
     \<and> api_tokens (dbs w1) = [] \<and> device_grants (dbs w1) = [demo_approval]"
proof -
  have id: "UUID (ID_d (scanSQLiteDeviceGrant demo_grant)) = dg_id demo_grant"
    by (simp add: scanSQLiteDeviceGrant_def demo_grant_def UUID_def ID_Canonical)
  have g: "snd (grant_Approve (1000 * Second) (ID_d (scanSQLiteDeviceGrant demo_grant)) (Id (scanSQLiteUser demo_user)) [demo_grant]) = [demo_approval]"
    unfolding grant_snd update_where_def id by (simp add: demo_approval_def demo_user_id demo_grant_def)
  have "limiter_admits demo_env k 10 Minute demo_device" for k
    by (rule limiter_empty) simp_all
  then have may: "may_approve demo_env (scanSQLiteUser demo_user) ''ABCD-EFGH'' demo_device"
    by (simp add: may_approve_def demo_grant_found id) (simp add: scanSQLiteDeviceGrant_def demo_grant_def)
  obtain r w1 where r: "run (ApproveDeviceGrant demo_env demo_ctx ''ABCD-EFGH'') demo_device = (r, w1)" by fastforce
  from wp_run [OF ApproveDeviceGrant_effect [OF demo_ctx_simps(1)] r] may
  show ?thesis using r g by (cases r) (auto simp: demo_grant_found)
qed

lemma demo_exchange:
  assumes "device_grants (dbs w) = [demo_approval]" and "api_tokens (dbs w) = []" and "faults w = []" and "windows (mcache w) = []"
    and "clock w = 1000 * Second"
  shows "\<exists>tok w'. run (PollDeviceToken demo_env demo_req ''dev'') w = (Inr (Issued tok), w')"
proof -
  have id: "UUID (ID_d (scanSQLiteDeviceGrant demo_approval)) = dg_id demo_approval"
    by (simp add: scanSQLiteDeviceGrant_def demo_approval_def demo_grant_def UUID_def ID_Canonical)
  have "limiter_admits demo_env k 20 Minute w" for k
    by (rule limiter_empty) (simp_all add: assms)
  moreover have "grant_GetByDeviceCodeHash (HashToken ''dev'') [demo_approval] = Inr (scanSQLiteDeviceGrant demo_approval)"
    by (simp add: grant_GetByDeviceCodeHash_def query_row_def demo_approval_def demo_grant_def)
  ultimately have may: "may_exchange demo_env demo_req ''dev'' w"
    unfolding may_exchange_def room_for_token_def
    by (simp add: assms id) (simp add: scanSQLiteDeviceGrant_def demo_approval_def demo_grant_def)
  obtain r w' where r: "run (PollDeviceToken demo_env demo_req ''dev'') w = (r, w')" by fastforce
  from wp_run [OF PollDeviceToken_effect r] may obtain tok where "r = Inr (Issued tok)"
    by (cases r rule: sum.exhaust; (cases "projr r")?) auto
  with r show ?thesis by blast
qed

section \<open>Properties\<close>

text \<open>C9. A device code is exchanged for at most one token: whatever the sequence of requests,
  approvals and polls, by whomever, at whatever times and under whatever failures, at most one
  poll with the code returns a token.\<close>

theorem device_code_exchanged_once:
  assumes "device_keys (device_grants (dbs w))" and "\<And>n. is_hex32 (new_id env n)"
  shows "length (issued_tokens env (HashToken code) calls w) \<le> 1"
  using issued_at_most_once [OF assms, of "HashToken code" calls] by (simp split: if_splits)

theorem device_code_exchanged_once_witness:
  "length (issued_tokens demo_env (HashToken ''dev'')
     [(1000 * Second, DApprove demo_ctx ''ABCD-EFGH''), (1000 * Second, DPoll demo_req ''dev''), (1001 * Second, DPoll demo_req ''dev'')] demo_device) \<le> 1"
  by (rule device_code_exchanged_once) (simp_all add: demo_device_keys)

text \<open>C10. The token of a device code belongs to the account that approved it: after a successful
  approval, no sequence of further requests, approvals and polls lets a poll with that code
  return a token of another account.  The token carries the device flow's scopes and is stored
  under its hash.\<close>

theorem device_token_for_approver:
  assumes "device_keys (device_grants (dbs w))" and "\<And>n. is_hex32 (new_id env n)"
    and "run (ApproveDeviceGrant env ctx uc) w = (Inr (), w1)" and "ctx_user ctx = Some user"
    and "grant_GetByUserCode uc (device_grants (dbs w)) = Inr grant"
    and "dbs w2 = dbs (fold (device_step env) calls w1)"
    and "run (PollDeviceToken env req code) w2 = (Inr (Issued tok), w3)" and "HashToken code = DeviceCodeHash grant"
  shows "\<exists>i p. api_tokens (dbs w3) = api_tokens (dbs w2) @
     [new_token i (clock w2) (Canonical (ID (Id user))) ''device-flow'' p (HashToken tok) deviceTokenScopes None]"
proof (rule issued_to_owner [OF assms(7)])
  have "device_owner (HashToken code) (ID (Id user)) (device_grants (dbs w1))"
    using approval_owned [OF assms(3,4,1,5)] assms(8) by simp
  then show "device_owner (HashToken code) (ID (Id user)) (device_grants (dbs w2))"
    unfolding assms(6) by (rule code_owned.device_run_grants [OF assms(2)])
qed

theorem device_token_for_approver_witness:
  "\<exists>w1 tok w3 row. run (ApproveDeviceGrant demo_env demo_ctx ''ABCD-EFGH'') demo_device = (Inr (), w1)
     \<and> run (PollDeviceToken demo_env demo_req ''dev'') (w1\<lparr>mcache := NewMemoryCache, faults := [], clock := 1000 * Second\<rparr>) = (Inr (Issued tok), w3)
     \<and> api_tokens (dbs w3) = [row] \<and> tk_user_id row = demo_hex 1"
proof -
  obtain w1 where w1: "run (ApproveDeviceGrant demo_env demo_ctx ''ABCD-EFGH'') demo_device = (Inr (), w1)"
    "api_tokens (dbs w1) = []" "device_grants (dbs w1) = [demo_approval]"
    using demo_approved by blast
  let ?w2 = "w1\<lparr>mcache := NewMemoryCache, faults := [], clock := 1000 * Second\<rparr>"
  obtain tok w3 where w3: "run (PollDeviceToken demo_env demo_req ''dev'') ?w2 = (Inr (Issued tok), w3)"
    using demo_exchange [of ?w2] w1 by (auto simp: NewMemoryCache_def)
  have k: "device_keys (device_grants (dbs demo_device))" by (simp add: demo_device_keys)
  have "\<exists>i p. api_tokens (dbs w3) = api_tokens (dbs ?w2) @
     [new_token i (clock ?w2) (Canonical (ID (Id (scanSQLiteUser demo_user)))) ''device-flow'' p (HashToken tok) deviceTokenScopes None]"
    by (rule device_token_for_approver [OF k _ w1(1) _ _ _ w3, where calls = "[]" and grant = "scanSQLiteDeviceGrant demo_grant"]) (simp_all add: demo_grant_found)
  with w1 w3 show ?thesis by (auto simp: demo_user_id new_token_def ID_Canonical)
qed

lemma UserFromToken_token:
  assumes "faults w = []" and "apitoken_wired env" and "HasPrefix tok APITokenPrefix" and "token_live (dbs w) (clock w) tok row u"
  shows "fst (run (UserFromToken env tok) w) = Inr (u, ScopesFromValues (Scopes_t row))"
proof -
  have "wp (UserFromToken env tok) (\<lambda>r w'. r = Inr (u, ScopesFromValues (Scopes_t row))) w"
    unfolding UserFromToken_def using assms prefixes_disjoint [of tok]
    by (auto intro!: wp_conseq [OF resolveAPIToken_complete])
  then show ?thesis by (auto simp: wp_def split: prod.splits)
qed

text \<open>C11. \<open>CreateAPIToken\<close> stores a token with a non-empty list of distinct known scopes; an expiry, if
  one was requested, lies in the future and at most a year away (a token requested without one never
  expires); and while the tables stay as they are and the expiry, if any, has not passed, the token it
  returns authenticates as the caller's account with exactly these scopes.\<close>

theorem created_token_authenticates:
  assumes "run (CreateAPIToken env ctx msg) w = (Inr resp, w1)" and "ctx_user ctx = Some user"
    and "user_GetByID (Canonical (ID (Id user))) (users (dbs w)) = Inr u" and "checkUserState u = Inr ()" and "apitoken_wired env"
    and "dbs w2 = dbs w1" and "faults w2 = []" and "\<And>t. ct_ExpiresAt msg = Some t \<Longrightarrow> clock w2 \<le> t"
  shows "ct_Scopes msg \<noteq> [] \<and> (\<forall>sc \<in> set (ct_Scopes msg). IsKnownScope sc) \<and> distinct (ct_Scopes msg)
     \<and> (\<forall>t. ct_ExpiresAt msg = Some t \<longrightarrow> clock w < t \<and> t \<le> clock w + 365 * 24 * Hour)
     \<and> fst (run (UserFromToken env (cr_Token resp)) w2) = Inr (u, ScopesFromValues (ct_Scopes msg))"
proof -
  obtain i where eff: "validateScopes (ct_Scopes msg) = Inr ()" "check_expiry (clock w) (ct_ExpiresAt msg) = Inr ()"
    "HasPrefix (cr_Token resp) APITokenPrefix" "HashToken (cr_Token resp) \<notin> tk_token_hash ` set (api_tokens (dbs w))"
    "users (dbs w1) = users (dbs w)"
    "api_tokens (dbs w1) = api_tokens (dbs w) @ [new_token i (clock w) (Id user) (ct_Name msg) (cr_Prefix resp)
        (HashToken (cr_Token resp)) (ct_Scopes msg) (ct_ExpiresAt msg)]"
    using wp_run [OF CreateAPIToken_effect [OF assms(2)] assms(1)] by auto
  let ?row = "new_token i (clock w) (Id user) (ct_Name msg) (cr_Prefix resp) (HashToken (cr_Token resp)) (ct_Scopes msg) (ct_ExpiresAt msg)"
  have none: "find (\<lambda>r. tk_token_hash r = HashToken (cr_Token resp)) (api_tokens (dbs w)) = None"
    using eff(4) by (rule find_key_None)
  have "token_live (dbs w2) (clock w2) (cr_Token resp) (scanSQLiteAPITokenRow ?row) u"
    using assms(3,4,6,8) eff(5,6) none
    by (simp add: token_live_def pat_GetByTokenHash_def query_row_def find_append)
      (simp add: new_token_def scanSQLiteAPITokenRow_def)
  from UserFromToken_token [OF assms(7,5) eff(3) this] eff(1,2) show ?thesis
    by (simp add: validateScopes_ok check_expiry_ok maxAPITokenLifetime_def scanSQLiteAPITokenRow_def new_token_def decode_encode_scopes)
qed

lemma counted_live_newest:
  assumes "length newer = 51" and "\<forall>r \<in> set newer. tk_user_id r = ID u \<and> tk_revoked_at r \<noteq> None"
    and "\<forall>r \<in> set older. tk_user_id r = ID u" and "sorted (map (\<lambda>r. - tk_create_time r) (newer @ older))"
  shows "counted_live now u (newer @ older) = 0"
proof -
  have "filter (\<lambda>r. tk_user_id r = ID u) (newer @ older) = newer @ older" using assms(2,3) by (simp add: filter_id_conv)
  then have "pat_ListByUserID u (maxAPITokensPerUser + 1) 0 (newer @ older) = map scanSQLiteAPITokenRow newer"
    using assms(1,4) by (simp add: pat_ListByUserID_def order_desc_def maxAPITokensPerUser_def sort_key_id_if_sorted)
  then show ?thesis using assms(2)
    by (auto simp: counted_live_def apiTokenStatus_def scanSQLiteAPITokenRow_def filter_empty_conv)
qed

text \<open>The cap on live tokens looks at the newest rows only, and revoked rows are among them: once the
  51 newest tokens of an account are revoked, a further token is issued however many of the older
  ones are live.\<close>

lemma token_cap_bypassed:
  assumes "ctx_user ctx = Some user" and "faults w = []" and "validateScopes (ct_Scopes msg) = Inr ()"
    and "check_expiry (clock w) (ct_ExpiresAt msg) = Inr ()" and t: "api_tokens (dbs w) = newer @ older"
    and rows: "length newer = 51" "\<forall>r \<in> set newer. tk_user_id r = ID (Id user) \<and> tk_revoked_at r \<noteq> None"
      "\<forall>r \<in> set older. tk_user_id r = ID (Id user)" "sorted (map (\<lambda>r. - tk_create_time r) (newer @ older))"
    and fresh: "\<And>n. new_id env n \<notin> tk_id ` set (newer @ older)"
      "\<And>tok. HasPrefix tok APITokenPrefix \<Longrightarrow> HashToken tok \<notin> tk_token_hash ` set (newer @ older)"
  shows "\<exists>resp w'. run (CreateAPIToken env ctx msg) w = (Inr resp, w')"
proof -
  have c: "length (filter (\<lambda>row. apiTokenStatus row (clock w) = ACTIVE) (pat_ListByUserID (Id user) 51 0 (newer @ older))) = 0"
    using counted_live_newest [OF rows, of "clock w"] by (simp add: counted_live_def maxAPITokensPerUser_def)
  have "wp (CreateAPIToken env ctx msg) (\<lambda>r w'. \<exists>resp. r = Inr resp) w"
    unfolding CreateAPIToken_def assms(1) option.case
    by (intro wp_first wp_after; simp add: after_def assms(2,3,4) t maxAPITokensPerUser_def)
      (use c fresh in \<open>auto simp: pat_Create_def Let_def split: if_splits\<close>)
  then show ?thesis by (auto elim: wp_obtain)
qed

section \<open>Revoking\<close>

text \<open>The credentials of other accounts.\<close>

definition foreign :: "User \<Rightarrow> db \<Rightarrow> session_row list \<times> token_row list" where
  "foreign user d = (filter (\<lambda>r. ss_user_id r \<noteq> ID (Id user)) (sessions d), filter (\<lambda>r. tk_user_id r \<noteq> ID (Id user)) (api_tokens d))"

lemma foreign_frame [simp]: "foreign user (d\<lparr>audit_log := al\<rparr>) = foreign user d"
  by (simp add: foreign_def)

definition session_keys :: "session_row list \<Rightarrow> bool" where
  "session_keys t \<longleftrightarrow> distinct (map ss_id t) \<and> (\<forall>r \<in> set t. is_hex32 (ss_user_id r))"

lemma foreign_Revoke:
  assumes "session_keys (sessions d)" and "sess_GetByID i (sessions d) = Inr s" and "UserID_s s = Id user"
  shows "foreign user (d\<lparr>sessions := sess_Revoke now i (sessions d)\<rparr>) = foreign user d"
proof -
  obtain r where r: "r \<in> set (sessions d)" "ss_id r = UUID i" "s = scanSQLiteSession r"
    using assms(2) by (auto simp: sess_GetByID_def query_row_Inr dest: find_Some_in)
  have u: "ss_user_id r = ID (Id user)"
    using assms(1,3) r by (auto simp: scanSQLiteSession_def session_keys_def ID_Canonical dest!: sym [of _ "Id user"])
  have "distinct (map ss_id (sessions d))" using assms(1) by (simp add: session_keys_def)
  from distinct_map_eq [OF this _ r(1)] r(2) have "x = r" if "x \<in> set (sessions d)" "ss_id x = UUID i" for x using that by simp
  with u show ?thesis
    by (simp add: foreign_def sess_Revoke_def) (rule filter_update_where; metis session_row.select_convs(2) session_row.surjective session_row.update_convs(11))
qed

lemma RevokeSession_effect:
  assumes "ctx_user ctx = Some user" and "session_keys (sessions (dbs w))"
  shows "wp (RevokeSession env ctx sid) (\<lambda>r w'. foreign user (dbs w') = foreign user (dbs w) \<and> (r = Inr () \<longrightarrow>
     (\<exists>i. uuid_Parse env sid = Some i \<and> (\<forall>x \<in> set (sessions (dbs w')). ss_id x = UUID i \<longrightarrow> ss_revoked_at x \<noteq> None)))) w"
proof -
  have rev: "\<forall>x \<in> set (sess_Revoke now i t). ss_id x = UUID i \<longrightarrow> (\<exists>y. ss_revoked_at x = Some y)" for now i t
    by (simp add: sess_Revoke_def ball_update_where)
  show ?thesis
    unfolding RevokeSession_def assms(1) option.case
    by (intro wp_first wp_after; simp add: after_def) (use rev in \<open>simp add: foreign_Revoke [OF assms(2)]\<close>)
qed

lemma current_session_after [wp_after]:
  assumes "\<And>i w'. (\<forall>sess. faults w = [] \<and> ctx_authorization ctx \<noteq> []
        \<and> sess_GetByTokenHash (HashToken (ctx_authorization ctx)) (sessions (dbs w)) = Inr sess \<longrightarrow> i = ID_s sess) \<Longrightarrow>
      after w (dbs w) w' \<Longrightarrow> Q i w'"
  shows "wp (current_session ctx) Q w"
  unfolding current_session_def by (intro wp_first wp_after) (auto intro!: assms simp: after_simps)

lemma RevokeAllOtherSessions_effect:
  assumes "ctx_user ctx = Some user"
  shows "wp (RevokeAllOtherSessions env ctx) (\<lambda>r w'. foreign user (dbs w') = foreign user (dbs w) \<and> (r = Inr () \<longrightarrow>
     (\<exists>cur. (\<forall>x \<in> set (sessions (dbs w')). ss_user_id x = ID (Id user) \<and> ss_id x \<noteq> UUID cur \<longrightarrow> ss_revoked_at x \<noteq> None)
       \<and> (\<forall>sess. faults w = [] \<and> ctx_authorization ctx \<noteq> []
            \<and> sess_GetByTokenHash (HashToken (ctx_authorization ctx)) (sessions (dbs w)) = Inr sess \<longrightarrow> cur = ID_s sess)
       \<and> filter (\<lambda>x. ss_id x = UUID cur) (sessions (dbs w')) = filter (\<lambda>x. ss_id x = UUID cur) (sessions (dbs w))))) w"
proof -
  have other: "foreign user (d\<lparr>sessions := sess_RevokeAllForUser now (Id user) i (sessions d)\<rparr>) = foreign user d" for d now i
    by (auto simp: foreign_def sess_RevokeAllForUser_def intro!: filter_update_where)
  have same: "filter (\<lambda>x. ss_id x = UUID i) (sess_RevokeAllForUser now u i t) = filter (\<lambda>x. ss_id x = UUID i) t" for now u i t
    unfolding sess_RevokeAllForUser_def by (rule filter_update_where) auto
  have rev: "\<forall>x \<in> set (sess_RevokeAllForUser now u i t). ss_user_id x = ID u \<and> ss_id x \<noteq> UUID i \<longrightarrow> ss_revoked_at x \<noteq> None" for now u i t
    by (auto simp: sess_RevokeAllForUser_def ball_update_where)
  show ?thesis
    unfolding RevokeAllOtherSessions_def assms(1) option.case
    apply (intro wp_first wp_after; simp add: after_def other)
    subgoal for cur using rev same by (intro exI [of _ cur]) auto
    done
qed

lemma owner_revocation:
  "(case pat_RevokeByOwner now i u (api_tokens d) of (r, t) \<Rightarrow> (r, d\<lparr>api_tokens := t\<rparr>)) = (x, d') \<Longrightarrow>
   fst (pat_RevokeByOwner now i u (api_tokens d)) = x \<and> d' = d\<lparr>api_tokens := snd (pat_RevokeByOwner now i u (api_tokens d))\<rparr>"
  by (auto simp: case_prod_beta)

lemma RevokeAPIToken_effect:
  assumes "ctx_user ctx = Some user"
  shows "wp (RevokeAPIToken env ctx tid) (\<lambda>r w'. foreign user (dbs w') = foreign user (dbs w) \<and> (r = Inr () \<longrightarrow>
     (\<exists>i. uuid_Parse env tid = Some i \<and> (\<exists>x \<in> set (api_tokens (dbs w)). tk_id x = UUID i \<and> tk_user_id x = ID (Id user) \<and> tk_revoked_at x = None)
       \<and> (\<forall>x \<in> set (api_tokens (dbs w')). tk_id x = UUID i \<and> tk_user_id x = ID (Id user) \<longrightarrow> tk_revoked_at x \<noteq> None)))) w"
proof -
  have other: "foreign user (d\<lparr>api_tokens := snd (pat_RevokeByOwner now i (Id user) (api_tokens d))\<rparr>) = foreign user d" for d now i
    by (auto simp: foreign_def intro!: filter_update_where)
  show ?thesis
    unfolding RevokeAPIToken_def assms(1) option.case
    by (intro wp_first wp_after; simp add: after_def; (drule owner_revocation)?)
      (auto simp: other [simplified] pat_RevokeByOwner_fst ball_update_where)
qed

text \<open>C12. Revoking touches only the caller's credentials: neither \<open>RevokeSession\<close>, \<open>RevokeAllOtherSessions\<close>
  nor \<open>RevokeAPIToken\<close> changes a session or a token of another account, whatever identifier is
  passed.  When they succeed, the named session is revoked; every session of the caller but the
  current one is revoked, and that one is left alone; the named token was live and is revoked.\<close>

theorem revocations_stay_own:
  assumes "ctx_user ctx = Some user" and "session_keys (sessions (dbs w))"
    and "run (RevokeSession env ctx sid) w = (r1, w1)" and "run (RevokeAllOtherSessions env ctx) w = (r2, w2)"
    and "run (RevokeAPIToken env ctx tid) w = (r3, w3)"
  shows "foreign user (dbs w1) = foreign user (dbs w) \<and> foreign user (dbs w2) = foreign user (dbs w)
     \<and> foreign user (dbs w3) = foreign user (dbs w)
     \<and> (r1 = Inr () \<longrightarrow> (\<exists>i. uuid_Parse env sid = Some i
          \<and> (\<forall>x \<in> set (sessions (dbs w1)). ss_id x = UUID i \<longrightarrow> ss_revoked_at x \<noteq> None)))
     \<and> (r2 = Inr () \<longrightarrow> (\<exists>cur.
          (\<forall>x \<in> set (sessions (dbs w2)). ss_user_id x = ID (Id user) \<and> ss_id x \<noteq> UUID cur \<longrightarrow> ss_revoked_at x \<noteq> None)
          \<and> (\<forall>sess. faults w = [] \<and> ctx_authorization ctx \<noteq> []
               \<and> sess_GetByTokenHash (HashToken (ctx_authorization ctx)) (sessions (dbs w)) = Inr sess \<longrightarrow> cur = ID_s sess)
          \<and> filter (\<lambda>x. ss_id x = UUID cur) (sessions (dbs w2)) = filter (\<lambda>x. ss_id x = UUID cur) (sessions (dbs w))))
     \<and> (r3 = Inr () \<longrightarrow> (\<exists>i. uuid_Parse env tid = Some i
          \<and> (\<exists>x \<in> set (api_tokens (dbs w)). tk_id x = UUID i \<and> tk_user_id x = ID (Id user) \<and> tk_revoked_at x = None)
          \<and> (\<forall>x \<in> set (api_tokens (dbs w3)). tk_id x = UUID i \<and> tk_user_id x = ID (Id user) \<longrightarrow> tk_revoked_at x \<noteq> None)))"
  using wp_run [OF RevokeSession_effect [OF assms(1,2)] assms(3)]
    wp_run [OF RevokeAllOtherSessions_effect [OF assms(1)] assms(4)]
    wp_run [OF RevokeAPIToken_effect [OF assms(1)] assms(5)] by simp

theorem revocations_stay_own_witness:
  "demo_session \<in> set (sessions (dbs (snd (run (RevokeSession demo_env
     (demo_ctx\<lparr>ctx_user := Some ((scanSQLiteUser demo_user)\<lparr>Id := ''other''\<rparr>)\<rparr>) (demo_hex 2)) demo_world))))"
proof -
  let ?u = "(scanSQLiteUser demo_user)\<lparr>Id := ''other''\<rparr>"
  let ?c = "demo_ctx\<lparr>ctx_user := Some ?u\<rparr>"
  obtain r1 w1 where r1: "run (RevokeSession demo_env ?c (demo_hex 2)) demo_world = (r1, w1)" by fastforce
  obtain r2 w2 where r2: "run (RevokeAllOtherSessions demo_env ?c) demo_world = (r2, w2)" by fastforce
  obtain r3 w3 where r3: "run (RevokeAPIToken demo_env ?c (demo_hex 3)) demo_world = (r3, w3)" by fastforce
  have k: "session_keys (sessions (dbs demo_world))" by (simp add: session_keys_def demo_session_def)
  have "ss_user_id demo_session \<noteq> ID (Id ?u)" by (simp add: demo_session_def demo_hex_def) code_simp
  then have "demo_session \<in> set (fst (foreign ?u (dbs demo_world)))" by (simp add: foreign_def)
  also have "foreign ?u (dbs demo_world) = foreign ?u (dbs w1)"
    using revocations_stay_own [OF _ k r1 r2 r3, of ?u] by simp
  finally show ?thesis using r1 by (simp add: foreign_def)
qed

theorem created_token_authenticates_witness:
  "\<exists>resp w1. run (CreateAPIToken demo_env demo_ctx \<lparr>ct_Name = ''ci'', ct_Scopes = [''module:read''], ct_ExpiresAt = Some (2000 * Second)\<rparr>) demo_device
       = (Inr resp, w1)
     \<and> fst (run (UserFromToken demo_env (cr_Token resp)) (w1\<lparr>faults := [], clock := 1500 * Second\<rparr>))
       = Inr (scanSQLiteUser demo_user, ScopesFromValues [''module:read''])"
proof -
  let ?msg = "\<lparr>ct_Name = ''ci'', ct_Scopes = [''module:read''], ct_ExpiresAt = Some (2000 * Second)\<rparr>"
  have v: "validateScopes [''module:read''] = Inr ()" by code_simp
  have e: "check_expiry (1000 * Second) (Some (2000 * Second)) = Inr ()"
    by (simp add: check_expiry_ok maxAPITokenLifetime_def)
  have "wp (CreateAPIToken demo_env demo_ctx ?msg) (\<lambda>r w'. \<exists>resp. r = Inr resp) demo_device"
    unfolding CreateAPIToken_def by (intro wp_first wp_after) (use v e in \<open>auto simp: after_def pat_ListByUserID_def order_desc_def maxAPITokensPerUser_def pat_Create_def Let_def\<close>)
  then obtain resp w1 where r: "run (CreateAPIToken demo_env demo_ctx ?msg) demo_device = (Inr resp, w1)"
    by (auto elim: wp_obtain)
  have u: "user_GetByID (Canonical (ID (Id (scanSQLiteUser demo_user)))) (users (dbs demo_device)) = Inr (scanSQLiteUser demo_user)"
    by (simp add: demo_user_id user_GetByID_def query_row_def ID_Canonical demo_device_def) (simp add: demo_user_def)
  have s: "checkUserState (scanSQLiteUser demo_user) = Inr ()"
    by (simp add: checkUserState_def scanSQLiteUser_def demo_user_def USER_STATE_ACTIVE_def)
  show ?thesis
    using created_token_authenticates [OF r demo_ctx_simps(1) u s, of "w1\<lparr>faults := [], clock := 1500 * Second\<rparr>"] r by simp
qed

end
