(* ===== verification/Git_Ops.thy ===== *)
theory Git_Ops
  imports World
begin

text \<open>
  The go-git backend as calls of the handlers: \<open>gogit.go\<close>, \<open>repository.go\<close>, \<open>operation.go\<close>,
  \<open>commit.go\<close>, \<open>blob.go\<close>, \<open>tree.go\<close> of \<open>internal/hades/storage/git/gogit\<close>.

  Every call may fail like any other call to the environment.  \<open>PutFiles\<close> may fail before it reads,
  before it stores its objects and before it moves the branch.  \<open>repoLocks\<close> makes the calls on one
  repository atomic within a process, which is how they run here; what happens between the calls of a
  handler is the compare-and-swap's business, and its theorem is stated for whatever state the
  repository is in by then.
\<close>

section \<open>Environment of the registry\<close>

text \<open>The code outside the repository (git's commit hash, hash parsing and revision lookup, SHAKE-256, the
  temporary directory, the text of an error,
  the linter and the breaking-change checker, which run \<open>buf\<close> on a directory and return its complaint)
  and the configuration of the content handler.\<close>

record renv =
  commit_sum :: "commit_obj \<Rightarrow> string"
  NewHash :: "string \<Rightarrow> string"
  ResolveRevision :: "git_repo \<Rightarrow> string \<Rightarrow> string option"
  ShakeSum256 :: "string \<Rightarrow> string"
  TempDir :: string
  err_Error :: "err \<Rightarrow> string"                   \<comment> \<open>what \<open>Error()\<close> says\<close>
  Lint :: "(string \<times> string) list \<Rightarrow> string option"
  Check :: "(string \<times> string) list \<Rightarrow> (string \<times> string) list \<Rightarrow> string option"
  MaxUploadFiles :: int
  MaxUploadBytes :: int
  LintEnabled :: bool
  BreakingEnabled :: bool
  SDKEnabled :: bool
  Generators :: "GeneratorConfig list"
  linter_wired :: bool
  breaking_wired :: bool
  oplog_wired :: bool
  cirun_wired :: bool
  notification_wired :: bool
  org_wired :: bool

section \<open>Opening a repository\<close>

definition openRepo :: "(string \<rightharpoonup> git_repo) \<Rightarrow> string \<Rightarrow> git_repo res" where
  "openRepo g repoPath = (case ValidateRepoPath repoPath of
     Some e \<Rightarrow> Inl ErrUnsafeRepoPath
   | None \<Rightarrow> (case g repoPath of None \<Rightarrow> Inl ErrRepositoryNotExists | Some r \<Rightarrow> Inr r))"

definition git_read :: "string \<Rightarrow> (git_repo \<Rightarrow> 'a res) \<Rightarrow> (world, 'a) call" where
  "git_read repoPath f = io (\<lambda>w. (case openRepo (repos w) repoPath of Inl e \<Rightarrow> Inl e | Inr r \<Rightarrow> f r, w))"

definition RepositoryExists :: "string \<Rightarrow> (world, bool) call" where
  "RepositoryExists repoPath = io (\<lambda>w. (case openRepo (repos w) repoPath of
     Inl e \<Rightarrow> if e = ErrRepositoryNotExists then Inr False else Inl e
   | Inr r \<Rightarrow> Inr True, w))"

definition CreateRepository :: "string \<Rightarrow> string \<Rightarrow> (world, unit) call" where
  "CreateRepository repoPath defaultBranch = io (\<lambda>w. case ValidateRepoPath repoPath of
     Some e \<Rightarrow> (Inl ErrUnsafeRepoPath, w)
   | None \<Rightarrow> (Inr (), if repos w repoPath = None
        then w\<lparr>repos := (repos w)(repoPath \<mapsto> new_repo defaultBranch)\<rparr> else w))"

text \<open>\<open>os.RemoveAll\<close> removes everything below the directory as well.\<close>

definition below_path :: "string \<Rightarrow> string \<Rightarrow> bool" where
  "below_path repoPath p \<longleftrightarrow> p = repoPath \<or> HasPrefix p (repoPath @ ''/'')"

definition remove_path :: "string \<Rightarrow> (string \<rightharpoonup> git_repo) \<Rightarrow> (string \<rightharpoonup> git_repo)" where
  "remove_path repoPath g = (\<lambda>p. if below_path repoPath p then None else g p)"

definition DeleteRepository :: "string \<Rightarrow> (world, unit) call" where
  "DeleteRepository repoPath = io (\<lambda>w. case ValidateRepoPath repoPath of
     Some e \<Rightarrow> (Inl ErrUnsafeRepoPath, w)
   | None \<Rightarrow> (Inr (), w\<lparr>repos := remove_path repoPath (repos w)\<rparr>))"

section \<open>Writing a commit\<close>

text \<open>The head of the branch and its files; the compare-and-swap check.\<close>

definition read_head :: "PutFilesRequest \<Rightarrow> git_repo \<Rightarrow> (string option \<times> (string \<times> string) list) res" where
  "read_head req r = (case branches r (pf_Branch req) of
     None \<Rightarrow> (case checkExpectedHead (pf_ExpectedHead req) None of Inl e \<Rightarrow> Inl e | Inr _ \<Rightarrow> Inr (None, []))
   | Some h \<Rightarrow> (case objects r h of
        None \<Rightarrow> Inl (OtherErr ''gogit: read branch head'')
      | Some c \<Rightarrow> (case checkExpectedHead (pf_ExpectedHead req) (Some h) of
          Inl e \<Rightarrow> Inl e | Inr _ \<Rightarrow> Inr (Some h, file_map (tree_Files (co_tree c))))))"

text \<open>\<open>SetEncodedObject\<close>: an object that is already stored under its hash stays as it is.\<close>

definition store_object :: "string \<Rightarrow> commit_obj \<Rightarrow> git_repo \<Rightarrow> git_repo" where
  "store_object h c r = (if objects r h = None then r\<lparr>objects := (objects r)(h \<mapsto> c)\<rparr> else r)"

definition SetReference :: "string \<Rightarrow> string \<Rightarrow> git_repo \<Rightarrow> git_repo" where
  "SetReference branch h r = r\<lparr>branches := (branches r)(branch \<mapsto> h)\<rparr>"

definition in_repo :: "string \<Rightarrow> (git_repo \<Rightarrow> unit res \<times> git_repo) \<Rightarrow> (world, unit) call" where
  "in_repo repoPath f = io (\<lambda>w. case openRepo (repos w) repoPath of
     Inl e \<Rightarrow> (Inl e, w)
   | Inr r \<Rightarrow> (case f r of (res, r') \<Rightarrow> (res, w\<lparr>repos := (repos w)(repoPath \<mapsto> r')\<rparr>)))"

text \<open>The second check, immediately before the branch is moved.\<close>

definition move_branch :: "PutFilesRequest \<Rightarrow> string \<Rightarrow> git_repo \<Rightarrow> unit res \<times> git_repo" where
  "move_branch req h r = (case checkExpectedHead (pf_ExpectedHead req) (branches r (pf_Branch req)) of
     Inl e \<Rightarrow> (Inl e, r)
   | Inr _ \<Rightarrow> (Inr (), SetReference (pf_Branch req) h r))"

definition PutFiles :: "renv \<Rightarrow> PutFilesRequest \<Rightarrow> (world, string) call" where
  "PutFiles renv req = do {
     p \<leftarrow> git_read (pf_RepoPath req) (read_head req);
     (case p of
        Inl e \<Rightarrow> fail e
      | Inr (parent, allFiles) \<Rightarrow> do {
          now \<leftarrow> time_Now;
          let commit = new_commit req now parent (new_files req allFiles) in
          let commitHash = commit_sum renv commit in do {
            s \<leftarrow> in_repo (pf_RepoPath req) (\<lambda>r. (Inr (), store_object commitHash commit r));
            (case s of
               Inl e \<Rightarrow> fail e
             | Inr _ \<Rightarrow> do {
                 m \<leftarrow> in_repo (pf_RepoPath req) (move_branch req commitHash);
                 (case m of Inl e \<Rightarrow> fail e | Inr _ \<Rightarrow> ok commitHash)
               })
          }
        })
   }"

definition RollbackCommit :: "renv \<Rightarrow> string \<Rightarrow> string \<Rightarrow> string \<Rightarrow> string \<Rightarrow> (world, unit) call" where
  "RollbackCommit renv repoPath branch currentHead previousHead =
     (if previousHead = [] then ok ()
      else in_repo repoPath (\<lambda>r.
        if currentHead \<noteq> [] then
          (case branches r branch of
             None \<Rightarrow> (Inr (), r)
           | Some h \<Rightarrow> if \<not> EqualFold h currentHead then (Inl ErrRefMoved, r)
               else (Inr (), SetReference branch (NewHash renv previousHead) r))
        else (Inr (), SetReference branch (NewHash renv previousHead) r)))"

section \<open>Reading\<close>

definition resolve_commit :: "renv \<Rightarrow> string \<Rightarrow> git_repo \<Rightarrow> commit_obj res" where
  "resolve_commit renv ref r = (case ResolveRevision renv r ref of
     None \<Rightarrow> Inl ErrNotFound
   | Some h \<Rightarrow> (case objects r h of None \<Rightarrow> Inl ErrNotFound | Some c \<Rightarrow> Inr c))"

text \<open>\<open>GetFile\<close>: a missing revision, commit or file is \<open>git.ErrNotFound\<close>.\<close>

definition GetFile :: "renv \<Rightarrow> string \<Rightarrow> string \<Rightarrow> string \<Rightarrow> (world, string \<times> int) call" where
  "GetFile renv repoPath ref filePath = git_read repoPath (\<lambda>r. case resolve_commit renv ref r of
     Inl e \<Rightarrow> Inl e
   | Inr c \<Rightarrow> (case map_of (tree_Files (co_tree c)) filePath of
        None \<Rightarrow> Inl ErrNotFound | Some content \<Rightarrow> Inr (content, int (length content))))"

text \<open>\<open>ListFiles\<close> and \<open>GetTreeEntries\<close> return go-git's own error for a missing commit object.\<close>

definition revision_tree :: "renv \<Rightarrow> string \<Rightarrow> git_repo \<Rightarrow> tree_entry list res" where
  "revision_tree renv ref r = (case ResolveRevision renv r ref of
     None \<Rightarrow> Inl ErrNotFound
   | Some h \<Rightarrow> (case objects r h of None \<Rightarrow> Inl (OtherErr ''object not found'') | Some c \<Rightarrow> Inr (co_tree c)))"

definition ListFiles :: "renv \<Rightarrow> string \<Rightarrow> string \<Rightarrow> (world, string list) call" where
  "ListFiles renv repoPath ref = git_read repoPath (\<lambda>r. case revision_tree renv ref r of
     Inl e \<Rightarrow> Inl e | Inr es \<Rightarrow> Inr (map fst (tree_Files es)))"

datatype TreeEntryType = TreeEntryTypeFile | TreeEntryTypeDir

record TreeEntry =
  te_Name :: string
  te_Path :: string
  te_Type :: TreeEntryType

definition find_dir :: "string \<Rightarrow> tree_entry list \<Rightarrow> tree_entry list option" where
  "find_dir name es = (case find (\<lambda>e. entry_name e = name) es of Some (Dir n es') \<Rightarrow> Some es' | _ \<Rightarrow> None)"

fun subtree :: "string list \<Rightarrow> tree_entry list \<Rightarrow> tree_entry list option" where
  "subtree [] es = Some es"
| "subtree (s # ss) es = (case find_dir s es of None \<Rightarrow> None | Some es' \<Rightarrow> subtree ss es')"

definition list_entries :: "string \<Rightarrow> tree_entry list \<Rightarrow> TreeEntry list" where
  "list_entries dir es = map (\<lambda>e. \<lparr>te_Name = entry_name e,
     te_Path = (if dir \<noteq> [] \<and> dir \<noteq> ''.'' then dir @ ''/'' @ entry_name e else entry_name e),
     te_Type = (case e of Dir _ _ \<Rightarrow> TreeEntryTypeDir | Regular _ _ \<Rightarrow> TreeEntryTypeFile)\<rparr>) es"

definition GetTreeEntries :: "renv \<Rightarrow> string \<Rightarrow> string \<Rightarrow> string \<Rightarrow> (world, TreeEntry list) call" where
  "GetTreeEntries renv repoPath ref dir = git_read repoPath (\<lambda>r. case revision_tree renv ref r of
     Inl e \<Rightarrow> Inl e
   | Inr es \<Rightarrow> if dir \<noteq> [] \<and> dir \<noteq> ''.'' then
        (case subtree (Split dir (CHR ''/'')) es of
           None \<Rightarrow> Inl ErrNotFound | Some es' \<Rightarrow> Inr (list_entries dir es'))
      else Inr (list_entries dir es))"

text \<open>\<open>ListBlobs\<close> validates every path it reads back.\<close>

definition ListBlobs :: "renv \<Rightarrow> string \<Rightarrow> string \<Rightarrow> (world, upload_file list) call" where
  "ListBlobs renv repoPath commitHash = git_read repoPath (\<lambda>r. case objects r (NewHash renv commitHash) of
     None \<Rightarrow> Inl ErrNotFound
   | Some c \<Rightarrow> (let files = map (\<lambda>(p, x). \<lparr>Path = p, Content = x\<rparr>) (tree_Files (co_tree c)) in
       if Validate files \<noteq> None then Inl (OtherErr ''gogit: refusing to read'') else Inr files))"

text \<open>\<open>StreamBlobsToDir\<close>: what it writes below the directory.\<close>

definition StreamBlobsToDir :: "renv \<Rightarrow> string \<Rightarrow> string \<Rightarrow> (world, (string \<times> string) list) call" where
  "StreamBlobsToDir renv repoPath commitHash = git_read repoPath (\<lambda>r. case objects r (NewHash renv commitHash) of
     None \<Rightarrow> Inl ErrNotFound
   | Some c \<Rightarrow> (let files = tree_Files (co_tree c) in
       if \<exists>f \<in> set files. ValidatePath (fst f) \<noteq> None then Inl (OtherErr ''gogit: refusing to write'') else Inr files))"

record CommitInfo =
  SHA :: string
  Message :: string
  Author :: string
  CEmail :: string
  Timestamp :: time

definition DefaultCommitLimit :: int where "DefaultCommitLimit = 100"

text \<open>The history of a commit, at most \<open>n\<close> of it.  A commit this backend writes has at most one
  parent; a parent that cannot be read ends the walk with an error.\<close>

fun log_from :: "nat \<Rightarrow> git_repo \<Rightarrow> string \<Rightarrow> CommitInfo list res" where
  "log_from 0 r h = Inr []"
| "log_from (Suc n) r h = (case objects r h of
     None \<Rightarrow> Inl (OtherErr ''object not found'')
   | Some c \<Rightarrow>
       (let info = \<lparr>SHA = h, Message = co_message c, Author = co_author c, CEmail = co_email c, Timestamp = co_when c\<rparr> in
        case co_parents c of
          [] \<Rightarrow> Inr [info]
        | p # _ \<Rightarrow> (case log_from n r p of Inl e \<Rightarrow> Inl e | Inr rest \<Rightarrow> Inr (info # rest))))"

definition ListCommits :: "renv \<Rightarrow> string \<Rightarrow> string \<Rightarrow> int \<Rightarrow> (world, CommitInfo list) call" where
  "ListCommits renv repoPath ref limit = git_read repoPath (\<lambda>r.
     let limit' = (if limit \<le> 0 then DefaultCommitLimit else limit) in
     case ResolveRevision renv r ref of
       None \<Rightarrow> Inl ErrNotFound
     | Some h \<Rightarrow> log_from (nat limit') r h)"

end
