(* ===== verification/Git_Facts.thy ===== *)
theory Git_Facts
  imports Git_Ops Policy_Engine
begin

text \<open>
  What the go-git backend guarantees: a commit is written exactly when the branch is where the caller
  expects it, it holds exactly the caller's files, a failure moves no branch, and a rollback undoes
  one's own write and nobody else's.
\<close>

section \<open>Calls that may change repositories\<close>

definition reach :: "world \<Rightarrow> db \<Rightarrow> (string \<rightharpoonup> git_repo) \<Rightarrow> world \<Rightarrow> bool" where
  "reach w d g w' \<longleftrightarrow> dbs w' = d \<and> repos w' = g \<and> clock w' = clock w \<and> (faults w = [] \<longrightarrow> faults w' = [])"

lemma after_reach: "after w d w' \<longleftrightarrow> reach w d (repos w) w'"
  by (auto simp: after_def reach_def)

lemma wp_git_read [wp_after]:
  assumes "\<And>e w'. faults w \<noteq> [] \<Longrightarrow> after w (dbs w) w' \<Longrightarrow> Q (Inl (fault_err e)) w'"
    and "\<And>e w'. openRepo (repos w) p = Inl e \<Longrightarrow> after w (dbs w) w' \<Longrightarrow> Q (Inl e) w'"
    and "\<And>r w'. openRepo (repos w) p = Inr r \<Longrightarrow> after w (dbs w) w' \<Longrightarrow> Q (f r) w'"
  shows "wp (git_read p f) Q w"
  unfolding git_read_def by (rule wp_io_after) (use assms in \<open>auto simp: after_def split: sum.splits\<close>)

lemma wp_in_repo:
  assumes "\<And>e w'. faults w \<noteq> [] \<Longrightarrow> after w (dbs w) w' \<Longrightarrow> Q (Inl (fault_err e)) w'"
    and "\<And>e w'. openRepo (repos w) p = Inl e \<Longrightarrow> after w (dbs w) w' \<Longrightarrow> Q (Inl e) w'"
    and "\<And>r x r' w'. openRepo (repos w) p = Inr r \<Longrightarrow> f r = (x, r') \<Longrightarrow> reach w (dbs w) ((repos w)(p \<mapsto> r')) w' \<Longrightarrow> Q x w'"
  shows "wp (in_repo p f) Q w"
  unfolding in_repo_def
  by (rule wp_io_after) (use assms in \<open>auto simp: after_def reach_def split: sum.splits prod.splits\<close>)

lemma git_db [db_intros]:
  "db_keeps Q (git_read p f)" "db_keeps Q (in_repo p h)" "db_keeps Q (CreateRepository p b)" "db_keeps Q (DeleteRepository p)"
  "db_keeps Q (RepositoryExists p)"
  unfolding git_read_def in_repo_def CreateRepository_def DeleteRepository_def RepositoryExists_def
  by (rule db_keeps_io; auto split: option.splits sum.splits prod.splits)+

lemma git_ops_db [db_intros]:
  "db_keeps Q (PutFiles renv req)" "db_keeps Q (RollbackCommit renv p b c h)" "db_keeps Q (ListBlobs renv p c)"
  "db_keeps Q (ListCommits renv p ref l)" "db_keeps Q (GetFile renv p ref fp)" "db_keeps Q (ListFiles renv p ref)"
  "db_keeps Q (GetTreeEntries renv p ref d)" "db_keeps Q (StreamBlobsToDir renv p c)"
  unfolding PutFiles_def RollbackCommit_def ListBlobs_def ListCommits_def GetFile_def ListFiles_def GetTreeEntries_def
    StreamBlobsToDir_def Let_def by (intro db_intros)+

section \<open>PutFiles\<close>

text \<open>Nothing but stored objects may have been added.\<close>

definition same_heads :: "(string \<rightharpoonup> git_repo) \<Rightarrow> (string \<rightharpoonup> git_repo) \<Rightarrow> bool" where
  "same_heads g g' \<longleftrightarrow> (\<forall>p. case g p of
     None \<Rightarrow> g' p = None
   | Some r \<Rightarrow> \<exists>r'. g' p = Some r' \<and> branches r' = branches r \<and> head_branch r' = head_branch r \<and> objects r \<subseteq>\<^sub>m objects r')"

lemma same_heads_refl [simp]: "same_heads g g"
  by (auto simp: same_heads_def split: option.splits)

lemma openRepo_Inr: "openRepo g p = Inr r \<longleftrightarrow> ValidateRepoPath p = None \<and> g p = Some r"
  by (auto simp: openRepo_def split: option.splits)

lemma store_object_keeps [simp]:
  "branches (store_object h c r) = branches r" "head_branch (store_object h c r) = head_branch r"
  "objects r \<subseteq>\<^sub>m objects (store_object h c r)"
  by (auto simp: store_object_def map_le_def)

lemma same_heads_store: "g p = Some r \<Longrightarrow> same_heads g (g(p \<mapsto> store_object h c r))"
  by (auto simp: same_heads_def split: option.splits)

lemma read_head_checked:
  assumes "read_head req r = Inr (parent, fs)"
  shows "parent = branches r (pf_Branch req) \<and> checkExpectedHead (pf_ExpectedHead req) parent = Inr ()
     \<and> (case parent of None \<Rightarrow> fs = [] | Some h \<Rightarrow> \<exists>c. objects r h = Some c \<and> fs = file_map (tree_Files (co_tree c)))"
proof (cases "branches r (pf_Branch req)")
  case None
  with assms show ?thesis by (auto simp: read_head_def split: sum.splits)
next
  case (Some h)
  with assms obtain c where "objects r h = Some c" by (auto simp: read_head_def split: option.splits)
  with assms Some have "parent = Some h \<and> fs = file_map (tree_Files (co_tree c)) \<and> checkExpectedHead (pf_ExpectedHead req) (Some h) = Inr ()"
    by (cases "checkExpectedHead (pf_ExpectedHead req) (Some h)") (simp_all add: read_head_def)
  then show ?thesis using Some \<open>objects r h = Some c\<close> by simp
qed

text \<open>The repository after a successful write.\<close>

definition written :: "renv \<Rightarrow> PutFilesRequest \<Rightarrow> time \<Rightarrow> string option \<Rightarrow> (string \<times> string) list \<Rightarrow> git_repo \<Rightarrow> string \<Rightarrow> git_repo" where
  "written renv req now parent fs r h =
     SetReference (pf_Branch req) h (store_object h (new_commit req now parent (new_files req fs)) r)"

lemma move_branch_stored:
  "read_head req r = Inr (parent, fs) \<Longrightarrow> branches r' = branches r \<Longrightarrow> move_branch req h r' = (Inr (), SetReference (pf_Branch req) h r')"
  by (auto simp: move_branch_def dest: read_head_checked split: sum.splits)

lemma PutFiles_after [wp_after]:
  assumes err: "\<And>e g w'. same_heads (repos w) g \<Longrightarrow> (\<And>p. p \<noteq> pf_RepoPath req \<Longrightarrow> g p = repos w p) \<Longrightarrow> reach w (dbs w) g w' \<Longrightarrow>
      (faults w = [] \<Longrightarrow> openRepo (repos w) (pf_RepoPath req) = Inl e
         \<or> (\<exists>r. openRepo (repos w) (pf_RepoPath req) = Inr r \<and> read_head req r = Inl e)) \<Longrightarrow> Q (Inl e) w'"
    and yes: "\<And>r parent fs h w'. openRepo (repos w) (pf_RepoPath req) = Inr r \<Longrightarrow> read_head req r = Inr (parent, fs) \<Longrightarrow>
      h = commit_sum renv (new_commit req (clock w) parent (new_files req fs)) \<Longrightarrow>
      reach w (dbs w) ((repos w)(pf_RepoPath req \<mapsto> written renv req (clock w) parent fs r h)) w' \<Longrightarrow> Q (Inr h) w'"
  shows "wp (PutFiles renv req) Q w"
proof -
  have err0: "Q (Inl e) w'" if "after w (dbs w) w'" "faults w = [] \<Longrightarrow> openRepo (repos w) (pf_RepoPath req) = Inl e
         \<or> (\<exists>r. openRepo (repos w) (pf_RepoPath req) = Inr r \<and> read_head req r = Inl e)" for e w'
    using err [of "repos w" w' e] that by (simp add: after_reach)
  have err1: "Q (Inl e) w'" if "repos w' = (repos w)(pf_RepoPath req \<mapsto> store_object h c r)" "repos w (pf_RepoPath req) = Some r"
      "dbs w' = dbs w" "clock w' = clock w" "faults w \<noteq> []" for h c r e w'
    using err [of "repos w'" w' e] same_heads_store [of "repos w", OF that(2), of h c] that by (simp add: reach_def)
  have yes': "Q (Inr h) w'" if "ValidateRepoPath (pf_RepoPath req) = None" "repos w (pf_RepoPath req) = Some r"
      "read_head req r = Inr (parent, fs)" "h = commit_sum renv (new_commit req (clock w) parent (new_files req fs))"
      "repos w' = (repos w)(pf_RepoPath req \<mapsto> SetReference (pf_Branch req) h (store_object h (new_commit req (clock w) parent (new_files req fs)) r))"
      "dbs w' = dbs w" "clock w' = clock w" "faults w = [] \<longrightarrow> faults w' = []" for r parent fs h w'
    using yes [of r parent fs h w'] that by (simp add: reach_def openRepo_Inr written_def)
  show ?thesis
    unfolding PutFiles_def Let_def
    by (intro wp_first wp_after wp_in_repo)
      (auto simp: after_def reach_def openRepo_Inr move_branch_stored openRepo_def intro: err0 err1 yes' split: option.splits)
qed

section \<open>What a commit holds\<close>

text \<open>No other commit object is stored under the hash of a new one.\<close>

definition no_clash :: "renv \<Rightarrow> git_repo \<Rightarrow> bool" where
  "no_clash renv r \<longleftrightarrow> (\<forall>c. objects r (commit_sum renv c) = None \<or> objects r (commit_sum renv c) = Some c)"

definition head_files :: "git_repo \<Rightarrow> string \<Rightarrow> (string \<rightharpoonup> string)" where
  "head_files r branch = (case branches r branch of
     None \<Rightarrow> Map.empty
   | Some h \<Rightarrow> (case objects r h of None \<Rightarrow> Map.empty | Some c \<Rightarrow> commit_files c))"

lemma read_head_files:
  "read_head req r = Inr (parent, fs) \<Longrightarrow> distinct (map fst fs) \<and> map_of fs = head_files r (pf_Branch req)"
  by (drule read_head_checked) (auto simp: head_files_def commit_files_def file_map_distinct split: option.splits)

lemma new_commit_files:
  "distinct (map fst fs) \<Longrightarrow> commit_files (new_commit req now parent fs) = map_of fs"
  unfolding new_commit_def by (rule map_of_build)

text \<open>The repository a successful \<open>PutFiles\<close> leaves behind.\<close>

definition put_done :: "PutFilesRequest \<Rightarrow> git_repo \<Rightarrow> string \<Rightarrow> git_repo \<Rightarrow> bool" where
  "put_done req r h r' \<longleftrightarrow> branches r' = (branches r)(pf_Branch req \<mapsto> h) \<and> objects r \<subseteq>\<^sub>m objects r'
     \<and> (\<exists>c. objects r' h = Some c \<and> co_message c = commitMessage req
          \<and> co_parents c = (case branches r (pf_Branch req) of None \<Rightarrow> [] | Some x \<Rightarrow> [x])
          \<and> (\<forall>p. commit_files c p = (case pushed (pf_Files req) p of Some x \<Rightarrow> Some x
               | None \<Rightarrow> if p \<in> set (pf_ExistingPaths req) then None else head_files r (pf_Branch req) p)))"

lemma written_done:
  assumes "read_head req r = Inr (parent, fs)" and "no_clash renv r"
    and "h = commit_sum renv (new_commit req now parent (new_files req fs))"
  shows "put_done req r h (written renv req now parent fs r h)"
proof -
  let ?c = "new_commit req now parent (new_files req fs)"
  have obj: "objects (store_object h ?c r) h = Some ?c"
    using assms(2) [unfolded no_clash_def, rule_format, of ?c] assms(3) by (auto simp: store_object_def)
  have "commit_files ?c p = (case pushed (pf_Files req) p of Some x \<Rightarrow> Some x
               | None \<Rightarrow> if p \<in> set (pf_ExistingPaths req) then None else head_files r (pf_Branch req) p)" for p
  proof -
    have "distinct (map fst fs)" and e: "map_of fs = head_files r (pf_Branch req)" using read_head_files [OF assms(1)] by auto
    then show ?thesis by (simp add: new_commit_files distinct_new_files new_files_lookup e split: option.splits)
  qed
  moreover have "co_parents ?c = (case branches r (pf_Branch req) of None \<Rightarrow> [] | Some x \<Rightarrow> [x])" "co_message ?c = commitMessage req"
    using read_head_checked [OF assms(1)] by (simp_all add: new_commit_def)
  ultimately show ?thesis using obj by (auto simp: put_done_def written_def SetReference_def)
qed

lemma checkExpectedHead_cases: "checkExpectedHead x h = Inr () \<or> checkExpectedHead x h = Inl ErrRefMoved"
  by (auto simp: checkExpectedHead_def split: option.splits)

definition head_readable :: "git_repo \<Rightarrow> string \<Rightarrow> bool" where
  "head_readable r branch \<longleftrightarrow> (case branches r branch of None \<Rightarrow> True | Some h \<Rightarrow> objects r h \<noteq> None)"

lemma read_head_error:
  "head_readable r (pf_Branch req) \<Longrightarrow> read_head req r = Inl e \<Longrightarrow>
   e = ErrRefMoved \<and> checkExpectedHead (pf_ExpectedHead req) (branches r (pf_Branch req)) = Inl ErrRefMoved"
  using checkExpectedHead_cases [of "pf_ExpectedHead req" "branches r (pf_Branch req)"]
  by (cases "branches r (pf_Branch req)") (auto simp: read_head_def head_readable_def)

text \<open>C22. \<open>PutFiles\<close> is a compare-and-swap.  In whatever state the repository is by the time it runs,
  it succeeds only if the branch is where the caller expects it (or does not exist, if that is what
  the caller expects); it then moves this branch alone to a new commit whose parent is the old head
  and whose files are the pushed ones, together with the old head's files that the caller neither
  pushed nor listed as its own, every earlier commit staying readable.  If it fails, for whatever
  reason, no branch of any repository has moved.  When nothing fails, a branch that has moved is
  the only reason to refuse, and the refusal is \<open>ErrRefMoved\<close>.\<close>

theorem put_files_compare_and_swap:
  assumes "run (PutFiles renv req) w = (res, w')" and "openRepo (repos w) (pf_RepoPath req) = Inr r" and "no_clash renv r"
  shows "dbs w' = dbs w
    \<and> (\<forall>h. res = Inr h \<longrightarrow> checkExpectedHead (pf_ExpectedHead req) (branches r (pf_Branch req)) = Inr ()
         \<and> (\<exists>r'. repos w' = (repos w)(pf_RepoPath req \<mapsto> r') \<and> put_done req r h r'))
    \<and> (\<forall>e. res = Inl e \<longrightarrow> same_heads (repos w) (repos w'))
    \<and> (faults w = [] \<and> head_readable r (pf_Branch req) \<longrightarrow>
         (if checkExpectedHead (pf_ExpectedHead req) (branches r (pf_Branch req)) = Inr ()
          then \<exists>h. res = Inr h else res = Inl ErrRefMoved))"
proof -
  have "wp (PutFiles renv req) (\<lambda>res w'. dbs w' = dbs w
    \<and> (\<forall>h. res = Inr h \<longrightarrow> checkExpectedHead (pf_ExpectedHead req) (branches r (pf_Branch req)) = Inr ()
         \<and> (\<exists>r'. repos w' = (repos w)(pf_RepoPath req \<mapsto> r') \<and> put_done req r h r'))
    \<and> (\<forall>e. res = Inl e \<longrightarrow> same_heads (repos w) (repos w'))
    \<and> (faults w = [] \<and> head_readable r (pf_Branch req) \<longrightarrow>
         (if checkExpectedHead (pf_ExpectedHead req) (branches r (pf_Branch req)) = Inr ()
          then \<exists>h. res = Inr h else res = Inl ErrRefMoved))) w"
    by (rule PutFiles_after)
      (use assms(2,3) in \<open>auto simp: reach_def intro: written_done dest: read_head_checked read_head_error\<close>)
  from wp_run [OF this assms(1)] show ?thesis .
qed

section \<open>Rollback, creation and removal\<close>

lemma RollbackCommit_after:
  assumes "previousHead = [] \<Longrightarrow> Q (Inr ()) w"
    and "\<And>e w'. previousHead \<noteq> [] \<Longrightarrow> (faults w = [] \<Longrightarrow> \<not> (\<exists>r. openRepo (repos w) p = Inr r \<and> branches r b = Some cur)) \<Longrightarrow>
      after w (dbs w) w' \<Longrightarrow> Q (Inl e) w'"
    and "\<And>r w'. previousHead \<noteq> [] \<Longrightarrow> openRepo (repos w) p = Inr r \<Longrightarrow>
      (case branches r b of None \<Rightarrow> False | Some h \<Rightarrow> EqualFold h cur) \<Longrightarrow>
      reach w (dbs w) ((repos w)(p \<mapsto> SetReference b (NewHash renv previousHead) r)) w' \<Longrightarrow> Q (Inr ()) w'"
    and "\<And>r w'. previousHead \<noteq> [] \<Longrightarrow> openRepo (repos w) p = Inr r \<Longrightarrow> branches r b = None \<Longrightarrow> after w (dbs w) w' \<Longrightarrow> Q (Inr ()) w'"
    and "cur \<noteq> []"
  shows "wp (RollbackCommit renv p b cur previousHead) Q w"
proof -
  have same: "(repos w)(p \<mapsto> r) = repos w" if "repos w p = Some r" for r using that by auto
  have moved: "Q x w'"
    if r: "openRepo (repos w) p = Inr r" and f: "(case branches r b of
             None \<Rightarrow> (Inr (), r)
           | Some h \<Rightarrow> if \<not> EqualFold h cur then (Inl ErrRefMoved, r)
               else (Inr (), SetReference b (NewHash renv previousHead) r)) = (x, r')"
      and w': "reach w (dbs w) ((repos w)(p \<mapsto> r')) w'" and ne: "previousHead \<noteq> []" for r x r' w'
  proof (cases "branches r b")
    case None
    with f w' same r ne show ?thesis using assms(4) [of r w'] by (auto simp: openRepo_Inr after_reach)
  next
    case (Some h)
    then show ?thesis
      using f w' same r ne assms(2) [of w' ErrRefMoved] assms(3) [of r w']
      by (cases "EqualFold h cur") (auto simp: openRepo_Inr after_reach EqualFold_def)
  qed
  show ?thesis
    unfolding RollbackCommit_def using assms(5)
    by (auto intro!: wp_intros wp_in_repo assms(1) simp: openRepo_Inr intro: assms(2) moved)
qed

lemma CreateRepository_after [wp_after]:
  assumes "\<And>e w'. after w (dbs w) w' \<Longrightarrow> (faults w = [] \<Longrightarrow> ValidateRepoPath p \<noteq> None) \<Longrightarrow> Q (Inl e) w'"
    and "\<And>r w'. ValidateRepoPath p = None \<Longrightarrow> repos w p = Some r \<Longrightarrow> after w (dbs w) w' \<Longrightarrow> Q (Inr ()) w'"
    and "\<And>w'. ValidateRepoPath p = None \<Longrightarrow> repos w p = None \<Longrightarrow> reach w (dbs w) ((repos w)(p \<mapsto> new_repo b)) w' \<Longrightarrow> Q (Inr ()) w'"
  shows "wp (CreateRepository p b) Q w"
  unfolding CreateRepository_def
  by (rule wp_io_after) (use assms in \<open>auto simp: after_def reach_def split: option.splits\<close>)

lemma DeleteRepository_after [wp_after]:
  assumes "\<And>e w'. after w (dbs w) w' \<Longrightarrow> (faults w = [] \<Longrightarrow> ValidateRepoPath p \<noteq> None) \<Longrightarrow> Q (Inl e) w'"
    and "\<And>w'. ValidateRepoPath p = None \<Longrightarrow> reach w (dbs w) (remove_path p (repos w)) w' \<Longrightarrow> Q (Inr ()) w'"
  shows "wp (DeleteRepository p) Q w"
  unfolding DeleteRepository_def
  by (rule wp_io_after) (use assms in \<open>auto simp: after_def reach_def split: option.splits\<close>)

section \<open>A small repository\<close>

definition demo_root :: commit_obj where
  "demo_root = \<lparr>co_tree = [Regular ''README.md'' [], Regular ''buf.yaml'' ''version: v2''], co_parents = [],
     co_message = ''initial commit'', co_author = ''alice'', co_email = ''a@x'', co_when = 0\<rparr>"

definition demo_sum :: "char \<Rightarrow> string" where
  "demo_sum c = replicate 39 (CHR ''0'') @ [c]"

definition demo_renv :: renv where
  "demo_renv = \<lparr>commit_sum = \<lambda>c. if c = demo_root then demo_sum (CHR ''a'') else demo_sum (CHR ''b''),
     NewHash = \<lambda>h. h, ResolveRevision = \<lambda>r ref. branches r ref, ShakeSum256 = \<lambda>s. take 64 (s @ replicate 64 (CHR ''0'')), TempDir = ''/tmp/hades'', err_Error = \<lambda>e. ''failed'',
     Lint = \<lambda>fs. None, Check = \<lambda>fs ps. None, MaxUploadFiles = 0, MaxUploadBytes = 0, LintEnabled = True,
     BreakingEnabled = True, SDKEnabled = True, Generators = [], linter_wired = True, breaking_wired = True,
     oplog_wired = True, cirun_wired = True, notification_wired = True, org_wired = True\<rparr>"

definition demo_repo :: git_repo where
  "demo_repo = \<lparr>branches = [''main'' \<mapsto> demo_sum (CHR ''a'')], objects = [demo_sum (CHR ''a'') \<mapsto> demo_root], head_branch = ''main''\<rparr>"

definition demo_put :: "string \<Rightarrow> PutFilesRequest" where
  "demo_put expected = \<lparr>pf_RepoPath = ''alice/m'', pf_Branch = ''main'', pf_Files = [\<lparr>Path = ''a.proto'', Content = ''x''\<rparr>],
     pf_ExistingPaths = [''README.md''], pf_AuthorName = ''alice'', pf_AuthorEmail = ''a@x'', pf_Message = ''upload'',
     pf_Digest = [], pf_ExpectedHead = expected\<rparr>"

lemma demo_sum_simps [simp]: "demo_sum a = demo_sum b \<longleftrightarrow> a = b" "demo_sum a \<noteq> []" "length (demo_sum a) = 40"
  by (simp_all add: demo_sum_def)

lemma demo_no_clash: "no_clash demo_renv demo_repo"
  by (simp add: no_clash_def demo_renv_def demo_repo_def)

lemma demo_repo_opens: "openRepo [''alice/m'' \<mapsto> demo_repo] ''alice/m'' = Inr demo_repo"
proof -
  have "ValidateRepoPath ''alice/m'' = None" by code_simp
  then show ?thesis by (simp add: openRepo_def)
qed

theorem put_files_compare_and_swap_witness:
  "\<exists>h w'. run (PutFiles demo_renv (demo_put (demo_sum (CHR ''a'')))) (start_world\<lparr>repos := [''alice/m'' \<mapsto> demo_repo]\<rparr>) = (Inr h, w')
     \<and> (\<exists>r' c. repos w' ''alice/m'' = Some r' \<and> objects r' h = Some c
          \<and> commit_files c ''a.proto'' = Some ''x'' \<and> commit_files c ''README.md'' = None \<and> commit_files c ''buf.yaml'' = Some ''version: v2'')
     \<and> fst (run (PutFiles demo_renv (demo_put [])) (start_world\<lparr>repos := [''alice/m'' \<mapsto> demo_repo]\<rparr>)) = Inl ErrRefMoved"
proof -
  let ?w = "start_world\<lparr>repos := [''alice/m'' \<mapsto> demo_repo]\<rparr>"
  obtain r1 w1 where 1: "run (PutFiles demo_renv (demo_put (demo_sum (CHR ''a'')))) ?w = (r1, w1)" by fastforce
  obtain r2 w2 where 2: "run (PutFiles demo_renv (demo_put [])) ?w = (r2, w2)" by fastforce
  have o: "openRepo (repos ?w) (pf_RepoPath (demo_put e)) = Inr demo_repo" for e
    by (simp add: demo_put_def demo_repo_opens)
  have hd: "head_readable demo_repo ''main''" "faults ?w = []" "pf_Branch (demo_put e) = ''main''" for e
    by (simp_all add: head_readable_def demo_repo_def start_world_def demo_put_def)
  have chk: "checkExpectedHead (pf_ExpectedHead (demo_put (demo_sum (CHR ''a'')))) (branches demo_repo ''main'') = Inr ()"
    "checkExpectedHead (pf_ExpectedHead (demo_put [])) (branches demo_repo ''main'') = Inl ErrRefMoved"
    by (simp_all add: checkExpectedHead_def demo_put_def demo_repo_def EqualFold_def)
  from put_files_compare_and_swap [OF 1 o demo_no_clash] hd chk obtain h r' where
    h: "r1 = Inr h" "repos w1 = (repos ?w)(pf_RepoPath (demo_put (demo_sum (CHR ''a''))) \<mapsto> r')" and
    d: "put_done (demo_put (demo_sum (CHR ''a''))) demo_repo h r'" by auto
  have "r2 = Inl ErrRefMoved" using put_files_compare_and_swap [OF 2 o demo_no_clash] hd chk by auto
  moreover have files: "head_files demo_repo ''main'' = map_of [(''buf.yaml'', ''version: v2''), (''README.md'', [])]"
    by (simp add: head_files_def demo_repo_def commit_files_def map_of_file_map tree_Files_def demo_root_def)
  moreover have "pushed (pf_Files (demo_put e)) = [''a.proto'' \<mapsto> ''x'']" for e
    by (simp add: pushed_def demo_put_def)
  ultimately show ?thesis using 1 2 h d
    by (auto simp: put_done_def demo_put_def)
qed

end
