(* ===== verification/Registry_Calls.thy ===== *)
theory Registry_Calls
  imports Git_Facts Auth_Common
begin

text \<open>
  The methods of the registry stores that issue several statements, as calls of the handlers
  (\<open>internal/hades/storage/db/{module,commit,cirun,sdkjob,notification,gitalyoplog}/sqlite\<close>).  Inside
  a unit of work they run on its transaction; outside each statement commits on its own.
\<close>

section \<open>Statements on the registry tables\<close>

definition reg :: "(registry_db \<Rightarrow> registry_db) \<Rightarrow> db \<Rightarrow> db" where
  "reg f d = d\<lparr>registry := f (registry d)\<rparr>"

definition upd_reg :: "(time \<Rightarrow> registry_db \<Rightarrow> registry_db) \<Rightarrow> (world, unit) call" where
  "upd_reg f = upd (\<lambda>now d. reg (f now) d)"

definition insert_reg :: "env \<Rightarrow> (string \<Rightarrow> time \<Rightarrow> registry_db \<Rightarrow> 'a res \<times> registry_db) \<Rightarrow> (world, 'a) call" where
  "insert_reg env f = insert_row env (\<lambda>i now d. case f i now (registry d) of (r, rg) \<Rightarrow> (r, reg (\<lambda>_. rg) d))"

definition exec_reg :: "(time \<Rightarrow> registry_db \<Rightarrow> 'a res \<times> registry_db) \<Rightarrow> (world, 'a) call" where
  "exec_reg f = exec (\<lambda>now d. case f now (registry d) of (r, rg) \<Rightarrow> (r, reg (\<lambda>_. rg) d))"

section \<open>Modules and commits\<close>

definition resource_Register_call :: "string \<Rightarrow> string \<Rightarrow> (world, unit) call" where
  "resource_Register_call i rt = upd_reg (\<lambda>_ rg. rg\<lparr>resource_table := resource_Register i rt (resource_table rg)\<rparr>)"

record new_module =
  nm_name :: string
  nm_ownerId :: string
  nm_visibility :: int
  nm_state :: int
  nm_description :: string
  nm_url :: string
  nm_defaultLabelName :: string
  nm_defaultBranch :: string
  nm_lintPreset :: int
  nm_breakingEnabled :: bool

definition module_Create :: "env \<Rightarrow> new_module \<Rightarrow> (world, Module) call" where
  "module_Create env m = do {
     i \<leftarrow> insert_reg env (\<lambda>i now rg. case module_Insert i now (nm_name m) (nm_ownerId m) (nm_visibility m) (nm_state m)
            (nm_description m) (nm_url m) (nm_defaultLabelName m) (nm_defaultBranch m) (nm_lintPreset m)
            (nm_breakingEnabled m) (module_table rg) of (r, t) \<Rightarrow> (r, rg\<lparr>module_table := t\<rparr>));
     (case i of
        Inl e \<Rightarrow> fail e
      | Inr _ \<Rightarrow> do {
          q \<leftarrow> qry (\<lambda>d. module_GetByName (nm_name m) (module_table (registry d)));
          (case q of
             Inl e \<Rightarrow> fail e
           | Inr md \<Rightarrow> do {
               g \<leftarrow> resource_Register_call (Mod_Id md) ResourceTypeModule;
               (case g of Inl e \<Rightarrow> fail e | Inr _ \<Rightarrow> ok md)
             })
        })
   }"

definition module_Update_call :: "UpdateModuleRequest \<Rightarrow> (world, Module) call" where
  "module_Update_call req = do {
     u \<leftarrow> upd (\<lambda>now d. reg (\<lambda>rg. rg\<lparr>module_table := module_Update now (users d) req (module_table rg)\<rparr>) d);
     (case u of
        Inl e \<Rightarrow> fail e
      | Inr _ \<Rightarrow> qry (\<lambda>d. module_Updated (users d) req (module_table (registry d))))
   }"

fun GetModulesByRefs :: "ModuleRef list \<Rightarrow> (world, Module list) call" where
  "GetModulesByRefs [] = ok []"
| "GetModulesByRefs (ref # refs) = do {
     q \<leftarrow> qry (\<lambda>d. module_GetByRef ref (module_table (registry d)));
     (case q of
        Inl e \<Rightarrow> fail e
      | Inr m \<Rightarrow> do {
          rest \<leftarrow> GetModulesByRefs refs;
          (case rest of Inl e \<Rightarrow> fail e | Inr ms \<Rightarrow> ok (m # ms))
        })
   }"

record new_commit_row =
  nc_id :: uuid
  nc_commitHash :: string
  nc_ownerId :: string
  nc_moduleId :: string
  nc_digestType :: int
  nc_digestValue :: string
  nc_createdByUserId :: string
  nc_sourceControlUrl :: string

definition commit_Create :: "new_commit_row \<Rightarrow> (world, unit) call" where
  "commit_Create c = do {
     i \<leftarrow> exec_reg (\<lambda>now rg. case commit_Insert now (nc_id c) (nc_commitHash c) (nc_ownerId c) (nc_moduleId c)
            (nc_digestType c) (nc_digestValue c) (nc_createdByUserId c) (nc_sourceControlUrl c) (commit_table rg) of
            (r, t) \<Rightarrow> (r, rg\<lparr>commit_table := t\<rparr>));
     (case i of Inl e \<Rightarrow> fail e | Inr _ \<Rightarrow> resource_Register_call (UUID (nc_id c)) ResourceTypeCommit)
   }"

fun GetCommitByOwnerModule :: "ModuleRef list \<Rightarrow> (world, Commit list) call" where
  "GetCommitByOwnerModule [] = ok []"
| "GetCommitByOwnerModule (ref # refs) = do {
     q \<leftarrow> qry (\<lambda>d. Inr (commit_ByRef (users d) (module_table (registry d)) ref (commit_table (registry d))));
     (case q of
        Inl e \<Rightarrow> fail e
      | Inr cs \<Rightarrow> do {
          rest \<leftarrow> GetCommitByOwnerModule refs;
          (case rest of Inl e \<Rightarrow> fail e | Inr cs' \<Rightarrow> ok (cs @ cs'))
        })
   }"

section \<open>Check results, jobs, notifications, operation log\<close>

definition cirun_Create :: "env \<Rightarrow> string \<Rightarrow> string \<Rightarrow> bool \<Rightarrow> bool \<Rightarrow> bool \<Rightarrow> string list option \<Rightarrow> string list option
    \<Rightarrow> (world, CIRun) call" where
  "cirun_Create env moduleID commitHash lintPassed breakingPassed breakingRan lintErrors breakingErrors = do {
     i \<leftarrow> insert_reg env (\<lambda>i now rg. case cirun_Upsert i now moduleID commitHash lintPassed breakingPassed breakingRan
            (Marshal_slice lintErrors) (Marshal_slice breakingErrors) (cirun_table rg) of (r, t) \<Rightarrow> (r, rg\<lparr>cirun_table := t\<rparr>));
     (case i of
        Inl e \<Rightarrow> fail e
      | Inr _ \<Rightarrow> qry (\<lambda>d. cirun_GetByModuleAndCommit moduleID commitHash (cirun_table (registry d))))
   }"

fun job_CreateBatch :: "env \<Rightarrow> string \<Rightarrow> string \<Rightarrow> GeneratorConfig list \<Rightarrow> (world, unit) call" where
  "job_CreateBatch env commitID moduleID [] = ok ()"
| "job_CreateBatch env commitID moduleID (g # gs) = do {
     i \<leftarrow> insert_reg env (\<lambda>i now rg. case job_Insert i now commitID moduleID g (job_table rg) of
            (r, t) \<Rightarrow> (r, rg\<lparr>job_table := t\<rparr>));
     (case i of Inl e \<Rightarrow> fail e | Inr _ \<Rightarrow> job_CreateBatch env commitID moduleID gs)
   }"

definition notification_CreateBatch_call :: "env \<Rightarrow> string list \<Rightarrow> string \<Rightarrow> string \<Rightarrow> string \<Rightarrow> string \<Rightarrow> (world, unit) call" where
  "notification_CreateBatch_call env userIDs ty title body resourceID =
     (if userIDs = [] then ok ()
      else insert_rows env (length userIDs) (\<lambda>is now d.
        case notification_CreateBatch is now userIDs ty title body resourceID (notification_table (registry d)) of
          (r, t) \<Rightarrow> (r, reg (\<lambda>rg. rg\<lparr>notification_table := t\<rparr>) d)))"

text \<open>\<open>CreatePending\<close> draws the identifier itself.\<close>

definition oplog_CreatePending :: "env \<Rightarrow> string \<Rightarrow> string \<Rightarrow> string \<Rightarrow> (world, uuid) call" where
  "oplog_CreatePending env opType moduleName userID = insert_reg env (\<lambda>i now rg.
     case oplog_Insert (Canonical i) opType moduleName userID (oplog_table rg) of
       (r, t) \<Rightarrow> (r, rg\<lparr>oplog_table := t\<rparr>))"

definition oplog_UpdateStatus_call :: "uuid \<Rightarrow> oplog_status \<Rightarrow> string \<Rightarrow> string \<Rightarrow> (world, unit) call" where
  "oplog_UpdateStatus_call i status commitHash errorReason = upd_reg (\<lambda>_ rg.
     rg\<lparr>oplog_table := oplog_UpdateStatus i status commitHash errorReason (oplog_table rg)\<rparr>)"

text \<open>\<open>logID, _ = CreatePending(...)\<close> and the best-effort update, as both handlers use the log: without
  a log, or after a failed \<open>CreatePending\<close>, there is nothing to update.  The reason is the text of an
  error, which the model does not compute.\<close>

definition oplog_begin :: "env \<Rightarrow> renv \<Rightarrow> string \<Rightarrow> string \<Rightarrow> string \<Rightarrow> (world, uuid option) state" where
  "oplog_begin env renv opType moduleName userID =
     (if oplog_wired renv then do {
        r \<leftarrow> oplog_CreatePending env opType moduleName userID;
        State_Monad.return (case r of Inl e \<Rightarrow> None | Inr i \<Rightarrow> Some i)
      } else State_Monad.return None)"

definition oplog_end :: "uuid option \<Rightarrow> oplog_status \<Rightarrow> string \<Rightarrow> string \<Rightarrow> (world, unit) state" where
  "oplog_end logID status commitHash errorReason = (case logID of
     None \<Rightarrow> State_Monad.return ()
   | Some i \<Rightarrow> do { _ \<leftarrow> oplog_UpdateStatus_call i status commitHash errorReason; State_Monad.return () })"

section \<open>Rules\<close>

lemma wp_upd_reg [wp_after]:
  "(\<And>e w'. faults w \<noteq> [] \<Longrightarrow> after w (dbs w) w' \<Longrightarrow> Q (Inl (fault_err e)) w') \<Longrightarrow>
   (\<And>w'. after w (reg (f (clock w)) (dbs w)) w' \<Longrightarrow> Q (Inr ()) w') \<Longrightarrow> wp (upd_reg f) Q w"
  unfolding upd_reg_def by (rule wp_after)

lemma wp_insert_reg [wp_after]:
  "(\<And>e w'. faults w \<noteq> [] \<Longrightarrow> after w (dbs w) w' \<Longrightarrow> Q (Inl (fault_err e)) w') \<Longrightarrow>
   (\<And>n r rg w'. f (new_id env n) (clock w) (registry (dbs w)) = (r, rg) \<Longrightarrow> after w (reg (\<lambda>_. rg) (dbs w)) w' \<Longrightarrow> Q r w') \<Longrightarrow>
   wp (insert_reg env f) Q w"
  unfolding insert_reg_def by (rule wp_after) (auto split: prod.splits)

lemma wp_exec_reg [wp_after]:
  "(\<And>e w'. faults w \<noteq> [] \<Longrightarrow> after w (dbs w) w' \<Longrightarrow> Q (Inl (fault_err e)) w') \<Longrightarrow>
   (\<And>r rg w'. f (clock w) (registry (dbs w)) = (r, rg) \<Longrightarrow> after w (reg (\<lambda>_. rg) (dbs w)) w' \<Longrightarrow> Q r w') \<Longrightarrow>
   wp (exec_reg f) Q w"
  unfolding exec_reg_def by (rule wp_after) (auto split: prod.splits)

lemma reg_simps [simp]:
  "registry (reg f d) = f (registry d)" "reg f (reg h d) = reg (f \<circ> h) d" "users (reg f d) = users d"
  "sessions (reg f d) = sessions d" "api_tokens (reg f d) = api_tokens d" "role_bindings (reg f d) = role_bindings d"
  by (simp_all add: reg_def)

lemma reg_const [simp]: "reg (\<lambda>_. rg) (reg (\<lambda>_. rg') d) = reg (\<lambda>_. rg) d" "reg (\<lambda>_. registry d) d = d"
  by (simp_all add: reg_def)

context credential_fact
begin

lemma reg_keeps: "Q d \<Longrightarrow> Q (reg f d)"
  unfolding reg_def by (rule registry_free)

lemma reg_calls_keep [db_intros]:
  "db_keeps Q (upd_reg f)" "db_keeps Q (upd (\<lambda>now d. reg (h now d) d))" "db_keeps Q (insert_reg env i)" "db_keeps Q (exec_reg e)"
  unfolding upd_reg_def insert_reg_def exec_reg_def
  by (rule db_keeps_upd db_keeps_insert db_keeps_exec; auto simp: reg_keeps split: prod.splits)+

lemma refs_keep [db_intros]: "db_keeps Q (GetModulesByRefs refs)" "db_keeps Q (GetCommitByOwnerModule refs)"
  by (induction refs) (auto intro!: db_intros)

lemma batch_keep [db_intros]: "db_keeps Q (job_CreateBatch env c m gs)"
  by (induction gs) (auto intro!: db_intros)

lemma store_calls_keep [db_intros]:
  "db_keeps Q (module_Create env m)" "db_keeps Q (module_Update_call req)" "db_keeps Q (commit_Create c)"
  "db_keeps Q (cirun_Create env mi ch lp bp br le be)" "db_keeps Q (notification_CreateBatch_call env us ty ti bo ri)"
  "db_keeps Q (oplog_begin env renv op mn ui)" "db_keeps Q (oplog_end li st ch er)"
  unfolding module_Create_def module_Update_call_def commit_Create_def cirun_Create_def notification_CreateBatch_call_def
    oplog_begin_def oplog_end_def oplog_CreatePending_def oplog_UpdateStatus_call_def resource_Register_call_def
  by (intro db_intros db_keeps_insert_rows; auto simp: reg_keeps split: prod.splits)+

end

end
