(* ===== verification/Module_Server.thy ===== *)
theory Module_Server
  imports Registry_Calls
begin

text \<open>
  The module service (\<open>internal/hades/server/module/module.go\<close>): lookup, listing, creation and update.
\<close>

section \<open>Shared pieces\<close>

definition mref :: "Module \<Rightarrow> module_ref" where
  "mref m = \<lparr>MName = Mod_Name m, MVisibility = Mod_Visibility m\<rparr>"

definition module_policy :: "User \<Rightarrow> string \<Rightarrow> string \<Rightarrow> policy" where
  "module_policy user action domain = \<lparr>Subject = Username user, Domain = domain, ResourceType = ResourceModule,
     Action = action, Visibility = []\<rparr>"

definition CREATE :: string where "CREATE = ''create''"
definition ActionUpdate :: string where "ActionUpdate = ''update''"
definition ActionPublish :: string where "ActionPublish = ''publish''"

definition LINT_PRESET_DEFAULT :: int where "LINT_PRESET_DEFAULT = 1"
definition MODULE_STATE_ACTIVE :: int where "MODULE_STATE_ACTIVE = 1"

definition lintPresetToRule :: "int \<Rightarrow> string" where
  "lintPresetToRule p = (if p = 2 then ''BASIC'' else if p = 3 then ''MINIMAL'' else if p = 4 then ''COMMENTS'' else ''DEFAULT'')"

abbreviation newline :: string where "newline \<equiv> [CHR 0x0A]"

definition buf_yaml :: "string \<Rightarrow> string \<Rightarrow> int \<Rightarrow> bool \<Rightarrow> string" where
  "buf_yaml host name lintPreset breakingEnabled =
     (let bsrName = (if host \<noteq> [] then host @ ''/'' @ name else name);
          out = ''version: v2'' @ newline @ ''modules:'' @ newline @ ''  - path: .'' @ newline @ ''    name: '' @ bsrName
            @ newline @ ''lint:'' @ newline @ ''  use:'' @ newline @ ''    - '' @ lintPresetToRule lintPreset @ newline
      in if breakingEnabled then out @ ''breaking:'' @ newline @ ''  use:'' @ newline @ ''    - FILE'' @ newline else out)"

section \<open>Reading modules\<close>

definition GetModules :: "env \<Rightarrow> reqctx \<Rightarrow> ModuleRef list \<Rightarrow> (world, Module list) call" where
  "GetModules env ctx refs = do {
     m \<leftarrow> GetModulesByRefs refs;
     (case m of
        Inl e \<Rightarrow> fail e
      | Inr modules \<Rightarrow> do {
          c \<leftarrow> CheckReadAccess env ctx (ctx_user ctx) (map mref modules);
          (case c of Inl e \<Rightarrow> fail e | Inr _ \<Rightarrow> ok modules)
        })
   }"

definition maxListScanBatches :: nat where "maxListScanBatches = 10"

text \<open>The rows of one batch: every row advances the offset, a readable one joins the page, and a full
  page stops the scan.\<close>

fun scan_rows :: "env \<Rightarrow> reqctx \<Rightarrow> int \<Rightarrow> Module list \<Rightarrow> Module list \<Rightarrow> int \<Rightarrow> (world, Module list \<times> int) state" where
  "scan_rows env ctx pageSize [] visible scanOffset = State_Monad.return (visible, scanOffset)"
| "scan_rows env ctx pageSize (m # ms) visible scanOffset = do {
     c \<leftarrow> CheckReadAccess env ctx (ctx_user ctx) [mref m];
     (case c of
        Inl e \<Rightarrow> scan_rows env ctx pageSize ms visible (scanOffset + 1)
      | Inr _ \<Rightarrow> if int (length (visible @ [m])) = pageSize then State_Monad.return (visible @ [m], scanOffset + 1)
                 else scan_rows env ctx pageSize ms (visible @ [m]) (scanOffset + 1))
   }"

fun scan_batches :: "env \<Rightarrow> reqctx \<Rightarrow> string \<Rightarrow> int \<Rightarrow> nat \<Rightarrow> Module list \<Rightarrow> int \<Rightarrow> (world, Module list \<times> int \<times> bool) call" where
  "scan_batches env ctx owner pageSize 0 visible scanOffset = ok (visible, scanOffset, False)"
| "scan_batches env ctx owner pageSize (Suc n) visible scanOffset =
     (if \<not> int (length visible) < pageSize then ok (visible, scanOffset, False)
      else let (subject, subjectID) = (case ctx_user ctx of None \<Rightarrow> ([], []) | Some u \<Rightarrow> (Username u, Id u)) in do {
        q \<leftarrow> qry (\<lambda>d. Inr (module_ListVisibleModules (users d) (role_bindings d) owner subject subjectID pageSize scanOffset
               (module_table (registry d))));
        (case q of
           Inl e \<Rightarrow> fail (FromDB e)
         | Inr modules \<Rightarrow>
             if modules = [] then ok (visible, scanOffset, True)
             else do {
               s \<leftarrow> scan_rows env ctx pageSize modules visible scanOffset;
               (case s of (visible', scanOffset') \<Rightarrow>
                  if int (length modules) < pageSize then ok (visible', scanOffset', True)
                  else scan_batches env ctx owner pageSize n visible' scanOffset')
             })
      })"

definition ListModules :: "env \<Rightarrow> reqctx \<Rightarrow> string \<Rightarrow> int \<Rightarrow> string \<Rightarrow> (world, Module list \<times> string) call" where
  "ListModules env ctx owner PageSize PageToken = (case Page PageSize PageToken of (pageSize, offset) \<Rightarrow> do {
     r \<leftarrow> scan_batches env ctx owner pageSize maxListScanBatches [] offset;
     (case r of
        Inl e \<Rightarrow> fail e
      | Inr (visible, scanOffset, exhausted) \<Rightarrow> ok (visible, if \<not> exhausted then Itoa scanOffset else []))
   })"

definition GetModule :: "env \<Rightarrow> reqctx \<Rightarrow> string \<Rightarrow> string \<Rightarrow> (world, Module) call" where
  "GetModule env ctx owner name = do {
     q \<leftarrow> qry (\<lambda>d. module_GetModuleByOwnerAndName (users d) owner name (module_table (registry d)));
     (case q of
        Inl e \<Rightarrow> fail (NotFound ''module not found'')
      | Inr m \<Rightarrow> do {
          c \<leftarrow> CheckReadAccess env ctx (ctx_user ctx) [mref m];
          (case c of Inl e \<Rightarrow> fail (NotFound ''module not found'') | Inr _ \<Rightarrow> ok m)
        })
   }"

section \<open>Creating a module\<close>

record CreateModuleRequest =
  cr_Name :: string
  cr_Owner :: string
  cr_Visibility :: int
  cr_Description :: string
  cr_DefaultBranch :: string
  cr_LintPreset :: int
  cr_BreakingEnabled :: bool

definition initial_files :: "env \<Rightarrow> string \<Rightarrow> int \<Rightarrow> bool \<Rightarrow> upload_file list" where
  "initial_files env moduleFullName lintPreset breakingEnabled =
     [\<lparr>Path = ''README.md'', Content = []\<rparr>,
      \<lparr>Path = ''buf.yaml'', Content = buf_yaml (registryHost env) moduleFullName lintPreset breakingEnabled\<rparr>]"

definition initial_put :: "env \<Rightarrow> User \<Rightarrow> new_module \<Rightarrow> PutFilesRequest" where
  "initial_put env user nm = \<lparr>pf_RepoPath = nm_name nm, pf_Branch = nm_defaultBranch nm,
     pf_Files = initial_files env (nm_name nm) (nm_lintPreset nm) (nm_breakingEnabled nm),
     pf_ExistingPaths = [], pf_AuthorName = Username user, pf_AuthorEmail = Email user,
     pf_Message = ''initial commit'', pf_Digest = [], pf_ExpectedHead = []\<rparr>"

text \<open>The transaction: the module row and the row of its first commit.\<close>

definition create_tx :: "env \<Rightarrow> User \<Rightarrow> new_module \<Rightarrow> string \<Rightarrow> (world, Module) call" where
  "create_tx env user nm commitHash = uow_do (do {
     m \<leftarrow> module_Create env nm;
     (case m of
        Inl e \<Rightarrow> fail (FromDB e)
      | Inr md \<Rightarrow> do {
          i \<leftarrow> uuid_New env;
          c \<leftarrow> commit_Create \<lparr>nc_id = i, nc_commitHash = commitHash, nc_ownerId = Id user, nc_moduleId = Mod_Id md,
                 nc_digestType = DIGEST_TYPE_B5, nc_digestValue = [], nc_createdByUserId = Id user, nc_sourceControlUrl = []\<rparr>;
          (case c of Inl e \<Rightarrow> fail (FromDB e) | Inr _ \<Rightarrow> ok md)
        })
   })"

text \<open>The steps after the permission and name checks: repository, first commit, transaction, and the
  compensation of a failure.\<close>

definition create_saga :: "env \<Rightarrow> renv \<Rightarrow> User \<Rightarrow> new_module \<Rightarrow> (world, Module) call" where
  "create_saga env renv user nm = (let moduleFullName = nm_name nm; branch = nm_defaultBranch nm in do {
     logID \<leftarrow> oplog_begin env renv OpCreateModule moduleFullName (Id user);
     r \<leftarrow> CreateRepository moduleFullName branch;
     (case r of
        Inl e \<Rightarrow> do { _ \<leftarrow> oplog_end logID OpFailed [] (err_Error renv e); fail e }
      | Inr _ \<Rightarrow> do {
          p \<leftarrow> PutFiles renv (initial_put env user nm);
          (case p of
             Inl e \<Rightarrow>
               if e = ErrRefMoved then do {
                 _ \<leftarrow> oplog_end logID OpFailed [] (err_Error renv e);
                 fail (AlreadyExists (''module '' @ moduleFullName @ '' already exists''))
               } else do {
                 _ \<leftarrow> DeleteRepository moduleFullName;
                 _ \<leftarrow> oplog_end logID OpFailed [] (err_Error renv e);
                 fail e
               }
           | Inr commitHash \<Rightarrow> do {
               t \<leftarrow> create_tx env user nm commitHash;
               (case t of
                  Inl e \<Rightarrow> do {
                    x \<leftarrow> DeleteRepository moduleFullName;
                    _ \<leftarrow> (case x of
                        Inl e' \<Rightarrow> oplog_end logID OpFailed []
                          (''module creation failed and the repository could not be removed: '' @ err_Error renv e')
                      | Inr _ \<Rightarrow> State_Monad.return ());
                    _ \<leftarrow> oplog_end logID OpFailed [] (err_Error renv e);
                    fail e
                  }
                | Inr md \<Rightarrow> do { _ \<leftarrow> oplog_end logID OpCompleted [] []; ok md })
             })
        })
   })"

definition create_authorized :: "env \<Rightarrow> renv \<Rightarrow> reqctx \<Rightarrow> User \<Rightarrow> CreateModuleRequest \<Rightarrow> string \<Rightarrow> string \<Rightarrow> string \<Rightarrow> (world, Module) call" where
  "create_authorized env renv ctx user msg name ownerName ownerID = (let moduleFullName = ownerName @ ''/'' @ name in do {
     c \<leftarrow> Can env ctx (module_policy user CREATE moduleFullName);
     (case c of
        Inl e \<Rightarrow> fail e
      | Inr can \<Rightarrow>
          if \<not> Allowed can then fail (PermissionDenied ''user is not allowed to create this repo'')
          else do {
            x \<leftarrow> qry (\<lambda>d. module_GetModuleByOwnerAndName (users d) ownerName name (module_table (registry d)));
            (case x of
               Inr existing \<Rightarrow> fail (AlreadyExists (''module '' @ moduleFullName @ '' already exists''))
             | Inl e \<Rightarrow> create_saga env renv user \<lparr>nm_name = moduleFullName, nm_ownerId = ownerID,
                 nm_visibility = cr_Visibility msg, nm_state = MODULE_STATE_ACTIVE, nm_description = cr_Description msg,
                 nm_url = [], nm_defaultLabelName = [],
                 nm_defaultBranch = (if cr_DefaultBranch msg = [] then ''main'' else cr_DefaultBranch msg),
                 nm_lintPreset = (if cr_LintPreset msg = 0 then LINT_PRESET_DEFAULT else cr_LintPreset msg),
                 nm_breakingEnabled = cr_BreakingEnabled msg\<rparr>)
          })
   })"

definition CreateModuleByName :: "env \<Rightarrow> renv \<Rightarrow> reqctx \<Rightarrow> CreateModuleRequest \<Rightarrow> (world, Module) call" where
  "CreateModuleByName env renv ctx msg = (let name = ToLower (TrimSpace (cr_Name msg)) in
     case ValidateName name of
       Some e \<Rightarrow> fail (InvalidArgument (''module '' @ e))
     | None \<Rightarrow> (case ctx_user ctx of
         None \<Rightarrow> fail (Unauthenticated ''not authenticated'')
       | Some user \<Rightarrow>
           (let o0 = ToLower (TrimSpace (cr_Owner msg));
                ownerName = (if o0 = [] then Username user else o0) in
            if ownerName \<noteq> Username user then do {
              g \<leftarrow> qry (\<lambda>d. org_GetByName ownerName (users d));
              (case g of
                 Inl e \<Rightarrow> fail (NotFound ''owner namespace not found'')
               | Inr org \<Rightarrow> create_authorized env renv ctx user msg name ownerName (Id org))
            } else create_authorized env renv ctx user msg name ownerName (Id user))))"

section \<open>Updating a module\<close>

definition UpdateModule :: "env \<Rightarrow> reqctx \<Rightarrow> UpdateModuleRequest \<Rightarrow> (world, Module) call" where
  "UpdateModule env ctx req = (case ctx_user ctx of
     None \<Rightarrow> fail (Unauthenticated ''not authenticated'')
   | Some user \<Rightarrow> (let moduleFullName = um_Owner req @ ''/'' @ um_Name req;
         write = (do {
           u \<leftarrow> module_Update_call req;
           (case u of Inl e \<Rightarrow> fail (FromDB e) | Inr updated \<Rightarrow> ok updated)
         }) in do {
       c \<leftarrow> Can env ctx (module_policy user ActionUpdate moduleFullName);
       (case c of
          Inl e \<Rightarrow> fail e
        | Inr can \<Rightarrow>
            if \<not> Allowed can then fail (PermissionDenied ''user is not allowed to update this module'')
            else if um_Visibility req = Some MODULE_VISIBILITY_PUBLIC then do {
              q \<leftarrow> qry (\<lambda>d. module_GetModuleByOwnerAndName (users d) (um_Owner req) (um_Name req) (module_table (registry d)));
              (case q of
                 Inl e \<Rightarrow> fail (FromDB e)
               | Inr current \<Rightarrow>
                   if Mod_Visibility current \<noteq> MODULE_VISIBILITY_PUBLIC then do {
                     p \<leftarrow> Can env ctx (module_policy user ActionPublish moduleFullName);
                     (case p of
                        Inl e \<Rightarrow> fail e
                      | Inr canPublish \<Rightarrow>
                          if \<not> Allowed canPublish
                          then fail (PermissionDenied ''user is not allowed to make this module public'')
                          else write)
                   } else write)
            } else write)
     }))"

section \<open>Tables the checks leave alone\<close>

lemma eval_policy_db [db_intros]: "db_keeps Q (eval_policy env p docs)"
proof -
  have "db_keeps Q (hybrid_Read env s)" for s
    unfolding hybrid_Read_def Let_def by (intro db_intros)
  then show ?thesis
    unfolding eval_policy_def read_base_def by (intro db_intros)
qed

lemma denied_indices_db [db_intros]: "db_keeps Q (denied_indices env i ps docs)"
  by (induction ps arbitrary: i docs) (auto intro!: db_intros)

lemma checks_db [db_intros]:
  "db_keeps Q (engine_Allow env p)" "db_keeps Q (engine_BatchAllow env ps)" "db_keeps Q (Can env ctx p)"
  "db_keeps Q (BatchCan env ctx ps)" "db_keeps Q (CheckReadAccess env ctx u ms)"
  unfolding Can_def BatchCan_def CheckReadAccess_def engine_Allow_def engine_BatchAllow_def Let_def
  by (intro db_intros)+

lemma scan_rows_db [db_intros]: "db_keeps Q (scan_rows env ctx n ms vis off)"
  by (induction ms arbitrary: vis off) (auto intro!: db_intros)

lemma scan_batches_db [db_intros]: "db_keeps Q (scan_batches env ctx owner n k vis off)"
  by (induction k arbitrary: vis off) (auto intro!: db_intros simp: Let_def split: option.splits)

context credential_fact
begin

lemma create_tx_keeps [db_intros]: "db_keeps Q (create_tx env user nm h)"
  unfolding create_tx_def by (intro db_intros)

lemma create_saga_keeps [db_intros]: "db_keeps Q (create_saga env renv user nm)"
  unfolding create_saga_def Let_def by (intro db_intros)

lemma module_handlers_keep [db_intros]:
  "db_keeps Q (GetModules env ctx refs)" "db_keeps Q (ListModules env ctx owner ps pt)" "db_keeps Q (GetModule env ctx owner name)"
  "db_keeps Q (CreateModuleByName env renv ctx msg)" "db_keeps Q (UpdateModule env ctx req)"
  unfolding GetModules_def ListModules_def GetModule_def CreateModuleByName_def create_authorized_def UpdateModule_def Let_def
  by (intro db_intros)+

end

end
