(* ===== verification/Upload.thy ===== *)
theory Upload
  imports Module_Server
begin

text \<open>
  Pushing to a module: \<open>internal/hades/server/content/upload.go\<close> and the digest of
  \<open>utils/shake256\<close>.

  A push is checked and prepared for all its modules before anything is written; then each module is
  written to git and recorded in the database in turn.  \<open>DigestFiles\<close> sorts the caller's slice in
  place, so the files leave it sorted by path.
\<close>

section \<open>Digests\<close>

definition shake256Length :: nat where "shake256Length = 64"

definition newDigest :: "string \<Rightarrow> string res" where
  "newDigest value = (if length value \<noteq> shake256Length then Inl (OtherErr ''invalid shake256 digest value'') else Inr value)"

definition digest_String :: "string \<Rightarrow> string" where
  "digest_String value = ''shake256:'' @ hexEncode value"

definition CutPrefix :: "string \<Rightarrow> string \<Rightarrow> string \<times> bool" where
  "CutPrefix s prefix = (if HasPrefix s prefix then (drop (length prefix) s, True) else (s, False))"

definition NewDigestForContent :: "renv \<Rightarrow> string \<Rightarrow> string res" where
  "NewDigestForContent renv content = newDigest (ShakeSum256 renv content)"

fun digest_lines :: "renv \<Rightarrow> upload_file list \<Rightarrow> string res" where
  "digest_lines renv [] = Inr []"
| "digest_lines renv (f # fs) = (case NewDigestForContent renv (Content f) of
     Inl e \<Rightarrow> Inl e
   | Inr d \<Rightarrow> (case digest_lines renv fs of
        Inl e \<Rightarrow> Inl e
      | Inr rest \<Rightarrow> Inr (digest_String d @ ''  '' @ Path f @ newline @ rest)))"

text \<open>The digest of sorted files: of the digest of their list.\<close>

definition DigestFiles :: "renv \<Rightarrow> upload_file list \<Rightarrow> string res" where
  "DigestFiles renv datas = (case digest_lines renv (sort_key Path datas) of
     Inl e \<Rightarrow> Inl e
   | Inr digests \<Rightarrow> (case NewDigestForContent renv digests of
        Inl e \<Rightarrow> Inl e
      | Inr digestOfDigests \<Rightarrow> (case newDigest digestOfDigests of
           Inl e \<Rightarrow> Inl e
         | Inr all \<Rightarrow> NewDigestForContent renv (digest_String all))))"

section \<open>Limits\<close>

definition defaultMaxUploadFiles :: int where "defaultMaxUploadFiles = 10000"
definition defaultMaxUploadBytes :: int where "defaultMaxUploadBytes = 268435456"

definition max_files :: "renv \<Rightarrow> int" where
  "max_files renv = (if MaxUploadFiles renv \<le> 0 then defaultMaxUploadFiles else MaxUploadFiles renv)"

definition max_bytes :: "renv \<Rightarrow> int" where
  "max_bytes renv = (if MaxUploadBytes renv \<le> 0 then defaultMaxUploadBytes else MaxUploadBytes renv)"

fun over_bytes :: "int \<Rightarrow> int \<Rightarrow> upload_file list \<Rightarrow> bool" where
  "over_bytes maxBytes acc [] = False"
| "over_bytes maxBytes acc (f # fs) =
     (let acc' = acc + int (length (Content f)) in acc' > maxBytes \<or> over_bytes maxBytes acc' fs)"

definition checkUploadLimits :: "renv \<Rightarrow> upload_file list \<Rightarrow> err option" where
  "checkUploadLimits renv files =
     (if int (length files) > max_files renv
      then Some (ResourceExhausted (''upload contains '' @ Itoa (int (length files)) @ '' files, limit is '' @ Itoa (max_files renv)))
      else if over_bytes (max_bytes renv) 0 files
      then Some (ResourceExhausted (''upload exceeds the '' @ Itoa (max_bytes renv) @ '' byte limit''))
      else None)"

section \<open>Lint and breaking-change checks\<close>

text \<open>A directory is the files written to it, by relative path.  A file cannot be written below a
  file or over a directory.\<close>

definition dir_conflict :: "string \<Rightarrow> string \<Rightarrow> bool" where
  "dir_conflict p q \<longleftrightarrow> HasPrefix p (q @ ''/'') \<or> HasPrefix q (p @ ''/'')"

fun write_files :: "renv \<Rightarrow> upload_file list \<Rightarrow> (string \<times> string) list \<Rightarrow> (string \<times> string) list option" where
  "write_files renv [] dir = Some dir"
| "write_files renv (f # fs) dir = (case writeProtoFile (TempDir renv) (Path f) of
     Refused e \<Rightarrow> None
   | WriteTo dest \<Rightarrow> if \<exists>q \<in> set dir. dir_conflict (Path f) (fst q) then None
       else write_files renv fs (put_file f dir))"

definition ensureBufYAML :: "string \<Rightarrow> bool \<Rightarrow> (string \<times> string) list \<Rightarrow> (string \<times> string) list option" where
  "ensureBufYAML lintPreset breakingEnabled dir =
     (if \<exists>q \<in> set dir. dir_conflict ''buf.yaml'' (fst q) then None
      else Some (put_path ''buf.yaml'' (''version: v2'' @ newline @ ''lint:'' @ newline @ ''  use:'' @ newline @ ''    - '' @ lintPreset @ newline
        @ (if breakingEnabled then ''breaking:'' @ newline @ ''  use:'' @ newline @ ''    - FILE'' @ newline else [])) dir))"

record ciResult =
  ci_ran :: bool
  ci_breakingRan :: bool

text \<open>Creating a temporary directory, writing into it and running \<open>buf\<close> on it may each fail like any
  other call.\<close>

definition disk :: "'a res \<Rightarrow> (world, 'a) call" where
  "disk r = io (\<lambda>w. (r, w))"

definition breaking_check :: "renv \<Rightarrow> (string \<times> string) list \<Rightarrow> upload_file list \<Rightarrow> (world, ciResult) call" where
  "breaking_check renv tmpDir prevFiles = do {
     t \<leftarrow> disk (Inr ());
     (case t of
        Inl e \<Rightarrow> fail (Internal ''failed to create temp directory for previous files'')
      | Inr _ \<Rightarrow> do {
          p \<leftarrow> disk (case write_files renv prevFiles [] of None \<Rightarrow> Inl (OtherErr ''write'') | Some dir \<Rightarrow> Inr dir);
          (case p of
             Inl e \<Rightarrow> fail (Internal ''failed to write previous proto file'')
           | Inr prevTmpDir \<Rightarrow> do {
               b \<leftarrow> disk (Inr (Check renv tmpDir prevTmpDir));
               (case b of
                  Inl e \<Rightarrow> fail (InvalidArgument (err_Error renv e))
                | Inr (Some e) \<Rightarrow> fail (InvalidArgument e)
                | Inr None \<Rightarrow> ok \<lparr>ci_ran = True, ci_breakingRan = True\<rparr>)
             })
        })
   }"

definition runProtoChecks :: "renv \<Rightarrow> upload_file list \<Rightarrow> upload_file list \<Rightarrow> string \<Rightarrow> bool \<Rightarrow> (world, ciResult) call" where
  "runProtoChecks renv files prevFiles lintPreset breakingEnabled = do {
     t \<leftarrow> disk (Inr ());
     (case t of
        Inl e \<Rightarrow> fail (Internal ''failed to create temp directory'')
      | Inr _ \<Rightarrow> do {
          f \<leftarrow> disk (case write_files renv files [] of None \<Rightarrow> Inl (OtherErr ''write'') | Some dir \<Rightarrow> Inr dir);
          (case f of
             Inl e \<Rightarrow> fail (Internal ''failed to write proto file'')
           | Inr dir \<Rightarrow> do {
               y \<leftarrow> disk (case ensureBufYAML lintPreset breakingEnabled dir of None \<Rightarrow> Inl (OtherErr ''write'') | Some dir' \<Rightarrow> Inr dir');
               (case y of
                  Inl e \<Rightarrow> fail (Internal ''failed to write buf.yaml'')
                | Inr tmpDir \<Rightarrow> do {
                    l \<leftarrow> disk (Inr (Lint renv tmpDir));
                    (case l of
                       Inl e \<Rightarrow> fail (InvalidArgument (err_Error renv e))
                     | Inr (Some e) \<Rightarrow> fail (InvalidArgument e)
                     | Inr None \<Rightarrow>
                         if breaking_wired renv \<and> BreakingEnabled renv \<and> breakingEnabled \<and> prevFiles \<noteq> []
                         then breaking_check renv tmpDir prevFiles
                         else ok \<lparr>ci_ran = True, ci_breakingRan = False\<rparr>)
                  })
             })
        })
   }"

section \<open>Preparing a module\<close>

record UploadRequestContent =
  uc_ModuleRef :: ModuleRef
  uc_Files :: "upload_file list"

record uploadWorkItem =
  wi_module :: Module
  wi_files :: "upload_file list"
  wi_listFiles :: "string list"
  wi_dig :: string
  wi_digestBytes :: string
  wi_previousHead :: string
  wi_expectedHead :: string
  wi_checks :: ciResult

text \<open>The map of the uploaded files, the last one of a path winning, without a \<open>buf.yaml\<close>.\<close>

definition upload_map :: "upload_file list \<Rightarrow> upload_file list" where
  "upload_map fs = map (\<lambda>(p, c). \<lparr>Path = p, Content = c\<rparr>)
     (fold put_file (filter (\<lambda>f. Path f \<noteq> ''buf.yaml'') fs) [])"

definition without_buf_yaml :: "upload_file list \<Rightarrow> upload_file list" where
  "without_buf_yaml fs = filter (\<lambda>f. Path f \<noteq> ''buf.yaml'') fs"

datatype prepared = Dedup Commit | Work uploadWorkItem

text \<open>From the filtered files on: limits, digest, deduplication, checks.\<close>

definition prepare_files :: "renv \<Rightarrow> Module \<Rightarrow> string \<Rightarrow> string \<Rightarrow> upload_file list \<Rightarrow> string list \<Rightarrow> upload_file list \<Rightarrow> (world, prepared) call" where
  "prepare_files renv module previousHead expectedHead files0 listFiles prevFiles = (
     case checkUploadLimits renv files0 of
       Some e \<Rightarrow> fail e
     | None \<Rightarrow> (case DigestFiles renv files0 of
         Inl e \<Rightarrow> fail (Internal ''failed to digest the uploaded files'')
       | Inr digest \<Rightarrow> (let files = sort_key Path files0; dig = fst (CutPrefix (digest_String digest) ''shake256:'');
             item = (\<lambda>checks. \<lparr>wi_module = module, wi_files = files, wi_listFiles = listFiles, wi_dig = dig, wi_digestBytes = digest,
               wi_previousHead = previousHead, wi_expectedHead = expectedHead, wi_checks = checks\<rparr>) in do {
           q \<leftarrow> qry (\<lambda>d. Inr (commit_GetCommitByDigest (Mod_Id module) dig (commit_table (registry d))));
           (case q of
              Inl e \<Rightarrow> fail (FromDB e)
            | Inr (Some commit) \<Rightarrow> ok (Dedup commit)
            | Inr None \<Rightarrow>
                if linter_wired renv \<and> LintEnabled renv then do {
                  c \<leftarrow> runProtoChecks renv files prevFiles (lintPresetToRule (Mod_LintPreset module)) (Mod_BreakingEnabled module);
                  (case c of Inl e \<Rightarrow> fail e | Inr checks \<Rightarrow> ok (Work (item checks)))
                } else ok (Work (item \<lparr>ci_ran = False, ci_breakingRan = False\<rparr>)))
         })))"

text \<open>The files of the push, the paths it replaces and the previous files.\<close>

definition prepare_on :: "renv \<Rightarrow> UploadRequestContent \<Rightarrow> Module \<Rightarrow> Commit list \<Rightarrow> string \<Rightarrow> (world, prepared) call" where
  "prepare_on renv content module moduleCommit expectedHead = (case moduleCommit of
     [] \<Rightarrow> prepare_files renv module [] expectedHead (GetPath (without_buf_yaml (uc_Files content))) [] []
   | latest # _ \<Rightarrow> do {
       b \<leftarrow> ListBlobs renv (Mod_Name module) (Cm_CommitHash latest);
       (case b of
          Inl e \<Rightarrow> fail (Internal ''failed to read the module's current contents'')
        | Inr gitBlobs \<Rightarrow> prepare_files renv module (Cm_CommitHash latest) expectedHead
            (GetPath (upload_map (uc_Files content))) (map Path (without_buf_yaml gitBlobs)) (without_buf_yaml gitBlobs))
     })"

definition prepare :: "renv \<Rightarrow> UploadRequestContent \<Rightarrow> (world, prepared) call" where
  "prepare renv content = do {
     m \<leftarrow> GetModulesByRefs [uc_ModuleRef content];
     (case m of
        Inl e \<Rightarrow> fail (FromDB e)
      | Inr [] \<Rightarrow> fail (NotFound ''module not found'')
      | Inr (module # _) \<Rightarrow> do {
          c \<leftarrow> GetCommitByOwnerModule [uc_ModuleRef content];
          (case c of
             Inl e \<Rightarrow> fail (FromDB e)
           | Inr moduleCommit \<Rightarrow> do {
               h \<leftarrow> ListCommits renv (Mod_Name module) (Mod_DefaultBranch module) 1;
               (case h of
                  Inl e \<Rightarrow>
                    if e \<noteq> ErrNotFound then fail (Internal ''failed to read the module's current head'')
                    else prepare_on renv content module moduleCommit []
                | Inr hs \<Rightarrow> prepare_on renv content module moduleCommit (case hs of [] \<Rightarrow> [] | x # _ \<Rightarrow> SHA x))
             })
        })
   }"

text \<open>Every module is prepared before the first is written.\<close>

fun prepare_all :: "renv \<Rightarrow> UploadRequestContent list \<Rightarrow> (world, prepared list) call" where
  "prepare_all renv [] = ok []"
| "prepare_all renv (c # cs) = do {
     p \<leftarrow> prepare renv c;
     (case p of
        Inl e \<Rightarrow> fail e
      | Inr x \<Rightarrow> do {
          rest \<leftarrow> prepare_all renv cs;
          (case rest of Inl e \<Rightarrow> fail e | Inr xs \<Rightarrow> ok (x # xs))
        })
   }"

definition dedup_commits :: "prepared list \<Rightarrow> Commit list" where
  "dedup_commits ps = concat (map (\<lambda>p. case p of Dedup c \<Rightarrow> [c] | Work w \<Rightarrow> []) ps)"

definition work_items :: "prepared list \<Rightarrow> uploadWorkItem list" where
  "work_items ps = concat (map (\<lambda>p. case p of Dedup c \<Rightarrow> [] | Work w \<Rightarrow> [w]) ps)"

section \<open>Writing a module\<close>

definition partialUploadError :: "err \<Rightarrow> string \<Rightarrow> Commit list \<Rightarrow> err" where
  "partialUploadError cause failedModule landed =
     (if landed = [] then cause
      else Aborted (''upload failed on module '' @ failedModule @ '', but '' @ Itoa (int (length landed))
        @ '' earlier module(s) in this request were already committed ('' @ Join (map Cm_CommitHash landed) '', ''
        @ ''); re-push only the modules that failed''))"

definition rollback :: "renv \<Rightarrow> uploadWorkItem \<Rightarrow> string \<Rightarrow> (world, unit) state" where
  "rollback renv w commitID = do {
     _ \<leftarrow> RollbackCommit renv (Mod_Name (wi_module w)) (Mod_DefaultBranch (wi_module w)) commitID (wi_previousHead w);
     State_Monad.return ()
   }"

definition shortHash :: "string \<Rightarrow> string" where
  "shortHash hash = (if length hash > 12 then take 12 hash else hash)"

text \<open>The recipients of a push notification: the members of the owning organisation, or the owner; each
  once, and not the pusher.\<close>

definition push_targets :: "User \<Rightarrow> string list \<Rightarrow> string list" where
  "push_targets pusher recipients = rev (remdups (rev (filter (\<lambda>u. u \<noteq> [] \<and> u \<noteq> Id pusher) recipients)))"

definition notifyCommitPushed :: "env \<Rightarrow> renv \<Rightarrow> Module \<Rightarrow> Commit \<Rightarrow> User \<Rightarrow> (world, unit) state" where
  "notifyCommitPushed env renv module commit pusher =
     (if \<not> notification_wired renv then State_Monad.return ()
      else do {
        rs \<leftarrow> (if org_wired renv then do {
            q \<leftarrow> qry (\<lambda>d. Inr (org_ListMembers (Mod_OwnerId module) (users d) (member_table (registry d))));
            State_Monad.return (case q of Inl e \<Rightarrow> [] | Inr members \<Rightarrow> map (\<lambda>(u, role). Id u) members)
          } else State_Monad.return []);
        let recipients = (if rs = [] then [Mod_OwnerId module] else rs) in
        let targets = push_targets pusher recipients in
        (if targets = [] then State_Monad.return ()
         else do {
           _ \<leftarrow> notification_CreateBatch_call env targets TypeCommitPushed (''New commit on '' @ Mod_Name module)
                 (Username pusher @ '' pushed '' @ shortHash (Cm_CommitHash commit) @ '' to '' @ Mod_Name module @ ''.'') (Cm_Id commit);
           State_Monad.return ()
         })
      })"

definition upload_put :: "User \<Rightarrow> uploadWorkItem \<Rightarrow> PutFilesRequest" where
  "upload_put user w = \<lparr>pf_RepoPath = Mod_Name (wi_module w), pf_Branch = Mod_DefaultBranch (wi_module w), pf_Files = wi_files w,
     pf_ExistingPaths = wi_listFiles w, pf_AuthorName = Username user, pf_AuthorEmail = Email user,
     pf_Message = ''upload:'' @ wi_dig w, pf_Digest = wi_dig w, pf_ExpectedHead = wi_expectedHead w\<rparr>"

definition pushed_commit :: "User \<Rightarrow> uploadWorkItem \<Rightarrow> uuid \<Rightarrow> string \<Rightarrow> Commit" where
  "pushed_commit user w i commitId = \<lparr>Cm_Id = i, Cm_CommitHash = commitId, Cm_CreateTime = 0, Cm_UpdateTime = 0,
     Cm_OwnerId = Id user, Cm_ModuleId = Mod_Id (wi_module w), Cm_DigestType = DIGEST_TYPE_B5, Cm_DigestValue = wi_digestBytes w,
     Cm_CreatedByUserId = [], Cm_SourceControlUrl = [], Cm_Owner = [], Cm_Module = None\<rparr>"

text \<open>The transaction: the commit, the result of its checks and its generation jobs.  A failing statement
  undoes the git write before the transaction is rolled back.\<close>

definition upload_tx :: "env \<Rightarrow> renv \<Rightarrow> User \<Rightarrow> uploadWorkItem \<Rightarrow> uuid \<Rightarrow> string \<Rightarrow> (world, Commit) call" where
  "upload_tx env renv user w i commitId = (
     let undo = (\<lambda>e. do { _ \<leftarrow> rollback renv w commitId; fail (FromDB e) });
         jobs = (if SDKEnabled renv \<and> Generators renv \<noteq> [] then do {
             j \<leftarrow> job_CreateBatch env i (Mod_Id (wi_module w)) (Generators renv);
             (case j of Inl e \<Rightarrow> undo e | Inr _ \<Rightarrow> ok (pushed_commit user w i commitId))
           } else ok (pushed_commit user w i commitId)) in
     uow_do (do {
       c \<leftarrow> commit_Create \<lparr>nc_id = i, nc_commitHash = commitId, nc_ownerId = Id user, nc_moduleId = Mod_Id (wi_module w),
              nc_digestType = DIGEST_TYPE_B5, nc_digestValue = wi_dig w, nc_createdByUserId = Id user, nc_sourceControlUrl = []\<rparr>;
       (case c of
          Inl e \<Rightarrow> undo e
        | Inr _ \<Rightarrow>
            if cirun_wired renv \<and> ci_ran (wi_checks w) then do {
              r \<leftarrow> cirun_Create env (Mod_Id (wi_module w)) commitId True (ci_breakingRan (wi_checks w)) (ci_breakingRan (wi_checks w)) None None;
              (case r of Inl e \<Rightarrow> undo e | Inr _ \<Rightarrow> jobs)
            } else jobs)
     }))"

definition upload_one :: "env \<Rightarrow> renv \<Rightarrow> User \<Rightarrow> Commit list \<Rightarrow> uploadWorkItem \<Rightarrow> (world, Commit) call" where
  "upload_one env renv user newCommits w = (let name = Mod_Name (wi_module w) in do {
     logID \<leftarrow> oplog_begin env renv OpCommitFiles name (Id user);
     p \<leftarrow> PutFiles renv (upload_put user w);
     (case p of
        Inl e \<Rightarrow> do {
          _ \<leftarrow> oplog_end logID OpFailed [] (err_Error renv e);
          (if e = ErrRefMoved
           then fail (Aborted ''the module changed while this push was being prepared; fetch and push again'')
           else fail (partialUploadError (Internal ''failed to write the commit'') name newCommits))
        }
      | Inr commitId \<Rightarrow>
          if length commitId < 32 then do {
            _ \<leftarrow> rollback renv w commitId;
            fail (Internal ''commit ID is less than 32 characters'')
          } else do {
            i \<leftarrow> uuid_New env;
            t \<leftarrow> upload_tx env renv user w i commitId;
            (case t of
               Inl e \<Rightarrow> do {
                 _ \<leftarrow> oplog_end logID OpFailed [] (err_Error renv e);
                 fail (partialUploadError e name newCommits)
               }
             | Inr newCommit \<Rightarrow> do {
                 _ \<leftarrow> oplog_end logID OpCompleted (Cm_CommitHash newCommit) [];
                 _ \<leftarrow> notifyCommitPushed env renv (wi_module w) newCommit user;
                 ok newCommit
               })
          })
   })"

fun upload_work :: "env \<Rightarrow> renv \<Rightarrow> User \<Rightarrow> Commit list \<Rightarrow> uploadWorkItem list \<Rightarrow> (world, Commit list) call" where
  "upload_work env renv user newCommits [] = ok newCommits"
| "upload_work env renv user newCommits (w # ws) = do {
     r \<leftarrow> upload_one env renv user newCommits w;
     (case r of Inl e \<Rightarrow> fail e | Inr c \<Rightarrow> upload_work env renv user (newCommits @ [c]) ws)
   }"

section \<open>The handler\<close>

fun check_contents :: "renv \<Rightarrow> UploadRequestContent list \<Rightarrow> err option" where
  "check_contents renv [] = None"
| "check_contents renv (c # cs) = (case Validate (uc_Files c) of
     Some e \<Rightarrow> Some (InvalidArgument e)
   | None \<Rightarrow> (case checkUploadLimits renv (uc_Files c) of Some e \<Rightarrow> Some e | None \<Rightarrow> check_contents renv cs))"

definition push_policy :: "User \<Rightarrow> UploadRequestContent \<Rightarrow> policy" where
  "push_policy user c = \<lparr>Subject = Username user, Domain = Ref_Owner (uc_ModuleRef c) @ ''/'' @ Ref_Module (uc_ModuleRef c),
     ResourceType = ResourceModule, Action = ActionPush, Visibility = []\<rparr>"

definition upload_checked :: "env \<Rightarrow> renv \<Rightarrow> User \<Rightarrow> UploadRequestContent list \<Rightarrow> (world, Commit list) call" where
  "upload_checked env renv user contents = do {
     p \<leftarrow> prepare_all renv contents;
     (case p of
        Inl e \<Rightarrow> fail e
      | Inr ps \<Rightarrow> do {
          n \<leftarrow> upload_work env renv user [] (work_items ps);
          (case n of Inl e \<Rightarrow> fail e | Inr newCommits \<Rightarrow> ok (dedup_commits ps @ newCommits))
        })
   }"

definition Upload :: "env \<Rightarrow> renv \<Rightarrow> reqctx \<Rightarrow> UploadRequestContent list \<Rightarrow> (world, Commit list) call" where
  "Upload env renv ctx contents = (case ctx_user ctx of
     None \<Rightarrow> fail (Unauthenticated ''not authenticated'')
   | Some user \<Rightarrow> (case check_contents renv contents of
       Some e \<Rightarrow> fail e
     | None \<Rightarrow>
         if map (push_policy user) contents \<noteq> [] then do {
           b \<leftarrow> BatchCan env ctx (map (push_policy user) contents);
           (case b of
              Inl e \<Rightarrow> fail e
            | Inr resp \<Rightarrow>
                if \<not> Allowed resp
                then fail (PermissionDenied (''permission denied pushing to module ''
                  @ (case DeniedPolicy resp of None \<Rightarrow> [] | Some p \<Rightarrow> Domain p)))
                else upload_checked env renv user contents)
         } else upload_checked env renv user contents))"

section \<open>Tables a push leaves alone\<close>

lemma disk_db [db_intros]: "db_keeps Q (disk r)"
  unfolding disk_def by (rule db_keeps_io) simp

lemma checks_run_db [db_intros]: "db_keeps Q (runProtoChecks renv fs ps l b)" "db_keeps Q (rollback renv item h)"
  unfolding runProtoChecks_def breaking_check_def rollback_def by (intro db_intros)+

lemma prepare_db [db_intros]: "db_keeps Q (prepare_files renv m ph eh fs ls ps)" "db_keeps Q (prepare_on renv c m cs eh)"
  unfolding prepare_on_def prepare_files_def Let_def by (intro db_intros)+

context credential_fact
begin

lemma prepare_keeps [db_intros]: "db_keeps Q (prepare renv c)"
  unfolding prepare_def by (intro db_intros)

lemma prepare_all_keeps [db_intros]: "db_keeps Q (prepare_all renv cs)"
  by (induction cs) (auto intro!: db_intros)

lemma upload_one_keeps [db_intros]: "db_keeps Q (upload_one env renv user ns item)"
  unfolding upload_one_def upload_tx_def notifyCommitPushed_def Let_def by (intro db_intros)

lemma upload_work_keeps [db_intros]: "db_keeps Q (upload_work env renv user ns items)"
  by (induction items arbitrary: ns) (auto intro!: db_intros)

lemma upload_keeps [db_intros]: "db_keeps Q (Upload env renv ctx contents)"
  unfolding Upload_def upload_checked_def by (intro db_intros)

end

end
