(* ===== verification/Sdk_Jobs.thy ===== *)
theory Sdk_Jobs
  imports Upload
begin

text \<open>
  SDK generation: the calls of the job store (\<open>internal/hades/storage/db/sdkjob/sqlite\<close>), the worker
  (\<open>internal/sdk/worker/worker.go\<close>), and the queue that several workers share, as a step relation in
  which every SQL statement of every worker is a step of its own.
\<close>

section \<open>The job store\<close>

text \<open>What \<open>ClaimPending\<close> reads back of a job it has claimed.\<close>

definition claimed_job :: "job_row \<Rightarrow> SDKJob" where
  "claimed_job r = (scanSQLiteJob r)\<lparr>Job_OutputLocation := [], Job_ErrorMessage := [], Job_CreatedAt := 0, Job_StartedAt := None,
     Job_FinishedAt := None\<rparr>"

fun claim_each :: "string list \<Rightarrow> SDKJob list \<Rightarrow> (world, SDKJob list) call" where
  "claim_each [] jobs = ok jobs"
| "claim_each (i # ids) jobs = do {
     c \<leftarrow> exec_reg (\<lambda>now rg. case job_Claim now i (job_table rg) of (n, t) \<Rightarrow> (Inr n, rg\<lparr>job_table := t\<rparr>));
     (case c of
        Inl e \<Rightarrow> fail e
      | Inr n \<Rightarrow>
          if n = 0 then claim_each ids jobs
          else do {
            q \<leftarrow> qry (\<lambda>d. query_row (\<lambda>r. jb_id r = i) claimed_job (job_table (registry d)));
            (case q of Inl e \<Rightarrow> fail e | Inr job \<Rightarrow> claim_each ids (jobs @ [job]))
          })
   }"

definition ClaimPending :: "int \<Rightarrow> (world, SDKJob list) call" where
  "ClaimPending limit = do {
     q \<leftarrow> qry (\<lambda>d. Inr (job_candidates limit (job_table (registry d))));
     (case q of Inl e \<Rightarrow> fail e | Inr ids \<Rightarrow> claim_each ids [])
   }"

definition MarkSucceeded :: "uuid \<Rightarrow> string \<Rightarrow> (world, unit) call" where
  "MarkSucceeded jobID outputLocation = upd_reg (\<lambda>now rg. rg\<lparr>job_table := job_MarkSucceeded now jobID outputLocation (job_table rg)\<rparr>)"

definition MarkFailed :: "uuid \<Rightarrow> string \<Rightarrow> int \<Rightarrow> (world, unit) call" where
  "MarkFailed jobID errMsg attempts = upd_reg (\<lambda>now rg. rg\<lparr>job_table := job_MarkFailed now jobID errMsg attempts (job_table rg)\<rparr>)"

definition RecoverStaleJobs :: "time \<Rightarrow> (world, nat) call" where
  "RecoverStaleJobs timeout = exec_reg (\<lambda>now rg. case job_RecoverStaleJobs now timeout (job_table rg) of
     (n, t) \<Rightarrow> (Inr n, rg\<lparr>job_table := t\<rparr>))"

definition notification_Create_call :: "env \<Rightarrow> string \<Rightarrow> string \<Rightarrow> string \<Rightarrow> string \<Rightarrow> string \<Rightarrow> (world, unit) call" where
  "notification_Create_call env userID ty title body resourceID = insert_reg env (\<lambda>i now rg.
     if i \<in> nt_id ` set (notification_table rg) then (Inl primaryKeyViolation, rg)
     else (Inr (), rg\<lparr>notification_table := notification_table rg @ [new_notification i now userID ty title body resourceID]\<rparr>))"

section \<open>The worker\<close>

text \<open>The generators by plugin (\<open>protoc\<close> with options on a directory), the output backend, and the
  notification store, if attached.\<close>

record wenv =
  generators :: "string \<Rightarrow> ((string \<times> string) list \<Rightarrow> string \<Rightarrow> (string \<times> string) list res) option"
  backend_Upload :: "string \<Rightarrow> (string \<times> string) list \<Rightarrow> string res"
  notify_wired :: bool

definition stalenessTimeout :: time where "stalenessTimeout = 300 * Second"

text \<open>\<open>acquireAvailable\<close> on a semaphore of which some slots are taken; the last argument is how many
  more it wants.\<close>

fun acquireAvailable :: "nat \<Rightarrow> nat \<Rightarrow> nat \<Rightarrow> nat" where
  "acquireAvailable cap taken 0 = 0"
| "acquireAvailable cap taken (Suc n) = (if taken < cap then Suc (acquireAvailable cap (Suc taken) n) else 0)"

definition notifyJobOutcome :: "env \<Rightarrow> wenv \<Rightarrow> SDKJob \<Rightarrow> Commit option \<Rightarrow> string \<Rightarrow> (world, unit) state" where
  "notifyJobOutcome env wenv job commitRecord failure = (case commitRecord of
     None \<Rightarrow> State_Monad.return ()
   | Some c \<Rightarrow>
       if \<not> notify_wired wenv \<or> Cm_CreatedByUserId c = [] then State_Monad.return ()
       else let moduleName = (case Cm_Module c of Some m \<Rightarrow> if Mod_Name m \<noteq> [] then Mod_Name m else Cm_ModuleId c | None \<Rightarrow> Cm_ModuleId c);
                lang = Job_Language job; h = shortHash (Cm_CommitHash c) in do {
         _ \<leftarrow> (if failure \<noteq> []
              then notification_Create_call env (Cm_CreatedByUserId c) TypeSDKFailed (lang @ '' SDK generation failed for '' @ moduleName)
                     (''Generating the '' @ lang @ '' SDK for commit '' @ h @ '' failed: '' @ failure) (Job_ID job)
              else notification_Create_call env (Cm_CreatedByUserId c) TypeSDKSucceeded (lang @ '' SDK ready for '' @ moduleName)
                     (''The '' @ lang @ '' SDK for commit '' @ h @ '' is available.'') (Job_ID job));
         State_Monad.return ()
       })"

definition markFailed :: "env \<Rightarrow> wenv \<Rightarrow> SDKJob \<Rightarrow> Commit option \<Rightarrow> string \<Rightarrow> (world, unit) state" where
  "markFailed env wenv job commitRecord msg = do {
     _ \<leftarrow> MarkFailed (Job_ID job) msg (Job_Attempts job);
     notifyJobOutcome env wenv job commitRecord msg
   }"

text \<open>A commit whose module has no name is addressed by the module's identifier.\<close>

definition named_module :: "Commit \<Rightarrow> string" where
  "named_module c = (case Cm_Module c of Some m \<Rightarrow> if Mod_Name m = [] then Cm_ModuleId c else Mod_Name m | None \<Rightarrow> Cm_ModuleId c)"

definition process :: "env \<Rightarrow> renv \<Rightarrow> wenv \<Rightarrow> SDKJob \<Rightarrow> (world, unit) state" where
  "process env renv wenv job = do {
     q \<leftarrow> qry (\<lambda>d. commit_GetCommitById (module_table (registry d)) (Job_CommitID job) (commit_table (registry d)));
     (case q of
        Inl e \<Rightarrow> markFailed env wenv job None ''get commit''
      | Inr commitRecord \<Rightarrow> do {
          t \<leftarrow> disk (Inr ());
          (case t of
             Inl e \<Rightarrow> markFailed env wenv job (Some commitRecord) ''mktemp proto''
           | Inr _ \<Rightarrow> do {
               s \<leftarrow> StreamBlobsToDir renv (named_module commitRecord) (Cm_CommitHash commitRecord);
               (case s of
                  Inl e \<Rightarrow> markFailed env wenv job (Some commitRecord) ''stream blobs''
                | Inr files \<Rightarrow>
                    if \<not> list_ex (\<lambda>(p, c). HasSuffix p ''.proto'') files
                    then markFailed env wenv job (Some commitRecord) ''no .proto files in commit''
                    else (case generators wenv (Job_Plugin job) of
                      None \<Rightarrow> markFailed env wenv job (Some commitRecord) ''no generator registered for plugin''
                    | Some gen \<Rightarrow> do {
                        g \<leftarrow> disk (gen files (Job_PluginOptions job));
                        (case g of
                           Inl e \<Rightarrow> markFailed env wenv job (Some commitRecord) ''generate''
                         | Inr out \<Rightarrow> do {
                             u \<leftarrow> disk (backend_Upload wenv (named_module commitRecord @ ''/'' @ Cm_CommitHash commitRecord @ ''/'' @ Job_Language job) out);
                             (case u of
                                Inl e \<Rightarrow> markFailed env wenv job (Some commitRecord) ''upload''
                              | Inr loc \<Rightarrow> do {
                                  _ \<leftarrow> MarkSucceeded (Job_ID job) loc;
                                  notifyJobOutcome env wenv job (Some commitRecord) []
                                })
                           })
                      }))
             })
        })
   }"

section \<open>The shared queue\<close>

text \<open>One worker: the slots it reserved, the candidates it has still to claim, a claimed job it has
  still to read back, the jobs of the poll, and the jobs its goroutines are processing.\<close>

record poller =
  wk_slots :: nat
  wk_todo :: "string list"
  wk_claimed :: "string option"
  wk_jobs :: "SDKJob list"
  wk_polling :: bool
  wk_running :: "SDKJob list"

definition idle_worker :: poller where
  "idle_worker = \<lparr>wk_slots = 0, wk_todo = [], wk_claimed = None, wk_jobs = [], wk_polling = False, wk_running = []\<rparr>"

text \<open>The table, the clock, the workers, and, for the statements below, every successful claim as the
  job and the attempt it stands for.\<close>

record queue =
  q_jobs :: "job_row list"
  q_now :: time
  q_workers :: "poller list"
  q_claims :: "(string \<times> int) list"

definition attempts_of :: "string \<Rightarrow> job_row list \<Rightarrow> int" where
  "attempts_of i t = (case find (\<lambda>r. jb_id r = i) t of None \<Rightarrow> 0 | Some r \<Rightarrow> jb_attempts r)"

inductive queue_step :: "nat \<Rightarrow> queue \<Rightarrow> queue \<Rightarrow> bool" for concurrency where
  enqueue: "job_Insert i (q_now q) commitID moduleID g (q_jobs q) = (r, t) \<Longrightarrow>
    queue_step concurrency q (q\<lparr>q_jobs := t\<rparr>)"
| tick: "q_now q \<le> now \<Longrightarrow> queue_step concurrency q (q\<lparr>q_now := now\<rparr>)"
| recover: "job_RecoverStaleJobs (q_now q) stalenessTimeout (q_jobs q) = (n, t) \<Longrightarrow>
    queue_step concurrency q (q\<lparr>q_jobs := t\<rparr>)"
| poll: "k < length (q_workers q) \<Longrightarrow> q_workers q ! k = w \<Longrightarrow> \<not> wk_polling w \<Longrightarrow>
    slots = acquireAvailable concurrency (length (wk_running w)) concurrency \<Longrightarrow> slots \<noteq> 0 \<Longrightarrow>
    queue_step concurrency q (q\<lparr>q_workers := (q_workers q)[k :=
      w\<lparr>wk_slots := slots, wk_todo := job_candidates (int slots) (q_jobs q), wk_jobs := [], wk_polling := True\<rparr>]\<rparr>)"
| claim: "k < length (q_workers q) \<Longrightarrow> q_workers q ! k = w \<Longrightarrow> wk_todo w = i # ids \<Longrightarrow> wk_claimed w = None \<Longrightarrow>
    job_Claim (q_now q) i (q_jobs q) = (n, t) \<Longrightarrow> n \<noteq> 0 \<Longrightarrow>
    queue_step concurrency q (q\<lparr>q_jobs := t, q_claims := q_claims q @ [(i, attempts_of i t)],
      q_workers := (q_workers q)[k := w\<lparr>wk_todo := ids, wk_claimed := Some i\<rparr>]\<rparr>)"
| skip: "k < length (q_workers q) \<Longrightarrow> q_workers q ! k = w \<Longrightarrow> wk_todo w = i # ids \<Longrightarrow> wk_claimed w = None \<Longrightarrow>
    job_Claim (q_now q) i (q_jobs q) = (0, t) \<Longrightarrow>
    queue_step concurrency q (q\<lparr>q_workers := (q_workers q)[k := w\<lparr>wk_todo := ids\<rparr>]\<rparr>)"
| read_back: "k < length (q_workers q) \<Longrightarrow> q_workers q ! k = w \<Longrightarrow> wk_claimed w = Some i \<Longrightarrow>
    query_row (\<lambda>r. jb_id r = i) claimed_job (q_jobs q) = Inr job \<Longrightarrow>
    queue_step concurrency q (q\<lparr>q_workers := (q_workers q)[k := w\<lparr>wk_claimed := None, wk_jobs := wk_jobs w @ [job]\<rparr>]\<rparr>)"
| give_up: "k < length (q_workers q) \<Longrightarrow> q_workers q ! k = w \<Longrightarrow> wk_polling w \<Longrightarrow>
    queue_step concurrency q (q\<lparr>q_workers := (q_workers q)[k :=
      w\<lparr>wk_slots := 0, wk_todo := [], wk_claimed := None, wk_jobs := [], wk_polling := False\<rparr>]\<rparr>)"
| start: "k < length (q_workers q) \<Longrightarrow> q_workers q ! k = w \<Longrightarrow> wk_polling w \<Longrightarrow> wk_todo w = [] \<Longrightarrow> wk_claimed w = None \<Longrightarrow>
    queue_step concurrency q (q\<lparr>q_workers := (q_workers q)[k :=
      w\<lparr>wk_slots := 0, wk_jobs := [], wk_polling := False, wk_running := wk_running w @ wk_jobs w\<rparr>]\<rparr>)"
| succeed: "k < length (q_workers q) \<Longrightarrow> q_workers q ! k = w \<Longrightarrow> job \<in> set (wk_running w) \<Longrightarrow>
    queue_step concurrency q (q\<lparr>q_jobs := job_MarkSucceeded (q_now q) (Job_ID job) loc (q_jobs q),
      q_workers := (q_workers q)[k := w\<lparr>wk_running := remove1 job (wk_running w)\<rparr>]\<rparr>)"
| break: "k < length (q_workers q) \<Longrightarrow> q_workers q ! k = w \<Longrightarrow> job \<in> set (wk_running w) \<Longrightarrow>
    queue_step concurrency q (q\<lparr>q_jobs := job_MarkFailed (q_now q) (Job_ID job) msg (Job_Attempts job) (q_jobs q),
      q_workers := (q_workers q)[k := w\<lparr>wk_running := remove1 job (wk_running w)\<rparr>]\<rparr>)"
| lose: "k < length (q_workers q) \<Longrightarrow> q_workers q ! k = w \<Longrightarrow> job \<in> set (wk_running w) \<Longrightarrow>
    queue_step concurrency q (q\<lparr>q_workers := (q_workers q)[k := w\<lparr>wk_running := remove1 job (wk_running w)\<rparr>]\<rparr>)"
| crash: "k < length (q_workers q) \<Longrightarrow> queue_step concurrency q (q\<lparr>q_workers := (q_workers q)[k := idle_worker]\<rparr>)"

section \<open>Tables the worker leaves alone\<close>

context credential_fact
begin

lemma claim_each_keeps [db_intros]: "db_keeps Q (claim_each ids jobs)"
  by (induction ids arbitrary: jobs) (auto intro!: db_intros)

lemma job_calls_keep [db_intros]:
  "db_keeps Q (ClaimPending n)" "db_keeps Q (MarkSucceeded i l)" "db_keeps Q (MarkFailed i m a)" "db_keeps Q (RecoverStaleJobs t)"
  "db_keeps Q (notification_Create_call env u ty ti bo ri)"
  unfolding ClaimPending_def MarkSucceeded_def MarkFailed_def RecoverStaleJobs_def notification_Create_call_def by (intro db_intros)+

lemma process_keeps [db_intros]: "db_keeps Q (process env renv wenv job)"
  unfolding process_def markFailed_def notifyJobOutcome_def Let_def by (intro db_intros)

end

end
