(* ===== verification/Sdk_Facts.thy ===== *)
theory Sdk_Facts
  imports Sdk_Jobs
begin

text \<open>
  The queue hands every attempt of a job to one worker, and a job out at most five times, whatever
  the interleaving of the workers' statements, crashes and recoveries.
\<close>

section \<open>The table under the statements\<close>

lemma acquireAvailable_min: "acquireAvailable cap taken n = min n (cap - taken)"
  by (induction n arbitrary: taken) auto

lemma attempts_of_update:
  assumes "\<And>r. jb_id (f r) = jb_id r" and "\<And>r. p r \<Longrightarrow> jb_id r = i \<Longrightarrow> jb_attempts (f r) = jb_attempts r"
  shows "attempts_of i (update_where p f t) = attempts_of i t"
proof -
  have "find (\<lambda>r. jb_id r = i) (update_where p f t) = map_option (\<lambda>r. if p r then f r else r) (find (\<lambda>r. jb_id r = i) t)"
    by (induction t) (auto simp: assms(1) update_where_def)
  then show ?thesis using assms(2)
    by (auto simp: attempts_of_def split: option.splits dest!: find_Some_in)
qed

lemma ids_update: "(\<And>r. jb_id (f r) = jb_id r) \<Longrightarrow> map jb_id (update_where p f t) = map jb_id t"
  by (induction t) (auto simp: update_where_def)

lemma attempts_of_mem: "distinct (map jb_id t) \<Longrightarrow> r \<in> set t \<Longrightarrow> attempts_of (jb_id r) t = jb_attempts r"
  by (induction t) (auto simp: attempts_of_def)

definition job_ok :: "job_row \<Rightarrow> bool" where
  "job_ok r \<longleftrightarrow> 0 \<le> jb_attempts r \<and> jb_attempts r \<le> sdk_MaxAttempts \<and> (jb_status r = Pending \<longrightarrow> jb_attempts r < sdk_MaxAttempts)"

definition table_ok :: "job_row list \<Rightarrow> bool" where
  "table_ok t \<longleftrightarrow> distinct (map jb_id t) \<and> list_all job_ok t"

lemma table_ok_update:
  assumes "table_ok t" "\<And>r. jb_id (f r) = jb_id r" "\<And>r. r \<in> set t \<Longrightarrow> job_ok r \<Longrightarrow> p r \<Longrightarrow> job_ok (f r)"
  shows "table_ok (update_where p f t)"
proof -
  have "map jb_id (update_where p f t) = map jb_id t" by (rule ids_update) (rule assms(2))
  moreover have "list_all job_ok (update_where p f t)"
    using assms(1,3) by (auto simp: table_ok_def list_all_iff update_where_def)
  ultimately show ?thesis using assms(1) by (simp add: table_ok_def)
qed

text \<open>Every statement but a claim keeps the attempts of every job; a claim adds one to its job's.\<close>

lemma statements_ok:
  assumes "table_ok t"
  shows "table_ok (snd (job_Insert i now ci mi g t))" "table_ok (snd (job_RecoverStaleJobs now to t))" "table_ok (snd (job_Claim now i t))"
    "table_ok (job_MarkSucceeded now i loc t)" "table_ok (job_MarkFailed now i msg n t)"
proof -
  show "table_ok (snd (job_Insert i now ci mi g t))"
    using assms by (auto simp: job_Insert_def table_ok_def job_ok_def sdk_MaxAttempts_def)
  show "table_ok (snd (job_RecoverStaleJobs now to t))"
    using assms by (auto simp: job_RecoverStaleJobs_def job_ok_def stale_job_def intro!: table_ok_update)
  show "table_ok (snd (job_Claim now i t))"
    using assms by (auto simp: job_Claim_def job_ok_def claimable_def intro!: table_ok_update)
  show "table_ok (job_MarkSucceeded now i loc t)" "table_ok (job_MarkFailed now i msg n t)"
    using assms by (auto simp: job_MarkSucceeded_def job_MarkFailed_def Let_def job_ok_def intro!: table_ok_update)
qed

lemma statements_attempts:
  "i \<in> jb_id ` set t \<Longrightarrow> attempts_of i (snd (job_Insert i' now ci mi g t)) = attempts_of i t"
  "attempts_of i (snd (job_RecoverStaleJobs now to t)) = attempts_of i t"
  "i \<noteq> i' \<Longrightarrow> attempts_of i (snd (job_Claim now i' t)) = attempts_of i t"
  "attempts_of i (job_MarkSucceeded now j loc t) = attempts_of i t" "attempts_of i (job_MarkFailed now j msg n t) = attempts_of i t"
proof -
  show "i \<in> jb_id ` set t \<Longrightarrow> attempts_of i (snd (job_Insert i' now ci mi g t)) = attempts_of i t"
    by (auto simp: job_Insert_def attempts_of_def find_append find_None_iff split: option.splits)
  show "attempts_of i (snd (job_RecoverStaleJobs now to t)) = attempts_of i t"
    by (simp add: job_RecoverStaleJobs_def attempts_of_update)
  show "i \<noteq> i' \<Longrightarrow> attempts_of i (snd (job_Claim now i' t)) = attempts_of i t"
    by (auto simp: job_Claim_def claimable_def intro!: attempts_of_update)
  show "attempts_of i (job_MarkSucceeded now j loc t) = attempts_of i t" "attempts_of i (job_MarkFailed now j msg n t) = attempts_of i t"
    by (simp_all add: job_MarkSucceeded_def job_MarkFailed_def Let_def attempts_of_update)
qed

lemma statements_ids:
  "jb_id ` set t \<subseteq> jb_id ` set (snd (job_Insert i' now ci mi g t))" "jb_id ` set (snd (job_RecoverStaleJobs now to t)) = jb_id ` set t"
  "jb_id ` set (snd (job_Claim now i' t)) = jb_id ` set t" "jb_id ` set (job_MarkSucceeded now j loc t) = jb_id ` set t"
  "jb_id ` set (job_MarkFailed now j msg n t) = jb_id ` set t"
  unfolding set_map [symmetric]
  by (auto simp: job_Insert_def job_RecoverStaleJobs_def job_Claim_def job_MarkSucceeded_def job_MarkFailed_def Let_def ids_update simp del: set_map)

lemma claim_attempts:
  assumes "table_ok t" and "job_Claim now i t = (n, t')" and "n \<noteq> 0"
  shows "attempts_of i t' = attempts_of i t + 1" "i \<in> jb_id ` set t"
proof -
  from assms(2,3) have "filter (claimable i) t \<noteq> []" by (auto simp: job_Claim_def affected_def)
  then obtain r where r: "r \<in> set t" "jb_id r = i" "jb_status r = Pending" by (auto simp: filter_empty_conv claimable_def)
  then show "i \<in> jb_id ` set t" by blast
  let ?r = "r\<lparr>jb_status := Running, jb_started_at := Some (datetime now), jb_attempts := jb_attempts r + 1\<rparr>"
  have "?r \<in> set t'" using r assms(2) by (force simp: job_Claim_def update_where_def claimable_def image_iff)
  moreover have "table_ok t'" using statements_ok(3) [OF assms(1), of now i] assms(2) by simp
  ultimately have "attempts_of i t' = jb_attempts r + 1"
    using attempts_of_mem [of t' ?r] r(2) by (simp add: table_ok_def)
  with attempts_of_mem [of t r] r assms(1) show "attempts_of i t' = attempts_of i t + 1" by (simp add: table_ok_def)
qed

section \<open>The invariant\<close>

definition claims_ok :: "job_row list \<Rightarrow> (string \<times> int) list \<Rightarrow> bool" where
  "claims_ok t cs \<longleftrightarrow> distinct cs \<and> (\<forall>(i, n) \<in> set cs. i \<in> jb_id ` set t \<and> 0 < n \<and> n \<le> attempts_of i t)"

definition worker_ok :: "nat \<Rightarrow> poller \<Rightarrow> bool" where
  "worker_ok concurrency w \<longleftrightarrow> length (wk_running w) + wk_slots w \<le> concurrency \<and> (\<not> wk_polling w \<longrightarrow> wk_slots w = 0)
     \<and> length (wk_jobs w) + length (wk_todo w) + (if wk_claimed w = None then 0 else 1) \<le> wk_slots w"

definition queue_ok :: "nat \<Rightarrow> queue \<Rightarrow> bool" where
  "queue_ok concurrency q \<longleftrightarrow> table_ok (q_jobs q) \<and> claims_ok (q_jobs q) (q_claims q) \<and> list_all (worker_ok concurrency) (q_workers q)"

lemma claims_ok_mono:
  assumes "claims_ok t cs" and "jb_id ` set t \<subseteq> jb_id ` set t'" and "\<And>i. i \<in> jb_id ` set t \<Longrightarrow> attempts_of i t' = attempts_of i t"
  shows "claims_ok t' cs"
  using assms by (fastforce simp: claims_ok_def)

lemma claims_ok_claim:
  assumes "table_ok t" and "claims_ok t cs" and "job_Claim now i t = (n, t')" and "n \<noteq> 0"
  shows "claims_ok t' (cs @ [(i, attempts_of i t')])"
proof -
  note c = claim_attempts [OF assms(1,3,4)]
  have t': "t' = snd (job_Claim now i t)" using assms(3) by simp
  have ids: "jb_id ` set t' = jb_id ` set t" by (simp add: t' statements_ids)
  have mono: "attempts_of j t \<le> attempts_of j t'" for j
    using c(1) statements_attempts(3) [of j i now t] t' by (cases "j = i") auto
  have "0 \<le> attempts_of i t"
    using assms(1) by (auto simp: attempts_of_def table_ok_def list_all_iff job_ok_def split: option.splits dest: find_Some_in)
  moreover have "(i, attempts_of i t') \<notin> set cs" using assms(2) c(1) by (force simp: claims_ok_def)
  ultimately show ?thesis
    using assms(2) c ids order_trans [OF _ mono] by (fastforce simp: claims_ok_def)
qed

lemma candidates_length: "length (job_candidates (int n) t) \<le> n"
  by (simp add: job_candidates_def)

lemma queue_ok_table:
  assumes "queue_ok c q" and "table_ok t" and "jb_id ` set (q_jobs q) \<subseteq> jb_id ` set t"
    and "\<And>i. i \<in> jb_id ` set (q_jobs q) \<Longrightarrow> attempts_of i t = attempts_of i (q_jobs q)"
  shows "queue_ok c (q\<lparr>q_jobs := t\<rparr>)"
  using assms claims_ok_mono [OF _ assms(3,4)] by (simp add: queue_ok_def)

lemma queue_ok_worker: "queue_ok c q \<Longrightarrow> worker_ok c w \<Longrightarrow> queue_ok c (q\<lparr>q_workers := (q_workers q)[k := w]\<rparr>)"
  using set_update_subset_insert [of "q_workers q" k w] by (auto simp: queue_ok_def list_all_iff)

lemma queue_ok_nth: "queue_ok c q \<Longrightarrow> k < length (q_workers q) \<Longrightarrow> worker_ok c (q_workers q ! k)"
  by (simp add: queue_ok_def list_all_length)

lemma queue_ok_running:
  assumes "queue_ok c q" and "k < length (q_workers q)" and "table_ok t" and "jb_id ` set t = jb_id ` set (q_jobs q)"
    and "\<And>i. attempts_of i t = attempts_of i (q_jobs q)"
  shows "queue_ok c (q\<lparr>q_jobs := t, q_workers := (q_workers q)[k := (q_workers q ! k)\<lparr>wk_running := remove1 job (wk_running (q_workers q ! k))\<rparr>]\<rparr>)"
proof -
  have "queue_ok c (q\<lparr>q_jobs := t\<rparr>)" by (rule queue_ok_table [OF assms(1,3)]) (simp_all add: assms(4,5))
  moreover have "worker_ok c ((q_workers q ! k)\<lparr>wk_running := remove1 job (wk_running (q_workers q ! k))\<rparr>)"
    using queue_ok_nth [OF assms(1,2)] length_remove1 [of job] by (auto simp: worker_ok_def)
  ultimately show ?thesis using queue_ok_worker [of c "q\<lparr>q_jobs := t\<rparr>"] by simp
qed

lemma queue_step_ok: "queue_step c q q' \<Longrightarrow> queue_ok c q \<Longrightarrow> queue_ok c q'"
proof (induction rule: queue_step.induct)
  case (enqueue i q commitID moduleID g r t)
  then have t: "t = snd (job_Insert i (q_now q) commitID moduleID g (q_jobs q))" by simp
  show ?case
    unfolding t using enqueue.prems by (intro queue_ok_table statements_ok statements_ids statements_attempts) (auto simp: queue_ok_def)
next
  case (recover q n t)
  then have t: "t = snd (job_RecoverStaleJobs (q_now q) stalenessTimeout (q_jobs q))" by simp
  show ?case
    unfolding t using recover.prems by (intro queue_ok_table statements_ok statements_attempts) (auto simp: queue_ok_def statements_ids)
next
  case (poll k q w slots)
  with queue_ok_nth [OF poll.prems poll.hyps(1)] candidates_length [of slots "q_jobs q"] show ?case
    by (intro queue_ok_worker) (auto simp: worker_ok_def acquireAvailable_min split: if_splits)
next
  case (claim k q w i ids n t)
  have t: "t = snd (job_Claim (q_now q) i (q_jobs q))" using claim.hyps(5) by simp
  have "queue_ok c (q\<lparr>q_jobs := t, q_claims := q_claims q @ [(i, attempts_of i t)]\<rparr>)"
    using claim.prems claims_ok_claim [OF _ _ claim.hyps(5,6)] statements_ok(3) [of "q_jobs q" "q_now q" i] t by (simp add: queue_ok_def)
  moreover have "worker_ok c (w\<lparr>wk_todo := ids, wk_claimed := Some i\<rparr>)"
    using queue_ok_nth [OF claim.prems claim.hyps(1)] claim.hyps by (auto simp: worker_ok_def split: if_splits)
  ultimately show ?case using queue_ok_worker by fastforce
next
  case (succeed k q w job loc)
  then have "table_ok (q_jobs q)" by (simp add: queue_ok_def)
  from statements_ok(4,5) [OF this] show ?case
    using queue_ok_running [OF succeed.prems succeed.hyps(1)] succeed.hyps(2) by (simp add: statements_ids statements_attempts)
next
  case (break k q w job msg)
  then have "table_ok (q_jobs q)" by (simp add: queue_ok_def)
  from statements_ok(4,5) [OF this] show ?case
    using queue_ok_running [OF break.prems break.hyps(1)] break.hyps(2) by (simp add: statements_ids statements_attempts)
next
  case (tick q now)
  then show ?case by (simp add: queue_ok_def)
next
  case (skip k q w i ids t)
  with queue_ok_nth [OF skip.prems skip.hyps(1)] show ?case by (intro queue_ok_worker) (auto simp: worker_ok_def)
next
  case (read_back k q w i job)
  with queue_ok_nth [OF read_back.prems read_back.hyps(1)] show ?case by (intro queue_ok_worker) (auto simp: worker_ok_def)
next
  case (give_up k q w)
  with queue_ok_nth [OF give_up.prems give_up.hyps(1)] show ?case by (intro queue_ok_worker) (auto simp: worker_ok_def split: if_splits)
next
  case (start k q w)
  with queue_ok_nth [OF start.prems start.hyps(1)] show ?case by (intro queue_ok_worker) (auto simp: worker_ok_def)
next
  case (lose k q w job)
  have "length (remove1 job (wk_running w)) \<le> length (wk_running w)" by (simp add: length_remove1)
  with lose queue_ok_nth [OF lose.prems lose.hyps(1)] show ?case
    by (intro queue_ok_worker) (auto simp: worker_ok_def split: if_splits)
next
  case (crash k q)
  then show ?case by (intro queue_ok_worker) (auto simp: worker_ok_def idle_worker_def)
qed

section \<open>Claims\<close>

lemma claims_per_job:
  assumes "table_ok t" and "claims_ok t cs"
  shows "length (filter (\<lambda>c. fst c = i) cs) \<le> 5"
proof -
  let ?f = "filter (\<lambda>c. fst c = i) cs"
  have "0 \<le> attempts_of i t \<and> attempts_of i t \<le> 5"
    using assms(1) by (auto simp: attempts_of_def table_ok_def list_all_iff job_ok_def sdk_MaxAttempts_def split: option.splits dest: find_Some_in)
  then have "set ?f \<subseteq> {i} \<times> {1..5}" using assms(2) by (fastforce simp: claims_ok_def)
  then have "card (set ?f) \<le> card ({i} \<times> {1..5::int})" by (intro card_mono) auto
  moreover have "distinct ?f" using assms(2) by (simp add: claims_ok_def)
  ultimately show ?thesis using distinct_card [of ?f] by simp
qed

text \<open>The queue of a fresh deployment.\<close>

definition start_queue :: "nat \<Rightarrow> time \<Rightarrow> queue" where
  "start_queue n now = \<lparr>q_jobs = [], q_now = now, q_workers = replicate n idle_worker, q_claims = []\<rparr>"

lemma start_queue_ok: "queue_ok c (start_queue n now)"
  by (simp add: queue_ok_def start_queue_def table_ok_def claims_ok_def worker_ok_def idle_worker_def list_all_iff)

lemma queue_steps_ok: "(queue_step c)\<^sup>*\<^sup>* q q' \<Longrightarrow> queue_ok c q \<Longrightarrow> queue_ok c q'"
  by (induction rule: rtranclp_induct) (auto intro: queue_step_ok)

text \<open>C24. The job queue hands every attempt of a job to one worker.  Let any number of workers poll,
  claim, read back, process, fail and crash, and stale jobs be recovered, with their SQL statements
  interleaved in any order, from an empty queue: then no two successful claims are for the same attempt
  of the same job, a job is claimed at most five times and its counter never exceeds five, and no worker
  ever processes more jobs at once than it is configured for.\<close>

theorem queue_claims_unique:
  assumes "(queue_step concurrency)\<^sup>*\<^sup>* (start_queue n now) q"
  shows "distinct (q_claims q) \<and> (\<forall>i. length (filter (\<lambda>c. fst c = i) (q_claims q)) \<le> 5)
    \<and> list_all (\<lambda>r. jb_attempts r \<le> 5) (q_jobs q) \<and> list_all (\<lambda>w. length (wk_running w) \<le> concurrency) (q_workers q)"
proof -
  have "queue_ok concurrency q" using queue_steps_ok [OF assms start_queue_ok] .
  then have t: "table_ok (q_jobs q)" and c: "claims_ok (q_jobs q) (q_claims q)" and w: "list_all (worker_ok concurrency) (q_workers q)"
    by (simp_all add: queue_ok_def)
  have "list_all (\<lambda>r. jb_attempts r \<le> 5) (q_jobs q)"
    using t by (auto simp: table_ok_def list_all_iff job_ok_def sdk_MaxAttempts_def)
  moreover have "list_all (\<lambda>w. length (wk_running w) \<le> concurrency) (q_workers q)"
    using w by (auto simp: list_all_iff worker_ok_def)
  ultimately show ?thesis using claims_per_job [OF t c] c by (simp add: claims_ok_def)
qed

text \<open>One job and two workers: the first claims it, the second read the same candidate before that and
  finds it gone.\<close>

definition demo_job :: job_row where
  "demo_job = \<lparr>jb_id = ''j'', jb_commit_id = ID ''c'', jb_module_id = ID ''m'', jb_status = Pending, jb_language = ''go'', jb_plugin = ''p'',
     jb_plugin_options = [], jb_output_location = None, jb_error_message = None, jb_attempts = 0, jb_created_at = datetime 0,
     jb_started_at = None, jb_finished_at = None\<rparr>"

definition polled_worker :: poller where
  "polled_worker = idle_worker\<lparr>wk_slots := 1, wk_todo := [''j''], wk_polling := True\<rparr>"

definition demo_queue :: queue where
  "demo_queue = \<lparr>q_jobs = [demo_job\<lparr>jb_status := Running, jb_started_at := Some (datetime 0), jb_attempts := 1\<rparr>], q_now = 0,
     q_workers = [polled_worker\<lparr>wk_todo := [], wk_claimed := Some ''j''\<rparr>, polled_worker\<lparr>wk_todo := []\<rparr>], q_claims = [(''j'', 1)]\<rparr>"

lemma demo_queue_reached: "(queue_step 1)\<^sup>*\<^sup>* (start_queue 2 0) demo_queue"
proof -
  let ?q1 = "(start_queue 2 0)\<lparr>q_jobs := [demo_job]\<rparr>"
  let ?q2 = "?q1\<lparr>q_workers := [polled_worker, idle_worker]\<rparr>" and ?q3 = "?q1\<lparr>q_workers := [polled_worker, polled_worker]\<rparr>"
  let ?q4 = "demo_queue\<lparr>q_workers := [polled_worker\<lparr>wk_todo := [], wk_claimed := Some ''j''\<rparr>, polled_worker]\<rparr>"
  have two: "replicate 2 idle_worker = [idle_worker, idle_worker]" by (simp add: numeral_2_eq_2)
  have cand: "job_candidates 1 [demo_job] = [''j'']" by (simp add: job_candidates_def demo_job_def sdk_MaxAttempts_def)
  have poll: "polled_worker = idle_worker\<lparr>wk_slots := acquireAvailable 1 0 1, wk_todo := job_candidates (int (acquireAvailable 1 0 1)) [demo_job],
      wk_jobs := [], wk_polling := True\<rparr>" by (simp add: polled_worker_def cand acquireAvailable_min idle_worker_def)
  have "queue_step 1 (start_queue 2 0) ?q1"
    using queue_step.enqueue [of "''j''" "start_queue 2 0" "''c''" "''m''" "\<lparr>g_Language = ''go'', g_Plugin = ''p'', g_Options = []\<rparr>" "Inr ()" "[demo_job]"]
    by (simp add: start_queue_def job_Insert_def demo_job_def)
  moreover have "queue_step 1 ?q1 ?q2"
    using queue_step.poll [of 0 ?q1 idle_worker "acquireAvailable 1 0 1" 1]
    by (simp add: start_queue_def two poll acquireAvailable_min) (simp add: idle_worker_def)
  moreover have "queue_step 1 ?q2 ?q3"
    using queue_step.poll [of 1 ?q2 idle_worker "acquireAvailable 1 0 1" 1]
    by (simp add: start_queue_def two poll acquireAvailable_min) (simp add: idle_worker_def)
  moreover have "queue_step 1 ?q3 ?q4"
    using queue_step.claim [of 0 ?q3 polled_worker "''j''" "[]" 1 "q_jobs demo_queue" 1]
    by (simp add: start_queue_def demo_queue_def polled_worker_def idle_worker_def job_Claim_def affected_def claimable_def update_where_def
        attempts_of_def demo_job_def)
  moreover have "queue_step 1 ?q4 demo_queue"
    using queue_step.skip [of 1 ?q4 polled_worker "''j''" "[]" "q_jobs demo_queue" 1]
    by (simp add: demo_queue_def polled_worker_def idle_worker_def job_Claim_def affected_def claimable_def update_where_def demo_job_def)
  ultimately show ?thesis by (meson rtranclp.rtrancl_into_rtrancl rtranclp.rtrancl_refl)
qed

theorem queue_claims_unique_witness:
  "q_claims demo_queue = [(''j'', 1)] \<and> distinct (q_claims demo_queue)
   \<and> length (filter (\<lambda>c. fst c = ''j'') (q_claims demo_queue)) \<le> 5 \<and> list_all (\<lambda>r. jb_attempts r \<le> 5) (q_jobs demo_queue)"
  using queue_claims_unique [OF demo_queue_reached] by (simp add: demo_queue_def)

section \<open>A failed job is not retried\<close>

definition status_of :: "string \<Rightarrow> job_row list \<Rightarrow> job_status option" where
  "status_of i t = map_option jb_status (find (\<lambda>r. jb_id r = i) t)"

definition settled :: "string \<Rightarrow> job_row list \<Rightarrow> bool" where
  "settled i t \<longleftrightarrow> status_of i t \<in> {Some Succeeded, Some Failed, Some Dead}"

lemma status_of_update:
  assumes "\<And>r. jb_id (f r) = jb_id r"
  shows "status_of i (update_where p f t) = map_option (\<lambda>r. jb_status (if p r then f r else r)) (find (\<lambda>r. jb_id r = i) t)"
  unfolding status_of_def by (induction t) (auto simp: assms update_where_def)

lemma settled_statements:
  assumes "settled i t"
  shows "settled i (snd (job_Insert i' now ci mi g t))" "settled i (snd (job_RecoverStaleJobs now to t))" "settled i (snd (job_Claim now i' t))"
    "settled i (job_MarkSucceeded now j loc t)" "settled i (job_MarkFailed now j msg n t)"
proof -
  obtain r where r: "find (\<lambda>r. jb_id r = i) t = Some r" "jb_status r \<in> {Succeeded, Failed, Dead}"
    using assms by (auto simp: settled_def status_of_def)
  show "settled i (snd (job_Insert i' now ci mi g t))" using r by (auto simp: job_Insert_def settled_def status_of_def find_append)
  show "settled i (snd (job_RecoverStaleJobs now to t))" "settled i (snd (job_Claim now i' t))"
    "settled i (job_MarkSucceeded now j loc t)" "settled i (job_MarkFailed now j msg n t)"
    using r by (auto simp: settled_def job_RecoverStaleJobs_def job_Claim_def job_MarkSucceeded_def job_MarkFailed_def Let_def
      status_of_update stale_job_def claimable_def)
qed

lemma settled_not_claimed:
  assumes "settled i t" and "table_ok t" and "job_Claim now i t = (n, t')"
  shows "n = 0"
proof (rule ccontr)
  assume "n \<noteq> 0"
  then obtain r where r: "r \<in> set t" "jb_id r = i" "jb_status r = Pending"
    using assms(3) by (auto simp: job_Claim_def affected_def filter_empty_conv claimable_def)
  obtain r' where r': "find (\<lambda>r. jb_id r = i) t = Some r'" "jb_status r' \<in> {Succeeded, Failed, Dead}"
    using assms(1) by (auto simp: settled_def status_of_def)
  then have "r' \<in> set t" "jb_id r' = i" by (auto dest: find_Some_in)
  then have "r' = r" using assms(2) r distinct_map_eq [of jb_id t r' r] by (auto simp: table_ok_def)
  then show False using r r' by auto
qed

lemma settled_step:
  assumes "queue_step c q q'" and "queue_ok c q" and "settled i (q_jobs q)"
  shows "settled i (q_jobs q') \<and> filter (\<lambda>x. fst x = i) (q_claims q') = filter (\<lambda>x. fst x = i) (q_claims q)"
  using assms
proof (induction rule: queue_step.induct)
  case (claim k q w j ids n t)
  have "j \<noteq> i" using settled_not_claimed [of i "q_jobs q" "q_now q" n t] claim by (auto simp: queue_ok_def)
  with claim settled_statements(3) [OF claim.prems(2), of "q_now q" j] show ?case by auto
next
  case (enqueue j q ci mi g r t)
  with settled_statements(1) [OF enqueue.prems(2), of j "q_now q" ci mi g] show ?case by simp
next
  case (recover q n t)
  with settled_statements(2) [OF recover.prems(2), of "q_now q" stalenessTimeout] show ?case by simp
qed (auto intro: settled_statements)

text \<open>A job whose generation failed once is never claimed again, whatever its counter says: \<open>MarkFailed\<close>
  writes \<open>failed\<close>, \<open>ClaimPending\<close> takes only \<open>pending\<close>, and nothing leads from the one to the other.\<close>

lemma failed_job_never_claimed_again:
  assumes "(queue_step c)\<^sup>*\<^sup>* q q'" and "queue_ok c q" and "status_of i (q_jobs q) = Some Failed"
  shows "settled i (q_jobs q') \<and> filter (\<lambda>x. fst x = i) (q_claims q') = filter (\<lambda>x. fst x = i) (q_claims q)"
  using assms(1)
proof (induction rule: rtranclp_induct)
  case base
  with assms(3) show ?case by (simp add: settled_def)
next
  case (step y z)
  with settled_step queue_steps_ok [OF step.hyps(1) assms(2)] show ?case by metis
qed

end
