(* ===== verification/Identity_Server.thy ===== *)
theory Identity_Server
  imports Module_Server
begin

text \<open>
  Accounts, organisations and notifications: \<open>internal/hades/server/identity/handler.go\<close>,
  \<open>internal/hades/server/notification/handler.go\<close> and the statements of
  \<open>internal/hades/storage/db/org/sqlite\<close> they issue.
\<close>

section \<open>Store calls\<close>

definition org_Create_call :: "env \<Rightarrow> string \<Rightarrow> string \<Rightarrow> string \<Rightarrow> string \<Rightarrow> (world, User) call" where
  "org_Create_call env name description url creatorID = do {
     i \<leftarrow> insert_row env (\<lambda>i now d. case org_Insert i now name description url (users d) of (r, t) \<Rightarrow> (r, d\<lparr>users := t\<rparr>));
     (case i of
        Inl e \<Rightarrow> fail e
      | Inr _ \<Rightarrow> do {
          q \<leftarrow> qry (\<lambda>d. user_GetByUsername name (users d));
          (case q of
             Inl e \<Rightarrow> fail e
           | Inr orgUser \<Rightarrow> do {
               m \<leftarrow> upd_reg (\<lambda>_ rg. rg\<lparr>member_table := org_AddMember (Id orgUser) creatorID ''admin'' (member_table rg)\<rparr>);
               (case m of Inl e \<Rightarrow> fail e | Inr _ \<Rightarrow> ok orgUser)
             })
        })
   }"

text \<open>The update of an account's profile: \<open>user_Update\<close> or \<open>org_Update\<close>, then the row is read back.\<close>

definition profile_Update_call :: "string \<Rightarrow> (time \<Rightarrow> user_row list \<Rightarrow> user_row list) \<Rightarrow> (world, User) call" where
  "profile_Update_call i f = do {
     u \<leftarrow> upd (\<lambda>now d. d\<lparr>users := f now (users d)\<rparr>);
     (case u of Inl e \<Rightarrow> fail e | Inr _ \<Rightarrow> qry (\<lambda>d. user_GetByID i (users d)))
   }"

definition org_AddMember_call :: "string \<Rightarrow> string \<Rightarrow> string \<Rightarrow> (world, unit) call" where
  "org_AddMember_call orgID memberID role = upd_reg (\<lambda>_ rg. rg\<lparr>member_table := org_AddMember orgID memberID role (member_table rg)\<rparr>)"

definition org_RemoveMember_call :: "string \<Rightarrow> string \<Rightarrow> (world, unit) call" where
  "org_RemoveMember_call orgID memberID = upd_reg (\<lambda>_ rg. rg\<lparr>member_table := org_RemoveMember orgID memberID (member_table rg)\<rparr>)"

section \<open>Shared pieces\<close>

definition ActionAdmin :: string where "ActionAdmin = ''admin''"

definition org_policy :: "User \<Rightarrow> string \<Rightarrow> string \<Rightarrow> policy" where
  "org_policy caller orgName action = \<lparr>Subject = Username caller, Domain = orgName @ ''/*'', ResourceType = ResourceOrg,
     Action = action, Visibility = []\<rparr>"

definition requireOrgPermission :: "env \<Rightarrow> reqctx \<Rightarrow> User \<Rightarrow> string \<Rightarrow> string \<Rightarrow> (world, unit) call" where
  "requireOrgPermission env ctx caller orgName action = do {
     c \<leftarrow> Can env ctx (org_policy caller orgName action);
     (case c of
        Inl e \<Rightarrow> fail (Unavailable ''authorization service unavailable'')
      | Inr resp \<Rightarrow> if \<not> Allowed resp then fail (PermissionDenied (''permission denied on organization '' @ orgName)) else ok ())
   }"

definition redactEmail :: "User option \<Rightarrow> User \<Rightarrow> User" where
  "redactEmail caller u = (let callerID = (case caller of None \<Rightarrow> [] | Some c \<Rightarrow> Id c) in
     if callerID \<noteq> [] \<and> Id u = callerID then u else u\<lparr>Email := []\<rparr>)"

definition redactEmails :: "User option \<Rightarrow> User list \<Rightarrow> User list" where
  "redactEmails caller us = map (redactEmail caller) us"

section \<open>Users\<close>

definition GetUser :: "reqctx \<Rightarrow> string \<Rightarrow> (world, User \<times> int \<times> User list) call" where
  "GetUser ctx username = do {
     q \<leftarrow> qry (\<lambda>d. user_GetByUsername username (users d));
     (case q of
        Inl e \<Rightarrow> fail (NotFound ''user not found'')
      | Inr user \<Rightarrow>
          if UType user = USER_TYPE_ORGANIZATION then fail (NotFound ''user not found'')
          else do {
            n \<leftarrow> qry (\<lambda>d. Inr (module_CountByOwner (Id user) (module_table (registry d))));
            (case n of
               Inl e \<Rightarrow> fail (Internal ''failed to count modules'')
             | Inr moduleCount \<Rightarrow> do {
                 g \<leftarrow> qry (\<lambda>d. Inr (org_GetUserOrgs (Id user) (users d) (member_table (registry d))));
                 (case g of
                    Inl e \<Rightarrow> fail (Internal ''failed to get user orgs'')
                  | Inr orgs \<Rightarrow> ok (redactEmail (ctx_user ctx) user, moduleCount, redactEmails (ctx_user ctx) orgs))
               })
          })
   }"

definition ListUsers :: "reqctx \<Rightarrow> string \<Rightarrow> int \<Rightarrow> string \<Rightarrow> (world, User list \<times> string) call" where
  "ListUsers ctx query PageSize PageToken = (case ctx_user ctx of
     None \<Rightarrow> fail (Unauthenticated ''authentication required'')
   | Some caller \<Rightarrow> (case Page PageSize PageToken of (limit, offset) \<Rightarrow> do {
       q \<leftarrow> qry (\<lambda>d. Inr (user_List query limit offset (users d)));
       (case q of
          Inl e \<Rightarrow> fail (Internal ''failed to list users'')
        | Inr us \<Rightarrow> ok (redactEmails (ctx_user ctx) us, NextPageToken (int (length us)) limit offset))
     }))"

definition UpdateUser :: "reqctx \<Rightarrow> string \<Rightarrow> string \<Rightarrow> (world, User) call" where
  "UpdateUser ctx description url = (case ctx_user ctx of
     None \<Rightarrow> fail (Unauthenticated ''authentication required'')
   | Some user \<Rightarrow> do {
       u \<leftarrow> profile_Update_call (Id user) (\<lambda>now t. snd (user_Update now (Id user) description url t));
       (case u of Inl e \<Rightarrow> fail (Internal ''failed to update user'') | Inr updated \<Rightarrow> ok updated)
     })"

section \<open>Organisations\<close>

definition GetOrg :: "string \<Rightarrow> (world, User \<times> int \<times> int) call" where
  "GetOrg name = do {
     q \<leftarrow> qry (\<lambda>d. org_GetByName name (users d));
     (case q of
        Inl e \<Rightarrow> fail (NotFound ''organization not found'')
      | Inr org \<Rightarrow> do {
          n \<leftarrow> qry (\<lambda>d. Inr (module_CountByOwner (Id org) (module_table (registry d))));
          (case n of
             Inl e \<Rightarrow> fail (Internal ''failed to count modules'')
           | Inr moduleCount \<Rightarrow> do {
               m \<leftarrow> qry (\<lambda>d. Inr (org_CountMembers (Id org) (member_table (registry d))));
               (case m of
                  Inl e \<Rightarrow> fail (Internal ''failed to count members'')
                | Inr memberCount \<Rightarrow> ok (org, moduleCount, memberCount))
             })
        })
   }"

definition ListOrgMembers :: "reqctx \<Rightarrow> string \<Rightarrow> (world, (User \<times> string) list) call" where
  "ListOrgMembers ctx orgName = (case ctx_user ctx of
     None \<Rightarrow> fail (Unauthenticated ''authentication required'')
   | Some caller \<Rightarrow> do {
       q \<leftarrow> qry (\<lambda>d. org_GetByName orgName (users d));
       (case q of
          Inl e \<Rightarrow> fail (NotFound ''organization not found'')
        | Inr org \<Rightarrow> do {
            m \<leftarrow> qry (\<lambda>d. Inr (org_ListMembers (Id org) (users d) (member_table (registry d))));
            (case m of
               Inl e \<Rightarrow> fail (FromDB e)
             | Inr members \<Rightarrow> ok (map (\<lambda>(u, role). (redactEmail (Some caller) u, role)) members))
          })
     })"

definition ListOrganizations :: "reqctx \<Rightarrow> string \<Rightarrow> int \<Rightarrow> string \<Rightarrow> (world, User list \<times> string) call" where
  "ListOrganizations ctx query PageSize PageToken = (case Page PageSize PageToken of (limit, offset) \<Rightarrow> do {
     q \<leftarrow> qry (\<lambda>d. Inr (org_List query limit offset (users d)));
     (case q of
        Inl e \<Rightarrow> fail (Internal ''failed to list organizations'')
      | Inr orgs \<Rightarrow> ok (redactEmails (ctx_user ctx) orgs, NextPageToken (int (length orgs)) limit offset))
   })"

definition GetUserOrgs :: "reqctx \<Rightarrow> string \<Rightarrow> (world, User list) call" where
  "GetUserOrgs ctx username = do {
     q \<leftarrow> qry (\<lambda>d. user_GetByUsername username (users d));
     (case q of
        Inl e \<Rightarrow> fail (NotFound ''user not found'')
      | Inr user \<Rightarrow> do {
          g \<leftarrow> qry (\<lambda>d. Inr (org_GetUserOrgs (Id user) (users d) (member_table (registry d))));
          (case g of
             Inl e \<Rightarrow> fail (Internal ''failed to get user orgs'')
           | Inr orgs \<Rightarrow> ok (redactEmails (ctx_user ctx) orgs))
        })
   }"

definition CreateOrg :: "env \<Rightarrow> reqctx \<Rightarrow> string \<Rightarrow> string \<Rightarrow> string \<Rightarrow> (world, User) call" where
  "CreateOrg env ctx name0 description url = (case ctx_user ctx of
     None \<Rightarrow> fail (Unauthenticated ''authentication required'')
   | Some caller \<Rightarrow> (let name = ToLower (TrimSpace name0) in
       case ValidateName name of
         Some e \<Rightarrow> fail (InvalidArgument (''organization '' @ e))
       | None \<Rightarrow> uow_do (do {
           c \<leftarrow> org_Create_call env name description url (Id caller);
           (case c of
              Inl e \<Rightarrow> fail (FromDB e)
            | Inr org \<Rightarrow> do {
                a \<leftarrow> AddOrgOwner env (Username caller) (Username org);
                (case a of Inl e \<Rightarrow> fail (Internal ''failed to set org owner permissions'') | Inr _ \<Rightarrow> ok org)
              })
         })))"

definition UpdateOrg :: "env \<Rightarrow> reqctx \<Rightarrow> string \<Rightarrow> string \<Rightarrow> string \<Rightarrow> (world, User) call" where
  "UpdateOrg env ctx orgName description url = (case ctx_user ctx of
     None \<Rightarrow> fail (Unauthenticated ''authentication required'')
   | Some caller \<Rightarrow> do {
       q \<leftarrow> qry (\<lambda>d. org_GetByName orgName (users d));
       (case q of
          Inl e \<Rightarrow> fail (NotFound ''organization not found'')
        | Inr org \<Rightarrow> do {
            p \<leftarrow> requireOrgPermission env ctx caller (Username org) ActionUpdate;
            (case p of
               Inl e \<Rightarrow> fail e
             | Inr _ \<Rightarrow> do {
                 u \<leftarrow> profile_Update_call (Id org) (\<lambda>now t. org_Update now (Id org) description url t);
                 (case u of Inl e \<Rightarrow> fail (Internal ''failed to update organization'') | Inr updated \<Rightarrow> ok updated)
               })
          })
     })"

text \<open>The membership row and the binding of a member.\<close>

definition add_member_tx :: "env \<Rightarrow> User \<Rightarrow> User \<Rightarrow> string \<Rightarrow> string \<Rightarrow> (world, unit) call" where
  "add_member_tx env org target memberRole opaRole = uow_do (do {
     m \<leftarrow> org_AddMember_call (Id org) (Id target) memberRole;
     (case m of
        Inl e \<Rightarrow> fail (Internal ''failed to add member'')
      | Inr _ \<Rightarrow> do {
          b \<leftarrow> AddOrgMemberBinding env (Username target) opaRole (Username org);
          (case b of Inl e \<Rightarrow> fail (Internal ''failed to set member permissions'') | Inr _ \<Rightarrow> ok ())
        })
   })"

definition AddOrgMember :: "env \<Rightarrow> reqctx \<Rightarrow> string \<Rightarrow> string \<Rightarrow> string \<Rightarrow> (world, unit) call" where
  "AddOrgMember env ctx orgName username role = (case ctx_user ctx of
     None \<Rightarrow> fail (Unauthenticated ''authentication required'')
   | Some caller \<Rightarrow> do {
       q \<leftarrow> qry (\<lambda>d. org_GetByName orgName (users d));
       (case q of
          Inl e \<Rightarrow> fail (NotFound ''organization not found'')
        | Inr org \<Rightarrow> do {
            p \<leftarrow> requireOrgPermission env ctx caller (Username org) ActionAdmin;
            (case p of
               Inl e \<Rightarrow> fail e
             | Inr _ \<Rightarrow> do {
                 t \<leftarrow> qry (\<lambda>d. user_GetByUsername username (users d));
                 (case t of
                    Inl e \<Rightarrow> fail (NotFound ''user not found'')
                  | Inr target \<Rightarrow>
                      (let memberRole = (if role = [] then ''member'' else role);
                           opaRole = (if memberRole = ''member'' then RoleContributor else memberRole) in
                       add_member_tx env org target memberRole opaRole))
               })
          })
     })"

definition remove_member_tx :: "User \<Rightarrow> User \<Rightarrow> (world, unit) call" where
  "remove_member_tx org target = uow_do (do {
     m \<leftarrow> org_RemoveMember_call (Id org) (Id target);
     (case m of
        Inl e \<Rightarrow> fail (Internal ''failed to remove member'')
      | Inr _ \<Rightarrow> do {
          b \<leftarrow> DeleteOrgBinding (Username target) (Username org);
          (case b of Inl e \<Rightarrow> fail (Internal ''failed to remove member permissions'') | Inr _ \<Rightarrow> ok ())
        })
   })"

definition remove_member :: "string \<Rightarrow> User \<Rightarrow> (world, unit) call" where
  "remove_member username org = do {
     t \<leftarrow> qry (\<lambda>d. user_GetByUsername username (users d));
     (case t of
        Inl e \<Rightarrow> fail (NotFound ''user not found'')
      | Inr target \<Rightarrow> do {
          r \<leftarrow> qry (\<lambda>d. org_GetMemberRole (Id org) (Id target) (member_table (registry d)));
          (case r of
             Inl e \<Rightarrow> fail (NotFound ''user is not a member of this organization'')
           | Inr targetRole \<Rightarrow>
               if targetRole = ''admin'' then do {
                 m \<leftarrow> qry (\<lambda>d. Inr (org_ListMembers (Id org) (users d) (member_table (registry d))));
                 (case m of
                    Inl e \<Rightarrow> fail (FromDB e)
                  | Inr members \<Rightarrow>
                      if length (filter (\<lambda>(u, role). role = ''admin'') members) \<le> 1
                      then fail (FailedPrecondition ''cannot remove the last admin of an organization'')
                      else remove_member_tx org target)
               } else remove_member_tx org target)
        })
   }"

definition RemoveOrgMember :: "env \<Rightarrow> reqctx \<Rightarrow> string \<Rightarrow> string \<Rightarrow> (world, unit) call" where
  "RemoveOrgMember env ctx orgName username = (case ctx_user ctx of
     None \<Rightarrow> fail (Unauthenticated ''authentication required'')
   | Some caller \<Rightarrow> do {
       q \<leftarrow> qry (\<lambda>d. org_GetByName orgName (users d));
       (case q of
          Inl e \<Rightarrow> fail (NotFound ''organization not found'')
        | Inr org \<Rightarrow>
            if Username caller \<noteq> username then do {
              p \<leftarrow> requireOrgPermission env ctx caller (Username org) ActionAdmin;
              (case p of Inl e \<Rightarrow> fail e | Inr _ \<Rightarrow> remove_member username org)
            } else remove_member username org)
     })"

section \<open>Notifications\<close>

definition ListNotifications :: "reqctx \<Rightarrow> int \<Rightarrow> string \<Rightarrow> (world, Notification list \<times> string) call" where
  "ListNotifications ctx PageSize PageToken = (case ctx_user ctx of
     None \<Rightarrow> fail (Unauthenticated ''not authenticated'')
   | Some user \<Rightarrow> (case Page PageSize PageToken of (limit, offset) \<Rightarrow> do {
       q \<leftarrow> qry (\<lambda>d. Inr (notification_ListForUser (Id user) limit offset (notification_table (registry d))));
       (case q of
          Inl e \<Rightarrow> fail (FromDB e)
        | Inr ns \<Rightarrow> ok (ns, NextPageToken (int (length ns)) limit offset))
     }))"

definition MarkNotificationRead :: "reqctx \<Rightarrow> string \<Rightarrow> (world, unit) call" where
  "MarkNotificationRead ctx i = (case ctx_user ctx of
     None \<Rightarrow> fail (Unauthenticated ''not authenticated'')
   | Some user \<Rightarrow> do {
       m \<leftarrow> exec_reg (\<lambda>now rg. case notification_MarkRead now i (Id user) (notification_table rg) of
              (r, t) \<Rightarrow> (r, rg\<lparr>notification_table := t\<rparr>));
       (case m of Inl e \<Rightarrow> if e = ErrNotFound then ok () else fail (FromDB e) | Inr _ \<Rightarrow> ok ())
     })"

section \<open>Tables they leave alone\<close>

context credential_fact
begin

lemma org_calls_keep [db_intros]:
  "db_keeps Q (org_Create_call env n de u c)" "db_keeps Q (profile_Update_call i f)" "db_keeps Q (org_AddMember_call oi mi r)"
  "db_keeps Q (org_RemoveMember_call oi mi)" "db_keeps Q (AddOrgOwner env s on)" "db_keeps Q (AddOrgMemberBinding env s r on)"
  "db_keeps Q (DeleteOrgBinding s on)" "db_keeps Q (requireOrgPermission env ctx ca on a)"
  unfolding org_Create_call_def profile_Update_call_def org_AddMember_call_def org_RemoveMember_call_def AddOrgOwner_def
    AddOrgMemberBinding_def DeleteOrgBinding_def engine_AddBinding_def engine_DeleteBinding_def requireOrgPermission_def
  by (intro db_intros)+

lemma identity_handlers_keep [db_intros]:
  "db_keeps Q (GetUser ctx un)" "db_keeps Q (ListUsers ctx qy ps pt)" "db_keeps Q (UpdateUser ctx de u)" "db_keeps Q (GetOrg n)"
  "db_keeps Q (ListOrgMembers ctx n)" "db_keeps Q (ListOrganizations ctx qy ps pt)" "db_keeps Q (GetUserOrgs ctx un)"
  "db_keeps Q (CreateOrg env ctx n de u)" "db_keeps Q (UpdateOrg env ctx n de u)" "db_keeps Q (AddOrgMember env ctx n un r)"
  "db_keeps Q (RemoveOrgMember env ctx n un)" "db_keeps Q (ListNotifications ctx ps pt)" "db_keeps Q (MarkNotificationRead ctx i)"
  unfolding GetUser_def ListUsers_def UpdateUser_def GetOrg_def ListOrgMembers_def ListOrganizations_def GetUserOrgs_def CreateOrg_def
    UpdateOrg_def AddOrgMember_def RemoveOrgMember_def remove_member_def remove_member_tx_def add_member_tx_def ListNotifications_def
    MarkNotificationRead_def Let_def
  by (intro db_intros)+

end

end
