(* ===== verification/Module_Facts.thy ===== *)
theory Module_Facts
  imports Module_Server
begin

text \<open>
  What the module service guarantees: everything it returns is readable by the caller, a module is
  created as a whole or not at all, and a module is set to \<open>PUBLIC\<close> only by someone who may publish it.
\<close>

section \<open>Checks as rules\<close>

lemma may_read_same: "same_state w w' \<Longrightarrow> may_read env w' ctx u m = may_read env w ctx u m"
  by (simp add: may_read_def decision_def same_state_current)

lemma may_act_same: "same_state w w' \<Longrightarrow> may_act env w' ctx p = may_act env w ctx p"
  by (simp add: may_act_def decision_def same_state_current)

lemma same_state_faults [simp]: "same_state w (w\<lparr>faults := fs\<rparr>)"
  by (simp add: same_state_def)

text \<open>A step of the policy's callers: the state is the same and the cache stays coherent.\<close>

definition steady :: "world \<Rightarrow> world \<Rightarrow> bool" where
  "steady w w' \<longleftrightarrow> same_state w w' \<and> cache_coherent w'"

lemma steady_refl: "cache_coherent w \<Longrightarrow> steady w w"
  by (simp add: steady_def)

lemma steady_faults: "steady w v \<Longrightarrow> steady w (v\<lparr>faults := fs\<rparr>)"
  by (simp add: steady_def same_state_def)

lemma CheckReadAccess_steady:
  assumes "steady w0 w" and "visits (ord_entries env)"
    and "\<And>e w'. steady w0 w' \<Longrightarrow> (faults w = [] \<Longrightarrow> \<not> (\<forall>m \<in> set ms. may_read env w0 ctx u m)) \<Longrightarrow> Q (Inl e) w'"
    and "\<And>w'. steady w0 w' \<Longrightarrow> \<forall>m \<in> set ms. may_read env w0 ctx u m \<Longrightarrow> Q (Inr ()) w'"
  shows "wp (CheckReadAccess env ctx u ms) Q w"
proof (rule wp_conseq [OF CheckReadAccess_decides [OF _ assms(2)]])
  show "cache_coherent w" using assms(1) by (simp add: steady_def)
next
  fix r w'
  assume c: "same_state w w' \<and> cache_coherent w' \<and> (r = Inr () \<longrightarrow> (\<forall>m \<in> set ms. may_read env w ctx u m))
     \<and> (faults w = [] \<and> (\<forall>m \<in> set ms. may_read env w ctx u m) \<longrightarrow> r = Inr ())
     \<and> (faults w = [] \<and> \<not> (\<forall>m \<in> set ms. may_read env w ctx u m)
          \<and> (\<forall>m \<in> set ms. MVisibility m = MODULE_VISIBILITY_PRIVATE) \<longrightarrow> r = Inl (NotFound ''not found''))"
  then have st: "steady w0 w'" using assms(1) same_state_trans by (auto simp: steady_def)
  have rd: "may_read env w ctx u m = may_read env w0 ctx u m" for m
    using may_read_same assms(1) by (simp add: steady_def)
  show "Q r w'"
    using st c assms(3) [of w'] assms(4) [of w'] unfolding rd by (cases r) simp_all
qed

section \<open>Reading\<close>

lemma GetModulesByRefs_steady:
  assumes "steady w0 w" and "\<And>e w'. Q (Inl e) w'" and "\<And>ms w'. steady w0 w' \<Longrightarrow> Q (Inr ms) w'"
  shows "wp (GetModulesByRefs refs) Q w"
  using assms
proof (induction refs arbitrary: Q w)
  case (Cons ref refs)
  show ?case
    unfolding GetModulesByRefs.simps
    by (intro wp_first wp_intros Cons.IH) (use Cons.prems in \<open>auto intro: steady_faults\<close>)
qed (auto intro: wp_intros)

definition readable_by :: "env \<Rightarrow> world \<Rightarrow> reqctx \<Rightarrow> Module list \<Rightarrow> bool" where
  "readable_by env w ctx ms \<longleftrightarrow> (\<forall>m \<in> set ms. may_read env w ctx (ctx_user ctx) (mref m))"

lemma scan_rows_steady:
  assumes "steady w0 w" and "visits (ord_entries env)" and "readable_by env w0 ctx vis" and "int (length vis) < n"
    and "\<And>vis' off' w'. steady w0 w' \<Longrightarrow> readable_by env w0 ctx vis' \<Longrightarrow> int (length vis') \<le> n \<Longrightarrow> Q (vis', off') w'"
  shows "wp (scan_rows env ctx n ms vis off) Q w"
  using assms
proof (induction ms arbitrary: vis off w)
  case (Cons m ms)
  show ?case
    unfolding scan_rows.simps
    by (intro wp_first wp_intros CheckReadAccess_steady [OF Cons.prems(1,2)] Cons.IH)
      (use Cons.prems in \<open>auto simp: readable_by_def\<close>)
qed (auto intro: wp_intros)

lemma scan_batches_steady:
  assumes "steady w0 w" and "visits (ord_entries env)" and "readable_by env w0 ctx vis" and "int (length vis) \<le> n"
    and "\<And>e w'. Q (Inl e) w'"
    and "\<And>vis' off' x w'. readable_by env w0 ctx vis' \<Longrightarrow> int (length vis') \<le> n \<Longrightarrow> Q (Inr (vis', off', x)) w'"
  shows "wp (scan_batches env ctx owner n k vis off) Q w"
  using assms
proof (induction k arbitrary: vis off w)
  case (Suc k)
  show ?case
    unfolding scan_batches.simps Let_def
    by (intro wp_first wp_intros scan_rows_steady [where ?w0.0 = w0] Suc.IH)
      (use Suc.prems in \<open>auto intro: steady_faults\<close>)
qed (auto intro: wp_intros)

definition found_module :: "env \<Rightarrow> world \<Rightarrow> reqctx \<Rightarrow> string \<Rightarrow> string \<Rightarrow> Module res" where
  "found_module env w ctx owner name =
     (case module_GetModuleByOwnerAndName (users (dbs w)) owner name (module_table (registry (dbs w))) of
        Inr m \<Rightarrow> if readable_by env w ctx [m] then Inr m else Inl (NotFound ''module not found'')
      | Inl e \<Rightarrow> Inl (NotFound ''module not found''))"

lemma GetModule_found:
  assumes "cache_coherent w" and "visits (ord_entries env)" and "faults w = []"
  shows "fst (run (GetModule env ctx owner name) w) = found_module env w ctx owner name"
proof -
  have chk: "wp (CheckReadAccess env ctx (ctx_user ctx) [mref m]) (\<lambda>r w'. r = Inr () \<longleftrightarrow> readable_by env w ctx [m]) w" for m
    by (rule CheckReadAccess_steady [OF steady_refl [OF assms(1)] assms(2)]) (use assms(3) in \<open>auto simp: readable_by_def\<close>)
  have "wp (GetModule env ctx owner name) (\<lambda>r w'. r = found_module env w ctx owner name) w"
  proof (cases "module_GetModuleByOwnerAndName (users (dbs w)) owner name (module_table (registry (dbs w)))")
    case (Inl e)
    with assms(3) show ?thesis by (simp add: GetModule_def found_module_def calm_simps)
  next
    case (Inr m)
    with assms(3) have "wp (GetModule env ctx owner name) Q w = wp (CheckReadAccess env ctx (ctx_user ctx) [mref m])
        (\<lambda>c. wp (case c of Inl e \<Rightarrow> fail (NotFound ''module not found'') | Inr _ \<Rightarrow> ok m) Q) w" for Q
      by (simp add: GetModule_def calm_simps)
    moreover have "wp (CheckReadAccess env ctx (ctx_user ctx) [mref m]) (\<lambda>c. wp (case c of Inl e \<Rightarrow> fail (NotFound ''module not found'')
        | Inr _ \<Rightarrow> ok m) (\<lambda>r w'. r = found_module env w ctx owner name)) w"
      by (rule wp_conseq [OF chk]) (auto simp: found_module_def Inr calm_simps split: sum.splits)
    ultimately show ?thesis by simp
  qed
  then show ?thesis by (simp add: wp_def split: prod.splits)
qed

text \<open>C13. The read handlers return only modules the caller may read.  With a coherent cache, and
  whatever calls fail, every module that \<open>GetModules\<close>, \<open>GetModule\<close> or \<open>ListModules\<close> returns is covered
  by the credential's scopes and either not \<open>PRIVATE\<close> (any other visibility, \<open>UNSPECIFIED\<close> included, is
  open to everyone) or allowed to the caller by the policy on the current bindings, and a page never exceeds its size.  When nothing fails \<open>GetModule\<close> returns every module
  that exists and is readable, and answers the same \<open>NotFound\<close> for all others, so the existence of
  a private module is not revealed.\<close>

theorem module_reads_authorized:
  assumes "cache_coherent w" and "visits (ord_entries env)"
  shows "(\<forall>ms w'. run (GetModules env ctx refs) w = (Inr ms, w') \<longrightarrow> readable_by env w ctx ms)
    \<and> (\<forall>m w'. run (GetModule env ctx owner name) w = (Inr m, w') \<longrightarrow> readable_by env w ctx [m])
    \<and> (\<forall>ms tok w'. run (ListModules env ctx owner PageSize PageToken) w = (Inr (ms, tok), w') \<longrightarrow>
         readable_by env w ctx ms \<and> int (length ms) \<le> fst (Page PageSize PageToken))
    \<and> (faults w = [] \<longrightarrow> fst (run (GetModule env ctx owner name) w) = found_module env w ctx owner name)"
proof -
  have st: "steady w w" using assms(1) by (rule steady_refl)
  have "wp (GetModules env ctx refs) (\<lambda>r w'. \<forall>ms. r = Inr ms \<longrightarrow> readable_by env w ctx ms) w"
    unfolding GetModules_def
    by (intro wp_first wp_intros GetModulesByRefs_steady [OF st] CheckReadAccess_steady [OF _ assms(2)])
      (auto simp: readable_by_def)
  moreover have "wp (GetModule env ctx owner name) (\<lambda>r w'. \<forall>m. r = Inr m \<longrightarrow> readable_by env w ctx [m]) w"
    unfolding GetModule_def
    by (intro wp_first wp_intros CheckReadAccess_steady [OF _ assms(2)])
      (auto simp: readable_by_def intro: steady_faults st)
  moreover have "wp (ListModules env ctx owner PageSize PageToken) (\<lambda>r w'. \<forall>ms tok. r = Inr (ms, tok) \<longrightarrow>
         readable_by env w ctx ms \<and> int (length ms) \<le> fst (Page PageSize PageToken)) w"
    unfolding ListModules_def
    by (intro wp_first wp_intros scan_batches_steady [OF st assms(2)])
      (auto simp: readable_by_def Page_def Let_def DefaultPageSize_def MaxPageSize_def split: if_splits)
  ultimately show ?thesis using GetModule_found [OF assms, of ctx owner name] by (auto simp: wp_def split: prod.splits)
qed

section \<open>Updating\<close>

lemma Can_steady:
  assumes "steady w0 w" and "visits (ord_entries env)"
    and "\<And>e w'. steady w0 w' \<Longrightarrow> (faults w = [] \<Longrightarrow> False) \<Longrightarrow> Q (Inl e) w'"
    and "\<And>resp w'. steady w0 w' \<Longrightarrow> (faults w = [] \<Longrightarrow> faults w' = []) \<Longrightarrow> Allowed resp = may_act env w0 ctx p \<Longrightarrow> Q (Inr resp) w'"
  shows "wp (Can env ctx p) Q w"
proof (rule wp_conseq [OF Can_decides [OF _ assms(2)]])
  show "cache_coherent w" using assms(1) by (simp add: steady_def)
next
  fix r :: "can_response res" and w'
  assume c: "same_state w w' \<and> cache_coherent w' \<and> calm w r w' \<and> (\<forall>resp. r = Inr resp \<longrightarrow> Allowed resp = may_act env w ctx p
        \<and> DeniedPolicy resp = (if Allowed resp then None else Some p))"
  then have st: "steady w0 w'" using assms(1) same_state_trans by (auto simp: steady_def)
  have "may_act env w ctx p = may_act env w0 ctx p" using may_act_same assms(1) by (simp add: steady_def)
  with st c assms(3) [of w'] assms(4) [of w'] show "Q r w'" by (cases r) (auto simp: calm_def)
qed

text \<open>The rows an update touches.\<close>

lemma module_Update_rows:
  assumes "distinct (map md_id t)" and "i < length t"
  shows "module_Update now us req t ! i = t ! i
     \<or> (find (\<lambda>r. owned_by us (um_Owner req) r \<and> md_name r = um_Owner req @ ''/'' @ um_Name req) t = Some (t ! i)
        \<and> module_Update now us req t ! i = module_Update_row now req (t ! i))"
proof (cases "find (\<lambda>r. owned_by us (um_Owner req) r \<and> md_name r = um_Owner req @ ''/'' @ um_Name req) t")
  case (Some m)
  then have "m \<in> set t" by (auto dest: find_Some_in)
  then have "md_id (t ! i) = md_id m \<longleftrightarrow> t ! i = m" using assms distinct_map_eq [of md_id t "t ! i" m] by auto
  with Some assms(2) show ?thesis by (auto simp: module_Update_def update_where_def)
qed (simp add: module_Update_def)

text \<open>The module row an update of the request may have changed, and how.\<close>

definition made_public :: "module_row list \<Rightarrow> module_row list \<Rightarrow> bool" where
  "made_public t t' \<longleftrightarrow> (\<exists>i < length t. md_visibility (t ! i) \<noteq> MODULE_VISIBILITY_PUBLIC \<and> md_visibility (t' ! i) = MODULE_VISIBILITY_PUBLIC)"

text \<open>Reading is restricted for the visibility \<open>PRIVATE\<close> alone (\<open>may_read\<close>), so a module is opened to everyone
  by any other value, \<open>UNSPECIFIED\<close> included.\<close>

definition opened :: "module_row list \<Rightarrow> module_row list \<Rightarrow> bool" where
  "opened t t' \<longleftrightarrow> (\<exists>i < length t. md_visibility (t ! i) = MODULE_VISIBILITY_PRIVATE \<and> md_visibility (t' ! i) \<noteq> MODULE_VISIBILITY_PRIVATE)"

definition changed_only :: "string \<Rightarrow> (module_row \<Rightarrow> module_row) \<Rightarrow> module_row list \<Rightarrow> module_row list \<Rightarrow> bool" where
  "changed_only name f t t' \<longleftrightarrow> length t' = length t \<and>
     (\<forall>i < length t. t' ! i = t ! i \<or> md_name (t ! i) = name \<and> t' ! i = f (t ! i))"

lemma module_Update_changed:
  assumes "distinct (map md_id t)"
  shows "changed_only (um_Owner req @ ''/'' @ um_Name req) (module_Update_row now req) t (module_Update now us req t)"
  using module_Update_rows [OF assms] find_Some_in
  by (fastforce simp: changed_only_def module_Update_def Let_def split: option.splits)

lemma module_Update_private:
  assumes "distinct (map md_id t)" and "made_public t (module_Update now us req t)"
  shows "um_Visibility req = Some MODULE_VISIBILITY_PUBLIC
    \<and> (\<exists>m. module_GetModuleByOwnerAndName us (um_Owner req) (um_Name req) t = Inr m \<and> Mod_Visibility m \<noteq> MODULE_VISIBILITY_PUBLIC)"
proof -
  from assms(2) obtain i where i: "i < length t" "md_visibility (t ! i) \<noteq> MODULE_VISIBILITY_PUBLIC"
    "md_visibility (module_Update now us req t ! i) = MODULE_VISIBILITY_PUBLIC" by (auto simp: made_public_def)
  with module_Update_rows [OF assms(1) i(1), of now us req]
  have f: "find (\<lambda>r. owned_by us (um_Owner req) r \<and> md_name r = um_Owner req @ ''/'' @ um_Name req) t = Some (t ! i)"
    and "md_visibility (module_Update_row now req (t ! i)) = MODULE_VISIBILITY_PUBLIC" by auto
  with i(2) have "um_Visibility req = Some MODULE_VISIBILITY_PUBLIC"
    by (cases "um_Visibility req") (auto simp: module_Update_row_def)
  with f i(2) show ?thesis
    by (simp add: module_GetModuleByOwnerAndName_def query_row_def scanSQLiteModule_def)
qed

lemma module_Update_opened:
  assumes "distinct (map md_id t)" and "opened t (module_Update now us req t)"
  shows "made_public t (module_Update now us req t)
    \<or> (\<exists>v. um_Visibility req = Some v \<and> v \<noteq> MODULE_VISIBILITY_PUBLIC \<and> v \<noteq> MODULE_VISIBILITY_PRIVATE)"
proof -
  from assms(2) obtain i where i: "i < length t" "md_visibility (t ! i) = MODULE_VISIBILITY_PRIVATE"
    "md_visibility (module_Update now us req t ! i) \<noteq> MODULE_VISIBILITY_PRIVATE" by (auto simp: opened_def)
  with module_Update_rows [OF assms(1) i(1), of now us req]
  have "module_Update now us req t ! i = module_Update_row now req (t ! i)" by (auto split: if_splits)
  with i obtain v where "um_Visibility req = Some v" "md_visibility (module_Update now us req t ! i) = v"
    by (cases "um_Visibility req") (auto simp: module_Update_row_def)
  with i show ?thesis by (cases "v = MODULE_VISIBILITY_PUBLIC") (auto simp: made_public_def MODULE_VISIBILITY_PUBLIC_def MODULE_VISIBILITY_PRIVATE_def)
qed

abbreviation module_rows :: "world \<Rightarrow> module_row list" where
  "module_rows w \<equiv> module_table (registry (dbs w))"

text \<open>C14. \<open>UpdateModule\<close> changes at most the row of the named module, only in the fields the request
  sets, and only for a caller whose role and token allow \<open>module:update\<close> on it.  A module that was not
  \<open>PUBLIC\<close> becomes \<open>PUBLIC\<close> only if the caller may also \<open>module:publish\<close> it.  A private module is opened to
  every reader only if the caller may publish it, or by a request whose visibility is neither \<open>PUBLIC\<close>
  nor \<open>PRIVATE\<close>: the code asks for the publish permission for the value \<open>PUBLIC\<close> alone, and
  \<open>unspecified_visibility_opens\<close> shows that \<open>UNSPECIFIED\<close> gets past it.  The repositories and every other
  table stay as they were.\<close>

theorem update_module_authorized:
  assumes "cache_coherent w" and "visits (ord_entries env)" and "distinct (map md_id (module_rows w))"
    and "run (UpdateModule env ctx req) w = (res, w')"
  shows "repos w' = repos w \<and> dbs w' = reg (\<lambda>rg. rg\<lparr>module_table := module_rows w'\<rparr>) (dbs w)
    \<and> (module_rows w' \<noteq> module_rows w \<longrightarrow> (\<exists>user. ctx_user ctx = Some user
         \<and> may_act env w ctx (module_policy user ActionUpdate (um_Owner req @ ''/'' @ um_Name req))
         \<and> changed_only (um_Owner req @ ''/'' @ um_Name req) (module_Update_row (clock w) req) (module_rows w) (module_rows w')
         \<and> (made_public (module_rows w) (module_rows w') \<longrightarrow>
              may_act env w ctx (module_policy user ActionPublish (um_Owner req @ ''/'' @ um_Name req)))
         \<and> (opened (module_rows w) (module_rows w') \<longrightarrow>
              may_act env w ctx (module_policy user ActionPublish (um_Owner req @ ''/'' @ um_Name req))
              \<or> (\<exists>v. um_Visibility req = Some v \<and> v \<noteq> MODULE_VISIBILITY_PUBLIC \<and> v \<noteq> MODULE_VISIBILITY_PRIVATE))))"
    (is "?ok w'")
proof -
  note priv = module_Update_private [OF assms(3), of "clock w" "users (dbs w)" req]
  define ok where "ok v \<longleftrightarrow> ?ok v" for v
  have st: "steady w w" using assms(1) by (rule steady_refl)
  have same: "ok v" if "steady w v" for v using that by (auto simp: ok_def steady_def same_state_def reg_def)
  have wr: "wp (module_Update_call req) (\<lambda>r. ok) v"
    if v: "steady w v" and user: "ctx_user ctx = Some user"
      and upd: "may_act env w ctx (module_policy user ActionUpdate (um_Owner req @ ''/'' @ um_Name req))"
      and pub: "made_public (module_rows w) (module_Update (clock w) (users (dbs w)) req (module_rows w)) \<Longrightarrow>
         may_act env w ctx (module_policy user ActionPublish (um_Owner req @ ''/'' @ um_Name req))" for v user
  proof -
    have opn: "may_act env w ctx (module_policy user ActionPublish (um_Owner req @ ''/'' @ um_Name req))
         \<or> (\<exists>v. um_Visibility req = Some v \<and> v \<noteq> MODULE_VISIBILITY_PUBLIC \<and> v \<noteq> MODULE_VISIBILITY_PRIVATE)"
      if "opened (module_rows w) (module_Update (clock w) (users (dbs w)) req (module_rows w))"
      using module_Update_opened [OF assms(3) that] pub by blast
    show ?thesis
      unfolding module_Update_call_def
      by (intro wp_first wp_after)
        (use v user upd pub opn module_Update_changed [OF assms(3)] in \<open>auto simp: ok_def steady_def same_state_def after_def reg_def\<close>)
  qed
  have "wp (UpdateModule env ctx req) (\<lambda>r. ok) w"
    unfolding UpdateModule_def Let_def
    apply (intro wp_first wp_intros Can_steady [where ?w0.0 = w, OF _ assms(2)] wp_conseq [OF wr])
    apply (auto intro: steady_faults st same)
    apply (auto simp: steady_def same_state_def dest!: priv)
    done
  from wp_run [OF this assms(4)] show ?thesis unfolding ok_def .
qed

text \<open>The gap in that check: without failing calls, whoever may update a module can set its visibility to
  \<open>UNSPECIFIED\<close>, and then everyone may read it.\<close>

lemma unspecified_visibility_opens:
  assumes "cache_coherent w" and "visits (ord_entries env)" and "faults w = []" and "ctx_user ctx = Some user"
    and "may_act env w ctx (module_policy user ActionUpdate (um_Owner req @ ''/'' @ um_Name req))"
    and "um_Visibility req = Some MODULE_VISIBILITY_UNSPECIFIED"
    and "module_GetModuleByOwnerAndName (users (dbs w)) (um_Owner req) (um_Name req) (module_rows w) = Inr m"
  shows "\<exists>m' w'. run (UpdateModule env ctx req) w = (Inr m', w') \<and> Mod_Visibility m' = MODULE_VISIBILITY_UNSPECIFIED
    \<and> may_read env w' Background None (mref m')"
proof -
  let ?p = "\<lambda>r. owned_by (users (dbs w)) (um_Owner req) r \<and> md_name r = um_Owner req @ ''/'' @ um_Name req"
  obtain r where r: "find ?p (module_rows w) = Some r"
    using assms(7) by (auto simp: module_GetModuleByOwnerAndName_def query_row_def split: option.splits sum.splits)
  have keep: "?p (module_Update_row now req x) = ?p x" for now x by (simp add: module_Update_row_def owned_by_def)
  have "find ?p (update_where (\<lambda>x. md_id x = md_id r) (module_Update_row now req) t) = Some (module_Update_row now req r)"
    if "find ?p t = Some r" for now t
    using that keep by (induction t) (auto simp: update_where_def split: if_splits)
  then have updated: "module_Updated (users (dbs w)) req (module_Update now (users (dbs w)) req (module_rows w))
      = Inr (scanSQLiteModule (module_Update_row now req r))" for now
    using r by (simp add: module_Updated_def module_Update_def query_row_def Let_def)
  have open_row: "Mod_Visibility (scanSQLiteModule (module_Update_row now req r)) = MODULE_VISIBILITY_UNSPECIFIED" for now
    using assms(6) by (simp add: module_Update_row_def scanSQLiteModule_def)
  have read: "may_read env w' Background None (mref m')" if "Mod_Visibility m' = MODULE_VISIBILITY_UNSPECIFIED" for w' m'
    using that by (simp add: may_read_def mref_def scopes_Allow_def scopesFromContext_def Background_def UnrestrictedScopes_def
        MODULE_VISIBILITY_UNSPECIFIED_def MODULE_VISIBILITY_PRIVATE_def)
  have call: "wp (module_Update_call req) (\<lambda>x w'. \<exists>m'. x = Inr m' \<and> Mod_Visibility m' = MODULE_VISIBILITY_UNSPECIFIED) v"
    if "steady w v" "faults v = []" for v
    unfolding module_Update_call_def
    by (intro wp_first wp_after) (use that updated open_row in \<open>auto simp: steady_def same_state_def after_def reg_def\<close>)
  have upd: "may_act env w ctx (module_policy user ActionUpdate (um_Owner req @ CHR ''/'' # um_Name req))" using assms(5) by simp
  have "wp (UpdateModule env ctx req) (\<lambda>x w'. \<exists>m'. x = Inr m' \<and> Mod_Visibility m' = MODULE_VISIBILITY_UNSPECIFIED) w"
    unfolding UpdateModule_def Let_def
    apply (simp add: assms(4,6) MODULE_VISIBILITY_UNSPECIFIED_def MODULE_VISIBILITY_PUBLIC_def)
    apply (intro wp_bind Can_steady [OF steady_refl [OF assms(1)] assms(2)])
     apply (simp add: assms(3))
    apply (simp add: assms(3) upd)
    apply (intro wp_bind)
    apply (rule wp_conseq [OF call])
      apply assumption+
    apply (auto intro: wp_intros simp: MODULE_VISIBILITY_UNSPECIFIED_def)
    done
  then obtain x w' where "run (UpdateModule env ctx req) w = (x, w')" "\<exists>m'. x = Inr m' \<and> Mod_Visibility m' = MODULE_VISIBILITY_UNSPECIFIED"
    by (rule wp_obtain)
  then show ?thesis using read by auto
qed

section \<open>Creating\<close>

abbreviation commit_rows :: "world \<Rightarrow> commit_row list" where
  "commit_rows w \<equiv> commit_table (registry (dbs w))"

text \<open>Only the operation log may differ.\<close>

definition log_only :: "db \<Rightarrow> db \<Rightarrow> bool" where
  "log_only d d' \<longleftrightarrow> (\<exists>t. d' = reg (\<lambda>rg. rg\<lparr>oplog_table := t\<rparr>) d)"

lemma log_only_refl [simp]: "log_only d d"
  by (auto simp: log_only_def reg_def intro: exI [of _ "oplog_table (registry d)"])

lemma log_only_trans: "log_only d d' \<Longrightarrow> log_only d' d'' \<Longrightarrow> log_only d d''"
  by (auto simp: log_only_def reg_def)

lemma oplog_begin_after [wp_after]:
  assumes "\<And>i d w'. log_only (dbs w) d \<Longrightarrow> after w d w' \<Longrightarrow> Q i w'"
  shows "wp (oplog_begin env renv op mn ui) Q w"
proof -
  have same: "Q i w'" if "after w (dbs w) w'" for i w' using assms [OF log_only_refl that] .
  have lg: "Q i w'" if "after w (reg (\<lambda>_. (registry (dbs w))\<lparr>oplog_table := t\<rparr>) (dbs w)) w'" for i t w'
    by (rule assms [OF _ that]) (auto simp: log_only_def reg_def)
  show ?thesis
    unfolding oplog_begin_def oplog_CreatePending_def
    by (intro wp_first wp_after) (use same lg after_simps in \<open>auto split: prod.splits\<close>)
qed

lemma oplog_end_after [wp_after]:
  assumes "\<And>d w'. log_only (dbs w) d \<Longrightarrow> after w d w' \<Longrightarrow> Q () w'"
  shows "wp (oplog_end i st ch er) Q w"
proof -
  have same: "Q () w'" if "after w (dbs w) w'" for w' using assms [OF log_only_refl that] .
  have lg: "Q () w'" if "after w (reg (\<lambda>rg. rg\<lparr>oplog_table := f (oplog_table rg)\<rparr>) (dbs w)) w'" for f w'
    by (rule assms [OF _ that]) (auto simp: log_only_def reg_def)
  show ?thesis
    unfolding oplog_end_def oplog_UpdateStatus_call_def
    by (intro wp_first wp_after) (use same lg after_simps in auto)
qed

text \<open>The rows a successful transaction adds.\<close>

definition new_rows :: "User \<Rightarrow> new_module \<Rightarrow> string \<Rightarrow> module_row \<Rightarrow> commit_row \<Rightarrow> db \<Rightarrow> db \<Rightarrow> bool" where
  "new_rows user nm h row crow d d' \<longleftrightarrow> nm_name nm \<notin> md_name ` set (module_table (registry d))
     \<and> md_name row = nm_name nm \<and> md_owner_id row = ID (nm_ownerId nm) \<and> md_visibility row = nm_visibility nm
     \<and> md_default_branch row = nm_defaultBranch nm
     \<and> cm_commit_hash crow = h \<and> cm_module_id crow = ID (Canonical (md_id row)) \<and> cm_owner_id crow = ID (Id user)
     \<and> (\<exists>rs ls. d' = reg (\<lambda>rg. rg\<lparr>module_table := module_table rg @ [row], commit_table := commit_table rg @ [crow],
          resource_table := rs, oplog_table := ls\<rparr>) d)"

lemma new_rows_logged: "log_only d d0 \<Longrightarrow> new_rows user nm h row crow d0 d1 \<Longrightarrow> log_only d1 d2 \<Longrightarrow> new_rows user nm h row crow d d2"
  by (clarsimp simp: new_rows_def log_only_def reg_def) blast

lemma module_Insert_cases:
  "module_Insert i now n oi v st de url dl db lp br t = (r, t') \<Longrightarrow>
   (\<exists>e. r = Inl e \<and> t' = t) \<or> (\<exists>row. r = Inr () \<and> n \<notin> md_name ` set t \<and> t' = t @ [row] \<and> md_name row = n \<and> md_owner_id row = ID oi
      \<and> md_visibility row = v \<and> md_default_branch row = db)"
  by (auto simp: module_Insert_def split: if_splits)

lemma commit_Insert_cases:
  "commit_Insert now i h oi mi dt dv cb su t = (r, t') \<Longrightarrow>
   (\<exists>e. r = Inl e \<and> t' = t) \<or> (\<exists>row. r = Inr () \<and> t' = t @ [row] \<and> cm_commit_hash row = h \<and> cm_module_id row = ID mi
      \<and> cm_owner_id row = ID oi \<and> cm_digest_value row = Some dv \<and> cm_id row = UUID i)"
  by (auto simp: commit_Insert_def split: if_splits)

lemma module_Create_after [wp_after]:
  assumes "\<And>e w'. repos w' = repos w \<Longrightarrow> clock w' = clock w \<Longrightarrow> (faults w = [] \<longrightarrow> faults w' = []) \<Longrightarrow> Q (Inl e) w'"
    and "\<And>row rs w'. nm_name nm \<notin> md_name ` set (module_rows w) \<Longrightarrow> md_name row = nm_name nm \<Longrightarrow> md_owner_id row = ID (nm_ownerId nm) \<Longrightarrow>
      md_visibility row = nm_visibility nm \<Longrightarrow> md_default_branch row = nm_defaultBranch nm \<Longrightarrow>
      after w (reg (\<lambda>rg. rg\<lparr>module_table := module_table rg @ [row], resource_table := rs\<rparr>) (dbs w)) w' \<Longrightarrow> Q (Inr (scanSQLiteModule row)) w'"
  shows "wp (module_Create env nm) Q w"
proof -
  have found: "module_GetByName n (t @ [row]) = Inr (scanSQLiteModule row)" if "n \<notin> md_name ` set t" "md_name row = n" for n t row
  proof -
    have "find (\<lambda>r. md_name r = n) t = None" using that(1) by (auto simp: find_None_iff)
    then show ?thesis using that(2) by (simp add: module_GetByName_def query_row_def find_append)
  qed
  have yes: "Q (Inr (scanSQLiteModule row)) w'" if "nm_name nm \<notin> md_name ` set (module_rows w)" "md_name row = nm_name nm" "md_owner_id row = ID (nm_ownerId nm)"
      "md_visibility row = nm_visibility nm" "md_default_branch row = nm_defaultBranch nm"
      "dbs w' = (dbs w)\<lparr>registry := (registry (dbs w))\<lparr>module_table := module_rows w @ [row], resource_table := rs\<rparr>\<rparr>"
      "repos w' = repos w" "clock w' = clock w" "faults w = [] \<longrightarrow> faults w' = []" for row rs w'
    using assms(2) [of row rs w'] that by (simp add: after_def reg_def)
  show ?thesis
    unfolding module_Create_def resource_Register_call_def
    by (intro wp_first wp_after; (simp add: after_def split: prod.splits)?)
      (auto simp: found reg_def intro: assms(1) yes dest!: module_Insert_cases)
qed

lemma commit_Create_after [wp_after]:
  assumes "\<And>e w'. repos w' = repos w \<Longrightarrow> clock w' = clock w \<Longrightarrow> (faults w = [] \<longrightarrow> faults w' = []) \<Longrightarrow> Q (Inl e) w'"
    and "\<And>row rs w'. cm_commit_hash row = nc_commitHash c \<Longrightarrow> cm_module_id row = ID (nc_moduleId c) \<Longrightarrow> cm_owner_id row = ID (nc_ownerId c) \<Longrightarrow>
      cm_digest_value row = Some (nc_digestValue c) \<Longrightarrow> cm_id row = UUID (nc_id c) \<Longrightarrow>
      after w (reg (\<lambda>rg. rg\<lparr>commit_table := commit_table rg @ [row], resource_table := rs\<rparr>) (dbs w)) w' \<Longrightarrow> Q (Inr ()) w'"
  shows "wp (commit_Create c) Q w"
proof -
  have yes: "Q (Inr ()) w'" if "cm_commit_hash row = nc_commitHash c" "cm_module_id row = ID (nc_moduleId c)" "cm_owner_id row = ID (nc_ownerId c)"
      "cm_digest_value row = Some (nc_digestValue c)" "cm_id row = UUID (nc_id c)"
      "dbs w' = (dbs w)\<lparr>registry := (registry (dbs w))\<lparr>commit_table := commit_rows w @ [row], resource_table := rs\<rparr>\<rparr>"
      "repos w' = repos w" "clock w' = clock w" "faults w = [] \<longrightarrow> faults w' = []" for row rs w'
    using assms(2) [of row rs w'] that by (simp add: after_def reg_def)
  show ?thesis
    unfolding commit_Create_def resource_Register_call_def
    by (intro wp_first wp_after; (simp add: after_def split: prod.splits)?)
      (auto simp: reg_def intro: assms(1) yes dest!: commit_Insert_cases)
qed

lemma scan_module_simps [simp]: "Mod_Id (scanSQLiteModule r) = Canonical (md_id r)" "Mod_Name (scanSQLiteModule r) = md_name r"
  "Mod_Visibility (scanSQLiteModule r) = md_visibility r" "Mod_DefaultBranch (scanSQLiteModule r) = md_default_branch r"
  by (simp_all add: scanSQLiteModule_def)

lemma create_tx_after [wp_after]:
  assumes err: "\<And>e w'. after w (dbs w) w' \<Longrightarrow> Q (Inl e) w'"
    and yes: "\<And>row crow d w'. new_rows user nm h row crow (dbs w) d \<Longrightarrow> after w d w' \<Longrightarrow> Q (Inr (scanSQLiteModule row)) w'"
  shows "wp (create_tx env user nm h) Q w"
proof -
  have err': "Q (Inl e) w'" if "dbs w' = dbs w" "repos w' = repos w" "clock w' = clock w" "faults w = [] \<longrightarrow> faults w' = []" for e w'
    using err [of w' e] that by (simp add: after_def)
  have yes': "Q (Inr (scanSQLiteModule row)) w'" if
      "dbs w' = (dbs w)\<lparr>registry := (registry (dbs w))\<lparr>module_table := module_rows w @ [row], commit_table := commit_rows w @ [crow],
         resource_table := rs\<rparr>\<rparr>"
      "nm_name nm \<notin> md_name ` set (module_rows w)" "md_name row = nm_name nm" "md_owner_id row = ID (nm_ownerId nm)"
      "md_visibility row = nm_visibility nm" "md_default_branch row = nm_defaultBranch nm"
      "cm_commit_hash crow = h" "cm_module_id crow = ID (Canonical (md_id row))" "cm_owner_id crow = ID (Id user)"
      "repos w' = repos w" "clock w' = clock w" "faults w = [] \<longrightarrow> faults w' = []" for row crow rs w'
  proof (rule yes [of row crow "dbs w'"])
    have "dbs w' = reg (\<lambda>rg. rg\<lparr>module_table := module_table rg @ [row], commit_table := commit_table rg @ [crow],
          resource_table := rs, oplog_table := oplog_table (registry (dbs w))\<rparr>) (dbs w)"
      using that(1) by (simp add: reg_def)
    then show "new_rows user nm h row crow (dbs w) (dbs w')" using that unfolding new_rows_def by blast
  qed (use that in \<open>simp add: after_def\<close>)
  show ?thesis
    unfolding create_tx_def
    by (intro wp_first wp_after; (simp add: after_def split: prod.splits)?)
      (auto simp: reg_def intro: err' yes')
qed

text \<open>The outcome of the saga.\<close>

definition create_failed :: "string \<Rightarrow> world \<Rightarrow> world \<Rightarrow> bool" where
  "create_failed name w w' \<longleftrightarrow> log_only (dbs w) (dbs w') \<and> (\<forall>p. \<not> below_path name p \<longrightarrow> repos w' p = repos w p)
     \<and> (faults w = [] \<and> repos w name = None \<longrightarrow> repos w' name = None)"

definition created :: "env \<Rightarrow> renv \<Rightarrow> User \<Rightarrow> new_module \<Rightarrow> world \<Rightarrow> Module \<Rightarrow> world \<Rightarrow> bool" where
  "created env renv user nm w md w' \<longleftrightarrow> (\<exists>row crow h r r'. md = scanSQLiteModule row \<and> new_rows user nm h row crow (dbs w) (dbs w')
     \<and> r = (case repos w (nm_name nm) of None \<Rightarrow> new_repo (nm_defaultBranch nm) | Some r \<Rightarrow> r)
     \<and> repos w' = (repos w)(nm_name nm \<mapsto> r') \<and> branches r (nm_defaultBranch nm) = None
     \<and> (no_clash renv r \<longrightarrow> put_done (initial_put env user nm) r h r'))"

lemma below_self [simp]: "below_path p p"
  by (simp add: below_path_def)

lemma new_repo_simps [simp]: "branches (new_repo b) = Map.empty" "objects (new_repo b) = Map.empty" "head_readable (new_repo b) c"
  by (simp_all add: new_repo_def head_readable_def)

lemma initial_put_simps [simp]: "pf_RepoPath (initial_put env user nm) = nm_name nm" "pf_Branch (initial_put env user nm) = nm_defaultBranch nm"
  "pf_ExpectedHead (initial_put env user nm) = []"
  by (simp_all add: initial_put_def)

lemma no_branch_expected: "checkExpectedHead [] h = Inr () \<longleftrightarrow> h = None"
  by (auto simp: checkExpectedHead_def split: option.splits)

lemma read_head_new: "read_head (initial_put env user nm) (new_repo b) = Inr (None, [])"
  using no_branch_expected [of None] by (simp add: read_head_def)

lemma create_saga_after:
  assumes "\<And>e w'. create_failed (nm_name nm) w w' \<Longrightarrow> Q (Inl e) w'"
    and "\<And>md w'. created env renv user nm w md w' \<Longrightarrow> Q (Inr md) w'"
  shows "wp (create_saga env renv user nm) Q w"
proof -
  note defs = after_def reach_def openRepo_Inr
  have deleted: "Q (Inl e) w'" if "repos w' = remove_path (nm_name nm) g" "log_only (dbs w) (dbs w')"
    "\<forall>p. p \<noteq> nm_name nm \<longrightarrow> g p = repos w p" for e g w'
    by (rule assms(1)) (use that in \<open>auto simp: create_failed_def remove_path_def below_path_def\<close>)
  have kept: "Q (Inl e) w'" if "log_only (dbs w) (dbs w')" "\<forall>p. p \<noteq> nm_name nm \<longrightarrow> repos w' p = repos w p"
    "faults w = [] \<and> repos w (nm_name nm) = None \<longrightarrow> repos w' (nm_name nm) = None" for e w'
    by (rule assms(1)) (use that in \<open>auto simp: create_failed_def below_path_def\<close>)
  have good: "Q (Inr (scanSQLiteModule row)) w'" if "new_rows user nm h row crow d0 d1" "log_only (dbs w) d0" "log_only d1 (dbs w')"
    "r = (case repos w (nm_name nm) of None \<Rightarrow> new_repo (nm_defaultBranch nm) | Some r \<Rightarrow> r)"
    "repos w' = (repos w)(nm_name nm \<mapsto> written renv (initial_put env user nm) now parent fs r h)"
    "read_head (initial_put env user nm) r = Inr (parent, fs)"
    "h = commit_sum renv (new_commit (initial_put env user nm) now parent (new_files (initial_put env user nm) fs))"
    for row crow h d0 d1 r now parent fs w'
    by (rule assms(2)) (use that written_done [OF that(6) _ that(7)] read_head_checked [OF that(6)] new_rows_logged [OF that(2,1,3)] no_branch_expected
      in \<open>auto simp: created_def\<close>)
  show ?thesis
    unfolding create_saga_def Let_def
    by (intro wp_first wp_after; (simp add: defs split: prod.splits)?)
      (((elim conjE)?; (erule deleted | rule kept | erule good); auto simp: read_head_new openRepo_def intro: log_only_trans)+)
qed

lemma created_from: "created env renv user nm v md w' \<Longrightarrow> dbs v = dbs w \<Longrightarrow> repos v = repos w \<Longrightarrow> created env renv user nm w md w'"
  by (simp add: created_def)

lemma create_failed_from:
  "create_failed name v w' \<Longrightarrow> dbs v = dbs w \<Longrightarrow> repos v = repos w \<Longrightarrow> (faults w = [] \<longrightarrow> faults v = []) \<Longrightarrow> create_failed name w w'"
  by (simp add: create_failed_def)

lemma create_failed_same: "dbs w' = dbs w \<Longrightarrow> repos w' = repos w \<Longrightarrow> create_failed name w w'"
  by (simp add: create_failed_def)

text \<open>The module a request asks for.\<close>

definition requested_owner :: "User \<Rightarrow> CreateModuleRequest \<Rightarrow> string" where
  "requested_owner user msg = (let o0 = ToLower (TrimSpace (cr_Owner msg)) in if o0 = [] then Username user else o0)"

definition requested_name :: "User \<Rightarrow> CreateModuleRequest \<Rightarrow> string" where
  "requested_name user msg = requested_owner user msg @ ''/'' @ ToLower (TrimSpace (cr_Name msg))"

definition asks_for :: "User \<Rightarrow> CreateModuleRequest \<Rightarrow> db \<Rightarrow> new_module \<Rightarrow> bool" where
  "asks_for user msg d nm \<longleftrightarrow> nm_name nm = requested_name user msg \<and> nm_visibility nm = cr_Visibility msg
     \<and> nm_defaultBranch nm = (if cr_DefaultBranch msg = [] then ''main'' else cr_DefaultBranch msg)
     \<and> (if requested_owner user msg = Username user then nm_ownerId nm = Id user
        else \<exists>org. org_GetByName (requested_owner user msg) (users d) = Inr org \<and> nm_ownerId nm = Id org)"

lemma create_authorized_after:
  assumes v: "steady w v" "faults w = [] \<longrightarrow> faults v = []" and ord: "visits (ord_entries env)"
    and name: "requested_name user msg = ownerName @ ''/'' @ name"
    and asks: "\<And>nm. nm_name nm = requested_name user msg \<Longrightarrow> nm_visibility nm = cr_Visibility msg \<Longrightarrow>
      nm_defaultBranch nm = (if cr_DefaultBranch msg = [] then ''main'' else cr_DefaultBranch msg) \<Longrightarrow> nm_ownerId nm = ownerID \<Longrightarrow>
      asks_for user msg (dbs w) nm"
    and err: "\<And>e w'. create_failed (requested_name user msg) w w' \<Longrightarrow> Q (Inl e) w'"
    and yes: "\<And>nm md w'. may_act env w ctx (module_policy user CREATE (requested_name user msg)) \<Longrightarrow>
      asks_for user msg (dbs w) nm \<Longrightarrow> created env renv user nm w md w' \<Longrightarrow> Q (Inr md) w'"
  shows "wp (create_authorized env renv ctx user msg name ownerName ownerID) Q v"
proof -
  note same = steady_def same_state_def after_def
  have err': "Q (Inl e) w'" if "dbs w' = dbs w" "repos w' = repos w" for e w'
    using that by (intro err create_failed_same)
  have late: "Q (Inl e) w'" if "create_failed (requested_name user msg) v' w'" "dbs v' = dbs w" "repos v' = repos w"
      "faults w = [] \<longrightarrow> faults v' = []" for e v' w'
    by (rule err [OF create_failed_from [OF that]])
  have yes': "Q (Inr md) w'" if "created env renv user nm v' md w'" "dbs v' = dbs w" "repos v' = repos w"
      "may_act env w ctx (module_policy user CREATE (requested_name user msg))" "asks_for user msg (dbs w) nm" for nm v' md w'
    by (rule yes [OF that(4,5) created_from [OF that(1-3)]])
  show ?thesis
    unfolding create_authorized_def Let_def name [symmetric]
    by (intro wp_first wp_after Can_steady [OF v(1) ord] create_saga_after; (simp only: new_module.simps)?;
        (erule late | erule yes' | rule err'); use v asks in \<open>auto simp: same\<close>)
qed

text \<open>C15. \<open>CreateModuleByName\<close> creates the rows of a module as a whole or not at all.  It answers with a module only
  to a signed-in caller whose role and token allow \<open>module:create\<close> in the namespace, which is the
  caller's own or an existing organisation's; then exactly the row of that module (its name was free)
  and of its first commit have been added, and the default branch, which did not exist, points at a
  commit with just \<open>README.md\<close> and \<open>buf.yaml\<close>, whose hash the commit row records.  On an error no table but
  the operation log has changed and no repository outside the module's own path; and if nothing failed
  in the environment and there was no repository at that path, there is none afterwards.  Nothing is said
  of the repository at the module's path in the other cases: after a failing call it may stay behind, and
  one that was there before may have been removed or written to.\<close>

theorem create_module_all_or_nothing:
  assumes "cache_coherent w" and "visits (ord_entries env)" and "run (CreateModuleByName env renv ctx msg) w = (res, w')"
  shows "case res of
     Inl e \<Rightarrow> dbs w' = dbs w \<and> repos w' = repos w
        \<or> (\<exists>user. ctx_user ctx = Some user \<and> create_failed (requested_name user msg) w w')
   | Inr md \<Rightarrow> \<exists>user nm. ctx_user ctx = Some user \<and> ValidateName (ToLower (TrimSpace (cr_Name msg))) = None
        \<and> may_act env w ctx (module_policy user CREATE (requested_name user msg))
        \<and> asks_for user msg (dbs w) nm \<and> created env renv user nm w md w'"
proof (cases "ValidateName (ToLower (TrimSpace (cr_Name msg)))")
  case (Some e)
  with assms(3) show ?thesis by (auto simp: CreateModuleByName_def)
next
  case None
  show ?thesis
  proof (cases "ctx_user ctx")
    case None
    with assms(3) \<open>ValidateName _ = None\<close> show ?thesis by (auto simp: CreateModuleByName_def)
  next
    case (Some user)
    let ?Q = "\<lambda>res w'. case res of Inl e \<Rightarrow> create_failed (requested_name user msg) w w'
      | Inr md \<Rightarrow> \<exists>nm. may_act env w ctx (module_policy user CREATE (requested_name user msg))
        \<and> asks_for user msg (dbs w) nm \<and> created env renv user nm w md w'"
    have "wp (CreateModuleByName env renv ctx msg) ?Q w"
      unfolding CreateModuleByName_def Let_def None Some option.case
      by (intro wp_first wp_intros create_authorized_after [where w = w, OF _ _ assms(2)];
          (intro steady_faults steady_refl assms(1))?;
          auto simp: requested_name_def requested_owner_def Let_def asks_for_def intro: create_failed_same)
    from wp_run [OF this assms(3)] None Some show ?thesis by (auto split: sum.splits)
  qed
qed

section \<open>A registry with one module\<close>

definition demo_module :: module_row where
  "demo_module = \<lparr>md_id = demo_hex 4, md_create_time = 0, md_update_time = 0, md_name = ''alice/m'', md_owner_id = demo_hex 1,
     md_visibility = MODULE_VISIBILITY_PRIVATE, md_state = MODULE_STATE_ACTIVE, md_description = [], md_url = [],
     md_default_label_name = [], md_default_branch = ''main'', md_lint_preset = 1, md_breaking_enabled = False\<rparr>"

definition module_world :: world where
  "module_world = demo_world\<lparr>dbs := (dbs demo_world)\<lparr>registry := empty_registry\<lparr>module_table := [demo_module]\<rparr>\<rparr>,
     repos := [''alice/m'' \<mapsto> demo_repo]\<rparr>"

definition as_user :: "string \<Rightarrow> reqctx" where
  "as_user name = Background\<lparr>ctx_user := Some ((scanSQLiteUser demo_user)\<lparr>Username := name\<rparr>)\<rparr>"

lemma module_world_simps [simp]:
  "users (dbs module_world) = [demo_user]" "module_rows module_world = [demo_module]" "repos module_world = [''alice/m'' \<mapsto> demo_repo]"
  "faults module_world = []" "role_bindings (dbs module_world) = role_bindings (dbs granted_world)"
  by (simp_all add: module_world_def)

lemma module_coherent: "cache_coherent module_world"
  using demo_coherent by (simp add: coherent_def' current_bindings_def module_world_def)

lemma as_user_simps [simp]: "ctx_user (as_user n) = Some ((scanSQLiteUser demo_user)\<lparr>Username := n\<rparr>)" "scopesFromContext (as_user n) = UnrestrictedScopes"
  "scopesFromContext Background = UnrestrictedScopes" "ctx_user Background = None"
  by (simp_all add: as_user_def Background_def scopesFromContext_def)

lemma demo_decisions:
  "decision demo_env module_world \<lparr>Subject = ''alice'', Domain = ''alice/m'', ResourceType = ''module'', Action = ''read'', Visibility = ''private''\<rparr>"
  "\<not> decision demo_env module_world \<lparr>Subject = ''bob'', Domain = d, ResourceType = ''module'', Action = a, Visibility = ''private''\<rparr>"
proof -
  have "domain_matches ''alice/*'' ''alice/m''" by code_simp
  then show "decision demo_env module_world \<lparr>Subject = ''alice'', Domain = ''alice/m'', ResourceType = ''module'', Action = ''read'', Visibility = ''private''\<rparr>"
    by (simp add: decision_def policy_allow_def binding_clause_def current_bindings_def opa_bindings_def
        binding_ListBySubject_def granted_run(4) role_permissions_def owner_actions_def)
  show "\<not> decision demo_env module_world \<lparr>Subject = ''bob'', Domain = d, ResourceType = ''module'', Action = a, Visibility = ''private''\<rparr>"
    by (simp add: decision_def policy_allow_def superadmin_clause_def public_clause_def binding_clause_def
        current_bindings_def opa_bindings_def binding_ListBySubject_def granted_run(4) seed_admins_def)
qed

theorem module_reads_authorized_witness:
  "fst (run (GetModule demo_env (as_user ''alice'') ''alice'' ''m'') module_world) = Inr (scanSQLiteModule demo_module)
   \<and> fst (run (GetModule demo_env (as_user ''bob'') ''alice'' ''m'') module_world) = Inl (NotFound ''module not found'')
   \<and> fst (run (GetModule demo_env Background ''alice'' ''m'') module_world) = Inl (NotFound ''module not found'')"
proof -
  have row: "module_GetModuleByOwnerAndName [demo_user] ''alice'' ''m'' [demo_module] = Inr (scanSQLiteModule demo_module)" by code_simp
  have rd: "readable_by demo_env module_world (as_user ''alice'') [scanSQLiteModule demo_module]"
    "\<not> readable_by demo_env module_world (as_user ''bob'') [scanSQLiteModule demo_module]"
    "\<not> readable_by demo_env module_world Background [scanSQLiteModule demo_module]"
    using demo_decisions
    by (simp_all add: scopes_Allow_def UnrestrictedScopes_def readable_by_def may_read_def mref_def demo_module_def ResourceModule_def ActionRead_def VisibilityPrivate_def)
  show ?thesis
    using module_reads_authorized [OF module_coherent demo_visits(1), of "as_user ''alice''" "[]" "''alice''" "''m''" 0 "[]"]
      module_reads_authorized [OF module_coherent demo_visits(1), of "as_user ''bob''" "[]" "''alice''" "''m''" 0 "[]"]
      module_reads_authorized [OF module_coherent demo_visits(1), of Background "[]" "''alice''" "''m''" 0 "[]"]
    by (simp add: found_module_def row rd)
qed

theorem update_module_authorized_witness:
  "module_rows (snd (run (UpdateModule demo_env (as_user ''bob'') \<lparr>um_Owner = ''alice'', um_Name = ''m'', um_Description = None,
     um_Visibility = Some MODULE_VISIBILITY_PUBLIC, um_LintPreset = None, um_BreakingEnabled = None\<rparr>) module_world)) = [demo_module]"
  (is "module_rows (snd (run ?call _)) = _")
proof -
  obtain res w' where r: "run ?call module_world = (res, w')" by fastforce
  have "\<not> may_act demo_env module_world (as_user ''bob'') (module_policy u ActionUpdate d)" if "ctx_user (as_user ''bob'') = Some u" for u d
    using demo_decisions(2) that by (auto simp: may_act_def module_policy_def ResourceModule_def VisibilityPrivate_def)
  with update_module_authorized [OF module_coherent demo_visits(1) _ r] show ?thesis using r by auto
qed

theorem create_module_all_or_nothing_witness:
  "\<exists>e w'. run (CreateModuleByName demo_env demo_renv (as_user ''bob'') \<lparr>cr_Name = ''x'', cr_Owner = [], cr_Visibility = 1, cr_Description = [],
     cr_DefaultBranch = [], cr_LintPreset = 0, cr_BreakingEnabled = False\<rparr>) module_world = (Inl e, w')
     \<and> module_rows w' = [demo_module] \<and> repos w' ''alice/m'' = Some demo_repo"
  (is "\<exists>e w'. run ?call _ = _ \<and> _")
proof -
  obtain res w' where r: "run ?call module_world = (res, w')" by fastforce
  have no: "\<not> may_act demo_env module_world (as_user ''bob'') (module_policy u CREATE d)" if "ctx_user (as_user ''bob'') = Some u" for u d
    using demo_decisions(2) that by (auto simp: may_act_def module_policy_def ResourceModule_def VisibilityPrivate_def)
  have "\<not> below_path (requested_name u m) ''alice/m''" if "ctx_user (as_user ''bob'') = Some u" "cr_Owner m = []" for u m
    using that by (auto simp: requested_name_def requested_owner_def below_path_def HasPrefix_def TrimSpace_def ToLower_def)
  with create_module_all_or_nothing [OF module_coherent demo_visits(1) r] no show ?thesis using r
    by (auto simp: create_failed_def log_only_def reg_def split: sum.splits)
qed

end
