(* ===== verification/Identity_Facts.thy ===== *)
theory Identity_Facts
  imports Identity_Server Module_Facts
begin

text \<open>
  Who may change the members of an organisation, and what a change does: membership rows and role
  bindings change together, only for an administrator or the leaving member, and no removal leaves an
  organisation without an administrator.
\<close>

abbreviation member_rows :: "world \<Rightarrow> member_row list" where
  "member_rows w \<equiv> member_table (registry (dbs w))"

abbreviation member_key :: "member_row \<Rightarrow> string \<times> string" where
  "member_key r \<equiv> (om_org_id r, om_member_id r)"

definition may_manage :: "env \<Rightarrow> world \<Rightarrow> reqctx \<Rightarrow> string \<Rightarrow> User \<Rightarrow> bool" where
  "may_manage env w ctx action org \<longleftrightarrow> (\<exists>caller. ctx_user ctx = Some caller \<and> may_act env w ctx (org_policy caller (Username org) action))"

definition has_admin :: "User \<Rightarrow> member_row list \<Rightarrow> bool" where
  "has_admin org t \<longleftrightarrow> (\<exists>r \<in> set t. om_org_id r = ID (Id org) \<and> om_role r = ''admin'')"

text \<open>What a change may do, said of the rows themselves and not through the store's operations.  A member
  is set to a role: every other row stays, and the member's row carries the role.  A binding is granted:
  it is appended, unless it is there already or its fresh id is taken.\<close>

definition member_set :: "User \<Rightarrow> User \<Rightarrow> string \<Rightarrow> member_row list \<Rightarrow> member_row list \<Rightarrow> bool" where
  "member_set org target role t t' \<longleftrightarrow> (let key = (ID (Id org), ID (Id target)) in
     filter (\<lambda>r. member_key r \<noteq> key) t' = filter (\<lambda>r. member_key r \<noteq> key) t
     \<and> (\<exists>r \<in> set t'. member_key r = key) \<and> (\<forall>r \<in> set t'. member_key r = key \<longrightarrow> om_role r = role))"

definition granted_to :: "string \<Rightarrow> string \<Rightarrow> string \<Rightarrow> time \<Rightarrow> binding_row list \<Rightarrow> binding_row list \<Rightarrow> bool" where
  "granted_to subject role domain now t t' \<longleftrightarrow> (\<exists>i. t' =
     (if i \<in> bd_id ` set t \<or> (\<exists>b \<in> set t. bd_subject b = subject \<and> bd_role b = role \<and> bd_domain b = domain) then t
      else t @ [\<lparr>bd_id = i, bd_subject = subject, bd_role = role, bd_domain = domain, bd_created_at = datetime now\<rparr>]))"

definition joined :: "User \<Rightarrow> User \<Rightarrow> string \<Rightarrow> time \<Rightarrow> db \<Rightarrow> db \<Rightarrow> bool" where
  "joined org target role now d d' \<longleftrightarrow>
     d' = (reg (\<lambda>rg. rg\<lparr>member_table := member_table (registry d')\<rparr>) d)\<lparr>role_bindings := role_bindings d'\<rparr>
     \<and> member_set org target role (member_table (registry d)) (member_table (registry d'))
     \<and> granted_to (Username target) (if role = ''member'' then RoleContributor else role) (Username org @ ''/*'') now
         (role_bindings d) (role_bindings d')"

definition departed :: "User \<Rightarrow> User \<Rightarrow> db \<Rightarrow> db \<Rightarrow> bool" where
  "departed org target d d' \<longleftrightarrow>
     d' = (reg (\<lambda>rg. rg\<lparr>member_table := filter (\<lambda>r. member_key r \<noteq> (ID (Id org), ID (Id target))) (member_table rg)\<rparr>) d)
        \<lparr>role_bindings := filter (\<lambda>b. (bd_subject b, bd_domain b) \<noteq> (Username target, Username org @ ''/*'')) (role_bindings d)\<rparr>"

lemma AddMember_set: "role \<noteq> [] \<Longrightarrow> member_set org target role t (org_AddMember (Id org) (Id target) role t)"
proof -
  assume "role \<noteq> []"
  moreover have "filter (\<lambda>r. member_key r \<noteq> k) (update_where (\<lambda>r. om_org_id r = fst k \<and> om_member_id r = snd k) (\<lambda>r. r\<lparr>om_role := role\<rparr>) t)
      = filter (\<lambda>r. member_key r \<noteq> k) t" for k
    by (induction t) (auto simp: update_where_def)
  from this [of "(ID (Id org), ID (Id target))"] \<open>role \<noteq> []\<close> show ?thesis
    by (auto simp: member_set_def org_AddMember_def Let_def update_where_def bex_Un)
qed

lemma binding_Create_granted: "granted_to s r d now t (binding_Create i now s r d t)"
  unfolding granted_to_def binding_Create_def by (rule exI [of _ i]) (auto simp: image_iff)

section \<open>The last administrator\<close>

lemma single_filter: "distinct (map f xs) \<Longrightarrow> length (filter (\<lambda>x. f x = k) xs) \<le> 1"
proof (induction xs)
  case (Cons x xs)
  then show ?case by (cases "f x = k") (auto simp: filter_empty_conv image_iff intro: sym)
qed simp

lemma filter_take_le: "length (filter P (take n xs)) \<le> length (filter P xs)"
proof (induction xs arbitrary: n)
  case (Cons x xs)
  then show ?case by (cases n) auto
qed simp

lemma admins_counted:
  assumes "distinct (map us_id us)" and "distinct (map member_key t)"
    and "\<And>r. r \<in> set t \<Longrightarrow> om_org_id r = ID (Id org) \<Longrightarrow> om_role r = ''admin'' \<Longrightarrow> om_member_id r = k"
  shows "length (filter (\<lambda>(u, role). role = ''admin'') (org_ListMembers (Id org) us t)) \<le> 1"
proof -
  let ?J = "\<lambda>m. map (\<lambda>u. (u, om_role m)) (filter (\<lambda>u. us_id u = om_member_id m) us)"
  let ?ms = "filter (\<lambda>m. om_org_id m = ID (Id org)) t"
  let ?adm = "filter (\<lambda>m. om_role m = ''admin'') ?ms"
  have cut: "filter (\<lambda>(u, role). role = ''admin'') (concat (map ?J ms)) = concat (map ?J (filter (\<lambda>m. om_role m = ''admin'') ms))" for ms
    by (induction ms) (auto simp: filter_map o_def)
  have "?adm = filter (\<lambda>m. member_key m = (ID (Id org), k)) (filter (\<lambda>m. om_role m = ''admin'') t)"
    using assms(3) by (auto simp: intro!: filter_cong)
  then have "length ?adm \<le> 1"
    using single_filter [of member_key "filter (\<lambda>m. om_role m = ''admin'') t" "(ID (Id org), k)"] distinct_map_filter [OF assms(2)] by simp
  then have "?adm = [] \<or> (\<exists>m. ?adm = [m])" by (cases ?adm) auto
  then have "length (concat (map ?J ?adm)) \<le> 1"
    using single_filter [OF assms(1)] by auto
  then have all: "length (filter (\<lambda>(u, role). role = ''admin'') (concat (map ?J ?ms))) \<le> 1"
    unfolding cut .
  let ?S = "sort_key (us_username \<circ> fst) (concat (map ?J ?ms))"
  have "length (filter (\<lambda>(u, role). role = ''admin'') (take 1000 ?S)) \<le> length (filter (\<lambda>(u, role). role = ''admin'') ?S)"
    by (rule filter_take_le)
  also have "\<dots> = length (filter (\<lambda>(u, role). role = ''admin'') (concat (map ?J ?ms)))"
    by (simp add: filter_sort)
  finally have s: "length (filter (\<lambda>(u, role). role = ''admin'') (take 1000 ?S)) \<le> 1" using all by simp
  have "filter (\<lambda>(u, role). role = ''admin'') (org_ListMembers (Id org) us t)
      = map (\<lambda>(u, role). (scanSQLiteUser u, role)) (filter (\<lambda>(u, role). role = ''admin'') (take 1000 ?S))"
    unfolding org_ListMembers_def filter_map by (simp add: o_def case_prod_unfold)
  with s show ?thesis by simp
qed

lemma GetMemberRole_unique:
  assumes "distinct (map member_key t)" and "org_GetMemberRole oi mi t = Inr role"
    and "r \<in> set t" and "member_key r = (ID oi, ID mi)"
  shows "om_role r = role"
proof -
  have "find (\<lambda>x. member_key x = member_key r) t = Some r" using assms(1,3) by (rule find_unique)
  with assms(2,4) show ?thesis by (simp add: org_GetMemberRole_def query_row_def)
qed

lemma removal_keeps_admin:
  assumes "distinct (map us_id us)" and "distinct (map member_key t)" and "has_admin org t"
    and "org_GetMemberRole (Id org) (Id target) t = Inr role"
    and "role = ''admin'' \<Longrightarrow> \<not> length (filter (\<lambda>(u, role). role = ''admin'') (org_ListMembers (Id org) us t)) \<le> 1"
  shows "has_admin org (org_RemoveMember (Id org) (Id target) t)"
proof (cases "role = ''admin''")
  case True
  with assms(5) admins_counted [OF assms(1,2), of org "ID (Id target)"]
  obtain r where "r \<in> set t" "om_org_id r = ID (Id org)" "om_role r = ''admin''" "om_member_id r \<noteq> ID (Id target)" by metis
  then show ?thesis by (auto simp: has_admin_def org_RemoveMember_def)
next
  case False
  from assms(3) obtain r where r: "r \<in> set t" "om_org_id r = ID (Id org)" "om_role r = ''admin''" by (auto simp: has_admin_def)
  with False GetMemberRole_unique [OF assms(2,4) r(1)] have "om_member_id r \<noteq> ID (Id target)" by auto
  with r show ?thesis by (auto simp: has_admin_def org_RemoveMember_def)
qed

section \<open>The handlers\<close>

lemma requireOrgPermission_steady:
  assumes "steady w0 w" and "visits (ord_entries env)" and "\<And>e w'. steady w0 w' \<Longrightarrow> Q (Inl e) w'"
    and "\<And>w'. steady w0 w' \<Longrightarrow> may_act env w0 ctx (org_policy caller on action) \<Longrightarrow> Q (Inr ()) w'"
  shows "wp (requireOrgPermission env ctx caller on action) Q w"
  unfolding requireOrgPermission_def
  by (intro wp_first wp_intros Can_steady [OF assms(1,2)]) (use assms(3,4) in auto)

lemma cache_Delete_after:
  "(\<And>e w'. faults w \<noteq> [] \<Longrightarrow> after w (dbs w) w' \<Longrightarrow> Q (Inl (fault_err e)) w') \<Longrightarrow> (\<And>w'. after w (dbs w) w' \<Longrightarrow> Q (Inr ()) w') \<Longrightarrow>
   wp (cache_Delete k) Q w"
  unfolding cache_Delete_def by (rule wp_io_after) (auto simp: after_def)

lemma engine_AddBinding_after [wp_after]:
  assumes "\<And>e w' d'. after w d' w' \<Longrightarrow> Q (Inl e) w'"
    and "\<And>n w'. after w ((dbs w)\<lparr>role_bindings := binding_Create (new_id env n) (clock w) s r d (role_bindings (dbs w))\<rparr>) w' \<Longrightarrow> Q (Inr ()) w'"
  shows "wp (engine_AddBinding env s r d) Q w"
proof -
  have del: "wp (cache_Delete k) Q v"
    if "after w ((dbs w)\<lparr>role_bindings := binding_Create (new_id env n) (clock w) s r d (role_bindings (dbs w))\<rparr>) v" for v k n
    by (rule cache_Delete_after) (use that in \<open>auto simp: after_def intro!: assms\<close>)
  show ?thesis
    unfolding engine_AddBinding_def
    by (intro wp_first wp_after del) (use assms in auto)
qed

lemma engine_DeleteBinding_after [wp_after]:
  assumes "\<And>e w' d'. after w d' w' \<Longrightarrow> Q (Inl e) w'"
    and "\<And>w'. after w ((dbs w)\<lparr>role_bindings := binding_DeleteBySubjectDomain s d (role_bindings (dbs w))\<rparr>) w' \<Longrightarrow> Q (Inr ()) w'"
  shows "wp (engine_DeleteBinding s d) Q w"
proof -
  have del: "wp (cache_Delete k) Q v"
    if "after w ((dbs w)\<lparr>role_bindings := binding_DeleteBySubjectDomain s d (role_bindings (dbs w))\<rparr>) v" for v k
    by (rule cache_Delete_after) (use that in \<open>auto simp: after_def intro!: assms\<close>)
  show ?thesis
    unfolding engine_DeleteBinding_def
    by (intro wp_first wp_after del) (use assms in auto)
qed

lemma add_member_tx_after:
  assumes "\<And>e w'. dbs w' = dbs w \<Longrightarrow> Q (Inl e) w'"
    and "\<And>w' n. dbs w' = (reg (\<lambda>rg. rg\<lparr>member_table := org_AddMember (Id org) (Id target) role (member_table rg)\<rparr>) (dbs w))
        \<lparr>role_bindings := binding_Create (new_id env n) (clock w) (Username target) opa (Username org @ ''/*'') (role_bindings (dbs w))\<rparr>
        \<Longrightarrow> Q (Inr ()) w'"
  shows "wp (add_member_tx env org target role opa) Q w"
  unfolding add_member_tx_def org_AddMember_call_def AddOrgMemberBinding_def
  by (intro wp_first wp_after; (simp add: after_def assms(1))) (intro allI impI; elim conjE; rule assms(2); simp add: reg_def)

lemma remove_member_tx_after:
  assumes "\<And>e w'. dbs w' = dbs w \<Longrightarrow> Q (Inl e) w'" and "\<And>w'. departed org target (dbs w) (dbs w') \<Longrightarrow> Q (Inr ()) w'"
  shows "wp (remove_member_tx org target) Q w"
  unfolding remove_member_tx_def org_RemoveMember_call_def DeleteOrgBinding_def
  by (intro wp_first wp_after; (simp add: after_def assms(1))) (intro allI impI; elim conjE; rule assms(2);
      simp add: reg_def departed_def org_RemoveMember_def binding_DeleteBySubjectDomain_def)

lemma AddOrgMember_guarded:
  assumes "steady w w" and "visits (ord_entries env)"
  shows "wp (AddOrgMember env ctx on un role) (\<lambda>r w'. case r of
     Inl _ \<Rightarrow> dbs w' = dbs w
   | Inr _ \<Rightarrow> \<exists>org target. org_GetByName on (users (dbs w)) = Inr org \<and> user_GetByUsername un (users (dbs w)) = Inr target
       \<and> may_manage env w ctx ActionAdmin org
       \<and> joined org target (if role = [] then ''member'' else role) (clock w) (dbs w) (dbs w')) w"
  unfolding AddOrgMember_def Let_def
  by (intro wp_first wp_intros requireOrgPermission_steady [where ?w0.0 = w, OF _ assms(2)] add_member_tx_after)
    (use assms in \<open>auto simp: steady_def same_state_def may_manage_def joined_def reg_def AddMember_set binding_Create_granted\<close>)

lemma departed_rows: "departed org target d d' \<Longrightarrow> member_table (registry d') = org_RemoveMember (Id org) (Id target) (member_table (registry d))"
  by (simp add: departed_def reg_def org_RemoveMember_def)

lemma remove_member_after:
  assumes "distinct (map us_id (users (dbs w)))" and "distinct (map member_key (member_rows w))"
    and err: "\<And>e w'. dbs w' = dbs w \<Longrightarrow> Q (Inl e) w'"
    and yes: "\<And>target w'. user_GetByUsername un (users (dbs w)) = Inr target \<Longrightarrow> departed org target (dbs w) (dbs w') \<Longrightarrow>
       (has_admin org (member_rows w) \<Longrightarrow> has_admin org (member_rows w')) \<Longrightarrow> Q (Inr ()) w'"
  shows "wp (remove_member un org) Q w"
proof -
  have fin: "Q (Inr ()) w'"
    if "user_GetByUsername un (users (dbs w)) = Inr target" "departed org target (dbs w) (dbs w')"
      "org_GetMemberRole (Id org) (Id target) (member_rows w) = Inr role"
      "role = ''admin'' \<Longrightarrow> \<not> length (filter (\<lambda>(u, role). role = ''admin'') (org_ListMembers (Id org) (users (dbs w)) (member_rows w))) \<le> 1"
    for target role w'
  proof (rule yes [OF that(1,2)])
    assume "has_admin org (member_rows w)"
    then have "has_admin org (org_RemoveMember (Id org) (Id target) (member_rows w))"
      using that(3,4) by (rule removal_keeps_admin [OF assms(1,2)])
    then show "has_admin org (member_rows w')" unfolding departed_rows [OF that(2)] .
  qed
  show ?thesis
    unfolding remove_member_def
    by (intro wp_first wp_intros remove_member_tx_after; simp add: err del: One_nat_def length_0_conv)
      (rule fin; (assumption | erule (1) notE))+
qed

lemma RemoveOrgMember_guarded:
  assumes "steady w w" and "visits (ord_entries env)"
    and "distinct (map us_id (users (dbs w)))" and "distinct (map member_key (member_rows w))"
  shows "wp (RemoveOrgMember env ctx on un) (\<lambda>r w'. case r of
     Inl _ \<Rightarrow> dbs w' = dbs w
   | Inr _ \<Rightarrow> \<exists>caller org target. ctx_user ctx = Some caller \<and> org_GetByName on (users (dbs w)) = Inr org
       \<and> (Username caller = un \<or> may_manage env w ctx ActionAdmin org)
       \<and> user_GetByUsername un (users (dbs w)) = Inr target \<and> departed org target (dbs w) (dbs w')
       \<and> (has_admin org (member_rows w) \<longrightarrow> has_admin org (member_rows w'))) w"
  unfolding RemoveOrgMember_def
  by (intro wp_first wp_intros requireOrgPermission_steady [where ?w0.0 = w, OF _ assms(2)] remove_member_after)
    (use assms in \<open>auto simp: steady_def same_state_def may_manage_def\<close>)

section \<open>Membership\<close>

text \<open>C18. The members of an organisation change only under authority and only as a whole.  A failing
  call, at whatever step, leaves every table as it was.  \<open>AddOrgMember\<close> succeeds only for a caller whose
  role and token allow \<open>org:admin\<close> on the organisation, and sets the member's row of that organisation to
  the role, together with the binding of the same role; every other row of both tables stays.
  \<open>RemoveOrgMember\<close> succeeds only for such a caller or for the member who leaves, who needs no permission;
  it removes exactly the rows with the ids of the organisation and the member, together with every
  binding of the member over the organisation, and an organisation that had an administrator still has
  one.\<close>

theorem org_membership_guarded:
  assumes "cache_coherent w" and "visits (ord_entries env)"
    and "distinct (map us_id (users (dbs w)))" and "distinct (map member_key (member_rows w))"
  shows "(case run (AddOrgMember env ctx on un role) w of
       (Inl _, w') \<Rightarrow> dbs w' = dbs w
     | (Inr _, w') \<Rightarrow> \<exists>org target. org_GetByName on (users (dbs w)) = Inr org \<and> user_GetByUsername un (users (dbs w)) = Inr target
         \<and> may_manage env w ctx ActionAdmin org
         \<and> joined org target (if role = [] then ''member'' else role) (clock w) (dbs w) (dbs w'))
   \<and> (case run (RemoveOrgMember env ctx on un) w of
       (Inl _, w') \<Rightarrow> dbs w' = dbs w
     | (Inr _, w') \<Rightarrow> \<exists>caller org target. ctx_user ctx = Some caller \<and> org_GetByName on (users (dbs w)) = Inr org
         \<and> (Username caller = un \<or> may_manage env w ctx ActionAdmin org)
         \<and> user_GetByUsername un (users (dbs w)) = Inr target \<and> departed org target (dbs w) (dbs w')
         \<and> (has_admin org (member_rows w) \<longrightarrow> has_admin org (member_rows w')))"
proof -
  have st: "steady w w" using assms(1) by (rule steady_refl)
  obtain ra wa where a: "run (AddOrgMember env ctx on un role) w = (ra, wa)" by fastforce
  obtain rr wr where r: "run (RemoveOrgMember env ctx on un) w = (rr, wr)" by fastforce
  from wp_run [OF AddOrgMember_guarded [OF st assms(2)] a] wp_run [OF RemoveOrgMember_guarded [OF st assms(2-4)] r]
  show ?thesis unfolding a r by (cases ra; cases rr) simp_all
qed

section \<open>What the role of a member means\<close>

text \<open>The membership row takes the new role, but a binding is added beside the earlier ones: a member
  who was an administrator and is added again as a plain member keeps the administrator's binding.\<close>

lemma demotion_keeps_bindings:
  assumes "joined org target ''member'' now d d'"
  shows "set (role_bindings d) \<subseteq> set (role_bindings d')
    \<and> (\<exists>r \<in> set (member_table (registry d')). member_key r = (ID (Id org), ID (Id target)) \<and> om_role r = ''member'')"
  using assms unfolding joined_def member_set_def granted_to_def Let_def by (auto split: if_splits)

text \<open>The role is the caller's choice: asking for the owner's role writes the owner's binding.\<close>

lemma admin_grants_owner:
  assumes "joined org target ''owner'' now d d'"
  shows "granted_to (Username target) RoleOwner (Username org @ ''/*'') now (role_bindings d) (role_bindings d')"
  using assms by (auto simp: joined_def RoleOwner_def)

section \<open>Two members\<close>

definition org_row :: user_row where
  "org_row = demo_user\<lparr>us_id := demo_hex 5, us_username := ''acme'', us_email := [], us_type := USER_TYPE_ORGANIZATION\<rparr>"

definition bob_row :: user_row where
  "bob_row = demo_user\<lparr>us_id := demo_hex 6, us_username := ''bob'', us_email := ''bob@example.org''\<rparr>"

definition org_world :: world where
  "org_world = demo_world\<lparr>dbs := (dbs demo_world)\<lparr>users := [demo_user, org_row, bob_row],
     role_bindings := [\<lparr>bd_id = demo_hex 7, bd_subject = ''alice'', bd_role = ''admin'', bd_domain = ''acme/*'', bd_created_at = 0\<rparr>],
     registry := empty_registry\<lparr>member_table := [\<lparr>om_org_id = demo_hex 5, om_member_id = demo_hex 1, om_role = ''admin''\<rparr>]\<rparr>\<rparr>,
     mcache := mcache start_world\<rparr>"

lemma org_world_simps [simp]:
  "users (dbs org_world) = [demo_user, org_row, bob_row]" "faults org_world = []"
  "member_rows org_world = [\<lparr>om_org_id = demo_hex 5, om_member_id = demo_hex 1, om_role = ''admin''\<rparr>]"
  "role_bindings (dbs org_world) = [\<lparr>bd_id = demo_hex 7, bd_subject = ''alice'', bd_role = ''admin'', bd_domain = ''acme/*'', bd_created_at = 0\<rparr>]"
  by (simp_all add: org_world_def)

lemma org_coherent: "cache_coherent org_world"
  using start_coherent by (simp add: coherent_def' org_world_def start_world_def mc_Get_def)

theorem org_membership_guarded_witness:
  "dbs (snd (run (AddOrgMember demo_env (as_user ''bob'') ''acme'' ''bob'' ''owner'') org_world)) = dbs org_world"
proof -
  obtain r w' where run: "run (AddOrgMember demo_env (as_user ''bob'') ''acme'' ''bob'' ''owner'') org_world = (r, w')" by fastforce
  have no: "\<not> may_manage demo_env org_world (as_user ''bob'') ActionAdmin org" for org
    by (simp add: may_manage_def may_act_def org_policy_def decision_def policy_allow_def superadmin_clause_def public_clause_def
        binding_clause_def current_bindings_def opa_bindings_def binding_ListBySubject_def seed_admins_def
        ActionAdmin_def)
  have ids: "distinct (map us_id (users (dbs org_world)))" by (simp add: demo_user_def org_row_def bob_row_def) code_simp
  from org_membership_guarded [OF org_coherent demo_visits(1) ids, where ctx = "as_user ''bob''" and on = "''acme''" and un = "''bob''" and role = "''owner''"]
    run no
  show ?thesis by (cases r) simp_all
qed

end
