(* ===== verification/Commit_Server.thy ===== *)
theory Commit_Server
  imports Upload
begin

text \<open>
  Reading what was pushed: commits, files and differences
  (\<open>internal/hades/server/commit\<close>, \<open>internal/hades/storage/git/gogit/diff.go\<close>), check results and
  generated SDKs (\<open>internal/hades/server/meta\<close>), and downloads
  (\<open>internal/hades/server/content/download.go\<close>).
\<close>

section \<open>Differences of a commit\<close>

text \<open>go-git's tree comparison, binary detection and patch rendering are parameters: a change has the file
  before and after, of which one may be missing.\<close>

type_synonym file_change = "(string \<times> string) option \<times> (string \<times> string) option"

record denv =
  DiffTree :: "tree_entry list option \<Rightarrow> tree_entry list \<Rightarrow> file_change list res"
  IsBinary :: "string \<Rightarrow> bool res"
  PatchText :: "file_change \<Rightarrow> string res"

record FileDiff =
  fd_FromPath :: string
  fd_ToPath :: string
  fd_IsNewFile :: bool
  fd_IsDeletedFile :: bool
  fd_IsRenamedFile :: bool
  fd_Additions :: int
  fd_Deletions :: int
  fd_Patch :: string
  fd_Binary :: bool
  fd_TooLarge :: bool

definition maxDiffBlobBytes :: int where "maxDiffBlobBytes = 102400"

definition isBinaryBlob :: "denv \<Rightarrow> (string \<times> string) option \<Rightarrow> bool" where
  "isBinaryBlob denv f = (case f of
     None \<Rightarrow> False
   | Some (_, content) \<Rightarrow> (case IsBinary denv content of Inl e \<Rightarrow> True | Inr binary \<Rightarrow> binary))"

definition blobSize :: "(string \<times> string) option \<Rightarrow> int" where
  "blobSize f = (case f of None \<Rightarrow> 0 | Some (_, content) \<Rightarrow> int (length content))"

definition wrap_int32 :: "int \<Rightarrow> int" where
  "wrap_int32 n = (n + 2 ^ 31) mod 2 ^ 32 - 2 ^ 31"

fun count_from :: "string list \<Rightarrow> int \<times> int \<Rightarrow> int \<times> int" where
  "count_from [] (a, d) = (a, d)"
| "count_from (line # ls) (a, d) =
     (case line of
        [] \<Rightarrow> count_from ls (a, d)
      | c # _ \<Rightarrow>
          if c = CHR ''+'' then count_from ls (if HasPrefix line ''+++'' then (a, d) else (wrap_int32 (a + 1), d))
          else if c = CHR ''-'' then count_from ls (if HasPrefix line ''---'' then (a, d) else (a, wrap_int32 (d + 1)))
          else count_from ls (a, d))"

definition countLines :: "FileDiff \<Rightarrow> FileDiff" where
  "countLines fd = (case count_from (Split (fd_Patch fd) (CHR 0x0A)) (fd_Additions fd, fd_Deletions fd) of
     (a, d) \<Rightarrow> fd\<lparr>fd_Additions := a, fd_Deletions := d\<rparr>)"

definition file_diff :: "denv \<Rightarrow> file_change \<Rightarrow> FileDiff res" where
  "file_diff denv c = (case c of (from, to_file) \<Rightarrow>
     (let fromPath = (case from of None \<Rightarrow> [] | Some f \<Rightarrow> fst f);
          toPath = (case to_file of None \<Rightarrow> [] | Some f \<Rightarrow> fst f);
          isNew = (from = None \<and> to_file \<noteq> None);
          isDeleted = (from \<noteq> None \<and> to_file = None);
          fd = \<lparr>fd_FromPath = fromPath, fd_ToPath = toPath, fd_IsNewFile = isNew, fd_IsDeletedFile = isDeleted,
            fd_IsRenamedFile = (\<not> isNew \<and> \<not> isDeleted \<and> fromPath \<noteq> toPath), fd_Additions = 0, fd_Deletions = 0,
            fd_Patch = [], fd_Binary = (isBinaryBlob denv from \<or> isBinaryBlob denv to_file),
            fd_TooLarge = (blobSize from > maxDiffBlobBytes \<or> blobSize to_file > maxDiffBlobBytes)\<rparr> in
      if fd_Binary fd \<or> fd_TooLarge fd then Inr fd
      else (case PatchText denv c of
              Inl e \<Rightarrow> Inl e
            | Inr patch \<Rightarrow> Inr (countLines (fd\<lparr>fd_Patch := patch\<rparr>)))))"

fun file_diffs :: "denv \<Rightarrow> file_change list \<Rightarrow> FileDiff list res" where
  "file_diffs denv [] = Inr []"
| "file_diffs denv (c # cs) = (case file_diff denv c of
     Inl e \<Rightarrow> Inl e
   | Inr fd \<Rightarrow> (case file_diffs denv cs of Inl e \<Rightarrow> Inl e | Inr fds \<Rightarrow> Inr (fd # fds)))"

definition git_GetCommitDiff :: "renv \<Rightarrow> denv \<Rightarrow> string \<Rightarrow> string \<Rightarrow> (world, FileDiff list) call" where
  "git_GetCommitDiff renv denv repoPath commitHash = git_read repoPath (\<lambda>r. case objects r (NewHash renv commitHash) of
     None \<Rightarrow> Inl ErrNotFound
   | Some c \<Rightarrow>
       (case (case co_parents c of
                [] \<Rightarrow> Inr None
              | p # _ \<Rightarrow> (case objects r p of None \<Rightarrow> Inl (OtherErr ''gogit: read parent commit'') | Some pc \<Rightarrow> Inr (Some (co_tree pc)))) of
          Inl e \<Rightarrow> Inl e
        | Inr parentTree \<Rightarrow> (case DiffTree denv parentTree (co_tree c) of
            Inl e \<Rightarrow> Inl e
          | Inr changes \<Rightarrow> file_diffs denv changes)))"

section \<open>Commits\<close>

definition by_name :: "string \<Rightarrow> string \<Rightarrow> ModuleRef" where
  "by_name owner module = \<lparr>Ref_Id = [], Ref_Owner = owner, Ref_Module = module\<rparr>"

definition by_id :: "string \<Rightarrow> ModuleRef" where
  "by_id i = \<lparr>Ref_Id = i, Ref_Owner = [], Ref_Module = []\<rparr>"

text \<open>The module a request names, once the caller is known to be allowed to read it.\<close>

definition read_module :: "env \<Rightarrow> reqctx \<Rightarrow> ModuleRef \<Rightarrow> (world, Module) call" where
  "read_module env ctx ref = do {
     q \<leftarrow> GetModulesByRefs [ref];
     (case q of
        Inl e \<Rightarrow> fail (NotFound ''module not found'')
      | Inr modules \<Rightarrow>
          if modules = [] then fail (NotFound ''module not found'')
          else do {
            c \<leftarrow> CheckReadAccess env ctx (ctx_user ctx) (map mref modules);
            (case c of Inl e \<Rightarrow> fail e | Inr _ \<Rightarrow> ok (hd modules))
          })
   }"

definition resolveRef :: "Module \<Rightarrow> string \<Rightarrow> (world, string) call" where
  "resolveRef module commitHash =
     (if commitHash = [] then ok ''HEAD''
      else do {
        q \<leftarrow> qry (\<lambda>d. commit_GetByHash (users d) (module_table (registry d)) commitHash (commit_table (registry d)));
        (case q of
           Inl e \<Rightarrow> fail (NotFound ''commit not found'')
         | Inr commit \<Rightarrow>
             if Cm_ModuleId commit \<noteq> Mod_Id module then fail (NotFound ''commit not found'')
             else ok (Cm_CommitHash commit))
      })"

definition ListCommits_rpc :: "env \<Rightarrow> reqctx \<Rightarrow> string \<Rightarrow> string \<Rightarrow> int \<Rightarrow> string \<Rightarrow> (world, Commit list \<times> string) call" where
  "ListCommits_rpc env ctx owner module PageSize PageToken = do {
     m \<leftarrow> read_module env ctx (by_name owner module);
     (case m of
        Inl e \<Rightarrow> fail e
      | Inr md \<Rightarrow> (case Page PageSize PageToken of (pageSize, offset) \<Rightarrow> do {
          q \<leftarrow> qry (\<lambda>d. Inr (commit_ListByModule (users d) (module_table (registry d)) (Mod_Id md) pageSize offset (commit_table (registry d))));
          (case q of
             Inl e \<Rightarrow> fail (FromDB e)
           | Inr commits \<Rightarrow> ok (commits, NextPageToken (int (length commits)) pageSize offset))
        }))
   }"

definition GetCommit :: "env \<Rightarrow> reqctx \<Rightarrow> string \<Rightarrow> (world, Commit) call" where
  "GetCommit env ctx commitHash = do {
     q \<leftarrow> qry (\<lambda>d. commit_GetByHash (users d) (module_table (registry d)) commitHash (commit_table (registry d)));
     (case q of
        Inl e \<Rightarrow> fail (NotFound ''commit not found'')
      | Inr commit \<Rightarrow> do {
          m \<leftarrow> read_module env ctx (by_id (Cm_ModuleId commit));
          (case m of Inl e \<Rightarrow> fail e | Inr md \<Rightarrow> ok commit)
        })
   }"

definition add_totals :: "FileDiff list \<Rightarrow> int \<times> int \<Rightarrow> int \<times> int" where
  "add_totals fds t = fold (\<lambda>fd (a, d). (wrap_int32 (a + fd_Additions fd), wrap_int32 (d + fd_Deletions fd))) fds t"

definition GetCommitDiff :: "env \<Rightarrow> renv \<Rightarrow> denv \<Rightarrow> reqctx \<Rightarrow> string \<Rightarrow> (world, FileDiff list \<times> int \<times> int) call" where
  "GetCommitDiff env renv denv ctx commitHash = do {
     q \<leftarrow> qry (\<lambda>d. commit_GetByHash (users d) (module_table (registry d)) commitHash (commit_table (registry d)));
     (case q of
        Inl e \<Rightarrow> fail (NotFound ''commit not found'')
      | Inr commit \<Rightarrow> do {
          m \<leftarrow> read_module env ctx (by_id (Cm_ModuleId commit));
          (case m of
             Inl e \<Rightarrow> fail e
           | Inr md \<Rightarrow> do {
               g \<leftarrow> git_GetCommitDiff renv denv (Mod_Name md) commitHash;
               (case g of
                  Inl e \<Rightarrow> fail (Internal ''failed to get commit diff'')
                | Inr fileDiffs \<Rightarrow> ok (fileDiffs, add_totals fileDiffs (0, 0)))
             })
        })
   }"

definition ListModuleFiles :: "env \<Rightarrow> renv \<Rightarrow> reqctx \<Rightarrow> string \<Rightarrow> string \<Rightarrow> string \<Rightarrow> string \<Rightarrow> (world, TreeEntry list) call" where
  "ListModuleFiles env renv ctx owner module commitHash path = do {
     m \<leftarrow> read_module env ctx (by_name owner module);
     (case m of
        Inl e \<Rightarrow> fail e
      | Inr md \<Rightarrow> do {
          r \<leftarrow> resolveRef md commitHash;
          (case r of
             Inl e \<Rightarrow> fail e
           | Inr ref \<Rightarrow> do {
               g \<leftarrow> GetTreeEntries renv (owner @ ''/'' @ module) ref path;
               (case g of
                  Inl e \<Rightarrow> if e = ErrNotFound then fail (NotFound ''path not found'') else fail (Internal ''failed to list files'')
                | Inr gitEntries \<Rightarrow> ok gitEntries)
             })
        })
   }"

definition maxFileContentBytes :: int where "maxFileContentBytes = 16777216"

definition GetFileContent :: "env \<Rightarrow> renv \<Rightarrow> reqctx \<Rightarrow> string \<Rightarrow> string \<Rightarrow> string \<Rightarrow> string \<Rightarrow> (world, string \<times> int) call" where
  "GetFileContent env renv ctx owner module commitHash path = do {
     m \<leftarrow> read_module env ctx (by_name owner module);
     (case m of
        Inl e \<Rightarrow> fail e
      | Inr md \<Rightarrow> do {
          r \<leftarrow> resolveRef md commitHash;
          (case r of
             Inl e \<Rightarrow> fail e
           | Inr ref \<Rightarrow> do {
               g \<leftarrow> GetFile renv (owner @ ''/'' @ module) ref path;
               (case g of
                  Inl e \<Rightarrow> if e = ErrNotFound then fail (NotFound ''file not found'') else fail (Internal ''failed to read the file'')
                | Inr (content, sz) \<Rightarrow>
                    if sz > maxFileContentBytes
                    then fail (ResourceExhausted (''file is '' @ Itoa sz @ '' bytes, larger than the '' @ Itoa maxFileContentBytes
                      @ '' byte limit for this endpoint''))
                    else ok (content, sz))
             })
        })
   }"

section \<open>Commits by reference\<close>

text \<open>\<open>GetCommits\<close> trusts the module that came with the commit; \<open>GetGraph\<close> and \<open>Download\<close> read the
  module's row again.\<close>

fun commits_by_id :: "env \<Rightarrow> reqctx \<Rightarrow> string list \<Rightarrow> (world, Commit list) call" where
  "commits_by_id env ctx [] = ok []"
| "commits_by_id env ctx (i # ids) = do {
     q \<leftarrow> qry (\<lambda>d. commit_GetCommitById (module_table (registry d)) i (commit_table (registry d)));
     (case q of
        Inl e \<Rightarrow> fail e
      | Inr cmt \<Rightarrow> do {
          c \<leftarrow> CheckReadAccess env ctx (ctx_user ctx) (case Cm_Module cmt of None \<Rightarrow> [] | Some m \<Rightarrow> [mref m]);
          (case c of
             Inl e \<Rightarrow> fail e
           | Inr _ \<Rightarrow> do {
               rest \<leftarrow> commits_by_id env ctx ids;
               (case rest of Inl e \<Rightarrow> fail e | Inr cs \<Rightarrow> ok (cmt # cs))
             })
        })
   }"

definition commits_by_ref :: "env \<Rightarrow> reqctx \<Rightarrow> ModuleRef list \<Rightarrow> (world, Module list \<times> Commit list) call" where
  "commits_by_ref env ctx moduleRefs =
     (if moduleRefs = [] then ok ([], [])
      else do {
        q \<leftarrow> GetModulesByRefs moduleRefs;
        (case q of
           Inl e \<Rightarrow> fail e
         | Inr modules \<Rightarrow> do {
             c \<leftarrow> CheckReadAccess env ctx (ctx_user ctx) (map mref modules);
             (case c of
                Inl e \<Rightarrow> fail e
              | Inr _ \<Rightarrow> do {
                  g \<leftarrow> GetCommitByOwnerModule moduleRefs;
                  (case g of Inl e \<Rightarrow> fail e | Inr commits \<Rightarrow> ok (modules, commits))
                })
           })
      })"

definition GetCommits :: "env \<Rightarrow> reqctx \<Rightarrow> string list \<Rightarrow> ModuleRef list \<Rightarrow> (world, Commit list) call" where
  "GetCommits env ctx commitIDs moduleRefs = do {
     a \<leftarrow> commits_by_id env ctx commitIDs;
     (case a of
        Inl e \<Rightarrow> fail e
      | Inr result \<Rightarrow> do {
          b \<leftarrow> commits_by_ref env ctx moduleRefs;
          (case b of Inl e \<Rightarrow> fail e | Inr (ms, commits) \<Rightarrow> ok (result @ commits))
        })
   }"

fun graph_by_id :: "env \<Rightarrow> reqctx \<Rightarrow> string list \<Rightarrow> (world, Commit list) call" where
  "graph_by_id env ctx [] = ok []"
| "graph_by_id env ctx (i # ids) = do {
     q \<leftarrow> qry (\<lambda>d. commit_GetCommitById (module_table (registry d)) i (commit_table (registry d)));
     (case q of
        Inl e \<Rightarrow> fail e
      | Inr cmt \<Rightarrow> do {
          m \<leftarrow> GetModulesByRefs [by_id (Cm_ModuleId cmt)];
          (case m of
             Inl e \<Rightarrow> fail e
           | Inr modules \<Rightarrow> do {
               c \<leftarrow> CheckReadAccess env ctx (ctx_user ctx) (map mref modules);
               (case c of
                  Inl e \<Rightarrow> fail e
                | Inr _ \<Rightarrow> do {
                    rest \<leftarrow> graph_by_id env ctx ids;
                    (case rest of Inl e \<Rightarrow> fail e | Inr cs \<Rightarrow> ok (cmt # cs))
                  })
             })
        })
   }"

definition GetGraph :: "env \<Rightarrow> reqctx \<Rightarrow> string list \<Rightarrow> ModuleRef list \<Rightarrow> (world, Commit list) call" where
  "GetGraph env ctx commitIDs moduleRefs = do {
     a \<leftarrow> graph_by_id env ctx commitIDs;
     (case a of
        Inl e \<Rightarrow> fail e
      | Inr result \<Rightarrow> do {
          b \<leftarrow> commits_by_ref env ctx moduleRefs;
          (case b of Inl e \<Rightarrow> fail e | Inr (ms, commits) \<Rightarrow> ok (result @ commits))
        })
   }"

section \<open>Check results and generated SDKs\<close>

definition GetCIRun :: "env \<Rightarrow> reqctx \<Rightarrow> string \<Rightarrow> string \<Rightarrow> string \<Rightarrow> (world, CIRun) call" where
  "GetCIRun env ctx owner moduleName commitHash = do {
     m \<leftarrow> read_module env ctx (by_name owner moduleName);
     (case m of
        Inl e \<Rightarrow> fail e
      | Inr md \<Rightarrow> do {
          q \<leftarrow> qry (\<lambda>d. cirun_GetByModuleAndCommit (Mod_Id md) commitHash (cirun_table (registry d)));
          (case q of Inl e \<Rightarrow> fail (NotFound ''CI run not found'') | Inr ci \<Rightarrow> ok ci)
        })
   }"

definition ListSDKs :: "env \<Rightarrow> reqctx \<Rightarrow> string \<Rightarrow> string \<Rightarrow> (world, SDKJob list) call" where
  "ListSDKs env ctx owner module = do {
     m \<leftarrow> read_module env ctx (by_name owner module);
     (case m of
        Inl e \<Rightarrow> fail e
      | Inr md \<Rightarrow> do {
          q \<leftarrow> qry (\<lambda>d. Inr (job_ListByModule (Mod_Id md) (job_table (registry d))));
          (case q of Inl e \<Rightarrow> fail (FromDB e) | Inr jobs \<Rightarrow> ok jobs)
        })
   }"

section \<open>Downloads\<close>

definition generateBufYAML :: "Module \<Rightarrow> string \<Rightarrow> string" where
  "generateBufYAML m host = buf_yaml host (Mod_Name m) (Mod_LintPreset m) (Mod_BreakingEnabled m)"

definition injectBufYAML :: "upload_file list \<Rightarrow> Module \<Rightarrow> string \<Rightarrow> upload_file list" where
  "injectBufYAML files m host =
     (let generated = \<lparr>Path = ''buf.yaml'', Content = generateBufYAML m host\<rparr>;
          out = map (\<lambda>f. if Path f = ''buf.yaml'' then generated else f) files
      in if \<exists>f \<in> set files. Path f = ''buf.yaml'' then out else out @ [generated])"

definition maxDownloadRefs :: nat where "maxDownloadRefs = 50"
definition maxDownloadBytes :: int where "maxDownloadBytes = 268435456"

definition content_bytes :: "upload_file list \<Rightarrow> int" where
  "content_bytes fs = sum_list (map (\<lambda>f. int (length (Content f))) fs)"

definition commit_module :: "Commit \<Rightarrow> string" where
  "commit_module c = (case Cm_Module c of None \<Rightarrow> [] | Some m \<Rightarrow> Mod_Name m)"

definition download_files :: "renv \<Rightarrow> string \<Rightarrow> string \<Rightarrow> Commit \<Rightarrow> Module option \<Rightarrow> int \<Rightarrow> (world, (Commit \<times> upload_file list) \<times> int) call" where
  "download_files renv host fewer commit md budget = do {
     g \<leftarrow> ListBlobs renv (commit_module commit) (Cm_CommitHash commit);
     (case g of
        Inl e \<Rightarrow> fail (FromDB e)
      | Inr gitFiles \<Rightarrow>
          (let budget' = budget - content_bytes gitFiles in
           if budget' < 0 then fail (ResourceExhausted (''download exceeds the '' @ Itoa maxDownloadBytes
             @ '' byte response limit; request fewer '' @ fewer))
           else ok ((commit, case md of None \<Rightarrow> gitFiles | Some m \<Rightarrow> injectBufYAML gitFiles m host), budget')))
   }"

fun download_by_id :: "env \<Rightarrow> renv \<Rightarrow> reqctx \<Rightarrow> string list \<Rightarrow> int \<Rightarrow> (world, (Commit \<times> upload_file list) list \<times> int) call" where
  "download_by_id env renv ctx [] budget = ok ([], budget)"
| "download_by_id env renv ctx (i # ids) budget = do {
     q \<leftarrow> qry (\<lambda>d. commit_GetCommitById (module_table (registry d)) i (commit_table (registry d)));
     (case q of
        Inl e \<Rightarrow> fail (FromDB e)
      | Inr commit \<Rightarrow> do {
          m \<leftarrow> GetModulesByRefs [by_id (Cm_ModuleId commit)];
          (case m of
             Inl e \<Rightarrow> fail (FromDB e)
           | Inr modules \<Rightarrow> do {
               c \<leftarrow> CheckReadAccess env ctx (ctx_user ctx) (map mref modules);
               (case c of
                  Inl e \<Rightarrow> fail e
                | Inr _ \<Rightarrow> do {
                    f \<leftarrow> download_files renv (registryHost env) ''commits'' commit (case modules of [] \<Rightarrow> None | md # _ \<Rightarrow> Some md) budget;
                    (case f of
                       Inl e \<Rightarrow> fail e
                     | Inr (x, budget') \<Rightarrow> do {
                         rest \<leftarrow> download_by_id env renv ctx ids budget';
                         (case rest of Inl e \<Rightarrow> fail e | Inr (xs, b) \<Rightarrow> ok (x # xs, b))
                       })
                  })
             })
        })
   }"

fun download_commits :: "renv \<Rightarrow> string \<Rightarrow> (string \<rightharpoonup> Module) \<Rightarrow> Commit list \<Rightarrow> int \<Rightarrow> (world, (Commit \<times> upload_file list) list \<times> int) call" where
  "download_commits renv host moduleByID [] budget = ok ([], budget)"
| "download_commits renv host moduleByID (commit # cs) budget = do {
     f \<leftarrow> download_files renv host ''modules'' commit (moduleByID (Cm_ModuleId commit)) budget;
     (case f of
        Inl e \<Rightarrow> fail e
      | Inr (x, budget') \<Rightarrow> do {
          rest \<leftarrow> download_commits renv host moduleByID cs budget';
          (case rest of Inl e \<Rightarrow> fail e | Inr (xs, b) \<Rightarrow> ok (x # xs, b))
        })
   }"

definition module_by_id :: "Module list \<Rightarrow> (string \<rightharpoonup> Module)" where
  "module_by_id modules = fold (\<lambda>m f. f(Mod_Id m \<mapsto> m)) modules Map.empty"

definition download_by_ref :: "env \<Rightarrow> renv \<Rightarrow> reqctx \<Rightarrow> ModuleRef list \<Rightarrow> int \<Rightarrow> (world, (Commit \<times> upload_file list) list \<times> int) call" where
  "download_by_ref env renv ctx moduleRefs budget =
     (if moduleRefs = [] then ok ([], budget)
      else do {
        q \<leftarrow> GetModulesByRefs moduleRefs;
        (case q of
           Inl e \<Rightarrow> fail (FromDB e)
         | Inr modules \<Rightarrow> do {
             c \<leftarrow> CheckReadAccess env ctx (ctx_user ctx) (map mref modules);
             (case c of
                Inl e \<Rightarrow> fail e
              | Inr _ \<Rightarrow> do {
                  g \<leftarrow> GetCommitByOwnerModule moduleRefs;
                  (case g of
                     Inl e \<Rightarrow> fail (FromDB e)
                   | Inr commits \<Rightarrow> download_commits renv (registryHost env) (module_by_id modules) commits budget)
                })
           })
      })"

definition Download :: "env \<Rightarrow> renv \<Rightarrow> reqctx \<Rightarrow> string list \<Rightarrow> ModuleRef list \<Rightarrow> (world, (Commit \<times> upload_file list) list) call" where
  "Download env renv ctx commitIDs moduleRefs =
     (if length commitIDs + length moduleRefs > maxDownloadRefs
      then fail (InvalidArgument (''a download may name at most 50 commits or modules, got ''
        @ Itoa (int (length commitIDs + length moduleRefs))))
      else do {
        a \<leftarrow> download_by_id env renv ctx commitIDs maxDownloadBytes;
        (case a of
           Inl e \<Rightarrow> fail e
         | Inr (xs, budget) \<Rightarrow> do {
             b \<leftarrow> download_by_ref env renv ctx moduleRefs budget;
             (case b of Inl e \<Rightarrow> fail e | Inr (ys, rest) \<Rightarrow> ok (xs @ ys))
           })
      })"

section \<open>Tables they leave alone\<close>

context credential_fact
begin

lemma commit_loops_keep [db_intros]:
  "db_keeps Q (commits_by_id env ctx ids)" "db_keeps Q (graph_by_id env ctx ids)"
  by (induction ids) (auto intro!: db_intros)

lemma download_files_keep [db_intros]: "db_keeps Q (download_files renv host fw c md b)"
  unfolding download_files_def Let_def by (intro db_intros)

lemma download_by_id_keep [db_intros]: "db_keeps Q (download_by_id env renv ctx ids b)"
proof (induction ids arbitrary: b)
  case (Cons i ids)
  show ?case unfolding download_by_id.simps by (intro db_intros Cons.IH)
qed (auto intro: db_intros)

lemma download_commits_keep [db_intros]: "db_keeps Q (download_commits renv host mb cs b)"
proof (induction cs arbitrary: b)
  case (Cons c cs)
  show ?case unfolding download_commits.simps by (intro db_intros Cons.IH)
qed (auto intro: db_intros)

lemma commit_handlers_keep [db_intros]:
  "db_keeps Q (ListCommits_rpc env ctx ow mo ps pt)" "db_keeps Q (GetCommit env ctx ch)" "db_keeps Q (GetCommitDiff env renv denv ctx ch)"
  "db_keeps Q (ListModuleFiles env renv ctx ow mo ch pa)" "db_keeps Q (GetFileContent env renv ctx ow mo ch pa)"
  "db_keeps Q (GetCommits env ctx ids refs)" "db_keeps Q (GetGraph env ctx ids refs)" "db_keeps Q (GetCIRun env ctx ow mo ch)"
  "db_keeps Q (ListSDKs env ctx ow mo)" "db_keeps Q (Download env renv ctx ids refs)"
  unfolding ListCommits_rpc_def GetCommit_def GetCommitDiff_def ListModuleFiles_def GetFileContent_def GetCommits_def GetGraph_def
    GetCIRun_def ListSDKs_def Download_def download_by_ref_def commits_by_ref_def read_module_def resolveRef_def git_GetCommitDiff_def
    GetFile_def GetTreeEntries_def
  by (intro db_intros)+

end

end
