(* ===== verification/Upload_Facts.thy ===== *)
theory Upload_Facts
  imports Upload Module_Facts
begin

text \<open>
  What a push guarantees: it writes only the modules its references resolve to, for a caller who may push
  to the names in them, it publishes exactly what was pushed unless an earlier commit already has it, and a
  failed push leaves the tables and, without failing calls, the branches as they were.
\<close>

section \<open>Rules\<close>

lemma disk_after [wp_after]:
  assumes "\<And>e w'. after w (dbs w) w' \<Longrightarrow> (r = Inl e \<or> faults w \<noteq> []) \<Longrightarrow> Q (Inl e) w'" and "\<And>x w'. r = Inr x \<Longrightarrow> after w (dbs w) w' \<Longrightarrow> Q (Inr x) w'"
  shows "wp (disk r) Q w"
  unfolding disk_def by (rule wp_io_after) (use assms in \<open>cases r; auto simp: after_def\<close>)+

lemma breaking_check_after [wp_after]:
  assumes "\<And>e w'. after w (dbs w) w' \<Longrightarrow> Q (Inl e) w'" and "\<And>c w'. after w (dbs w) w' \<Longrightarrow> Q (Inr c) w'"
  shows "wp (breaking_check renv dir ps) Q w"
  unfolding breaking_check_def by (intro wp_first wp_after; (rule assms(1) | rule assms(2)); simp add: after_def)

lemma runProtoChecks_after [wp_after]:
  assumes "\<And>e w'. after w (dbs w) w' \<Longrightarrow> Q (Inl e) w'" and "\<And>c w'. after w (dbs w) w' \<Longrightarrow> Q (Inr c) w'"
  shows "wp (runProtoChecks renv fs ps l b) Q w"
  unfolding runProtoChecks_def by (intro wp_first wp_after; (rule assms(1) | rule assms(2)); simp add: after_def)

section \<open>The transaction\<close>

text \<open>What a recorded push adds to the tables: the row of the commit, one pending job for each generator
  when generation is on, and at most a record of checks for this commit, every other such record staying
  as it is; and the tables no push touches.\<close>

definition job_for :: "string \<Rightarrow> string \<Rightarrow> GeneratorConfig \<Rightarrow> job_row \<Rightarrow> bool" where
  "job_for commitID moduleID g j \<longleftrightarrow> jb_commit_id j = ID commitID \<and> jb_module_id j = ID moduleID \<and> jb_status j = Pending
     \<and> jb_attempts j = 0 \<and> jb_language j = g_Language g \<and> jb_plugin j = g_Plugin g"

definition ciruns_kept :: "(cirun_row \<Rightarrow> bool) \<Rightarrow> cirun_row list \<Rightarrow> cirun_row list \<Rightarrow> bool" where
  "ciruns_kept P t t' \<longleftrightarrow> filter P t' = filter P t"

abbreviation ci_key :: "cirun_row \<Rightarrow> string \<times> string" where
  "ci_key r \<equiv> (ci_module_id r, ci_commit_hash r)"

definition unpushed :: "db \<Rightarrow> db" where
  "unpushed d = d\<lparr>registry := (registry d)\<lparr>commit_table := [], resource_table := [], cirun_table := [], job_table := [],
     notification_table := [], oplog_table := []\<rparr>\<rparr>"

definition recorded :: "renv \<Rightarrow> uploadWorkItem \<Rightarrow> Commit \<Rightarrow> db \<Rightarrow> db \<Rightarrow> bool" where
  "recorded renv item c d d' \<longleftrightarrow>
     (\<exists>crow. commit_table (registry d') = commit_table (registry d) @ [crow] \<and> cm_commit_hash crow = Cm_CommitHash c
        \<and> cm_module_id crow = ID (Mod_Id (wi_module item)) \<and> cm_digest_value crow = Some (wi_dig item) \<and> cm_id crow = UUID (Cm_Id c))
     \<and> (\<exists>new. job_table (registry d') = job_table (registry d) @ new
        \<and> (if SDKEnabled renv then list_all2 (job_for (Cm_Id c) (Mod_Id (wi_module item))) (Generators renv) new else new = []))
     \<and> ciruns_kept (\<lambda>r. ci_key r \<noteq> (ID (Mod_Id (wi_module item)), Cm_CommitHash c)) (cirun_table (registry d)) (cirun_table (registry d'))
     \<and> unpushed d' = unpushed d"

lemma job_CreateBatch_after [wp_after]:
  assumes "\<And>e d w'. after w d w' \<Longrightarrow> Q (Inl e) w'"
    and "\<And>new w'. list_all2 (job_for ci mi) gs new \<Longrightarrow> after w (reg (\<lambda>rg. rg\<lparr>job_table := job_table rg @ new\<rparr>) (dbs w)) w' \<Longrightarrow> Q (Inr ()) w'"
  shows "wp (job_CreateBatch env ci mi gs) Q w"
  using assms
proof (induction gs arbitrary: w)
  case Nil
  have "after w (reg (\<lambda>rg. rg\<lparr>job_table := job_table rg @ []\<rparr>) (dbs w)) w" by (simp add: after_def reg_def)
  with Nil.prems(2) [of "[]" w] show ?case by (auto intro: wp_intros)
next
  case (Cons g gs)
  have step: "job_Insert i now ci mi g t = (Inr (), t') \<Longrightarrow> \<exists>j. job_for ci mi g j \<and> t' = t @ [j]" for i now t t'
    by (auto simp: job_Insert_def job_for_def split: if_splits)
  have err: "Q (Inl e) w'" if "repos w' = repos w" "clock w' = clock w" "faults w = [] \<longrightarrow> faults w' = []" for e w'
    using Cons.prems(1) [of "dbs w'" w'] that by (simp add: after_def)
  have yes: "Q (Inr ()) w'" if "job_for ci mi g j" "list_all2 (job_for ci mi) gs new"
    "dbs w' = (dbs w)\<lparr>registry := (registry (dbs w))\<lparr>job_table := job_table (registry (dbs w)) @ j # new\<rparr>\<rparr>"
    "repos w' = repos w" "clock w' = clock w" "faults w = [] \<longrightarrow> faults w' = []" for j new w'
    using Cons.prems(2) [of "j # new" w'] that by (simp add: after_def reg_def)
  show ?case
    unfolding job_CreateBatch.simps
    by (intro wp_first wp_after Cons.IH; (simp add: after_def split: prod.splits)?)
      (auto simp: reg_def intro: err dest!: step intro: yes)
qed

lemma cirun_Upsert_kept:
  "cirun_Upsert i now mi ch lp bp br lr brr t = (r, t') \<Longrightarrow> ciruns_kept (\<lambda>r. ci_key r \<noteq> (ID mi, ch)) t t'"
proof -
  have "filter (\<lambda>r. ci_key r \<noteq> (ID mi, ch)) (update_where (\<lambda>r. ci_module_id r = ID mi \<and> ci_commit_hash r = ch)
      (\<lambda>r. r\<lparr>ci_lint_passed := lp, ci_breaking_passed := bp, ci_breaking_ran := br, ci_lint_errors := Some lr, ci_breaking_errors := Some brr\<rparr>) t)
      = filter (\<lambda>r. ci_key r \<noteq> (ID mi, ch)) t"
    by (induction t) (auto simp: update_where_def)
  moreover assume "cirun_Upsert i now mi ch lp bp br lr brr t = (r, t')"
  ultimately show ?thesis by (auto simp: cirun_Upsert_def ciruns_kept_def Let_def split: if_splits)
qed

lemma cirun_Create_after [wp_after]:
  assumes "\<And>e w'. repos w' = repos w \<Longrightarrow> clock w' = clock w \<Longrightarrow> (faults w = [] \<longrightarrow> faults w' = []) \<Longrightarrow> Q (Inl e) w'"
    and "\<And>x cs w'. ciruns_kept (\<lambda>r. ci_key r \<noteq> (ID mi, ch)) (cirun_table (registry (dbs w))) cs \<Longrightarrow>
      after w (reg (\<lambda>rg. rg\<lparr>cirun_table := cs\<rparr>) (dbs w)) w' \<Longrightarrow> Q (Inr x) w'"
  shows "wp (cirun_Create env mi ch lp bp br le be) Q w"
proof -
  have yes: "Q (Inr x) w'" if "cirun_Upsert i now mi ch lp bp br lr brr (cirun_table (registry (dbs w))) = (r, cs)"
    "dbs w' = (dbs w)\<lparr>registry := (registry (dbs w))\<lparr>cirun_table := cs\<rparr>\<rparr>"
    "repos w' = repos w" "clock w' = clock w" "faults w = [] \<longrightarrow> faults w' = []" for i now lr brr r x cs w'
    using assms(2) [OF cirun_Upsert_kept [OF that(1)], of w' x] that by (simp add: after_def reg_def)
  have sums: "Q r w'" if "\<And>e. Q (Inl e) w'" "\<And>x. Q (Inr x) w'" for r w' using that by (cases r) auto
  show ?thesis
    unfolding cirun_Create_def
    by (intro wp_first wp_after; (simp add: after_def split: prod.splits)?; (rule assms(1) | rule sums)?)
      (auto simp: reg_def intro: assms(1) yes)
qed

text \<open>The git write undone.\<close>

definition standing :: "uploadWorkItem \<Rightarrow> string \<Rightarrow> (string \<rightharpoonup> git_repo) \<Rightarrow> bool" where
  "standing item h g \<longleftrightarrow> h \<noteq> [] \<and> wi_previousHead item \<noteq> [] \<and> ValidateRepoPath (Mod_Name (wi_module item)) = None
     \<and> (\<exists>r. g (Mod_Name (wi_module item)) = Some r \<and> branches r (Mod_DefaultBranch (wi_module item)) = Some h)"

definition moved_back :: "renv \<Rightarrow> uploadWorkItem \<Rightarrow> (string \<rightharpoonup> git_repo) \<Rightarrow> (string \<rightharpoonup> git_repo)" where
  "moved_back renv item g = (case g (Mod_Name (wi_module item)) of
     None \<Rightarrow> g
   | Some r \<Rightarrow> g(Mod_Name (wi_module item) \<mapsto> SetReference (Mod_DefaultBranch (wi_module item)) (NewHash renv (wi_previousHead item)) r))"

definition undone :: "renv \<Rightarrow> uploadWorkItem \<Rightarrow> string \<Rightarrow> world \<Rightarrow> world \<Rightarrow> bool" where
  "undone renv item h w w' \<longleftrightarrow> (repos w' = repos w \<or> repos w' = moved_back renv item (repos w))
     \<and> (faults w = [] \<and> standing item h (repos w) \<longrightarrow> repos w' = moved_back renv item (repos w))
     \<and> clock w' = clock w \<and> (faults w = [] \<longrightarrow> faults w' = [])"

lemma rollback_after [wp_after]:
  assumes "\<And>w'. undone renv item h w w' \<Longrightarrow> dbs w' = dbs w \<Longrightarrow> Q () w'"
  shows "wp (rollback renv item h) Q w"
proof -
  have same: "(repos w)(p \<mapsto> r) = repos w" if "repos w p = Some r" for p r using that by auto
  have done': "Q () w'" if "dbs w' = dbs w" "repos w' = repos w \<or> repos w' = moved_back renv item (repos w)"
     "faults w = [] \<and> standing item h (repos w) \<longrightarrow> repos w' = moved_back renv item (repos w)" "clock w' = clock w" "faults w = [] \<longrightarrow> faults w' = []" for w'
    using assms [of w'] that by (simp add: undone_def)
  show ?thesis
    unfolding rollback_def RollbackCommit_def
    by (intro wp_first wp_after wp_in_repo; rule done')
      (auto simp: after_def reach_def openRepo_Inr openRepo_def standing_def moved_back_def same EqualFold_def split: if_splits option.splits)
qed

lemma upload_tx_after [wp_after]:
  assumes "\<And>e w'. undone renv item h w w' \<or> repos w' = repos w \<and> clock w' = clock w \<and> faults w \<noteq> [] \<Longrightarrow> dbs w' = dbs w \<Longrightarrow> Q (Inl e) w'"
    and "\<And>d w'. recorded renv item (pushed_commit user item i h) (dbs w) d \<Longrightarrow> after w d w' \<Longrightarrow> Q (Inr (pushed_commit user item i h)) w'"
  shows "wp (upload_tx env renv user item i h) Q w"
proof -
  have undo: "Q (Inl e) w'" if "undone renv item h v v'" "repos v = repos w" "clock v = clock w" "faults w = [] \<longrightarrow> faults v = []"
      "repos w' = repos v'" "dbs w' = dbs w" "clock w' = clock v'" "faults v' = [] \<longrightarrow> faults w' = []" for e v v' w'
    by (rule assms(1)) (use that in \<open>auto simp: undone_def standing_def\<close>)
  have early: "Q (Inl e) w'" if "dbs w' = dbs w" "repos w' = repos w" "clock w' = clock w" "faults w \<noteq> []" for e w'
    by (rule assms(1)) (use that in auto)
  have yes: "Q (Inr (pushed_commit user item i h)) w'" if "recorded renv item (pushed_commit user item i h) (dbs w) (dbs w')"
      "repos w' = repos w" "clock w' = clock w" "faults w = [] \<longrightarrow> faults w' = []" for w'
    by (rule assms(2) [of "dbs w'"]) (use that in \<open>simp_all add: after_def\<close>)
  show ?thesis
    unfolding upload_tx_def Let_def
    by (intro wp_first wp_after; (simp add: after_def reg_def split: prod.splits)?;
        (intro conjI allI impI)?; (elim conjE)?; (rule yes | erule undo | rule early); auto simp: recorded_def pushed_commit_def unpushed_def ciruns_kept_def)
qed

section \<open>One module\<close>

lemma wp_notify_batch [wp_after]:
  assumes "\<And>r ns w'. after w (reg (\<lambda>rg. rg\<lparr>notification_table := ns\<rparr>) (dbs w)) w' \<Longrightarrow> Q r w'"
  shows "wp (notification_CreateBatch_call env us ty ti bo ri) Q w"
proof -
  have "after w (reg (\<lambda>rg. rg\<lparr>notification_table := notification_table (registry (dbs w))\<rparr>) (dbs w)) w'" if "after w (dbs w) w'" for w'
    using that by (simp add: after_def reg_def)
  then show ?thesis
    unfolding notification_CreateBatch_call_def
    by (intro wp_after) (auto intro: assms after_simps split: prod.splits)
qed

lemma notify_after [wp_after]:
  assumes "\<And>ns w'. after w (reg (\<lambda>rg. rg\<lparr>notification_table := ns\<rparr>) (dbs w)) w' \<Longrightarrow> Q () w'"
  shows "wp (notifyCommitPushed env renv m c u) Q w"
proof -
  have nt: "Q () w'" if "dbs w' = (dbs w)\<lparr>registry := (registry (dbs w))\<lparr>notification_table := notification_table (registry (dbs w'))\<rparr>\<rparr>"
    "repos w' = repos w" "clock w' = clock w" "faults w = [] \<longrightarrow> faults w' = []" for w'
    using assms [of "notification_table (registry (dbs w'))" w'] that by (simp add: after_def reg_def)
  show ?thesis
    unfolding notifyCommitPushed_def Let_def
    by (intro wp_first wp_after; rule nt; simp add: after_def reg_def)
qed

lemma recorded_logged: "log_only d d0 \<Longrightarrow> recorded renv item c d0 d1 \<Longrightarrow> log_only d1 d2 \<Longrightarrow> recorded renv item c d d2"
  by (auto simp: recorded_def log_only_def reg_def unpushed_def)

lemma recorded_notified: "recorded renv item c d d1 \<Longrightarrow> recorded renv item c d (reg (\<lambda>rg. rg\<lparr>notification_table := ns\<rparr>) d1)"
  by (auto simp: recorded_def reg_def unpushed_def)

text \<open>The module's branch is where the database thinks it is.\<close>

definition in_step :: "renv \<Rightarrow> uploadWorkItem \<Rightarrow> git_repo \<Rightarrow> bool" where
  "in_step renv item r \<longleftrightarrow> wi_previousHead item \<noteq> [] \<and> branches r (Mod_DefaultBranch (wi_module item)) = Some (NewHash renv (wi_previousHead item))"

definition hash_sized :: "renv \<Rightarrow> bool" where
  "hash_sized renv \<longleftrightarrow> (\<forall>c. length (commit_sum renv c) = 40)"

definition only_at :: "string set \<Rightarrow> world \<Rightarrow> world \<Rightarrow> bool" where
  "only_at N w w' \<longleftrightarrow> (\<forall>p. p \<notin> N \<longrightarrow> repos w' p = repos w p)"

text \<open>A push that failed: nothing but the log in the tables, nothing in other repositories, and no
  branch moved if the branch and the database agreed and nothing failed in the environment.\<close>

definition push_failed :: "renv \<Rightarrow> uploadWorkItem \<Rightarrow> world \<Rightarrow> world \<Rightarrow> bool" where
  "push_failed renv item w w' \<longleftrightarrow> log_only (dbs w) (dbs w') \<and> only_at {Mod_Name (wi_module item)} w w'
     \<and> (faults w = [] \<and> hash_sized renv \<and> (\<forall>r. openRepo (repos w) (Mod_Name (wi_module item)) = Inr r \<longrightarrow> in_step renv item r)
          \<longrightarrow> same_heads (repos w) (repos w'))"

definition push_landed :: "renv \<Rightarrow> User \<Rightarrow> uploadWorkItem \<Rightarrow> world \<Rightarrow> Commit \<Rightarrow> world \<Rightarrow> bool" where
  "push_landed renv user item w c w' \<longleftrightarrow> recorded renv item c (dbs w) (dbs w')
     \<and> (\<exists>r r' i h. c = pushed_commit user item i h \<and> openRepo (repos w) (Mod_Name (wi_module item)) = Inr r
          \<and> repos w' = (repos w)(Mod_Name (wi_module item) \<mapsto> r')
          \<and> checkExpectedHead (wi_expectedHead item) (branches r (Mod_DefaultBranch (wi_module item))) = Inr ()
          \<and> (no_clash renv r \<longrightarrow> put_done (upload_put user item) r h r'))"

lemma upload_put_simps [simp]: "pf_RepoPath (upload_put user item) = Mod_Name (wi_module item)"
  "pf_Branch (upload_put user item) = Mod_DefaultBranch (wi_module item)" "pf_Files (upload_put user item) = wi_files item"
  "pf_ExistingPaths (upload_put user item) = wi_listFiles item" "pf_ExpectedHead (upload_put user item) = wi_expectedHead item"
  by (simp_all add: upload_put_def)

lemma moved_back_heads:
  assumes "g name = Some r" "name = Mod_Name (wi_module item)" "in_step renv item r"
  shows "same_heads g (moved_back renv item (g(name \<mapsto> written renv (upload_put user item) now parent fs r h)))"
proof -
  have "(branches r)(b \<mapsto> h, b \<mapsto> x) = branches r" if "branches r b = Some x" for b x using that by auto
  moreover have "objects r \<subseteq>\<^sub>m objects (store_object h c r)" for c by simp
  ultimately show ?thesis
    using assms by (auto simp: same_heads_def moved_back_def written_def SetReference_def in_step_def split: option.splits)
qed

lemma upload_one_after [wp_after]:
  assumes "\<And>e w'. push_failed renv item w w' \<Longrightarrow> Q (Inl e) w'"
    and "\<And>c w'. push_landed renv user item w c w' \<Longrightarrow> Q (Inr c) w'"
  shows "wp (upload_one env renv user ns item) Q w"
proof -
  let ?name = "Mod_Name (wi_module item)" and ?req = "upload_put user item"
  let ?wr = "\<lambda>v parent fs r h. (repos v)(?name \<mapsto> written renv ?req (clock v) parent fs r h)"
  have early: "Q (Inl e) w'" if "log_only (dbs w) (dbs w')" "same_heads (repos w) (repos w')" "\<forall>p. p \<noteq> ?name \<longrightarrow> repos w' p = repos w p" for e w'
    by (rule assms(1)) (use that in \<open>auto simp: push_failed_def only_at_def\<close>)
  have late: "Q (Inl e) w'" if u0: "undone renv item h v v' \<or> repos v' = gv \<and> C \<and> faults v \<noteq> []" and gv: "repos v = gv"
      and g0: "gv = (repos w)(?name \<mapsto> written renv ?req now parent fs r h)"
      and l: "log_only (dbs w) (dbs w')" "openRepo (repos w) ?name = Inr r"
      and h: "h = commit_sum renv (new_commit ?req now parent (new_files ?req fs))"
      and w': "faults w = [] \<longrightarrow> faults v = []" "repos w' = repos v'" for e v v' w' r h now parent fs gv C
  proof (rule assms(1))
    note u = u0 [folded gv] and g = g0 [folded gv]
    have nm: "repos w ?name = Some r" "ValidateRepoPath ?name = None" using l(2) by (simp_all add: openRepo_Inr)
    have "repos v' p = repos v p" if "p \<noteq> ?name" for p
      using u that by (auto simp: undone_def moved_back_def split: option.splits)
    moreover have "same_heads (repos w) (repos v')" if f: "faults w = []" "hash_sized renv" "in_step renv item r"
    proof -
      have "length h = 40" using f(2) h by (simp add: hash_sized_def)
      then have "standing item h (repos v)"
        using g nm(2) f(3) by (auto simp: standing_def in_step_def written_def SetReference_def)
      with u w'(1) f(1) have "repos v' = moved_back renv item (repos v)" by (auto simp: undone_def)
      then show ?thesis using moved_back_heads [where g = "repos w", OF nm(1) refl f(3)] g by simp
    qed
    ultimately show "push_failed renv item w w'" using l g w'(2) nm by (auto simp: push_failed_def only_at_def openRepo_Inr)
  qed
  have short: "Q (Inl e) w'" if "undone renv item h v w'" "repos v = (repos w)(?name \<mapsto> written renv ?req now parent fs r h)"
      "log_only (dbs w) (dbs w')" "openRepo (repos w) ?name = Inr r" "h = commit_sum renv (new_commit ?req now parent (new_files ?req fs))"
      "faults w = [] \<longrightarrow> faults v = []" for e v w' r h now parent fs
    by (rule late [of h v w' "repos v" False now parent fs r w']) (use that in auto)
  have landed: "Q (Inr (pushed_commit user item i h)) w'" if "recorded renv item (pushed_commit user item i h) d0 d1" "log_only (dbs w) d0"
      "log_only d1 d2" "dbs w' = reg (\<lambda>rg. rg\<lparr>notification_table := nt\<rparr>) d2" "openRepo (repos w) ?name = Inr r" "read_head ?req r = Inr (parent, fs)"
      "h = commit_sum renv (new_commit ?req now parent (new_files ?req fs))"
      "repos w' = (repos w)(?name \<mapsto> written renv ?req now parent fs r h)" for i h d0 d1 d2 nt r now parent fs w'
    by (rule assms(2)) (use that recorded_notified [OF recorded_logged [OF that(2,1,3)]] written_done [OF that(6) _ that(7)] read_head_checked [OF that(6)]
      in \<open>auto simp: push_landed_def\<close>)
  show ?thesis
    unfolding upload_one_def Let_def
    by (intro wp_first wp_after; (simp add: after_def reach_def split: prod.splits)?;
        (elim conjE)?; (erule landed | erule short | erule late | rule early); auto intro: log_only_trans)
qed

section \<open>Preparation\<close>

lemma GetModulesByRefs_one [wp_after]:
  assumes "\<And>e w'. after w (dbs w) w' \<Longrightarrow> Q (Inl e) w'"
    and "\<And>m w'. module_GetByRef ref (module_rows w) = Inr m \<Longrightarrow> after w (dbs w) w' \<Longrightarrow> Q (Inr [m]) w'"
  shows "wp (GetModulesByRefs [ref]) Q w"
  by (simp, intro wp_first wp_after) (auto intro: assms)

lemma GetCommitByOwnerModule_one [wp_after]:
  assumes "\<And>e w'. after w (dbs w) w' \<Longrightarrow> Q (Inl e) w'"
    and "\<And>w'. after w (dbs w) w' \<Longrightarrow> Q (Inr (commit_ByRef (users (dbs w)) (module_rows w) ref (commit_rows w))) w'"
  shows "wp (GetCommitByOwnerModule [ref]) Q w"
  by (simp, intro wp_first wp_after) (auto intro: assms)

lemma ListCommits_head [wp_after]:
  assumes "\<And>e w'. e \<noteq> ErrNotFound \<Longrightarrow> after w (dbs w) w' \<Longrightarrow> Q (Inl e) w'"
    and "\<And>r w'. openRepo (repos w) p = Inr r \<Longrightarrow> ResolveRevision renv r ref = None \<Longrightarrow> after w (dbs w) w' \<Longrightarrow> Q (Inl ErrNotFound) w'"
    and "\<And>r h x w'. openRepo (repos w) p = Inr r \<Longrightarrow> ResolveRevision renv r ref = Some h \<Longrightarrow> SHA x = h \<Longrightarrow> after w (dbs w) w' \<Longrightarrow>
      Q (Inr [x]) w'"
  shows "wp (ListCommits renv p ref 1) Q w"
  unfolding ListCommits_def
  by (intro wp_after) (use assms in \<open>auto simp: Let_def openRepo_def ErrRepositoryNotExists_def ErrUnsafeRepoPath_def split: option.splits list.splits if_splits\<close>)

definition blobs_of :: "renv \<Rightarrow> world \<Rightarrow> string \<Rightarrow> string \<Rightarrow> (string \<times> string) list \<Rightarrow> bool" where
  "blobs_of renv w name h fs \<longleftrightarrow> (\<exists>r c. openRepo (repos w) name = Inr r \<and> objects r (NewHash renv h) = Some c \<and> fs = tree_Files (co_tree c))"

lemma ListBlobs_after [wp_after]:
  assumes "\<And>e w'. after w (dbs w) w' \<Longrightarrow> Q (Inl e) w'"
    and "\<And>fs w'. blobs_of renv w p h fs \<Longrightarrow> after w (dbs w) w' \<Longrightarrow> Q (Inr (map (\<lambda>(p, x). \<lparr>Path = p, Content = x\<rparr>) fs)) w'"
  shows "wp (ListBlobs renv p h) Q w"
  unfolding ListBlobs_def
  by (intro wp_after) (use assms in \<open>auto simp: blobs_of_def Let_def split: option.splits\<close>)

text \<open>What a prepared module is.\<close>

definition upload_files :: "Commit list \<Rightarrow> upload_file list \<Rightarrow> upload_file list" where
  "upload_files moduleCommit fs = GetPath (case moduleCommit of [] \<Rightarrow> without_buf_yaml fs | _ # _ \<Rightarrow> upload_map fs)"

abbreviation latest_commits :: "world \<Rightarrow> ModuleRef \<Rightarrow> Commit list" where
  "latest_commits w ref \<equiv> commit_ByRef (users (dbs w)) (module_rows w) ref (commit_rows w)"

text \<open>The head of a module's default branch, as git has it.\<close>

definition git_head :: "renv \<Rightarrow> world \<Rightarrow> Module \<Rightarrow> string" where
  "git_head renv w m = (case openRepo (repos w) (Mod_Name m) of
     Inl e \<Rightarrow> []
   | Inr r \<Rightarrow> (case ResolveRevision renv r (Mod_DefaultBranch m) of None \<Rightarrow> [] | Some h \<Rightarrow> h))"

definition item_for :: "renv \<Rightarrow> world \<Rightarrow> UploadRequestContent \<Rightarrow> uploadWorkItem \<Rightarrow> bool" where
  "item_for renv w content item \<longleftrightarrow>
     module_GetByRef (uc_ModuleRef content) (module_rows w) = Inr (wi_module item)
     \<and> wi_files item = sort_key Path (upload_files (latest_commits w (uc_ModuleRef content)) (uc_Files content))
     \<and> wi_expectedHead item = git_head renv w (wi_module item)
     \<and> checkUploadLimits renv (wi_files item) = None
     \<and> DigestFiles renv (wi_files item) = Inr (wi_digestBytes item) \<and> wi_dig item = hexEncode (wi_digestBytes item)
     \<and> (case latest_commits w (uc_ModuleRef content) of
          [] \<Rightarrow> wi_previousHead item = [] \<and> wi_listFiles item = []
        | c # _ \<Rightarrow> wi_previousHead item = Cm_CommitHash c \<and> (\<exists>fs. blobs_of renv w (Mod_Name (wi_module item)) (Cm_CommitHash c) fs
            \<and> wi_listFiles item = filter (\<lambda>p. p \<noteq> ''buf.yaml'') (map fst fs)))"

definition dedup_for :: "renv \<Rightarrow> world \<Rightarrow> UploadRequestContent \<Rightarrow> Commit \<Rightarrow> bool" where
  "dedup_for renv w content c \<longleftrightarrow> (\<exists>m d. module_GetByRef (uc_ModuleRef content) (module_rows w) = Inr m
     \<and> DigestFiles renv (upload_files (latest_commits w (uc_ModuleRef content)) (uc_Files content)) = Inr d
     \<and> commit_GetCommitByDigest (Mod_Id m) (hexEncode d) (commit_rows w) = Some c)"

lemma sort_files [simp]: "sort_key Path (sort_key Path fs) = sort_key Path fs"
  by (simp add: sorted_sort_id [of "map Path _"] sort_key_id_if_sorted)

lemma DigestFiles_sort [simp]: "DigestFiles renv (sort_key Path fs) = DigestFiles renv fs"
  by (simp add: DigestFiles_def)

lemma over_bytes_sum: "0 \<le> n \<Longrightarrow> n \<le> m \<Longrightarrow> over_bytes m n fs \<longleftrightarrow> n + (\<Sum>f\<leftarrow>fs. int (length (Content f))) > m"
proof (induction fs arbitrary: n)
  case (Cons f fs)
  have "0 \<le> (\<Sum>f\<leftarrow>fs. int (length (Content f)))" by (rule sum_list_nonneg) auto
  then show ?case using Cons.prems Cons.IH [of "n + int (length (Content f))"]
    by (cases "n + int (length (Content f)) \<le> m") (auto simp: Let_def)
qed simp

lemma max_bytes_pos: "0 < max_bytes renv"
  by (simp add: max_bytes_def defaultMaxUploadBytes_def)

lemma limits_iff:
  "checkUploadLimits renv fs = None \<longleftrightarrow> int (length fs) \<le> max_files renv \<and> (\<Sum>f\<leftarrow>fs. int (length (Content f))) \<le> max_bytes renv"
  using max_bytes_pos [of renv] by (auto simp: checkUploadLimits_def over_bytes_sum)

lemma limits_sort [simp]: "checkUploadLimits renv (sort_key Path fs) = None \<longleftrightarrow> checkUploadLimits renv fs = None"
proof -
  have "(\<Sum>f\<leftarrow>sort_key Path fs. int (length (Content f))) = (\<Sum>f\<leftarrow>fs. int (length (Content f)))"
    by (metis (no_types) mset_map mset_sort sum_mset_sum_list)
  then show ?thesis by (simp add: limits_iff)
qed

lemma digest_cut [simp]: "fst (CutPrefix (digest_String d) ''shake256:'') = hexEncode d"
  by (simp add: CutPrefix_def digest_String_def HasPrefix_def)

lemma prepare_files_after:
  assumes "\<And>e w'. after w (dbs w) w' \<Longrightarrow> Q (Inl e) w'"
    and "\<And>d c w'. DigestFiles renv fs = Inr d \<Longrightarrow> commit_GetCommitByDigest (Mod_Id m) (hexEncode d) (commit_rows w) = Some c \<Longrightarrow>
      after w (dbs w) w' \<Longrightarrow> Q (Inr (Dedup c)) w'"
    and "\<And>d cs w'. DigestFiles renv fs = Inr d \<Longrightarrow> checkUploadLimits renv fs = None \<Longrightarrow> after w (dbs w) w' \<Longrightarrow>
      Q (Inr (Work \<lparr>wi_module = m, wi_files = sort_key Path fs, wi_listFiles = ls, wi_dig = hexEncode d, wi_digestBytes = d,
               wi_previousHead = ph, wi_expectedHead = eh, wi_checks = cs\<rparr>)) w'"
  shows "wp (prepare_files renv m ph eh fs ls ps) Q w"
  unfolding prepare_files_def Let_def digest_cut
  by (intro wp_first wp_after) (auto simp: after_def intro: assms)

lemma prepare_after [wp_after]:
  assumes "\<And>e w'. after w (dbs w) w' \<Longrightarrow> Q (Inl e) w'"
    and "\<And>c w'. dedup_for renv w content c \<Longrightarrow> after w (dbs w) w' \<Longrightarrow> Q (Inr (Dedup c)) w'"
    and "\<And>item w'. item_for renv w content item \<Longrightarrow> after w (dbs w) w' \<Longrightarrow> Q (Inr (Work item)) w'"
  shows "wp (prepare renv content) Q w"
proof -
  have on: "wp (prepare_on renv content m (latest_commits w (uc_ModuleRef content)) eh) Q v"
    if m: "module_GetByRef (uc_ModuleRef content) (module_rows w) = Inr m" and v: "after w (dbs w) v" and eh: "eh = git_head renv w m" for m eh v
    unfolding prepare_on_def
    by (intro wp_first wp_after prepare_files_after)
      (use v m eh in \<open>auto simp: after_def upload_files_def dedup_for_def item_for_def blobs_of_def comp_def without_buf_yaml_def
         filter_map case_prod_beta intro!: assms\<close>)
  show ?thesis
    unfolding prepare_def
    by (intro wp_first wp_after on) (auto simp: after_def git_head_def intro!: assms on)
qed

definition prepared_for :: "renv \<Rightarrow> world \<Rightarrow> UploadRequestContent \<Rightarrow> prepared \<Rightarrow> bool" where
  "prepared_for renv w content p \<longleftrightarrow> (case p of Dedup c \<Rightarrow> dedup_for renv w content c | Work item \<Rightarrow> item_for renv w content item)"

lemma prepared_for_after:
  assumes "after w (dbs w) v"
  shows "prepared_for renv v = prepared_for renv w"
proof -
  have b: "blobs_of renv v = blobs_of renv w" using assms by (intro ext) (simp add: blobs_of_def after_def)
  have g: "git_head renv v = git_head renv w" using assms by (intro ext) (simp add: git_head_def after_def)
  have d: "dbs v = dbs w" using assms by (simp add: after_def)
  show ?thesis by (intro ext) (unfold prepared_for_def dedup_for_def item_for_def d b g, rule refl)
qed

lemma prepare_all_after [wp_after]:
  assumes "\<And>e w'. after w (dbs w) w' \<Longrightarrow> Q (Inl e) w'"
    and "\<And>ps w'. list_all2 (prepared_for renv w) contents ps \<Longrightarrow> after w (dbs w) w' \<Longrightarrow> Q (Inr ps) w'"
  shows "wp (prepare_all renv contents) Q w"
  using assms
proof (induction contents arbitrary: w Q)
  case Nil
  then show ?case by (auto intro!: wp_intros after_simps)
next
  case (Cons c cs)
  have err: "Q (Inl e) w'" if "after w (dbs w) v" "after v (dbs v) w'" for e v w'
    using Cons.prems(1) [of w' e] that by (simp add: after_def)
  have one: "prepared_for renv w c (Dedup x) \<longleftrightarrow> dedup_for renv w c x" "prepared_for renv w c (Work i) \<longleftrightarrow> item_for renv w c i" for x i
    by (simp_all add: prepared_for_def)
  have yes: "Q (Inr (p # ps)) w'" if "prepared_for renv w c p" "list_all2 (prepared_for renv v) cs ps" "after w (dbs w) v" "after v (dbs v) w'" for p ps v w'
    using Cons.prems(2) [of "p # ps" w'] that prepared_for_after [OF that(3)] by (simp add: after_def)
  show ?case
    unfolding prepare_all.simps
    by (intro wp_first wp_after Cons.IH;
        ((rule Cons.prems(1), assumption) | (rule err, assumption, assumption) | (rule yes, simp add: one, assumption+)))
qed

section \<open>All modules\<close>

text \<open>The modules the references of a request resolve to, and what a push may add for a set of module ids.\<close>

definition targets :: "world \<Rightarrow> UploadRequestContent list \<Rightarrow> Module set" where
  "targets w contents = {m. \<exists>c \<in> set contents. module_GetByRef (uc_ModuleRef c) (module_rows w) = Inr m}"

abbreviation module_ids :: "Module set \<Rightarrow> string set" where
  "module_ids ms \<equiv> ID ` Mod_Id ` ms"

definition adds_for :: "string set \<Rightarrow> world \<Rightarrow> world \<Rightarrow> bool" where
  "adds_for M w w' \<longleftrightarrow>
     (\<exists>new. commit_rows w' = commit_rows w @ new \<and> cm_module_id ` set new \<subseteq> M)
     \<and> (\<exists>new. job_table (registry (dbs w')) = job_table (registry (dbs w)) @ new \<and> jb_module_id ` set new \<subseteq> M)
     \<and> ciruns_kept (\<lambda>r. ci_module_id r \<notin> M) (cirun_table (registry (dbs w))) (cirun_table (registry (dbs w')))"

lemma adds_for_refl: "commit_rows w' = commit_rows w \<Longrightarrow> job_table (registry (dbs w')) = job_table (registry (dbs w)) \<Longrightarrow>
  cirun_table (registry (dbs w')) = cirun_table (registry (dbs w)) \<Longrightarrow> adds_for M w w'"
  by (simp add: adds_for_def ciruns_kept_def)

lemma ciruns_kept_less:
  assumes "ciruns_kept P t t'" and "\<And>r. Q r \<Longrightarrow> P r"
  shows "ciruns_kept Q t t'"
proof -
  have "filter Q xs = filter Q (filter P xs)" for xs using assms(2) by (auto intro: filter_cong)
  with assms(1) show ?thesis unfolding ciruns_kept_def by metis
qed

lemma adds_for_trans:
  assumes "adds_for M w v" and "adds_for N v w'"
  shows "adds_for (M \<union> N) w w'"
proof -
  from assms(1) obtain a a' where a: "commit_rows v = commit_rows w @ a" "cm_module_id ` set a \<subseteq> M"
    "job_table (registry (dbs v)) = job_table (registry (dbs w)) @ a'" "jb_module_id ` set a' \<subseteq> M"
    by (auto simp: adds_for_def)
  from assms(2) obtain b b' where b: "commit_rows w' = commit_rows v @ b" "cm_module_id ` set b \<subseteq> N"
    "job_table (registry (dbs w')) = job_table (registry (dbs v)) @ b'" "jb_module_id ` set b' \<subseteq> N"
    by (auto simp: adds_for_def)
  have "\<exists>new. commit_rows w' = commit_rows w @ new \<and> cm_module_id ` set new \<subseteq> M \<union> N"
    using a(1,2) b(1,2) by (intro exI [of _ "a @ b"]) auto
  moreover have "\<exists>new. job_table (registry (dbs w')) = job_table (registry (dbs w)) @ new \<and> jb_module_id ` set new \<subseteq> M \<union> N"
    using a(3,4) b(3,4) by (intro exI [of _ "a' @ b'"]) auto
  moreover have "ciruns_kept (\<lambda>r. ci_module_id r \<notin> M \<union> N) (cirun_table (registry (dbs w))) (cirun_table (registry (dbs v)))"
    using assms(1) by (auto simp: adds_for_def intro: ciruns_kept_less [of "\<lambda>r. ci_module_id r \<notin> M"])
  moreover have "ciruns_kept (\<lambda>r. ci_module_id r \<notin> M \<union> N) (cirun_table (registry (dbs v))) (cirun_table (registry (dbs w')))"
    using assms(2) by (auto simp: adds_for_def intro: ciruns_kept_less [of "\<lambda>r. ci_module_id r \<notin> N"])
  ultimately show ?thesis unfolding adds_for_def ciruns_kept_def by (intro conjI; argo)
qed

lemma recorded_adds:
  assumes "recorded renv item c (dbs w) (dbs w')"
  shows "adds_for {ID (Mod_Id (wi_module item))} w w'"
proof -
  have jobs: "jb_module_id ` set new \<subseteq> {ID mi}" if "list_all2 (job_for ci mi) gs new" for ci mi gs new
    using that by (induction rule: list_all2_induct) (auto simp: job_for_def)
  from assms obtain crow new where "commit_rows w' = commit_rows w @ [crow]" "cm_module_id crow = ID (Mod_Id (wi_module item))"
    "job_table (registry (dbs w')) = job_table (registry (dbs w)) @ new"
    "if SDKEnabled renv then list_all2 (job_for (Cm_Id c) (Mod_Id (wi_module item))) (Generators renv) new else new = []"
    and ci: "ciruns_kept (\<lambda>r. ci_key r \<noteq> (ID (Mod_Id (wi_module item)), Cm_CommitHash c)) (cirun_table (registry (dbs w))) (cirun_table (registry (dbs w')))"
    unfolding recorded_def by blast
  moreover from this(4) have "jb_module_id ` set new \<subseteq> {ID (Mod_Id (wi_module item))}" by (auto split: if_splits dest!: jobs)
  moreover have "ciruns_kept (\<lambda>r. ci_module_id r \<notin> {ID (Mod_Id (wi_module item))}) (cirun_table (registry (dbs w))) (cirun_table (registry (dbs w')))"
    by (rule ciruns_kept_less [OF ci]) simp
  ultimately show ?thesis unfolding adds_for_def by simp
qed

definition pushes_to :: "uploadWorkItem list \<Rightarrow> world \<Rightarrow> world \<Rightarrow> bool" where
  "pushes_to items w w' \<longleftrightarrow> only_at (Mod_Name ` wi_module ` set items) w w' \<and> unpushed (dbs w') = unpushed (dbs w)
     \<and> adds_for (module_ids (wi_module ` set items)) w w'"

lemma pushes_to_first: "pushes_to [i] w v \<Longrightarrow> pushes_to items v w' \<Longrightarrow> pushes_to (i # items) w w'"
  using adds_for_trans [of "module_ids (wi_module ` set [i])" w v "module_ids (wi_module ` set items)" w']
  by (fastforce simp: pushes_to_def only_at_def)

lemma pushes_to_none: "pushes_to [] w w"
  by (simp add: pushes_to_def only_at_def adds_for_refl)

lemma pushes_to_more: "pushes_to [i] w v \<Longrightarrow> pushes_to (i # items) w v"
  using adds_for_trans [of "module_ids (wi_module ` set [i])" w v "module_ids (wi_module ` set items)" v] adds_for_refl [of v v]
  by (fastforce simp: pushes_to_def only_at_def)

lemma upload_one_pushes:
  "push_failed renv i w v \<Longrightarrow> pushes_to [i] w v" "push_landed renv user i w c v \<Longrightarrow> pushes_to [i] w v"
proof -
  assume "push_failed renv i w v"
  then show "pushes_to [i] w v"
    by (auto simp: pushes_to_def push_failed_def only_at_def log_only_def unpushed_def reg_def intro!: adds_for_refl)
next
  assume l: "push_landed renv user i w c v"
  then have "adds_for {ID (Mod_Id (wi_module i))} w v" by (auto simp: push_landed_def intro: recorded_adds)
  with l show "pushes_to [i] w v"
    by (auto simp: pushes_to_def push_landed_def recorded_def only_at_def)
qed

lemma upload_work_after [wp_after]:
  assumes "\<And>x w'. pushes_to items w w' \<Longrightarrow> Q x w'"
  shows "wp (upload_work env renv user ns items) Q w"
  using assms
proof (induction items arbitrary: w ns)
  case Nil
  with pushes_to_none [of w] show ?case by (auto intro!: wp_intros)
next
  case (Cons i items')
  show ?case
    unfolding upload_work.simps
    by (intro wp_first wp_after Cons.IH) (auto intro!: Cons.prems dest: upload_one_pushes intro: pushes_to_first pushes_to_more)
qed

lemma BatchCan_steady:
  assumes "steady w0 w" and "visits (ord_entries env)"
    and "\<And>e w'. steady w0 w' \<Longrightarrow> Q (Inl e) w'"
    and "\<And>resp w'. steady w0 w' \<Longrightarrow> (faults w = [] \<Longrightarrow> faults w' = []) \<Longrightarrow> Allowed resp = (\<forall>p \<in> set ps. may_act env w0 ctx p) \<Longrightarrow> Q (Inr resp) w'"
  shows "wp (BatchCan env ctx ps) Q w"
proof (rule wp_conseq [OF BatchCan_decides [OF _ assms(2)]])
  show "cache_coherent w" using assms(1) by (simp add: steady_def)
next
  fix r :: "can_response res" and w'
  assume c: "same_state w w' \<and> cache_coherent w' \<and> calm w r w' \<and>
     (\<forall>resp. r = Inr resp \<longrightarrow> Allowed resp = (\<forall>p \<in> set ps. may_act env w ctx p) \<and> (Allowed resp \<longleftrightarrow> DeniedPolicy resp = None)
        \<and> (\<forall>p. DeniedPolicy resp = Some p \<longrightarrow> p \<in> set ps \<and> \<not> may_act env w ctx p))"
  then have st: "steady w0 w'" using assms(1) same_state_trans by (auto simp: steady_def)
  have "may_act env w ctx p = may_act env w0 ctx p" for p using may_act_same assms(1) by (simp add: steady_def)
  with st c assms(3) [of w'] assms(4) [of w'] show "Q r w'" by (cases r) (auto simp: calm_def)
qed

text \<open>Every push that gets past the checks is a signed-in caller's, with acceptable files and the permission
  to push to every module it names.\<close>

definition may_upload :: "env \<Rightarrow> renv \<Rightarrow> world \<Rightarrow> reqctx \<Rightarrow> User \<Rightarrow> UploadRequestContent \<Rightarrow> bool" where
  "may_upload env renv w ctx user c \<longleftrightarrow> may_act env w ctx (push_policy user c) \<and> Validate (uc_Files c) = None
     \<and> checkUploadLimits renv (uc_Files c) = None"

lemma check_contents_None:
  "check_contents renv cs = None \<longleftrightarrow> (\<forall>c \<in> set cs. Validate (uc_Files c) = None \<and> checkUploadLimits renv (uc_Files c) = None)"
  by (induction cs) (auto split: option.splits)

lemma Upload_allowed:
  assumes "cache_coherent w" and "visits (ord_entries env)"
    and err: "\<And>e w'. dbs w' = dbs w \<Longrightarrow> repos w' = repos w \<Longrightarrow> Q (Inl e) w'"
    and go: "\<And>user v. ctx_user ctx = Some user \<Longrightarrow> \<forall>c \<in> set contents. may_upload env renv w ctx user c \<Longrightarrow> after w (dbs w) v \<Longrightarrow>
      wp (upload_checked env renv user contents) Q v"
  shows "wp (Upload env renv ctx contents) Q w"
proof -
  have st: "steady w w" using assms(1) by (rule steady_refl)
  have no: "Q (Inl e) w'" if "steady w w'" for e w' using that by (auto intro: err simp: steady_def same_state_def)
  have yes: "wp (upload_checked env renv user contents) Q v"
    if "ctx_user ctx = Some user" "check_contents renv contents = None" "steady w v" "faults w = [] \<longrightarrow> faults v = []"
      "\<forall>p \<in> set (map (push_policy user) contents). may_act env w ctx p" for user v
    by (rule go) (use that in \<open>auto simp: may_upload_def check_contents_None steady_def same_state_def after_def\<close>)
  show ?thesis
    unfolding Upload_def
    by (intro wp_intros BatchCan_steady [OF st assms(2)]; (rule no | rule yes); simp add: st)
qed

lemma GetByRef_name: "module_GetByRef ref t = Inr m \<Longrightarrow> Ref_Id ref = [] \<Longrightarrow> Mod_Name m = Ref_Owner ref @ ''/'' @ Ref_Module ref"
  by (auto simp: module_GetByRef_def query_row_def split: option.splits if_splits sum.splits dest!: find_Some_in)

lemma upload_checked_pushes:
  assumes "\<And>x items w'. pushes_to items w w' \<Longrightarrow> (\<And>i. i \<in> set items \<Longrightarrow> \<exists>c \<in> set contents. item_for renv w c i) \<Longrightarrow> Q x w'"
  shows "wp (upload_checked env renv user contents) Q w"
proof -
  have items: "\<exists>c \<in> set contents. item_for renv w c i" if "list_all2 (prepared_for renv w) contents ps" "i \<in> set (work_items ps)" for ps i
    using that by (auto simp: work_items_def prepared_for_def list_all2_conv_all_nth in_set_conv_nth split: prepared.splits) (metis nth_mem prepared.simps(6))
  have shift: "pushes_to items w w'" if "pushes_to items v w'" "after w (dbs w) v" for items v w'
    using that by (simp add: pushes_to_def only_at_def after_def adds_for_def)
  have none: "Q x w'" if "after w (dbs w) w'" for x w'
    by (rule assms [of "[]"]) (use that in \<open>auto simp: pushes_to_def only_at_def after_def intro!: adds_for_refl\<close>)
  show ?thesis
    unfolding upload_checked_def
    by (intro wp_first wp_after; (erule none | (rule assms, erule (1) shift, erule (1) items)))
qed

section \<open>Where a push writes\<close>

text \<open>A reference with an id resolves by the id alone, while the permission is asked for the owner and the
  name beside it: with the id of one module and the name of another, the two are about different modules.\<close>

lemma push_by_id_unchecked:
  assumes "Ref_Id ref \<noteq> []"
  shows "module_GetByRef (ref\<lparr>Ref_Owner := o', Ref_Module := n'\<rparr>) t = module_GetByRef ref t
    \<and> Domain (push_policy user (c\<lparr>uc_ModuleRef := ref\<lparr>Ref_Owner := o', Ref_Module := n'\<rparr>\<rparr>)) = o' @ ''/'' @ n'"
  using assms by (simp add: module_GetByRef_def push_policy_def)

text \<open>C16. What a push may write.  With a coherent cache, and whatever calls fail: if \<open>Upload\<close> changes any
  table or repository then the caller is signed in, every file of the request has a safe path and is
  within the limits, and the caller's role and token allow \<open>module:push\<close> on the owner and name of every
  reference of the request; only repositories of modules the references resolve to change; every new
  commit row and every new generation job belongs to one of these modules, and the records of checks of
  other modules stay as they were; and the accounts, credentials, roles and modules themselves are never
  touched.  A reference without an id resolves to the module with the owner and name the permission was
  asked for.  A reference with an id does not (\<open>push_by_id_unchecked\<close>).\<close>

theorem upload_only_where_permitted:
  assumes "cache_coherent w" and "visits (ord_entries env)" and "run (Upload env renv ctx contents) w = (res, w')"
  shows "unpushed (dbs w') = unpushed (dbs w)
    \<and> (dbs w' \<noteq> dbs w \<or> repos w' \<noteq> repos w \<longrightarrow>
         (\<exists>user. ctx_user ctx = Some user \<and> list_all (may_upload env renv w ctx user) contents))
    \<and> only_at (Mod_Name ` targets w contents) w w' \<and> adds_for (module_ids (targets w contents)) w w'
    \<and> (\<forall>user. \<forall>c \<in> set contents. \<forall>m. Ref_Id (uc_ModuleRef c) = [] \<and> module_GetByRef (uc_ModuleRef c) (module_rows w) = Inr m
         \<longrightarrow> Mod_Name m = Domain (push_policy user c))"
    (is "?ok w'")
proof -
  define ok where "ok v \<longleftrightarrow> ?ok v" for v
  have named: "Mod_Name m = Domain (push_policy user c)"
    if "Ref_Id (uc_ModuleRef c) = []" "module_GetByRef (uc_ModuleRef c) (module_rows w) = Inr m" for user c m
    using GetByRef_name [OF that(2,1)] by (simp add: push_policy_def)
  have pushed: "ok v'" if u: "ctx_user ctx = Some user" "\<forall>c \<in> set contents. may_upload env renv w ctx user c" and v: "after w (dbs w) v"
     and p: "pushes_to items v v'" and i: "\<And>i. i \<in> set items \<Longrightarrow> \<exists>c \<in> set contents. item_for renv v c i" for user v v' items
  proof -
    have it: "wi_module ` set items \<subseteq> targets w contents"
      using i v by (fastforce simp: item_for_def after_def targets_def)
    have "adds_for (module_ids (wi_module ` set items)) w v'" and at: "only_at (Mod_Name ` wi_module ` set items) w v'"
      and un: "unpushed (dbs v') = unpushed (dbs w)"
      using p v by (simp_all add: pushes_to_def after_def adds_for_def only_at_def)
    then have "adds_for (module_ids (targets w contents)) w v'"
      using adds_for_trans [OF _ adds_for_refl [OF refl refl refl], of "module_ids (wi_module ` set items)" w v' "module_ids (targets w contents)"]
        it Un_absorb1 [OF image_mono [OF image_mono [OF it]], of ID Mod_Id] by simp
    moreover have "only_at (Mod_Name ` targets w contents) w v'" using at it by (auto simp: only_at_def)
    ultimately show ?thesis unfolding ok_def using u un named by (auto simp: list_all_iff)
  qed
  have "ok v'" if "dbs v' = dbs w" "repos v' = repos w" for v'
    unfolding ok_def using that named by (auto simp: only_at_def intro!: adds_for_refl)
  then have "wp (Upload env renv ctx contents) (\<lambda>_. ok) w"
    by (intro Upload_allowed [OF assms(1,2)] upload_checked_pushes) (auto intro: pushed)
  from wp_run [OF this assms(3)] show ?thesis unfolding ok_def .
qed

section \<open>What a push publishes\<close>

lemma pushed_filter_path: "pushed fs p = (case filter (\<lambda>f. Path f = p) fs of [] \<Rightarrow> None | x # xs \<Rightarrow> Some (Content (last (x # xs))))"
proof (induction fs rule: rev_induct)
  case (snoc f fs)
  then show ?case by (auto simp: pushed_def split: list.splits)
qed (simp add: pushed_def)

lemma pushed_sort [simp]: "pushed (sort_key Path fs) = pushed fs"
  by (rule ext) (simp add: pushed_filter_path sort_key_stable)

lemma pushed_filter: "pushed (filter (\<lambda>f. P (Path f)) fs) p = (if P p then pushed fs p else None)"
proof -
  have "filter (\<lambda>f. P (Path f) \<and> Path f = p) fs = (if P p then filter (\<lambda>f. Path f = p) fs else [])"
    by (auto simp: filter_empty_conv intro: filter_cong)
  then show ?thesis by (simp add: pushed_filter_path)
qed

lemma pushed_upload_map: "pushed (upload_map fs) = pushed (without_buf_yaml fs)"
proof -
  let ?m = "fold put_file (without_buf_yaml fs) []"
  have d: "distinct (map fst ?m)" by (intro distinct_fold_put) simp
  have "pushed (upload_map fs) = map_of (rev ?m)"
    by (simp add: pushed_def upload_map_def without_buf_yaml_def comp_def case_prod_beta)
  also have "\<dots> = map_of ?m" using d by (simp add: map_of_inject_set distinct_map)
  finally show ?thesis by (simp add: map_of_fold_put pushed_def)
qed

text \<open>The files of a push that are published: the last of each path, if the path is one a module may hold
  and not the registry's own \<open>buf.yaml\<close>.\<close>

definition module_files :: "upload_file list \<Rightarrow> (string \<rightharpoonup> string)" where
  "module_files fs p = (if p \<noteq> ''buf.yaml'' \<and> ValidatePath p = None \<and> (HasSuffix p ''.proto'' \<or> p \<in> set allowedFiles)
     then pushed fs p else None)"

lemma pushed_GetPath:
  "pushed (GetPath fs) p = (if ValidatePath p = None \<and> (HasSuffix p ''.proto'' \<or> p \<in> set allowedFiles) then pushed fs p else None)"
  unfolding GetPath_filter
  by (rule pushed_filter [where P = "\<lambda>p. ValidatePath p = None \<and> (HasSuffix p ''.proto'' \<or> p \<in> set allowedFiles)"])

lemma pushed_upload_files: "pushed (upload_files cs fs) = module_files fs"
proof (rule ext)
  fix p
  have f: "pushed (without_buf_yaml fs) p = (if p \<noteq> ''buf.yaml'' then pushed fs p else None)"
    unfolding without_buf_yaml_def by (rule pushed_filter [where P = "\<lambda>p. p \<noteq> ''buf.yaml''"])
  have "pushed (upload_files cs fs) p = pushed (GetPath (without_buf_yaml fs)) p"
    by (cases cs) (simp_all add: upload_files_def pushed_GetPath pushed_upload_map)
  also have "\<dots> = module_files fs p" unfolding pushed_GetPath module_files_def f by (cases "p = ''buf.yaml''") simp_all
  finally show "pushed (upload_files cs fs) p = module_files fs p" .
qed

lemma push_failed_from: "push_failed renv item v w' \<Longrightarrow> after w (dbs w) v \<Longrightarrow> push_failed renv item w w'"
  by (auto simp: push_failed_def only_at_def after_def)

lemma push_landed_from: "push_landed renv user item v c w' \<Longrightarrow> after w (dbs w) v \<Longrightarrow> push_landed renv user item w c w'"
  by (simp add: push_landed_def after_def)

lemma upload_checked_one:
  assumes "\<And>e w'. after w (dbs w) w' \<Longrightarrow> Q (Inl e) w'"
    and "\<And>e item w'. item_for renv w content item \<Longrightarrow> push_failed renv item w w' \<Longrightarrow> Q (Inl e) w'"
    and "\<And>c w'. dedup_for renv w content c \<Longrightarrow> after w (dbs w) w' \<Longrightarrow> Q (Inr [c]) w'"
    and "\<And>item c w'. item_for renv w content item \<Longrightarrow> push_landed renv user item w c w' \<Longrightarrow> Q (Inr [c]) w'"
  shows "wp (upload_checked env renv user [content]) Q w"
proof -
  have work: "wp (upload_work env renv user [] (work_items [p])) (\<lambda>n. wp (case n of Inl e \<Rightarrow> fail e | Inr ns \<Rightarrow> ok (dedup_commits [p] @ ns)) Q) v"
    if "prepared_for renv w content p" "after w (dbs w) v" for p v
  proof (cases p)
    case (Dedup c)
    with that assms(3) show ?thesis by (auto simp: prepared_for_def work_items_def dedup_commits_def intro!: wp_intros)
  next
    case (Work item)
    then have i: "item_for renv w content item" using that(1) by (simp add: prepared_for_def)
    have "wp (upload_one env renv user [] item) (\<lambda>r. wp (case r of Inl e \<Rightarrow> fail e | Inr c \<Rightarrow> ok [c]) Q) v"
      by (intro wp_first upload_one_after wp_after) (auto intro: assms(2,4) [OF i] dest: push_failed_from [OF _ that(2)] push_landed_from [OF _ that(2)])
    moreover have "work_items [Work item] = [item]" "dedup_commits [Work item] = []" by (simp_all add: work_items_def dedup_commits_def)
    ultimately show ?thesis unfolding Work
      by (simp only: upload_work.simps append_Nil) (intro wp_bind, erule wp_conseq, auto split: sum.splits simp: wp_def)
  qed
  show ?thesis
    unfolding upload_checked_def
    by (intro wp_first wp_bind prepare_all_after wp_sum; simp?; (auto simp: list_all2_Cons1 intro!: wp_intros assms(1) intro: work)?)
qed

text \<open>The database's latest commit of the module is where the module's branch is.\<close>

definition head_in_step :: "renv \<Rightarrow> world \<Rightarrow> UploadRequestContent \<Rightarrow> bool" where
  "head_in_step renv w content \<longleftrightarrow> (\<forall>m r. module_GetByRef (uc_ModuleRef content) (module_rows w) = Inr m \<and> openRepo (repos w) (Mod_Name m) = Inr r \<longrightarrow>
     (\<exists>c cs. latest_commits w (uc_ModuleRef content) = c # cs \<and> Cm_CommitHash c \<noteq> []
        \<and> branches r (Mod_DefaultBranch m) = Some (NewHash renv (Cm_CommitHash c))))"

lemma head_in_step_item:
  "head_in_step renv w content \<Longrightarrow> item_for renv w content item \<Longrightarrow> openRepo (repos w) (Mod_Name (wi_module item)) = Inr r \<Longrightarrow> in_step renv item r"
  by (fastforce simp: head_in_step_def item_for_def in_step_def)

definition published_as :: "renv \<Rightarrow> world \<Rightarrow> UploadRequestContent \<Rightarrow> Commit \<Rightarrow> world \<Rightarrow> bool" where
  "published_as renv w content c w' \<longleftrightarrow> (\<exists>item r r'. item_for renv w content item \<and> recorded renv item c (dbs w) (dbs w')
     \<and> openRepo (repos w) (Mod_Name (wi_module item)) = Inr r \<and> repos w' = (repos w)(Mod_Name (wi_module item) \<mapsto> r')
     \<and> (case branches r (Mod_DefaultBranch (wi_module item)) of
          None \<Rightarrow> git_head renv w (wi_module item) = []
        | Some h \<Rightarrow> git_head renv w (wi_module item) \<noteq> [] \<and> EqualFold h (git_head renv w (wi_module item)))
     \<and> (no_clash renv r \<longrightarrow> branches r' = (branches r)(Mod_DefaultBranch (wi_module item) \<mapsto> Cm_CommitHash c)
          \<and> objects r \<subseteq>\<^sub>m objects r'
          \<and> (head_in_step renv w content \<longrightarrow> (\<forall>p. head_files r' (Mod_DefaultBranch (wi_module item)) p =
                (if p = ''buf.yaml'' then head_files r (Mod_DefaultBranch (wi_module item)) p else module_files (uc_Files content) p)))))"

lemma landed_files:
  assumes i: "item_for renv w content item" and step: "head_in_step renv w content"
    and r: "openRepo (repos w) (Mod_Name (wi_module item)) = Inr r" and put: "put_done (upload_put user item) r h r'"
  shows "head_files r' (Mod_DefaultBranch (wi_module item)) p =
    (if p = ''buf.yaml'' then head_files r (Mod_DefaultBranch (wi_module item)) p else module_files (uc_Files content) p)"
proof -
  let ?b = "Mod_DefaultBranch (wi_module item)"
  have files: "pushed (wi_files item) = module_files (uc_Files content)" using i by (simp add: item_for_def pushed_upload_files)
  from step i r obtain c cs where lc: "latest_commits w (uc_ModuleRef content) = c # cs"
    and br: "branches r ?b = Some (NewHash renv (Cm_CommitHash c))" by (fastforce simp: head_in_step_def item_for_def)
  with i r obtain c0 where c0: "objects r (NewHash renv (Cm_CommitHash c)) = Some c0"
    and ls: "wi_listFiles item = filter (\<lambda>p. p \<noteq> ''buf.yaml'') (map fst (tree_Files (co_tree c0)))"
    by (auto simp: item_for_def blobs_of_def)
  have old: "head_files r ?b = commit_files c0" using br c0 by (simp add: head_files_def)
  have gone: "commit_files c0 p = None" if "p \<notin> fst ` set (tree_Files (co_tree c0))"
    using that by (simp add: commit_files_def map_of_file_map map_of_eq_None_iff)
  have no_buf: "module_files (uc_Files content) ''buf.yaml'' = None" by (simp add: module_files_def)
  from put [unfolded put_done_def upload_put_simps] obtain c1 where c1: "branches r' = (branches r)(?b \<mapsto> h)" "objects r' h = Some c1"
    and cf: "commit_files c1 p = (case pushed (wi_files item) p of Some x \<Rightarrow> Some x
      | None \<Rightarrow> if p \<in> set (wi_listFiles item) then None else head_files r ?b p)" for p by blast
  have "head_files r' ?b p = (case module_files (uc_Files content) p of Some x \<Rightarrow> Some x
      | None \<Rightarrow> if p \<in> set (wi_listFiles item) then None else head_files r ?b p)"
    using c1 cf [of p] by (simp add: head_files_def [of r'] files)
  then show ?thesis using gone old no_buf ls
    by (cases "p = ''buf.yaml''") (auto split: option.splits)
qed

text \<open>C17. A push publishes exactly what was pushed, unless the same content is already there.  When \<open>Upload\<close>
  of one module succeeds, for a caller who may push, there are two cases.  Either a commit of the module,
  not necessarily its latest, already has the digest of the pushed files: then that commit is the answer
  and nothing changes.  Or a commit has been recorded with the digest of the published files and a
  pending generation job for every generator, and the branch stood at the head that was read from git
  when the push was prepared (it did not exist if none was read).  In that second case, if the hash of
  the new commit is not already that of another object, the module's branch alone has moved, to the new
  commit, every older commit staying readable; and if moreover the database and the branch agreed
  before, the branch's files now are exactly the publishable files of the push (the last of each path)
  and the registry's \<open>buf.yaml\<close>: a file that is no longer pushed is withdrawn.  When it fails, no table but
  the operation log has changed, and if nothing failed in the environment and the database and the
  branch agreed, no branch of any repository has moved.\<close>

theorem upload_publishes_the_push:
  assumes "cache_coherent w" and "visits (ord_entries env)" and "run (Upload env renv ctx [content]) w = (res, w')"
  shows "case res of
     Inl e \<Rightarrow> log_only (dbs w) (dbs w')
       \<and> (faults w = [] \<and> hash_sized renv \<and> head_in_step renv w content \<longrightarrow> same_heads (repos w) (repos w'))
   | Inr cs \<Rightarrow> \<exists>user c. ctx_user ctx = Some user \<and> may_upload env renv w ctx user content \<and> cs = [c]
       \<and> (dedup_for renv w content c \<and> dbs w' = dbs w \<and> repos w' = repos w \<or> published_as renv w content c w')"
    (is "?ok res w'")
proof -
  define ok where "ok r v \<longleftrightarrow> ?ok r v" for r v
  have same: "ok (Inl e) v" if "dbs v = dbs w" "repos v = repos w" for e v using that by (auto simp: ok_def)
  have checked: "wp (upload_checked env renv user [content]) ok v"
    if u: "ctx_user ctx = Some user" "\<forall>c \<in> set [content]. may_upload env renv w ctx user c" and v: "after w (dbs w) v" for user v
  proof -
    note fm = prepared_for_after [OF v, of renv, THEN fun_cong, THEN fun_cong, of content, unfolded prepared_for_def]
    have it: "item_for renv v content i \<longleftrightarrow> item_for renv w content i" for i using fm [of "Work i"] by simp
    have de: "dedup_for renv v content c \<longleftrightarrow> dedup_for renv w content c" for c using fm [of "Dedup c"] by simp
    show ?thesis
    proof (rule upload_checked_one)
      fix e w' assume "after v (dbs v) w'"
      then show "ok (Inl e) w'" using v by (intro same) (simp_all add: after_def)
    next
      fix e item w' assume i: "item_for renv v content item" and "push_failed renv item v w'"
      then have p: "push_failed renv item w w'" and i': "item_for renv w content item"
        using push_failed_from [OF _ v] it by auto
      have "same_heads (repos w) (repos w')" if "faults w = []" "hash_sized renv" "head_in_step renv w content"
        using p head_in_step_item [OF that(3) i'] that by (simp add: push_failed_def)
      then show "ok (Inl e) w'" using p by (simp add: ok_def push_failed_def)
    next
      fix c w' assume "dedup_for renv v content c" "after v (dbs v) w'"
      then show "ok (Inr [c]) w'" using u v de by (simp add: ok_def after_def)
    next
      fix item c w' assume "item_for renv v content item" "push_landed renv user item v c w'"
      then have i: "item_for renv w content item" and p: "push_landed renv user item w c w'" using it push_landed_from [OF _ v] by auto
      then obtain r r' k h where c: "c = pushed_commit user item k h" and r: "openRepo (repos w) (Mod_Name (wi_module item)) = Inr r"
        "repos w' = (repos w)(Mod_Name (wi_module item) \<mapsto> r')" "no_clash renv r \<Longrightarrow> put_done (upload_put user item) r h r'"
        and eh: "checkExpectedHead (wi_expectedHead item) (branches r (Mod_DefaultBranch (wi_module item))) = Inr ()"
        by (auto simp: push_landed_def)
      have hd: "case branches r (Mod_DefaultBranch (wi_module item)) of
          None \<Rightarrow> git_head renv w (wi_module item) = []
        | Some h \<Rightarrow> git_head renv w (wi_module item) \<noteq> [] \<and> EqualFold h (git_head renv w (wi_module item))"
        using eh i by (auto simp: checkExpectedHead_def item_for_def split: option.splits if_splits)
      have "branches r' = (branches r)(Mod_DefaultBranch (wi_module item) \<mapsto> h) \<and> objects r \<subseteq>\<^sub>m objects r'" if "no_clash renv r"
        using r(3) [OF that] by (simp add: put_done_def)
      then have "published_as renv w content c w'"
        unfolding published_as_def using p i r(1,2) hd landed_files [OF i _ r(1) r(3)]
        by (intro exI [of _ item] exI [of _ r] exI [of _ r'] conjI impI allI) (auto simp: push_landed_def c pushed_commit_def)
      then show "ok (Inr [c]) w'" using u by (simp add: ok_def)
    qed
  qed
  have "wp (Upload env renv ctx [content]) ok w"
    by (rule Upload_allowed [OF assms(1,2) same checked])
  from wp_run [OF this assms(3)] show ?thesis unfolding ok_def .
qed

section \<open>A module with one commit\<close>

definition demo_commit :: commit_row where
  "demo_commit = \<lparr>cm_id = demo_hex 5, cm_create_time = 0, cm_update_time = 0, cm_commit_hash = demo_sum (CHR ''a''),
     cm_owner_id = demo_hex 1, cm_module_id = demo_hex 4, cm_digest_type = DIGEST_TYPE_B5, cm_digest_value = Some [],
     cm_created_by_user_id = demo_hex 1, cm_source_control_url = []\<rparr>"

definition commit_world :: world where
  "commit_world = module_world\<lparr>dbs := reg (\<lambda>rg. rg\<lparr>commit_table := [demo_commit]\<rparr>) (dbs module_world)\<rparr>"

definition demo_content :: UploadRequestContent where
  "demo_content = \<lparr>uc_ModuleRef = \<lparr>Ref_Id = [], Ref_Owner = ''alice'', Ref_Module = ''m''\<rparr>,
     uc_Files = [\<lparr>Path = ''a.proto'', Content = ''x''\<rparr>]\<rparr>"

lemma commit_world_simps [simp]:
  "users (dbs commit_world) = [demo_user]" "module_rows commit_world = [demo_module]" "commit_rows commit_world = [demo_commit]"
  "repos commit_world = [''alice/m'' \<mapsto> demo_repo]" "faults commit_world = []"
  by (simp_all add: commit_world_def)

lemma commit_coherent: "cache_coherent commit_world"
  using module_coherent by (simp add: coherent_def' current_bindings_def commit_world_def)

lemma commit_decision: "decision env commit_world p = decision env module_world p"
  by (simp add: decision_def current_bindings_def commit_world_def)

lemma demo_in_step: "head_in_step demo_renv commit_world demo_content" "hash_sized demo_renv"
proof -
  have m: "module_GetByRef (uc_ModuleRef demo_content) [demo_module] = Inr (scanSQLiteModule demo_module)" by code_simp
  have "map Cm_CommitHash (commit_ByRef [demo_user] [demo_module] (uc_ModuleRef demo_content) [demo_commit]) = [demo_sum (CHR ''a'')]" by code_simp
  then have c: "\<exists>c. commit_ByRef [demo_user] [demo_module] (uc_ModuleRef demo_content) [demo_commit] = [c] \<and> Cm_CommitHash c = demo_sum (CHR ''a'')"
    by (auto simp: map_eq_Cons_conv)
  have n: "md_name demo_module = ''alice/m''" "md_default_branch demo_module = ''main''" by (simp_all add: demo_module_def)
  have b: "branches demo_repo ''main'' = Some (NewHash demo_renv (demo_sum (CHR ''a'')))" by (simp add: demo_repo_def demo_renv_def)
  show "head_in_step demo_renv commit_world demo_content"
    using c unfolding head_in_step_def commit_world_simps m sum.inject
    by (auto simp: n demo_repo_opens b)
  show "hash_sized demo_renv" by (simp add: hash_sized_def demo_renv_def)
qed

lemma bob_may_not: "ctx_user (as_user ''bob'') = Some u \<Longrightarrow> \<not> may_upload demo_env demo_renv commit_world (as_user ''bob'') u c"
  using demo_decisions(2) by (auto simp: may_upload_def may_act_def push_policy_def commit_decision ResourceModule_def VisibilityPrivate_def)

theorem upload_only_where_permitted_witness:
  "dbs (snd (run (Upload demo_env demo_renv (as_user ''bob'') [demo_content]) commit_world)) = dbs commit_world
   \<and> repos (snd (run (Upload demo_env demo_renv (as_user ''bob'') [demo_content]) commit_world)) ''alice/m'' = Some demo_repo"
proof -
  obtain res w' where r: "run (Upload demo_env demo_renv (as_user ''bob'') [demo_content]) commit_world = (res, w')" by fastforce
  from upload_only_where_permitted [OF commit_coherent demo_visits(1) r] bob_may_not r show ?thesis by force
qed

theorem upload_publishes_the_push_witness:
  "head_in_step demo_renv commit_world demo_content \<and> hash_sized demo_renv
   \<and> (\<exists>e w'. run (Upload demo_env demo_renv (as_user ''bob'') [demo_content]) commit_world = (Inl e, w')
        \<and> log_only (dbs commit_world) (dbs w') \<and> same_heads (repos commit_world) (repos w'))"
proof -
  obtain res w' where r: "run (Upload demo_env demo_renv (as_user ''bob'') [demo_content]) commit_world = (res, w')" by fastforce
  from upload_publishes_the_push [OF commit_coherent demo_visits(1) r] bob_may_not demo_in_step r show ?thesis
    by (cases res) auto
qed

end
