(* ===== verification/Commit_Facts.thy ===== *)
theory Commit_Facts
  imports Commit_Server Upload_Facts
begin

text \<open>
  Reading never leaves the modules a caller may read: every commit, file, check result and SDK that is
  returned belongs to a module the policy and the token allow, and a download is bounded.
\<close>

section \<open>Commits and their modules\<close>

text \<open>Identifiers are 32 hexadecimal digits, unique within a table and not shared between modules and
  commits; names are unique.\<close>

definition ids_ok :: "registry_db \<Rightarrow> bool" where
  "ids_ok rg \<longleftrightarrow> distinct (map md_id (module_table rg)) \<and> distinct (map md_name (module_table rg))
     \<and> list_all (\<lambda>m. is_hex32 (md_id m)) (module_table rg) \<and> list_all (\<lambda>c. is_hex32 (cm_module_id c)) (commit_table rg)
     \<and> md_id ` set (module_table rg) \<inter> cm_id ` set (commit_table rg) = {}"

definition commit_of :: "world \<Rightarrow> module_row \<Rightarrow> Commit \<Rightarrow> bool" where
  "commit_of w m c \<longleftrightarrow> (\<exists>r \<in> set (commit_rows w). cm_module_id r = md_id m
     \<and> Cm_Id c = Canonical (cm_id r) \<and> Cm_CommitHash c = cm_commit_hash r \<and> commit_module c = md_name m)"

definition readable_row :: "env \<Rightarrow> world \<Rightarrow> reqctx \<Rightarrow> module_row \<Rightarrow> bool" where
  "readable_row env w ctx m \<longleftrightarrow> m \<in> set (module_rows w) \<and> readable_by env w ctx [scanSQLiteModule m]"

definition readable_commit :: "env \<Rightarrow> world \<Rightarrow> reqctx \<Rightarrow> Commit \<Rightarrow> bool" where
  "readable_commit env w ctx c \<longleftrightarrow> (\<exists>m. readable_row env w ctx m \<and> commit_of w m c)"

lemma find_by:
  assumes "distinct (map f xs)" and "x \<in> set xs" and "find (\<lambda>y. f y = f x) xs = Some z"
  shows "z = x"
  using find_unique [OF assms(1,2)] assms(3) by simp

lemma join_commit_in:
  assumes "c \<in> set (join_commit us ms r)"
  shows "(\<exists>m \<in> set ms. md_id m = cm_module_id r \<and> commit_module c = md_name m) \<and> Cm_ModuleId c = Canonical (cm_module_id r)
     \<and> Cm_Id c = Canonical (cm_id r) \<and> Cm_CommitHash c = cm_commit_hash r"
proof -
  show ?thesis
  proof (cases "find (\<lambda>u. us_id u = cm_owner_id r) us")
    case (Some u)
    show ?thesis
    proof (cases "find (\<lambda>m. md_id m = cm_module_id r) ms")
      case (Some m)
      with \<open>find (\<lambda>u. us_id u = cm_owner_id r) us = Some u\<close> assms have "c = scanCommit (us_username u) (Some (only_name (md_name m))) r"
        by (simp add: join_commit_def)
      with find_Some_in [OF Some] show ?thesis by (auto simp: scanCommit_def commit_module_def only_name_def)
    qed (use assms Some in \<open>simp add: join_commit_def\<close>)
  qed (use assms in \<open>simp add: join_commit_def\<close>)
qed

lemma GetByHash_in:
  assumes "commit_GetByHash us ms h t = Inr c"
  shows "\<exists>r \<in> set t. c \<in> set (join_commit us ms r) \<and> cm_commit_hash r = h"
proof -
  from assms obtain cs where "concat (map (join_commit us ms) (filter (\<lambda>r. cm_commit_hash r = h) t)) = c # cs"
    by (auto simp: commit_GetByHash_def split: list.splits)
  then have "c \<in> set (concat (map (join_commit us ms) (filter (\<lambda>r. cm_commit_hash r = h) t)))" by simp
  then show ?thesis by auto
qed

definition names_row :: "ModuleRef \<Rightarrow> module_row \<Rightarrow> bool" where
  "names_row ref m \<longleftrightarrow> (if Ref_Id ref \<noteq> [] then md_id m = ID (Ref_Id ref) else md_name m = Ref_Owner ref @ CHR ''/'' # Ref_Module ref)"

lemma GetByRef_in: "module_GetByRef ref t = Inr md \<Longrightarrow> \<exists>m \<in> set t. md = scanSQLiteModule m \<and> names_row ref m"
  by (auto simp: names_row_def module_GetByRef_def query_row_def dest!: find_Some_in split: option.splits if_splits)

lemma newest_first_in: "r \<in> set (newest_first t) \<longleftrightarrow> r \<in> set t"
  by (simp add: newest_first_def order_desc_def)

lemma sql_page_subset: "set (sql_page l off xs) \<subseteq> set xs"
  unfolding sql_page_def by (auto dest: in_set_takeD in_set_dropD)

lemma row_commits:
  assumes ok: "ids_ok (registry (dbs w))" and rd: "readable_row env w ctx m" and r: "r \<in> set (commit_rows w)" "cm_module_id r = md_id m"
    and c: "c \<in> set (join_commit us (module_rows w) r)"
  shows "readable_commit env w ctx c"
proof -
  from join_commit_in [OF c] obtain m' where m': "m' \<in> set (module_rows w)" "md_id m' = md_id m" "commit_module c = md_name m'"
    using r(2) by auto
  have "distinct (map md_id (module_rows w))" using ok by (simp add: ids_ok_def)
  then have "m' = m" using m' rd by (auto simp: readable_row_def distinct_map dest: inj_onD)
  then show ?thesis using rd r m' join_commit_in [OF c] by (auto simp: readable_commit_def commit_of_def)
qed

lemma hex_ids:
  assumes "ids_ok (registry (dbs w))"
  shows "m \<in> set (module_rows w) \<Longrightarrow> is_hex32 (md_id m)" "r \<in> set (commit_rows w) \<Longrightarrow> is_hex32 (cm_module_id r)"
  using assms by (auto simp: ids_ok_def list_all_iff)

lemma ListByModule_readable:
  assumes "ids_ok (registry (dbs w))" and "readable_row env w ctx m"
    and "c \<in> set (commit_ListByModule us (module_rows w) (Canonical (md_id m)) l off (commit_rows w))"
  shows "readable_commit env w ctx c"
proof -
  have "is_hex32 (md_id m)" using assms(1,2) hex_ids by (auto simp: readable_row_def)
  with assms(3) obtain r where "r \<in> set (commit_rows w)" "cm_module_id r = md_id m" "c \<in> set (join_commit us (module_rows w) r)"
    unfolding commit_ListByModule_def by (auto simp: newest_first_in ID_Canonical dest!: subsetD [OF sql_page_subset])
  then show ?thesis by (rule row_commits [OF assms(1,2)])
qed

lemma names_by_id [simp]: "is_hex32 h \<Longrightarrow> names_row (by_id (Canonical h)) m \<longleftrightarrow> md_id m = h"
  using ID_Canonical [of h] by (auto simp: names_row_def by_id_def is_hex32_def ID_def)

lemma GetByHash_readable:
  assumes "ids_ok (registry (dbs w))" and "commit_GetByHash us (module_rows w) h (commit_rows w) = Inr c"
    and "readable_row env w ctx m" and "names_row (by_id (Cm_ModuleId c)) m"
  shows "readable_commit env w ctx c"
proof -
  from GetByHash_in [OF assms(2)] obtain r where r: "r \<in> set (commit_rows w)" "c \<in> set (join_commit us (module_rows w) r)" by blast
  with join_commit_in [OF r(2)] assms(4) hex_ids [OF assms(1)] have "cm_module_id r = md_id m" by (auto simp: ID_Canonical)
  then show ?thesis using r by (auto intro: row_commits [OF assms(1,3)])
qed

lemma GetCommitById_in:
  assumes "commit_GetCommitById (module_rows w) i (commit_rows w) = Inr c"
  shows "\<exists>m \<in> set (module_rows w). commit_of w m c \<and> Cm_ModuleId c = Canonical (md_id m)
     \<and> map_option mref (Cm_Module c) = Some (mref (scanSQLiteModule m))"
proof -
  from assms obtain r m where f: "find (\<lambda>r. cm_id r = ID i) (commit_rows w) = Some r"
    "find (\<lambda>m. md_id m = cm_module_id r) (module_rows w) = Some m"
    "c = scanCommit [] (Some ((scanSQLiteModule m)\<lparr>Mod_LintPreset := 0, Mod_BreakingEnabled := False\<rparr>)) r"
    by (auto simp: commit_GetCommitById_def split: option.splits)
  from find_Some_in [OF f(1)] find_Some_in [OF f(2)] show ?thesis
    unfolding f(3) by (intro bexI [of _ m]) (auto simp: commit_of_def scanCommit_def mref_def commit_module_def)
qed

lemma ByRef_readable:
  assumes ok: "ids_ok (registry (dbs w))" and rd: "readable_row env w ctx m"
    and m: "names_row ref m"
    and c: "c \<in> set (commit_ByRef us (module_rows w) ref (commit_rows w))"
  shows "readable_commit env w ctx c"
proof (cases "Ref_Id ref = []")
  case False
  from rd have "m \<in> set (module_rows w)" by (simp add: readable_row_def)
  with ok have "\<forall>r \<in> set (commit_rows w). cm_id r \<noteq> md_id m" by (auto simp: ids_ok_def)
  moreover have "md_id m = ID (Ref_Id ref)" using False m by (simp add: names_row_def)
  ultimately have "filter (\<lambda>r. cm_id r = ID (Ref_Id ref)) (commit_rows w) = []" by (auto simp: filter_empty_conv)
  with c False show ?thesis by (simp add: commit_ByRef_def)
next
  case True
  with c obtain r where r: "r \<in> set (commit_rows w)" "c \<in> set (join_commit us (module_rows w) r)"
    and nm: "module_named (module_rows w) r (Ref_Owner ref @ ''/'' @ Ref_Module ref)"
    by (auto simp: commit_ByRef_def newest_first_in dest!: in_set_takeD)
  from nm obtain m' where m': "m' \<in> set (module_rows w)" "md_id m' = cm_module_id r" "md_name m' = md_name m"
    using True m by (auto simp: module_named_def names_row_def)
  have "distinct (map md_name (module_rows w))" using ok by (simp add: ids_ok_def)
  then have "m' = m" using m' rd by (auto simp: readable_row_def distinct_map dest: inj_onD)
  with r m' show ?thesis by (auto intro: row_commits [OF ok rd])
qed

section \<open>Reading a module\<close>

lemma steady_rows: "steady w0 w \<Longrightarrow> dbs w = dbs w0 \<and> repos w = repos w0"
  by (simp add: steady_def same_state_def)

lemma readable_by_iff: "readable_by env w ctx ms \<longleftrightarrow> (\<forall>m \<in> set ms. readable_by env w ctx [m])"
  by (simp add: readable_by_def)

text \<open>The rows that a list of references names.\<close>

definition named_rows :: "world \<Rightarrow> ModuleRef list \<Rightarrow> Module list \<Rightarrow> bool" where
  "named_rows w refs ms \<longleftrightarrow> list_all2 (\<lambda>ref md. \<exists>m \<in> set (module_rows w). md = scanSQLiteModule m \<and> names_row ref m) refs ms"

lemma named_rows_simps [simp]:
  "named_rows w [] ms \<longleftrightarrow> ms = []"
  "named_rows w (ref # refs) ms \<longleftrightarrow> (\<exists>m ms'. ms = scanSQLiteModule m # ms' \<and> m \<in> set (module_rows w) \<and> names_row ref m \<and> named_rows w refs ms')"
  by (auto simp: named_rows_def list_all2_Cons1)

lemma GetModulesByRefs_rows:
  assumes "steady w0 w" and "\<And>e w'. Q (Inl e) w'"
    and "\<And>ms w'. steady w0 w' \<Longrightarrow> named_rows w0 refs ms \<Longrightarrow> Q (Inr ms) w'"
  shows "wp (GetModulesByRefs refs) Q w"
  using assms
proof (induction refs arbitrary: Q w)
  case (Cons ref refs)
  show ?case
    unfolding GetModulesByRefs.simps
    by (intro wp_first wp_intros Cons.IH)
      (use Cons.prems steady_rows [OF Cons.prems(1)] in \<open>auto intro: steady_faults dest!: GetByRef_in intro!: Cons.prems(3) exI\<close>)
qed (auto intro: wp_intros)

lemma GetCommitByOwnerModule_rows:
  assumes "steady w0 w" and "\<And>e w'. Q (Inl e) w'"
    and "\<And>cs w'. steady w0 w' \<Longrightarrow> cs = concat (map (\<lambda>ref. commit_ByRef (users (dbs w0)) (module_rows w0) ref (commit_rows w0)) refs) \<Longrightarrow> Q (Inr cs) w'"
  shows "wp (GetCommitByOwnerModule refs) Q w"
  using assms
proof (induction refs arbitrary: Q w)
  case (Cons ref refs)
  show ?case
    unfolding GetCommitByOwnerModule.simps
    by (intro wp_first wp_intros Cons.IH)
      (use Cons.prems steady_rows [OF Cons.prems(1)] in \<open>auto intro: steady_faults\<close>)
qed (auto intro: wp_intros)

lemma refs_readable:
  assumes "ids_ok (registry (dbs w))" and "named_rows w refs ms" and "readable_by env w ctx ms"
    and "c \<in> set (concat (map (\<lambda>ref. commit_ByRef us (module_rows w) ref (commit_rows w)) refs))"
  shows "readable_commit env w ctx c"
proof -
  from assms(4) obtain ref where ref: "ref \<in> set refs" "c \<in> set (commit_ByRef us (module_rows w) ref (commit_rows w))" by auto
  from ref(1) assms(2) obtain md where md: "md \<in> set ms" "\<exists>m \<in> set (module_rows w). md = scanSQLiteModule m \<and> names_row ref m"
    unfolding named_rows_def by (force simp: list_all2_conv_all_nth in_set_conv_nth)
  then obtain m where m: "m \<in> set (module_rows w)" "md = scanSQLiteModule m"
     "names_row ref m" by blast
  have "readable_row env w ctx m" using assms(3) md(1) m by (auto simp: readable_row_def readable_by_def)
  then show ?thesis by (rule ByRef_readable [OF assms(1) _ m(3) ref(2)])
qed

lemma read_module_rows:
  assumes "steady w0 w" and "visits (ord_entries env)" and "\<And>e w'. Q (Inl e) w'"
    and "\<And>m w'. steady w0 w' \<Longrightarrow> readable_row env w0 ctx m \<Longrightarrow>
       names_row ref m \<Longrightarrow>
       Q (Inr (scanSQLiteModule m)) w'"
  shows "wp (read_module env ctx ref) Q w"
  unfolding read_module_def
  by (intro wp_first wp_intros GetModulesByRefs_rows [OF assms(1)] CheckReadAccess_steady [where ?w0.0 = w0, OF _ assms(2)])
    (use assms(3,4) in \<open>auto simp: readable_row_def readable_by_def\<close>)

section \<open>The handlers\<close>

text \<open>What a successful call returns satisfies a predicate, whatever fails on the way.\<close>

definition yields :: "world \<Rightarrow> (world, 'a) call \<Rightarrow> ('a \<Rightarrow> bool) \<Rightarrow> bool" where
  "yields w H P \<longleftrightarrow> (case fst (run H w) of Inl _ \<Rightarrow> True | Inr x \<Rightarrow> P x)"

lemma yieldsI: "wp H (\<lambda>r w'. \<forall>x. r = Inr x \<longrightarrow> P x) w \<Longrightarrow> yields w H P"
  unfolding wp_run_iff by (auto simp: yields_def split: sum.splits)

lemma yields_Inr: "yields w H P \<Longrightarrow> fst (run H w) = Inr x \<Longrightarrow> P x"
  by (simp add: yields_def)

lemma ListCommits_yields:
  assumes "steady w w" and "visits (ord_entries env)" and "ids_ok (registry (dbs w))"
  shows "yields w (ListCommits_rpc env ctx owner module ps pt) (\<lambda>(cs, tok). \<forall>c \<in> set cs. readable_commit env w ctx c)"
  unfolding ListCommits_rpc_def
  by (intro yieldsI wp_first wp_intros read_module_rows [OF assms(1,2)])
    (auto dest!: steady_rows intro: ListByModule_readable [OF assms(3)])

lemma GetCommit_yields:
  assumes "steady w w" and "visits (ord_entries env)" and "ids_ok (registry (dbs w))"
  shows "yields w (GetCommit env ctx h) (readable_commit env w ctx)"
  unfolding GetCommit_def
  by (intro yieldsI wp_first wp_intros read_module_rows [where ?w0.0 = w, OF _ assms(2)])
    (use assms(1) in \<open>auto intro: steady_faults GetByHash_readable [OF assms(3)]\<close>)

lemma git_read_steady:
  assumes "steady w0 w" and "\<And>e w'. Q (Inl e) w'"
    and "\<And>r x w'. steady w0 w' \<Longrightarrow> repos w0 p = Some r \<Longrightarrow> f r = Inr x \<Longrightarrow> Q (Inr x) w'"
  shows "wp (git_read p f) Q w"
proof -
  have fin: "Q (f r) v" if "steady w0 v" "repos w0 p = Some r" for r v
    by (cases "f r") (use assms(2,3) that in auto)
  show ?thesis
    unfolding git_read_def
    by (rule wp_io)
      (use assms(1,2) steady_rows [OF assms(1)] in \<open>auto simp: openRepo_def intro: fin steady_faults split: sum.splits option.splits\<close>)
qed

lemma GetByHash_hash: "commit_GetByHash us ms h t = Inr c \<Longrightarrow> Cm_CommitHash c = h"
  using GetByHash_in [of us ms h t c] join_commit_in by fastforce

lemma resolveRef_steady:
  assumes "steady w0 w" and "\<And>e w'. Q (Inl e) w'" and "\<And>w'. steady w0 w' \<Longrightarrow> Q (Inr (if h = [] then ''HEAD'' else h)) w'"
  shows "wp (resolveRef md h) Q w"
proof (cases "h = []")
  case True
  then show ?thesis unfolding resolveRef_def using assms(1,3) by (auto intro: wp_intros)
next
  case False
  then have yes: "Q (Inr (Cm_CommitHash c)) w'" if "commit_GetByHash us ms h t = Inr c" "steady w0 w'" for us ms t c w'
    using assms(3) [OF that(2)] GetByHash_hash [OF that(1)] by simp
  show ?thesis
    unfolding resolveRef_def
    by (intro wp_first wp_intros) (use assms(1,2) False in \<open>auto intro: steady_faults yes\<close>)
qed

text \<open>A file of a revision of a repository.\<close>

definition file_at :: "renv \<Rightarrow> world \<Rightarrow> string \<Rightarrow> string \<Rightarrow> string \<Rightarrow> string \<Rightarrow> bool" where
  "file_at renv w repo ref path content \<longleftrightarrow> (\<exists>r h c. repos w repo = Some r \<and> ResolveRevision renv r ref = Some h
     \<and> objects r h = Some c \<and> map_of (tree_Files (co_tree c)) path = Some content)"

lemma GetFileContent_yields:
  assumes "steady w w" and "visits (ord_entries env)"
  shows "yields w (GetFileContent env renv ctx owner module h path) (\<lambda>(content, n).
     (\<exists>m. readable_row env w ctx m \<and> md_name m = owner @ CHR ''/'' # module) \<and> file_at renv w (owner @ CHR ''/'' # module) (if h = [] then ''HEAD'' else h) path content
     \<and> n = int (length content) \<and> n \<le> maxFileContentBytes)"
proof -
  have f: "file_at renv w p ref path c \<and> n = int (length c)" if "repos w p = Some r"
    "(case resolve_commit renv ref r of Inl e \<Rightarrow> Inl e | Inr co \<Rightarrow> (case map_of (tree_Files (co_tree co)) path of
        None \<Rightarrow> Inl ErrNotFound | Some content \<Rightarrow> Inr (content, int (length content)))) = Inr (c, n)" for p r ref c n
    using that by (auto simp: file_at_def resolve_commit_def split: sum.splits option.splits)
  define ref where "ref = (if h = [] then ''HEAD'' else h)"
  show ?thesis
    unfolding GetFileContent_def GetFile_def ref_def [symmetric]
    by (intro yieldsI wp_first wp_intros read_module_rows [OF assms] resolveRef_steady [where ?w0.0 = w and h = h, folded ref_def]
        git_read_steady [where ?w0.0 = w])
      (auto simp: names_row_def by_name_def dest!: f)
qed

lemma ListModuleFiles_yields:
  assumes "steady w w" and "visits (ord_entries env)"
  shows "yields w (ListModuleFiles env renv ctx owner module h path) (\<lambda>es.
     \<exists>m. readable_row env w ctx m \<and> md_name m = owner @ CHR ''/'' # module)"
  unfolding ListModuleFiles_def GetTreeEntries_def
  by (intro yieldsI wp_first wp_intros read_module_rows [OF assms] resolveRef_steady [where ?w0.0 = w] git_read_steady [where ?w0.0 = w])
    (auto simp: names_row_def by_name_def)

lemma GetCommitDiff_yields:
  assumes "steady w w" and "visits (ord_entries env)" and "ids_ok (registry (dbs w))"
  shows "yields w (GetCommitDiff env renv denv ctx h) (\<lambda>d. \<exists>c. readable_commit env w ctx c \<and> Cm_CommitHash c = h)"
  unfolding GetCommitDiff_def git_GetCommitDiff_def
  by (intro yieldsI wp_first wp_intros read_module_rows [where ?w0.0 = w, OF _ assms(2)] git_read_steady [where ?w0.0 = w])
    (use assms(1) in \<open>auto intro: steady_faults GetByHash_readable [OF assms(3)] dest: GetByHash_hash\<close>)

lemma GetCIRun_yields:
  assumes "steady w w" and "visits (ord_entries env)" and "ids_ok (registry (dbs w))"
  shows "yields w (GetCIRun env ctx owner module h) (\<lambda>ci. \<exists>m. readable_row env w ctx m \<and> Ci_ModuleId ci = Canonical (md_id m))"
  unfolding GetCIRun_def
  by (intro yieldsI wp_first wp_intros read_module_rows [OF assms(1,2)])
    (use hex_ids(1) [OF assms(3)] in \<open>auto simp: cirun_GetByModuleAndCommit_def scan_cirun_def query_row_def readable_row_def ID_Canonical
      dest!: find_Some_in split: option.splits sum.splits\<close>)

lemma ListSDKs_yields:
  assumes "steady w w" and "visits (ord_entries env)" and "ids_ok (registry (dbs w))"
  shows "yields w (ListSDKs env ctx owner module) (\<lambda>js. \<exists>m. readable_row env w ctx m \<and> (\<forall>j \<in> set js. Job_ModuleID j = Canonical (md_id m)))"
  unfolding ListSDKs_def
  by (intro yieldsI wp_first wp_intros read_module_rows [OF assms(1,2)])
    (use hex_ids(1) [OF assms(3)] in \<open>auto simp: job_ListByModule_def readable_row_def ID_Canonical scanSQLiteJob_def order_desc_def
      intro!: exI dest!: in_set_takeD\<close>)

section \<open>Lists of commits\<close>

lemma GetCommitById_readable:
  assumes "ids_ok (registry (dbs w))" and "commit_GetCommitById (module_rows w) i (commit_rows w) = Inr c"
  shows "named_rows w [by_id (Cm_ModuleId c)] ms \<Longrightarrow> readable_by env w ctx ms \<Longrightarrow> readable_commit env w ctx c"
    and "\<forall>m \<in> set (case Cm_Module c of None \<Rightarrow> [] | Some m \<Rightarrow> [mref m]). may_read env w ctx (ctx_user ctx) m \<Longrightarrow> readable_commit env w ctx c"
proof -
  from GetCommitById_in [OF assms(2)] obtain m where m: "m \<in> set (module_rows w)" "commit_of w m c" "Cm_ModuleId c = Canonical (md_id m)"
    "map_option mref (Cm_Module c) = Some (mref (scanSQLiteModule m))" by blast
  have hex: "is_hex32 (md_id m)" using hex_ids [OF assms(1)] m(1) by blast
  have uniq: "m' = m" if "m' \<in> set (module_rows w)" "md_id m' = md_id m" for m'
    using assms(1) m(1) that by (auto simp: ids_ok_def distinct_map dest: inj_onD)
  show "readable_commit env w ctx c" if "named_rows w [by_id (Cm_ModuleId c)] ms" "readable_by env w ctx ms"
    using that m hex uniq by (auto simp: readable_commit_def readable_row_def)
  show "readable_commit env w ctx c" if "\<forall>m \<in> set (case Cm_Module c of None \<Rightarrow> [] | Some m \<Rightarrow> [mref m]). may_read env w ctx (ctx_user ctx) m"
    using that m by (auto simp: readable_commit_def readable_row_def readable_by_def)
qed

lemma commits_by_id_rows:
  assumes "steady w0 w" and "visits (ord_entries env)" and "ids_ok (registry (dbs w0))" and "\<And>e w'. Q (Inl e) w'"
    and "\<And>cs w'. steady w0 w' \<Longrightarrow> \<forall>c \<in> set cs. readable_commit env w0 ctx c \<Longrightarrow> Q (Inr cs) w'"
  shows "wp (commits_by_id env ctx ids) Q w"
  using assms
proof (induction ids arbitrary: Q w)
  case (Cons i ids)
  have one: "readable_commit env w0 ctx c" if "commit_GetCommitById (module_rows w) i (commit_rows w) = Inr c"
    "\<forall>m \<in> set (case Cm_Module c of None \<Rightarrow> [] | Some m \<Rightarrow> [mref m]). may_read env w0 ctx (ctx_user ctx) m" for c
    using GetCommitById_readable(2) [OF assms(3)] that steady_rows [OF Cons.prems(1)] by simp
  show ?case
    unfolding commits_by_id.simps
    by (intro wp_first wp_intros CheckReadAccess_steady [where ?w0.0 = w0, OF _ assms(2)] Cons.IH;
        (rule Cons.prems(4) assms(2,3) steady_faults [OF Cons.prems(1)] | assumption |
         (rule Cons.prems(5), assumption, simp only: list.set ball_simps, rule conjI, rule one; assumption)))
qed (auto intro: wp_intros)

lemma graph_by_id_rows:
  assumes "steady w0 w" and "visits (ord_entries env)" and "ids_ok (registry (dbs w0))" and "\<And>e w'. Q (Inl e) w'"
    and "\<And>cs w'. steady w0 w' \<Longrightarrow> \<forall>c \<in> set cs. readable_commit env w0 ctx c \<Longrightarrow> Q (Inr cs) w'"
  shows "wp (graph_by_id env ctx ids) Q w"
  using assms
proof (induction ids arbitrary: Q w)
  case (Cons i ids)
  have one: "readable_commit env w0 ctx c" if "commit_GetCommitById (module_rows w) i (commit_rows w) = Inr c"
    "named_rows w0 [by_id (Cm_ModuleId c)] ms" "\<forall>m \<in> set (map mref ms). may_read env w0 ctx (ctx_user ctx) m" for c ms
    using GetCommitById_readable(1) [OF assms(3) _ that(2)] that(1,3) steady_rows [OF Cons.prems(1)] by (simp add: readable_by_def)
  show ?case
    unfolding graph_by_id.simps
    by (intro wp_first wp_intros GetModulesByRefs_rows [where ?w0.0 = w0] CheckReadAccess_steady [where ?w0.0 = w0, OF _ assms(2)] Cons.IH;
        (rule Cons.prems(4) assms(2,3) steady_faults [OF Cons.prems(1)] | assumption |
         (rule Cons.prems(5), assumption, simp only: list.set ball_simps, rule conjI, rule one; assumption)))
qed (auto intro: wp_intros)

lemma commits_by_ref_rows:
  assumes "steady w0 w" and "visits (ord_entries env)" and "ids_ok (registry (dbs w0))" and "\<And>e w'. Q (Inl e) w'"
    and "\<And>ms cs w'. steady w0 w' \<Longrightarrow> \<forall>c \<in> set cs. readable_commit env w0 ctx c \<Longrightarrow> Q (Inr (ms, cs)) w'"
  shows "wp (commits_by_ref env ctx refs) Q w"
  unfolding commits_by_ref_def
  by (intro wp_first wp_intros GetModulesByRefs_rows [where ?w0.0 = w0] CheckReadAccess_steady [where ?w0.0 = w0, OF _ assms(2)]
      GetCommitByOwnerModule_rows [where ?w0.0 = w0])
    (use assms(1,4) in \<open>auto intro!: assms(5) refs_readable [OF assms(3)] simp: readable_by_def\<close>)

lemma GetCommits_yields:
  assumes "steady w w" and "visits (ord_entries env)" and "ids_ok (registry (dbs w))"
  shows "yields w (GetCommits env ctx ids refs) (\<lambda>cs. \<forall>c \<in> set cs. readable_commit env w ctx c)"
  unfolding GetCommits_def
  by (intro yieldsI wp_first wp_intros commits_by_id_rows [OF assms] commits_by_ref_rows [where ?w0.0 = w, OF _ assms(2,3)]) auto

lemma GetGraph_yields:
  assumes "steady w w" and "visits (ord_entries env)" and "ids_ok (registry (dbs w))"
  shows "yields w (GetGraph env ctx ids refs) (\<lambda>cs. \<forall>c \<in> set cs. readable_commit env w ctx c)"
  unfolding GetGraph_def
  by (intro yieldsI wp_first wp_intros graph_by_id_rows [OF assms] commits_by_ref_rows [where ?w0.0 = w, OF _ assms(2,3)]) auto

section \<open>Downloads\<close>

definition body_bytes :: "upload_file list \<Rightarrow> int" where
  "body_bytes fs = content_bytes (filter (\<lambda>f. Path f \<noteq> ''buf.yaml'') fs)"

text \<open>The files that go with a commit are those stored in the commit with its hash, in the repository of its
  module, apart from the generated \<open>buf.yaml\<close>.\<close>

definition stored_files :: "renv \<Rightarrow> world \<Rightarrow> Commit \<Rightarrow> upload_file list \<Rightarrow> bool" where
  "stored_files renv w c fs \<longleftrightarrow> (\<exists>r co. repos w (commit_module c) = Some r \<and> objects r (NewHash renv (Cm_CommitHash c)) = Some co
     \<and> map (\<lambda>f. (Path f, Content f)) (filter (\<lambda>f. Path f \<noteq> ''buf.yaml'') fs) = filter (\<lambda>f. fst f \<noteq> ''buf.yaml'') (tree_Files (co_tree co)))"

lemma inject_body [simp]: "filter (\<lambda>f. Path f \<noteq> ''buf.yaml'') (injectBufYAML fs m host) = filter (\<lambda>f. Path f \<noteq> ''buf.yaml'') fs"
proof -
  have "filter (\<lambda>f. Path f \<noteq> ''buf.yaml'') (map (\<lambda>f. if Path f = ''buf.yaml'' then \<lparr>Path = ''buf.yaml'', Content = x\<rparr> else f) fs)
      = filter (\<lambda>f. Path f \<noteq> ''buf.yaml'') fs" for x
    by (induction fs) auto
  then show ?thesis by (simp add: injectBufYAML_def Let_def)
qed

lemma inject_same: "body_bytes (injectBufYAML fs m host) = body_bytes fs" "stored_files renv w c (injectBufYAML fs m host) = stored_files renv w c fs"
  unfolding body_bytes_def stored_files_def inject_body by simp_all

lemma body_bytes_le: "body_bytes fs \<le> content_bytes fs"
  by (induction fs) (auto simp: body_bytes_def content_bytes_def)

lemma download_files_rows:
  assumes "steady w0 w" and "\<And>e w'. Q (Inl e) w'"
    and "\<And>fs b' w'. steady w0 w' \<Longrightarrow> stored_files renv w0 c fs \<Longrightarrow> body_bytes fs + b' \<le> b \<Longrightarrow> 0 \<le> b' \<Longrightarrow> Q (Inr ((c, fs), b')) w'"
  shows "wp (download_files renv host fw c md b) Q w"
proof -
  have st: "stored_files renv w0 c fs" if "repos w0 (commit_module c) = Some r"
    "(case objects r (NewHash renv (Cm_CommitHash c)) of None \<Rightarrow> Inl ErrNotFound
      | Some co \<Rightarrow> (let files = map (\<lambda>(p, x). \<lparr>Path = p, Content = x\<rparr>) (tree_Files (co_tree co)) in
       if Validate files \<noteq> None then Inl (OtherErr ''gogit: refusing to read'') else Inr files)) = Inr fs" for r fs
    using that by (auto simp: stored_files_def Let_def filter_map o_def case_prod_unfold split: option.splits if_splits)
  show ?thesis
    unfolding download_files_def ListBlobs_def Let_def [of "b - _"]
    apply (intro wp_first wp_intros git_read_steady [OF assms(1)])
    apply (rule assms(2))+
    apply (rule assms(3), assumption)
    subgoal for r fs w' using st by (auto simp: inject_same split: option.splits)
    subgoal for r fs w' using body_bytes_le [of fs] by (auto simp: inject_same split: option.splits)
    subgoal by simp
    done
qed

text \<open>What a download returns: readable commits with their stored files, within the budget.\<close>

definition downloaded :: "env \<Rightarrow> renv \<Rightarrow> world \<Rightarrow> reqctx \<Rightarrow> (Commit \<times> upload_file list) list \<Rightarrow> bool" where
  "downloaded env renv w ctx xs \<longleftrightarrow> (\<forall>(c, fs) \<in> set xs. readable_commit env w ctx c \<and> stored_files renv w c fs)"

definition total_bytes :: "(Commit \<times> upload_file list) list \<Rightarrow> int" where
  "total_bytes xs = sum_list (map (body_bytes \<circ> snd) xs)"

lemma downloaded_simps [simp]:
  "downloaded env renv w ctx []" "total_bytes [] = 0" "total_bytes (x # xs) = body_bytes (snd x) + total_bytes xs"
  "downloaded env renv w ctx ((c, fs) # xs) \<longleftrightarrow> readable_commit env w ctx c \<and> stored_files renv w c fs \<and> downloaded env renv w ctx xs"
  "downloaded env renv w ctx (xs @ ys) \<longleftrightarrow> downloaded env renv w ctx xs \<and> downloaded env renv w ctx ys" "total_bytes (xs @ ys) = total_bytes xs + total_bytes ys"
  by (auto simp: downloaded_def total_bytes_def)

lemma download_by_id_rows:
  assumes "steady w0 w" and "visits (ord_entries env)" and "ids_ok (registry (dbs w0))" and "\<And>e w'. Q (Inl e) w'" and "0 \<le> b"
    and "\<And>xs b' w'. steady w0 w' \<Longrightarrow> downloaded env renv w0 ctx xs \<Longrightarrow> total_bytes xs + b' \<le> b \<Longrightarrow> 0 \<le> b' \<Longrightarrow> Q (Inr (xs, b')) w'"
  shows "wp (download_by_id env renv ctx ids b) Q w"
  using assms
proof (induction ids arbitrary: Q w b)
  case (Cons i ids)
  have one: "readable_commit env w0 ctx c" if "commit_GetCommitById (module_rows w) i (commit_rows w) = Inr c"
    "named_rows w0 [by_id (Cm_ModuleId c)] ms" "\<forall>m \<in> set (map mref ms). may_read env w0 ctx (ctx_user ctx) m" for c ms
    using GetCommitById_readable(1) [OF assms(3) _ that(2)] that(1,3) steady_rows [OF Cons.prems(1)] by (simp add: readable_by_def)
  show ?case
    unfolding download_by_id.simps
    apply (intro wp_first wp_intros GetModulesByRefs_rows [where ?w0.0 = w0] CheckReadAccess_steady [where ?w0.0 = w0, OF _ assms(2)]
        download_files_rows [where ?w0.0 = w0] Cons.IH;
        (rule Cons.prems(4) assms(2,3) steady_faults [OF Cons.prems(1)] | assumption)?)
    subgoal premises p using Cons.prems(6) [of _ "(_, _) # _"] one [OF p(2,4,6)] p(8-14) by simp
    done
qed (auto intro: wp_intros)

lemma download_commits_rows:
  assumes "steady w0 w" and "\<forall>c \<in> set cs. readable_commit env w0 ctx c" and "\<And>e w'. Q (Inl e) w'" and "0 \<le> b"
    and "\<And>xs b' w'. steady w0 w' \<Longrightarrow> downloaded env renv w0 ctx xs \<Longrightarrow> total_bytes xs + b' \<le> b \<Longrightarrow> 0 \<le> b' \<Longrightarrow> Q (Inr (xs, b')) w'"
  shows "wp (download_commits renv host mb cs b) Q w"
  using assms
proof (induction cs arbitrary: Q w b)
  case (Cons c cs)
  have rd: "readable_commit env w0 ctx c" "\<forall>c \<in> set cs. readable_commit env w0 ctx c" using Cons.prems(2) by simp_all
  show ?case
    unfolding download_commits.simps
    apply (intro wp_first wp_intros download_files_rows [where ?w0.0 = w0] Cons.IH; (rule Cons.prems(1,3) rd(2) | assumption)?)
    subgoal premises p using Cons.prems(5) [of _ "(_, _) # _"] rd p by simp
    done
qed (auto intro: wp_intros)

lemma download_by_ref_rows:
  assumes "steady w0 w" and "visits (ord_entries env)" and "ids_ok (registry (dbs w0))" and "\<And>e w'. Q (Inl e) w'" and "0 \<le> b"
    and "\<And>xs b' w'. steady w0 w' \<Longrightarrow> downloaded env renv w0 ctx xs \<Longrightarrow> total_bytes xs + b' \<le> b \<Longrightarrow> 0 \<le> b' \<Longrightarrow> Q (Inr (xs, b')) w'"
  shows "wp (download_by_ref env renv ctx refs b) Q w"
proof -
  have all: "\<forall>c \<in> set cs. readable_commit env w0 ctx c" if "named_rows w0 refs ms" "\<forall>m \<in> set (map mref ms). may_read env w0 ctx (ctx_user ctx) m"
    "cs = concat (map (\<lambda>ref. commit_ByRef (users (dbs w0)) (module_rows w0) ref (commit_rows w0)) refs)" for ms cs
    using refs_readable [OF assms(3) that(1)] that(2,3) by (auto simp: readable_by_def)
  show ?thesis
    unfolding download_by_ref_def
    by (intro wp_first wp_intros GetModulesByRefs_rows [where ?w0.0 = w0] CheckReadAccess_steady [where ?w0.0 = w0, OF _ assms(2)]
        GetCommitByOwnerModule_rows [where ?w0.0 = w0] download_commits_rows [where ?w0.0 = w0];
        (rule assms(1,4,5) | erule (2) all | assumption | (rule assms(6); (rule assms(1,5) | assumption | simp add: assms(5); fail)))?)
qed

lemma Download_yields:
  assumes "steady w w" and "visits (ord_entries env)" and "ids_ok (registry (dbs w))"
  shows "yields w (Download env renv ctx ids refs) (\<lambda>xs. downloaded env renv w ctx xs \<and> total_bytes xs \<le> maxDownloadBytes)"
  unfolding Download_def
  by (intro yieldsI wp_first wp_intros download_by_id_rows [where ?w0.0 = w, OF _ assms(2,3)] download_by_ref_rows [where ?w0.0 = w, OF _ assms(2,3)])
    (use assms(1) in \<open>auto simp: maxDownloadBytes_def\<close>)

text \<open>An added line that begins with two plus signs looks like the header of a patch and is not counted.\<close>

lemma added_pluses_uncounted: "count_from (Split (''+++i;'' @ newline @ ''+j;'') (CHR 0x0A)) (0, 0) = (1, 0)"
  by code_simp

section \<open>Everything returned is readable\<close>



end
