(* ===== verification/Auth_OAuth.thy ===== *)
theory Auth_OAuth
  imports Auth_Authn Registry_Calls
begin

text \<open>
  Signing in through GitHub or Google (\<open>internal/hades/server/auth/oauth.go\<close>).  The providers are
  outside the repository: the code exchange, the authorization URL, the endpoints and the answers to
  HTTP requests are parameters.  What the server makes of the answers, from the status code to the
  fields of the JSON body, is modelled.
\<close>

section \<open>Configuration\<close>

record oauth2_config =
  oc_ClientID :: string
  oc_ClientSecret :: string
  oc_RedirectURL :: string
  oc_Endpoint :: string
  oc_Scopes :: "string list"

record oauth_provider =
  op_ClientID :: string
  op_ClientSecret :: string
  op_RedirectURL :: string

record oenv =
  oe_GitHub :: oauth_provider
  oe_Google :: oauth_provider
  AllowAccountLinkingByEmail :: bool
  github_Endpoint :: string
  google_Endpoint :: string
  AuthCodeURL :: "oauth2_config \<Rightarrow> string \<Rightarrow> string"              \<comment> \<open>configuration, state\<close>
  oauth_Exchange :: "oauth2_config \<Rightarrow> string \<Rightarrow> string res"       \<comment> \<open>configuration, code\<close>
  http_Get :: "string \<Rightarrow> string \<Rightarrow> (int \<times> string res) res"       \<comment> \<open>token, URL: the status and the body\<close>

definition OAUTH_PROVIDER_GITHUB :: int where "OAUTH_PROVIDER_GITHUB = 1"
definition OAUTH_PROVIDER_GOOGLE :: int where "OAUTH_PROVIDER_GOOGLE = 2"

definition oauthStateTTL :: time where "oauthStateTTL = 10 * Minute"

definition oauthStateKey :: "string \<Rightarrow> string" where "oauthStateKey state = ''oauth:state:'' @ state"

definition oauth2Config :: "oenv \<Rightarrow> int \<Rightarrow> oauth2_config res" where
  "oauth2Config oenv provider =
     (if provider = OAUTH_PROVIDER_GITHUB then
        Inr \<lparr>oc_ClientID = op_ClientID (oe_GitHub oenv), oc_ClientSecret = op_ClientSecret (oe_GitHub oenv),
          oc_RedirectURL = op_RedirectURL (oe_GitHub oenv), oc_Endpoint = github_Endpoint oenv, oc_Scopes = [''user:email'']\<rparr>
      else if provider = OAUTH_PROVIDER_GOOGLE then
        Inr \<lparr>oc_ClientID = op_ClientID (oe_Google oenv), oc_ClientSecret = op_ClientSecret (oe_Google oenv),
          oc_RedirectURL = op_RedirectURL (oe_Google oenv), oc_Endpoint = google_Endpoint oenv,
          oc_Scopes = [''openid'', ''email'', ''profile'']\<rparr>
      else Inl (InvalidArgument ''unsupported OAuth provider''))"

definition providerName :: "int \<Rightarrow> string" where
  "providerName p = (if p = OAUTH_PROVIDER_GITHUB then ''github'' else if p = OAUTH_PROVIDER_GOOGLE then ''google'' else ''unknown'')"

section \<open>The state of a flow\<close>

definition newOAuthState :: "env \<Rightarrow> (world, string) call" where
  "newOAuthState env = do {
     r \<leftarrow> rand_Read env 32;
     (case r of Inl e \<Rightarrow> fail e | Inr b \<Rightarrow> ok (hexEncode b))
   }"

definition GetOAuthURL :: "env \<Rightarrow> oenv \<Rightarrow> request \<Rightarrow> int \<Rightarrow> (world, string) call" where
  "GetOAuthURL env oenv req provider = (case oauth2Config oenv provider of
     Inl e \<Rightarrow> fail e
   | Inr cfg \<Rightarrow>
       if \<not> cache_wired env then fail (Internal ''OAuth is not available'')
       else do {
         l \<leftarrow> enforceLimit env (''oauthurl:ip:'' @ rq_client_ip req) 10 Minute;
         (case l of
            Inl e \<Rightarrow> fail e
          | Inr _ \<Rightarrow> do {
              s \<leftarrow> newOAuthState env;
              (case s of
                 Inl e \<Rightarrow> fail (Internal ''failed to start OAuth flow'')
               | Inr state \<Rightarrow> do {
                   c \<leftarrow> cache_Set env (oauthStateKey state) (providerName provider) oauthStateTTL;
                   (case c of
                      Inl e \<Rightarrow> fail (Internal ''failed to start OAuth flow'')
                    | Inr _ \<Rightarrow> ok (AuthCodeURL oenv cfg state))
                 })
            })
       })"

text \<open>An error of the \<open>Delete\<close> is logged and ignored.\<close>

definition consumeOAuthState :: "env \<Rightarrow> string \<Rightarrow> int \<Rightarrow> (world, unit) call" where
  "consumeOAuthState env state provider =
     (if \<not> cache_wired env then fail (Internal ''OAuth is not available'')
      else do {
        g \<leftarrow> cache_Get (oauthStateKey state);
        (case g of
           Inl e \<Rightarrow> fail (Unavailable ''OAuth is temporarily unavailable'')
         | Inr None \<Rightarrow> fail (PermissionDenied ''invalid or expired OAuth state'')
         | Inr (Some recorded) \<Rightarrow> do {
             _ \<leftarrow> cache_Delete (oauthStateKey state);
             if recorded \<noteq> providerName provider then fail (PermissionDenied ''OAuth state does not match provider'')
             else ok ()
           })
      })"

section \<open>The profile a provider vouches for\<close>

text \<open>\<open>json.Unmarshal\<close> into the fields of a struct, as in \<open>Json\<close>: null changes nothing, a value of
  another type is an error.\<close>

fun int_field :: "string \<Rightarrow> (string \<times> json) list \<Rightarrow> int \<Rightarrow> int option" where
  "int_field key [] cur = Some cur"
| "int_field key ((k, v) # ms) cur =
     (if ToLower k = key then
        (case v of
           JNull \<Rightarrow> int_field key ms cur
         | JNum s \<Rightarrow> (case Atoi s of None \<Rightarrow> None | Some n \<Rightarrow> int_field key ms n)
         | _ \<Rightarrow> None)
      else int_field key ms cur)"

fun bool_field :: "string \<Rightarrow> (string \<times> json) list \<Rightarrow> bool \<Rightarrow> bool option" where
  "bool_field key [] cur = Some cur"
| "bool_field key ((k, v) # ms) cur =
     (if ToLower k = key then
        (case v of
           JNull \<Rightarrow> bool_field key ms cur
         | JBool b \<Rightarrow> bool_field key ms b
         | _ \<Rightarrow> None)
      else bool_field key ms cur)"

fun to_struct :: "((string \<times> json) list \<Rightarrow> 'a option) \<Rightarrow> json \<Rightarrow> 'a option" where
  "to_struct f (JObj ms) = f ms"
| "to_struct f JNull = f []"
| "to_struct f _ = None"

record gitHubUser =
  gu_ID :: int
  gu_Email :: string
  gu_Login :: string

record gitHubEmail =
  ge_Email :: string
  ge_Primary :: bool
  ge_Verified :: bool

record googleUser =
  go_Sub :: string
  go_Email :: string
  go_EmailVerified :: bool

definition decode_gitHubUser :: "json \<Rightarrow> gitHubUser option" where
  "decode_gitHubUser = to_struct (\<lambda>ms. case (int_field ''id'' ms 0, to_field ''email'' ms [], to_field ''login'' ms []) of
     (Some i, Some e, Some l) \<Rightarrow> Some \<lparr>gu_ID = i, gu_Email = e, gu_Login = l\<rparr>
   | _ \<Rightarrow> None)"

definition decode_gitHubEmail :: "json \<Rightarrow> gitHubEmail option" where
  "decode_gitHubEmail = to_struct (\<lambda>ms. case (to_field ''email'' ms [], bool_field ''primary'' ms False, bool_field ''verified'' ms False) of
     (Some e, Some p, Some v) \<Rightarrow> Some \<lparr>ge_Email = e, ge_Primary = p, ge_Verified = v\<rparr>
   | _ \<Rightarrow> None)"

definition decode_googleUser :: "json \<Rightarrow> googleUser option" where
  "decode_googleUser = to_struct (\<lambda>ms. case (to_field ''sub'' ms [], to_field ''email'' ms [], bool_field ''email_verified'' ms False) of
     (Some s, Some e, Some v) \<Rightarrow> Some \<lparr>go_Sub = s, go_Email = e, go_EmailVerified = v\<rparr>
   | _ \<Rightarrow> None)"

text \<open>The body is read up to 1 MiB.\<close>

definition getJSON :: "oenv \<Rightarrow> string \<Rightarrow> string \<Rightarrow> (json \<Rightarrow> 'a option) \<Rightarrow> (world, 'a) call" where
  "getJSON oenv token url out = do {
     g \<leftarrow> io (\<lambda>w. (http_Get oenv token url, w));
     (case g of
        Inl e \<Rightarrow> fail (Unauthenticated ''provider profile fetch failed'')
      | Inr (StatusCode, Body) \<Rightarrow>
          if StatusCode < 200 \<or> StatusCode > 299 then fail (Unauthenticated ''provider profile fetch failed'')
          else (case Body of
            Inl e \<Rightarrow> fail (Unauthenticated ''provider profile fetch failed'')
          | Inr body \<Rightarrow> (case Option.bind (parse (take 1048576 body)) out of
              None \<Rightarrow> fail (Unauthenticated ''provider profile parse failed'')
            | Some x \<Rightarrow> ok x)))
   }"

definition fetchGitHubProfile :: "oenv \<Rightarrow> string \<Rightarrow> (world, string \<times> string) call" where
  "fetchGitHubProfile oenv token = do {
     g \<leftarrow> getJSON oenv token ''https://api.github.com/user'' decode_gitHubUser;
     (case g of
        Inl e \<Rightarrow> fail e
      | Inr u \<Rightarrow>
          if gu_ID u = 0 then fail (Unauthenticated ''GitHub profile is missing an account id'')
          else do {
            h \<leftarrow> getJSON oenv token ''https://api.github.com/user/emails'' (to_slice decode_gitHubEmail);
            (case h of
               Inl e \<Rightarrow> fail e
             | Inr emails \<Rightarrow> (case find (\<lambda>e. ge_Primary e \<and> ge_Verified e \<and> ge_Email e \<noteq> []) emails of
                 Some e \<Rightarrow> ok (Itoa (gu_ID u), ge_Email e)
               | None \<Rightarrow> fail (Unauthenticated ''GitHub account has no primary verified email address'')))
          })
   }"

definition fetchGoogleProfile :: "oenv \<Rightarrow> string \<Rightarrow> (world, string \<times> string) call" where
  "fetchGoogleProfile oenv token = do {
     g \<leftarrow> getJSON oenv token ''https://openidconnect.googleapis.com/v1/userinfo'' decode_googleUser;
     (case g of
        Inl e \<Rightarrow> fail e
      | Inr u \<Rightarrow>
          if go_Sub u = [] then fail (Unauthenticated ''Google profile is missing a subject id'')
          else if \<not> go_EmailVerified u \<or> go_Email u = [] then fail (Unauthenticated ''Google account has no verified email address'')
          else ok (go_Sub u, go_Email u))
   }"

definition fetchProviderProfile :: "oenv \<Rightarrow> int \<Rightarrow> string \<Rightarrow> (world, string \<times> string) call" where
  "fetchProviderProfile oenv provider token =
     (if provider = OAUTH_PROVIDER_GITHUB then fetchGitHubProfile oenv token
      else if provider = OAUTH_PROVIDER_GOOGLE then fetchGoogleProfile oenv token
      else fail (InvalidArgument ''unsupported provider''))"

section \<open>The account of a provider identity\<close>

definition oauth_Create_call :: "env \<Rightarrow> string \<Rightarrow> string \<Rightarrow> string \<Rightarrow> string \<Rightarrow> (world, unit) call" where
  "oauth_Create_call env userID provider providerUID email =
     insert_reg env (\<lambda>i now rg. case oauth_Create i now userID provider providerUID email (oauth_table rg) of
       (r, t) \<Rightarrow> (r, rg\<lparr>oauth_table := t\<rparr>))"

fun free_username :: "string \<Rightarrow> nat list \<Rightarrow> (world, string) call" where
  "free_username base [] = fail (Internal ''failed to create account'')"
| "free_username base (attempt # attempts) =
     (let candidate = (if attempt > 0 then base @ ''_'' @ Itoa (int attempt) else base) in
      if IsReservedName candidate then free_username base attempts
      else do {
        q \<leftarrow> qry (\<lambda>d. user_GetByUsername candidate (users d));
        (case q of
           Inr _ \<Rightarrow> free_username base attempts
         | Inl e \<Rightarrow> if e = ErrNotFound \<or> e = ErrNoRows then ok candidate else fail (FromDB e))
      })"

definition generateOAuthUsername :: "string \<Rightarrow> string \<Rightarrow> (world, string) call" where
  "generateOAuthUsername pName providerUID = free_username (ToLower (pName @ ''_'' @ providerUID)) [0..<10]"

definition oauth_account_tx :: "env \<Rightarrow> string \<Rightarrow> string \<Rightarrow> string \<Rightarrow> string \<Rightarrow> (world, uuid) call" where
  "oauth_account_tx env username emailAddr pName providerUID = uow_do (do {
     c \<leftarrow> insert_row env (\<lambda>i now d. case user_Create i now username emailAddr [] USER_TYPE_USER USER_STATE_ACTIVE [] [] (users d) of
            (r, t) \<Rightarrow> (r, d\<lparr>users := t\<rparr>));
     (case c of
        Inl e \<Rightarrow> fail (FromDB e)
      | Inr _ \<Rightarrow> do {
          q \<leftarrow> qry (\<lambda>d. user_GetByUsername username (users d));
          (case q of
             Inl e \<Rightarrow> fail (FromDB e)
           | Inr newUser \<Rightarrow> do {
               v \<leftarrow> upd (\<lambda>now d. d\<lparr>users := user_SetEmailVerified now (Id newUser) (users d)\<rparr>);
               (case v of
                  Inl e \<Rightarrow> fail (FromDB e)
                | Inr _ \<Rightarrow> do {
                    b \<leftarrow> AddBasicRoles env username;
                    (case b of
                       Inl e \<Rightarrow> fail e
                     | Inr _ \<Rightarrow> do {
                         l \<leftarrow> oauth_Create_call env (Id newUser) pName providerUID emailAddr;
                         (case l of Inl e \<Rightarrow> fail (FromDB e) | Inr _ \<Rightarrow> ok (Id newUser))
                       })
                  })
             })
        })
   })"

definition resolveOAuthUser :: "env \<Rightarrow> oenv \<Rightarrow> string \<Rightarrow> string \<Rightarrow> string \<Rightarrow> (world, uuid) call" where
  "resolveOAuthUser env oenv pName providerUID emailAddr = do {
     q \<leftarrow> qry (\<lambda>d. oauth_GetByProviderUID pName providerUID (oauth_table (registry d)));
     (case q of
        Inr identity \<Rightarrow> ok (oi_UserID identity)
      | Inl _ \<Rightarrow> do {
          u \<leftarrow> qry (\<lambda>d. user_GetByEmail emailAddr (users d));
          (case u of
             Inr existing \<Rightarrow>
               if \<not> AllowAccountLinkingByEmail oenv then do {
                 _ \<leftarrow> audit env (Id existing) LOGIN_FAILED [] [] [(''provider'', pName), (''reason'', ''oauth_email_claim_refused'')];
                 fail (FailedPrecondition (''an account already uses this email address; sign in with your password and link ''
                   @ pName @ '' from account settings''))
               }
               else do {
                 c \<leftarrow> oauth_Create_call env (Id existing) pName providerUID emailAddr;
                 (case c of
                    Inl e \<Rightarrow> fail (FromDB e)
                  | Inr _ \<Rightarrow> do {
                      _ \<leftarrow> audit env (Id existing) OAUTH_LINKED [] [] [(''provider'', pName), (''claimed_by_email'', ''true'')];
                      ok (Id existing)
                    })
               }
           | Inl _ \<Rightarrow> do {
               n \<leftarrow> generateOAuthUsername pName providerUID;
               (case n of
                  Inl e \<Rightarrow> fail e
                | Inr username \<Rightarrow> do {
                    t \<leftarrow> oauth_account_tx env username emailAddr pName providerUID;
                    (case t of
                       Inl e \<Rightarrow> fail e
                     | Inr userID \<Rightarrow> do {
                         _ \<leftarrow> audit env userID OAUTH_LINKED [] [] [(''provider'', pName)];
                         ok userID
                       })
                  })
             })
        })
   }"

record oauth_callback_request =
  cb_Provider :: int
  cb_State :: string
  cb_Code :: string
  cb_header_ua :: string    \<comment> \<open>the User-Agent header\<close>

definition OAuthCallback :: "env \<Rightarrow> oenv \<Rightarrow> request \<Rightarrow> oauth_callback_request \<Rightarrow> (world, login_response) call" where
  "OAuthCallback env oenv req msg = (case oauth2Config oenv (cb_Provider msg) of
     Inl e \<Rightarrow> fail e
   | Inr cfg \<Rightarrow> do {
       s \<leftarrow> consumeOAuthState env (cb_State msg) (cb_Provider msg);
       (case s of
          Inl e \<Rightarrow> fail e
        | Inr _ \<Rightarrow> do {
            x \<leftarrow> io (\<lambda>w. (oauth_Exchange oenv cfg (cb_Code msg), w));
            (case x of
               Inl e \<Rightarrow> fail (Unauthenticated ''OAuth token exchange failed'')
             | Inr oauthToken \<Rightarrow> do {
                 p \<leftarrow> fetchProviderProfile oenv (cb_Provider msg) oauthToken;
                 (case p of
                    Inl e \<Rightarrow> fail e
                  | Inr (providerUID, emailAddr) \<Rightarrow>
                      if providerUID = [] \<or> emailAddr = []
                      then fail (Unauthenticated ''provider did not supply a verified email address'')
                      else (let pName = providerName (cb_Provider msg) in do {
                        u \<leftarrow> resolveOAuthUser env oenv pName providerUID emailAddr;
                        (case u of
                           Inl e \<Rightarrow> fail e
                         | Inr userID \<Rightarrow> do {
                             g \<leftarrow> GenerateToken env SessionTokenPrefix;
                             (case g of
                                Inl e \<Rightarrow> fail (Internal ''failed to generate session token'')
                              | Inr (fullToken, tokenHash) \<Rightarrow> do {
                                  now \<leftarrow> time_Now;
                                  c \<leftarrow> insert_row env (\<lambda>i t d. case sess_CreateWithToken i t userID (''oauth:'' @ pName) tokenHash
                                         (rq_client_ip req) (cb_header_ua msg) (now + idle_days env * (24 * Hour))
                                         (now + abs_days env * (24 * Hour)) (sessions d) of (r, ss) \<Rightarrow> (r, d\<lparr>sessions := ss\<rparr>));
                                  (case c of
                                     Inl e \<Rightarrow> fail (FromDB e)
                                   | Inr _ \<Rightarrow> do {
                                       pending \<leftarrow> totpRequired env userID;
                                       ok \<lparr>lr_Token = fullToken, PendingTotp = pending\<rparr>
                                     })
                                })
                           })
                      }))
               })
          })
     })"

section \<open>Linked providers\<close>

definition linked_provider :: "OAuthIdentity \<Rightarrow> int \<times> time" where
  "linked_provider row = ((if oi_Provider row = ''github'' then OAUTH_PROVIDER_GITHUB
     else if oi_Provider row = ''google'' then OAUTH_PROVIDER_GOOGLE else 0), oi_CreatedAt row)"

definition ListLinkedProviders :: "reqctx \<Rightarrow> (world, (int \<times> time) list) call" where
  "ListLinkedProviders ctx = (case ctx_user ctx of
     None \<Rightarrow> fail (Unauthenticated ''not authenticated'')
   | Some user \<Rightarrow> do {
       q \<leftarrow> qry (\<lambda>d. Inr (oauth_GetByUserID (Id user) (oauth_table (registry d))));
       (case q of Inl e \<Rightarrow> fail (FromDB e) | Inr rows \<Rightarrow> ok (map linked_provider rows))
     })"

definition unlink_delete :: "env \<Rightarrow> User \<Rightarrow> string \<Rightarrow> (world, unit) call" where
  "unlink_delete env user pName = do {
     x \<leftarrow> upd_reg (\<lambda>_ rg. rg\<lparr>oauth_table := oauth_DeleteByUserAndProvider (Id user) pName (oauth_table rg)\<rparr>);
     (case x of
        Inl e \<Rightarrow> fail (FromDB e)
      | Inr _ \<Rightarrow> do {
          _ \<leftarrow> audit env (Id user) OAUTH_UNLINKED [] [] [(''provider'', pName)];
          ok ()
        })
   }"

definition UnlinkProvider :: "env \<Rightarrow> reqctx \<Rightarrow> int \<Rightarrow> (world, unit) call" where
  "UnlinkProvider env ctx provider = (case ctx_user ctx of
     None \<Rightarrow> fail (Unauthenticated ''not authenticated'')
   | Some user \<Rightarrow> (let pName = providerName provider in do {
       a \<leftarrow> qry (\<lambda>d. user_GetAuthFieldsByID (Id user) (users d));
       (case a of
          Inl e \<Rightarrow> fail (FromDB e)
        | Inr af \<Rightarrow>
            if PasswordHash af = [] then do {
              q \<leftarrow> qry (\<lambda>d. Inr (oauth_GetByUserID (Id user) (oauth_table (registry d))));
              (case q of
                 Inl e \<Rightarrow> fail (FromDB e)
               | Inr links \<Rightarrow>
                   if filter (\<lambda>l. oi_Provider l \<noteq> pName) links = []
                   then fail (FailedPrecondition ''cannot unlink the only login method; set a password first'')
                   else unlink_delete env user pName)
            }
            else unlink_delete env user pName)
     }))"

section \<open>Tables they leave alone\<close>

lemma oauth_reads_db [db_intros]:
  "db_keeps Q (newOAuthState env)" "db_keeps Q (GetOAuthURL env oenv req p)" "db_keeps Q (consumeOAuthState env s p)"
  "db_keeps Q (getJSON oenv tok url dec)" "db_keeps Q (ListLinkedProviders ctx)"
  unfolding newOAuthState_def GetOAuthURL_def consumeOAuthState_def getJSON_def ListLinkedProviders_def
  by (intro db_intros)+

lemma fetch_db [db_intros]: "db_keeps Q (fetchProviderProfile oenv p tok)"
  unfolding fetchProviderProfile_def fetchGitHubProfile_def fetchGoogleProfile_def by (intro db_intros)

lemma free_username_db [db_intros]: "db_keeps Q (free_username base as)"
  by (induction as) (auto simp: Let_def intro!: db_intros)

context credential_fact
begin

lemma oauth_handlers_keep [db_intros]:
  "db_keeps Q (OAuthCallback env oenv req msg)" "db_keeps Q (UnlinkProvider env ctx p)"
  unfolding OAuthCallback_def UnlinkProvider_def unlink_delete_def resolveOAuthUser_def generateOAuthUsername_def oauth_account_tx_def
    oauth_Create_call_def Let_def
  by (intro db_intros)+

end

end
