(* ===== verification/Buf_Adapters.thy ===== *)
theory Buf_Adapters
  imports Commit_Server
begin

text \<open>
  The services the buf CLI talks to (\<open>internal/hades/server/buf\<close>) and their wire types
  (\<open>internal/buf/dto\<close>).  An adapter turns references into commit identifiers and module references,
  calls the handler, and converts what it returns.
\<close>

section \<open>Wire types\<close>

text \<open>\<open>modulev1.ResourceRef\<close>: an identifier, or a name with an optional label or reference.  The
  getters of a missing part return the empty string.\<close>

record ResourceRef =
  rr_Id :: string
  rr_Owner :: string
  rr_Module :: string
  rr_LabelName :: string
  rr_Ref :: string

record BufCommit =
  bc_Id :: string
  bc_CreateTime :: time
  bc_OwnerId :: uuid
  bc_ModuleId :: uuid
  bc_DigestType :: int
  bc_DigestValue :: string
  bc_CreatedByUserId :: uuid
  bc_SourceControlUrl :: string

record BufModule =
  bm_Id :: uuid
  bm_CreateTime :: time
  bm_UpdateTime :: time
  bm_Name :: string
  bm_OwnerId :: uuid
  bm_Visibility :: int
  bm_State :: int
  bm_Description :: string
  bm_Url :: string
  bm_DefaultLabelName :: string

definition ToCommitPB :: "env \<Rightarrow> Commit \<Rightarrow> BufCommit" where
  "ToCommitPB env c =
     (let tId = (case uuid_Parse env (Cm_Id c) of None \<Rightarrow> NilUUID | Some u \<Rightarrow> u);
          digestValue = (if Cm_DigestValue c = [] then []
            else case hexDecode (Cm_DigestValue c) of Some decoded \<Rightarrow> decoded | None \<Rightarrow> Cm_DigestValue c)
      in \<lparr>bc_Id = UUID tId, bc_CreateTime = Cm_CreateTime c, bc_OwnerId = Cm_OwnerId c, bc_ModuleId = Cm_ModuleId c,
          bc_DigestType = Cm_DigestType c, bc_DigestValue = digestValue, bc_CreatedByUserId = Cm_CreatedByUserId c,
          bc_SourceControlUrl = Cm_SourceControlUrl c\<rparr>)"

definition ToBufModulePB :: "Module \<Rightarrow> BufModule" where
  "ToBufModulePB m = \<lparr>bm_Id = Mod_Id m, bm_CreateTime = Mod_CreateTime m, bm_UpdateTime = Mod_UpdateTime m,
     bm_Name = Mod_Name m, bm_OwnerId = Mod_OwnerId m, bm_Visibility = Mod_Visibility m, bm_State = Mod_State m,
     bm_Description = Mod_Description m, bm_Url = Mod_Url m, bm_DefaultLabelName = Mod_DefaultLabelName m\<rparr>"

definition FromModuleRefPB :: "ResourceRef option \<Rightarrow> ModuleRef" where
  "FromModuleRefPB r = (case r of
     None \<Rightarrow> \<lparr>Ref_Id = [], Ref_Owner = [], Ref_Module = []\<rparr>
   | Some r \<Rightarrow> if rr_Id r \<noteq> [] then by_id (rr_Id r) else by_name (rr_Owner r) (rr_Module r))"

definition ToContentPB :: "env \<Rightarrow> Commit \<times> upload_file list \<Rightarrow> BufCommit \<times> upload_file list" where
  "ToContentPB env d = (ToCommitPB env (fst d), map (\<lambda>f. \<lparr>Path = Path f, Content = Content f\<rparr>) (snd d))"

definition FromUploadContentPB :: "ResourceRef \<times> upload_file list \<Rightarrow> UploadRequestContent" where
  "FromUploadContentPB r = \<lparr>uc_ModuleRef = \<lparr>Ref_Id = rr_Id (fst r), Ref_Owner = rr_Owner (fst r), Ref_Module = rr_Module (fst r)\<rparr>,
     uc_Files = map (\<lambda>f. \<lparr>Path = Path f, Content = Content f\<rparr>) (snd r)\<rparr>"

section \<open>Routing of references\<close>

definition ResourceTypeLabel :: string where "ResourceTypeLabel = ''label''"

text \<open>The loop that \<open>GetCommits\<close>, \<open>GetGraph\<close> and \<open>Download\<close> share, up to the name in one message.\<close>

fun route_refs :: "string \<Rightarrow> ResourceRef list \<Rightarrow> (world, string list \<times> ModuleRef list) call" where
  "route_refs who [] = ok ([], [])"
| "route_refs who (r # rs) =
     (if rr_Id r \<noteq> [] then do {
        q \<leftarrow> qry (\<lambda>d. resource_ResolveType (rr_Id r) (resource_table (registry d)));
        (case q of
           Inl e \<Rightarrow> fail (FromDB e)
         | Inr rt \<Rightarrow>
             if rt = ResourceTypeCommit then do {
               rest \<leftarrow> route_refs who rs;
               (case rest of Inl e \<Rightarrow> fail e | Inr (cs, ms) \<Rightarrow> ok (rr_Id r # cs, ms))
             }
             else if rt = ResourceTypeModule then do {
               rest \<leftarrow> route_refs who rs;
               (case rest of Inl e \<Rightarrow> fail e | Inr (cs, ms) \<Rightarrow> ok (cs, by_id (rr_Id r) # ms))
             }
             else if rt = ResourceTypeLabel then fail (ConnErr CodeUnimplemented (''label refs are not yet supported in '' @ who))
             else fail (ConnErr CodeUnimplemented (''unknown resource type for id: '' @ rr_Id r)))
      }
      else do {
        rest \<leftarrow> route_refs who rs;
        (case rest of Inl e \<Rightarrow> fail e | Inr (cs, ms) \<Rightarrow> ok (cs, by_name (rr_Owner r) (rr_Module r) # ms))
      })"

section \<open>Services\<close>

definition buf_GetModules :: "env \<Rightarrow> reqctx \<Rightarrow> ResourceRef option list \<Rightarrow> (world, BufModule list) call" where
  "buf_GetModules env ctx moduleRefs = do {
     r \<leftarrow> GetModules env ctx (map FromModuleRefPB moduleRefs);
     (case r of Inl e \<Rightarrow> fail e | Inr modules \<Rightarrow> ok (map ToBufModulePB modules))
   }"

definition buf_GetCommits :: "env \<Rightarrow> reqctx \<Rightarrow> ResourceRef list \<Rightarrow> (world, BufCommit list) call" where
  "buf_GetCommits env ctx refs =
     (if \<exists>r \<in> set refs. rr_LabelName r \<noteq> [] \<or> rr_Ref r \<noteq> []
      then fail (ConnErr CodeUnimplemented ''label refs and generic refs are not yet supported; use a module owner/name or a direct commit id'')
      else do {
        q \<leftarrow> route_refs ''GetCommits'' refs;
        (case q of
           Inl e \<Rightarrow> fail e
         | Inr (commitIDs, moduleRefs) \<Rightarrow> do {
             r \<leftarrow> GetCommits env ctx commitIDs moduleRefs;
             (case r of Inl e \<Rightarrow> fail e | Inr result \<Rightarrow> ok (map (ToCommitPB env) result))
           })
      })"

definition buf_GetGraph :: "env \<Rightarrow> reqctx \<Rightarrow> ResourceRef list \<Rightarrow> (world, BufCommit list) call" where
  "buf_GetGraph env ctx refs = do {
     q \<leftarrow> route_refs ''GetGraph'' refs;
     (case q of
        Inl e \<Rightarrow> fail e
      | Inr (commitIDs, moduleRefs) \<Rightarrow> do {
          r \<leftarrow> GetGraph env ctx commitIDs moduleRefs;
          (case r of Inl e \<Rightarrow> fail e | Inr result \<Rightarrow> ok (map (ToCommitPB env) result))
        })
   }"

definition buf_Download :: "env \<Rightarrow> renv \<Rightarrow> reqctx \<Rightarrow> ResourceRef list \<Rightarrow> (world, (BufCommit \<times> upload_file list) list) call" where
  "buf_Download env renv ctx refs = do {
     q \<leftarrow> route_refs ''Download'' refs;
     (case q of
        Inl e \<Rightarrow> fail e
      | Inr (commitIDs, moduleRefs) \<Rightarrow> do {
          r \<leftarrow> Download env renv ctx commitIDs moduleRefs;
          (case r of Inl e \<Rightarrow> fail e | Inr contents \<Rightarrow> ok (map (ToContentPB env) contents))
        })
   }"

definition buf_Upload :: "env \<Rightarrow> renv \<Rightarrow> reqctx \<Rightarrow> (ResourceRef \<times> upload_file list) list \<Rightarrow> (world, BufCommit list) call" where
  "buf_Upload env renv ctx contents = do {
     r \<leftarrow> Upload env renv ctx (map FromUploadContentPB contents);
     (case r of Inl e \<Rightarrow> fail e | Inr commits \<Rightarrow> ok (map (ToCommitPB env) commits))
   }"

definition GetCurrentUser :: "reqctx \<Rightarrow> (world, uuid \<times> string) call" where
  "GetCurrentUser ctx = (case ctx_user ctx of
     None \<Rightarrow> fail (ConnErr CodeUnauthenticated ''not authenticated'')
   | Some u \<Rightarrow> ok (Id u, Username u))"

section \<open>What the conversions keep\<close>

text \<open>The digest of a commit is sent as it was stored, except where the stored bytes themselves read as
  hexadecimal text: the converter decodes what the store has already decoded.\<close>

lemma ToCommitPB_digest:
  "hexDecode (Cm_DigestValue c) = None \<Longrightarrow> bc_DigestValue (ToCommitPB env c) = Cm_DigestValue c"
  by (simp add: ToCommitPB_def Let_def)

lemma digest_decoded_twice:
  "bc_DigestValue (ToCommitPB env c) = [CHR 0x41]" if "Cm_DigestValue c = ''41''"
proof -
  have "hexDecode ''41'' = Some [CHR 0x41]" by code_simp
  with that show ?thesis by (simp add: ToCommitPB_def Let_def)
qed

text \<open>Every reference that names a commit or a module by identifier is routed by the type the resource
  index holds for it, in order; a reference without an identifier is a module name.\<close>

lemma route_refs_db [db_intros]: "db_keeps Q (route_refs who rs)"
  by (induction rs) (auto intro!: db_intros)

lemma route_refs_routes:
  "wp (route_refs who rs) (\<lambda>r w'. after w (dbs w) w' \<and> (\<forall>cs ms. r = Inr (cs, ms) \<longrightarrow>
     cs = map rr_Id (filter (\<lambda>r. rr_Id r \<noteq> [] \<and> resource_ResolveType (rr_Id r) (resource_table (registry (dbs w))) = Inr ResourceTypeCommit) rs)
     \<and> length cs + length ms = length rs)) w"
proof (induction rs arbitrary: w)
  case Nil
  show ?case by (auto simp: wp_return after_simps)
next
  case (Cons r rs)
  show ?case
    unfolding route_refs.simps
    by (intro wp_first wp_after wp_conseq [OF Cons.IH])
      (auto simp: after_def ResourceTypeCommit_def ResourceTypeModule_def)
qed

context credential_fact
begin

lemma buf_keep [db_intros]:
  "db_keeps Q (buf_GetModules env ctx ms)" "db_keeps Q (buf_GetCommits env ctx rs)" "db_keeps Q (buf_GetGraph env ctx rs)"
  "db_keeps Q (buf_Download env renv ctx rs)" "db_keeps Q (buf_Upload env renv ctx cs)" "db_keeps Q (GetCurrentUser ctx)"
  unfolding buf_GetModules_def buf_GetCommits_def buf_GetGraph_def buf_Download_def buf_Upload_def GetCurrentUser_def
  by (intro db_intros)+

end

end
