(* ===== verification/Go_Proxy.thy ===== *)
theory Go_Proxy
  imports Commit_Server Auth_Tokens
begin

text \<open>
  The Go module proxy for generated SDKs (\<open>internal/goproxy/handler.go\<close>).  It is mounted beside the
  interceptor chain, so it authenticates and authorises each request itself.  A response is its status,
  the headers the handler sets and its body; an archive is the list of its entries and whether it was
  closed.  Errors of writing to the client are not modelled.  The artifact backend is a parameter.
\<close>

section \<open>Requests and responses\<close>

record http_request =
  hr_Method :: string
  hr_Path :: string
  hr_Authorization :: string
  hr_IfNoneMatch :: string
  hr_go_get :: string           \<comment> \<open>the query parameter \<open>go-get\<close>\<close>
  hr_TLS :: bool
  hr_ForwardedProto :: string

datatype http_body = Text string | Archive "(string \<times> string) list" bool | NoBody

record http_response =
  hs_Status :: int
  hs_Headers :: "(string \<times> string) list"
  hs_Body :: http_body

text \<open>\<open>GetFile\<close> opens an object and yields what could be read of it, with the error that ended the
  reading, if any.\<close>

record penv =
  authz_wired :: bool
  proxy_host :: string          \<comment> \<open>\<open>registryHost\<close>, from \<open>DOMAIN\<close> or the configuration\<close>
  backend_ListFiles :: "string \<Rightarrow> string list res"
  backend_GetFile :: "string \<Rightarrow> (string \<times> err option) res"

definition http_Error :: "string \<Rightarrow> int \<Rightarrow> http_response" where
  "http_Error msg status = \<lparr>hs_Status = status,
     hs_Headers = [(''Content-Type'', ''text/plain; charset=utf-8''), (''X-Content-Type-Options'', ''nosniff'')],
     hs_Body = Text (msg @ [CHR 0x0A])\<rparr>"

definition http_NotFound :: http_response where
  "http_NotFound = http_Error ''404 page not found'' 404"

definition StatusText :: "int \<Rightarrow> string" where
  "StatusText s = (if s = 400 then ''Bad Request'' else if s = 401 then ''Unauthorized'' else if s = 403 then ''Forbidden''
     else if s = 404 then ''Not Found'' else if s = 500 then ''Internal Server Error'' else if s = 502 then ''Bad Gateway''
     else if s = 503 then ''Service Unavailable'' else [])"

section \<open>Basic authentication\<close>

text \<open>\<open>base64.StdEncoding.DecodeString\<close>, which skips line ends, and \<open>Request.BasicAuth\<close>.\<close>

definition b64_val :: "char \<Rightarrow> nat option" where
  "b64_val c = (let n = of_char c :: nat in
     if 65 \<le> n \<and> n \<le> 90 then Some (n - 65) else if 97 \<le> n \<and> n \<le> 122 then Some (n - 71)
     else if 48 \<le> n \<and> n \<le> 57 then Some (n + 4) else if n = 43 then Some 62 else if n = 47 then Some 63 else None)"

fun b64_groups :: "string \<Rightarrow> string option" where
  "b64_groups [] = Some []"
| "b64_groups (a # b # c # d # r) =
     (case (b64_val a, b64_val b) of
        (Some x, Some y) \<Rightarrow>
          if c = CHR ''='' \<and> d = CHR ''='' \<and> r = [] then Some [char_of (x * 4 + y div 16)]
          else (case b64_val c of
            None \<Rightarrow> None
          | Some z \<Rightarrow>
              if d = CHR ''='' \<and> r = [] then Some [char_of (x * 4 + y div 16), char_of (y mod 16 * 16 + z div 4)]
              else (case (b64_val d, b64_groups r) of
                (Some u, Some rest) \<Rightarrow>
                  Some (char_of (x * 4 + y div 16) # char_of (y mod 16 * 16 + z div 4) # char_of (z mod 4 * 64 + u) # rest)
              | _ \<Rightarrow> None))
      | _ \<Rightarrow> None)"
| "b64_groups _ = None"

definition b64_decode :: "string \<Rightarrow> string option" where
  "b64_decode s = b64_groups (filter (\<lambda>c. c \<noteq> CHR 0x0A \<and> c \<noteq> CHR 0x0D) s)"

definition BasicAuth :: "string \<Rightarrow> (string \<times> string) option" where
  "BasicAuth auth =
     (if length auth < 6 \<or> \<not> EqualFold (take 6 auth) ''Basic '' then None
      else case b64_decode (drop 6 auth) of
        None \<Rightarrow> None
      | Some c \<Rightarrow> (case Cut c (CHR '':'') of (username, password, found) \<Rightarrow> if found then Some (username, password) else None))"

definition credentialFromRequest :: "http_request \<Rightarrow> string" where
  "credentialFromRequest r =
     (let bearer = (let parts = SplitN (hr_Authorization r) (CHR '' '') 2 in
        if length parts = 2 \<and> EqualFold (parts ! 0) ''bearer'' then TrimSpace (parts ! 1) else [])
      in case BasicAuth (hr_Authorization r) of
        Some (_, password) \<Rightarrow> if password \<noteq> [] then TrimSpace password else bearer
      | None \<Rightarrow> bearer)"

section \<open>Paths and versions\<close>

datatype path_error = NotServed string | Malformed string

text \<open>\<open>%q\<close> of a byte.\<close>

definition quote_byte :: "char \<Rightarrow> string" where
  "quote_byte c = (let n = of_char c :: nat in [CHR 0x27] @
     (if c = CHR 0x27 then [CHR 0x5C, c] else if c = CHR 0x22 then [c]
      else if n < 128 then quote_char c
      else if n \<le> 160 \<or> n = 173 then [CHR 0x5C, CHR ''u'', CHR ''0'', CHR ''0'', nibble (n div 16), nibble (n mod 16)]
      else utf8 n) @ [CHR 0x27])"

text \<open>The case encoding of the protocol: \<open>!a\<close> stands for \<open>A\<close>.\<close>

fun unescape_from :: "string \<Rightarrow> string \<Rightarrow> string \<Rightarrow> path_error + string" where
  "unescape_from escaped [] b = Inr b"
| "unescape_from escaped (c # cs) b =
     (if c \<noteq> CHR ''!'' then
        (if is_upper c then Inl (Malformed (''invalid module path '' @ Quote escaped @ '': unescaped uppercase letter''))
         else unescape_from escaped cs (b @ [c]))
      else (case cs of
        [] \<Rightarrow> Inl (Malformed (''invalid module path '' @ Quote escaped @ '': trailing escape character''))
      | n # r \<Rightarrow>
          if of_char n < (97 :: nat) \<or> of_char n > (122 :: nat)
          then Inl (Malformed (''invalid module path '' @ Quote escaped @ '': '' @ quote_byte n @ '' is not an escapable character''))
          else unescape_from escaped r (b @ [char_of (of_char n - 32 :: nat)])))"

definition unescapeModulePath :: "string \<Rightarrow> path_error + string" where
  "unescapeModulePath escaped =
     (if \<not> (\<exists>c \<in> set escaped. c = CHR ''!'' \<or> is_upper c) then Inr escaped else unescape_from escaped escaped [])"

definition parseModulePath :: "penv \<Rightarrow> string \<Rightarrow> path_error + string \<times> string" where
  "parseModulePath penv modulePath =
     (let prefix = proxy_host penv @ ''/gen/go/''; inner = fst (CutPrefix modulePath prefix) in
      if inner = modulePath
      then Inl (NotServed (''module path is not served by this registry: '' @ Quote modulePath @ '' does not start with '' @ Quote prefix))
      else (let parts = SplitN inner (CHR ''/'') 2 in
        if length parts \<noteq> 2 \<or> parts ! 0 = [] \<or> parts ! 1 = []
        then Inl (NotServed (''module path is not served by this registry: '' @ Quote modulePath
          @ '' is not of the form {host}/gen/go/{owner}/{module}''))
        else (case unescapeModulePath (parts ! 0) of
          Inl e \<Rightarrow> Inl e
        | Inr owner \<Rightarrow> (case unescapeModulePath (parts ! 1) of Inl e \<Rightarrow> Inl e | Inr modName \<Rightarrow> Inr (owner, modName)))))"

text \<open>\<open>time.Time.UTC().Format\<close> with the layouts \<open>20060102150405\<close> and \<open>time.RFC3339\<close>, on the proleptic
  Gregorian calendar.\<close>

definition pad :: "nat \<Rightarrow> int \<Rightarrow> string" where
  "pad k n = (let s = Itoa n in replicate (k - length s) (CHR ''0'') @ s)"

definition civil :: "int \<Rightarrow> int \<times> int \<times> int" where
  "civil days =
     (let z = days + 719468; era = z div 146097; doe = z mod 146097;
          yoe = (doe - doe div 1460 + doe div 36524 - doe div 146096) div 365;
          doy = doe - (365 * yoe + yoe div 4 - yoe div 100);
          mp = (5 * doy + 2) div 153;
          d = doy - (153 * mp + 2) div 5 + 1;
          m = (if mp < 10 then mp + 3 else mp - 9)
      in (yoe + era * 400 + (if m \<le> 2 then 1 else 0), m, d))"

definition Format_compact :: "time \<Rightarrow> string" where
  "Format_compact t = (let s = t div Second; sod = s mod 86400 in case civil (s div 86400) of (y, m, d) \<Rightarrow>
     pad 4 y @ pad 2 m @ pad 2 d @ pad 2 (sod div 3600) @ pad 2 (sod div 60 mod 60) @ pad 2 (sod mod 60))"

definition Format_RFC3339 :: "time \<Rightarrow> string" where
  "Format_RFC3339 t = (let s = t div Second; sod = s mod 86400 in case civil (s div 86400) of (y, m, d) \<Rightarrow>
     pad 4 y @ ''-'' @ pad 2 m @ ''-'' @ pad 2 d @ ''T'' @ pad 2 (sod div 3600) @ '':'' @ pad 2 (sod div 60 mod 60) @ '':''
       @ pad 2 (sod mod 60) @ ''Z'')"

definition toPseudoVersion :: "Commit \<Rightarrow> string" where
  "toPseudoVersion c = ''v0.0.0-'' @ Format_compact (Cm_CreateTime c) @ ''-'' @ take 12 (Cm_CommitHash c)"

definition hashFromVersion :: "string \<Rightarrow> string option" where
  "hashFromVersion ver = (let parts = Split ver (CHR ''-'') in
     if length parts = 3 \<and> HasPrefix (parts ! 0) ''v'' then Some (parts ! 2) else None)"

definition syntheticGoMod :: "string \<Rightarrow> string" where
  "syntheticGoMod modulePath = ''module '' @ modulePath @ [CHR 0x0A, CHR 0x0A] @ ''go 1.21'' @ [CHR 0x0A, CHR 0x0A]
     @ ''require google.golang.org/protobuf v1.36.0'' @ [CHR 0x0A]"

section \<open>Access\<close>

text \<open>A step that either goes on or ends in a status.\<close>

type_synonym 'a gate = "(world, int + 'a) state"

definition proxy_authorize :: "env \<Rightarrow> penv \<Rightarrow> http_request \<Rightarrow> string \<Rightarrow> string \<Rightarrow> Module gate" where
  "proxy_authorize env penv r owner modName =
     (if \<not> authz_wired penv then State_Monad.return (Inl 503)
      else (let cred = credentialFromRequest r in do {
        a \<leftarrow> (if cred \<noteq> [] then do {
               u \<leftarrow> UserFromToken env cred;
               (case u of
                  Inl e \<Rightarrow> State_Monad.return (Inl 401)
                | Inr (u, s) \<Rightarrow> State_Monad.return (Inr (Some u, s)))
             } else State_Monad.return (Inr (None, UnrestrictedScopes)));
        (case a of
           Inl st \<Rightarrow> State_Monad.return (Inl st)
         | Inr (user, scopes) \<Rightarrow> do {
             q \<leftarrow> qry (\<lambda>d. module_GetModuleByOwnerAndName (users d) owner modName (module_table (registry d)));
             (case q of
                Inl e \<Rightarrow> State_Monad.return (Inl 404)
              | Inr md \<Rightarrow>
                  if \<not> scopes_Allow scopes ResourceModule ActionRead (Mod_Name md) then State_Monad.return (Inl 403)
                  else do {
                    c \<leftarrow> CheckReadAccess env Background user [mref md];
                    (case c of Inl e \<Rightarrow> State_Monad.return (Inl 404) | Inr _ \<Rightarrow> State_Monad.return (Inr md))
                  })
           })
      }))"

definition proxy_resolveCommit :: "Module \<Rightarrow> string \<Rightarrow> Commit gate" where
  "proxy_resolveCommit md ver = (case hashFromVersion ver of
     None \<Rightarrow> State_Monad.return (Inl 400)
   | Some hashPfx \<Rightarrow> do {
       q \<leftarrow> qry (\<lambda>d. commit_GetByHashPrefix (users d) (module_table (registry d)) hashPfx (commit_table (registry d)));
       (case q of
          Inl e \<Rightarrow> State_Monad.return (Inl (if code_of e = Some CodeNotFound then 404 else 500))
        | Inr c \<Rightarrow> State_Monad.return (if Cm_ModuleId c \<noteq> Mod_Id md then Inl 404 else Inr c))
     })"

section \<open>Handlers\<close>

definition text_ok :: "string \<Rightarrow> http_response" where
  "text_ok body = \<lparr>hs_Status = 200, hs_Headers = [(''Content-Type'', ''text/plain; charset=utf-8'')], hs_Body = Text body\<rparr>"

definition json_info :: "Commit \<Rightarrow> http_response" where
  "json_info c = \<lparr>hs_Status = 200, hs_Headers = [(''Content-Type'', ''application/json'')],
     hs_Body = Text (enc (JObj [(''Version'', JStr (toPseudoVersion c)), (''Time'', JStr (Format_RFC3339 (Cm_CreateTime c)))]) @ [CHR 0x0A])\<rparr>"

fun job_versions :: "SDKJob list \<Rightarrow> (world, string list) state" where
  "job_versions [] = State_Monad.return []"
| "job_versions (job # jobs) = do {
     q \<leftarrow> qry (\<lambda>d. commit_GetCommitById (module_table (registry d)) (Job_CommitID job) (commit_table (registry d)));
     vs \<leftarrow> job_versions jobs;
     (case q of Inl e \<Rightarrow> State_Monad.return vs | Inr c \<Rightarrow> State_Monad.return (toPseudoVersion c # vs))
   }"

definition handleList :: "Module \<Rightarrow> (world, http_response) state" where
  "handleList md = do {
     q \<leftarrow> qry (\<lambda>d. Inr (job_ListSucceededByModuleAndLang (Mod_Id md) ''go'' (job_table (registry d))));
     (case q of
        Inl e \<Rightarrow> State_Monad.return (http_Error ''internal error'' 500)
      | Inr jobs \<Rightarrow> do {
          versions \<leftarrow> job_versions jobs;
          State_Monad.return (text_ok (Join versions [CHR 0x0A] @ [CHR 0x0A]))
        })
   }"

definition handleInfo :: "Module \<Rightarrow> string \<Rightarrow> (world, http_response) state" where
  "handleInfo md ver = do {
     r \<leftarrow> proxy_resolveCommit md ver;
     (case r of
        Inl status \<Rightarrow> State_Monad.return (http_Error (StatusText status) status)
      | Inr c \<Rightarrow> State_Monad.return (json_info c))
   }"

definition artifact_missing :: "err \<Rightarrow> bool" where
  "artifact_missing e \<longleftrightarrow> e \<in> {Sentinel ''sdk storage: artifact not found'', ErrNotFound, Sentinel ''file does not exist''}"

definition artifact_prefix :: "Commit \<Rightarrow> string" where
  "artifact_prefix c = commit_module c @ ''/'' @ Cm_CommitHash c @ ''/go''"

definition handleMod :: "penv \<Rightarrow> Module \<Rightarrow> string \<Rightarrow> string \<Rightarrow> (world, http_response) state" where
  "handleMod penv md modulePath ver = do {
     r \<leftarrow> proxy_resolveCommit md ver;
     (case r of
        Inl status \<Rightarrow> State_Monad.return (http_Error (StatusText status) status)
      | Inr c \<Rightarrow> do {
          g \<leftarrow> io (\<lambda>w. (backend_GetFile penv (artifact_prefix c @ ''/go.mod''), w));
          (case g of
             Inr (content, _) \<Rightarrow> State_Monad.return (text_ok content)
           | Inl e \<Rightarrow>
               if \<not> artifact_missing e then State_Monad.return (http_Error (StatusText 502) 502)
               else State_Monad.return (text_ok (syntheticGoMod modulePath)))
        })
   }"

text \<open>The entries written for the paths, and whether all of them were read in full.\<close>

fun stream_files :: "penv \<Rightarrow> string \<Rightarrow> string \<Rightarrow> string list \<Rightarrow> (world, (string \<times> string) list \<times> bool) state" where
  "stream_files penv s3Prefix dirPrefix [] = State_Monad.return ([], True)"
| "stream_files penv s3Prefix dirPrefix (p # ps) = do {
     g \<leftarrow> io (\<lambda>w. (backend_GetFile penv (s3Prefix @ ''/'' @ p), w));
     (case g of
        Inl e \<Rightarrow> State_Monad.return ([], False)
      | Inr (content, Some e) \<Rightarrow> State_Monad.return ([(dirPrefix @ p, content)], False)
      | Inr (content, None) \<Rightarrow> do {
          rest \<leftarrow> stream_files penv s3Prefix dirPrefix ps;
          State_Monad.return ((dirPrefix @ p, content) # fst rest, snd rest)
        })
   }"

definition etag :: "Commit \<Rightarrow> string" where
  "etag c = [CHR 0x22] @ Cm_CommitHash c @ ''-go'' @ [CHR 0x22]"

definition handleZip :: "penv \<Rightarrow> http_request \<Rightarrow> Module \<Rightarrow> string \<Rightarrow> string \<Rightarrow> (world, http_response) state" where
  "handleZip penv r md modulePath ver = do {
     x \<leftarrow> proxy_resolveCommit md ver;
     (case x of
        Inl status \<Rightarrow> State_Monad.return (http_Error (StatusText status) status)
      | Inr c \<Rightarrow> do {
          j \<leftarrow> qry (\<lambda>d. Inr (job_GetByCommitAndLang (Cm_Id c) ''go'' (job_table (registry d))));
          (case j of
             Inl e \<Rightarrow> State_Monad.return (http_Error ''internal error'' 500)
           | Inr None \<Rightarrow> State_Monad.return (http_Error ''Go SDK not yet generated for this commit'' 404)
           | Inr (Some _) \<Rightarrow> do {
               l \<leftarrow> io (\<lambda>w. (backend_ListFiles penv (artifact_prefix c), w));
               (case l of
                  Inl e \<Rightarrow> State_Monad.return (http_Error ''internal error'' 500)
                | Inr paths \<Rightarrow>
                    if paths = [] then State_Monad.return (http_Error ''no Go SDK files found in storage'' 404)
                    else (let caching = [(''Cache-Control'', ''public, max-age=31536000, immutable''), (''ETag'', etag c)] in
                      if hr_IfNoneMatch r \<noteq> [] \<and> hr_IfNoneMatch r = etag c
                      then State_Monad.return \<lparr>hs_Status = 304, hs_Headers = caching, hs_Body = NoBody\<rparr>
                      else (let dirPrefix = modulePath @ ''@'' @ ver @ ''/'';
                                goMod = (if ''go.mod'' \<in> set paths then [] else [(dirPrefix @ ''go.mod'', syntheticGoMod modulePath)]) in do {
                        files \<leftarrow> stream_files penv (artifact_prefix c) dirPrefix paths;
                        State_Monad.return \<lparr>hs_Status = 200, hs_Headers = caching @ [(''Content-Type'', ''application/zip'')],
                          hs_Body = Archive (goMod @ fst files) (snd files)\<rparr>
                      })))
             })
        })
   }"

definition handleLatest :: "Module \<Rightarrow> (world, http_response) state" where
  "handleLatest md = do {
     q \<leftarrow> qry (\<lambda>d. Inr (job_ListSucceededByModuleAndLang (Mod_Id md) ''go'' (job_table (registry d))));
     (case q of
        Inl e \<Rightarrow> State_Monad.return http_NotFound
      | Inr [] \<Rightarrow> State_Monad.return http_NotFound
      | Inr (job # _) \<Rightarrow> do {
          g \<leftarrow> qry (\<lambda>d. commit_GetCommitById (module_table (registry d)) (Job_CommitID job) (commit_table (registry d)));
          (case g of Inl e \<Rightarrow> State_Monad.return http_NotFound | Inr c \<Rightarrow> State_Monad.return (json_info c))
        })
   }"

text \<open>The text before and after the first occurrence of a separator.\<close>

fun cut_text :: "string \<Rightarrow> string \<Rightarrow> (string \<times> string) option" where
  "cut_text sep [] = (if sep = [] then Some ([], []) else None)"
| "cut_text sep (c # s) = (if HasPrefix (c # s) sep then Some ([], drop (length sep) (c # s))
     else case cut_text sep s of None \<Rightarrow> None | Some (a, b) \<Rightarrow> Some (c # a, b))"

definition split_path :: "string \<Rightarrow> (string \<times> string) option" where
  "split_path stripped = (case cut_text ''/@v/'' stripped of
     Some (modulePath, q) \<Rightarrow> Some (modulePath, q)
   | None \<Rightarrow> if HasSuffix stripped ''/@latest'' then Some (trim_suffix stripped ''/@latest'', ''@latest'') else None)"

definition serve_query :: "penv \<Rightarrow> http_request \<Rightarrow> Module \<Rightarrow> string \<Rightarrow> string \<Rightarrow> (world, http_response) state" where
  "serve_query penv r md modulePath q =
     (if q = ''list'' then handleList md
      else if q = ''@latest'' then handleLatest md
      else if HasSuffix q ''.info'' then handleInfo md (trim_suffix q ''.info'')
      else if HasSuffix q ''.mod'' then handleMod penv md modulePath (trim_suffix q ''.mod'')
      else if HasSuffix q ''.zip'' then handleZip penv r md modulePath (trim_suffix q ''.zip'')
      else State_Monad.return http_NotFound)"

definition ServeHTTP :: "env \<Rightarrow> penv \<Rightarrow> http_request \<Rightarrow> (world, http_response) state" where
  "ServeHTTP env penv r =
     (if hr_Method r \<noteq> ''GET'' \<and> hr_Method r \<noteq> ''HEAD'' then State_Monad.return (http_Error ''method not allowed'' 405)
      else (case split_path (fst (CutPrefix (hr_Path r) ''/go/'')) of
        None \<Rightarrow> State_Monad.return http_NotFound
      | Some (modulePath, q) \<Rightarrow> (case parseModulePath penv modulePath of
          Inl (NotServed m) \<Rightarrow> State_Monad.return (http_Error m 404)
        | Inl (Malformed m) \<Rightarrow> State_Monad.return (http_Error m 400)
        | Inr (owner, modName) \<Rightarrow> do {
            a \<leftarrow> proxy_authorize env penv r owner modName;
            (case a of
               Inl status \<Rightarrow> State_Monad.return (http_Error (StatusText status) status)
             | Inr md \<Rightarrow> serve_query penv r md modulePath q)
          })))"

section \<open>Discovery\<close>

text \<open>The pattern \<open>^/gen/go/[A-Za-z0-9._-]+/[A-Za-z0-9._-]+/?$\<close>, and the escaping of an attribute value.\<close>

definition go_path_char :: "char \<Rightarrow> bool" where
  "go_path_char c \<longleftrightarrow> (let n = of_char c :: nat in 65 \<le> n \<and> n \<le> 90 \<or> 97 \<le> n \<and> n \<le> 122 \<or> 48 \<le> n \<and> n \<le> 57
     \<or> c = CHR ''.'' \<or> c = CHR ''_'' \<or> c = CHR ''-'')"

definition goImportPathPattern :: "string \<Rightarrow> bool" where
  "goImportPathPattern path \<longleftrightarrow> HasPrefix path ''/gen/go/''
     \<and> (case Split (drop 8 path) (CHR ''/'') of
          [a, b] \<Rightarrow> a \<noteq> [] \<and> b \<noteq> [] \<and> list_all go_path_char (a @ b)
        | [a, b, c] \<Rightarrow> a \<noteq> [] \<and> b \<noteq> [] \<and> c = [] \<and> list_all go_path_char (a @ b)
        | _ \<Rightarrow> False)"

definition attr_escape :: "string \<Rightarrow> string" where
  "attr_escape s = concat (map (\<lambda>c. if c = CHR 0x22 then ''&#34;'' else if c = CHR ''&'' then ''&amp;''
     else if c = CHR 0x27 then ''&#39;'' else if c = CHR ''+'' then ''&#43;'' else if c = CHR ''<'' then ''&lt;''
     else if c = CHR ''>'' then ''&gt;'' else [c]) s)"

definition goImportPage :: "string \<Rightarrow> string \<Rightarrow> string" where
  "goImportPage modulePath proxyURL = ''<!DOCTYPE html><html><head><meta name='' @ [CHR 0x22] @ ''go-import'' @ [CHR 0x22] @ '' content=''
     @ [CHR 0x22] @ attr_escape modulePath @ '' mod '' @ attr_escape proxyURL @ [CHR 0x22] @ ''></head><body></body></html>''"

definition GoImportHandler :: "penv \<Rightarrow> http_request \<Rightarrow> http_response" where
  "GoImportHandler penv r =
     (if hr_go_get r \<noteq> ''1'' then http_NotFound
      else if \<not> goImportPathPattern (hr_Path r) then http_NotFound
      else (let scheme = (if hr_ForwardedProto r = ''https'' \<or> hr_ForwardedProto r = ''http'' then hr_ForwardedProto r
                          else if hr_TLS r then ''https'' else ''http'') in
        \<lparr>hs_Status = 200, hs_Headers = [(''Content-Type'', ''text/html; charset=utf-8''), (''X-Content-Type-Options'', ''nosniff'')],
          hs_Body = Text (goImportPage (proxy_host penv @ hr_Path r) (scheme @ ''://'' @ proxy_host penv @ ''/go''))\<rparr>))"

section \<open>What the proxy writes\<close>

lemma stream_files_db [db_intros]: "db_keeps Q (stream_files penv pre dir ps)"
  by (induction ps) (auto intro!: db_intros)

lemma job_versions_db [db_intros]: "db_keeps Q (job_versions js)"
  by (induction js) (auto intro!: db_intros)

lemma serve_query_db [db_intros]: "db_keeps Q (serve_query penv r md mp q)"
  unfolding serve_query_def handleList_def handleLatest_def handleInfo_def handleMod_def handleZip_def proxy_resolveCommit_def Let_def
  by (intro db_intros)

lemma path_error_db [db_intros]:
  "(\<And>m. db_keeps Q (f m)) \<Longrightarrow> (\<And>m. db_keeps Q (g m)) \<Longrightarrow> db_keeps Q (case e of NotServed m \<Rightarrow> f m | Malformed m \<Rightarrow> g m)"
  by (cases e) simp_all

context credential_fact
begin

lemma ServeHTTP_keeps [db_intros]: "db_keeps Q (ServeHTTP env penv r)"
  unfolding ServeHTTP_def proxy_authorize_def UserFromToken_def Let_def
  by (intro db_intros)

end

end
