(* ===== verification/Server.thy ===== *)
theory Server
  imports Auth_Tokens Auth_Totp Auth_OAuth Identity_Server Sdk_Jobs Buf_Adapters Go_Proxy
begin

text \<open>
  The server as a whole (\<open>internal/hades/mux.go\<close>): the procedures it serves, the chain of interceptors
  around each of them, and histories of requests, of requests to the Go module proxy and of jobs taken by
  the SDK worker, in which a revoked credential stays revoked.  The tracing and logging interceptors of the
  chain only observe; the validator of messages is a parameter.
\<close>

section \<open>Procedures\<close>

text \<open>One constructor per procedure, with the fields of its request message, by service.\<close>

datatype authentication_rpc =
    RRegister register_request | RSignin register_request | RLogin login_request | RLogout
  | RVerifyEmail string | RResendVerificationEmail | RRequestPasswordReset string | RResetPassword string string
  | RChangePassword string string

datatype session_rpc =
    RListSessions | RRevokeSession string | RRevokeAllOtherSessions

datatype oauth_rpc =
    RGetOAuthURL int | ROAuthCallback oauth_callback_request | RListLinkedProviders | RUnlinkProvider int

datatype apitoken_rpc =
    RCreateAPIToken create_token_request | RListAPITokens int string | RRevokeAPIToken string

datatype device_rpc =
    RRequestDeviceCode | RPollDeviceToken string | RApproveDeviceGrant string

datatype totp_rpc =
    RBeginEnrollTOTP string | RConfirmEnrollTOTP string | RVerifyTOTP string | RDisableTOTP string
  | RListBackupCodes | RRegenerateBackupCodes string

datatype audit_rpc =
    RListAuditLog int string

datatype authorization_rpc =
    RUserBySession

datatype module_rpc =
    RCreateModuleByName CreateModuleRequest | RListModules string int string | RGetModule string string | RUpdateModule UpdateModuleRequest

datatype commit_rpc =
    RListCommits string string int string | RGetCommit string | RGetCommitDiff string | RListModuleFiles string string string string
  | RGetFileContent string string string string

datatype ci_rpc =
    RGetCIRun string string string

datatype sdk_rpc =
    RListSDKs string string

datatype user_rpc =
    RCreateUser | RGetUser string | RListUsers string int string | RUpdateUser string string

datatype org_rpc =
    RGetOrg string | RListOrgMembers string | RCreateOrg string string string | RUpdateOrg string string string
  | RAddOrgMember string string string | RRemoveOrgMember string string | RListOrganizations string int string | RGetUserOrgs string

datatype notification_rpc =
    RListNotifications int string | RMarkNotificationRead string

datatype buf_rpc =
    BGetModules "ResourceRef option list" | BGetCommits "ResourceRef list" | BGetGraph "ResourceRef list" | BDownload "ResourceRef list"
  | BUpload "(ResourceRef \<times> upload_file list) list" | BGetCurrentUser

datatype rpc =
    AuthenticationService authentication_rpc | SessionService session_rpc | OAuthService oauth_rpc | APITokenService apitoken_rpc
  | DeviceService device_rpc | TOTPService totp_rpc | AuditService audit_rpc | Authorization authorization_rpc
  | ModuleService module_rpc | CommitService commit_rpc | CIService ci_rpc | SDKService sdk_rpc
  | UserService user_rpc | OrgService org_rpc | NotificationService notification_rpc | BufServices buf_rpc

fun authentication_procedure :: "authentication_rpc \<Rightarrow> string" where
  "authentication_procedure (RRegister m) = ''/hades.api.auth.v1.AuthenticationService/Register''"
| "authentication_procedure (RSignin m) = ''/hades.api.auth.v1.AuthenticationService/Signin''"
| "authentication_procedure (RLogin m) = ''/hades.api.auth.v1.AuthenticationService/Login''"
| "authentication_procedure RLogout = ''/hades.api.auth.v1.AuthenticationService/Logout''"
| "authentication_procedure (RVerifyEmail t) = ''/hades.api.auth.v1.AuthenticationService/VerifyEmail''"
| "authentication_procedure RResendVerificationEmail = ''/hades.api.auth.v1.AuthenticationService/ResendVerificationEmail''"
| "authentication_procedure (RRequestPasswordReset e) = ''/hades.api.auth.v1.AuthenticationService/RequestPasswordReset''"
| "authentication_procedure (RResetPassword t p) = ''/hades.api.auth.v1.AuthenticationService/ResetPassword''"
| "authentication_procedure (RChangePassword p q) = ''/hades.api.auth.v1.AuthenticationService/ChangePassword''"

fun session_procedure :: "session_rpc \<Rightarrow> string" where
  "session_procedure RListSessions = ''/hades.api.auth.v1.SessionService/ListSessions''"
| "session_procedure (RRevokeSession i) = ''/hades.api.auth.v1.SessionService/RevokeSession''"
| "session_procedure RRevokeAllOtherSessions = ''/hades.api.auth.v1.SessionService/RevokeAllOtherSessions''"

fun oauth_procedure :: "oauth_rpc \<Rightarrow> string" where
  "oauth_procedure (RGetOAuthURL p) = ''/hades.api.auth.v1.OAuthService/GetOAuthURL''"
| "oauth_procedure (ROAuthCallback m) = ''/hades.api.auth.v1.OAuthService/OAuthCallback''"
| "oauth_procedure RListLinkedProviders = ''/hades.api.auth.v1.OAuthService/ListLinkedProviders''"
| "oauth_procedure (RUnlinkProvider p) = ''/hades.api.auth.v1.OAuthService/UnlinkProvider''"

fun apitoken_procedure :: "apitoken_rpc \<Rightarrow> string" where
  "apitoken_procedure (RCreateAPIToken m) = ''/hades.api.auth.v1.APITokenService/CreateAPIToken''"
| "apitoken_procedure (RListAPITokens n t) = ''/hades.api.auth.v1.APITokenService/ListAPITokens''"
| "apitoken_procedure (RRevokeAPIToken i) = ''/hades.api.auth.v1.APITokenService/RevokeAPIToken''"

fun device_procedure :: "device_rpc \<Rightarrow> string" where
  "device_procedure RRequestDeviceCode = ''/hades.api.auth.v1.DeviceService/RequestDeviceCode''"
| "device_procedure (RPollDeviceToken c) = ''/hades.api.auth.v1.DeviceService/PollDeviceToken''"
| "device_procedure (RApproveDeviceGrant c) = ''/hades.api.auth.v1.DeviceService/ApproveDeviceGrant''"

fun totp_procedure :: "totp_rpc \<Rightarrow> string" where
  "totp_procedure (RBeginEnrollTOTP p) = ''/hades.api.auth.v1.TOTPService/BeginEnrollTOTP''"
| "totp_procedure (RConfirmEnrollTOTP c) = ''/hades.api.auth.v1.TOTPService/ConfirmEnrollTOTP''"
| "totp_procedure (RVerifyTOTP c) = ''/hades.api.auth.v1.TOTPService/VerifyTOTP''"
| "totp_procedure (RDisableTOTP c) = ''/hades.api.auth.v1.TOTPService/DisableTOTP''"
| "totp_procedure RListBackupCodes = ''/hades.api.auth.v1.TOTPService/ListBackupCodes''"
| "totp_procedure (RRegenerateBackupCodes p) = ''/hades.api.auth.v1.TOTPService/RegenerateBackupCodes''"

fun audit_procedure :: "audit_rpc \<Rightarrow> string" where
  "audit_procedure (RListAuditLog n t) = ''/hades.api.auth.v1.AuditService/ListAuditLog''"

fun authorization_procedure :: "authorization_rpc \<Rightarrow> string" where
  "authorization_procedure RUserBySession = ''/hades.api.authorization.v1.Authorization/UserBySession''"

fun module_procedure :: "module_rpc \<Rightarrow> string" where
  "module_procedure (RCreateModuleByName m) = ''/hades.api.registry.v1.ModuleService/CreateModuleByName''"
| "module_procedure (RListModules ow n t) = ''/hades.api.registry.v1.ModuleService/ListModules''"
| "module_procedure (RGetModule ow m) = ''/hades.api.registry.v1.ModuleService/GetModule''"
| "module_procedure (RUpdateModule u) = ''/hades.api.registry.v1.ModuleService/UpdateModule''"

fun commit_procedure :: "commit_rpc \<Rightarrow> string" where
  "commit_procedure (RListCommits ow m n t) = ''/hades.api.registry.v1.CommitService/ListCommits''"
| "commit_procedure (RGetCommit h) = ''/hades.api.registry.v1.CommitService/GetCommit''"
| "commit_procedure (RGetCommitDiff h) = ''/hades.api.registry.v1.CommitService/GetCommitDiff''"
| "commit_procedure (RListModuleFiles ow m h p) = ''/hades.api.registry.v1.CommitService/ListModuleFiles''"
| "commit_procedure (RGetFileContent ow m h p) = ''/hades.api.registry.v1.CommitService/GetFileContent''"

fun ci_procedure :: "ci_rpc \<Rightarrow> string" where
  "ci_procedure (RGetCIRun ow m h) = ''/hades.api.registry.v1.CIService/GetCIRun''"

fun sdk_procedure :: "sdk_rpc \<Rightarrow> string" where
  "sdk_procedure (RListSDKs ow m) = ''/hades.api.registry.v1.SDKService/ListSDKs''"

fun user_procedure :: "user_rpc \<Rightarrow> string" where
  "user_procedure RCreateUser = ''/hades.api.identity.v1.UserService/CreateUser''"
| "user_procedure (RGetUser u) = ''/hades.api.identity.v1.UserService/GetUser''"
| "user_procedure (RListUsers q n t) = ''/hades.api.identity.v1.UserService/ListUsers''"
| "user_procedure (RUpdateUser d u) = ''/hades.api.identity.v1.UserService/UpdateUser''"

fun org_procedure :: "org_rpc \<Rightarrow> string" where
  "org_procedure (RGetOrg n) = ''/hades.api.identity.v1.OrgService/GetOrg''"
| "org_procedure (RListOrgMembers n) = ''/hades.api.identity.v1.OrgService/ListOrgMembers''"
| "org_procedure (RCreateOrg n d u) = ''/hades.api.identity.v1.OrgService/CreateOrg''"
| "org_procedure (RUpdateOrg n d u) = ''/hades.api.identity.v1.OrgService/UpdateOrg''"
| "org_procedure (RAddOrgMember n u r) = ''/hades.api.identity.v1.OrgService/AddOrgMember''"
| "org_procedure (RRemoveOrgMember n u) = ''/hades.api.identity.v1.OrgService/RemoveOrgMember''"
| "org_procedure (RListOrganizations q n t) = ''/hades.api.identity.v1.OrgService/ListOrganizations''"
| "org_procedure (RGetUserOrgs u) = ''/hades.api.identity.v1.OrgService/GetUserOrgs''"

fun notification_procedure :: "notification_rpc \<Rightarrow> string" where
  "notification_procedure (RListNotifications n t) = ''/hades.api.identity.v1.NotificationService/ListNotifications''"
| "notification_procedure (RMarkNotificationRead i) = ''/hades.api.identity.v1.NotificationService/MarkNotificationRead''"

fun buf_procedure :: "buf_rpc \<Rightarrow> string" where
  "buf_procedure (BGetModules rs) = ''/buf.registry.module.v1.ModuleService/GetModules''"
| "buf_procedure (BGetCommits rs) = ''/buf.registry.module.v1.CommitService/GetCommits''"
| "buf_procedure (BGetGraph rs) = ''/buf.registry.module.v1.GraphService/GetGraph''"
| "buf_procedure (BDownload rs) = ''/buf.registry.module.v1.DownloadService/Download''"
| "buf_procedure (BUpload cs) = ''/buf.registry.module.v1.UploadService/Upload''"
| "buf_procedure BGetCurrentUser = ''/buf.alpha.registry.v1alpha1.AuthnService/GetCurrentUser''"

fun procedure_of :: "rpc \<Rightarrow> string" where
  "procedure_of (AuthenticationService c) = authentication_procedure c"
| "procedure_of (SessionService c) = session_procedure c"
| "procedure_of (OAuthService c) = oauth_procedure c"
| "procedure_of (APITokenService c) = apitoken_procedure c"
| "procedure_of (DeviceService c) = device_procedure c"
| "procedure_of (TOTPService c) = totp_procedure c"
| "procedure_of (AuditService c) = audit_procedure c"
| "procedure_of (Authorization c) = authorization_procedure c"
| "procedure_of (ModuleService c) = module_procedure c"
| "procedure_of (CommitService c) = commit_procedure c"
| "procedure_of (CIService c) = ci_procedure c"
| "procedure_of (SDKService c) = sdk_procedure c"
| "procedure_of (UserService c) = user_procedure c"
| "procedure_of (OrgService c) = org_procedure c"
| "procedure_of (NotificationService c) = notification_procedure c"
| "procedure_of (BufServices c) = buf_procedure c"

section \<open>Dispatch\<close>

datatype (plugins only: size code) reply =
    Empty | Id uuid | Flag bool | Token login_response | Url string | SessionList "Session_msg list" | Providers "(int \<times> time) list"
  | NewToken create_token_response | TokenList "APIToken_msg list \<times> string" | DeviceCode device_code_response | Polled poll_response
  | Enrolled enroll_response | SessionToken string | CodeList "BackupCode list" | Codes "string list" | AuditList "AuditEvent_msg list \<times> string"
  | OneUser User | UserAndOrgs "User \<times> int \<times> User list" | UserPage "User list \<times> string" | UserList "User list" | OrgCounts "User \<times> int \<times> int"
  | MemberList "(User \<times> string) list" | OneModule Module | ModulePage "Module list \<times> string"
  | OneCommit Commit | CommitPage "Commit list \<times> string" | Diffs "FileDiff list \<times> int \<times> int" | FileTree "TreeEntry list" | FileText "string \<times> int"
  | Checks CIRun | SDKList "SDKJob list" | NotificationPage "Notification list \<times> string"
  | BufModules "BufModule list" | BufCommits "BufCommit list" | BufContents "(BufCommit \<times> upload_file list) list" | BufUser "uuid \<times> string"

text \<open>What the handlers of one server process are wired to.\<close>

record srv =
  sv_env :: env
  sv_renv :: renv
  sv_denv :: denv
  sv_oenv :: oenv
  sv_Validate :: "rpc \<Rightarrow> string option"     \<comment> \<open>what the validator finds wrong with a message\<close>

definition replying :: "('a \<Rightarrow> reply) \<Rightarrow> (world, 'a) call \<Rightarrow> (world, reply) call" where
  "replying f m = do { r \<leftarrow> m; (case r of Inl e \<Rightarrow> fail e | Inr x \<Rightarrow> ok (f x)) }"

definition UserBySession :: "reqctx \<Rightarrow> (world, User) call" where
  "UserBySession ctx = (case ctx_user ctx of None \<Rightarrow> fail (Unauthenticated ''not authenticated'') | Some u \<Rightarrow> ok u)"

fun authentication_handle :: "srv \<Rightarrow> request \<Rightarrow> authentication_rpc \<Rightarrow> reqctx \<Rightarrow> (world, reply) call" where
  "authentication_handle s req (RRegister m) ctx = replying Id (Register (sv_env s) req m)"
| "authentication_handle s req (RSignin m) ctx = replying Flag (Signin (sv_env s) req m)"
| "authentication_handle s req (RLogin m) ctx = replying Token (Login (sv_env s) req m)"
| "authentication_handle s req RLogout ctx = replying (\<lambda>_. Empty) (Logout (sv_env s) ctx)"
| "authentication_handle s req (RVerifyEmail t) ctx = replying (\<lambda>_. Empty) (VerifyEmail (sv_env s) req t)"
| "authentication_handle s req RResendVerificationEmail ctx = replying (\<lambda>_. Empty) (ResendVerificationEmail (sv_env s) ctx)"
| "authentication_handle s req (RRequestPasswordReset e) ctx = replying (\<lambda>_. Empty) (RequestPasswordReset (sv_env s) req e)"
| "authentication_handle s req (RResetPassword t p) ctx = replying (\<lambda>_. Empty) (ResetPassword (sv_env s) req t p)"
| "authentication_handle s req (RChangePassword p q) ctx = replying (\<lambda>_. Empty) (ChangePassword (sv_env s) ctx p q)"

fun session_handle :: "srv \<Rightarrow> request \<Rightarrow> session_rpc \<Rightarrow> reqctx \<Rightarrow> (world, reply) call" where
  "session_handle s req RListSessions ctx = replying SessionList (ListSessions ctx)"
| "session_handle s req (RRevokeSession i) ctx = replying (\<lambda>_. Empty) (RevokeSession (sv_env s) ctx i)"
| "session_handle s req RRevokeAllOtherSessions ctx = replying (\<lambda>_. Empty) (RevokeAllOtherSessions (sv_env s) ctx)"

fun oauth_handle :: "srv \<Rightarrow> request \<Rightarrow> oauth_rpc \<Rightarrow> reqctx \<Rightarrow> (world, reply) call" where
  "oauth_handle s req (RGetOAuthURL p) ctx = replying Url (GetOAuthURL (sv_env s) (sv_oenv s) req p)"
| "oauth_handle s req (ROAuthCallback m) ctx = replying Token (OAuthCallback (sv_env s) (sv_oenv s) req m)"
| "oauth_handle s req RListLinkedProviders ctx = replying Providers (ListLinkedProviders ctx)"
| "oauth_handle s req (RUnlinkProvider p) ctx = replying (\<lambda>_. Empty) (UnlinkProvider (sv_env s) ctx p)"

fun apitoken_handle :: "srv \<Rightarrow> request \<Rightarrow> apitoken_rpc \<Rightarrow> reqctx \<Rightarrow> (world, reply) call" where
  "apitoken_handle s req (RCreateAPIToken m) ctx = replying NewToken (CreateAPIToken (sv_env s) ctx m)"
| "apitoken_handle s req (RListAPITokens n t) ctx = replying TokenList (ListAPITokens ctx n t)"
| "apitoken_handle s req (RRevokeAPIToken i) ctx = replying (\<lambda>_. Empty) (RevokeAPIToken (sv_env s) ctx i)"

fun device_handle :: "srv \<Rightarrow> request \<Rightarrow> device_rpc \<Rightarrow> reqctx \<Rightarrow> (world, reply) call" where
  "device_handle s req RRequestDeviceCode ctx = replying DeviceCode (RequestDeviceCode (sv_env s))"
| "device_handle s req (RPollDeviceToken c) ctx = replying Polled (PollDeviceToken (sv_env s) req c)"
| "device_handle s req (RApproveDeviceGrant c) ctx = replying (\<lambda>_. Empty) (ApproveDeviceGrant (sv_env s) ctx c)"

fun totp_handle :: "srv \<Rightarrow> request \<Rightarrow> totp_rpc \<Rightarrow> reqctx \<Rightarrow> (world, reply) call" where
  "totp_handle s req (RBeginEnrollTOTP p) ctx = replying Enrolled (BeginEnrollTOTP (sv_env s) ctx p)"
| "totp_handle s req (RConfirmEnrollTOTP c) ctx = replying (\<lambda>_. Empty) (ConfirmEnrollTOTP (sv_env s) ctx c)"
| "totp_handle s req (RVerifyTOTP c) ctx = replying SessionToken (VerifyTOTP (sv_env s) ctx c)"
| "totp_handle s req (RDisableTOTP c) ctx = replying (\<lambda>_. Empty) (DisableTOTP (sv_env s) ctx c)"
| "totp_handle s req RListBackupCodes ctx = replying CodeList (ListBackupCodes ctx)"
| "totp_handle s req (RRegenerateBackupCodes p) ctx = replying Codes (RegenerateBackupCodes (sv_env s) ctx p)"

fun audit_handle :: "srv \<Rightarrow> request \<Rightarrow> audit_rpc \<Rightarrow> reqctx \<Rightarrow> (world, reply) call" where
  "audit_handle s req (RListAuditLog n t) ctx = replying AuditList (ListAuditLog ctx n t)"

fun authorization_handle :: "srv \<Rightarrow> request \<Rightarrow> authorization_rpc \<Rightarrow> reqctx \<Rightarrow> (world, reply) call" where
  "authorization_handle s req RUserBySession ctx = replying OneUser (UserBySession ctx)"

fun module_handle :: "srv \<Rightarrow> request \<Rightarrow> module_rpc \<Rightarrow> reqctx \<Rightarrow> (world, reply) call" where
  "module_handle s req (RCreateModuleByName m) ctx = replying OneModule (CreateModuleByName (sv_env s) (sv_renv s) ctx m)"
| "module_handle s req (RListModules ow n t) ctx = replying ModulePage (ListModules (sv_env s) ctx ow n t)"
| "module_handle s req (RGetModule ow m) ctx = replying OneModule (GetModule (sv_env s) ctx ow m)"
| "module_handle s req (RUpdateModule u) ctx = replying OneModule (UpdateModule (sv_env s) ctx u)"

fun commit_handle :: "srv \<Rightarrow> request \<Rightarrow> commit_rpc \<Rightarrow> reqctx \<Rightarrow> (world, reply) call" where
  "commit_handle s req (RListCommits ow m n t) ctx = replying CommitPage (ListCommits_rpc (sv_env s) ctx ow m n t)"
| "commit_handle s req (RGetCommit h) ctx = replying OneCommit (GetCommit (sv_env s) ctx h)"
| "commit_handle s req (RGetCommitDiff h) ctx = replying Diffs (GetCommitDiff (sv_env s) (sv_renv s) (sv_denv s) ctx h)"
| "commit_handle s req (RListModuleFiles ow m h p) ctx = replying FileTree (ListModuleFiles (sv_env s) (sv_renv s) ctx ow m h p)"
| "commit_handle s req (RGetFileContent ow m h p) ctx = replying FileText (GetFileContent (sv_env s) (sv_renv s) ctx ow m h p)"

fun ci_handle :: "srv \<Rightarrow> request \<Rightarrow> ci_rpc \<Rightarrow> reqctx \<Rightarrow> (world, reply) call" where
  "ci_handle s req (RGetCIRun ow m h) ctx = replying Checks (GetCIRun (sv_env s) ctx ow m h)"

fun sdk_handle :: "srv \<Rightarrow> request \<Rightarrow> sdk_rpc \<Rightarrow> reqctx \<Rightarrow> (world, reply) call" where
  "sdk_handle s req (RListSDKs ow m) ctx = replying SDKList (ListSDKs (sv_env s) ctx ow m)"

fun user_handle :: "srv \<Rightarrow> request \<Rightarrow> user_rpc \<Rightarrow> reqctx \<Rightarrow> (world, reply) call" where
  "user_handle s req RCreateUser ctx = fail (ConnErr CodeUnimplemented ''hades.api.identity.v1.UserService.CreateUser is not implemented'')"
| "user_handle s req (RGetUser u) ctx = replying UserAndOrgs (GetUser ctx u)"
| "user_handle s req (RListUsers q n t) ctx = replying UserPage (ListUsers ctx q n t)"
| "user_handle s req (RUpdateUser d u) ctx = replying OneUser (UpdateUser ctx d u)"

fun org_handle :: "srv \<Rightarrow> request \<Rightarrow> org_rpc \<Rightarrow> reqctx \<Rightarrow> (world, reply) call" where
  "org_handle s req (RGetOrg n) ctx = replying OrgCounts (GetOrg n)"
| "org_handle s req (RListOrgMembers n) ctx = replying MemberList (ListOrgMembers ctx n)"
| "org_handle s req (RCreateOrg n d u) ctx = replying OneUser (CreateOrg (sv_env s) ctx n d u)"
| "org_handle s req (RUpdateOrg n d u) ctx = replying OneUser (UpdateOrg (sv_env s) ctx n d u)"
| "org_handle s req (RAddOrgMember n u r) ctx = replying (\<lambda>_. Empty) (AddOrgMember (sv_env s) ctx n u r)"
| "org_handle s req (RRemoveOrgMember n u) ctx = replying (\<lambda>_. Empty) (RemoveOrgMember (sv_env s) ctx n u)"
| "org_handle s req (RListOrganizations q n t) ctx = replying UserPage (ListOrganizations ctx q n t)"
| "org_handle s req (RGetUserOrgs u) ctx = replying UserList (GetUserOrgs ctx u)"

fun notification_handle :: "srv \<Rightarrow> request \<Rightarrow> notification_rpc \<Rightarrow> reqctx \<Rightarrow> (world, reply) call" where
  "notification_handle s req (RListNotifications n t) ctx = replying NotificationPage (ListNotifications ctx n t)"
| "notification_handle s req (RMarkNotificationRead i) ctx = replying (\<lambda>_. Empty) (MarkNotificationRead ctx i)"

fun buf_handle :: "srv \<Rightarrow> request \<Rightarrow> buf_rpc \<Rightarrow> reqctx \<Rightarrow> (world, reply) call" where
  "buf_handle s req (BGetModules rs) ctx = replying BufModules (buf_GetModules (sv_env s) ctx rs)"
| "buf_handle s req (BGetCommits rs) ctx = replying BufCommits (buf_GetCommits (sv_env s) ctx rs)"
| "buf_handle s req (BGetGraph rs) ctx = replying BufCommits (buf_GetGraph (sv_env s) ctx rs)"
| "buf_handle s req (BDownload rs) ctx = replying BufContents (buf_Download (sv_env s) (sv_renv s) ctx rs)"
| "buf_handle s req (BUpload cs) ctx = replying BufCommits (buf_Upload (sv_env s) (sv_renv s) ctx cs)"
| "buf_handle s req BGetCurrentUser ctx = replying BufUser (GetCurrentUser ctx)"

fun handle :: "srv \<Rightarrow> request \<Rightarrow> rpc \<Rightarrow> reqctx \<Rightarrow> (world, reply) call" where
  "handle s req (AuthenticationService c) ctx = authentication_handle s req c ctx"
| "handle s req (SessionService c) ctx = session_handle s req c ctx"
| "handle s req (OAuthService c) ctx = oauth_handle s req c ctx"
| "handle s req (APITokenService c) ctx = apitoken_handle s req c ctx"
| "handle s req (DeviceService c) ctx = device_handle s req c ctx"
| "handle s req (TOTPService c) ctx = totp_handle s req c ctx"
| "handle s req (AuditService c) ctx = audit_handle s req c ctx"
| "handle s req (Authorization c) ctx = authorization_handle s req c ctx"
| "handle s req (ModuleService c) ctx = module_handle s req c ctx"
| "handle s req (CommitService c) ctx = commit_handle s req c ctx"
| "handle s req (CIService c) ctx = ci_handle s req c ctx"
| "handle s req (SDKService c) ctx = sdk_handle s req c ctx"
| "handle s req (UserService c) ctx = user_handle s req c ctx"
| "handle s req (OrgService c) ctx = org_handle s req c ctx"
| "handle s req (NotificationService c) ctx = notification_handle s req c ctx"
| "handle s req (BufServices c) ctx = buf_handle s req c ctx"

text \<open>The interceptors around a handler, the outermost last: validation, authorization, translation of
  errors.\<close>

definition validated :: "srv \<Rightarrow> request \<Rightarrow> rpc \<Rightarrow> reqctx \<Rightarrow> (world, reply) call" where
  "validated s req c ctx = (case sv_Validate s c of Some msg \<Rightarrow> fail (InvalidArgument msg) | None \<Rightarrow> handle s req c ctx)"

definition serve :: "srv \<Rightarrow> request \<Rightarrow> rpc \<Rightarrow> (world, reply) call" where
  "serve s req c = do {
     r \<leftarrow> wrapUnary (sv_env s) (validated s req c) (req\<lparr>rq_procedure := procedure_of c\<rparr>);
     (case r of Inl e \<Rightarrow> fail (ToConnectError e) | Inr x \<Rightarrow> ok x)
   }"

section \<open>Histories\<close>

text \<open>What can happen: a request to a procedure, a request to the proxy, the worker claiming jobs, processing
  one, or recovering stale ones.  Between two of them time passes and the failures the calls will meet are anything; each
  of them runs to its end before the next.\<close>

datatype event = Rpc srv request rpc | Proxy env penv http_request | Job env renv wenv SDKJob | Claim int | Recover time

datatype outcome = Replied "err + reply" | Answered http_response | Worked

fun perform :: "event \<Rightarrow> (world, outcome) state" where
  "perform (Rpc s req c) = do { r \<leftarrow> serve s req c; State_Monad.return (Replied r) }"
| "perform (Proxy env penv r) = do { x \<leftarrow> ServeHTTP env penv r; State_Monad.return (Answered x) }"
| "perform (Job env renv wenv job) = do { process env renv wenv job; State_Monad.return Worked }"
| "perform (Claim n) = do { ClaimPending n; State_Monad.return Worked }"
| "perform (Recover t) = do { RecoverStaleJobs t; State_Monad.return Worked }"

inductive history :: "world \<Rightarrow> (event \<times> outcome) list \<Rightarrow> world \<Rightarrow> bool" where
  start: "history w [] w"
| event: "history w h v \<Longrightarrow> clock v \<le> t \<Longrightarrow> run (perform e) (v\<lparr>clock := t, faults := fs\<rparr>) = (out, v') \<Longrightarrow>
    history w (h @ [(e, out)]) v'"

inductive_cases history_snocE: "history w (h @ [x]) v"

lemma db_keeps_replying [db_intros]: "db_keeps Q m \<Longrightarrow> db_keeps Q (replying f m)"
  unfolding replying_def by (intro db_intros)

lemma UserBySession_db [db_intros]: "db_keeps Q (UserBySession ctx)"
  unfolding UserBySession_def by (intro db_intros)

context credential_fact
begin

lemma authentication_service_keeps [db_intros]: "db_keeps Q (authentication_handle s req c ctx)"
  by (cases c) (simp_all only: authentication_handle.simps, (intro db_intros)+)

lemma session_service_keeps [db_intros]: "db_keeps Q (session_handle s req c ctx)"
  by (cases c) (simp_all only: session_handle.simps, (intro db_intros)+)

lemma oauth_service_keeps [db_intros]: "db_keeps Q (oauth_handle s req c ctx)"
  by (cases c) (simp_all only: oauth_handle.simps, (intro db_intros)+)

lemma apitoken_service_keeps [db_intros]: "db_keeps Q (apitoken_handle s req c ctx)"
  by (cases c) (simp_all only: apitoken_handle.simps, (intro db_intros)+)

lemma device_service_keeps [db_intros]: "db_keeps Q (device_handle s req c ctx)"
  by (cases c) (simp_all only: device_handle.simps, (intro db_intros)+)

lemma totp_service_keeps [db_intros]: "db_keeps Q (totp_handle s req c ctx)"
  by (cases c) (simp_all only: totp_handle.simps, (intro db_intros)+)

lemma audit_service_keeps [db_intros]: "db_keeps Q (audit_handle s req c ctx)"
  by (cases c) (simp_all only: audit_handle.simps, (intro db_intros)+)

lemma authorization_service_keeps [db_intros]: "db_keeps Q (authorization_handle s req c ctx)"
  by (cases c) (simp_all only: authorization_handle.simps, (intro db_intros)+)

lemma module_service_keeps [db_intros]: "db_keeps Q (module_handle s req c ctx)"
  by (cases c) (simp_all only: module_handle.simps, (intro db_intros)+)

lemma commit_service_keeps [db_intros]: "db_keeps Q (commit_handle s req c ctx)"
  by (cases c) (simp_all only: commit_handle.simps, (intro db_intros)+)

lemma ci_service_keeps [db_intros]: "db_keeps Q (ci_handle s req c ctx)"
  by (cases c) (simp_all only: ci_handle.simps, (intro db_intros)+)

lemma sdk_service_keeps [db_intros]: "db_keeps Q (sdk_handle s req c ctx)"
  by (cases c) (simp_all only: sdk_handle.simps, (intro db_intros)+)

lemma user_service_keeps [db_intros]: "db_keeps Q (user_handle s req c ctx)"
  by (cases c) (simp_all only: user_handle.simps, (intro db_intros)+)

lemma org_service_keeps [db_intros]: "db_keeps Q (org_handle s req c ctx)"
  by (cases c) (simp_all only: org_handle.simps, (intro db_intros)+)

lemma notification_service_keeps [db_intros]: "db_keeps Q (notification_handle s req c ctx)"
  by (cases c) (simp_all only: notification_handle.simps, (intro db_intros)+)

lemma buf_service_keeps [db_intros]: "db_keeps Q (buf_handle s req c ctx)"
  by (cases c) (simp_all only: buf_handle.simps, (intro db_intros)+)

lemma handle_keeps [db_intros]: "db_keeps Q (handle s req c ctx)"
  by (cases c) (simp_all only: handle.simps, (intro db_intros)+)

lemma serve_keeps [db_intros]: "db_keeps Q (serve s req c)"
  unfolding serve_def validated_def by (intro db_intros)

lemma perform_keeps: "db_keeps Q (perform e)"
  by (cases e) (simp_all only: perform.simps, (intro db_intros)+)

lemma history_keeps: "history w h w' \<Longrightarrow> Q (dbs w) \<Longrightarrow> Q (dbs w')"
proof (induction rule: history.induct)
  case (event w h v t e fs out v')
  let ?u = "v\<lparr>clock := t, faults := fs\<rparr>"
  have "Q (dbs ?u)" using event.IH event.prems by simp
  with perform_keeps [of e] have "Q (dbs (snd (run (perform e) ?u)))" by (simp add: db_keeps_def keeps_def)
  with event.hyps(3) show ?case by simp
qed

end

end
