(* ===== verification/OAuth_Facts.thy ===== *)
theory OAuth_Facts
  imports Auth_OAuth Account_Facts
begin

text \<open>
  What signing in through a provider guarantees: which identity a session is issued for, which account
  that identity reaches, and that a flow's state is used up.
\<close>

section \<open>The identity\<close>

definition fetched :: "oenv \<Rightarrow> string \<Rightarrow> string \<Rightarrow> (json \<Rightarrow> 'a option) \<Rightarrow> 'a \<Rightarrow> bool" where
  "fetched oenv token url out x \<longleftrightarrow> (\<exists>st body. http_Get oenv token url = Inr (st, Inr body) \<and> 200 \<le> st \<and> st \<le> 299
     \<and> Option.bind (parse (take 1048576 body)) out = Some x)"

text \<open>What the provider states: the account's identifier, and an address it calls verified.\<close>

definition vouched :: "oenv \<Rightarrow> int \<Rightarrow> string \<Rightarrow> string \<Rightarrow> string \<Rightarrow> bool" where
  "vouched oenv p token uid email \<longleftrightarrow> uid \<noteq> [] \<and> email \<noteq> []
     \<and> (p = OAUTH_PROVIDER_GITHUB \<and> (\<exists>u es e. fetched oenv token ''https://api.github.com/user'' decode_gitHubUser u
          \<and> gu_ID u \<noteq> 0 \<and> uid = Itoa (gu_ID u)
          \<and> fetched oenv token ''https://api.github.com/user/emails'' (to_slice decode_gitHubEmail) es
          \<and> e \<in> set es \<and> ge_Primary e \<and> ge_Verified e \<and> email = ge_Email e)
      \<or> p = OAUTH_PROVIDER_GOOGLE \<and> (\<exists>u. fetched oenv token ''https://openidconnect.googleapis.com/v1/userinfo'' decode_googleUser u
          \<and> go_EmailVerified u \<and> uid = go_Sub u \<and> email = go_Email u))"

lemma wp_io_pure [wp_after]:
  "(\<And>e w'. faults w \<noteq> [] \<Longrightarrow> after w (dbs w) w' \<Longrightarrow> Q (Inl (fault_err e)) w') \<Longrightarrow>
   (\<And>w'. after w (dbs w) w' \<Longrightarrow> Q r w') \<Longrightarrow> wp (io (\<lambda>w. (r, w))) Q w"
  by (rule wp_io_after) auto

lemma getJSON_after:
  assumes "\<And>e w'. after w (dbs w) w' \<Longrightarrow> Q (Inl e) w'"
    and "\<And>x w'. fetched oenv token url out x \<Longrightarrow> after w (dbs w) w' \<Longrightarrow> Q (Inr x) w'"
  shows "wp (getJSON oenv token url out) Q w"
  unfolding getJSON_def
  by (intro wp_first wp_after) (use assms in \<open>auto simp: fetched_def\<close>)

lemma fetch_after:
  assumes err: "\<And>e w'. after w (dbs w) w' \<Longrightarrow> Q (Inl e) w'"
    and yes: "\<And>uid email w'. uid \<noteq> [] \<and> email \<noteq> [] \<longrightarrow> vouched oenv p token uid email \<Longrightarrow> after w (dbs w) w' \<Longrightarrow> Q (Inr (uid, email)) w'"
  shows "wp (fetchProviderProfile oenv p token) Q w"
proof -
  have err': "Q (Inl e) w'" if "after w (dbs w) v" "after v (dbs v) w'" for e v w'
    using err that by (simp add: after_def)
  have gh: "wp (fetchGitHubProfile oenv token) Q w" if p: "p = OAUTH_PROVIDER_GITHUB"
    unfolding fetchGitHubProfile_def
  proof (intro wp_first wp_after getJSON_after; (rule err err'; assumption)?)
    fix u v es v' e
    assume u: "fetched oenv token ''https://api.github.com/user'' decode_gitHubUser u" "gu_ID u \<noteq> 0" "after w (dbs w) v" "after v (dbs v) v'"
      "fetched oenv token ''https://api.github.com/user/emails'' (to_slice decode_gitHubEmail) es"
      "find (\<lambda>e. ge_Primary e \<and> ge_Verified e \<and> ge_Email e \<noteq> []) es = Some e"
    then have "e \<in> set es" "ge_Primary e" "ge_Verified e" "ge_Email e \<noteq> []" by (auto simp: find_Some_iff)
    with u p show "Q (Inr (Itoa (gu_ID u), ge_Email e)) v'"
      by (intro yes) (auto simp: vouched_def after_def)
  qed
  have go: "wp (fetchGoogleProfile oenv token) Q w" if p: "p = OAUTH_PROVIDER_GOOGLE"
    unfolding fetchGoogleProfile_def
    by (intro wp_first wp_after getJSON_after; (rule err; assumption)?) (use p in \<open>auto intro!: yes simp: vouched_def\<close>)
  show ?thesis
    unfolding fetchProviderProfile_def by (intro wp_first wp_after gh go) (auto intro: err after_simps)
qed

section \<open>The account of an identity\<close>

definition provider_link :: "string \<Rightarrow> time \<Rightarrow> uuid \<Rightarrow> string \<Rightarrow> string \<Rightarrow> string \<Rightarrow> oauth_row" where
  "provider_link j now i p uid email = \<lparr>oa_id = j, oa_create_time = datetime now, oa_user_id = ID i, oa_provider = p,
     oa_provider_uid = uid, oa_email = Some email\<rparr>"

definition add_link :: "oauth_row \<Rightarrow> db \<Rightarrow> db" where
  "add_link l d = reg (\<lambda>rg. rg\<lparr>oauth_table := oauth_table rg @ [l]\<rparr>) d"

definition unlinked :: "string \<Rightarrow> string \<Rightarrow> db \<Rightarrow> bool" where
  "unlinked p uid d \<longleftrightarrow> (\<forall>r \<in> set (oauth_table (registry d)). \<not> (oa_provider r = p \<and> oa_provider_uid r = uid))"

definition oauth_account :: "string \<Rightarrow> time \<Rightarrow> string \<Rightarrow> string \<Rightarrow> user_row" where
  "oauth_account n now name email = (new_user n now name email [] USER_TYPE_USER USER_STATE_ACTIVE [] [])
     \<lparr>us_email_verified_at := Some (datetime now)\<rparr>"

text \<open>The account \<open>i\<close> an identity reaches, and the tables after finding or making it: one that was
  linked to the identity before; the one with that address, where the operator allows this; or a new
  one, verified, without a password, owner of its own namespace.\<close>

definition by_link :: "string \<Rightarrow> string \<Rightarrow> db \<Rightarrow> uuid \<Rightarrow> db \<Rightarrow> bool" where
  "by_link p uid d i d' \<longleftrightarrow> (\<exists>row. oauth_GetByProviderUID p uid (oauth_table (registry d)) = Inr row \<and> i = oi_UserID row) \<and> d' = d"

definition by_email :: "oenv \<Rightarrow> time \<Rightarrow> string \<Rightarrow> string \<Rightarrow> string \<Rightarrow> db \<Rightarrow> uuid \<Rightarrow> db \<Rightarrow> bool" where
  "by_email oenv now p uid email d i d' \<longleftrightarrow> AllowAccountLinkingByEmail oenv \<and> unlinked p uid d
     \<and> (\<exists>u j al. user_GetByEmail email (users d) = Inr u \<and> i = Id u
         \<and> d' = (add_link (provider_link j now i p uid email) d)\<lparr>audit_log := al\<rparr>)"

definition by_creation :: "time \<Rightarrow> string \<Rightarrow> string \<Rightarrow> string \<Rightarrow> db \<Rightarrow> uuid \<Rightarrow> db \<Rightarrow> bool" where
  "by_creation now p uid email d i d' \<longleftrightarrow> unlinked p uid d
     \<and> (\<exists>n m j name al. i = Canonical n \<and> n \<notin> us_id ` set (users d) \<and> name \<notin> us_username ` set (users d)
         \<and> email \<notin> us_email ` set (users d) \<and> \<not> IsReservedName name
         \<and> d' = (add_link (provider_link j now i p uid email)
             (d\<lparr>users := users d @ [oauth_account n now name email],
                role_bindings := own_namespace m now name (role_bindings d)\<rparr>))\<lparr>audit_log := al\<rparr>)"

lemma link_created:
  "(case oauth_Create i now u p uid em (oauth_table rg) of (r, t) \<Rightarrow> (r, rg\<lparr>oauth_table := t\<rparr>)) = (Inr x, rg') \<Longrightarrow>
   (\<forall>r \<in> set (oauth_table rg). \<not> (oa_provider r = p \<and> oa_provider_uid r = uid))
   \<and> rg' = rg\<lparr>oauth_table := oauth_table rg @ [provider_link i now u p uid em]\<rparr>"
  by (auto simp: oauth_Create_def provider_link_def split: if_splits)

lemma link_refused:
  "(case oauth_Create i now u p uid em (oauth_table rg) of (r, t) \<Rightarrow> (r, rg\<lparr>oauth_table := t\<rparr>)) = (Inl e, rg') \<Longrightarrow> rg' = rg"
  by (auto simp: oauth_Create_def split: if_splits)

lemma oauth_Create_call_after:
  assumes "\<And>e w'. after w (dbs w) w' \<Longrightarrow> Q (Inl e) w'"
    and "\<And>j w'. unlinked p uid (dbs w) \<Longrightarrow> after w (add_link (provider_link j (clock w) u p uid em) (dbs w)) w' \<Longrightarrow> Q (Inr ()) w'"
  shows "wp (oauth_Create_call env u p uid em) Q w"
proof -
  have yes: "Q (Inr x) w'" if "(case oauth_Create i (clock w) u p uid em (oauth_table (registry (dbs w))) of (r, t) \<Rightarrow> (r, (registry (dbs w))\<lparr>oauth_table := t\<rparr>)) = (Inr x, rg)"
    "after w (reg (\<lambda>_. rg) (dbs w)) w'" for i x rg w'
    using assms(2) [of i w'] link_created [OF that(1)] that(2) by (simp add: unlinked_def add_link_def reg_def)
  have no: "Q (Inl e) w'" if "(case oauth_Create i (clock w) u p uid em (oauth_table (registry (dbs w))) of (r, t) \<Rightarrow> (r, (registry (dbs w))\<lparr>oauth_table := t\<rparr>)) = (Inl e, rg)"
    "after w (reg (\<lambda>_. rg) (dbs w)) w'" for i e rg w'
    using assms(1) link_refused [OF that(1)] that(2) by simp
  show ?thesis
    unfolding oauth_Create_call_def
    apply (intro wp_first wp_after)
     apply (rule assms(1); assumption)
    subgoal for n r rg w' by (cases r) (auto intro: yes no)
    done
qed

lemma free_username_after:
  assumes "\<And>e w'. after w (dbs w) w' \<Longrightarrow> Q (Inl e) w'"
    and "\<And>name w'. \<not> IsReservedName name \<Longrightarrow> after w (dbs w) w' \<Longrightarrow> Q (Inr name) w'"
  shows "wp (free_username base attempts) Q w"
  using assms
proof (induction attempts arbitrary: w)
  case Nil
  then show ?case by (simp add: wp_return after_simps)
next
  case (Cons a as)
  show ?case
    unfolding free_username.simps Let_def
    by (intro wp_first wp_after Cons.IH) (use Cons.prems in \<open>auto simp: after_def\<close>)
qed

lemma verified_account:
  assumes "is_hex32 n" and "n \<notin> us_id ` set us"
  shows "user_SetEmailVerified now (Canonical n) (us @ [new_user n now name em [] USER_TYPE_USER USER_STATE_ACTIVE [] []])
       = us @ [oauth_account n now name em]"
proof -
  have "update_where (\<lambda>r. us_id r = n) f us = us" for f using assms(2) by (intro update_where_idle) auto
  then show ?thesis
    using assms(1) by (simp add: user_SetEmailVerified_def ID_Canonical update_where_def oauth_account_def new_user_def)
qed

lemma new_account:
  "(case user_Create i now u em pw ty st de url (users d) of (r, t) \<Rightarrow> (r, d\<lparr>users := t\<rparr>)) = (Inr x, d') \<Longrightarrow> em \<noteq> [] \<Longrightarrow>
   em \<notin> us_email ` set (users d)"
  by (auto simp: user_Create_def split: if_splits)

lemma oauth_account_tx_after:
  assumes ids: "\<And>n. is_hex32 (new_id env n)" and "email \<noteq> []"
    and err: "\<And>e w'. after w (dbs w) w' \<Longrightarrow> Q (Inl e) w'"
    and yes: "\<And>n m j w'. new_id env n \<notin> us_id ` set (users (dbs w)) \<Longrightarrow> name \<notin> us_username ` set (users (dbs w)) \<Longrightarrow>
        email \<notin> us_email ` set (users (dbs w)) \<Longrightarrow> unlinked p uid (dbs w) \<Longrightarrow>
        after w (add_link (provider_link j (clock w) (Canonical (new_id env n)) p uid email)
          ((dbs w)\<lparr>users := users (dbs w) @ [oauth_account (new_id env n) (clock w) name email],
            role_bindings := own_namespace m (clock w) name (role_bindings (dbs w))\<rparr>)) w' \<Longrightarrow>
        Q (Inr (Canonical (new_id env n))) w'"
  shows "wp (oauth_account_tx env name email p uid) Q w"
proof -
  have err': "Q (Inl e) w'" if "dbs w' = dbs w" "repos w' = repos w" "clock w' = clock w" "faults w = [] \<longrightarrow> faults w' = []" for e w'
    using err that by (simp add: after_def)
  show ?thesis
    unfolding oauth_account_tx_def
    apply (intro wp_first wp_after oauth_Create_call_after; (simp add: after_def err'; fail)?)
    subgoal premises prems for v n r d w1 x w2 newUser w3 m w4 j w5
    proof -
      have v: "dbs v = dbs w" "clock v = clock w" using prems(1) by (simp_all add: after_def)
      note c = account_created [OF prems(2) [unfolded prems(4)], unfolded v]
        and em = new_account [OF prems(2) [unfolded prems(4)] assms(2), unfolded v]
      have nu: "Id newUser = Canonical (new_id env n)"
        using prems(3,6) c new_user_found [of name "users (dbs w)"] by (auto simp: after_def)
      have d4: "dbs w4 = (dbs w)\<lparr>users := users (dbs w) @ [oauth_account (new_id env n) (clock w) name email],
            role_bindings := own_namespace (new_id env m) (clock w) name (role_bindings (dbs w))\<rparr>"
        and t4: "clock w4 = clock w" "repos w4 = repos w" "faults w = [] \<longrightarrow> faults w4 = []"
        using prems(1,3,5,7,8) c nu verified_account [OF ids] by (auto simp: after_def own_namespace_def v)
      have un: "unlinked p uid (dbs w)" using prems(9) by (simp add: unlinked_def d4)
      show ?thesis
        using prems(10) t4 nu yes [OF _ _ em un] c
        by (auto simp: after_def d4 intro: err')
    qed
    done
qed

lemma resolveOAuthUser_after:
  assumes ids: "\<And>n. is_hex32 (new_id env n)" and "email \<noteq> []"
    and err: "\<And>e al w'. after w ((dbs w)\<lparr>audit_log := al\<rparr>) w' \<Longrightarrow> Q (Inl e) w'"
    and yes: "\<And>i d w'. by_link p uid (dbs w) i d \<or> by_email oenv (clock w) p uid email (dbs w) i d
        \<or> by_creation (clock w) p uid email (dbs w) i d \<Longrightarrow> after w d w' \<Longrightarrow> Q (Inr i) w'"
  shows "wp (resolveOAuthUser env oenv p uid email) Q w"
proof -
  have same: "Q (Inl e) w'" if "after w (dbs w) w'" for e w' using err [of "audit_log (dbs w)" w'] that by simp
  have linked: "Q (Inr (oi_UserID row)) w'"
    if "oauth_GetByProviderUID p uid (oauth_table (registry (dbs w))) = Inr row" "after w (dbs w) w'" for row w'
    by (rule yes [OF _ that(2)]) (use that(1) in \<open>auto simp: by_link_def\<close>)
  have claimed: "Q (Inr (Id u)) w'"
    if "after w (dbs w) v0" "after v0 (dbs v0) v" "user_GetByEmail email (users (dbs v0)) = Inr u" "\<not> \<not> AllowAccountLinkingByEmail oenv"
      "unlinked p uid (dbs v)" "after v (add_link (provider_link j (clock v) (Id u) p uid email) (dbs v)) v1"
      "after v1 ((dbs v1)\<lparr>audit_log := al\<rparr>) w'" for u v0 v v1 w' j al
    by (rule yes [of "Id u" "dbs w'"]) (use that in \<open>auto simp: by_email_def after_def\<close>)
  have made: "Q (Inr (Canonical n)) w'"
    if "after w (dbs w) v0" "after v0 (dbs v0) v1" "after v1 (dbs v1) v" "\<not> IsReservedName name" "n \<notin> us_id ` set (users (dbs v))"
      "name \<notin> us_username ` set (users (dbs v))" "email \<notin> us_email ` set (users (dbs v))" "unlinked p uid (dbs v)"
      "after v (add_link (provider_link j (clock v) (Canonical n) p uid email)
          ((dbs v)\<lparr>users := users (dbs v) @ [oauth_account n (clock v) name email],
            role_bindings := own_namespace m (clock v) name (role_bindings (dbs v))\<rparr>)) v2"
      "after v2 ((dbs v2)\<lparr>audit_log := al\<rparr>) w'" for n v0 v1 v v2 w' j m name al
  proof -
    have v: "dbs v = dbs w" "clock v = clock w" using that(1-3) by (simp_all add: after_def)
    have d: "dbs w' = (dbs v2)\<lparr>audit_log := al\<rparr>" and d2: "dbs v2 = add_link (provider_link j (clock w) (Canonical n) p uid email)
          ((dbs w)\<lparr>users := users (dbs w) @ [oauth_account n (clock w) name email],
            role_bindings := own_namespace m (clock w) name (role_bindings (dbs w))\<rparr>)"
      using that(9,10) unfolding after_def v by blast+
    have "by_creation (clock w) p uid email (dbs w) (Canonical n) (dbs w')"
      unfolding by_creation_def
      by (intro conjI exI [of _ n] exI [of _ m] exI [of _ j] exI [of _ name] exI [of _ al]; (rule refl that(4-8) [unfolded v])?)
        (simp only: d d2)
    moreover have "after w (dbs w') w'" using that(1-3,9,10) by (simp add: after_def)
    ultimately show ?thesis by (intro yes [of "Canonical n" "dbs w'"] disjI2)
  qed
  show ?thesis
    unfolding resolveOAuthUser_def generateOAuthUsername_def
    by (intro wp_first wp_after oauth_Create_call_after free_username_after oauth_account_tx_after [OF ids assms(2)];
        (simp add: after_def err same; fail)?)
      (rule linked claimed made; assumption)+
qed

section \<open>The state of a flow\<close>

definition forgotten :: "string \<Rightarrow> world \<Rightarrow> bool" where
  "forgotten k w \<longleftrightarrow> mc_Get (clock w) k (mcache w) = None"

lemma consume_after:
  assumes "\<And>e w'. after w (dbs w) w' \<Longrightarrow> Q (Inl e) w'"
    and "\<And>w'. after w (dbs w) w' \<Longrightarrow> mc_Get (clock w) (oauthStateKey s) (mcache w) = Some (providerName p) \<Longrightarrow>
        faults w = [] \<longrightarrow> forgotten (oauthStateKey s) w' \<Longrightarrow> Q (Inr ()) w'"
  shows "wp (consumeOAuthState env s p) Q w"
proof -
  have gone: "mc_Get t k (mc_Delete k m) = None" for t k m by (simp add: mc_Get_def mc_Delete_def)
  show ?thesis
    unfolding consumeOAuthState_def
    by (intro wp_intros; cases "faults w") (use assms in \<open>auto simp: after_def forgotten_def gone\<close>)
qed

lemma forgotten_simps [simp]:
  "forgotten k (w\<lparr>faults := fs\<rparr>) = forgotten k w" "forgotten k (w\<lparr>dbs := d\<rparr>) = forgotten k w"
  "forgotten k (w\<lparr>ids_drawn := m\<rparr>) = forgotten k w" "forgotten k (w\<lparr>reads_done := m\<rparr>) = forgotten k w"
  "forgotten k w \<Longrightarrow> forgotten k (w\<lparr>mcache := mc_Delete j (mcache w)\<rparr>)"
  by (auto simp: forgotten_def mc_Get_def mc_Delete_def split: option.splits)

lemma keeps_io: "(\<And>w. forgotten k w \<Longrightarrow> forgotten k (snd (f w))) \<Longrightarrow> keeps (forgotten k) (io f)"
  by (auto simp: keeps_def io_def split: list.splits option.splits)

lemma calls_forget [keeps_intros]:
  "keeps (forgotten k) (qry f)" "keeps (forgotten k) (upd g)" "keeps (forgotten k) (insert_row env h)"
  "keeps (forgotten k) (rand_Read env n)" "keeps (forgotten k) (cache_Delete j)" "keeps (forgotten k) (io (\<lambda>w. (r, w)))"
  unfolding call_defs by (rule keeps_io; auto split: prod.splits)+

lemma keeps_uow [keeps_intros]:
  assumes "keeps (forgotten k) m"
  shows "keeps (forgotten k) (uow_do m)"
proof -
  have unit: "forgotten k v \<Longrightarrow> run (io (\<lambda>w. (Inr (), w))) v = (r, v') \<Longrightarrow> forgotten k v'" for v v' r
    using calls_forget(6) [of k "Inr ()"] unfolding keeps_def by (metis snd_conv)
  have m: "forgotten k v \<Longrightarrow> run m v = (r, v') \<Longrightarrow> forgotten k v'" for v v' r
    using assms unfolding keeps_def by (metis snd_conv)
  show ?thesis
    unfolding keeps_def uow_do_def by (auto split: prod.splits sum.splits intro: unit m dest: unit m)
qed

lemma free_username_forgets [keeps_intros]: "keeps (forgotten k) (free_username base as)"
  by (induction as) (auto simp: Let_def intro!: keeps_intros)

lemma resolve_forgets [keeps_intros]:
  "keeps (forgotten k) (resolveOAuthUser env oenv p uid em)" "keeps (forgotten k) (fetchProviderProfile oenv pr tok)"
  "keeps (forgotten k) (GenerateToken env pre)" "keeps (forgotten k) (totpRequired env u)"
  unfolding resolveOAuthUser_def generateOAuthUsername_def oauth_account_tx_def AddBasicRoles_def engine_AddBinding_def audit_def
    oauth_Create_call_def insert_reg_def fetchProviderProfile_def fetchGitHubProfile_def fetchGoogleProfile_def getJSON_def
    GenerateToken_def totpRequired_def
  by (intro keeps_intros)+

lemma wp_kept: "keeps P m \<Longrightarrow> C \<longrightarrow> P w \<Longrightarrow> wp m (\<lambda>r w'. C \<longrightarrow> P w') w"
  by (cases "run m w") (force simp: keeps_def wp_def)

section \<open>The session\<close>

definition oauth_session :: "env \<Rightarrow> string \<Rightarrow> time \<Rightarrow> request \<Rightarrow> oauth_callback_request \<Rightarrow> uuid \<Rightarrow> string \<Rightarrow> session_row" where
  "oauth_session env j now req msg i token = \<lparr>
     ss_id = j, ss_user_id = ID i, ss_auth_module = ''oauth:'' @ providerName (cb_Provider msg),
     ss_token_hash = Some (HashToken token), ss_ip_address = Some (rq_client_ip req), ss_user_agent = Some (cb_header_ua msg),
     ss_create_time = datetime now, ss_last_activity_at = Some (datetime now),
     ss_absolute_expires_at = Some (now + abs_days env * (24 * Hour)), ss_expires_at = now + idle_days env * (24 * Hour),
     ss_revoked_at = None, ss_totp_verified = False\<rparr>"

lemma oauth_session_created:
  "(case sess_CreateWithToken j now i (''oauth:'' @ providerName (cb_Provider msg)) (HashToken tok) (rq_client_ip req) (cb_header_ua msg)
      (now + idle_days env * (24 * Hour)) (now + abs_days env * (24 * Hour)) (sessions d) of (r, ss) \<Rightarrow> (r, d\<lparr>sessions := ss\<rparr>)) = (Inr x, d') \<Longrightarrow>
   d' = d\<lparr>sessions := sessions d @ [oauth_session env j now req msg i tok]\<rparr>"
  unfolding oauth_session_def by (drule session_created) blast

lemma session_refused:
  "(case sess_CreateWithToken j now i m h ip ua e a (sessions d) of (r, ss) \<Rightarrow> (r, d\<lparr>sessions := ss\<rparr>)) = (Inl x, d') \<Longrightarrow> d' = d"
  by (auto simp: sess_CreateWithToken_def split: if_splits)

text \<open>Everything after the state was accepted.\<close>

definition signed_in :: "env \<Rightarrow> oenv \<Rightarrow> request \<Rightarrow> oauth_callback_request \<Rightarrow> time \<Rightarrow> db \<Rightarrow> login_response \<Rightarrow> db \<Rightarrow> bool" where
  "signed_in env oenv req msg now d resp d' \<longleftrightarrow>
     (\<exists>cfg token uid email i d1 j. oauth2Config oenv (cb_Provider msg) = Inr cfg \<and> oauth_Exchange oenv cfg (cb_Code msg) = Inr token
       \<and> vouched oenv (cb_Provider msg) token uid email
       \<and> (let p = providerName (cb_Provider msg) in
            by_link p uid d i d1 \<or> by_email oenv now p uid email d i d1 \<or> by_creation now p uid email d i d1)
       \<and> d' = d1\<lparr>sessions := sessions d @ [oauth_session env j now req msg i (lr_Token resp)]\<rparr>)"

lemma by_sessions:
  "by_link p uid d i d1 \<or> by_email oenv now p uid email d i d1 \<or> by_creation now p uid email d i d1 \<Longrightarrow> sessions d1 = sessions d"
  by (auto simp: by_link_def by_email_def by_creation_def add_link_def)

lemma OAuthCallback_effect:
  assumes "\<And>n. is_hex32 (new_id env n)"
  shows "wp (OAuthCallback env oenv req msg) (\<lambda>r w'. case r of
      Inl e \<Rightarrow> sessions (dbs w') = sessions (dbs w)
    | Inr resp \<Rightarrow> mc_Get (clock w) (oauthStateKey (cb_State msg)) (mcache w) = Some (providerName (cb_Provider msg))
        \<and> signed_in env oenv req msg (clock w) (dbs w) resp (dbs w')) w" (is "wp _ ?P w")
proof -
  have no: "?P (Inl e) w'" if "sessions (dbs w') = sessions (dbs w)" for e w' using that by simp
  have yes: "?P (Inr \<lparr>lr_Token = tok, PendingTotp = b\<rparr>) w'"
    if "oauth2Config oenv (cb_Provider msg) = Inr cfg" "oauth_Exchange oenv cfg (cb_Code msg) = Inr token"
      "mc_Get (clock w) (oauthStateKey (cb_State msg)) (mcache w) = Some (providerName (cb_Provider msg))"
      "uid \<noteq> [] \<and> email \<noteq> [] \<longrightarrow> vouched oenv (cb_Provider msg) token uid email" "\<not> (uid = [] \<or> email = [])"
      "by_link (providerName (cb_Provider msg)) uid (dbs w) i d1 \<or> by_email oenv (clock w) (providerName (cb_Provider msg)) uid email (dbs w) i d1
        \<or> by_creation (clock w) (providerName (cb_Provider msg)) uid email (dbs w) i d1"
      "dbs w' = d1\<lparr>sessions := sessions (dbs w) @ [oauth_session env j (clock w) req msg i tok]\<rparr>" for cfg token uid email i d1 j tok b w'
  proof -
    have "signed_in env oenv req msg (clock w) (dbs w) \<lparr>lr_Token = tok, PendingTotp = b\<rparr> (dbs w')"
      unfolding signed_in_def Let_def
      by (intro exI [of _ cfg] exI [of _ token] exI [of _ uid] exI [of _ email] exI [of _ i] exI [of _ d1] exI [of _ j] conjI)
        (use that in auto)
    with that(3) show ?thesis by simp
  qed
  show ?thesis
    unfolding OAuthCallback_def Let_def
    apply (intro wp_first wp_after consume_after fetch_after resolveOAuthUser_after assms;
      (rule no; auto simp: after_def dest!: by_sessions session_refused; fail)?)
     apply (simp; fail)
    subgoal premises prems for cfg w1 w2 token uid email w3 i d1 w4 tok m w5 n r d2 w6 x b w7
    proof (rule yes [OF prems(1,6,3,7,9)])
      have w3: "dbs w3 = dbs w" "clock w3 = clock w" using prems(2,5,8) by (simp_all add: after_def)
      with prems(11,13) have w5: "dbs w5 = d1" "clock w5 = clock w" by (simp_all add: after_def)
      show id: "by_link (providerName (cb_Provider msg)) uid (dbs w) i d1 \<or> by_email oenv (clock w) (providerName (cb_Provider msg)) uid email (dbs w) i d1
        \<or> by_creation (clock w) (providerName (cb_Provider msg)) uid email (dbs w) i d1"
        using prems(10) unfolding w3 .
      from oauth_session_created [OF prems(14) [unfolded prems(16)]] by_sessions [OF id] prems(15,17)
      show "dbs w7 = d1\<lparr>sessions := sessions (dbs w) @ [oauth_session env (new_id env n) (clock w) req msg i tok]\<rparr>"
        by (simp add: after_def w5)
    qed
    done
qed

lemma OAuthCallback_forgets:
  "wp (OAuthCallback env oenv req msg) (\<lambda>r w'. (\<exists>x. r = Inr x) \<longrightarrow> faults w = [] \<longrightarrow> forgotten (oauthStateKey (cb_State msg)) w') w"
proof -
  have rest: "wp m (\<lambda>r w'. (\<exists>x. r = Inr x) \<longrightarrow> faults w = [] \<longrightarrow> forgotten k w') v"
    if "keeps (forgotten k) m" "faults w = [] \<longrightarrow> forgotten k v" for m :: "(world, login_response) call" and k v
    by (rule wp_conseq [OF wp_kept [OF that]]) simp
  show ?thesis
    unfolding OAuthCallback_def Let_def
    apply (rule wp_sum)
     apply (rule wp_return, simp)
    apply (rule wp_bind, rule consume_after)
     apply (rule wp_known, rule wp_return, simp)
    apply (rule wp_known, rule rest, intro keeps_intros, assumption)
    done
qed

section \<open>Unlinking\<close>

text \<open>A password, or a linked provider.\<close>

definition can_sign_in :: "User \<Rightarrow> db \<Rightarrow> bool" where
  "can_sign_in u d \<longleftrightarrow> (\<exists>r \<in> set (users d). us_id r = ID (Id u) \<and> us_password r \<noteq> [])
     \<or> (\<exists>l \<in> set (oauth_table (registry d)). oa_user_id l = ID (Id u))"

lemma kept_link:
  assumes "filter (\<lambda>l. oi_Provider l \<noteq> p) (oauth_GetByUserID i t) \<noteq> []"
  shows "\<exists>l \<in> set (oauth_DeleteByUserAndProvider i p t). oa_user_id l = ID i"
  using assms by (auto simp: oauth_GetByUserID_def oauth_DeleteByUserAndProvider_def filter_empty_conv scan_oauth_def)

definition provider_unlinked :: "User \<Rightarrow> string \<Rightarrow> db \<Rightarrow> db \<Rightarrow> bool" where
  "provider_unlinked u p d d' \<longleftrightarrow> (\<exists>al. d' = (reg (\<lambda>rg. rg\<lparr>oauth_table := oauth_DeleteByUserAndProvider (Id u) p (oauth_table rg)\<rparr>) d)\<lparr>audit_log := al\<rparr>)"

lemma UnlinkProvider_effect:
  "wp (UnlinkProvider env ctx provider) (\<lambda>r w'. case r of
      Inl e \<Rightarrow> dbs w' = dbs w
    | Inr _ \<Rightarrow> \<exists>u. ctx_user ctx = Some u \<and> provider_unlinked u (providerName provider) (dbs w) (dbs w') \<and> can_sign_in u (dbs w')) w"
  (is "wp _ ?P w")
proof -
  have no: "?P (Inl e) w'" if "dbs w' = dbs w" for e w' using that by simp
  have kept: "\<exists>r \<in> set us. us_id r = ID (Id u) \<and> us_password r \<noteq> []"
    if "user_GetAuthFieldsByID (Id u) us = Inr af" "PasswordHash af \<noteq> []" for u us af
  proof -
    from that(1) obtain r where "r \<in> set us" "us_id r = ID (Id u)" "af = scan_auth r"
      by (auto simp: user_GetAuthFieldsByID_def query_row_Inr dest: find_Some_in)
    with that(2) show ?thesis by (auto simp: scan_auth_def)
  qed
  have yes: "?P (Inr x) w'"
    if "ctx_user ctx = Some u" "after w (dbs w) v0" "after v0 (dbs v0) v" "after v (reg (\<lambda>rg. rg\<lparr>oauth_table := oauth_DeleteByUserAndProvider (Id u) (providerName provider) (oauth_table rg)\<rparr>) (dbs v)) v1"
      "after v1 ((dbs v1)\<lparr>audit_log := al\<rparr>) w'"
      "filter (\<lambda>l. oi_Provider l \<noteq> providerName provider) (oauth_GetByUserID (Id u) (oauth_table (registry (dbs w)))) \<noteq> []
       \<or> (\<exists>af. user_GetAuthFieldsByID (Id u) (users (dbs w)) = Inr af \<and> PasswordHash af \<noteq> [])" for u v0 v v1 w' al x
  proof -
    have v: "dbs v = dbs w" using that(2,3) by (simp add: after_def)
    have d: "dbs w' = (dbs v1)\<lparr>audit_log := al\<rparr>" "dbs v1 = reg (\<lambda>rg. rg\<lparr>oauth_table := oauth_DeleteByUserAndProvider (Id u) (providerName provider) (oauth_table rg)\<rparr>) (dbs w)"
      using that(4,5) unfolding after_def v by blast+
    have "can_sign_in u (dbs w')"
      using that(6) by (elim disjE exE conjE) (auto simp: d can_sign_in_def intro: kept dest: kept_link)
    with that(1) show ?thesis by (auto simp: provider_unlinked_def d)
  qed
  show ?thesis
    unfolding UnlinkProvider_def unlink_delete_def Let_def
    apply (intro wp_first wp_after; (rule no; simp add: after_def; fail)?)
    subgoal premises p by (rule yes [OF p(1,2,5,7,8)]) (use p(2,6) in \<open>simp add: after_def\<close>)
    subgoal premises p by (rule yes [OF p(1,2) after_simps(1) p(5,6)]) (use p(3,4) in blast)
    done
qed

section \<open>Properties\<close>

text \<open>C20. \<open>OAuthCallback\<close> hands out a token only for a state that the cache holds, unexpired, for the same
  provider, where \<open>GetOAuthURL\<close> records them, and only for an identity whose address the provider calls verified.
  The session it adds, the only one, belongs to the account linked to that identity, or to a new account,
  created whole with its link and its role; an existing account is entered by its address only where the
  operator allows that, and an identity that is linked keeps its account.  If no call failed, the state
  is gone afterwards; a failing deletion is only logged, and then the state stays usable.  A refusal adds
  no session.\<close>

theorem oauth_login_sound:
  assumes "\<And>n. is_hex32 (new_id env n)"
  shows "case run (OAuthCallback env oenv req msg) w of
      (Inl _, w') \<Rightarrow> sessions (dbs w') = sessions (dbs w)
    | (Inr resp, w') \<Rightarrow>
        mc_Get (clock w) (oauthStateKey (cb_State msg)) (mcache w) = Some (providerName (cb_Provider msg))
        \<and> signed_in env oenv req msg (clock w) (dbs w) resp (dbs w')
        \<and> (faults w = [] \<longrightarrow> mc_Get (clock w') (oauthStateKey (cb_State msg)) (mcache w') = None)"
proof -
  obtain r w' where run: "run (OAuthCallback env oenv req msg) w = (r, w')" by fastforce
  from wp_run [OF OAuthCallback_effect [OF assms] run] wp_run [OF OAuthCallback_forgets run]
  show ?thesis unfolding run by (cases r) (auto simp: forgotten_def)
qed

definition demo_body :: "string \<Rightarrow> string" where
  "demo_body token = ''{'' @ enc_str ''sub'' @ '':'' @ enc_str token @ '','' @ enc_str ''email'' @ '':''
     @ enc_str ''carol@example.com'' @ '','' @ enc_str ''email_verified'' @ '':true}''"

definition demo_oenv :: oenv where
  "demo_oenv = \<lparr>oe_GitHub = \<lparr>op_ClientID = ''id'', op_ClientSecret = ''secret'', op_RedirectURL = ''https://hades/oauth''\<rparr>,
     oe_Google = \<lparr>op_ClientID = ''id'', op_ClientSecret = ''secret'', op_RedirectURL = ''https://hades/oauth''\<rparr>,
     AllowAccountLinkingByEmail = False, github_Endpoint = ''github.com'', google_Endpoint = ''google.com'',
     AuthCodeURL = (\<lambda>cfg state. oc_Endpoint cfg @ ''?state='' @ state), oauth_Exchange = (\<lambda>cfg code. Inr code),
     http_Get = (\<lambda>token url. Inr (200, Inr (demo_body token)))\<rparr>"

text \<open>What the example provider answers is a verified profile.\<close>

lemma demo_vouched: "vouched demo_oenv OAUTH_PROVIDER_GOOGLE ''42'' ''42'' ''carol@example.com''"
proof -
  have body: "Option.bind (parse (demo_body ''42'')) decode_googleUser
      = Some \<lparr>go_Sub = ''42'', go_Email = ''carol@example.com'', go_EmailVerified = True\<rparr>" by code_simp
  have "length (demo_body ''42'') \<le> 100" by code_simp
  then have "take 1048576 (demo_body ''42'') = demo_body ''42''" by (intro take_all) linarith
  with body have "fetched demo_oenv ''42'' ''https://openidconnect.googleapis.com/v1/userinfo'' decode_googleUser
      \<lparr>go_Sub = ''42'', go_Email = ''carol@example.com'', go_EmailVerified = True\<rparr>"
    unfolding fetched_def demo_oenv_def by (intro exI [of _ 200] exI [of _ "demo_body ''42''"]) simp
  then show ?thesis unfolding vouched_def by force
qed

definition forged :: oauth_callback_request where
  "forged = \<lparr>cb_Provider = OAUTH_PROVIDER_GOOGLE, cb_State = ''guess'', cb_Code = ''42'', cb_header_ua = []\<rparr>"

theorem oauth_login_sound_witness:
  "sessions (dbs (snd (run (OAuthCallback demo_env demo_oenv demo_req forged) logged_out))) = []"
proof -
  obtain r w' where run: "run (OAuthCallback demo_env demo_oenv demo_req forged) logged_out = (r, w')" by fastforce
  have no: "mc_Get (clock logged_out) k (mcache logged_out) = None" for k
    by (simp add: logged_out_def demo_world_def granted_world_def engine_AddBinding_def insert_row_def cache_Delete_def io_def
        start_world_def mc_Delete_def mc_Get_def NewMemoryCache_def gm_delete_def empty_db_def split: prod.splits)
  have ids: "is_hex32 (new_id demo_env n)" for n by simp
  from oauth_login_sound [OF ids, where oenv = demo_oenv and req = demo_req and msg = forged and w = logged_out] run no
  show ?thesis by (cases r) simp_all
qed

end
