(* ===== verification/Proxy_Facts.thy ===== *)
theory Proxy_Facts
  imports Go_Proxy OAuth_Facts Commit_Facts Sdk_Facts
begin

text \<open>
  What the Go module proxy guarantees: encoded paths and versions read back, only readable modules are
  served, and an archive holds only the artifacts of one commit of the module.
\<close>

section \<open>Paths and versions\<close>

text \<open>The encoding a client applies.\<close>

definition escape_path :: "string \<Rightarrow> string" where
  "escape_path s = concat (map (\<lambda>c. if is_upper c then [CHR ''!'', char_of (of_char c + 32 :: nat)] else [c]) s)"

lemma unescape_from_escape:
  "CHR ''!'' \<notin> set s \<Longrightarrow> unescape_from e (escape_path s) b = Inr (b @ s)"
proof (induction s arbitrary: b)
  case (Cons c s)
  have ne: "c \<noteq> CHR ''!''" and IH: "unescape_from e (escape_path s) x = Inr (x @ s)" for x
    using Cons by auto
  show ?case
  proof (cases "is_upper c")
    case True
    then have n: "65 \<le> (of_char c :: nat)" "(of_char c :: nat) \<le> 90" by (simp_all add: is_upper_def)
    then have "(of_char (char_of (of_char c + 32 :: nat)) :: nat) = of_char c + 32"
      by (simp add: of_char_of)
    with n show ?thesis using IH by (simp add: escape_path_def True)
  qed (use IH ne in \<open>simp add: escape_path_def\<close>)
qed (simp add: escape_path_def)

lemma escape_unchanged: "\<forall>c \<in> set s. \<not> is_upper c \<Longrightarrow> escape_path s = s"
  by (induction s) (auto simp: escape_path_def)

lemma unescape_round_trip:
  assumes "CHR ''!'' \<notin> set s"
  shows "unescapeModulePath (escape_path s) = Inr s"
proof (cases "\<exists>c \<in> set (escape_path s). c = CHR ''!'' \<or> is_upper c")
  case True
  with unescape_from_escape [OF assms] show ?thesis by (simp add: unescapeModulePath_def)
next
  case False
  have "CHR ''!'' \<in> set (escape_path s)" if "c \<in> set s" "is_upper c" for c
    using that by (induction s) (auto simp: escape_path_def)
  with False have "escape_path s = s" by (intro escape_unchanged) blast
  with False show ?thesis by (simp add: unescapeModulePath_def)
qed

lemma digits_no_dash: "list_all Paging.is_digit xs \<Longrightarrow> CHR ''-'' \<notin> set xs"
  by (auto simp: list_all_iff Paging.is_digit_def)

lemma pad_digits: "0 \<le> n \<Longrightarrow> CHR ''-'' \<notin> set (pad k n)"
  using nat_digits_ok [of "nat n"] digits_no_dash by (auto simp: pad_def Itoa_def Let_def)

lemma civil_nonneg:
  assumes "0 \<le> days" and "civil days = (y, m, d)"
  shows "0 \<le> y \<and> 0 \<le> m \<and> 0 \<le> d"
proof -
  define doe where "doe = (days + 719468) mod 146097"
  define yoe where "yoe = (doe - doe div 1460 + doe div 36524 - doe div 146096) div 365"
  define doy where "doy = doe - (365 * yoe + yoe div 4 - yoe div 100)"
  define mp where "mp = (5 * doy + 2) div 153"
  have q: "k * (a div k) \<le> a \<and> a < k * (a div k) + k" if "0 < k" for a k :: int
    using that by (simp add: mult_div_mod_eq [symmetric] minus_mod_eq_mult_div [symmetric])
  have doe: "0 \<le> doe" by (simp add: doe_def)
  have yoe: "0 \<le> yoe" unfolding yoe_def using doe by linarith
  have "-5 \<le> doy"
    using q [of 1460 doe] q [of 36524 doe] q [of 146096 doe] q [of 4 yoe] q [of 100 yoe] doe yoe
      q [of 365 "doe - doe div 1460 + doe div 36524 - doe div 146096", folded yoe_def]
    unfolding doy_def by linarith
  then have mp: "-1 \<le> mp" unfolding mp_def by linarith
  have "(153 * mp + 2) div 5 \<le> doy" using q [of 153 "5 * doy + 2", folded mp_def] q [of 5 "153 * mp + 2"] by linarith
  moreover have "0 \<le> (days + 719468) div 146097" using assms(1) by simp
  ultimately show ?thesis
    using assms(2) mp yoe unfolding civil_def Let_def doe_def [symmetric] yoe_def [symmetric] doy_def [symmetric] mp_def [symmetric]
    by (auto split: if_splits)
qed

text \<open>A version the proxy lists names the commit it was made of.\<close>

lemma version_round_trip:
  assumes "0 \<le> Cm_CreateTime c" and "CHR ''-'' \<notin> set (Cm_CommitHash c)"
  shows "hashFromVersion (toPseudoVersion c) = Some (take 12 (Cm_CommitHash c))"
proof -
  let ?s = "Cm_CreateTime c div Second"
  obtain y m d where civ: "civil (?s div 86400) = (y, m, d)" using prod_cases3 by blast
  have "0 \<le> ?s div 86400" using assms(1) by simp
  from civil_nonneg [OF this civ] have "CHR ''-'' \<notin> set (Format_compact (Cm_CreateTime c))"
    unfolding Format_compact_def Let_def civ by (simp add: pad_digits)
  moreover have "CHR ''-'' \<notin> set (take 12 (Cm_CommitHash c))" using assms(2) by (auto dest: in_set_takeD)
  ultimately show ?thesis
    by (simp add: hashFromVersion_def toPseudoVersion_def Let_def Split_append Split_single HasPrefix_def)
qed

section \<open>The caller\<close>

text \<open>Nobody, or the account of a live credential with the scopes it carries.\<close>

definition proxy_caller :: "db \<Rightarrow> time \<Rightarrow> string \<Rightarrow> User option \<Rightarrow> scopes \<Rightarrow> bool" where
  "proxy_caller d now cred user sc \<longleftrightarrow> cred = [] \<and> user = None \<and> sc = UnrestrictedScopes
     \<or> cred \<noteq> [] \<and> (\<exists>u. user = Some u
         \<and> (HasPrefix cred SessionTokenPrefix \<and> sc = UnrestrictedScopes \<and> (\<exists>sess. session_live d now cred externalProcedure sess u)
            \<or> HasPrefix cred APITokenPrefix \<and> (\<exists>row. token_live d now cred row u \<and> sc = ScopesFromValues (Scopes_t row))))"

text \<open>What resolving a credential leaves alone.\<close>

definition aside :: "world \<Rightarrow> world \<Rightarrow> bool" where
  "aside w w' \<longleftrightarrow> users (dbs w') = users (dbs w) \<and> registry (dbs w') = registry (dbs w)
     \<and> role_bindings (dbs w') = role_bindings (dbs w) \<and> mcache w' = mcache w \<and> clock w' = clock w \<and> (faults w = [] \<longrightarrow> faults w' = [])"

lemma keeps_aside [keeps_intros]:
  "keeps (aside w) (qry f)" "keeps (aside w) (upd (\<lambda>now d. d\<lparr>sessions := g now d\<rparr>))" "keeps (aside w) (upd (\<lambda>now d. d\<lparr>api_tokens := h now d\<rparr>))"
  by (auto simp: keeps_def aside_def call_defs io_def split: list.splits option.splits)

lemma UserFromToken_aside: "keeps (aside w) (UserFromToken env tok)"
  unfolding UserFromToken_def resolveSession_def resolveAPIToken_def validateSessionChecks_def touchSession_def recordTokenUse_def Let_def
  by (intro keeps_intros)

lemma UserFromToken_sound:
  "wp (UserFromToken env tok) (\<lambda>r w'. \<forall>u sc. r = Inr (u, sc) \<longrightarrow>
      HasPrefix tok SessionTokenPrefix \<and> sc = UnrestrictedScopes \<and> (\<exists>sess. session_live (dbs w) (clock w) tok externalProcedure sess u)
      \<or> HasPrefix tok APITokenPrefix \<and> (\<exists>row. token_live (dbs w) (clock w) tok row u \<and> sc = ScopesFromValues (Scopes_t row))) w"
  unfolding UserFromToken_def
  by (intro wp_first wp_intros wp_conseq [OF resolveSession_sound] wp_conseq [OF resolveAPIToken_sound]) auto

lemma UserFromToken_after:
  assumes "\<And>e w'. Q (Inl e) w'" and "tok \<noteq> []"
    and "\<And>u sc w'. proxy_caller (dbs w) (clock w) tok (Some u) sc \<Longrightarrow> aside w w' \<Longrightarrow> Q (Inr (u, sc)) w'"
  shows "wp (UserFromToken env tok) Q w"
proof -
  obtain r w' where run: "run (UserFromToken env tok) w = (r, w')" by fastforce
  have "aside w w'" using UserFromToken_aside [of w env tok] run by (force simp: keeps_def aside_def)
  with wp_run [OF UserFromToken_sound run] assms run show ?thesis
    by (cases r) (auto simp: wp_def proxy_caller_def)
qed

lemma aside_facts:
  assumes "aside w w'"
  shows "decision env w' p = decision env w p" "cache_coherent w \<Longrightarrow> cache_coherent w'"
  using assms by (auto simp: aside_def decision_def current_bindings_def cache_coherent_def)

text \<open>A caller of the proxy may read a module when the credential's scopes and the policy say so.\<close>

definition proxy_readable :: "env \<Rightarrow> world \<Rightarrow> http_request \<Rightarrow> Module \<Rightarrow> bool" where
  "proxy_readable env w r md \<longleftrightarrow> (\<exists>user sc. proxy_caller (dbs w) (clock w) (credentialFromRequest r) user sc
     \<and> may_read env w \<lparr>ctx_user = user, ctx_authorization = [], ctx_scopes = Some sc\<rparr> user (mref md))"

lemma proxy_authorize_after:
  assumes coh: "cache_coherent w" "visits (ord_entries env)"
    and no: "\<And>s w'. s \<in> {401, 403, 404, 503} \<Longrightarrow> Q (Inl s) w'"
    and yes: "\<And>md w'. module_GetModuleByOwnerAndName (users (dbs w)) owner name (module_table (registry (dbs w))) = Inr md \<Longrightarrow>
        proxy_readable env w r md \<Longrightarrow> users (dbs w') = users (dbs w) \<Longrightarrow> registry (dbs w') = registry (dbs w) \<Longrightarrow> Q (Inr md) w'"
  shows "wp (proxy_authorize env penv r owner name) Q w"
proof -
  let ?cred = "credentialFromRequest r"
  have rest: "wp (qry (\<lambda>d. module_GetModuleByOwnerAndName (users d) owner name (module_table (registry d)))) (\<lambda>q.
        wp (case q of Inl e \<Rightarrow> State_Monad.return (Inl 404)
          | Inr md \<Rightarrow> if \<not> scopes_Allow sc ResourceModule ActionRead (Mod_Name md) then State_Monad.return (Inl 403)
              else State_Monad.bind (CheckReadAccess env Background user [mref md])
                (\<lambda>c. case c of Inl e \<Rightarrow> State_Monad.return (Inl 404) | Inr _ \<Rightarrow> State_Monad.return (Inr md))) Q) v"
    if a: "aside w v" and who: "proxy_caller (dbs w) (clock w) ?cred user sc" for v user sc
  proof -
    have st: "steady v v" by (rule steady_refl) (rule aside_facts(2) [OF a coh(1)])
    have ok: "Q (Inr md) w'" if "module_GetModuleByOwnerAndName (users (dbs v)) owner name (module_table (registry (dbs v))) = Inr md"
        "\<not> \<not> scopes_Allow sc ResourceModule ActionRead (Mod_Name md)" "steady v w'" "\<forall>m \<in> set [mref md]. may_read env v Background user m" for md w'
    proof (rule yes)
      show "module_GetModuleByOwnerAndName (users (dbs w)) owner name (module_table (registry (dbs w))) = Inr md"
        using that(1) a by (simp add: aside_def)
      show "proxy_readable env w r md"
        unfolding proxy_readable_def
        by (intro exI [of _ user] exI [of _ sc] conjI who)
          (use that(2,4) aside_facts(1) [OF a] in \<open>auto simp: may_read_def scopesFromContext_def mref_def\<close>)
    qed (use that(3) a in \<open>auto simp: steady_def same_state_def aside_def\<close>)
    show ?thesis
      by (intro wp_first wp_intros CheckReadAccess_steady [where ?w0.0 = v, OF steady_faults [OF st] coh(2)])
        (auto intro: no ok)
  qed
  show ?thesis
    unfolding proxy_authorize_def Let_def
    by (intro wp_first wp_if wp_return wp_bind UserFromToken_after; (rule rest)?)
      (auto intro: no simp: proxy_caller_def aside_def)
qed

section \<open>Archives\<close>

text \<open>The commit a version of the module names.\<close>

definition version_of :: "world \<Rightarrow> Module \<Rightarrow> string \<Rightarrow> Commit \<Rightarrow> bool" where
  "version_of w md ver c \<longleftrightarrow> (\<exists>h. hashFromVersion ver = Some h
     \<and> commit_GetByHashPrefix (users (dbs w)) (module_table (registry (dbs w))) h (commit_table (registry (dbs w))) = Inr c)
     \<and> Cm_ModuleId c = Mod_Id md"

text \<open>The entries are the stored artifacts of the commit, under the module's and version's directory, and
  a \<open>go.mod\<close> if none is stored; a closed archive has every one of them, in full.\<close>

definition archive_of :: "penv \<Rightarrow> Commit \<Rightarrow> string \<Rightarrow> string \<Rightarrow> (string \<times> string) list \<Rightarrow> bool \<Rightarrow> bool" where
  "archive_of penv c modulePath ver es closed \<longleftrightarrow> (\<exists>paths. backend_ListFiles penv (artifact_prefix c) = Inr paths
     \<and> (let dir = modulePath @ ''@'' @ ver @ ''/'' in
         (\<forall>(p, content) \<in> set es.
            ''go.mod'' \<notin> set paths \<and> p = dir @ ''go.mod'' \<and> content = syntheticGoMod modulePath
            \<or> (\<exists>f \<in> set paths. p = dir @ f \<and> (\<exists>e. backend_GetFile penv (artifact_prefix c @ ''/'' @ f) = Inr (content, e) \<and> (closed \<longrightarrow> e = None))))
         \<and> (closed \<longrightarrow> (\<forall>f \<in> set paths \<union> {''go.mod''}. dir @ f \<in> fst ` set es))))"

lemma stream_files_after:
  "wp (stream_files penv pre dir ps) (\<lambda>r w'.
     (\<forall>(p, content) \<in> set (fst r). \<exists>f \<in> set ps. p = dir @ f
        \<and> (\<exists>e. backend_GetFile penv (pre @ ''/'' @ f) = Inr (content, e) \<and> (snd r \<longrightarrow> e = None)))
     \<and> (snd r \<longrightarrow> map fst (fst r) = map (\<lambda>f. dir @ f) ps)) w"
proof (induction ps arbitrary: w)
  case (Cons p ps)
  show ?case
    unfolding stream_files.simps
    by (intro wp_first wp_io_pure wp_intros wp_conseq [OF Cons.IH]) (auto simp: case_prod_beta)
qed (simp add: wp_return)

text \<open>The commits a Go SDK was generated for.\<close>

definition generated :: "world \<Rightarrow> Module \<Rightarrow> Commit \<Rightarrow> bool" where
  "generated w md c \<longleftrightarrow> (\<exists>job \<in> set (job_ListSucceededByModuleAndLang (Mod_Id md) ''go'' (job_table (registry (dbs w)))).
     commit_GetCommitById (module_table (registry (dbs w))) (Job_CommitID job) (commit_table (registry (dbs w))) = Inr c)"

text \<open>The \<open>go.mod\<close> of a commit: the stored one, or a synthetic one if the storage says that there is none,
  in one of the three ways its backends say so; any other storage error is no answer.\<close>

definition mod_file :: "penv \<Rightarrow> Commit \<Rightarrow> string \<Rightarrow> string \<Rightarrow> bool" where
  "mod_file penv c modulePath t \<longleftrightarrow> (case backend_GetFile penv (artifact_prefix c @ ''/go.mod'') of
     Inr (stored, e) \<Rightarrow> t = stored
   | Inl e \<Rightarrow> t = syntheticGoMod modulePath
       \<and> (e = ErrNotFound \<or> e = Sentinel ''sdk storage: artifact not found'' \<or> e = Sentinel ''file does not exist''))"

text \<open>What a successful answer to a query says: versions and times of commits an SDK was generated for, the
  version, module file or archive of the commit the query names.\<close>

definition answer_of :: "penv \<Rightarrow> world \<Rightarrow> Module \<Rightarrow> string \<Rightarrow> string \<Rightarrow> http_response \<Rightarrow> bool" where
  "answer_of penv w md modulePath q resp \<longleftrightarrow>
     q = ''list'' \<and> (\<exists>cs. resp = text_ok (Join (map toPseudoVersion cs) [CHR 0x0A] @ [CHR 0x0A]) \<and> (\<forall>c \<in> set cs. generated w md c))
     \<or> q = ''@latest'' \<and> (\<exists>c. resp = json_info c \<and> generated w md c)
     \<or> (\<exists>ver c. version_of w md ver c
         \<and> (q = ver @ ''.info'' \<and> resp = json_info c
            \<or> q = ver @ ''.mod'' \<and> (\<exists>t. resp = text_ok t \<and> mod_file penv c modulePath t)
            \<or> q = ver @ ''.zip'' \<and> (hs_Body resp = NoBody \<or> (\<exists>es closed. hs_Body resp = Archive es closed \<and> archive_of penv c modulePath ver es closed))))"

definition answered :: "penv \<Rightarrow> world \<Rightarrow> Module \<Rightarrow> string \<Rightarrow> string \<Rightarrow> http_response \<Rightarrow> bool" where
  "answered penv w md modulePath q resp \<longleftrightarrow> (hs_Status resp \<in> {200, 304} \<longrightarrow> answer_of penv w md modulePath q resp)"

lemma refusal_answered:
  "s \<in> {400, 401, 403, 404, 500, 502, 503} \<Longrightarrow> answered penv w md mp q (http_Error m s)" "answered penv w md mp q http_NotFound"
  by (auto simp: answered_def http_Error_def http_NotFound_def)

lemma answered_elsewhere:
  "users (dbs v) = users (dbs w) \<Longrightarrow> registry (dbs v) = registry (dbs w) \<Longrightarrow> answered penv v md mp q resp \<Longrightarrow> answered penv w md mp q resp"
  by (simp add: answered_def answer_of_def version_of_def generated_def)

lemma job_versions_after:
  assumes "\<forall>job \<in> set jobs. job \<in> set (job_ListSucceededByModuleAndLang (Mod_Id md) ''go'' (job_table (registry (dbs w))))"
    and "registry (dbs w') = registry (dbs w)"
  shows "wp (job_versions jobs) (\<lambda>vs _. \<exists>cs. vs = map toPseudoVersion cs \<and> (\<forall>c \<in> set cs. generated w md c)) w'"
  using assms
proof (induction jobs arbitrary: w')
  case (Cons job jobs)
  have more: "\<exists>cs. toPseudoVersion c # vs = map toPseudoVersion cs \<and> (\<forall>c \<in> set cs. generated w md c)"
    if "commit_GetCommitById (module_table (registry (dbs w'))) (Job_CommitID job) (commit_table (registry (dbs w'))) = Inr c"
      "\<exists>cs. vs = map toPseudoVersion cs \<and> (\<forall>c \<in> set cs. generated w md c)" for c vs
  proof -
    from that(2) obtain cs where "vs = map toPseudoVersion cs" "\<forall>c \<in> set cs. generated w md c" by blast
    moreover have "generated w md c" using that(1) Cons.prems by (auto simp: generated_def)
    ultimately show ?thesis by (intro exI [of _ "c # cs"]) simp
  qed
  show ?case
    unfolding job_versions.simps
    by (intro wp_first wp_intros wp_conseq [OF Cons.IH]; (rule more)?) (use Cons.prems in \<open>simp_all\<close>)
qed (auto simp: wp_return intro: exI [of _ "[]"])

lemma list_answered: "wp (handleList md) (\<lambda>resp _. answered penv w md mp ''list'' resp) w"
  unfolding handleList_def
  by (intro wp_first wp_intros wp_conseq [OF job_versions_after [of _ md w]]; (rule refusal_answered; simp; fail)?)
    (auto simp: answered_def answer_of_def)

lemma latest_answered: "wp (handleLatest md) (\<lambda>resp _. answered penv w md mp ''@latest'' resp) w"
  unfolding handleLatest_def
  by (intro wp_first wp_intros; (rule refusal_answered)?)
    (auto simp: answered_def answer_of_def generated_def)

lemma resolveCommit_after:
  assumes "\<And>s w'. s \<in> {400, 404, 500} \<Longrightarrow> Q (Inl s) w'"
    and "\<And>c w'. version_of w md ver c \<Longrightarrow> Q (Inr c) w'"
  shows "wp (proxy_resolveCommit md ver) Q w"
  unfolding proxy_resolveCommit_def
  by (intro wp_first wp_intros) (use assms in \<open>auto simp: version_of_def\<close>)

lemma archive_ofI:
  assumes "backend_ListFiles penv (artifact_prefix c) = Inr paths" and "dir = modulePath @ ''@'' @ ver @ ''/''"
    and "\<forall>(p, content) \<in> set fs. \<exists>f \<in> set paths. p = dir @ f
        \<and> (\<exists>e. backend_GetFile penv (artifact_prefix c @ ''/'' @ f) = Inr (content, e) \<and> (closed \<longrightarrow> e = None))"
    and "closed \<longrightarrow> map fst fs = map (\<lambda>f. dir @ f) paths"
  shows "archive_of penv c modulePath ver ((if ''go.mod'' \<in> set paths then [] else [(dir @ ''go.mod'', syntheticGoMod modulePath)]) @ fs) closed"
proof -
  have all: "dir @ f \<in> fst ` set fs" if "closed" "f \<in> set paths" for f
  proof -
    have "dir @ f \<in> set (map (\<lambda>f. dir @ f) paths)" using that(2) by simp
    then show ?thesis using assms(4) that(1) by (metis list.set_map)
  qed
  show ?thesis
    unfolding archive_of_def Let_def assms(2) [symmetric]
    by (intro exI [of _ paths] conjI assms(1) ballI impI) (use assms(3) all in \<open>fastforce split: if_splits\<close>)+
qed

lemma info_answered: "wp (handleInfo md ver) (\<lambda>resp _. answered penv w md mp (ver @ ''.info'') resp) w"
  unfolding handleInfo_def
  by (intro wp_first resolveCommit_after wp_intros; (rule refusal_answered)?) (auto simp: answered_def answer_of_def)

lemma mod_answered: "wp (handleMod penv md mp ver) (\<lambda>resp _. answered penv w md mp (ver @ ''.mod'') resp) w"
  unfolding handleMod_def
  by (intro wp_first resolveCommit_after wp_io_pure wp_intros; (rule refusal_answered)?)
    (auto simp: answered_def answer_of_def mod_file_def artifact_missing_def)

lemma zip_answered: "wp (handleZip penv r md mp ver) (\<lambda>resp _. answered penv w md mp (ver @ ''.zip'') resp) w"
proof -
  have arch: "answered penv w md mp (ver @ ''.zip'') \<lparr>hs_Status = 200, hs_Headers = hs,
      hs_Body = Archive ((if ''go.mod'' \<in> set paths then [] else [((mp @ ''@'' @ ver @ ''/'') @ ''go.mod'', syntheticGoMod mp)]) @ fst files) (snd files)\<rparr>"
    if "version_of w md ver c" "backend_ListFiles penv (artifact_prefix c) = Inr paths"
      "(\<forall>(p, content) \<in> set (fst files). \<exists>f \<in> set paths. p = (mp @ ''@'' @ ver @ ''/'') @ f
        \<and> (\<exists>e. backend_GetFile penv (artifact_prefix c @ ''/'' @ f) = Inr (content, e) \<and> (snd files \<longrightarrow> e = None)))
       \<and> (snd files \<longrightarrow> map fst (fst files) = map (\<lambda>f. (mp @ ''@'' @ ver @ ''/'') @ f) paths)" for c paths files hs
    unfolding answered_def answer_of_def
    using that(1) archive_ofI [OF that(2) refl that(3) [THEN conjunct1] that(3) [THEN conjunct2]] by auto
  have cached: "answered penv w md mp (ver @ ''.zip'') \<lparr>hs_Status = 304, hs_Headers = hs, hs_Body = NoBody\<rparr>"
    if "version_of w md ver c" for c hs
    using that by (auto simp: answered_def answer_of_def)
  show ?thesis
    unfolding handleZip_def Let_def
    by (intro wp_first resolveCommit_after wp_io_pure wp_intros wp_conseq [OF stream_files_after];
        (rule refusal_answered; auto; fail)?; (rule cached; assumption)?; (rule arch; assumption)?)
qed

lemma suffix_split: "HasSuffix q sfx \<Longrightarrow> q = trim_suffix q sfx @ sfx"
  by (auto simp: trim_suffix_def CutSuffix_def HasSuffix_def) (metis append_take_drop_id)

lemma query_answered: "wp (serve_query penv r md mp q) (\<lambda>resp _. answered penv w md mp q resp) w"
proof -
  have at: "wp m (\<lambda>resp _. answered penv w md mp q resp) w"
    if "HasSuffix q sfx" "wp m (\<lambda>resp _. answered penv w md mp (trim_suffix q sfx @ sfx) resp) w" for m sfx
    using that suffix_split [OF that(1)] by simp
  show ?thesis
    unfolding serve_query_def
    by (intro wp_if at [OF _ info_answered] at [OF _ mod_answered] at [OF _ zip_answered])
      (auto simp: list_answered latest_answered wp_return refusal_answered)
qed

section \<open>The proxy\<close>

text \<open>C21. A successful response of the Go module proxy is about a module that exists and that the caller,
  anonymous or the account of a live session or API token, may read under the credential's scopes and the
  policy, and it says only what the query asks: the versions an SDK was generated for, or the version, the
  module file or the archive of the one commit of that module which the version names.  The module file is
  the stored \<open>go.mod\<close>, or a synthetic one if the storage reports that none is stored.  An archive has only
  entries stored for that commit, read under its own prefix, and a synthetic \<open>go.mod\<close> if none is listed;
  once closed, it has all of them.  As in \<open>may_read\<close>, a module of any visibility other than \<open>PRIVATE\<close>,
  \<open>UNSPECIFIED\<close> included, is readable by everyone whose token covers reading it.\<close>

theorem proxy_serves_only_readable:
  assumes "cache_coherent w" and "visits (ord_entries env)"
    and "run (ServeHTTP env penv r) w = (resp, w')" and "hs_Status resp \<in> {200, 304}"
  shows "\<exists>modulePath q owner name md. split_path (fst (CutPrefix (hr_Path r) ''/go/'')) = Some (modulePath, q)
    \<and> parseModulePath penv modulePath = Inr (owner, name)
    \<and> module_GetModuleByOwnerAndName (users (dbs w)) owner name (module_table (registry (dbs w))) = Inr md
    \<and> proxy_readable env w r md \<and> answer_of penv w md modulePath q resp"
proof -
  let ?P = "\<lambda>resp _. hs_Status resp \<in> {200, 304} \<longrightarrow> (\<exists>modulePath q owner name md.
    split_path (fst (CutPrefix (hr_Path r) ''/go/'')) = Some (modulePath, q)
    \<and> parseModulePath penv modulePath = Inr (owner, name)
    \<and> module_GetModuleByOwnerAndName (users (dbs w)) owner name (module_table (registry (dbs w))) = Inr md
    \<and> proxy_readable env w r md \<and> answer_of penv w md modulePath q resp)"
  have served: "wp (serve_query penv r md modulePath q) ?P v"
    if "split_path (fst (CutPrefix (hr_Path r) ''/go/'')) = Some (modulePath, q)" "parseModulePath penv modulePath = Inr (owner, name)"
      "module_GetModuleByOwnerAndName (users (dbs w)) owner name (module_table (registry (dbs w))) = Inr md"
      "proxy_readable env w r md" "users (dbs v) = users (dbs w)" "registry (dbs v) = registry (dbs w)" for modulePath q owner name md v
    by (rule wp_conseq [OF query_answered [of penv r md modulePath q v]])
      (use that answered_elsewhere [OF that(5,6)] in \<open>unfold answered_def, blast\<close>)
  have malformed: "wp (case e of NotServed m \<Rightarrow> State_Monad.return (http_Error m 404) | Malformed m \<Rightarrow> State_Monad.return (http_Error m 400)) ?P w" for e
    by (cases e) (simp_all add: wp_return http_Error_def)
  have "wp (ServeHTTP env penv r) ?P w"
    unfolding ServeHTTP_def
    by (intro wp_first wp_intros malformed proxy_authorize_after [OF assms(1,2)]; (clarify, rule served; assumption)?)
      (auto simp: http_Error_def http_NotFound_def)
  from wp_run [OF this assms(3)] assms(4) show ?thesis by blast
qed

section \<open>Corner cases\<close>

text \<open>A version no commit matches is refused as an internal error: the store's error is not one of those
  that carry a code.\<close>

lemma unknown_version_is_internal:
  assumes "hashFromVersion ver = Some h" and "faults w = []"
    and "commit_GetByHashPrefix (users (dbs w)) (module_table (registry (dbs w))) h (commit_table (registry (dbs w))) = Inl ErrNotFound"
  shows "run (proxy_resolveCommit md ver) w = (Inl 500, w)"
  using assms by (simp add: proxy_resolveCommit_def qry_def io_def)

text \<open>Nothing in an escaped value can end the attribute or open a tag.\<close>

lemma attr_escape_closed: "set (attr_escape s) \<inter> {CHR 0x22, CHR 0x27, CHR ''<'', CHR ''>''} = {}"
  by (induction s) (auto simp: attr_escape_def)

definition public_world :: world where
  "public_world = commit_world\<lparr>dbs := reg (\<lambda>rg. rg\<lparr>module_table := [demo_module\<lparr>md_visibility := MODULE_VISIBILITY_PUBLIC\<rparr>],
     job_table := [demo_job\<lparr>jb_commit_id := demo_hex 5, jb_module_id := demo_hex 4, jb_status := Succeeded\<rparr>]\<rparr>) (dbs commit_world)\<rparr>"

definition demo_penv :: penv where
  "demo_penv = \<lparr>authz_wired = True, proxy_host = ''h'', backend_ListFiles = (\<lambda>p. Inr [''m.pb.go'']),
     backend_GetFile = (\<lambda>p. Inr (''package m'', None))\<rparr>"

definition demo_get :: http_request where
  "demo_get = \<lparr>hr_Method = ''GET'', hr_Path = ''/go/h/gen/go/alice/m/@v/v0.0.0-19700101000000-000000000000.zip'', hr_Authorization = [],
     hr_IfNoneMatch = [], hr_go_get = [], hr_TLS = False, hr_ForwardedProto = []\<rparr>"

lemma wp_calm_qry: "faults w = [] \<Longrightarrow> wp (qry f) Q w = Q (f (dbs w)) w"
  by (simp add: wp_def qry_def io_def)

lemma wp_calm_io: "faults w = [] \<Longrightarrow> wp (io (\<lambda>w. (x, w))) Q w = Q x w"
  by (simp add: wp_def io_def)

lemma wp_bind_eq: "wp (State_Monad.bind m k) Q w = wp m (\<lambda>x. wp (k x) Q) w"
  by (simp add: wp_def State_Monad.bind_def split: prod.splits)

lemma wp_return_eq: "wp (State_Monad.return x) Q = Q x"
  by (rule ext) (simp add: wp_def State_Monad.return_def)

lemmas wp_calm = wp_calm_qry wp_calm_io wp_bind_eq wp_return_eq

lemma demo_penv_simps:
  "authz_wired demo_penv" "backend_ListFiles demo_penv = (\<lambda>p. Inr [''m.pb.go''])" "backend_GetFile demo_penv = (\<lambda>p. Inr (''package m'', None))"
  by (simp_all add: demo_penv_def)

lemma demo_path:
  "split_path (fst (CutPrefix (hr_Path demo_get) ''/go/'')) = Some (''h/gen/go/alice/m'', ''v0.0.0-19700101000000-000000000000.zip'')"
  "parseModulePath demo_penv ''h/gen/go/alice/m'' = Inr (''alice'', ''m'')" "credentialFromRequest demo_get = []"
  "hr_Method demo_get = ''GET''" "hr_IfNoneMatch demo_get = []"
  by code_simp+

lemma public_world_simps:
  "faults public_world = []" "users (dbs public_world) = [demo_user]"
  "module_rows public_world = [demo_module\<lparr>md_visibility := MODULE_VISIBILITY_PUBLIC\<rparr>]" "commit_rows public_world = [demo_commit]"
  "job_table (registry (dbs public_world)) = [demo_job\<lparr>jb_commit_id := demo_hex 5, jb_module_id := demo_hex 4, jb_status := Succeeded\<rparr>]"
  by (simp_all add: public_world_def)

definition demo_archive :: "(string \<times> string) list" where
  "demo_archive = [(''h/gen/go/alice/m@v0.0.0-19700101000000-000000000000/go.mod'', syntheticGoMod ''h/gen/go/alice/m''),
     (''h/gen/go/alice/m@v0.0.0-19700101000000-000000000000/m.pb.go'', ''package m'')]"

lemma demo_served:
  "wp (ServeHTTP env demo_penv demo_get) (\<lambda>resp _. hs_Status resp = 200 \<and> hs_Body resp = Archive demo_archive True) public_world"
proof -
  let ?m = "demo_module\<lparr>md_visibility := MODULE_VISIBILITY_PUBLIC\<rparr>"
  let ?j = "demo_job\<lparr>jb_commit_id := demo_hex 5, jb_module_id := demo_hex 4, jb_status := Succeeded\<rparr>"
  let ?md = "scanSQLiteModule ?m"
  obtain c where c: "commit_GetByHashPrefix [demo_user] [?m] ''000000000000'' [demo_commit] = Inr c" "Cm_ModuleId c = Mod_Id ?md"
      "Cm_Id c = Canonical (demo_hex 5)"
  proof -
    have "case commit_GetByHashPrefix [demo_user] [?m] ''000000000000'' [demo_commit] of
        Inl e \<Rightarrow> False | Inr c \<Rightarrow> Cm_ModuleId c = Mod_Id ?md \<and> Cm_Id c = Canonical (demo_hex 5)"
      by code_simp
    then show ?thesis using that by (auto split: sum.splits)
  qed
  have m: "module_GetModuleByOwnerAndName [demo_user] ''alice'' ''m'' [?m] = Inr ?md" by code_simp
  have v: "MODULE_VISIBILITY_PUBLIC \<noteq> MODULE_VISIBILITY_PRIVATE" "scopes_Allow UnrestrictedScopes ResourceModule ActionRead (md_name demo_module)"
    by code_simp+
  have j: "job_GetByCommitAndLang (Canonical (demo_hex 5)) ''go'' [?j] = Some (scanSQLiteJob ?j)" by code_simp
  have q: "HasSuffix ''v0.0.0-19700101000000-000000000000.zip'' ''.zip''" "\<not> HasSuffix ''v0.0.0-19700101000000-000000000000.zip'' ''.info''"
      "\<not> HasSuffix ''v0.0.0-19700101000000-000000000000.zip'' ''.mod''"
      "trim_suffix ''v0.0.0-19700101000000-000000000000.zip'' ''.zip'' = ''v0.0.0-19700101000000-000000000000''"
      "hashFromVersion ''v0.0.0-19700101000000-000000000000'' = Some ''000000000000''"
    by code_simp+
  show ?thesis
    unfolding ServeHTTP_def proxy_authorize_def CheckReadAccess_def serve_query_def handleZip_def proxy_resolveCommit_def Let_def
    by (simp add: demo_path demo_penv_simps wp_calm public_world_simps m v c j q mref_def demo_archive_def)
qed

theorem proxy_serves_only_readable_witness:
  "hs_Body (fst (run (ServeHTTP demo_env demo_penv demo_get) public_world)) = Archive demo_archive True
   \<and> (\<exists>md. proxy_readable demo_env public_world demo_get md
        \<and> answer_of demo_penv public_world md ''h/gen/go/alice/m'' ''v0.0.0-19700101000000-000000000000.zip''
            (fst (run (ServeHTTP demo_env demo_penv demo_get) public_world)))"
proof -
  obtain resp w' where r: "run (ServeHTTP demo_env demo_penv demo_get) public_world = (resp, w')" by fastforce
  from wp_run [OF demo_served r] have s: "hs_Status resp = 200" "hs_Body resp = Archive demo_archive True" by simp_all
  have coh: "cache_coherent public_world"
    using commit_coherent by (simp add: coherent_def' current_bindings_def public_world_def)
  from proxy_serves_only_readable [OF coh demo_visits(1) r] s show ?thesis by (auto simp: r demo_path)
qed

end
