(* ===== verification/Server_Facts.thy ===== *)
theory Server_Facts
  imports Server Proxy_Facts Totp_Facts Token_Facts
begin

text \<open>
  What holds of the server as a whole, over any history: a revoked credential stays out, and the keys of
  the credential tables stay distinct.
\<close>

section \<open>Revoked credentials\<close>

text \<open>A session or access token whose row says it was revoked.\<close>

definition revoked :: "db \<Rightarrow> string \<Rightarrow> bool" where
  "revoked d tok \<longleftrightarrow> HasPrefix tok SessionTokenPrefix \<and> sess_revoked (HashToken tok) (sessions d)
     \<or> HasPrefix tok APITokenPrefix \<and> pat_revoked (HashToken tok) (api_tokens d)"

text \<open>The request carries the credential, in whatever scheme.\<close>

definition presents :: "string \<Rightarrow> request \<Rightarrow> bool" where
  "presents tok req \<longleftrightarrow> (let parts = SplitN (rq_authorization req) (CHR '' '') 2 in length parts = 2 \<and> TrimSpace (parts ! 1) = tok)"

lemma prefixes_exclusive: "HasPrefix tok SessionTokenPrefix \<Longrightarrow> \<not> HasPrefix tok APITokenPrefix"
  by (cases tok; cases "tl tok") (auto simp: HasPrefix_def SessionTokenPrefix_def APITokenPrefix_def)

lemma revoked_not_live:
  "HasPrefix tok SessionTokenPrefix \<Longrightarrow> revoked d tok \<Longrightarrow> \<not> session_live d now tok pr sess u"
  "HasPrefix tok APITokenPrefix \<Longrightarrow> revoked d tok \<Longrightarrow> \<not> token_live d now tok row u"
  using prefixes_exclusive [of tok]
  by (auto simp: revoked_def session_live_def token_live_def sess_GetByTokenHash_revoked pat_GetByTokenHash_revoked)

lemma revoked_stays: "history w h w' \<Longrightarrow> revoked (dbs w) tok \<Longrightarrow> revoked (dbs w') tok"
  using revoked_session.history_keeps [of w h w' "HashToken tok"] revoked_token.history_keeps [of w h w' "HashToken tok"]
  by (auto simp: revoked_def)

lemma SplitN_empty: "SplitN [] c 2 = [[]]"
  by (simp add: numeral_2_eq_2)

lemma wrapUnary_refuses:
  assumes "revoked (dbs w) tok" and "presents tok req" and "rq_procedure req \<notin> set noAuthProcedures"
  shows "wp (wrapUnary env nxt req) (\<lambda>r _. \<exists>e. r = Inl e) w"
proof -
  let ?tok = "TrimSpace (SplitN (rq_authorization req) (CHR '' '') 2 ! 1)"
  have tok: "?tok = tok" and auth: "rq_authorization req \<noteq> []"
    using assms(2) by (auto simp: presents_def Let_def SplitN_empty)
  have s: "wp (authenticateSession env nxt tok pr) (\<lambda>r _. \<exists>e. r = Inl e) v"
    if "HasPrefix tok SessionTokenPrefix" "dbs v = dbs w" for v pr
    unfolding authenticateSession_def
    by (intro wp_first wp_intros wp_conseq [OF resolveSession_sound]) (use that assms(1) revoked_not_live in auto)
  have t: "wp (authenticateAPIToken env nxt tok pr) (\<lambda>r _. \<exists>e. r = Inl e) v"
    if "HasPrefix tok APITokenPrefix" "dbs v = dbs w" for v pr
    unfolding authenticateAPIToken_def
    by (intro wp_first wp_intros wp_conseq [OF resolveAPIToken_sound]) (use that assms(1) revoked_not_live in auto)
  show ?thesis
    unfolding wrapUnary_def Let_def tok
    by (intro wp_if wp_bind wp_conseq [OF limitBearerAttempts_tables] wp_sum) (use assms(3) auth in \<open>auto simp: cache_only_def wp_return_eq intro: s t\<close>)
qed

lemma serve_refuses:
  assumes "revoked (dbs w) tok" and "presents tok req" and "procedure_of c \<notin> set noAuthProcedures"
  shows "wp (serve s req c) (\<lambda>r _. \<exists>e. r = Inl e) w"
proof -
  let ?req = "req\<lparr>rq_procedure := procedure_of c\<rparr>"
  have "presents tok ?req" "rq_procedure ?req \<notin> set noAuthProcedures" using assms(2,3) by (simp_all add: presents_def)
  from wrapUnary_refuses [OF assms(1) this, of "sv_env s" "validated s req c"] show ?thesis
    unfolding serve_def by (intro wp_bind) (erule wp_conseq, auto simp: wp_return_eq)
qed

lemma proxy_refuses:
  assumes "revoked (dbs w) (credentialFromRequest r)"
  shows "wp (ServeHTTP env penv r) (\<lambda>resp _. hs_Status resp \<notin> {200, 304}) w"
proof -
  let ?cred = "credentialFromRequest r"
  have ne: "?cred \<noteq> []" using assms by (auto simp: revoked_def HasPrefix_def SessionTokenPrefix_def APITokenPrefix_def)
  have "wp (UserFromToken env ?cred) (\<lambda>x _. \<exists>e. x = Inl e) w"
  proof (rule wp_conseq [OF UserFromToken_sound])
    fix x w'
    assume *: "\<forall>u sc. x = Inr (u, sc) \<longrightarrow>
      HasPrefix ?cred SessionTokenPrefix \<and> sc = UnrestrictedScopes \<and> (\<exists>sess. session_live (dbs w) (clock w) ?cred externalProcedure sess u)
      \<or> HasPrefix ?cred APITokenPrefix \<and> (\<exists>row. token_live (dbs w) (clock w) ?cred row u \<and> sc = ScopesFromValues (Scopes_t row))"
    show "\<exists>e. x = Inl e"
    proof (cases x)
      case (Inr y)
      with * revoked_not_live [OF _ assms] show ?thesis by (cases y) blast
    qed simp
  qed
  then have auth: "wp (proxy_authorize env penv r owner name) (\<lambda>x _. x = Inl 401 \<or> x = Inl 503) w" for owner name
    unfolding proxy_authorize_def Let_def if_P [OF ne]
    by (intro wp_if wp_bind) (simp add: wp_return_eq, erule wp_conseq, auto simp: wp_return_eq)
  have odd: "wp (case e of NotServed m \<Rightarrow> State_Monad.return (http_Error m 404) | Malformed m \<Rightarrow> State_Monad.return (http_Error m 400))
      (\<lambda>resp _. hs_Status resp \<notin> {200, 304}) w" for e
    by (cases e) (simp_all add: wp_return_eq http_Error_def)
  show ?thesis
    unfolding ServeHTTP_def
    by (intro wp_if wp_option wp_prod wp_sum wp_bind odd wp_conseq [OF auth]) (auto simp: wp_return_eq http_Error_def http_NotFound_def)
qed

fun kept_out :: "string \<Rightarrow> event \<times> outcome \<Rightarrow> bool" where
  "kept_out tok (Rpc s req c, out) \<longleftrightarrow>
     (presents tok req \<and> procedure_of c \<notin> set noAuthProcedures \<longrightarrow> (\<exists>e. out = Replied (Inl e)))"
| "kept_out tok (Proxy env penv r, out) \<longleftrightarrow>
     (credentialFromRequest r = tok \<longrightarrow> (\<exists>resp. out = Answered resp \<and> hs_Status resp \<notin> {200, 304}))"
| "kept_out tok (e, out) \<longleftrightarrow> True"

lemma perform_kept_out:
  assumes "revoked (dbs w) tok"
  shows "wp (perform e) (\<lambda>out _. kept_out tok (e, out)) w"
proof (cases e)
  case (Rpc s req c)
  have "wp (serve s req c) (\<lambda>r _. kept_out tok (Rpc s req c, Replied r)) w"
  proof (cases "presents tok req \<and> procedure_of c \<notin> set noAuthProcedures")
    case True
    with serve_refuses [OF assms, of req c s] show ?thesis by (auto elim!: wp_conseq)
  next
    case False
    then show ?thesis by (auto simp: wp_def split: prod.splits)
  qed
  with Rpc show ?thesis by (simp add: wp_return_eq wp_bind_eq)
next
  case (Proxy env penv r)
  have "wp (ServeHTTP env penv r) (\<lambda>resp _. kept_out tok (Proxy env penv r, Answered resp)) w"
    using proxy_refuses [of w r env penv] assms by (cases "credentialFromRequest r = tok") (auto simp: wp_def split: prod.splits)
  with Proxy show ?thesis by (simp add: wp_return_eq wp_bind_eq)
qed (auto simp: wp_def split: prod.splits)

text \<open>C2. Over any history of requests, proxy requests and jobs, with any clocks, failures and server
  processes: once a session or access token is revoked, every later request that carries it is refused,
  by every procedure outside the list of those that need no credential, and by the Go module proxy.\<close>

theorem revoked_credential_stays_out:
  assumes "history w h w'" and "revoked (dbs w) tok"
  shows "\<forall>x \<in> set h. kept_out tok x"
  using assms
proof (induction rule: history.induct)
  case (event w h v t e fs out v')
  from revoked_stays [OF event.hyps(1) event.prems] have "revoked (dbs (v\<lparr>clock := t, faults := fs\<rparr>)) tok" by simp
  from wp_run [OF perform_kept_out [OF this] event.hyps(3)] event.IH event.prems show ?case by simp
qed simp

definition revoked_world :: world where
  "revoked_world = demo_world\<lparr>dbs := (dbs demo_world)\<lparr>sessions := [demo_session\<lparr>ss_revoked_at := Some 0\<rparr>]\<rparr>\<rparr>"

definition demo_srv :: srv where
  "demo_srv = \<lparr>sv_env = demo_env, sv_renv = demo_renv,
     sv_denv = \<lparr>DiffTree = (\<lambda>a b. Inr []), IsBinary = (\<lambda>f. Inr False), PatchText = (\<lambda>c. Inr [])\<rparr>,
     sv_oenv = demo_oenv, sv_Validate = (\<lambda>c. None)\<rparr>"

definition late_request :: event where
  "late_request = Rpc demo_srv \<lparr>rq_procedure = [], rq_authorization = ''Bearer hds_sess_a'', rq_peer = ''p'', rq_client_ip = ''p''\<rparr>
     (SessionService RListSessions)"

lemma one_event: "\<exists>out w'. history w [(e, out)] w'"
proof -
  obtain out w' where "run (perform e) (w\<lparr>clock := clock w, faults := []\<rparr>) = (out, w')" by fastforce
  from event [OF start order_refl this] show ?thesis by auto
qed

theorem revoked_credential_stays_out_witness:
  "\<exists>out w'. history revoked_world [(late_request, out)] w' \<and> (\<exists>e. out = Replied (Inl e))"
proof -
  obtain out w' where h: "history revoked_world [(late_request, out)] w'" using one_event by blast
  have r: "revoked (dbs revoked_world) ''hds_sess_a''"
    by (simp add: revoked_def revoked_world_def sess_revoked_def demo_session_def HasPrefix_def SessionTokenPrefix_def)
  have p: "presents ''hds_sess_a'' \<lparr>rq_procedure = [], rq_authorization = ''Bearer hds_sess_a'', rq_peer = ''p'', rq_client_ip = ''p''\<rparr>"
    "procedure_of (SessionService RListSessions) \<notin> set noAuthProcedures"
    by code_simp+
  from revoked_credential_stays_out [OF h r] have "kept_out ''hds_sess_a'' (late_request, out)" by simp
  with p h show ?thesis unfolding late_request_def by auto
qed

section \<open>Keys\<close>

text \<open>The keys of the credential tables.\<close>

definition credential_keys :: "db \<Rightarrow> bool" where
  "credential_keys d \<longleftrightarrow> distinct (map ss_id (sessions d)) \<and> pat_keys (api_tokens d)"

interpretation keyed: credential_fact credential_keys
  by unfold_locales (simp_all add: credential_keys_def sess_step_ids pat_step_keys)

text \<open>C34. Over any such history sessions keep distinct identifiers, and access tokens distinct
  identifiers and distinct hashes, so an access token never names two rows.\<close>

theorem credential_keys_kept:
  assumes "history w h w'" and "credential_keys (dbs w)"
  shows "credential_keys (dbs w')"
  using assms by (rule keyed.history_keeps)

theorem credential_keys_kept_witness:
  "\<exists>out w'. history demo_world [(late_request, out)] w' \<and> credential_keys (dbs w')"
proof -
  obtain out w' where h: "history demo_world [(late_request, out)] w'" using one_event by blast
  have "credential_keys (dbs demo_world)" by (simp add: credential_keys_def pat_keys_def)
  from credential_keys_kept [OF h this] h show ?thesis by blast
qed

end
