(* ===== verification/Spec2Isabelle.thy ===== *)
theory Spec2Isabelle
  imports Token_Facts Paths Sdk_Facts Identity_Facts Commit_Facts Server_Facts
begin

text \<open>
  Hades is a schema registry for Protobuf modules that speaks the protocol of the buf CLI.  One Go
  process serves its procedures over Connect, keeps its tables in SQLite or Postgres, the module sources
  in git repositories, and generated SDKs in an artifact store; a worker generates the SDKs and a Go
  module proxy hands them out.  The theories below translate the program into HOL, file by file, and
  prove what its parts promise each other and its users.

  \<^bold>\<open>The parts and how they interact.\<close>  A request enters through the interceptor chain
  (\<open>internal/hades/mux.go\<close>): the authorization interceptor resolves the bearer credential against the
  session and token tables, puts the user and the token's scopes into the request context, and the
  handler runs; what it returns as an error is translated at the boundary.  Handlers ask the
  authorization server, which combines the token's scopes with the policy engine; the engine evaluates the
  Rego policy on role bindings read through a cache.  Handlers read and write tables, several at once
  inside a unit of work, write git repositories by compare-and-swap on the branch head, and record
  pending operations in a log.  A push enqueues SDK jobs; workers claim them, run generators and store
  artifacts; the proxy, mounted beside the chain, authenticates on its own and streams the artifacts.

  \<^bold>\<open>State and effects\<close> (\<open>World\<close>).  \<open>db\<close> is the record of the SQLite tables, each a list of row records in
  rowid order; \<open>world\<close> adds the repositories, the in-memory cache, the clock, the mail sent, the number of
  identifiers and random bytes drawn, and the list of faults the coming external calls will meet.  A handler
  is a value of \<open>(world, 'a) call\<close>, a state monad whose result is \<open>err + 'a\<close>; every early return of the
  source is a branch.  Any external call can fail: theorems that do not assume \<open>faults w = []\<close> hold
  for every placement of failures.  Code outside the repository enters as fields of the records
  \<open>env\<close> (bcrypt, TOTP codes, AES-GCM, randomness, configuration), \<open>renv\<close> (git hashing, SHAKE-256, lint and
  breaking checks, the text of an error), \<open>denv\<close> (tree comparison and patches), \<open>wenv\<close> (generators, artifact upload), \<open>oenv\<close>
  (the OAuth providers) and \<open>penv\<close> (artifact reads); a property that needs one of them to behave states
  it as a hypothesis, and its witness discharges it on the concrete \<open>demo_env\<close> and its companions.  The
  map iteration order of Go is a parameter too.  The Go standard library is modelled where the source
  uses it: strings, paths, JSON, hexadecimal, base64, dates, SHA-256, binary search.  A git tree is
  data (\<open>tree_entry\<close>), and the files of a tree (\<open>tree_Files\<close>) are its meaning, which is what go-git
  documents its walk over a tree to return.

  \<^bold>\<open>Foundations.\<close>
  \<^item> \<open>Hades_Prelude\<close>: the string functions, list lemmas and fact collections all theories share.
  \<^item> \<open>Json\<close>, \<open>Sha256\<close>: \<open>encoding/json\<close> for what is stored, with a parser that terminates on a measure and
    reads back what the encoder writes; \<open>utils/crypto/token.go\<close>'s hash.
  \<^item> \<open>Conn_Err\<close> (\<open>utils/connerr\<close>), \<open>Sql_Util\<close> (\<open>storage/db/sqlutil\<close>), \<open>Names\<close> (\<open>constants\<close>),
    \<open>Paging\<close> (\<open>server/paging.go\<close>), \<open>Paths\<close> (\<open>utils/paths\<close> and the repository-path checks): error
    translation without leaks, identifier spelling, name and scope grammars, pages on 64-bit offsets whose
    tokens end and cover every row, path confinement.
  \<^item> \<open>World\<close>: state, calls, the unit of work (\<open>storage/db/uow.go\<close>), and two ways to reason about a
    handler: weakest preconditions (\<open>wp\<close>) and facts a call keeps (\<open>keeps\<close>, \<open>db_keeps\<close>).

  \<^bold>\<open>Cache and policy.\<close>
  \<^item> \<open>Cache_Spec\<close>, \<open>Mem_Cache\<close> (\<open>cache/memory.go\<close>): the interface as two locales, a store that may forget
    but not lie and a sliding-window limiter; the memory cache interprets both, its sizes stay bounded and
    no window admits more than its limit, and what it returns is the last value stored, while it lives.
  \<^item> \<open>Policy_Engine\<close> (\<open>internal/hades/authorization\<close>): the policy, the cache-backed store and the engine; its
    decisions are those of the policy on the current bindings, grants and revocations take effect at the next
    decision (a superadmin needs no binding).
  \<^item> \<open>Authz_Server\<close> (\<open>server/authorization\<close>): scopes, \<open>Can\<close>, \<open>BatchCan\<close>, \<open>CheckReadAccess\<close>,
    \<open>UserFromToken\<close> and the interceptor, which admits live credentials only.

  \<^bold>\<open>Stores.\<close>
  \<^item> \<open>Store_Spec\<close>: the locales a security argument needs of a table, whatever the order of operations: a fact
    no operation undoes (\<open>latch\<close>) and an operation that succeeds at most once.
  \<^item> \<open>Credential_Stores\<close>, \<open>Factor_Stores\<close>, \<open>Grant_Stores\<close>, \<open>User_Store\<close>, \<open>Registry_Stores\<close>: one definition per
    statement of the SQLite stores under \<open>storage/db\<close>, with constraints and rows affected;
    \<open>Registry_Calls\<close>: the store methods that issue several statements.
  \<^item> \<open>Git_Store\<close>, \<open>Git_Ops\<close>, \<open>Git_Facts\<close> (\<open>storage/git/gogit\<close>): trees, commits, branches and
    the operations on them; nested trees list the files they were built from, in the order git itself
    compares entries in, a branch moves by
    compare-and-swap only, a rollback undoes one's own write.

  \<^bold>\<open>Authentication.\<close>
  \<^item> \<open>Auth_Common\<close>, \<open>Auth_Authn\<close>, \<open>Account_Facts\<close> (\<open>server/auth/authn.go\<close>, \<open>ratelimit.go\<close>): registration, login with
    its lockout, password reset and change.  \<open>Auth_Common\<close> holds the locale \<open>credential_fact\<close>: a fact about
    sessions and tokens that no handler undoes; each handler theory extends it by its own handlers and it is
    interpreted for a revoked session, a revoked token and the keys of both tables.
  \<^item> \<open>Auth_Totp\<close>, \<open>Totp_Facts\<close> (\<open>totp.go\<close>): the second factor; each time step is accepted once.
  \<^item> \<open>Auth_Tokens\<close>, \<open>Token_Facts\<close> (\<open>session.go\<close>, \<open>apitoken.go\<close>, \<open>device.go\<close>, \<open>audit.go\<close>): sessions, access
    tokens, the device flow; a device code is exchanged once, for the account that approved it.
  \<^item> \<open>Auth_OAuth\<close>, \<open>OAuth_Facts\<close> (\<open>oauth.go\<close>): which identity a sign-in is for and which account it reaches.

  \<^bold>\<open>Registry.\<close>
  \<^item> \<open>Module_Server\<close>, \<open>Module_Facts\<close> (\<open>server/module\<close>): lookups show readable modules only (any visibility but
    \<open>PRIVATE\<close> is readable by everyone, as the code has it), a module's rows are created together with its
    repository or not at all, making a module \<open>PUBLIC\<close> needs its own permission, and the visibility
    \<open>UNSPECIFIED\<close> gets past it.
  \<^item> \<open>Upload\<close>, \<open>Upload_Facts\<close> (\<open>server/content/upload.go\<close>, \<open>utils/shake256\<close>): a push writes only the
    modules its references resolve to and needs the permission for the names in them; it publishes exactly
    the pushed files, unless an earlier commit already has them.
  \<^item> \<open>Commit_Server\<close>, \<open>Commit_Facts\<close> (\<open>server/commit\<close>, \<open>server/meta\<close>, \<open>server/content/download.go\<close>,
    \<open>gogit/diff.go\<close>): reading commits, files, differences, checks and contents, within the budget.
  \<^item> \<open>Identity_Server\<close>, \<open>Identity_Facts\<close> (\<open>server/identity\<close>, \<open>server/notification\<close>): accounts, organisations
    and their members.
  \<^item> \<open>Sdk_Jobs\<close>, \<open>Sdk_Facts\<close> (\<open>internal/sdk/worker\<close>, \<open>storage/db/sdkjob\<close>): the queue as a step relation over
    interleaved statements of several workers, with crashes and recovery; no attempt is handed out twice.
  \<^item> \<open>Buf_Adapters\<close> (\<open>server/buf\<close>, \<open>internal/buf/dto\<close>): the services of the buf CLI.
  \<^item> \<open>Go_Proxy\<close>, \<open>Proxy_Facts\<close> (\<open>internal/goproxy\<close>): the module proxy serves readable modules only, and
    archives that hold what was stored for one commit.

  \<^bold>\<open>The whole.\<close>  \<open>Server\<close>, \<open>Server_Facts\<close> (\<open>internal/hades/mux.go\<close>, the generated routing under
  \<open>api/gen\<close>): one datatype per service, the dispatch, the chain around it, and histories of requests,
  proxy requests and jobs; a revoked credential stays out for good, and keys stay unique.

  \<^bold>\<open>Loops and bounds.\<close>  Go loops are structural recursions over the list they range over, or recursions with
  a measure (the JSON parser: the remaining text; binary search: the interval; evictions: the entries
  left).  Where the source bounds a loop by a constant, the recursion counts that constant down
  (\<open>maxListScanBatches\<close>, the attempts at a user code or a free name), and running out is the source's own error.
  Following page tokens is given as much fuel as there are rows, and shown to end within it.  Integers keep Go's width where
  it matters (page offsets, TOTP counters, additions of lines); times are integers of nanoseconds.

  \<^bold>\<open>Granularity.\<close>  A handler runs from its start to its end on one state, with a failure possible
  at every external call.  Interleavings are modelled where the code relies on a guarded statement: the
  job queue (statement by statement), device grants and TOTP steps (operation by operation), and git pushes (the
  compare-and-swap against a head that moved meanwhile).

  \<^bold>\<open>Not modelled.\<close>  The Postgres stores, the Redis cache and the Gitaly backend are second
  implementations of interfaces whose first implementation is modelled; their statements and commands run
  in other systems.  SDK generators, artifact stores, linters, SMTP and the OAuth providers are
  external: parameters here.  Configuration reading, process start and shutdown, migrations, telemetry, request
  logging and the web frontend do not take part in the behaviour of a request beyond the
  parameters they set or what they observe.  Of the generated code the message fields in use, the enum
  values and the routing are modelled, not reflection or clients.  Errors of writing a response to
  the network are not modelled.
\<close>

end
